(* ===== verification/Prelude.thy ===== *)
theory Prelude
  imports Main "HOL-Library.AList" "HOL-Library.Char_ord" "HOL-Library.List_Lexorder"
    "HOL-Library.Multiset" "HOL-Library.Product_Lexorder" "HOL-Library.Signed_Division"
    "HOL-Library.Word"
begin

section \<open>Prelude: Go's data as HOL data\<close>

text \<open>
  What every component shares: Go maps as association lists, Go strings as byte lists with
  the standard-library operations the sources call on them, wrapping 64-bit arithmetic,
  and \<^verbatim>\<open>sort.Slice\<close>/\<^verbatim>\<open>sort.SliceStable\<close> as insertion sort over the comparator that
  the call site passes.

  A Go map is an association list with distinct keys. The order of the list stands for the
  iteration order that Go leaves unspecified: a statement about every list is a statement
  about every iteration order. A read of a missing key yields the zero value
  (\<open>mget zero m k\<close>), as in Go; \<open>map_of m k\<close> is the two-value read \<^verbatim>\<open>v, ok := m[k]\<close>.
  A time is the number of nanoseconds since Go's zero time, so \<^verbatim>\<open>IsZero\<close> is \<open>t = 0\<close>.
\<close>

named_theorems go_string \<open>evaluation of the string helpers\<close>
named_theorems gomap_simps \<open>reads after writes of Go maps\<close>

subsection \<open>Go maps\<close>

type_synonym 'v gomap = "(string \<times> 'v) list"
type_synonym time = int
type_synonym duration = int
type_synonym float64 = "64 word"

definition mget :: "'v \<Rightarrow> 'v gomap \<Rightarrow> string \<Rightarrow> 'v" where
  "mget zero m k = (case map_of m k of None \<Rightarrow> zero | Some v \<Rightarrow> v)"

definition mput :: "string \<Rightarrow> 'v \<Rightarrow> 'v gomap \<Rightarrow> 'v gomap" where
  "mput k v m = AList.update k v m"

definition mdel :: "string \<Rightarrow> 'v gomap \<Rightarrow> 'v gomap" where
  "mdel k m = AList.delete k m"

definition mhas :: "'v gomap \<Rightarrow> string \<Rightarrow> bool" where
  "mhas m k \<longleftrightarrow> map_of m k \<noteq> None"

definition mvals :: "'v gomap \<Rightarrow> 'v list" where
  "mvals m = map snd m"

text \<open>A range loop that stores back under the key it visits.\<close>

definition mmap :: "(string \<Rightarrow> 'v \<Rightarrow> 'v) \<Rightarrow> 'v gomap \<Rightarrow> 'v gomap" where
  "mmap f m = map (\<lambda>(k, v). (k, f k v)) m"

text \<open>A range loop that deletes the entries it visits.\<close>

definition mfilter :: "(string \<Rightarrow> 'v \<Rightarrow> bool) \<Rightarrow> 'v gomap \<Rightarrow> 'v gomap" where
  "mfilter P m = filter (\<lambda>(k, v). P k v) m"

lemma map_of_mput [simp, gomap_simps]: "map_of (mput k v m) = (map_of m)(k \<mapsto> v)"
  by (simp add: mput_def update_conv')

lemma map_of_mdel [simp, gomap_simps]: "map_of (mdel k m) = (map_of m)(k := None)"
  by (simp add: mdel_def delete_conv')

lemma mget_mput [simp, gomap_simps]: "mget z (mput k v m) k' = (if k' = k then v else mget z m k')"
  by (simp add: mget_def)

lemma mget_mdel [simp, gomap_simps]: "mget z (mdel k m) k' = (if k' = k then z else mget z m k')"
  by (simp add: mget_def)

lemma mget_Nil [simp]: "mget z [] k = z"
  by (simp add: mget_def)

lemma mget_SomeD: "map_of m k = Some v \<Longrightarrow> mget z m k = v"
  by (simp add: mget_def)

lemma map_of_mmap [simp, gomap_simps]: "map_of (mmap f m) k = map_option (f k) (map_of m k)"
  by (induction m) (auto simp: mmap_def)

lemma mget_mmap [gomap_simps]:
  "mget z (mmap f m) k = (case map_of m k of None \<Rightarrow> z | Some v \<Rightarrow> f k v)"
  by (simp add: mget_def split: option.splits)

lemma fst_mmap [simp]: "map fst (mmap f m) = map fst m"
  by (induction m) (auto simp: mmap_def)

lemma mmap_id: "(\<And>k v. (k, v) \<in> set m \<Longrightarrow> f k v = v) \<Longrightarrow> mmap f m = m"
  by (induction m) (auto simp: mmap_def)

lemma map_of_mfilter:
  "distinct (map fst m) \<Longrightarrow>
   map_of (mfilter P m) k = (case map_of m k of None \<Rightarrow> None | Some v \<Rightarrow> if P k v then Some v else None)"
proof (induction m)
  case Nil
  then show ?case by (simp add: mfilter_def)
next
  case (Cons e m)
  obtain k' v' where e: "e = (k', v')" by (cases e)
  from Cons.prems e have "map_of m k' = None"
    by (simp add: map_of_eq_None_iff)
  with Cons e show ?case
    by (auto simp: mfilter_def split: option.splits)
qed

lemma set_mvals: "x \<in> set (mvals m) \<longleftrightarrow> (\<exists>k. (k, x) \<in> set m)"
  by (force simp: mvals_def)

lemma mvals_mput_new: "map_of m k = None \<Longrightarrow> mput k v m = m @ [(k, v)]"
  by (induction m) (auto simp: mput_def split: if_splits)

lemma fst_mput: "map fst (mput k v m) = (if k \<in> set (map fst m) then map fst m else map fst m @ [k])"
  by (simp add: mput_def update_keys)

lemma distinct_mput [simp]: "distinct (map fst m) \<Longrightarrow> distinct (map fst (mput k v m))"
  by (simp add: mput_def distinct_update)

lemma distinct_mdel [simp]: "distinct (map fst m) \<Longrightarrow> distinct (map fst (mdel k m))"
  by (simp add: mdel_def distinct_delete)

lemma distinct_mfilter [simp]: "distinct (map fst m) \<Longrightarrow> distinct (map fst (mfilter P m))"
  by (induction m) (auto simp: mfilter_def)

text \<open>
  The tables of the manager store a record under its own identifier. \<open>keyed\<close> is that
  invariant, and the lemmas below are all that the components need about it.
\<close>

definition keyed :: "('v \<Rightarrow> string) \<Rightarrow> 'v gomap \<Rightarrow> bool" where
  "keyed key m \<longleftrightarrow> distinct (map fst m) \<and> list_all (\<lambda>(k, v). key v = k) m"

lemma keyed_Nil [simp]: "keyed key []"
  by (simp add: keyed_def)

lemma keyed_distinct: "keyed key m \<Longrightarrow> distinct (map fst m)"
  by (simp add: keyed_def)

lemma keyed_lookup: "keyed key m \<Longrightarrow> map_of m k = Some v \<Longrightarrow> key v = k"
  by (auto simp: keyed_def list_all_iff dest: map_of_SomeD)

lemma keyed_iff:
  "keyed key m \<longleftrightarrow> distinct (map fst m) \<and> (\<forall>k v. map_of m k = Some v \<longrightarrow> key v = k)"
  by (auto simp: keyed_def list_all_iff dest: map_of_SomeD)

lemma keyed_mput [intro]: "keyed key m \<Longrightarrow> key v = k \<Longrightarrow> keyed key (mput k v m)"
  by (auto simp: keyed_iff)

lemma keyed_mdel [intro]: "keyed key m \<Longrightarrow> keyed key (mdel k m)"
  by (auto simp: keyed_iff split: if_splits)

lemma keyed_mfilter [intro]: "keyed key m \<Longrightarrow> keyed key (mfilter P m)"
  by (auto simp: keyed_def list_all_iff mfilter_def intro: distinct_mfilter [unfolded mfilter_def])

lemma keyed_mmap [intro]:
  assumes "keyed key m" and "\<And>k v. map_of m k = Some v \<Longrightarrow> key (f k v) = key v"
  shows "keyed key (mmap f m)"
  using assms by (auto simp: keyed_iff)

lemma keyed_mvals: "keyed key m \<Longrightarrow> v \<in> set (mvals m) \<longleftrightarrow> map_of m (key v) = Some v"
  by (auto simp: keyed_def list_all_iff set_mvals dest: map_of_SomeD)

lemma keyed_mvals_key: "keyed key m \<Longrightarrow> map key (mvals m) = map fst m"
  by (induction m) (auto simp: keyed_def mvals_def)

subsection \<open>64-bit integers\<close>

text \<open>
  Go's \<^verbatim>\<open>int64\<close> (and \<^verbatim>\<open>int\<close> on the supported targets) is kept as an \<open>int\<close> in range; where
  a sum of operator- or worker-supplied amounts can leave the range, the result is wrapped.
\<close>

definition wrap64 :: "int \<Rightarrow> int" where
  "wrap64 x = (x + 2 ^ 63) mod 2 ^ 64 - 2 ^ 63"

definition in64 :: "int \<Rightarrow> bool" where
  "in64 x \<longleftrightarrow> - (2 ^ 63) \<le> x \<and> x < 2 ^ 63"

lemma wrap64_in64 [simp]: "in64 (wrap64 x)"
  by (simp add: in64_def wrap64_def)

lemma wrap64_id: "in64 x \<Longrightarrow> wrap64 x = x"
  by (simp add: in64_def wrap64_def)

lemma wrap64_cong: "(wrap64 x) mod 2 ^ 64 = x mod 2 ^ 64"
  by (simp add: wrap64_def mod_diff_left_eq)

lemma wrap64_eq_iff: "wrap64 x = wrap64 y \<longleftrightarrow> x mod 2 ^ 64 = y mod 2 ^ 64"
proof
  assume "wrap64 x = wrap64 y"
  then have "wrap64 x mod 2 ^ 64 = wrap64 y mod 2 ^ 64"
    by simp
  then show "x mod 2 ^ 64 = y mod 2 ^ 64"
    by (simp only: wrap64_cong)
next
  assume "x mod 2 ^ 64 = y mod 2 ^ 64"
  then have "(x + 2 ^ 63) mod 2 ^ 64 = (y + 2 ^ 63) mod 2 ^ 64"
    by (metis mod_add_left_eq)
  then show "wrap64 x = wrap64 y"
    by (simp add: wrap64_def)
qed

lemma wrap64_add_left: "wrap64 (wrap64 x + y) = wrap64 (x + y)"
  unfolding wrap64_eq_iff by (metis mod_add_left_eq wrap64_cong)

lemma wrap64_diff_left: "wrap64 (wrap64 x - y) = wrap64 (x - y)"
  unfolding wrap64_eq_iff by (metis mod_diff_left_eq wrap64_cong)


subsection \<open>Strings\<close>

text \<open>
  A Go string is its bytes. \<^verbatim>\<open>strings.ToLower\<close> and \<^verbatim>\<open>strings.TrimSpace\<close> are given on ASCII:
  a byte of a multi-byte UTF-8 sequence is neither folded nor trimmed.
\<close>

definition is_space :: "char \<Rightarrow> bool" where
  "is_space c \<longleftrightarrow> (let n = (of_char c :: nat) in n = 32 \<or> 9 \<le> n \<and> n \<le> 13)"

definition lower_char :: "char \<Rightarrow> char" where
  "lower_char c = (let n = (of_char c :: nat) in if 65 \<le> n \<and> n \<le> 90 then char_of (n + 32) else c)"

definition ToLower :: "string \<Rightarrow> string" where
  "ToLower s = map lower_char s"

definition TrimSpace :: "string \<Rightarrow> string" where
  "TrimSpace s = rev (dropWhile is_space (rev (dropWhile is_space s)))"

definition HasPrefix :: "string \<Rightarrow> string \<Rightarrow> bool" where
  "HasPrefix s p \<longleftrightarrow> take (length p) s = p"

text \<open>\<^verbatim>\<open>strings.Contains(s, sub)\<close>: some suffix of \<open>s\<close> starts with \<open>sub\<close>.\<close>

fun ContainsSub :: "string \<Rightarrow> string \<Rightarrow> bool" where
  "ContainsSub [] sub \<longleftrightarrow> sub = []"
| "ContainsSub (c # cs) sub \<longleftrightarrow> HasPrefix (c # cs) sub \<or> ContainsSub cs sub"

fun Join :: "string list \<Rightarrow> string \<Rightarrow> string" where
  "Join [] sep = []"
| "Join [x] sep = x"
| "Join (x # y # ys) sep = x @ sep @ Join (y # ys) sep"

text \<open>\<^verbatim>\<open>strings.NewReplacer("/", "_", ":", "_").Replace\<close>\<close>

definition ReplaceSeparators :: "string \<Rightarrow> string" where
  "ReplaceSeparators s = map (\<lambda>c. if c = CHR ''/'' \<or> c = CHR '':'' then CHR ''_'' else c) s"

text \<open>\<^verbatim>\<open>fmt.Sprintf("%d", n)\<close> for a count.\<close>

fun show_nat :: "nat \<Rightarrow> string" where
  "show_nat n = (if n < 10 then [char_of (48 + n)] else show_nat (n div 10) @ [char_of (48 + n mod 10)])"

declare show_nat.simps [simp del]

definition show_int :: "int \<Rightarrow> string" where
  "show_int i = (if i < 0 then CHR ''-'' # show_nat (nat (- i)) else show_nat (nat i))"

lemma lower_char_idem [simp]: "lower_char (lower_char c) = lower_char c"
proof -
  have "of_char (char_of (of_char c + 32 :: nat)) = (of_char c + 32 :: nat)"
    if "(of_char c :: nat) \<le> 90"
    using that by simp
  then show ?thesis
    by (auto simp: lower_char_def Let_def)
qed

lemma ToLower_Nil [simp]: "ToLower [] = []"
  by (simp add: ToLower_def)

lemma ToLower_idem [simp]: "ToLower (ToLower s) = ToLower s"
  by (simp add: ToLower_def)

lemma is_space_lower [simp]: "is_space (lower_char c) = is_space c"
  by (auto simp: is_space_def lower_char_def Let_def)

lemma ToLower_TrimSpace: "ToLower (TrimSpace s) = TrimSpace (ToLower s)"
  by (simp add: ToLower_def TrimSpace_def dropWhile_map rev_map o_def)

lemma dropWhile_fixed: "(xs = [] \<or> \<not> P (hd xs)) \<Longrightarrow> dropWhile P xs = xs"
  by (cases xs) auto

lemma TrimSpace_ends:
  "TrimSpace s = [] \<or> \<not> is_space (hd (TrimSpace s)) \<and> \<not> is_space (last (TrimSpace s))"
proof -
  define t where "t = dropWhile is_space s"
  define u where "u = dropWhile is_space (rev t)"
  have tu: "TrimSpace s = rev u"
    by (simp add: TrimSpace_def t_def u_def)
  show ?thesis
  proof (cases "u = []")
    case True
    then show ?thesis by (simp add: tu)
  next
    case False
    have lst: "\<not> is_space (hd u)"
      using False hd_dropWhile [of is_space "rev t"] by (simp add: u_def)
    obtain w where w: "rev t = w @ u"
      unfolding u_def by (metis takeWhile_dropWhile_id)
    then have "t = rev u @ rev w"
      by (metis rev_append rev_rev_ident)
    with False have "hd t = hd (rev u)" and "t \<noteq> []"
      by auto
    then have "\<not> is_space (hd (rev u))"
      using hd_dropWhile [of is_space s] by (simp add: t_def)
    with lst show ?thesis
      by (simp add: tu last_rev)
  qed
qed

lemma TrimSpace_fixed:
  "s = [] \<or> \<not> is_space (hd s) \<and> \<not> is_space (last s) \<Longrightarrow> TrimSpace s = s"
  by (auto simp: TrimSpace_def dropWhile_fixed hd_rev)

lemma TrimSpace_idem [simp]: "TrimSpace (TrimSpace s) = TrimSpace s"
  using TrimSpace_ends TrimSpace_fixed by blast

subsection \<open>util.go\<close>

definition Contains :: "string list \<Rightarrow> string \<Rightarrow> bool" where
  "Contains list v \<longleftrightarrow> list_ex (\<lambda>item. item = v) list"

definition HasAll :: "string list \<Rightarrow> string list \<Rightarrow> bool" where
  "HasAll list required \<longleftrightarrow> list_all (\<lambda>req. Contains list req) required"

definition NormalizeSHA256 :: "string \<Rightarrow> string" where
  "NormalizeSHA256 s =
     (let s' = TrimSpace (ToLower s) in
      if s' = [] then []
      else if HasPrefix s' ''sha256:'' then s'
      else ''sha256:'' @ s')"

lemma Contains_iff [simp]: "Contains list v \<longleftrightarrow> v \<in> set list"
  by (auto simp: Contains_def list_ex_iff)

lemma HasAll_iff [simp]: "HasAll list required \<longleftrightarrow> set required \<subseteq> set list"
  by (auto simp: HasAll_def list_all_iff)

lemma NormalizeSHA256_empty [simp]: "NormalizeSHA256 [] = []"
  by (simp add: NormalizeSHA256_def ToLower_def TrimSpace_def)

lemma NormalizeSHA256_fixed:
  assumes "ToLower s = s" and "s = [] \<or> \<not> is_space (last s)" and "s = [] \<or> HasPrefix s ''sha256:''"
  shows "NormalizeSHA256 s = s"
proof (cases "s = []")
  case False
  with assms obtain r where r: "s = ''sha256:'' @ r"
    by (metis HasPrefix_def append_take_drop_id)
  then have "\<not> is_space (hd s)"
    by (simp add: is_space_def)
  with assms False have "TrimSpace s = s"
    by (simp add: TrimSpace_fixed)
  with assms False show ?thesis
    by (simp add: NormalizeSHA256_def)
qed simp

lemma NormalizeSHA256_normal:
  "NormalizeSHA256 s = [] \<or>
   HasPrefix (NormalizeSHA256 s) ''sha256:'' \<and> ToLower (NormalizeSHA256 s) = NormalizeSHA256 s \<and>
   \<not> is_space (last (NormalizeSHA256 s))"
proof -
  define t where "t = TrimSpace (ToLower s)"
  have low: "ToLower t = t"
    by (simp add: t_def ToLower_TrimSpace)
  have lst: "t = [] \<or> \<not> is_space (last t)"
    using TrimSpace_ends [of "ToLower s"] by (auto simp: t_def)
  have pre: "ToLower ''sha256:'' = ''sha256:''"
    by (simp add: ToLower_def lower_char_def)
  have app: "ToLower (''sha256:'' @ t) = ''sha256:'' @ t"
    using low pre by (simp add: ToLower_def)
  have "NormalizeSHA256 s = (if t = [] then [] else if HasPrefix t ''sha256:'' then t else ''sha256:'' @ t)"
    by (simp add: NormalizeSHA256_def t_def)
  with low lst app show ?thesis
    by (auto simp: HasPrefix_def)
qed

lemma NormalizeSHA256_idem [simp]: "NormalizeSHA256 (NormalizeSHA256 s) = NormalizeSHA256 s"
  using NormalizeSHA256_normal [of s] by (auto intro!: NormalizeSHA256_fixed)

subsection \<open>First non-zero value, duplicate-free appends\<close>

fun firstNonEmpty :: "string list \<Rightarrow> string" where
  "firstNonEmpty [] = []"
| "firstNonEmpty (v # vs) = (if v \<noteq> [] then v else firstNonEmpty vs)"

fun firstNonZero :: "int list \<Rightarrow> int" where
  "firstNonZero [] = 0"
| "firstNonZero (v # vs) = (if v \<noteq> 0 then v else firstNonZero vs)"

definition appendUnique :: "string list \<Rightarrow> string \<Rightarrow> string list" where
  "appendUnique items item = (if item = [] \<or> Contains items item then items else items @ [item])"

fun unique_loop :: "string list \<Rightarrow> string list \<Rightarrow> string list" where
  "unique_loop out [] = out"
| "unique_loop out (item # items) =
     unique_loop (if item = [] \<or> Contains out item then out else out @ [item]) items"

definition uniqueSorted :: "string list \<Rightarrow> string list" where
  "uniqueSorted items = sort (unique_loop [] items)"

lemma set_appendUnique: "set (appendUnique items item) = set items \<union> ({item} - {[]})"
  by (auto simp: appendUnique_def)

lemma distinct_appendUnique: "distinct items \<Longrightarrow> distinct (appendUnique items item)"
  by (auto simp: appendUnique_def)

lemma set_unique_loop: "set (unique_loop out items) = set out \<union> (set items - {[]})"
  by (induction items arbitrary: out) auto

lemma distinct_unique_loop: "distinct out \<Longrightarrow> distinct (unique_loop out items)"
  by (induction items arbitrary: out) auto

lemma set_uniqueSorted [simp]: "set (uniqueSorted items) = set items - {[]}"
  by (simp add: uniqueSorted_def set_unique_loop)

lemma uniqueSorted_sorted: "sorted (uniqueSorted items)" and
  uniqueSorted_distinct: "distinct (uniqueSorted items)"
  by (simp_all add: uniqueSorted_def distinct_unique_loop)

lemma uniqueSorted_Nil_iff: "uniqueSorted items = [] \<longleftrightarrow> set items \<subseteq> {[]}"
  by (metis Diff_eq_empty_iff set_empty set_uniqueSorted)

subsection \<open>Sorting by a comparator\<close>

text \<open>
  \<^verbatim>\<open>sort.SliceStable(xs, less)\<close>. \<^verbatim>\<open>sort.Slice\<close> is not stable; what it does with elements that
  the comparator does not separate is unspecified, and since the sources sort what a range
  over a map produced, the unspecified order of that range covers it: the stable sort of
  every order of the input.
\<close>

fun insert_by :: "('a \<Rightarrow> 'a \<Rightarrow> bool) \<Rightarrow> 'a \<Rightarrow> 'a list \<Rightarrow> 'a list" where
  "insert_by lt x [] = [x]"
| "insert_by lt x (y # ys) = (if lt y x then y # insert_by lt x ys else x # y # ys)"

definition sort_by :: "('a \<Rightarrow> 'a \<Rightarrow> bool) \<Rightarrow> 'a list \<Rightarrow> 'a list" where
  "sort_by lt xs = foldr (insert_by lt) xs []"

lemma mset_insert_by [simp]: "mset (insert_by lt x xs) = add_mset x (mset xs)"
  by (induction xs) auto

lemma mset_sort_by [simp]: "mset (sort_by lt xs) = mset xs"
  by (induction xs) (auto simp: sort_by_def)

lemma set_sort_by [simp]: "set (sort_by lt xs) = set xs"
  by (metis mset_sort_by set_mset_mset)

lemma length_sort_by [simp]: "length (sort_by lt xs) = length xs"
  by (metis mset_sort_by size_mset)

lemma set_insert_by [simp]: "set (insert_by lt x xs) = insert x (set xs)"
  by (induction xs) auto

lemma sort_by_Nil [simp]: "sort_by lt [] = []"
  by (simp add: sort_by_def)

lemma sort_by_Cons [simp]: "sort_by lt (x # xs) = insert_by lt x (sort_by lt xs)"
  by (simp add: sort_by_def)

lemma length_filter_mset: "length (filter P xs) = size (filter_mset P (mset xs))"
  by (metis mset_filter size_mset)

text \<open>The contract a comparator owes \<^verbatim>\<open>sort.Slice\<close>: a strict weak order.\<close>

locale weak_order =
  fixes lt :: "'a \<Rightarrow> 'a \<Rightarrow> bool"
  assumes asym: "lt x y \<Longrightarrow> \<not> lt y x"
    and ntrans: "\<not> lt x y \<Longrightarrow> \<not> lt y z \<Longrightarrow> \<not> lt x z"
begin

lemma sorted_insert_by:
  "sorted_wrt (\<lambda>x y. \<not> lt y x) xs \<Longrightarrow> sorted_wrt (\<lambda>x y. \<not> lt y x) (insert_by lt x xs)"
  by (induction xs) (auto dest: asym ntrans)

lemma sorted_sort_by: "sorted_wrt (\<lambda>x y. \<not> lt y x) (sort_by lt xs)"
  by (induction xs) (auto intro: sorted_insert_by)

text \<open>The head of the sorted list is minimal: no element comes strictly before it.\<close>

lemma hd_minimal:
  assumes "sort_by lt xs = y # ys" and "x \<in> set xs"
  shows "\<not> lt x y"
proof -
  have "x \<in> set (y # ys)"
    using assms by (metis set_sort_by)
  moreover have "sorted_wrt (\<lambda>x y. \<not> lt y x) (y # ys)"
    using sorted_sort_by [of xs] assms(1) by simp
  ultimately show ?thesis
    by (auto dest: asym)
qed

text \<open>Elements that the comparator does not separate keep their order.\<close>

lemma filter_insert_by:
  assumes "sorted_wrt (\<lambda>x y. \<not> lt y x) ys"
  shows "filter (\<lambda>y. \<not> lt y z \<and> \<not> lt z y) (insert_by lt x ys) =
    filter (\<lambda>y. \<not> lt y z \<and> \<not> lt z y) (x # ys)"
  using assms
proof (induction ys)
  case Nil
  then show ?case by simp
next
  case (Cons y ys)
  show ?case
  proof (cases "lt y x")
    case True
    then have "\<not> (\<not> lt x z \<and> \<not> lt z x \<and> \<not> lt y z \<and> \<not> lt z y)"
      using ntrans by blast
    with Cons True show ?thesis by auto
  qed simp
qed

lemma sort_by_stable:
  "filter (\<lambda>y. \<not> lt y z \<and> \<not> lt z y) (sort_by lt xs) =
   filter (\<lambda>y. \<not> lt y z \<and> \<not> lt z y) xs"
proof (induction xs)
  case (Cons x xs)
  then show ?case
    using filter_insert_by [OF sorted_sort_by, of z x xs] by (auto split: if_splits)
qed simp

end

text \<open>A comparator that compares a linearly ordered key meets the contract.\<close>

locale key_order =
  fixes lt :: "'a \<Rightarrow> 'a \<Rightarrow> bool" and key :: "'a \<Rightarrow> 'b::linorder"
  assumes less_key: "lt x y \<longleftrightarrow> key x < key y"
begin

lemma insert_by_insort: "insert_by lt x xs = insort_key key x xs"
  by (induction xs) (auto simp: less_key not_le)

lemma sort_by_sort_key: "sort_by lt xs = sort_key key xs"
  by (induction xs) (auto simp: insert_by_insort)

text \<open>
  The result does not depend on the order in which the elements arrive when the key
  separates them.
\<close>

lemma sort_by_perm:
  assumes "mset xs = mset ys" and "inj_on key (set xs)"
  shows "sort_by lt xs = sort_by lt ys"
  using assms by (simp add: sort_by_sort_key sort_key_inj_key_eq [where ys = "sort_key key ys"])

end

sublocale key_order \<subseteq> weak_order lt
  by unfold_locales (auto simp: less_key)

end
