(* ===== verification/Types.thy ===== *)
theory Types
  imports Prelude
begin

section \<open>The data model (types.go, store.go)\<close>

text \<open>
  The string constants and the structs of \<^verbatim>\<open>internal/comrad/types.go\<close>, the status condition
  of \<^verbatim>\<open>admin_state_kserve_types.go\<close>, the manager's configuration of \<^verbatim>\<open>manager.go\<close> and the
  database of \<^verbatim>\<open>store.go\<close>. A struct is a record whose fields carry a prefix for the struct
  (\<^verbatim>\<open>node.LastSeen\<close> is \<open>Node_LastSeen node\<close>); a pointer is an \<open>option\<close>, with \<open>None\<close> for
  \<^verbatim>\<open>nil\<close>; a slice is a list, with \<open>[]\<close> for \<^verbatim>\<open>nil\<close> as well; \<^verbatim>\<open>float64\<close> values, which are only
  copied, are their bit patterns. \<open>zero_T\<close> is the zero value of \<^verbatim>\<open>T\<close>, what a read of a missing
  map key yields. Statuses stay strings, because workers send them over the wire: nothing in
  the data model keeps a worker from sending a status outside the constants.
\<close>

subsection \<open>Constants\<close>

definition TargetDarwinArm64Metal :: string where
  "TargetDarwinArm64Metal = ''darwin-arm64-metal''"

definition NodeStateExpected :: string where
  "NodeStateExpected = ''expected''"

definition NodeStateRegistered :: string where
  "NodeStateRegistered = ''registered''"

definition NodeStateOnline :: string where
  "NodeStateOnline = ''online''"

definition NodeStateOffline :: string where
  "NodeStateOffline = ''offline''"

definition NodeStateDisabled :: string where
  "NodeStateDisabled = ''disabled''"

definition NodeStateError :: string where
  "NodeStateError = ''error''"

definition SlotStateUnavailable :: string where
  "SlotStateUnavailable = ''unavailable''"

definition SlotStateIdle :: string where
  "SlotStateIdle = ''idle''"

definition SlotStateDownloadQueued :: string where
  "SlotStateDownloadQueued = ''download_queued''"

definition SlotStateDownloading :: string where
  "SlotStateDownloading = ''downloading_artifact''"

definition SlotStateCached :: string where
  "SlotStateCached = ''cached''"

definition SlotStateLoading :: string where
  "SlotStateLoading = ''loading_runtime''"

definition SlotStateWarming :: string where
  "SlotStateWarming = ''warming''"

definition SlotStateReady :: string where
  "SlotStateReady = ''ready''"

definition SlotStateServing :: string where
  "SlotStateServing = ''serving''"

definition SlotStateError :: string where
  "SlotStateError = ''error''"

definition TaskStatusQueued :: string where
  "TaskStatusQueued = ''queued''"

definition TaskStatusRunning :: string where
  "TaskStatusRunning = ''running''"

definition TaskStatusCompleted :: string where
  "TaskStatusCompleted = ''completed''"

definition TaskStatusFailed :: string where
  "TaskStatusFailed = ''failed''"

definition TaskStatusCancelled :: string where
  "TaskStatusCancelled = ''cancelled''"

definition FailureNoCapacity :: string where
  "FailureNoCapacity = ''no_capacity''"

definition FailureUnknownRequirements :: string where
  "FailureUnknownRequirements = ''unknown_requirements''"

definition FailureTargetUnsupported :: string where
  "FailureTargetUnsupported = ''target_unsupported''"

definition FailureRuntimeAdapterMissing :: string where
  "FailureRuntimeAdapterMissing = ''runtime_adapter_missing''"

definition FailureResourceExhaustedRAM :: string where
  "FailureResourceExhaustedRAM = ''resource_exhausted_ram''"

definition FailureResourceExhaustedVRAM :: string where
  "FailureResourceExhaustedVRAM = ''resource_exhausted_vram''"

definition FailureResourceExhaustedDisk :: string where
  "FailureResourceExhaustedDisk = ''resource_exhausted_disk''"

definition FailureAdmissionCheckFailed :: string where
  "FailureAdmissionCheckFailed = ''admission_check_failed''"

definition FailureArtifactDigestMismatch :: string where
  "FailureArtifactDigestMismatch = ''artifact_digest_mismatch''"

definition FailureCancelledByClient :: string where
  "FailureCancelledByClient = ''cancelled_by_client''"

definition FailureWorkerDisconnected :: string where
  "FailureWorkerDisconnected = ''worker_disconnected''"

definition FailureRuntimeError :: string where
  "FailureRuntimeError = ''runtime_error''"

definition FailureFirstOutputTimeout :: string where
  "FailureFirstOutputTimeout = ''first_output_timeout''"

definition FailureLeaseExpired :: string where
  "FailureLeaseExpired = ''lease_expired''"

definition FailureQuarantined :: string where
  "FailureQuarantined = ''quarantined''"

definition FailureWorkerFlapping :: string where
  "FailureWorkerFlapping = ''worker_flapping''"

definition APIKeyStatusActive :: string where
  "APIKeyStatusActive = ''active''"

definition APIKeyStatusRevoked :: string where
  "APIKeyStatusRevoked = ''revoked''"

definition LedgerConsumeCompute :: string where
  "LedgerConsumeCompute = ''consume_compute''"

definition LedgerProduceCompute :: string where
  "LedgerProduceCompute = ''produce_compute''"

definition LedgerAdminAdjustment :: string where
  "LedgerAdminAdjustment = ''admin_adjustment''"

definition LedgerPurchaseCompute :: string where
  "LedgerPurchaseCompute = ''purchase_compute''"

definition LedgerDebit :: string where
  "LedgerDebit = ''debit''"

definition LedgerCredit :: string where
  "LedgerCredit = ''credit''"

lemmas node_state_defs = NodeStateExpected_def NodeStateRegistered_def NodeStateOnline_def NodeStateOffline_def NodeStateDisabled_def NodeStateError_def

lemma node_state_nonempty [simp]:
  "NodeStateExpected \<noteq> []" "[] \<noteq> NodeStateExpected"
  "NodeStateRegistered \<noteq> []" "[] \<noteq> NodeStateRegistered"
  "NodeStateOnline \<noteq> []" "[] \<noteq> NodeStateOnline"
  "NodeStateOffline \<noteq> []" "[] \<noteq> NodeStateOffline"
  "NodeStateDisabled \<noteq> []" "[] \<noteq> NodeStateDisabled"
  "NodeStateError \<noteq> []" "[] \<noteq> NodeStateError"
  by (simp_all add: node_state_defs)

lemma node_state_distinct [simp]:
  "NodeStateExpected \<noteq> NodeStateRegistered"
  "NodeStateExpected \<noteq> NodeStateOnline"
  "NodeStateExpected \<noteq> NodeStateOffline"
  "NodeStateExpected \<noteq> NodeStateDisabled"
  "NodeStateExpected \<noteq> NodeStateError"
  "NodeStateRegistered \<noteq> NodeStateExpected"
  "NodeStateRegistered \<noteq> NodeStateOnline"
  "NodeStateRegistered \<noteq> NodeStateOffline"
  "NodeStateRegistered \<noteq> NodeStateDisabled"
  "NodeStateRegistered \<noteq> NodeStateError"
  "NodeStateOnline \<noteq> NodeStateExpected"
  "NodeStateOnline \<noteq> NodeStateRegistered"
  "NodeStateOnline \<noteq> NodeStateOffline"
  "NodeStateOnline \<noteq> NodeStateDisabled"
  "NodeStateOnline \<noteq> NodeStateError"
  "NodeStateOffline \<noteq> NodeStateExpected"
  "NodeStateOffline \<noteq> NodeStateRegistered"
  "NodeStateOffline \<noteq> NodeStateOnline"
  "NodeStateOffline \<noteq> NodeStateDisabled"
  "NodeStateOffline \<noteq> NodeStateError"
  "NodeStateDisabled \<noteq> NodeStateExpected"
  "NodeStateDisabled \<noteq> NodeStateRegistered"
  "NodeStateDisabled \<noteq> NodeStateOnline"
  "NodeStateDisabled \<noteq> NodeStateOffline"
  "NodeStateDisabled \<noteq> NodeStateError"
  "NodeStateError \<noteq> NodeStateExpected"
  "NodeStateError \<noteq> NodeStateRegistered"
  "NodeStateError \<noteq> NodeStateOnline"
  "NodeStateError \<noteq> NodeStateOffline"
  "NodeStateError \<noteq> NodeStateDisabled"
  by (simp_all add: node_state_defs)

lemmas slot_state_defs = SlotStateUnavailable_def SlotStateIdle_def SlotStateDownloadQueued_def SlotStateDownloading_def SlotStateCached_def SlotStateLoading_def SlotStateWarming_def SlotStateReady_def SlotStateServing_def SlotStateError_def

lemma slot_state_nonempty [simp]:
  "SlotStateUnavailable \<noteq> []" "[] \<noteq> SlotStateUnavailable"
  "SlotStateIdle \<noteq> []" "[] \<noteq> SlotStateIdle"
  "SlotStateDownloadQueued \<noteq> []" "[] \<noteq> SlotStateDownloadQueued"
  "SlotStateDownloading \<noteq> []" "[] \<noteq> SlotStateDownloading"
  "SlotStateCached \<noteq> []" "[] \<noteq> SlotStateCached"
  "SlotStateLoading \<noteq> []" "[] \<noteq> SlotStateLoading"
  "SlotStateWarming \<noteq> []" "[] \<noteq> SlotStateWarming"
  "SlotStateReady \<noteq> []" "[] \<noteq> SlotStateReady"
  "SlotStateServing \<noteq> []" "[] \<noteq> SlotStateServing"
  "SlotStateError \<noteq> []" "[] \<noteq> SlotStateError"
  by (simp_all add: slot_state_defs)

lemma slot_state_distinct [simp]:
  "SlotStateUnavailable \<noteq> SlotStateIdle"
  "SlotStateUnavailable \<noteq> SlotStateDownloadQueued"
  "SlotStateUnavailable \<noteq> SlotStateDownloading"
  "SlotStateUnavailable \<noteq> SlotStateCached"
  "SlotStateUnavailable \<noteq> SlotStateLoading"
  "SlotStateUnavailable \<noteq> SlotStateWarming"
  "SlotStateUnavailable \<noteq> SlotStateReady"
  "SlotStateUnavailable \<noteq> SlotStateServing"
  "SlotStateUnavailable \<noteq> SlotStateError"
  "SlotStateIdle \<noteq> SlotStateUnavailable"
  "SlotStateIdle \<noteq> SlotStateDownloadQueued"
  "SlotStateIdle \<noteq> SlotStateDownloading"
  "SlotStateIdle \<noteq> SlotStateCached"
  "SlotStateIdle \<noteq> SlotStateLoading"
  "SlotStateIdle \<noteq> SlotStateWarming"
  "SlotStateIdle \<noteq> SlotStateReady"
  "SlotStateIdle \<noteq> SlotStateServing"
  "SlotStateIdle \<noteq> SlotStateError"
  "SlotStateDownloadQueued \<noteq> SlotStateUnavailable"
  "SlotStateDownloadQueued \<noteq> SlotStateIdle"
  "SlotStateDownloadQueued \<noteq> SlotStateDownloading"
  "SlotStateDownloadQueued \<noteq> SlotStateCached"
  "SlotStateDownloadQueued \<noteq> SlotStateLoading"
  "SlotStateDownloadQueued \<noteq> SlotStateWarming"
  "SlotStateDownloadQueued \<noteq> SlotStateReady"
  "SlotStateDownloadQueued \<noteq> SlotStateServing"
  "SlotStateDownloadQueued \<noteq> SlotStateError"
  "SlotStateDownloading \<noteq> SlotStateUnavailable"
  "SlotStateDownloading \<noteq> SlotStateIdle"
  "SlotStateDownloading \<noteq> SlotStateDownloadQueued"
  "SlotStateDownloading \<noteq> SlotStateCached"
  "SlotStateDownloading \<noteq> SlotStateLoading"
  "SlotStateDownloading \<noteq> SlotStateWarming"
  "SlotStateDownloading \<noteq> SlotStateReady"
  "SlotStateDownloading \<noteq> SlotStateServing"
  "SlotStateDownloading \<noteq> SlotStateError"
  "SlotStateCached \<noteq> SlotStateUnavailable"
  "SlotStateCached \<noteq> SlotStateIdle"
  "SlotStateCached \<noteq> SlotStateDownloadQueued"
  "SlotStateCached \<noteq> SlotStateDownloading"
  "SlotStateCached \<noteq> SlotStateLoading"
  "SlotStateCached \<noteq> SlotStateWarming"
  "SlotStateCached \<noteq> SlotStateReady"
  "SlotStateCached \<noteq> SlotStateServing"
  "SlotStateCached \<noteq> SlotStateError"
  "SlotStateLoading \<noteq> SlotStateUnavailable"
  "SlotStateLoading \<noteq> SlotStateIdle"
  "SlotStateLoading \<noteq> SlotStateDownloadQueued"
  "SlotStateLoading \<noteq> SlotStateDownloading"
  "SlotStateLoading \<noteq> SlotStateCached"
  "SlotStateLoading \<noteq> SlotStateWarming"
  "SlotStateLoading \<noteq> SlotStateReady"
  "SlotStateLoading \<noteq> SlotStateServing"
  "SlotStateLoading \<noteq> SlotStateError"
  "SlotStateWarming \<noteq> SlotStateUnavailable"
  "SlotStateWarming \<noteq> SlotStateIdle"
  "SlotStateWarming \<noteq> SlotStateDownloadQueued"
  "SlotStateWarming \<noteq> SlotStateDownloading"
  "SlotStateWarming \<noteq> SlotStateCached"
  "SlotStateWarming \<noteq> SlotStateLoading"
  "SlotStateWarming \<noteq> SlotStateReady"
  "SlotStateWarming \<noteq> SlotStateServing"
  "SlotStateWarming \<noteq> SlotStateError"
  "SlotStateReady \<noteq> SlotStateUnavailable"
  "SlotStateReady \<noteq> SlotStateIdle"
  "SlotStateReady \<noteq> SlotStateDownloadQueued"
  "SlotStateReady \<noteq> SlotStateDownloading"
  "SlotStateReady \<noteq> SlotStateCached"
  "SlotStateReady \<noteq> SlotStateLoading"
  "SlotStateReady \<noteq> SlotStateWarming"
  "SlotStateReady \<noteq> SlotStateServing"
  "SlotStateReady \<noteq> SlotStateError"
  "SlotStateServing \<noteq> SlotStateUnavailable"
  "SlotStateServing \<noteq> SlotStateIdle"
  "SlotStateServing \<noteq> SlotStateDownloadQueued"
  "SlotStateServing \<noteq> SlotStateDownloading"
  "SlotStateServing \<noteq> SlotStateCached"
  "SlotStateServing \<noteq> SlotStateLoading"
  "SlotStateServing \<noteq> SlotStateWarming"
  "SlotStateServing \<noteq> SlotStateReady"
  "SlotStateServing \<noteq> SlotStateError"
  "SlotStateError \<noteq> SlotStateUnavailable"
  "SlotStateError \<noteq> SlotStateIdle"
  "SlotStateError \<noteq> SlotStateDownloadQueued"
  "SlotStateError \<noteq> SlotStateDownloading"
  "SlotStateError \<noteq> SlotStateCached"
  "SlotStateError \<noteq> SlotStateLoading"
  "SlotStateError \<noteq> SlotStateWarming"
  "SlotStateError \<noteq> SlotStateReady"
  "SlotStateError \<noteq> SlotStateServing"
  by (simp_all add: slot_state_defs)

lemmas task_status_defs = TaskStatusQueued_def TaskStatusRunning_def TaskStatusCompleted_def TaskStatusFailed_def TaskStatusCancelled_def

lemma task_status_nonempty [simp]:
  "TaskStatusQueued \<noteq> []" "[] \<noteq> TaskStatusQueued"
  "TaskStatusRunning \<noteq> []" "[] \<noteq> TaskStatusRunning"
  "TaskStatusCompleted \<noteq> []" "[] \<noteq> TaskStatusCompleted"
  "TaskStatusFailed \<noteq> []" "[] \<noteq> TaskStatusFailed"
  "TaskStatusCancelled \<noteq> []" "[] \<noteq> TaskStatusCancelled"
  by (simp_all add: task_status_defs)

lemma task_status_distinct [simp]:
  "TaskStatusQueued \<noteq> TaskStatusRunning"
  "TaskStatusQueued \<noteq> TaskStatusCompleted"
  "TaskStatusQueued \<noteq> TaskStatusFailed"
  "TaskStatusQueued \<noteq> TaskStatusCancelled"
  "TaskStatusRunning \<noteq> TaskStatusQueued"
  "TaskStatusRunning \<noteq> TaskStatusCompleted"
  "TaskStatusRunning \<noteq> TaskStatusFailed"
  "TaskStatusRunning \<noteq> TaskStatusCancelled"
  "TaskStatusCompleted \<noteq> TaskStatusQueued"
  "TaskStatusCompleted \<noteq> TaskStatusRunning"
  "TaskStatusCompleted \<noteq> TaskStatusFailed"
  "TaskStatusCompleted \<noteq> TaskStatusCancelled"
  "TaskStatusFailed \<noteq> TaskStatusQueued"
  "TaskStatusFailed \<noteq> TaskStatusRunning"
  "TaskStatusFailed \<noteq> TaskStatusCompleted"
  "TaskStatusFailed \<noteq> TaskStatusCancelled"
  "TaskStatusCancelled \<noteq> TaskStatusQueued"
  "TaskStatusCancelled \<noteq> TaskStatusRunning"
  "TaskStatusCancelled \<noteq> TaskStatusCompleted"
  "TaskStatusCancelled \<noteq> TaskStatusFailed"
  by (simp_all add: task_status_defs)

lemmas failure_defs = FailureNoCapacity_def FailureUnknownRequirements_def FailureTargetUnsupported_def FailureRuntimeAdapterMissing_def FailureResourceExhaustedRAM_def FailureResourceExhaustedVRAM_def FailureResourceExhaustedDisk_def FailureAdmissionCheckFailed_def FailureArtifactDigestMismatch_def FailureCancelledByClient_def FailureWorkerDisconnected_def FailureRuntimeError_def FailureFirstOutputTimeout_def FailureLeaseExpired_def FailureQuarantined_def FailureWorkerFlapping_def

lemma failure_nonempty [simp]:
  "FailureNoCapacity \<noteq> []" "[] \<noteq> FailureNoCapacity"
  "FailureUnknownRequirements \<noteq> []" "[] \<noteq> FailureUnknownRequirements"
  "FailureTargetUnsupported \<noteq> []" "[] \<noteq> FailureTargetUnsupported"
  "FailureRuntimeAdapterMissing \<noteq> []" "[] \<noteq> FailureRuntimeAdapterMissing"
  "FailureResourceExhaustedRAM \<noteq> []" "[] \<noteq> FailureResourceExhaustedRAM"
  "FailureResourceExhaustedVRAM \<noteq> []" "[] \<noteq> FailureResourceExhaustedVRAM"
  "FailureResourceExhaustedDisk \<noteq> []" "[] \<noteq> FailureResourceExhaustedDisk"
  "FailureAdmissionCheckFailed \<noteq> []" "[] \<noteq> FailureAdmissionCheckFailed"
  "FailureArtifactDigestMismatch \<noteq> []" "[] \<noteq> FailureArtifactDigestMismatch"
  "FailureCancelledByClient \<noteq> []" "[] \<noteq> FailureCancelledByClient"
  "FailureWorkerDisconnected \<noteq> []" "[] \<noteq> FailureWorkerDisconnected"
  "FailureRuntimeError \<noteq> []" "[] \<noteq> FailureRuntimeError"
  "FailureFirstOutputTimeout \<noteq> []" "[] \<noteq> FailureFirstOutputTimeout"
  "FailureLeaseExpired \<noteq> []" "[] \<noteq> FailureLeaseExpired"
  "FailureQuarantined \<noteq> []" "[] \<noteq> FailureQuarantined"
  "FailureWorkerFlapping \<noteq> []" "[] \<noteq> FailureWorkerFlapping"
  by (simp_all add: failure_defs)

lemmas api_key_status_defs = APIKeyStatusActive_def APIKeyStatusRevoked_def

lemma api_key_status_nonempty [simp]:
  "APIKeyStatusActive \<noteq> []" "[] \<noteq> APIKeyStatusActive"
  "APIKeyStatusRevoked \<noteq> []" "[] \<noteq> APIKeyStatusRevoked"
  by (simp_all add: api_key_status_defs)

lemma api_key_status_distinct [simp]:
  "APIKeyStatusActive \<noteq> APIKeyStatusRevoked"
  "APIKeyStatusRevoked \<noteq> APIKeyStatusActive"
  by (simp_all add: api_key_status_defs)

lemmas ledger_defs = LedgerConsumeCompute_def LedgerProduceCompute_def LedgerAdminAdjustment_def LedgerPurchaseCompute_def LedgerDebit_def LedgerCredit_def

lemma ledger_nonempty [simp]:
  "LedgerConsumeCompute \<noteq> []" "[] \<noteq> LedgerConsumeCompute"
  "LedgerProduceCompute \<noteq> []" "[] \<noteq> LedgerProduceCompute"
  "LedgerAdminAdjustment \<noteq> []" "[] \<noteq> LedgerAdminAdjustment"
  "LedgerPurchaseCompute \<noteq> []" "[] \<noteq> LedgerPurchaseCompute"
  "LedgerDebit \<noteq> []" "[] \<noteq> LedgerDebit"
  "LedgerCredit \<noteq> []" "[] \<noteq> LedgerCredit"
  by (simp_all add: ledger_defs)

lemma ledger_distinct [simp]:
  "LedgerConsumeCompute \<noteq> LedgerProduceCompute"
  "LedgerConsumeCompute \<noteq> LedgerAdminAdjustment"
  "LedgerConsumeCompute \<noteq> LedgerPurchaseCompute"
  "LedgerConsumeCompute \<noteq> LedgerDebit"
  "LedgerConsumeCompute \<noteq> LedgerCredit"
  "LedgerProduceCompute \<noteq> LedgerConsumeCompute"
  "LedgerProduceCompute \<noteq> LedgerAdminAdjustment"
  "LedgerProduceCompute \<noteq> LedgerPurchaseCompute"
  "LedgerProduceCompute \<noteq> LedgerDebit"
  "LedgerProduceCompute \<noteq> LedgerCredit"
  "LedgerAdminAdjustment \<noteq> LedgerConsumeCompute"
  "LedgerAdminAdjustment \<noteq> LedgerProduceCompute"
  "LedgerAdminAdjustment \<noteq> LedgerPurchaseCompute"
  "LedgerAdminAdjustment \<noteq> LedgerDebit"
  "LedgerAdminAdjustment \<noteq> LedgerCredit"
  "LedgerPurchaseCompute \<noteq> LedgerConsumeCompute"
  "LedgerPurchaseCompute \<noteq> LedgerProduceCompute"
  "LedgerPurchaseCompute \<noteq> LedgerAdminAdjustment"
  "LedgerPurchaseCompute \<noteq> LedgerDebit"
  "LedgerPurchaseCompute \<noteq> LedgerCredit"
  "LedgerDebit \<noteq> LedgerConsumeCompute"
  "LedgerDebit \<noteq> LedgerProduceCompute"
  "LedgerDebit \<noteq> LedgerAdminAdjustment"
  "LedgerDebit \<noteq> LedgerPurchaseCompute"
  "LedgerDebit \<noteq> LedgerCredit"
  "LedgerCredit \<noteq> LedgerConsumeCompute"
  "LedgerCredit \<noteq> LedgerProduceCompute"
  "LedgerCredit \<noteq> LedgerAdminAdjustment"
  "LedgerCredit \<noteq> LedgerPurchaseCompute"
  "LedgerCredit \<noteq> LedgerDebit"
  by (simp_all add: ledger_defs)

subsection \<open>Structs\<close>

text \<open>The values of a \<^verbatim>\<open>map[string]any\<close>, as far as the sources build them.\<close>

datatype any = AnyString string | AnyInt int

record ResourceBudget =
  Budget_RAMBytes :: int
  Budget_VRAMBytes :: int
  Budget_UnifiedMemoryBytes :: int
  Budget_DiskBytes :: int
  Budget_SlotCount :: int

definition zero_ResourceBudget :: ResourceBudget where
  "zero_ResourceBudget = \<lparr>Budget_RAMBytes = 0,
     Budget_VRAMBytes = 0,
     Budget_UnifiedMemoryBytes = 0,
     Budget_DiskBytes = 0,
     Budget_SlotCount = 0\<rparr>"

lemma zero_ResourceBudget_sel [simp]:
  "Budget_RAMBytes zero_ResourceBudget = 0"
  "Budget_VRAMBytes zero_ResourceBudget = 0"
  "Budget_UnifiedMemoryBytes zero_ResourceBudget = 0"
  "Budget_DiskBytes zero_ResourceBudget = 0"
  "Budget_SlotCount zero_ResourceBudget = 0"
  by (simp_all add: zero_ResourceBudget_def)

record DownloadPressure =
  Pressure_MaxConcurrent :: int
  Pressure_Active :: int
  Pressure_Queued :: int

definition zero_DownloadPressure :: DownloadPressure where
  "zero_DownloadPressure = \<lparr>Pressure_MaxConcurrent = 0,
     Pressure_Active = 0,
     Pressure_Queued = 0\<rparr>"

lemma zero_DownloadPressure_sel [simp]:
  "Pressure_MaxConcurrent zero_DownloadPressure = 0"
  "Pressure_Active zero_DownloadPressure = 0"
  "Pressure_Queued zero_DownloadPressure = 0"
  by (simp_all add: zero_DownloadPressure_def)

record WorkerP2PStatus =
  P2P_Available :: bool
  P2P_Port :: int
  P2P_MaxUploads :: int
  P2P_DownloadTimeoutSeconds :: int
  P2P_SeedingCount :: int
  P2P_DownloadingCount :: int
  P2P_PeerCount :: int
  P2P_FallbackCount :: int
  P2P_LastFailure :: string
  P2P_LastFailureAt :: "time option"

definition zero_WorkerP2PStatus :: WorkerP2PStatus where
  "zero_WorkerP2PStatus = \<lparr>P2P_Available = False,
     P2P_Port = 0,
     P2P_MaxUploads = 0,
     P2P_DownloadTimeoutSeconds = 0,
     P2P_SeedingCount = 0,
     P2P_DownloadingCount = 0,
     P2P_PeerCount = 0,
     P2P_FallbackCount = 0,
     P2P_LastFailure = [],
     P2P_LastFailureAt = None\<rparr>"

lemma zero_WorkerP2PStatus_sel [simp]:
  "P2P_Available zero_WorkerP2PStatus = False"
  "P2P_Port zero_WorkerP2PStatus = 0"
  "P2P_MaxUploads zero_WorkerP2PStatus = 0"
  "P2P_DownloadTimeoutSeconds zero_WorkerP2PStatus = 0"
  "P2P_SeedingCount zero_WorkerP2PStatus = 0"
  "P2P_DownloadingCount zero_WorkerP2PStatus = 0"
  "P2P_PeerCount zero_WorkerP2PStatus = 0"
  "P2P_FallbackCount zero_WorkerP2PStatus = 0"
  "P2P_LastFailure zero_WorkerP2PStatus = []"
  "P2P_LastFailureAt zero_WorkerP2PStatus = None"
  by (simp_all add: zero_WorkerP2PStatus_def)

record WorkerFlapEvent =
  Flap_Type :: string
  Flap_At :: time

definition zero_WorkerFlapEvent :: WorkerFlapEvent where
  "zero_WorkerFlapEvent = \<lparr>Flap_Type = [],
     Flap_At = 0\<rparr>"

lemma zero_WorkerFlapEvent_sel [simp]:
  "Flap_Type zero_WorkerFlapEvent = []"
  "Flap_At zero_WorkerFlapEvent = 0"
  by (simp_all add: zero_WorkerFlapEvent_def)

record Condition =
  Cond_Type :: string
  Cond_Status :: string
  Cond_Reason :: string
  Cond_Message :: string
  Cond_LastTransitionTime :: time

definition zero_Condition :: Condition where
  "zero_Condition = \<lparr>Cond_Type = [],
     Cond_Status = [],
     Cond_Reason = [],
     Cond_Message = [],
     Cond_LastTransitionTime = 0\<rparr>"

lemma zero_Condition_sel [simp]:
  "Cond_Type zero_Condition = []"
  "Cond_Status zero_Condition = []"
  "Cond_Reason zero_Condition = []"
  "Cond_Message zero_Condition = []"
  "Cond_LastTransitionTime zero_Condition = 0"
  by (simp_all add: zero_Condition_def)

record Node =
  Node_ID :: string
  Node_OwnerUserID :: string
  Node_Name :: string
  Node_OS :: string
  Node_Arch :: string
  Node_Target :: string
  Node_Mode :: string
  Node_Tags :: "string list"
  Node_State :: string
  Node_Version :: string
  Node_RuntimeAdapters :: "string list"
  Node_Budgets :: ResourceBudget
  Node_DownloadPressure :: DownloadPressure
  Node_P2P :: "WorkerP2PStatus option"
  Node_CachedArtifacts :: "string list"
  Node_WarmProfiles :: "string list"
  Node_LastSeen :: time
  Node_Approved :: bool
  Node_UpdateRequired :: bool
  Node_UpdateStatus :: string
  Node_LastFailure :: string
  Node_LastFailureAt :: "time option"
  Node_Quarantined :: bool
  Node_QuarantineReason :: string
  Node_QuarantineUntil :: "time option"
  Node_RecentFlapEvents :: "WorkerFlapEvent list"
  Node_WarmPlacementSuppressed :: bool
  Node_WarmPlacementSuppressionReason :: string
  Node_WarmPlacementSuppressionUntil :: "time option"
  Node_Conditions :: "Condition list"
  Node_ConnectedSession :: string

definition zero_Node :: Node where
  "zero_Node = \<lparr>Node_ID = [],
     Node_OwnerUserID = [],
     Node_Name = [],
     Node_OS = [],
     Node_Arch = [],
     Node_Target = [],
     Node_Mode = [],
     Node_Tags = [],
     Node_State = [],
     Node_Version = [],
     Node_RuntimeAdapters = [],
     Node_Budgets = zero_ResourceBudget,
     Node_DownloadPressure = zero_DownloadPressure,
     Node_P2P = None,
     Node_CachedArtifacts = [],
     Node_WarmProfiles = [],
     Node_LastSeen = 0,
     Node_Approved = False,
     Node_UpdateRequired = False,
     Node_UpdateStatus = [],
     Node_LastFailure = [],
     Node_LastFailureAt = None,
     Node_Quarantined = False,
     Node_QuarantineReason = [],
     Node_QuarantineUntil = None,
     Node_RecentFlapEvents = [],
     Node_WarmPlacementSuppressed = False,
     Node_WarmPlacementSuppressionReason = [],
     Node_WarmPlacementSuppressionUntil = None,
     Node_Conditions = [],
     Node_ConnectedSession = []\<rparr>"

lemma zero_Node_sel [simp]:
  "Node_ID zero_Node = []"
  "Node_OwnerUserID zero_Node = []"
  "Node_Name zero_Node = []"
  "Node_OS zero_Node = []"
  "Node_Arch zero_Node = []"
  "Node_Target zero_Node = []"
  "Node_Mode zero_Node = []"
  "Node_Tags zero_Node = []"
  "Node_State zero_Node = []"
  "Node_Version zero_Node = []"
  "Node_RuntimeAdapters zero_Node = []"
  "Node_Budgets zero_Node = zero_ResourceBudget"
  "Node_DownloadPressure zero_Node = zero_DownloadPressure"
  "Node_P2P zero_Node = None"
  "Node_CachedArtifacts zero_Node = []"
  "Node_WarmProfiles zero_Node = []"
  "Node_LastSeen zero_Node = 0"
  "Node_Approved zero_Node = False"
  "Node_UpdateRequired zero_Node = False"
  "Node_UpdateStatus zero_Node = []"
  "Node_LastFailure zero_Node = []"
  "Node_LastFailureAt zero_Node = None"
  "Node_Quarantined zero_Node = False"
  "Node_QuarantineReason zero_Node = []"
  "Node_QuarantineUntil zero_Node = None"
  "Node_RecentFlapEvents zero_Node = []"
  "Node_WarmPlacementSuppressed zero_Node = False"
  "Node_WarmPlacementSuppressionReason zero_Node = []"
  "Node_WarmPlacementSuppressionUntil zero_Node = None"
  "Node_Conditions zero_Node = []"
  "Node_ConnectedSession zero_Node = []"
  by (simp_all add: zero_Node_def)

record Slot =
  Slot_ID :: string
  Slot_NodeID :: string
  Slot_Target :: string
  Slot_RuntimeAdapter :: string
  Slot_Resources :: ResourceBudget
  Slot_State :: string
  Slot_ProfileID :: string
  Slot_ProfileVersion :: int
  Slot_LogicalModel :: string
  Slot_RuntimeVariantID :: string
  Slot_ModelArtifactID :: string
  Slot_ModelSHA256 :: string
  Slot_ActiveTaskID :: string
  Slot_AcceptsNew :: bool
  Slot_MismatchReason :: string
  Slot_LastReady :: time
  Slot_LastTaskAt :: time
  Slot_FailureCount :: int
  Slot_FailureCounters :: "int gomap"
  Slot_LastFailure :: string
  Slot_LastFailureAt :: "time option"
  Slot_Quarantined :: bool
  Slot_QuarantineReason :: string
  Slot_QuarantineUntil :: "time option"
  Slot_Conditions :: "Condition list"

definition zero_Slot :: Slot where
  "zero_Slot = \<lparr>Slot_ID = [],
     Slot_NodeID = [],
     Slot_Target = [],
     Slot_RuntimeAdapter = [],
     Slot_Resources = zero_ResourceBudget,
     Slot_State = [],
     Slot_ProfileID = [],
     Slot_ProfileVersion = 0,
     Slot_LogicalModel = [],
     Slot_RuntimeVariantID = [],
     Slot_ModelArtifactID = [],
     Slot_ModelSHA256 = [],
     Slot_ActiveTaskID = [],
     Slot_AcceptsNew = False,
     Slot_MismatchReason = [],
     Slot_LastReady = 0,
     Slot_LastTaskAt = 0,
     Slot_FailureCount = 0,
     Slot_FailureCounters = [],
     Slot_LastFailure = [],
     Slot_LastFailureAt = None,
     Slot_Quarantined = False,
     Slot_QuarantineReason = [],
     Slot_QuarantineUntil = None,
     Slot_Conditions = []\<rparr>"

lemma zero_Slot_sel [simp]:
  "Slot_ID zero_Slot = []"
  "Slot_NodeID zero_Slot = []"
  "Slot_Target zero_Slot = []"
  "Slot_RuntimeAdapter zero_Slot = []"
  "Slot_Resources zero_Slot = zero_ResourceBudget"
  "Slot_State zero_Slot = []"
  "Slot_ProfileID zero_Slot = []"
  "Slot_ProfileVersion zero_Slot = 0"
  "Slot_LogicalModel zero_Slot = []"
  "Slot_RuntimeVariantID zero_Slot = []"
  "Slot_ModelArtifactID zero_Slot = []"
  "Slot_ModelSHA256 zero_Slot = []"
  "Slot_ActiveTaskID zero_Slot = []"
  "Slot_AcceptsNew zero_Slot = False"
  "Slot_MismatchReason zero_Slot = []"
  "Slot_LastReady zero_Slot = 0"
  "Slot_LastTaskAt zero_Slot = 0"
  "Slot_FailureCount zero_Slot = 0"
  "Slot_FailureCounters zero_Slot = []"
  "Slot_LastFailure zero_Slot = []"
  "Slot_LastFailureAt zero_Slot = None"
  "Slot_Quarantined zero_Slot = False"
  "Slot_QuarantineReason zero_Slot = []"
  "Slot_QuarantineUntil zero_Slot = None"
  "Slot_Conditions zero_Slot = []"
  by (simp_all add: zero_Slot_def)

record ArtifactTorrent =
  Torrent_InfoHash :: string
  Torrent_MagnetURI :: string
  Torrent_PieceLength :: int
  Torrent_MetaInfoPath :: string
  Torrent_MetaInfoBytes :: string

definition zero_ArtifactTorrent :: ArtifactTorrent where
  "zero_ArtifactTorrent = \<lparr>Torrent_InfoHash = [],
     Torrent_MagnetURI = [],
     Torrent_PieceLength = 0,
     Torrent_MetaInfoPath = [],
     Torrent_MetaInfoBytes = []\<rparr>"

lemma zero_ArtifactTorrent_sel [simp]:
  "Torrent_InfoHash zero_ArtifactTorrent = []"
  "Torrent_MagnetURI zero_ArtifactTorrent = []"
  "Torrent_PieceLength zero_ArtifactTorrent = 0"
  "Torrent_MetaInfoPath zero_ArtifactTorrent = []"
  "Torrent_MetaInfoBytes zero_ArtifactTorrent = []"
  by (simp_all add: zero_ArtifactTorrent_def)

record Artifact =
  Artifact_ID :: string
  Artifact_Kind :: string
  Artifact_Name :: string
  Artifact_Path :: string
  Artifact_SHA256 :: string
  Artifact_SizeBytes :: int
  Artifact_Torrent :: "ArtifactTorrent option"
  Artifact_CreatedAt :: time

definition zero_Artifact :: Artifact where
  "zero_Artifact = \<lparr>Artifact_ID = [],
     Artifact_Kind = [],
     Artifact_Name = [],
     Artifact_Path = [],
     Artifact_SHA256 = [],
     Artifact_SizeBytes = 0,
     Artifact_Torrent = None,
     Artifact_CreatedAt = 0\<rparr>"

lemma zero_Artifact_sel [simp]:
  "Artifact_ID zero_Artifact = []"
  "Artifact_Kind zero_Artifact = []"
  "Artifact_Name zero_Artifact = []"
  "Artifact_Path zero_Artifact = []"
  "Artifact_SHA256 zero_Artifact = []"
  "Artifact_SizeBytes zero_Artifact = 0"
  "Artifact_Torrent zero_Artifact = None"
  "Artifact_CreatedAt zero_Artifact = 0"
  by (simp_all add: zero_Artifact_def)

record ArtifactEvictionRecord =
  Evict_ID :: string
  Evict_NodeID :: string
  Evict_ArtifactID :: string
  Evict_Reason :: string
  Evict_Status :: string
  Evict_Failure :: string
  Evict_RequestedAt :: time
  Evict_UpdatedAt :: time
  Evict_Conditions :: "Condition list"

definition zero_ArtifactEvictionRecord :: ArtifactEvictionRecord where
  "zero_ArtifactEvictionRecord = \<lparr>Evict_ID = [],
     Evict_NodeID = [],
     Evict_ArtifactID = [],
     Evict_Reason = [],
     Evict_Status = [],
     Evict_Failure = [],
     Evict_RequestedAt = 0,
     Evict_UpdatedAt = 0,
     Evict_Conditions = []\<rparr>"

lemma zero_ArtifactEvictionRecord_sel [simp]:
  "Evict_ID zero_ArtifactEvictionRecord = []"
  "Evict_NodeID zero_ArtifactEvictionRecord = []"
  "Evict_ArtifactID zero_ArtifactEvictionRecord = []"
  "Evict_Reason zero_ArtifactEvictionRecord = []"
  "Evict_Status zero_ArtifactEvictionRecord = []"
  "Evict_Failure zero_ArtifactEvictionRecord = []"
  "Evict_RequestedAt zero_ArtifactEvictionRecord = 0"
  "Evict_UpdatedAt zero_ArtifactEvictionRecord = 0"
  "Evict_Conditions zero_ArtifactEvictionRecord = []"
  by (simp_all add: zero_ArtifactEvictionRecord_def)

record CacheIntentRecord =
  Intent_ID :: string
  Intent_NodeID :: string
  Intent_ArtifactID :: string
  Intent_Action :: string
  Intent_RequestedAt :: time
  Intent_UpdatedAt :: time

definition zero_CacheIntentRecord :: CacheIntentRecord where
  "zero_CacheIntentRecord = \<lparr>Intent_ID = [],
     Intent_NodeID = [],
     Intent_ArtifactID = [],
     Intent_Action = [],
     Intent_RequestedAt = 0,
     Intent_UpdatedAt = 0\<rparr>"

lemma zero_CacheIntentRecord_sel [simp]:
  "Intent_ID zero_CacheIntentRecord = []"
  "Intent_NodeID zero_CacheIntentRecord = []"
  "Intent_ArtifactID zero_CacheIntentRecord = []"
  "Intent_Action zero_CacheIntentRecord = []"
  "Intent_RequestedAt zero_CacheIntentRecord = 0"
  "Intent_UpdatedAt zero_CacheIntentRecord = 0"
  by (simp_all add: zero_CacheIntentRecord_def)

record Requirements =
  Req_Target :: string
  Req_RuntimeAdapter :: string
  Req_RAMBytes :: int
  Req_VRAMBytes :: int
  Req_UnifiedMemoryBytes :: int
  Req_DiskBytes :: int
  Req_RequireTags :: "string list"
  Req_MinimumWorker :: string

definition zero_Requirements :: Requirements where
  "zero_Requirements = \<lparr>Req_Target = [],
     Req_RuntimeAdapter = [],
     Req_RAMBytes = 0,
     Req_VRAMBytes = 0,
     Req_UnifiedMemoryBytes = 0,
     Req_DiskBytes = 0,
     Req_RequireTags = [],
     Req_MinimumWorker = []\<rparr>"

lemma zero_Requirements_sel [simp]:
  "Req_Target zero_Requirements = []"
  "Req_RuntimeAdapter zero_Requirements = []"
  "Req_RAMBytes zero_Requirements = 0"
  "Req_VRAMBytes zero_Requirements = 0"
  "Req_UnifiedMemoryBytes zero_Requirements = 0"
  "Req_DiskBytes zero_Requirements = 0"
  "Req_RequireTags zero_Requirements = []"
  "Req_MinimumWorker zero_Requirements = []"
  by (simp_all add: zero_Requirements_def)

record LLMProfile =
  LLM_ContextTokens :: int

definition zero_LLMProfile :: LLMProfile where
  "zero_LLMProfile = \<lparr>LLM_ContextTokens = 0\<rparr>"

lemma zero_LLMProfile_sel [simp]:
  "LLM_ContextTokens zero_LLMProfile = 0"
  by (simp_all add: zero_LLMProfile_def)

record LlamaCppParameters =
  Llama_Args :: "string list"

definition zero_LlamaCppParameters :: LlamaCppParameters where
  "zero_LlamaCppParameters = \<lparr>Llama_Args = []\<rparr>"

lemma zero_LlamaCppParameters_sel [simp]:
  "Llama_Args zero_LlamaCppParameters = []"
  by (simp_all add: zero_LlamaCppParameters_def)

record RuntimeParameters =
  Runtime_LlamaCpp :: LlamaCppParameters

definition zero_RuntimeParameters :: RuntimeParameters where
  "zero_RuntimeParameters = \<lparr>Runtime_LlamaCpp = zero_LlamaCppParameters\<rparr>"

lemma zero_RuntimeParameters_sel [simp]:
  "Runtime_LlamaCpp zero_RuntimeParameters = zero_LlamaCppParameters"
  by (simp_all add: zero_RuntimeParameters_def)

record RuntimeModelVariant =
  Variant_ID :: string
  Variant_Name :: string
  Variant_Target :: string
  Variant_RuntimeAdapter :: string
  Variant_Artifacts :: "string list"
  Variant_Requirements :: "Requirements option"
  Variant_LLM :: "LLMProfile option"
  Variant_Runtime :: RuntimeParameters
  Variant_Metadata :: "string gomap"

definition zero_RuntimeModelVariant :: RuntimeModelVariant where
  "zero_RuntimeModelVariant = \<lparr>Variant_ID = [],
     Variant_Name = [],
     Variant_Target = [],
     Variant_RuntimeAdapter = [],
     Variant_Artifacts = [],
     Variant_Requirements = None,
     Variant_LLM = None,
     Variant_Runtime = zero_RuntimeParameters,
     Variant_Metadata = []\<rparr>"

lemma zero_RuntimeModelVariant_sel [simp]:
  "Variant_ID zero_RuntimeModelVariant = []"
  "Variant_Name zero_RuntimeModelVariant = []"
  "Variant_Target zero_RuntimeModelVariant = []"
  "Variant_RuntimeAdapter zero_RuntimeModelVariant = []"
  "Variant_Artifacts zero_RuntimeModelVariant = []"
  "Variant_Requirements zero_RuntimeModelVariant = None"
  "Variant_LLM zero_RuntimeModelVariant = None"
  "Variant_Runtime zero_RuntimeModelVariant = zero_RuntimeParameters"
  "Variant_Metadata zero_RuntimeModelVariant = []"
  by (simp_all add: zero_RuntimeModelVariant_def)

record WorkloadProfile =
  Profile_ID :: string
  Profile_Version :: int
  Profile_Name :: string
  Profile_Alias :: string
  Profile_LogicalModel :: string
  Profile_RuntimeVariantID :: string
  Profile_Kind :: string
  Profile_RuntimeAdapter :: string
  Profile_Artifacts :: "string list"
  Profile_Requirements :: "Requirements option"
  Profile_LLM :: "LLMProfile option"
  Profile_Runtime :: RuntimeParameters
  Profile_RuntimeVariants :: "RuntimeModelVariant list"
  Profile_ComputeCost :: int
  Profile_Warmable :: bool
  Profile_MaxConcurrencyPerSlot :: int
  Profile_CreatedAt :: time
  Profile_Conditions :: "Condition list"

definition zero_WorkloadProfile :: WorkloadProfile where
  "zero_WorkloadProfile = \<lparr>Profile_ID = [],
     Profile_Version = 0,
     Profile_Name = [],
     Profile_Alias = [],
     Profile_LogicalModel = [],
     Profile_RuntimeVariantID = [],
     Profile_Kind = [],
     Profile_RuntimeAdapter = [],
     Profile_Artifacts = [],
     Profile_Requirements = None,
     Profile_LLM = None,
     Profile_Runtime = zero_RuntimeParameters,
     Profile_RuntimeVariants = [],
     Profile_ComputeCost = 0,
     Profile_Warmable = False,
     Profile_MaxConcurrencyPerSlot = 0,
     Profile_CreatedAt = 0,
     Profile_Conditions = []\<rparr>"

lemma zero_WorkloadProfile_sel [simp]:
  "Profile_ID zero_WorkloadProfile = []"
  "Profile_Version zero_WorkloadProfile = 0"
  "Profile_Name zero_WorkloadProfile = []"
  "Profile_Alias zero_WorkloadProfile = []"
  "Profile_LogicalModel zero_WorkloadProfile = []"
  "Profile_RuntimeVariantID zero_WorkloadProfile = []"
  "Profile_Kind zero_WorkloadProfile = []"
  "Profile_RuntimeAdapter zero_WorkloadProfile = []"
  "Profile_Artifacts zero_WorkloadProfile = []"
  "Profile_Requirements zero_WorkloadProfile = None"
  "Profile_LLM zero_WorkloadProfile = None"
  "Profile_Runtime zero_WorkloadProfile = zero_RuntimeParameters"
  "Profile_RuntimeVariants zero_WorkloadProfile = []"
  "Profile_ComputeCost zero_WorkloadProfile = 0"
  "Profile_Warmable zero_WorkloadProfile = False"
  "Profile_MaxConcurrencyPerSlot zero_WorkloadProfile = 0"
  "Profile_CreatedAt zero_WorkloadProfile = 0"
  "Profile_Conditions zero_WorkloadProfile = []"
  by (simp_all add: zero_WorkloadProfile_def)

record PlacementConstraints =
  Constraints_RequireTags :: "string list"
  Constraints_PreferNodes :: "string list"
  Constraints_DenyNodes :: "string list"

definition zero_PlacementConstraints :: PlacementConstraints where
  "zero_PlacementConstraints = \<lparr>Constraints_RequireTags = [],
     Constraints_PreferNodes = [],
     Constraints_DenyNodes = []\<rparr>"

lemma zero_PlacementConstraints_sel [simp]:
  "Constraints_RequireTags zero_PlacementConstraints = []"
  "Constraints_PreferNodes zero_PlacementConstraints = []"
  "Constraints_DenyNodes zero_PlacementConstraints = []"
  by (simp_all add: zero_PlacementConstraints_def)

record PlacementPolicy =
  Policy_ID :: string
  Policy_ProfileID :: string
  Policy_CachedCount :: int
  Policy_WarmCount :: int
  Policy_AutoBalance :: bool
  Policy_MinCachedCount :: int
  Policy_MaxCachedCount :: int
  Policy_MinWarmCount :: int
  Policy_MaxWarmCount :: int
  Policy_MaxCachedProfilesPerNode :: int
  Policy_MaxWarmProfilesPerNode :: int
  Policy_EffectiveCachedCount :: int
  Policy_EffectiveWarmCount :: int
  Policy_DemandQueued :: int
  Policy_DemandRunning :: int
  Policy_DemandRecent :: int
  Policy_DemandSmoothed :: int
  Policy_Constraints :: PlacementConstraints
  Policy_HardPinnedSlots :: "string list"
  Policy_CreatedAt :: time
  Policy_UpdatedAt :: time
  Policy_Conditions :: "Condition list"

definition zero_PlacementPolicy :: PlacementPolicy where
  "zero_PlacementPolicy = \<lparr>Policy_ID = [],
     Policy_ProfileID = [],
     Policy_CachedCount = 0,
     Policy_WarmCount = 0,
     Policy_AutoBalance = False,
     Policy_MinCachedCount = 0,
     Policy_MaxCachedCount = 0,
     Policy_MinWarmCount = 0,
     Policy_MaxWarmCount = 0,
     Policy_MaxCachedProfilesPerNode = 0,
     Policy_MaxWarmProfilesPerNode = 0,
     Policy_EffectiveCachedCount = 0,
     Policy_EffectiveWarmCount = 0,
     Policy_DemandQueued = 0,
     Policy_DemandRunning = 0,
     Policy_DemandRecent = 0,
     Policy_DemandSmoothed = 0,
     Policy_Constraints = zero_PlacementConstraints,
     Policy_HardPinnedSlots = [],
     Policy_CreatedAt = 0,
     Policy_UpdatedAt = 0,
     Policy_Conditions = []\<rparr>"

lemma zero_PlacementPolicy_sel [simp]:
  "Policy_ID zero_PlacementPolicy = []"
  "Policy_ProfileID zero_PlacementPolicy = []"
  "Policy_CachedCount zero_PlacementPolicy = 0"
  "Policy_WarmCount zero_PlacementPolicy = 0"
  "Policy_AutoBalance zero_PlacementPolicy = False"
  "Policy_MinCachedCount zero_PlacementPolicy = 0"
  "Policy_MaxCachedCount zero_PlacementPolicy = 0"
  "Policy_MinWarmCount zero_PlacementPolicy = 0"
  "Policy_MaxWarmCount zero_PlacementPolicy = 0"
  "Policy_MaxCachedProfilesPerNode zero_PlacementPolicy = 0"
  "Policy_MaxWarmProfilesPerNode zero_PlacementPolicy = 0"
  "Policy_EffectiveCachedCount zero_PlacementPolicy = 0"
  "Policy_EffectiveWarmCount zero_PlacementPolicy = 0"
  "Policy_DemandQueued zero_PlacementPolicy = 0"
  "Policy_DemandRunning zero_PlacementPolicy = 0"
  "Policy_DemandRecent zero_PlacementPolicy = 0"
  "Policy_DemandSmoothed zero_PlacementPolicy = 0"
  "Policy_Constraints zero_PlacementPolicy = zero_PlacementConstraints"
  "Policy_HardPinnedSlots zero_PlacementPolicy = []"
  "Policy_CreatedAt zero_PlacementPolicy = 0"
  "Policy_UpdatedAt zero_PlacementPolicy = 0"
  "Policy_Conditions zero_PlacementPolicy = []"
  by (simp_all add: zero_PlacementPolicy_def)

record PlacementAssignment =
  Asg_ID :: string
  Asg_ProfileID :: string
  Asg_LogicalModel :: string
  Asg_RuntimeVariantID :: string
  Asg_ModelArtifactID :: string
  Asg_ModelSHA256 :: string
  Asg_NodeID :: string
  Asg_SlotID :: string
  Asg_DesiredCached :: bool
  Asg_DesiredWarm :: bool
  Asg_ActualCached :: bool
  Asg_ActualWarm :: bool
  Asg_Ready :: bool
  Asg_Draining :: bool
  Asg_MismatchReason :: string
  Asg_UpdatedAt :: time

definition zero_PlacementAssignment :: PlacementAssignment where
  "zero_PlacementAssignment = \<lparr>Asg_ID = [],
     Asg_ProfileID = [],
     Asg_LogicalModel = [],
     Asg_RuntimeVariantID = [],
     Asg_ModelArtifactID = [],
     Asg_ModelSHA256 = [],
     Asg_NodeID = [],
     Asg_SlotID = [],
     Asg_DesiredCached = False,
     Asg_DesiredWarm = False,
     Asg_ActualCached = False,
     Asg_ActualWarm = False,
     Asg_Ready = False,
     Asg_Draining = False,
     Asg_MismatchReason = [],
     Asg_UpdatedAt = 0\<rparr>"

lemma zero_PlacementAssignment_sel [simp]:
  "Asg_ID zero_PlacementAssignment = []"
  "Asg_ProfileID zero_PlacementAssignment = []"
  "Asg_LogicalModel zero_PlacementAssignment = []"
  "Asg_RuntimeVariantID zero_PlacementAssignment = []"
  "Asg_ModelArtifactID zero_PlacementAssignment = []"
  "Asg_ModelSHA256 zero_PlacementAssignment = []"
  "Asg_NodeID zero_PlacementAssignment = []"
  "Asg_SlotID zero_PlacementAssignment = []"
  "Asg_DesiredCached zero_PlacementAssignment = False"
  "Asg_DesiredWarm zero_PlacementAssignment = False"
  "Asg_ActualCached zero_PlacementAssignment = False"
  "Asg_ActualWarm zero_PlacementAssignment = False"
  "Asg_Ready zero_PlacementAssignment = False"
  "Asg_Draining zero_PlacementAssignment = False"
  "Asg_MismatchReason zero_PlacementAssignment = []"
  "Asg_UpdatedAt zero_PlacementAssignment = 0"
  by (simp_all add: zero_PlacementAssignment_def)

record FitResult =
  Fit_ProfileID :: string
  Fit_LogicalModel :: string
  Fit_RuntimeVariantID :: string
  Fit_SlotID :: string
  Fit_NodeID :: string
  Fit_Fits :: bool
  Fit_Reasons :: "string list"

definition zero_FitResult :: FitResult where
  "zero_FitResult = \<lparr>Fit_ProfileID = [],
     Fit_LogicalModel = [],
     Fit_RuntimeVariantID = [],
     Fit_SlotID = [],
     Fit_NodeID = [],
     Fit_Fits = False,
     Fit_Reasons = []\<rparr>"

lemma zero_FitResult_sel [simp]:
  "Fit_ProfileID zero_FitResult = []"
  "Fit_LogicalModel zero_FitResult = []"
  "Fit_RuntimeVariantID zero_FitResult = []"
  "Fit_SlotID zero_FitResult = []"
  "Fit_NodeID zero_FitResult = []"
  "Fit_Fits zero_FitResult = False"
  "Fit_Reasons zero_FitResult = []"
  by (simp_all add: zero_FitResult_def)

record Task =
  Task_ID :: string
  Task_UserID :: string
  Task_Kind :: string
  Task_Model :: string
  Task_ProfileID :: string
  Task_ProfileVersion :: int
  Task_LogicalModel :: string
  Task_RuntimeVariantID :: string
  Task_ComputeCost :: int
  Task_FailedSlots :: "string list"
  Task_MinContextTokens :: int
  Task_Status :: string
  Task_FailureReason :: string
  Task_Stream :: bool
  Task_CreatedAt :: time
  Task_UpdatedAt :: time
  Task_CompletedAt :: "time option"
  Task_Metadata :: "any gomap"

definition zero_Task :: Task where
  "zero_Task = \<lparr>Task_ID = [],
     Task_UserID = [],
     Task_Kind = [],
     Task_Model = [],
     Task_ProfileID = [],
     Task_ProfileVersion = 0,
     Task_LogicalModel = [],
     Task_RuntimeVariantID = [],
     Task_ComputeCost = 0,
     Task_FailedSlots = [],
     Task_MinContextTokens = 0,
     Task_Status = [],
     Task_FailureReason = [],
     Task_Stream = False,
     Task_CreatedAt = 0,
     Task_UpdatedAt = 0,
     Task_CompletedAt = None,
     Task_Metadata = []\<rparr>"

lemma zero_Task_sel [simp]:
  "Task_ID zero_Task = []"
  "Task_UserID zero_Task = []"
  "Task_Kind zero_Task = []"
  "Task_Model zero_Task = []"
  "Task_ProfileID zero_Task = []"
  "Task_ProfileVersion zero_Task = 0"
  "Task_LogicalModel zero_Task = []"
  "Task_RuntimeVariantID zero_Task = []"
  "Task_ComputeCost zero_Task = 0"
  "Task_FailedSlots zero_Task = []"
  "Task_MinContextTokens zero_Task = 0"
  "Task_Status zero_Task = []"
  "Task_FailureReason zero_Task = []"
  "Task_Stream zero_Task = False"
  "Task_CreatedAt zero_Task = 0"
  "Task_UpdatedAt zero_Task = 0"
  "Task_CompletedAt zero_Task = None"
  "Task_Metadata zero_Task = []"
  by (simp_all add: zero_Task_def)

record Attempt =
  Attempt_ID :: string
  Attempt_TaskID :: string
  Attempt_UserID :: string
  Attempt_NodeID :: string
  Attempt_SlotID :: string
  Attempt_ProfileID :: string
  Attempt_ProfileVersion :: int
  Attempt_LogicalModel :: string
  Attempt_RuntimeVariantID :: string
  Attempt_RuntimeAdapter :: string
  Attempt_ComputeCost :: int
  Attempt_Status :: string
  Attempt_Phase :: string
  Attempt_FailureReason :: string
  Attempt_CanRetry :: bool
  Attempt_FirstOutputSent :: bool
  Attempt_LeaseExpiresAt :: time
  Attempt_StartedAt :: time
  Attempt_FirstOutputAt :: "time option"
  Attempt_CompletedAt :: "time option"

definition zero_Attempt :: Attempt where
  "zero_Attempt = \<lparr>Attempt_ID = [],
     Attempt_TaskID = [],
     Attempt_UserID = [],
     Attempt_NodeID = [],
     Attempt_SlotID = [],
     Attempt_ProfileID = [],
     Attempt_ProfileVersion = 0,
     Attempt_LogicalModel = [],
     Attempt_RuntimeVariantID = [],
     Attempt_RuntimeAdapter = [],
     Attempt_ComputeCost = 0,
     Attempt_Status = [],
     Attempt_Phase = [],
     Attempt_FailureReason = [],
     Attempt_CanRetry = False,
     Attempt_FirstOutputSent = False,
     Attempt_LeaseExpiresAt = 0,
     Attempt_StartedAt = 0,
     Attempt_FirstOutputAt = None,
     Attempt_CompletedAt = None\<rparr>"

lemma zero_Attempt_sel [simp]:
  "Attempt_ID zero_Attempt = []"
  "Attempt_TaskID zero_Attempt = []"
  "Attempt_UserID zero_Attempt = []"
  "Attempt_NodeID zero_Attempt = []"
  "Attempt_SlotID zero_Attempt = []"
  "Attempt_ProfileID zero_Attempt = []"
  "Attempt_ProfileVersion zero_Attempt = 0"
  "Attempt_LogicalModel zero_Attempt = []"
  "Attempt_RuntimeVariantID zero_Attempt = []"
  "Attempt_RuntimeAdapter zero_Attempt = []"
  "Attempt_ComputeCost zero_Attempt = 0"
  "Attempt_Status zero_Attempt = []"
  "Attempt_Phase zero_Attempt = []"
  "Attempt_FailureReason zero_Attempt = []"
  "Attempt_CanRetry zero_Attempt = False"
  "Attempt_FirstOutputSent zero_Attempt = False"
  "Attempt_LeaseExpiresAt zero_Attempt = 0"
  "Attempt_StartedAt zero_Attempt = 0"
  "Attempt_FirstOutputAt zero_Attempt = None"
  "Attempt_CompletedAt zero_Attempt = None"
  by (simp_all add: zero_Attempt_def)

record TimingReport =
  Timing_TimeToFirstTokenMS :: int
  Timing_GenerationMS :: int
  Timing_TotalAttemptMS :: int

definition zero_TimingReport :: TimingReport where
  "zero_TimingReport = \<lparr>Timing_TimeToFirstTokenMS = 0,
     Timing_GenerationMS = 0,
     Timing_TotalAttemptMS = 0\<rparr>"

lemma zero_TimingReport_sel [simp]:
  "Timing_TimeToFirstTokenMS zero_TimingReport = 0"
  "Timing_GenerationMS zero_TimingReport = 0"
  "Timing_TotalAttemptMS zero_TimingReport = 0"
  by (simp_all add: zero_TimingReport_def)

record LLMMetrics =
  Metrics_PromptTokens :: int
  Metrics_CompletionTokens :: int
  Metrics_TotalTokens :: int
  Metrics_TokensPerSecond :: float64
  Metrics_ContextTokens :: int

definition zero_LLMMetrics :: LLMMetrics where
  "zero_LLMMetrics = \<lparr>Metrics_PromptTokens = 0,
     Metrics_CompletionTokens = 0,
     Metrics_TotalTokens = 0,
     Metrics_TokensPerSecond = 0,
     Metrics_ContextTokens = 0\<rparr>"

lemma zero_LLMMetrics_sel [simp]:
  "Metrics_PromptTokens zero_LLMMetrics = 0"
  "Metrics_CompletionTokens zero_LLMMetrics = 0"
  "Metrics_TotalTokens zero_LLMMetrics = 0"
  "Metrics_TokensPerSecond zero_LLMMetrics = 0"
  "Metrics_ContextTokens zero_LLMMetrics = 0"
  by (simp_all add: zero_LLMMetrics_def)

record ResourceMetrics =
  Usage_PeakRAMBytes :: int
  Usage_PeakVRAMBytes :: int
  Usage_PeakUnifiedMemoryBytes :: int
  Usage_DiskCacheBytes :: int
  Usage_RuntimeExitCode :: int
  Usage_OOMKilled :: bool

definition zero_ResourceMetrics :: ResourceMetrics where
  "zero_ResourceMetrics = \<lparr>Usage_PeakRAMBytes = 0,
     Usage_PeakVRAMBytes = 0,
     Usage_PeakUnifiedMemoryBytes = 0,
     Usage_DiskCacheBytes = 0,
     Usage_RuntimeExitCode = 0,
     Usage_OOMKilled = False\<rparr>"

lemma zero_ResourceMetrics_sel [simp]:
  "Usage_PeakRAMBytes zero_ResourceMetrics = 0"
  "Usage_PeakVRAMBytes zero_ResourceMetrics = 0"
  "Usage_PeakUnifiedMemoryBytes zero_ResourceMetrics = 0"
  "Usage_DiskCacheBytes zero_ResourceMetrics = 0"
  "Usage_RuntimeExitCode zero_ResourceMetrics = 0"
  "Usage_OOMKilled zero_ResourceMetrics = False"
  by (simp_all add: zero_ResourceMetrics_def)

record ComputeReport =
  Report_ID :: string
  Report_TaskID :: string
  Report_AttemptID :: string
  Report_UserID :: string
  Report_NodeID :: string
  Report_SlotID :: string
  Report_ProfileID :: string
  Report_ProfileVersion :: int
  Report_LogicalModel :: string
  Report_RuntimeVariantID :: string
  Report_RuntimeAdapter :: string
  Report_ComputeCost :: int
  Report_Status :: string
  Report_Phase :: string
  Report_FailureReason :: string
  Report_CanRetry :: bool
  Report_Cancelled :: bool
  Report_Timing :: TimingReport
  Report_LLM :: LLMMetrics
  Report_Resources :: ResourceMetrics
  Report_CreatedAt :: time

definition zero_ComputeReport :: ComputeReport where
  "zero_ComputeReport = \<lparr>Report_ID = [],
     Report_TaskID = [],
     Report_AttemptID = [],
     Report_UserID = [],
     Report_NodeID = [],
     Report_SlotID = [],
     Report_ProfileID = [],
     Report_ProfileVersion = 0,
     Report_LogicalModel = [],
     Report_RuntimeVariantID = [],
     Report_RuntimeAdapter = [],
     Report_ComputeCost = 0,
     Report_Status = [],
     Report_Phase = [],
     Report_FailureReason = [],
     Report_CanRetry = False,
     Report_Cancelled = False,
     Report_Timing = zero_TimingReport,
     Report_LLM = zero_LLMMetrics,
     Report_Resources = zero_ResourceMetrics,
     Report_CreatedAt = 0\<rparr>"

lemma zero_ComputeReport_sel [simp]:
  "Report_ID zero_ComputeReport = []"
  "Report_TaskID zero_ComputeReport = []"
  "Report_AttemptID zero_ComputeReport = []"
  "Report_UserID zero_ComputeReport = []"
  "Report_NodeID zero_ComputeReport = []"
  "Report_SlotID zero_ComputeReport = []"
  "Report_ProfileID zero_ComputeReport = []"
  "Report_ProfileVersion zero_ComputeReport = 0"
  "Report_LogicalModel zero_ComputeReport = []"
  "Report_RuntimeVariantID zero_ComputeReport = []"
  "Report_RuntimeAdapter zero_ComputeReport = []"
  "Report_ComputeCost zero_ComputeReport = 0"
  "Report_Status zero_ComputeReport = []"
  "Report_Phase zero_ComputeReport = []"
  "Report_FailureReason zero_ComputeReport = []"
  "Report_CanRetry zero_ComputeReport = False"
  "Report_Cancelled zero_ComputeReport = False"
  "Report_Timing zero_ComputeReport = zero_TimingReport"
  "Report_LLM zero_ComputeReport = zero_LLMMetrics"
  "Report_Resources zero_ComputeReport = zero_ResourceMetrics"
  "Report_CreatedAt zero_ComputeReport = 0"
  by (simp_all add: zero_ComputeReport_def)

record UpdateRecord =
  Update_ID :: string
  Update_Kind :: string
  Update_Version :: string
  Update_ArtifactID :: string
  Update_SHA256 :: string
  Update_Delivery :: string
  Update_DeliveryDetail :: string
  Update_Signature :: string
  Update_PublicKey :: string
  Update_TargetNodes :: "string list"
  Update_Status :: string
  Update_Failure :: string
  Update_CreatedAt :: time

definition zero_UpdateRecord :: UpdateRecord where
  "zero_UpdateRecord = \<lparr>Update_ID = [],
     Update_Kind = [],
     Update_Version = [],
     Update_ArtifactID = [],
     Update_SHA256 = [],
     Update_Delivery = [],
     Update_DeliveryDetail = [],
     Update_Signature = [],
     Update_PublicKey = [],
     Update_TargetNodes = [],
     Update_Status = [],
     Update_Failure = [],
     Update_CreatedAt = 0\<rparr>"

lemma zero_UpdateRecord_sel [simp]:
  "Update_ID zero_UpdateRecord = []"
  "Update_Kind zero_UpdateRecord = []"
  "Update_Version zero_UpdateRecord = []"
  "Update_ArtifactID zero_UpdateRecord = []"
  "Update_SHA256 zero_UpdateRecord = []"
  "Update_Delivery zero_UpdateRecord = []"
  "Update_DeliveryDetail zero_UpdateRecord = []"
  "Update_Signature zero_UpdateRecord = []"
  "Update_PublicKey zero_UpdateRecord = []"
  "Update_TargetNodes zero_UpdateRecord = []"
  "Update_Status zero_UpdateRecord = []"
  "Update_Failure zero_UpdateRecord = []"
  "Update_CreatedAt zero_UpdateRecord = 0"
  by (simp_all add: zero_UpdateRecord_def)

record AuditEvent =
  Audit_ID :: string
  Audit_Type :: string
  Audit_Actor :: string
  Audit_Subject :: string
  Audit_Metadata :: "any gomap"
  Audit_CreatedAt :: time

definition zero_AuditEvent :: AuditEvent where
  "zero_AuditEvent = \<lparr>Audit_ID = [],
     Audit_Type = [],
     Audit_Actor = [],
     Audit_Subject = [],
     Audit_Metadata = [],
     Audit_CreatedAt = 0\<rparr>"

lemma zero_AuditEvent_sel [simp]:
  "Audit_ID zero_AuditEvent = []"
  "Audit_Type zero_AuditEvent = []"
  "Audit_Actor zero_AuditEvent = []"
  "Audit_Subject zero_AuditEvent = []"
  "Audit_Metadata zero_AuditEvent = []"
  "Audit_CreatedAt zero_AuditEvent = 0"
  by (simp_all add: zero_AuditEvent_def)

record User =
  User_ID :: string
  User_Name :: string
  User_ComputeBalance :: int
  User_Disabled :: bool
  User_CreatedAt :: time

definition zero_User :: User where
  "zero_User = \<lparr>User_ID = [],
     User_Name = [],
     User_ComputeBalance = 0,
     User_Disabled = False,
     User_CreatedAt = 0\<rparr>"

lemma zero_User_sel [simp]:
  "User_ID zero_User = []"
  "User_Name zero_User = []"
  "User_ComputeBalance zero_User = 0"
  "User_Disabled zero_User = False"
  "User_CreatedAt zero_User = 0"
  by (simp_all add: zero_User_def)

record APIKey =
  Key_ID :: string
  Key_UserID :: string
  Key_Name :: string
  Key_TokenHash :: string
  Key_Status :: string
  Key_CreatedAt :: time
  Key_RevokedAt :: "time option"
  Key_LastUsedAt :: "time option"

definition zero_APIKey :: APIKey where
  "zero_APIKey = \<lparr>Key_ID = [],
     Key_UserID = [],
     Key_Name = [],
     Key_TokenHash = [],
     Key_Status = [],
     Key_CreatedAt = 0,
     Key_RevokedAt = None,
     Key_LastUsedAt = None\<rparr>"

lemma zero_APIKey_sel [simp]:
  "Key_ID zero_APIKey = []"
  "Key_UserID zero_APIKey = []"
  "Key_Name zero_APIKey = []"
  "Key_TokenHash zero_APIKey = []"
  "Key_Status zero_APIKey = []"
  "Key_CreatedAt zero_APIKey = 0"
  "Key_RevokedAt zero_APIKey = None"
  "Key_LastUsedAt zero_APIKey = None"
  by (simp_all add: zero_APIKey_def)

record APIKeyView =
  KeyView_ID :: string
  KeyView_UserID :: string
  KeyView_Name :: string
  KeyView_Status :: string
  KeyView_CreatedAt :: time
  KeyView_RevokedAt :: "time option"
  KeyView_LastUsedAt :: "time option"

definition zero_APIKeyView :: APIKeyView where
  "zero_APIKeyView = \<lparr>KeyView_ID = [],
     KeyView_UserID = [],
     KeyView_Name = [],
     KeyView_Status = [],
     KeyView_CreatedAt = 0,
     KeyView_RevokedAt = None,
     KeyView_LastUsedAt = None\<rparr>"

lemma zero_APIKeyView_sel [simp]:
  "KeyView_ID zero_APIKeyView = []"
  "KeyView_UserID zero_APIKeyView = []"
  "KeyView_Name zero_APIKeyView = []"
  "KeyView_Status zero_APIKeyView = []"
  "KeyView_CreatedAt zero_APIKeyView = 0"
  "KeyView_RevokedAt zero_APIKeyView = None"
  "KeyView_LastUsedAt zero_APIKeyView = None"
  by (simp_all add: zero_APIKeyView_def)

record ComputeLedgerEntry =
  Ledger_ID :: string
  Ledger_Type :: string
  Ledger_UserID :: string
  Ledger_TaskID :: string
  Ledger_AttemptID :: string
  Ledger_ReportID :: string
  Ledger_NodeID :: string
  Ledger_SlotID :: string
  Ledger_ProfileID :: string
  Ledger_ProfileVersion :: int
  Ledger_ComputeCost :: int
  Ledger_Amount :: int
  Ledger_Direction :: string
  Ledger_Reason :: string
  Ledger_CreatedAt :: time

definition zero_ComputeLedgerEntry :: ComputeLedgerEntry where
  "zero_ComputeLedgerEntry = \<lparr>Ledger_ID = [],
     Ledger_Type = [],
     Ledger_UserID = [],
     Ledger_TaskID = [],
     Ledger_AttemptID = [],
     Ledger_ReportID = [],
     Ledger_NodeID = [],
     Ledger_SlotID = [],
     Ledger_ProfileID = [],
     Ledger_ProfileVersion = 0,
     Ledger_ComputeCost = 0,
     Ledger_Amount = 0,
     Ledger_Direction = [],
     Ledger_Reason = [],
     Ledger_CreatedAt = 0\<rparr>"

lemma zero_ComputeLedgerEntry_sel [simp]:
  "Ledger_ID zero_ComputeLedgerEntry = []"
  "Ledger_Type zero_ComputeLedgerEntry = []"
  "Ledger_UserID zero_ComputeLedgerEntry = []"
  "Ledger_TaskID zero_ComputeLedgerEntry = []"
  "Ledger_AttemptID zero_ComputeLedgerEntry = []"
  "Ledger_ReportID zero_ComputeLedgerEntry = []"
  "Ledger_NodeID zero_ComputeLedgerEntry = []"
  "Ledger_SlotID zero_ComputeLedgerEntry = []"
  "Ledger_ProfileID zero_ComputeLedgerEntry = []"
  "Ledger_ProfileVersion zero_ComputeLedgerEntry = 0"
  "Ledger_ComputeCost zero_ComputeLedgerEntry = 0"
  "Ledger_Amount zero_ComputeLedgerEntry = 0"
  "Ledger_Direction zero_ComputeLedgerEntry = []"
  "Ledger_Reason zero_ComputeLedgerEntry = []"
  "Ledger_CreatedAt zero_ComputeLedgerEntry = 0"
  by (simp_all add: zero_ComputeLedgerEntry_def)

record ManagerConfig =
  Cfg_Addr :: string
  Cfg_DBPath :: string
  Cfg_DatabaseURL :: string
  Cfg_StorageMode :: string
  Cfg_ArtifactDir :: string
  Cfg_AdminToken :: string
  Cfg_ClientAPIKey :: string
  Cfg_WorkerToken :: string
  Cfg_EnforceBalance :: bool
  Cfg_QueueLimit :: int
  Cfg_StreamWait :: duration
  Cfg_AutoBalanceScaleDownCooldown :: duration
  Cfg_QuarantineThreshold :: int
  Cfg_QuarantineDuration :: duration
  Cfg_WorkerHeartbeatTimeout :: duration
  Cfg_WorkerFlapThreshold :: int
  Cfg_WorkerFlapWindow :: duration
  Cfg_WorkerFlapCooldown :: duration
  Cfg_AutoApprove :: bool
  Cfg_ExternalURL :: string
  Cfg_AllowDevTokens :: bool

definition zero_ManagerConfig :: ManagerConfig where
  "zero_ManagerConfig = \<lparr>Cfg_Addr = [],
     Cfg_DBPath = [],
     Cfg_DatabaseURL = [],
     Cfg_StorageMode = [],
     Cfg_ArtifactDir = [],
     Cfg_AdminToken = [],
     Cfg_ClientAPIKey = [],
     Cfg_WorkerToken = [],
     Cfg_EnforceBalance = False,
     Cfg_QueueLimit = 0,
     Cfg_StreamWait = 0,
     Cfg_AutoBalanceScaleDownCooldown = 0,
     Cfg_QuarantineThreshold = 0,
     Cfg_QuarantineDuration = 0,
     Cfg_WorkerHeartbeatTimeout = 0,
     Cfg_WorkerFlapThreshold = 0,
     Cfg_WorkerFlapWindow = 0,
     Cfg_WorkerFlapCooldown = 0,
     Cfg_AutoApprove = False,
     Cfg_ExternalURL = [],
     Cfg_AllowDevTokens = False\<rparr>"

lemma zero_ManagerConfig_sel [simp]:
  "Cfg_Addr zero_ManagerConfig = []"
  "Cfg_DBPath zero_ManagerConfig = []"
  "Cfg_DatabaseURL zero_ManagerConfig = []"
  "Cfg_StorageMode zero_ManagerConfig = []"
  "Cfg_ArtifactDir zero_ManagerConfig = []"
  "Cfg_AdminToken zero_ManagerConfig = []"
  "Cfg_ClientAPIKey zero_ManagerConfig = []"
  "Cfg_WorkerToken zero_ManagerConfig = []"
  "Cfg_EnforceBalance zero_ManagerConfig = False"
  "Cfg_QueueLimit zero_ManagerConfig = 0"
  "Cfg_StreamWait zero_ManagerConfig = 0"
  "Cfg_AutoBalanceScaleDownCooldown zero_ManagerConfig = 0"
  "Cfg_QuarantineThreshold zero_ManagerConfig = 0"
  "Cfg_QuarantineDuration zero_ManagerConfig = 0"
  "Cfg_WorkerHeartbeatTimeout zero_ManagerConfig = 0"
  "Cfg_WorkerFlapThreshold zero_ManagerConfig = 0"
  "Cfg_WorkerFlapWindow zero_ManagerConfig = 0"
  "Cfg_WorkerFlapCooldown zero_ManagerConfig = 0"
  "Cfg_AutoApprove zero_ManagerConfig = False"
  "Cfg_ExternalURL zero_ManagerConfig = []"
  "Cfg_AllowDevTokens zero_ManagerConfig = False"
  by (simp_all add: zero_ManagerConfig_def)

record GlobalSettings =
  Settings_P2PEnabled :: bool

definition zero_GlobalSettings :: GlobalSettings where
  "zero_GlobalSettings = \<lparr>Settings_P2PEnabled = False\<rparr>"

lemma zero_GlobalSettings_sel [simp]:
  "Settings_P2PEnabled zero_GlobalSettings = False"
  by (simp_all add: zero_GlobalSettings_def)

record Database =
  SchemaVersion :: int
  Migrations :: "string list"
  Settings :: GlobalSettings
  Nodes :: "Node gomap"
  Slots :: "Slot gomap"
  Artifacts :: "Artifact gomap"
  ArtifactEvictions :: "ArtifactEvictionRecord gomap"
  CacheIntents :: "CacheIntentRecord gomap"
  Profiles :: "WorkloadProfile gomap"
  Policies :: "PlacementPolicy gomap"
  Assignments :: "PlacementAssignment gomap"
  Tasks :: "Task gomap"
  Attempts :: "Attempt gomap"
  Reports :: "ComputeReport gomap"
  Updates :: "UpdateRecord gomap"
  Users :: "User gomap"
  APIKeys :: "APIKey gomap"
  NodeTokenHashes :: "string gomap"
  ComputeLedger :: "ComputeLedgerEntry list"
  Audit :: "AuditEvent list"

definition zero_Database :: Database where
  "zero_Database = \<lparr>SchemaVersion = 0,
     Migrations = [],
     Settings = zero_GlobalSettings,
     Nodes = [],
     Slots = [],
     Artifacts = [],
     ArtifactEvictions = [],
     CacheIntents = [],
     Profiles = [],
     Policies = [],
     Assignments = [],
     Tasks = [],
     Attempts = [],
     Reports = [],
     Updates = [],
     Users = [],
     APIKeys = [],
     NodeTokenHashes = [],
     ComputeLedger = [],
     Audit = []\<rparr>"

lemma zero_Database_sel [simp]:
  "SchemaVersion zero_Database = 0"
  "Migrations zero_Database = []"
  "Settings zero_Database = zero_GlobalSettings"
  "Nodes zero_Database = []"
  "Slots zero_Database = []"
  "Artifacts zero_Database = []"
  "ArtifactEvictions zero_Database = []"
  "CacheIntents zero_Database = []"
  "Profiles zero_Database = []"
  "Policies zero_Database = []"
  "Assignments zero_Database = []"
  "Tasks zero_Database = []"
  "Attempts zero_Database = []"
  "Reports zero_Database = []"
  "Updates zero_Database = []"
  "Users zero_Database = []"
  "APIKeys zero_Database = []"
  "NodeTokenHashes zero_Database = []"
  "ComputeLedger zero_Database = []"
  "Audit zero_Database = []"
  by (simp_all add: zero_Database_def)

end
