(* ===== verification/Samples.thy ===== *)
theory Samples
  imports Types
begin

section \<open>Sample records\<close>

text \<open>
  A small concrete system used by the witnesses: two profiles of one logical model with
  different contexts, one approved online node with two ready slots, one client with a
  balance and the client that owns the node.
\<close>

definition sample_req :: Requirements where
  "sample_req = zero_Requirements\<lparr>Req_Target := TargetDarwinArm64Metal, Req_DiskBytes := 10,
     Req_UnifiedMemoryBytes := 20\<rparr>"

definition sample_profile :: WorkloadProfile where
  "sample_profile = zero_WorkloadProfile\<lparr>Profile_ID := ''p1'', Profile_Version := 1,
     Profile_Alias := ''chat'', Profile_Kind := ''llm.chat'', Profile_RuntimeAdapter := ''llama.cpp-metal'',
     Profile_Artifacts := [''sha256:aa''], Profile_Requirements := Some sample_req,
     Profile_LLM := Some (zero_LLMProfile\<lparr>LLM_ContextTokens := 4096\<rparr>),
     Profile_ComputeCost := 5\<rparr>"

definition sample_profile_large :: WorkloadProfile where
  "sample_profile_large = sample_profile\<lparr>Profile_ID := ''p2'',
     Profile_LLM := Some (zero_LLMProfile\<lparr>LLM_ContextTokens := 8192\<rparr>)\<rparr>"

definition sample_node :: Node where
  "sample_node = zero_Node\<lparr>Node_ID := ''n1'', Node_OwnerUserID := ''owner'',
     Node_Target := TargetDarwinArm64Metal, Node_State := NodeStateOnline,
     Node_RuntimeAdapters := [''llama.cpp-metal''], Node_Approved := True,
     Node_Budgets := zero_ResourceBudget\<lparr>Budget_UnifiedMemoryBytes := 100, Budget_DiskBytes := 100\<rparr>\<rparr>"

definition sample_slot :: Slot where
  "sample_slot = zero_Slot\<lparr>Slot_ID := ''n1/slot0'', Slot_NodeID := ''n1'',
     Slot_Target := TargetDarwinArm64Metal, Slot_RuntimeAdapter := ''llama.cpp-metal'',
     Slot_State := SlotStateReady, Slot_ProfileID := ''p1'', Slot_ProfileVersion := 1,
     Slot_LogicalModel := ''chat'', Slot_RuntimeVariantID := ''p1'',
     Slot_ModelArtifactID := ''sha256:aa'', Slot_ModelSHA256 := ''sha256:aa'',
     Slot_AcceptsNew := True\<rparr>"

definition sample_slot2 :: Slot where
  "sample_slot2 = zero_Slot\<lparr>Slot_ID := ''n1/slot1'', Slot_NodeID := ''n1'',
     Slot_Target := TargetDarwinArm64Metal, Slot_RuntimeAdapter := ''llama.cpp-metal'',
     Slot_State := SlotStateIdle\<rparr>"

definition sample_user :: User where
  "sample_user = zero_User\<lparr>User_ID := ''client'', User_ComputeBalance := 20\<rparr>"

definition sample_owner :: User where
  "sample_owner = zero_User\<lparr>User_ID := ''owner''\<rparr>"

definition sample_db :: Database where
  "sample_db = zero_Database\<lparr>SchemaVersion := 3,
     Nodes := [(''n1'', sample_node)],
     Slots := [(''n1/slot1'', sample_slot2), (''n1/slot0'', sample_slot)],
     Profiles := [(''p2'', sample_profile_large), (''p1'', sample_profile)],
     Users := [(''client'', sample_user), (''owner'', sample_owner)]\<rparr>"

lemmas sample_defs = sample_req_def sample_profile_def sample_profile_large_def sample_node_def
  sample_slot_def sample_slot2_def sample_user_def sample_owner_def sample_db_def

end
