(* ===== verification/Profiles.thy ===== *)
theory Profiles
  imports Samples
begin

section \<open>Profiles, runtime variants and model resolution (profile_fit.go)\<close>

text \<open>
  A workload profile names a logical model and carries one or more runtime variants; the
  effective profile of a variant is what a slot runs. This theory holds the normalisation
  of variants, the effective profile and the resolution of a client's model name to a
  profile (\<^verbatim>\<open>ResolveLLMProfile\<close>), with its choice of the smallest sufficient context.
\<close>

definition profileVersion :: "WorkloadProfile \<Rightarrow> int" where
  "profileVersion profile = (if Profile_Version profile > 0 then Profile_Version profile else 1)"

definition ProfileLogicalModel :: "WorkloadProfile \<Rightarrow> string" where
  "ProfileLogicalModel profile =
     (if Profile_LogicalModel profile \<noteq> [] then Profile_LogicalModel profile
      else if Profile_Alias profile \<noteq> [] then Profile_Alias profile
      else if Profile_Name profile \<noteq> [] then Profile_Name profile
      else Profile_ID profile)"

definition normalizeVariant :: "WorkloadProfile \<Rightarrow> RuntimeModelVariant \<Rightarrow> RuntimeModelVariant" where
  "normalizeVariant profile v =
     (let id1 = (if Variant_ID v = [] then Profile_RuntimeVariantID profile else Variant_ID v);
          id2 = (if id1 = [] then Profile_ID profile else id1);
          req = (if Variant_Requirements v = None then Profile_Requirements profile
                 else Variant_Requirements v)
      in v\<lparr>Variant_ID := id2,
           Variant_RuntimeAdapter :=
             (if Variant_RuntimeAdapter v = [] then Profile_RuntimeAdapter profile
              else Variant_RuntimeAdapter v),
           Variant_Artifacts :=
             (if length (Variant_Artifacts v) = 0 then Profile_Artifacts profile
              else Variant_Artifacts v),
           Variant_Requirements := req,
           Variant_LLM := (if Variant_LLM v = None then Profile_LLM profile else Variant_LLM v),
           Variant_Runtime :=
             (if length (Llama_Args (Runtime_LlamaCpp (Variant_Runtime v))) = 0
              then Profile_Runtime profile else Variant_Runtime v),
           Variant_Target :=
             (if Variant_Target v = [] \<and> req \<noteq> None then Req_Target (the req)
              else Variant_Target v)\<rparr>)"

definition ProfileRuntimeVariants :: "WorkloadProfile \<Rightarrow> RuntimeModelVariant list" where
  "ProfileRuntimeVariants profile =
     (if Profile_RuntimeVariants profile \<noteq> []
      then map (normalizeVariant profile) (Profile_RuntimeVariants profile)
      else [normalizeVariant profile
        (zero_RuntimeModelVariant\<lparr>Variant_ID := Profile_RuntimeVariantID profile,
           Variant_Target := [],
           Variant_RuntimeAdapter := Profile_RuntimeAdapter profile,
           Variant_Artifacts := Profile_Artifacts profile,
           Variant_Requirements := Profile_Requirements profile,
           Variant_LLM := Profile_LLM profile,
           Variant_Runtime := Profile_Runtime profile\<rparr>)])"

definition EffectiveProfileForVariant ::
  "WorkloadProfile \<Rightarrow> RuntimeModelVariant \<Rightarrow> WorkloadProfile" where
  "EffectiveProfileForVariant profile variant =
     (let v = normalizeVariant profile variant
      in profile\<lparr>Profile_LogicalModel := ProfileLogicalModel profile,
           Profile_RuntimeVariantID := Variant_ID v,
           Profile_RuntimeAdapter := Variant_RuntimeAdapter v,
           Profile_Artifacts := Variant_Artifacts v,
           Profile_Requirements := Variant_Requirements v,
           Profile_LLM := Variant_LLM v,
           Profile_Runtime := Variant_Runtime v,
           Profile_RuntimeVariants := []\<rparr>)"

definition ConcreteModelArtifactID :: "WorkloadProfile \<Rightarrow> string" where
  "ConcreteModelArtifactID profile =
     (case Profile_Artifacts profile of [] \<Rightarrow> [] | a # _ \<Rightarrow> a)"

definition ConcreteModelSHA256 :: "WorkloadProfile \<Rightarrow> string" where
  "ConcreteModelSHA256 profile = NormalizeSHA256 (ConcreteModelArtifactID profile)"

definition profileArtifactIDs :: "WorkloadProfile \<Rightarrow> string list" where
  "profileArtifactIDs profile =
     foldl appendUnique
       (foldl appendUnique [] (Profile_Artifacts profile))
       (concat (map Variant_Artifacts (ProfileRuntimeVariants profile)))"

definition effectiveProfileForAssignment ::
  "WorkloadProfile \<Rightarrow> PlacementAssignment \<Rightarrow> WorkloadProfile" where
  "effectiveProfileForAssignment profile assignment =
     (if Asg_RuntimeVariantID assignment = [] then profile
      else case find (\<lambda>v. Variant_ID v = Asg_RuntimeVariantID assignment)
                  (ProfileRuntimeVariants profile) of
             Some variant \<Rightarrow> EffectiveProfileForVariant profile variant
           | None \<Rightarrow> profile)"

fun minimumSufficientContext_loop :: "int \<Rightarrow> int \<Rightarrow> RuntimeModelVariant list \<Rightarrow> int" where
  "minimumSufficientContext_loop minContext best [] = best"
| "minimumSufficientContext_loop minContext best (v # vs) =
     (case (Variant_Requirements v, Variant_LLM v) of
        (Some _, Some llm) \<Rightarrow>
          (let ctx = LLM_ContextTokens llm in
           if ctx < minContext then minimumSufficientContext_loop minContext best vs
           else minimumSufficientContext_loop minContext (if best = 0 \<or> ctx < best then ctx else best) vs)
      | _ \<Rightarrow> minimumSufficientContext_loop minContext best vs)"

definition minimumSufficientContext :: "WorkloadProfile \<Rightarrow> int \<Rightarrow> int" where
  "minimumSufficientContext profile minContext =
     minimumSufficientContext_loop minContext 0 (ProfileRuntimeVariants profile)"

text \<open>
  \<^verbatim>\<open>ResolveLLMProfile\<close>: the candidates a profile contributes, then the first candidate in
  context order whose context suffices.
\<close>

datatype resolve_error = ModelNotFound | InsufficientContext

definition profileMatches :: "WorkloadProfile \<Rightarrow> string \<Rightarrow> bool" where
  "profileMatches profile model \<longleftrightarrow>
     Profile_ID profile = model \<or> Profile_Name profile = model \<or>
     Profile_Alias profile = model \<or> ProfileLogicalModel profile = model"

definition resolveCandidates ::
  "string \<Rightarrow> int \<Rightarrow> WorkloadProfile \<Rightarrow> (WorkloadProfile \<times> int) list" where
  "resolveCandidates model minContext profile =
     (if Profile_Kind profile \<noteq> ''llm.chat'' then []
      else if profileMatches profile model then
        (let ctx = minimumSufficientContext profile minContext
         in if ctx > 0 then [(profile, ctx)] else [])
      else concat (map (\<lambda>variant.
          if Variant_ID variant \<noteq> model \<and> Variant_Name variant \<noteq> model then []
          else (let effective = profile\<lparr>Profile_RuntimeVariants := [variant]\<rparr>;
                    ctx = minimumSufficientContext effective minContext
                in if ctx > 0 then [(effective, ctx)] else []))
        (ProfileRuntimeVariants profile)))"

definition ResolveLLMProfile :: "Database \<Rightarrow> string \<Rightarrow> int \<Rightarrow> resolve_error + WorkloadProfile" where
  "ResolveLLMProfile db model minContext =
     (let candidates = concat (map (resolveCandidates model minContext) (mvals (Profiles db)))
      in if candidates = [] then Inl ModelNotFound
         else case find (\<lambda>c. snd c \<ge> minContext) (sort_by (\<lambda>a b. snd a < snd b) candidates) of
                Some c \<Rightarrow> Inr (fst c)
              | None \<Rightarrow> Inl InsufficientContext)"

subsection \<open>Variants and effective profiles\<close>

lemma normalizeVariant_sel [simp]:
  "Variant_ID (normalizeVariant p v) =
     (if Variant_ID v \<noteq> [] then Variant_ID v
      else if Profile_RuntimeVariantID p \<noteq> [] then Profile_RuntimeVariantID p else Profile_ID p)"
  "Variant_Name (normalizeVariant p v) = Variant_Name v"
  "Variant_RuntimeAdapter (normalizeVariant p v) =
     (if Variant_RuntimeAdapter v = [] then Profile_RuntimeAdapter p else Variant_RuntimeAdapter v)"
  "Variant_Artifacts (normalizeVariant p v) =
     (if Variant_Artifacts v = [] then Profile_Artifacts p else Variant_Artifacts v)"
  "Variant_Requirements (normalizeVariant p v) =
     (if Variant_Requirements v = None then Profile_Requirements p else Variant_Requirements v)"
  "Variant_LLM (normalizeVariant p v) =
     (if Variant_LLM v = None then Profile_LLM p else Variant_LLM v)"
  "Variant_Runtime (normalizeVariant p v) =
     (if Llama_Args (Runtime_LlamaCpp (Variant_Runtime v)) = [] then Profile_Runtime p
      else Variant_Runtime v)"
  "Variant_Metadata (normalizeVariant p v) = Variant_Metadata v"
  by (simp_all add: normalizeVariant_def Let_def)

lemma normalizeVariant_idem [simp]:
  "normalizeVariant p (normalizeVariant p v) = normalizeVariant p v"
  by (rule RuntimeModelVariant.equality) (auto simp: normalizeVariant_def Let_def)

lemma EffectiveProfileForVariant_sel [simp]:
  "Profile_ID (EffectiveProfileForVariant p v) = Profile_ID p"
  "Profile_RuntimeVariants (EffectiveProfileForVariant p v) = []"
  "Profile_Kind (EffectiveProfileForVariant p v) = Profile_Kind p"
  "Profile_Version (EffectiveProfileForVariant p v) = Profile_Version p"
  "Profile_ComputeCost (EffectiveProfileForVariant p v) = Profile_ComputeCost p"
  "Profile_RuntimeVariantID (EffectiveProfileForVariant p v) = Variant_ID (normalizeVariant p v)"
  "Profile_Artifacts (EffectiveProfileForVariant p v) = Variant_Artifacts (normalizeVariant p v)"
  "Profile_Requirements (EffectiveProfileForVariant p v) = Variant_Requirements (normalizeVariant p v)"
  by (simp_all add: EffectiveProfileForVariant_def Let_def)

lemma EffectiveProfile_normalized [simp]:
  "EffectiveProfileForVariant p (normalizeVariant p v) = EffectiveProfileForVariant p v"
  by (simp add: EffectiveProfileForVariant_def)

lemma ProfileLogicalModel_effective [simp]:
  "ProfileLogicalModel (EffectiveProfileForVariant p v) = ProfileLogicalModel p"
  by (auto simp: EffectiveProfileForVariant_def ProfileLogicalModel_def Let_def)

lemma ProfileRuntimeVariants_nonempty [simp]: "ProfileRuntimeVariants p \<noteq> []"
  by (simp add: ProfileRuntimeVariants_def)

lemma ProfileRuntimeVariants_normal:
  "v \<in> set (ProfileRuntimeVariants p) \<Longrightarrow> normalizeVariant p v = v"
  by (auto simp: ProfileRuntimeVariants_def split: if_splits)

lemma ProfileRuntimeVariants_ID:
  "v \<in> set (ProfileRuntimeVariants p) \<Longrightarrow> Profile_ID p \<noteq> [] \<Longrightarrow> Variant_ID v \<noteq> []"
  by (metis ProfileRuntimeVariants_normal normalizeVariant_sel(1))

subsection \<open>The smallest sufficient context\<close>

text \<open>The contexts that the loop of \<^verbatim>\<open>minimumSufficientContext\<close> considers.\<close>

definition variantContext :: "int \<Rightarrow> RuntimeModelVariant \<Rightarrow> int option" where
  "variantContext m v =
     (case (Variant_Requirements v, Variant_LLM v) of
        (Some _, Some llm) \<Rightarrow> if LLM_ContextTokens llm < m then None else Some (LLM_ContextTokens llm)
      | _ \<Rightarrow> None)"

definition sufficientContexts :: "int \<Rightarrow> RuntimeModelVariant list \<Rightarrow> int set" where
  "sufficientContexts m vs = {c. \<exists>v \<in> set vs. variantContext m v = Some c}"

lemma variantContext_ge: "variantContext m v = Some c \<Longrightarrow> m \<le> c"
  by (auto simp: variantContext_def split: option.splits if_splits)

lemma context_loop_Cons:
  "minimumSufficientContext_loop m best (v # vs) =
     (case variantContext m v of
        None \<Rightarrow> minimumSufficientContext_loop m best vs
      | Some c \<Rightarrow> minimumSufficientContext_loop m (if best = 0 \<or> c < best then c else best) vs)"
  by (simp add: variantContext_def Let_def split: option.split)

lemma sufficientContexts_Nil [simp]: "sufficientContexts m [] = {}"
  by (simp add: sufficientContexts_def)

lemma sufficientContexts_Cons [simp]:
  "sufficientContexts m (v # vs) = set_option (variantContext m v) \<union> sufficientContexts m vs"
  by (auto simp: sufficientContexts_def)

lemma context_loop_in:
  "minimumSufficientContext_loop m best vs \<in> insert best (sufficientContexts m vs)"
proof (induction vs arbitrary: best)
  case (Cons v vs)
  show ?case
  proof (cases "variantContext m v")
    case None
    with Cons.IH [of best] show ?thesis by (simp add: context_loop_Cons del: minimumSufficientContext_loop.simps)
  next
    case (Some c)
    with Cons.IH [of c] Cons.IH [of best] show ?thesis
      by (auto simp: context_loop_Cons simp del: minimumSufficientContext_loop.simps)
  qed
qed simp

lemma context_loop_least:
  assumes "0 < m" and "0 \<le> best"
  shows "(\<forall>c \<in> sufficientContexts m vs. minimumSufficientContext_loop m best vs \<le> c) \<and>
    (best \<noteq> 0 \<longrightarrow> minimumSufficientContext_loop m best vs \<le> best) \<and>
    (minimumSufficientContext_loop m best vs = 0 \<longleftrightarrow> best = 0 \<and> sufficientContexts m vs = {})"
  using assms(2)
proof (induction vs arbitrary: best)
  case (Cons v vs)
  show ?case
  proof (cases "variantContext m v")
    case None
    with Cons.IH [OF Cons.prems] show ?thesis
      by (simp add: context_loop_Cons del: minimumSufficientContext_loop.simps)
  next
    case (Some c)
    define best' where "best' = (if best = 0 \<or> c < best then c else best)"
    have b: "0 \<le> best'" "best' \<noteq> 0" "best' \<le> c" "best \<noteq> 0 \<Longrightarrow> best' \<le> best"
      using variantContext_ge [OF Some] assms Cons.prems by (auto simp: best'_def)
    have "minimumSufficientContext_loop m best (v # vs) = minimumSufficientContext_loop m best' vs"
      using Some by (simp add: context_loop_Cons best'_def del: minimumSufficientContext_loop.simps)
    with Cons.IH [OF b(1)] b Some show ?thesis
      by (force simp del: minimumSufficientContext_loop.simps)
  qed
qed simp

lemma minimumSufficientContext_ge:
  "0 < minimumSufficientContext p m \<Longrightarrow> m \<le> minimumSufficientContext p m"
  using context_loop_in [of m 0 "ProfileRuntimeVariants p"]
  by (auto simp: minimumSufficientContext_def sufficientContexts_def dest: variantContext_ge)

lemma minimumSufficientContext_pos:
  assumes "0 < m"
  shows "0 < minimumSufficientContext p m \<longleftrightarrow> sufficientContexts m (ProfileRuntimeVariants p) \<noteq> {}"
proof -
  have "minimumSufficientContext p m = 0 \<or> m \<le> minimumSufficientContext p m"
    using context_loop_in [of m 0 "ProfileRuntimeVariants p"]
    by (auto simp: minimumSufficientContext_def sufficientContexts_def dest: variantContext_ge)
  then show ?thesis
    using context_loop_least [OF assms order_refl, of "ProfileRuntimeVariants p"] assms
    by (auto simp: minimumSufficientContext_def)
qed

subsection \<open>Model resolution\<close>

interpretation resolve_order: key_order "\<lambda>a b :: WorkloadProfile \<times> int. snd a < snd b" snd
  by unfold_locales simp

lemma resolveCandidates_context:
  "(p, ctx) \<in> set (resolveCandidates model m q) \<Longrightarrow>
     ctx = minimumSufficientContext p m \<and> 0 < ctx \<and> m \<le> ctx \<and> Profile_Kind p = ''llm.chat''"
  by (auto simp: resolveCandidates_def Let_def minimumSufficientContext_ge split: if_splits)

lemma resolveCandidates_origin:
  assumes "(p, ctx) \<in> set (resolveCandidates model m q)"
  shows "p = q \<and> profileMatches q model \<or>
    (\<exists>v \<in> set (ProfileRuntimeVariants q). p = q\<lparr>Profile_RuntimeVariants := [v]\<rparr> \<and>
       (Variant_ID v = model \<or> Variant_Name v = model))"
  using assms by (auto simp: resolveCandidates_def Let_def split: if_splits)

lemma resolveCandidates_match:
  "Profile_Kind q = ''llm.chat'' \<Longrightarrow> profileMatches q model \<Longrightarrow> 0 < minimumSufficientContext q m \<Longrightarrow>
     (q, minimumSufficientContext q m) \<in> set (resolveCandidates model m q)"
  by (simp add: resolveCandidates_def Let_def)

text \<open>Resolution picks a candidate of least context, and fails only without candidates.\<close>

lemma ResolveLLMProfile_cases:
  fixes db model m
  defines "cs \<equiv> concat (map (resolveCandidates model m) (mvals (Profiles db)))"
  shows "cs = [] \<and> ResolveLLMProfile db model m = Inl ModelNotFound \<or>
    (\<exists>c \<in> set cs. ResolveLLMProfile db model m = Inr (fst c) \<and> (\<forall>c' \<in> set cs. snd c \<le> snd c'))"
proof (cases "cs = []")
  case True
  then show ?thesis by (simp add: ResolveLLMProfile_def cs_def)
next
  case False
  then obtain c rest where srt: "sort_by (\<lambda>a b. snd a < snd b) cs = c # rest"
    by (metis list.exhaust length_0_conv length_sort_by)
  then have c: "c \<in> set cs"
    by (metis list.set_intros(1) set_sort_by)
  then obtain q where "c \<in> set (resolveCandidates model m q)"
    by (auto simp: cs_def)
  then have "m \<le> snd c"
    using resolveCandidates_context [of "fst c" "snd c" model m q] by simp
  then have "ResolveLLMProfile db model m = Inr (fst c)"
    using False srt by (simp add: ResolveLLMProfile_def cs_def Let_def)
  moreover have "\<forall>c' \<in> set cs. snd c \<le> snd c'"
    using resolve_order.hd_minimal [OF srt] by force
  ultimately show ?thesis
    using c by blast
qed

subsection \<open>Properties\<close>

text \<open>A resolved profile is a chat profile that the client named, by its identifier, name,
  alias or logical model, or through one of its variants; its context is at least the
  requested minimum, and no other chat profile that the name matches has a smaller
  sufficient context.\<close>

theorem ResolveLLMProfile_best:
  assumes "ResolveLLMProfile db model m = Inr p"
  shows "Profile_Kind p = ''llm.chat'' \<and>
    (\<exists>q \<in> set (mvals (Profiles db)). p = q \<and> profileMatches q model \<or>
       (\<exists>v \<in> set (ProfileRuntimeVariants q). p = q\<lparr>Profile_RuntimeVariants := [v]\<rparr> \<and>
          (Variant_ID v = model \<or> Variant_Name v = model))) \<and>
    m \<le> minimumSufficientContext p m \<and>
    (\<forall>q \<in> set (mvals (Profiles db)). Profile_Kind q = ''llm.chat'' \<longrightarrow> profileMatches q model \<longrightarrow>
       0 < minimumSufficientContext q m \<longrightarrow> minimumSufficientContext p m \<le> minimumSufficientContext q m)"
proof -
  let ?cs = "concat (map (resolveCandidates model m) (mvals (Profiles db)))"
  obtain c where c: "c \<in> set ?cs" "p = fst c" "\<forall>c' \<in> set ?cs. snd c \<le> snd c'"
    using ResolveLLMProfile_cases [of model m db] assms by auto
  then obtain q where q: "q \<in> set (mvals (Profiles db))" "(p, snd c) \<in> set (resolveCandidates model m q)"
    by auto
  note ctx = resolveCandidates_context [OF q(2)] and origin = resolveCandidates_origin [OF q(2)]
  have least: "snd c \<le> minimumSufficientContext q' m"
    if "q' \<in> set (mvals (Profiles db))" "Profile_Kind q' = ''llm.chat''" "profileMatches q' model"
      "0 < minimumSufficientContext q' m" for q'
    using c(3) resolveCandidates_match [OF that(2-4)] that(1) by force
  show ?thesis
  proof (intro conjI ballI impI)
    show "\<exists>q \<in> set (mvals (Profiles db)). p = q \<and> profileMatches q model \<or>
       (\<exists>v \<in> set (ProfileRuntimeVariants q). p = q\<lparr>Profile_RuntimeVariants := [v]\<rparr> \<and>
          (Variant_ID v = model \<or> Variant_Name v = model))"
      by (rule bexI [of _ q]) (rule origin, rule q(1))
  qed (use ctx least in simp_all)
qed

theorem ResolveLLMProfile_best_witness:
  "ResolveLLMProfile sample_db ''chat'' 5000 = Inr sample_profile_large \<and>
   5000 \<le> minimumSufficientContext sample_profile_large 5000"
proof -
  have r: "ResolveLLMProfile sample_db ''chat'' 5000 = Inr sample_profile_large"
    by code_simp
  show ?thesis
    using r ResolveLLMProfile_best [OF r] by blast
qed

text \<open>Resolution never reports \<^verbatim>\<open>insufficient_context\<close>: a candidate's context is sufficient
  by construction, so a name without a sufficient context is \<^verbatim>\<open>model_not_found\<close>; and a chat
  profile that the name matches and one of whose variants has enough context makes
  resolution succeed.\<close>

theorem ResolveLLMProfile_errors:
  assumes "0 < m"
  shows "ResolveLLMProfile db model m \<noteq> Inl InsufficientContext \<and>
    (\<forall>q \<in> set (mvals (Profiles db)). Profile_Kind q = ''llm.chat'' \<longrightarrow> profileMatches q model \<longrightarrow>
       sufficientContexts m (ProfileRuntimeVariants q) \<noteq> {} \<longrightarrow>
       (\<exists>p. ResolveLLMProfile db model m = Inr p))"
proof -
  let ?cs = "concat (map (resolveCandidates model m) (mvals (Profiles db)))"
  note cases = ResolveLLMProfile_cases [of model m db]
  have "?cs \<noteq> []" if "q \<in> set (mvals (Profiles db))" "Profile_Kind q = ''llm.chat''"
      "profileMatches q model" "sufficientContexts m (ProfileRuntimeVariants q) \<noteq> {}" for q
    using resolveCandidates_match [OF that(2,3)] minimumSufficientContext_pos [OF assms, of q] that
    by force
  with cases show ?thesis
    by (metis Inl_Inr_False resolve_error.distinct(1) sum.inject(1))
qed

theorem ResolveLLMProfile_errors_witness:
  "0 < (9000::int) \<and> ResolveLLMProfile sample_db ''chat'' 9000 = Inl ModelNotFound \<and>
   ResolveLLMProfile sample_db ''chat'' 9000 \<noteq> Inl InsufficientContext"
proof -
  have h: "0 < (9000::int)" by simp
  have "ResolveLLMProfile sample_db ''chat'' 9000 = Inl ModelNotFound"
    by code_simp
  then show ?thesis
    using h ResolveLLMProfile_errors [OF h, of sample_db "''chat''"] by blast
qed

end
