(* ===== verification/Fit.thy ===== *)
theory Fit
  imports Profiles
begin

section \<open>Fitting a profile to a slot (fit.go, profile_fit.go)\<close>

text \<open>
  The admission checks that decide whether a profile can run on a slot of a node, the choice
  of a runtime variant for a slot, the fit matrix of the admin API and the assignment record
  made from a fit. A check appends its failure reasons to the result (\<^verbatim>\<open>markFit\<close>).
\<close>

definition newFitResult :: "WorkloadProfile \<Rightarrow> Node \<Rightarrow> Slot \<Rightarrow> FitResult" where
  "newFitResult profile node slot =
     zero_FitResult\<lparr>Fit_ProfileID := Profile_ID profile,
       Fit_LogicalModel := ProfileLogicalModel profile,
       Fit_RuntimeVariantID := Profile_RuntimeVariantID profile,
       Fit_SlotID := Slot_ID slot,
       Fit_NodeID := Node_ID node,
       Fit_Fits := True\<rparr>"

definition markFit :: "string \<Rightarrow> FitResult \<Rightarrow> FitResult" where
  "markFit reason result =
     result\<lparr>Fit_Fits := False, Fit_Reasons := Fit_Reasons result @ [reason]\<rparr>"

definition markFitIf :: "bool \<Rightarrow> string \<Rightarrow> FitResult \<Rightarrow> FitResult" where
  "markFitIf cond reason result = (if cond then markFit reason result else result)"

definition checkNodeAdmission :: "Node \<Rightarrow> Slot \<Rightarrow> Requirements \<Rightarrow> FitResult \<Rightarrow> FitResult" where
  "checkNodeAdmission node slot req result =
     markFitIf (\<not> HasAll (Node_Tags node) (Req_RequireTags req)) ''missing_required_tags''
    (markFitIf (Req_Target req \<noteq> [] \<and> Slot_Target slot \<noteq> Req_Target req) FailureTargetUnsupported
    (markFitIf (\<not> Node_Approved node) ''node_not_approved''
    (markFitIf (Slot_Quarantined slot) FailureQuarantined
    (markFitIf (Node_Quarantined node) FailureQuarantined
    (markFitIf (Node_State node = NodeStateDisabled \<or> Node_Mode node = ''disabled'') ''node_disabled''
       result)))))"

definition requiredAdapter :: "WorkloadProfile \<Rightarrow> Requirements \<Rightarrow> string" where
  "requiredAdapter profile req =
     (if Req_RuntimeAdapter req = [] then Profile_RuntimeAdapter profile else Req_RuntimeAdapter req)"

definition checkRuntimeAdapter ::
  "WorkloadProfile \<Rightarrow> Node \<Rightarrow> Slot \<Rightarrow> Requirements \<Rightarrow> FitResult \<Rightarrow> FitResult" where
  "checkRuntimeAdapter profile node slot req result =
     (let adapter = requiredAdapter profile req in
      if adapter = [] then result
      else if Slot_RuntimeAdapter slot \<noteq> [] \<and> Slot_RuntimeAdapter slot \<noteq> adapter
        then markFit FailureRuntimeAdapterMissing result
      else if \<not> Contains (Node_RuntimeAdapters node) adapter
        then markFit FailureRuntimeAdapterMissing result
      else result)"

text \<open>A requirement counts only where both it and the budget are set.\<close>

definition exhausted :: "int \<Rightarrow> int \<Rightarrow> bool" where
  "exhausted need avail \<longleftrightarrow> need > 0 \<and> avail > 0 \<and> avail < need"

definition checkResources :: "ResourceBudget \<Rightarrow> Requirements \<Rightarrow> FitResult \<Rightarrow> FitResult" where
  "checkResources resources req result =
     markFitIf (exhausted (Req_DiskBytes req) (Budget_DiskBytes resources)) FailureResourceExhaustedDisk
    (markFitIf (exhausted (Req_UnifiedMemoryBytes req) (Budget_UnifiedMemoryBytes resources))
       ''resource_exhausted_unified_memory''
    (markFitIf (exhausted (Req_VRAMBytes req) (Budget_VRAMBytes resources)) FailureResourceExhaustedVRAM
    (markFitIf (exhausted (Req_RAMBytes req) (Budget_RAMBytes resources)) FailureResourceExhaustedRAM
       result)))"

definition checkLLMRequirements :: "WorkloadProfile \<Rightarrow> FitResult \<Rightarrow> FitResult" where
  "checkLLMRequirements profile result =
     (if Profile_Kind profile \<noteq> ''llm.chat'' then result
      else if Profile_LLM profile = None then markFit ''missing_llm_section'' result
      else markFitIf (ConcreteModelArtifactID profile = []) ''missing_model_artifact'' result)"

text \<open>
  \<^verbatim>\<open>FitProfileToSlot\<close> and \<^verbatim>\<open>BestVariantForSlot\<close> call each other: the first calls the second on
  a profile with variants, the second calls the first on effective profiles, which have
  none. \<open>fitConcrete\<close> is the part of \<^verbatim>\<open>FitProfileToSlot\<close> below its first \<^verbatim>\<open>if\<close>, so the two
  are defined one after the other; \<open>FitProfileToSlot_rec\<close> and \<open>BestVariantForSlot_rec\<close> below
  are the equations of the source.
\<close>

definition fitConcrete :: "WorkloadProfile \<Rightarrow> Node \<Rightarrow> Slot \<Rightarrow> FitResult" where
  "fitConcrete profile node slot =
     (let result = newFitResult profile node slot in
      case Profile_Requirements profile of
        None \<Rightarrow> markFit FailureUnknownRequirements result
      | Some req \<Rightarrow>
          (let result' = checkLLMRequirements profile
                 (checkResources (Slot_Resources slot) req
                 (checkRuntimeAdapter profile node slot req
                 (checkNodeAdmission node slot req result)))
           in if length (Fit_Reasons result') > 0
              then result'\<lparr>Fit_Reasons := sort (Fit_Reasons result')\<rparr> else result'))"

fun bestVariant_loop ::
  "WorkloadProfile \<Rightarrow> Node \<Rightarrow> Slot \<Rightarrow> WorkloadProfile \<Rightarrow> FitResult \<Rightarrow> string list \<Rightarrow>
   RuntimeModelVariant list \<Rightarrow> WorkloadProfile \<times> FitResult" where
  "bestVariant_loop profile node slot best bestFit miss [] =
     (let best' = (if Profile_ID best = [] then profile else best);
          fit1 = (if Fit_ProfileID bestFit = []
                  then zero_FitResult\<lparr>Fit_ProfileID := Profile_ID profile,
                         Fit_LogicalModel := ProfileLogicalModel profile,
                         Fit_SlotID := Slot_ID slot, Fit_NodeID := Node_ID node,
                         Fit_Fits := False, Fit_Reasons := [FailureUnknownRequirements]\<rparr>
                  else bestFit);
          fit2 = (if length miss > 0
                  then fit1\<lparr>Fit_Reasons := uniqueSorted miss, Fit_Fits := False\<rparr> else fit1)
      in (best', fit2))"
| "bestVariant_loop profile node slot best bestFit miss (v # vs) =
     (let effective = EffectiveProfileForVariant profile v;
          fit = fitConcrete effective node slot
      in if Fit_Fits fit then (effective, fit)
         else bestVariant_loop profile node slot effective fit (miss @ Fit_Reasons fit) vs)"

definition BestVariantForSlot :: "WorkloadProfile \<Rightarrow> Node \<Rightarrow> Slot \<Rightarrow> WorkloadProfile \<times> FitResult" where
  "BestVariantForSlot profile node slot =
     bestVariant_loop profile node slot zero_WorkloadProfile zero_FitResult []
       (ProfileRuntimeVariants profile)"

definition FitProfileToSlot :: "WorkloadProfile \<Rightarrow> Node \<Rightarrow> Slot \<Rightarrow> FitResult" where
  "FitProfileToSlot profile node slot =
     (if Profile_RuntimeVariantID profile = [] \<and> length (Profile_RuntimeVariants profile) > 0
      then (let (effective, fit) = BestVariantForSlot profile node slot
            in if Fit_Fits fit then fitConcrete effective node slot else fit)
      else fitConcrete profile node slot)"

definition isLlamaCppAdapter :: "string \<Rightarrow> bool" where
  "isLlamaCppAdapter adapter \<longleftrightarrow> ContainsSub (ToLower adapter) ''llama.cpp''"

subsection \<open>Sorted tables and the fit matrix (store.go, sort.go, fit.go)\<close>

definition sortNodes :: "Node list \<Rightarrow> Node list" where
  "sortNodes v = sort_by (\<lambda>a b. Node_ID a < Node_ID b) v"

definition sortSlots :: "Slot list \<Rightarrow> Slot list" where
  "sortSlots v = sort_by (\<lambda>a b. Slot_ID a < Slot_ID b) v"

definition sortProfiles :: "WorkloadProfile list \<Rightarrow> WorkloadProfile list" where
  "sortProfiles v = sort_by (\<lambda>a b. Profile_ID a < Profile_ID b) v"

definition sortPolicies :: "PlacementPolicy list \<Rightarrow> PlacementPolicy list" where
  "sortPolicies v = sort_by (\<lambda>a b. Policy_ID a < Policy_ID b) v"

definition sortAssignments :: "PlacementAssignment list \<Rightarrow> PlacementAssignment list" where
  "sortAssignments v = sort_by (\<lambda>a b.
     if Asg_ProfileID a = Asg_ProfileID b then Asg_SlotID a < Asg_SlotID b
     else Asg_ProfileID a < Asg_ProfileID b) v"

definition SortedNodes :: "Database \<Rightarrow> Node list" where
  "SortedNodes db = sortNodes (mvals (Nodes db))"

definition SortedSlots :: "Database \<Rightarrow> Slot list" where
  "SortedSlots db = sortSlots (mvals (Slots db))"

definition SortedProfiles :: "Database \<Rightarrow> WorkloadProfile list" where
  "SortedProfiles db = sortProfiles (mvals (Profiles db))"

definition SortedPolicies :: "Database \<Rightarrow> PlacementPolicy list" where
  "SortedPolicies db = sortPolicies (mvals (Policies db))"

definition SortedAssignments :: "Database \<Rightarrow> PlacementAssignment list" where
  "SortedAssignments db = sortAssignments (mvals (Assignments db))"

definition nodeMissingFit :: "WorkloadProfile \<Rightarrow> Slot \<Rightarrow> FitResult" where
  "nodeMissingFit profile slot =
     zero_FitResult\<lparr>Fit_ProfileID := Profile_ID profile, Fit_LogicalModel := ProfileLogicalModel profile,
       Fit_SlotID := Slot_ID slot, Fit_NodeID := Slot_NodeID slot,
       Fit_Fits := False, Fit_Reasons := [''node_missing'']\<rparr>"

definition BuildFitMatrix :: "Database \<Rightarrow> FitResult list" where
  "BuildFitMatrix db =
     concat (map (\<lambda>profile. concat (map (\<lambda>slot.
       (case map_of (Nodes db) (Slot_NodeID slot) of
          None \<Rightarrow> [nodeMissingFit profile slot]
        | Some node \<Rightarrow>
            map (\<lambda>variant. FitProfileToSlot (EffectiveProfileForVariant profile variant) node slot)
              (ProfileRuntimeVariants profile)))
       (SortedSlots db))) (SortedProfiles db))"

subsection \<open>Assignments from a fit\<close>

definition assignmentID :: "string \<Rightarrow> string \<Rightarrow> string \<Rightarrow> string" where
  "assignmentID profileID nodeID slotID =
     ''asg_'' @ ReplaceSeparators (profileID @ ''_'' @ nodeID @ ''_'' @ slotID)"

definition slotProfileCurrent :: "Slot \<Rightarrow> string \<Rightarrow> WorkloadProfile \<Rightarrow> bool" where
  "slotProfileCurrent slot profileID profile \<longleftrightarrow>
     Slot_ProfileID slot = profileID \<and>
     Slot_ProfileVersion slot = profileVersion profile \<and>
     Slot_LogicalModel slot = ProfileLogicalModel profile \<and>
     Slot_RuntimeVariantID slot = Profile_RuntimeVariantID profile \<and>
     Slot_ModelArtifactID slot = ConcreteModelArtifactID profile \<and>
     Slot_ModelSHA256 slot = ConcreteModelSHA256 profile"

definition assignmentFromFit ::
  "string \<Rightarrow> WorkloadProfile \<Rightarrow> Slot \<Rightarrow> FitResult \<Rightarrow> time \<Rightarrow> PlacementAssignment" where
  "assignmentFromFit profileID profile slot fit now =
     (let current = slotProfileCurrent slot profileID profile;
          state = Slot_State slot;
          a0 = zero_PlacementAssignment\<lparr>
            Asg_ID := assignmentID profileID (Slot_NodeID slot) (Slot_ID slot),
            Asg_ProfileID := profileID,
            Asg_LogicalModel := ProfileLogicalModel profile,
            Asg_RuntimeVariantID := Profile_RuntimeVariantID profile,
            Asg_ModelArtifactID := ConcreteModelArtifactID profile,
            Asg_ModelSHA256 := ConcreteModelSHA256 profile,
            Asg_NodeID := Slot_NodeID slot,
            Asg_SlotID := Slot_ID slot,
            Asg_ActualCached := current \<and> (state = SlotStateCached \<or> state = SlotStateWarming \<or>
              state = SlotStateReady \<or> state = SlotStateServing),
            Asg_ActualWarm := current \<and> (state = SlotStateReady \<or> state = SlotStateServing),
            Asg_Ready := current \<and> state = SlotStateReady \<and> Slot_ActiveTaskID slot = [] \<and>
              \<not> Slot_Quarantined slot,
            Asg_MismatchReason := [],
            Asg_UpdatedAt := now\<rparr>;
          a1 = (if \<not> Fit_Fits fit then a0\<lparr>Asg_MismatchReason := Join (Fit_Reasons fit) '',''\<rparr> else a0)
      in if Asg_MismatchReason a1 = [] \<and> Asg_DesiredWarm a1 \<and> \<not> Asg_ActualWarm a1
         then a1\<lparr>Asg_MismatchReason := Slot_MismatchReason slot\<rparr> else a1)"

subsection \<open>What a fit result says\<close>

lemma markFit_sel [simp]:
  "Fit_Fits (markFit r x) = False"
  "Fit_Reasons (markFit r x) = Fit_Reasons x @ [r]"
  "Fit_ProfileID (markFit r x) = Fit_ProfileID x"
  by (simp_all add: markFit_def)

lemma markFitIf_sel [simp]:
  "Fit_Fits (markFitIf c r x) = (\<not> c \<and> Fit_Fits x)"
  "Fit_Reasons (markFitIf c r x) = Fit_Reasons x @ (if c then [r] else [])"
  "Fit_ProfileID (markFitIf c r x) = Fit_ProfileID x"
  by (simp_all add: markFitIf_def)

lemma newFitResult_sel [simp]:
  "Fit_Fits (newFitResult p n s) = True"
  "Fit_Reasons (newFitResult p n s) = []"
  "Fit_ProfileID (newFitResult p n s) = Profile_ID p"
  by (simp_all add: newFitResult_def)

text \<open>
  A well-formed result: it fits exactly when it has no reasons, and every reason is a
  non-empty string. Every check keeps this.
\<close>

definition fit_wf :: "FitResult \<Rightarrow> bool" where
  "fit_wf f \<longleftrightarrow> (Fit_Fits f \<longleftrightarrow> Fit_Reasons f = []) \<and> [] \<notin> set (Fit_Reasons f)"

lemma fit_wf_new [simp]: "fit_wf (newFitResult p n s)"
  by (simp add: fit_wf_def)

lemma fit_wf_markFit [simp]: "r \<noteq> [] \<Longrightarrow> fit_wf x \<Longrightarrow> fit_wf (markFit r x)"
  by (auto simp: fit_wf_def)

lemma fit_wf_markFitIf [simp]: "r \<noteq> [] \<Longrightarrow> fit_wf x \<Longrightarrow> fit_wf (markFitIf c r x)"
  by (auto simp: fit_wf_def)

lemma fit_wf_checks [simp]:
  "fit_wf x \<Longrightarrow> fit_wf (checkNodeAdmission node slot req x)"
  "fit_wf x \<Longrightarrow> fit_wf (checkRuntimeAdapter profile node slot req x)"
  "fit_wf x \<Longrightarrow> fit_wf (checkResources resources req x)"
  "fit_wf x \<Longrightarrow> fit_wf (checkLLMRequirements profile x)"
  by (simp_all add: checkNodeAdmission_def checkRuntimeAdapter_def checkResources_def
      checkLLMRequirements_def Let_def)

lemma fit_wf_sorted [simp]: "fit_wf (x\<lparr>Fit_Reasons := sort (Fit_Reasons x)\<rparr>) = fit_wf x"
proof -
  have "sort (Fit_Reasons x) = [] \<longleftrightarrow> Fit_Reasons x = []"
    by (metis set_empty set_sort)
  then show ?thesis by (simp add: fit_wf_def)
qed

lemma fit_wf_concrete [simp]: "fit_wf (fitConcrete p n s)"
  by (simp add: fitConcrete_def Let_def split: option.split)

lemma fitConcrete_ProfileID [simp]: "Fit_ProfileID (fitConcrete p n s) = Profile_ID p"
  by (simp add: fitConcrete_def checkNodeAdmission_def checkRuntimeAdapter_def checkResources_def
      checkLLMRequirements_def Let_def split: option.split)

text \<open>The admission conditions, stated declaratively.\<close>

definition admissible :: "WorkloadProfile \<Rightarrow> Node \<Rightarrow> Slot \<Rightarrow> Requirements \<Rightarrow> bool" where
  "admissible p node slot req \<longleftrightarrow>
     Node_State node \<noteq> NodeStateDisabled \<and> Node_Mode node \<noteq> ''disabled'' \<and>
     \<not> Node_Quarantined node \<and> \<not> Slot_Quarantined slot \<and> Node_Approved node \<and>
     (Req_Target req = [] \<or> Slot_Target slot = Req_Target req) \<and>
     set (Req_RequireTags req) \<subseteq> set (Node_Tags node) \<and>
     (requiredAdapter p req = [] \<or>
       (Slot_RuntimeAdapter slot = [] \<or> Slot_RuntimeAdapter slot = requiredAdapter p req) \<and>
       requiredAdapter p req \<in> set (Node_RuntimeAdapters node)) \<and>
     \<not> exhausted (Req_RAMBytes req) (Budget_RAMBytes (Slot_Resources slot)) \<and>
     \<not> exhausted (Req_VRAMBytes req) (Budget_VRAMBytes (Slot_Resources slot)) \<and>
     \<not> exhausted (Req_UnifiedMemoryBytes req) (Budget_UnifiedMemoryBytes (Slot_Resources slot)) \<and>
     \<not> exhausted (Req_DiskBytes req) (Budget_DiskBytes (Slot_Resources slot)) \<and>
     (Profile_Kind p = ''llm.chat'' \<longrightarrow> Profile_LLM p \<noteq> None \<and> ConcreteModelArtifactID p \<noteq> [])"

lemma fitConcrete_fits:
  "Fit_Fits (fitConcrete p n s) \<longleftrightarrow>
     (\<exists>req. Profile_Requirements p = Some req \<and> admissible p n s req)"
proof (cases "Profile_Requirements p")
  case (Some req)
  have "Fit_Fits (fitConcrete p n s) = Fit_Fits (checkLLMRequirements p
      (checkResources (Slot_Resources s) req (checkRuntimeAdapter p n s req
      (checkNodeAdmission n s req (newFitResult p n s)))))"
    by (simp add: fitConcrete_def Some Let_def)
  also have "\<dots> \<longleftrightarrow> admissible p n s req"
    by (auto simp: checkNodeAdmission_def checkRuntimeAdapter_def checkResources_def
        checkLLMRequirements_def admissible_def Let_def)
  finally show ?thesis by (simp add: Some)
qed (simp add: fitConcrete_def Let_def)

subsection \<open>The choice of a variant\<close>

lemma bestVariant_loop_fits:
  "(case bestVariant_loop p n s best bestFit miss vs of (e, f) \<Rightarrow>
      Fit_Fits f \<and> (\<exists>v \<in> set vs. e = EffectiveProfileForVariant p v \<and> f = fitConcrete e n s) \<or>
      \<not> Fit_Fits f \<and> (\<forall>v \<in> set vs. \<not> Fit_Fits (fitConcrete (EffectiveProfileForVariant p v) n s)))"
  if "miss \<noteq> [] \<or> vs \<noteq> []"
  using that
proof (induction vs arbitrary: best bestFit miss)
  case Nil
  then show ?case by (simp add: Let_def)
next
  case (Cons v vs)
  define e where "e = EffectiveProfileForVariant p v"
  show ?case
  proof (cases "Fit_Fits (fitConcrete e n s)")
    case True
    then show ?thesis by (auto simp: Let_def e_def)
  next
    case False
    then have "Fit_Reasons (fitConcrete e n s) \<noteq> []"
      using fit_wf_concrete [of e n s] by (simp add: fit_wf_def)
    with Cons.IH [of "miss @ Fit_Reasons (fitConcrete e n s)" e "fitConcrete e n s"] False
    show ?thesis by (auto simp: Let_def e_def)
  qed
qed

lemma BestVariantForSlot_cases:
  obtains (fits) v where "v \<in> set (ProfileRuntimeVariants p)"
      "BestVariantForSlot p n s = (EffectiveProfileForVariant p v, fitConcrete (EffectiveProfileForVariant p v) n s)"
      "Fit_Fits (fitConcrete (EffectiveProfileForVariant p v) n s)"
  | (none) "\<not> Fit_Fits (snd (BestVariantForSlot p n s))"
      "\<forall>v \<in> set (ProfileRuntimeVariants p). \<not> Fit_Fits (fitConcrete (EffectiveProfileForVariant p v) n s)"
proof -
  have "ProfileRuntimeVariants p \<noteq> []" by simp
  then show ?thesis
    using bestVariant_loop_fits [of "[]" "ProfileRuntimeVariants p" p n s zero_WorkloadProfile zero_FitResult]
      that unfolding BestVariantForSlot_def by (auto split: prod.splits)
qed

lemma FitProfileToSlot_concrete:
  "Profile_RuntimeVariants p = [] \<Longrightarrow> FitProfileToSlot p n s = fitConcrete p n s"
  by (simp add: FitProfileToSlot_def)

lemma FitProfileToSlot_effective [simp]:
  "FitProfileToSlot (EffectiveProfileForVariant p v) n s = fitConcrete (EffectiveProfileForVariant p v) n s"
  by (simp add: FitProfileToSlot_def)

lemma fit_wf_bestVariant_loop:
  assumes "miss \<noteq> [] \<or> vs \<noteq> []" and "[] \<notin> set miss"
  shows "fit_wf (snd (bestVariant_loop p n s best bestFit miss vs))"
  using assms
proof (induction vs arbitrary: best bestFit miss)
  case Nil
  then show ?case
    by (cases miss) (auto simp: Let_def fit_wf_def uniqueSorted_Nil_iff)
next
  case (Cons v vs)
  define f where "f = fitConcrete (EffectiveProfileForVariant p v) n s"
  have f: "fit_wf f" by (simp add: f_def)
  show ?case
  proof (cases "Fit_Fits f")
    case True
    with f show ?thesis by (simp add: Let_def f_def)
  next
    case False
    with f have "Fit_Reasons f \<noteq> []" "[] \<notin> set (Fit_Reasons f)"
      by (auto simp: fit_wf_def)
    with Cons.IH [of "miss @ Fit_Reasons f" "EffectiveProfileForVariant p v" f] Cons.prems False
    show ?thesis by (auto simp: Let_def f_def)
  qed
qed

lemma fit_wf_FitProfileToSlot: "fit_wf (FitProfileToSlot p n s)"
  using fit_wf_bestVariant_loop [of "[]" "ProfileRuntimeVariants p" p n s zero_WorkloadProfile zero_FitResult]
  by (auto simp: FitProfileToSlot_def BestVariantForSlot_def Let_def split: prod.splits)

text \<open>The equations of the source, in which the two functions call each other.\<close>

lemma FitProfileToSlot_rec:
  "FitProfileToSlot p n s =
     (if Profile_RuntimeVariantID p = [] \<and> length (Profile_RuntimeVariants p) > 0
      then (let (effective, fit) = BestVariantForSlot p n s
            in if Fit_Fits fit then FitProfileToSlot effective n s else fit)
      else fitConcrete p n s)"
proof -
  have "Fit_Fits (snd (BestVariantForSlot p n s)) \<Longrightarrow>
      FitProfileToSlot (fst (BestVariantForSlot p n s)) n s = fitConcrete (fst (BestVariantForSlot p n s)) n s"
    by (cases rule: BestVariantForSlot_cases [of p n s]) auto
  then show ?thesis
    by (subst FitProfileToSlot_def) (auto simp: Let_def split: prod.split)
qed

lemma BestVariantForSlot_rec:
  "bestVariant_loop p n s best bestFit miss (v # vs) =
     (let effective = EffectiveProfileForVariant p v;
          fit = FitProfileToSlot effective n s
      in if Fit_Fits fit then (effective, fit)
         else bestVariant_loop p n s effective fit (miss @ Fit_Reasons fit) vs)"
  by (simp add: Let_def)

subsection \<open>Properties\<close>

text \<open>C25: a profile fits a slot exactly when the admission conditions hold for it or, for a
  profile that leaves the variant open, for the effective profile of one of its variants.\<close>

theorem FitProfileToSlot_iff:
  "Fit_Fits (FitProfileToSlot p n s) \<longleftrightarrow>
     (if Profile_RuntimeVariantID p = [] \<and> Profile_RuntimeVariants p \<noteq> []
      then \<exists>v \<in> set (ProfileRuntimeVariants p). \<exists>req.
        Profile_Requirements (EffectiveProfileForVariant p v) = Some req \<and>
        admissible (EffectiveProfileForVariant p v) n s req
      else \<exists>req. Profile_Requirements p = Some req \<and> admissible p n s req)"
proof (cases "Profile_RuntimeVariantID p = [] \<and> Profile_RuntimeVariants p \<noteq> []")
  case True
  have "Fit_Fits (FitProfileToSlot p n s) \<longleftrightarrow>
      (\<exists>v \<in> set (ProfileRuntimeVariants p). Fit_Fits (fitConcrete (EffectiveProfileForVariant p v) n s))"
    using True by (cases rule: BestVariantForSlot_cases [of p n s])
      (auto simp: FitProfileToSlot_def Let_def split: prod.splits)
  with True show ?thesis
    by (simp only: fitConcrete_fits if_True simp_thms)
next
  case False
  then show ?thesis
    by (simp only: FitProfileToSlot_def length_greater_0_conv fitConcrete_fits if_False)
qed

text \<open>A fit result carries a reason exactly when it does not fit, and no reason is empty,
  so joining the reasons into an assignment's mismatch reason never loses a rejection.\<close>

theorem FitProfileToSlot_reasons:
  "(Fit_Fits (FitProfileToSlot p n s) \<longleftrightarrow> Fit_Reasons (FitProfileToSlot p n s) = []) \<and>
   [] \<notin> set (Fit_Reasons (FitProfileToSlot p n s))"
  using fit_wf_FitProfileToSlot [of p n s] by (simp add: fit_wf_def)

end
