(* ===== verification/Store.thy ===== *)
theory Store
  imports Samples
begin

section \<open>The state store (store.go, store_clone.go, sort.go)\<close>

text \<open>
  The manager keeps one database in memory behind a mutex and saves the whole of it after
  every update. A \<open>Store\<close> is that database with what the backend last saved. The backend
  (a JSON file, SQLite or PostgreSQL) is outside: \<open>loaded\<close> is what \<^verbatim>\<open>Load\<close> returned and
  \<open>saveErr\<close> the error of the next \<^verbatim>\<open>Save\<close>. What is saved is the JSON form, which leaves
  out a node's \<^verbatim>\<open>ConnectedSession\<close> (tagged \<^verbatim>\<open>json:"-"\<close>); a clone leaves it out too.

  \<open>newID prefix n\<close> is the \<open>n\<close>-th identifier that \<^verbatim>\<open>NewID(prefix)\<close> drew; an operation that
  draws one passes the length of the list it extends.
\<close>

type_synonym id_source = "string \<Rightarrow> nat \<Rightarrow> string"

text \<open>
  \<^verbatim>\<open>NewID\<close> is the prefix and sixteen random bytes in hexadecimal; \<open>entropy\<close> is what
  \<^verbatim>\<open>crypto/rand\<close> delivered for the \<open>n\<close>-th draw. The operations take any source of
  identifiers.
\<close>

definition hex_digit :: "nat \<Rightarrow> char" where
  "hex_digit d = (if d < 10 then char_of (48 + d) else char_of (87 + d))"

definition EncodeToString :: "nat list \<Rightarrow> string" where
  "EncodeToString bytes = concat (map (\<lambda>b. [hex_digit (b div 16 mod 16), hex_digit (b mod 16)]) bytes)"

definition NewID :: "(nat \<Rightarrow> nat list) \<Rightarrow> id_source" where
  "NewID entropy prefix n = prefix @ ''_'' @ EncodeToString (entropy n)"

lemma NewID_nonempty [simp]: "NewID entropy prefix n \<noteq> []"
  by (simp add: NewID_def)

text \<open>The errors that the manager's operations return.\<close>

datatype manager_error =
    NotFound string string
  | AlreadyExists string string
  | Required string
  | Invalid string
  | Unauthorized
  | InsufficientBalance
  | NotOwner string string

definition CurrentSchemaVersion :: int where
  "CurrentSchemaVersion = 3"

text \<open>An entry of the audit log, as every operation appends it.\<close>

definition appendAudit ::
  "id_source \<Rightarrow> string \<Rightarrow> string \<Rightarrow> string \<Rightarrow> any gomap \<Rightarrow> time \<Rightarrow> Database \<Rightarrow> Database" where
  "appendAudit newID eventType actor subject metadata now db =
     db\<lparr>Audit := Audit db @ [\<lparr>Audit_ID = newID ''aud'' (length (Audit db)), Audit_Type = eventType,
          Audit_Actor = actor, Audit_Subject = subject, Audit_Metadata = metadata,
          Audit_CreatedAt = now\<rparr>]\<rparr>"

definition emptyDatabase :: Database where
  "emptyDatabase = zero_Database\<lparr>SchemaVersion := CurrentSchemaVersion,
     Settings := \<lparr>Settings_P2PEnabled = True\<rparr>,
     Migrations := [''schema_'' @ show_int CurrentSchemaVersion]\<rparr>"

text \<open>
  \<^verbatim>\<open>cloneDatabase\<close> copies every slice, map and pointer, so that a reader shares nothing with
  the store; on values that is the identity, except for the session of a node.
\<close>

definition cloneNode :: "Node \<Rightarrow> Node" where
  "cloneNode node = node\<lparr>Node_ConnectedSession := []\<rparr>"

definition cloneDatabase :: "Database \<Rightarrow> Database" where
  "cloneDatabase db = db\<lparr>Nodes := mmap (\<lambda>_. cloneNode) (Nodes db)\<rparr>"

record Store =
  Store_disk :: "Database option"
  Store_db :: Database

definition saveLocked :: "string option \<Rightarrow> Store \<Rightarrow> string option \<times> Store" where
  "saveLocked saveErr s =
     (case saveErr of
        None \<Rightarrow> (None, s\<lparr>Store_disk := Some (cloneDatabase (Store_db s))\<rparr>)
      | Some e \<Rightarrow> (Some e, s))"

definition auditLocked ::
  "id_source \<Rightarrow> string \<Rightarrow> string \<Rightarrow> string \<Rightarrow> any gomap \<Rightarrow> time \<Rightarrow> Store \<Rightarrow> Store" where
  "auditLocked newID eventType actor subject metadata now s =
     s\<lparr>Store_db := appendAudit newID eventType actor subject metadata now (Store_db s)\<rparr>"

definition migrateLocked :: "id_source \<Rightarrow> string option \<Rightarrow> time \<Rightarrow> Store \<Rightarrow> string option \<times> Store" where
  "migrateLocked newID saveErr now s =
     (let db = Store_db s in
      if SchemaVersion db > CurrentSchemaVersion then (Some ''database schema is newer'', s)
      else if SchemaVersion db = CurrentSchemaVersion then (None, s)
      else (let db1 = (if SchemaVersion db < 3
                       then db\<lparr>Settings := \<lparr>Settings_P2PEnabled = True\<rparr>\<rparr> else db);
                db2 = db1\<lparr>SchemaVersion := CurrentSchemaVersion,
                        Migrations := Migrations db1 @ [''schema_'' @ show_int CurrentSchemaVersion]\<rparr>
            in saveLocked saveErr (auditLocked newID ''migration.applied'' ''system'' ''schema''
                 [(''version'', AnyInt CurrentSchemaVersion)] now (s\<lparr>Store_db := db2\<rparr>))))"

text \<open>\<open>loaded\<close> is the outcome of \<^verbatim>\<open>backend.Load\<close>: an error, no saved state, or a database.\<close>

definition openStoreWithBackend ::
  "id_source \<Rightarrow> string + Database option \<Rightarrow> string option \<Rightarrow> time \<Rightarrow> string + Store" where
  "openStoreWithBackend newID loaded saveErr now =
     (case loaded of
        Inl e \<Rightarrow> Inl e
      | Inr None \<Rightarrow>
          (case saveLocked saveErr (auditLocked newID ''migration.applied'' ''system'' ''schema''
                  [(''version'', AnyInt CurrentSchemaVersion)] now
                  \<lparr>Store_disk = None, Store_db = emptyDatabase\<rparr>) of
             (Some e, _) \<Rightarrow> Inl e
           | (None, s) \<Rightarrow> Inr s)
      | Inr (Some db) \<Rightarrow>
          (case migrateLocked newID saveErr now \<lparr>Store_disk = Some db, Store_db = db\<rparr> of
             (Some e, _) \<Rightarrow> Inl e
           | (None, s) \<Rightarrow> Inr s))"

definition Snapshot :: "Store \<Rightarrow> Database" where
  "Snapshot s = cloneDatabase (Store_db s)"

definition View :: "(Database \<Rightarrow> 'a) \<Rightarrow> Store \<Rightarrow> 'a" where
  "View fn s = fn (cloneDatabase (Store_db s))"

text \<open>
  \<^verbatim>\<open>Store.Update\<close>: the function works on the live database, so what it changed before it
  failed stays in memory; only a successful one is saved. The last component says whether
  the \<^verbatim>\<open>afterUpdate\<close> callback runs.
\<close>

definition Update ::
  "(Database \<Rightarrow> string option \<times> Database) \<Rightarrow> string option \<Rightarrow> Store \<Rightarrow> string option \<times> Store \<times> bool" where
  "Update fn saveErr s =
     (case fn (Store_db s) of
        (Some e, db) \<Rightarrow> (Some e, s\<lparr>Store_db := db\<rparr>, False)
      | (None, db) \<Rightarrow>
          (case saveLocked saveErr (s\<lparr>Store_db := db\<rparr>) of
             (Some e, s') \<Rightarrow> (Some e, s', False)
           | (None, s') \<Rightarrow> (None, s', True)))"

definition Store_Audit ::
  "id_source \<Rightarrow> string \<Rightarrow> string \<Rightarrow> string \<Rightarrow> any gomap \<Rightarrow> time \<Rightarrow> string option \<Rightarrow> Store \<Rightarrow>
   string option \<times> Store \<times> bool" where
  "Store_Audit newID eventType actor subject metadata now saveErr s =
     Update (\<lambda>db. (None, appendAudit newID eventType actor subject metadata now db)) saveErr s"

subsection \<open>Sorted tables\<close>

definition SortedArtifacts :: "Database \<Rightarrow> Artifact list" where
  "SortedArtifacts db = sort_by (\<lambda>a b. Artifact_ID a < Artifact_ID b) (mvals (Artifacts db))"

definition SortedAttempts :: "Database \<Rightarrow> Attempt list" where
  "SortedAttempts db = sort_by (\<lambda>a b. Attempt_StartedAt a < Attempt_StartedAt b) (mvals (Attempts db))"

definition SortedReports :: "Database \<Rightarrow> ComputeReport list" where
  "SortedReports db = sort_by (\<lambda>a b. Report_CreatedAt a < Report_CreatedAt b) (mvals (Reports db))"

definition SortedUsers :: "Database \<Rightarrow> User list" where
  "SortedUsers db = sort_by (\<lambda>a b. User_ID a < User_ID b) (mvals (Users db))"

definition SortedComputeLedger :: "Database \<Rightarrow> ComputeLedgerEntry list" where
  "SortedComputeLedger db = sort_by (\<lambda>a b.
     if Ledger_CreatedAt a = Ledger_CreatedAt b then Ledger_ID a < Ledger_ID b
     else Ledger_CreatedAt a < Ledger_CreatedAt b) (ComputeLedger db)"

interpretation ledger_order: key_order
  "\<lambda>a b. if Ledger_CreatedAt a = Ledger_CreatedAt b then Ledger_ID a < Ledger_ID b
     else Ledger_CreatedAt a < Ledger_CreatedAt b"
  "\<lambda>e. (Ledger_CreatedAt e, Ledger_ID e)"
  by unfold_locales (auto simp: less_prod_def')

subsection \<open>Audit and clone\<close>

lemma appendAudit_sel [simp]:
  "Audit (appendAudit newID t a sb md now db) =
     Audit db @ [\<lparr>Audit_ID = newID ''aud'' (length (Audit db)), Audit_Type = t, Audit_Actor = a,
        Audit_Subject = sb, Audit_Metadata = md, Audit_CreatedAt = now\<rparr>]"
  "SchemaVersion (appendAudit newID t a sb md now db) = SchemaVersion db"
  "Settings (appendAudit newID t a sb md now db) = Settings db"
  "Migrations (appendAudit newID t a sb md now db) = Migrations db"
  "Nodes (appendAudit newID t a sb md now db) = Nodes db"
  "Slots (appendAudit newID t a sb md now db) = Slots db"
  "Artifacts (appendAudit newID t a sb md now db) = Artifacts db"
  "ArtifactEvictions (appendAudit newID t a sb md now db) = ArtifactEvictions db"
  "CacheIntents (appendAudit newID t a sb md now db) = CacheIntents db"
  "Profiles (appendAudit newID t a sb md now db) = Profiles db"
  "Policies (appendAudit newID t a sb md now db) = Policies db"
  "Assignments (appendAudit newID t a sb md now db) = Assignments db"
  "Tasks (appendAudit newID t a sb md now db) = Tasks db"
  "Attempts (appendAudit newID t a sb md now db) = Attempts db"
  "Reports (appendAudit newID t a sb md now db) = Reports db"
  "Updates (appendAudit newID t a sb md now db) = Updates db"
  "Users (appendAudit newID t a sb md now db) = Users db"
  "APIKeys (appendAudit newID t a sb md now db) = APIKeys db"
  "NodeTokenHashes (appendAudit newID t a sb md now db) = NodeTokenHashes db"
  "ComputeLedger (appendAudit newID t a sb md now db) = ComputeLedger db"
  by (simp_all add: appendAudit_def)

lemma cloneNode_idem [simp]: "cloneNode (cloneNode n) = cloneNode n"
  by (simp add: cloneNode_def)

lemma mmap_mmap [simp]: "mmap f (mmap g m) = mmap (\<lambda>k. f k \<circ> g k) m"
  by (induction m) (auto simp: mmap_def)

lemma cloneDatabase_idem [simp]: "cloneDatabase (cloneDatabase db) = cloneDatabase db"
  by (simp add: cloneDatabase_def comp_def)

lemma cloneDatabase_SchemaVersion [simp]: "SchemaVersion (cloneDatabase db) = SchemaVersion db"
  by (simp add: cloneDatabase_def)

subsection \<open>Properties\<close>

text \<open>Restarting after a successful update loses nothing: when the last update succeeded
  and its result has the current schema, opening the store on what was saved yields a
  database equal to a snapshot taken before the restart, without a further write.\<close>

theorem reopen_after_Update:
  assumes "Update fn saveErr s = (None, s', called)" and "SchemaVersion (Store_db s') = CurrentSchemaVersion"
  shows "called \<and> openStoreWithBackend newID (Inr (Store_disk s')) saveErr' now =
    Inr \<lparr>Store_disk = Some (Snapshot s'), Store_db = Snapshot s'\<rparr>"
proof -
  have disk: "Store_disk s' = Some (cloneDatabase (Store_db s'))" and called
    using assms(1) by (auto simp: Update_def saveLocked_def split: prod.splits option.splits)
  then show ?thesis
    using assms(2) by (simp add: openStoreWithBackend_def migrateLocked_def Snapshot_def Let_def)
qed

theorem reopen_after_Update_witness:
  "let s = \<lparr>Store_disk = None, Store_db = sample_db\<rparr>;
       s' = fst (snd (Update (\<lambda>db. (None, db\<lparr>Tasks := []\<rparr>)) None s))
   in openStoreWithBackend (\<lambda>_ _. []) (Inr (Store_disk s')) None 7 =
        Inr \<lparr>Store_disk = Some (Snapshot s'), Store_db = Snapshot s'\<rparr>"
  using reopen_after_Update [of "\<lambda>db. (None, db\<lparr>Tasks := []\<rparr>)" None "\<lparr>Store_disk = None, Store_db = sample_db\<rparr>"
      "fst (snd (Update (\<lambda>db. (None, db\<lparr>Tasks := []\<rparr>)) None \<lparr>Store_disk = None, Store_db = sample_db\<rparr>))"
      True "\<lambda>_ _. []" None 7]
  by (simp add: Update_def saveLocked_def sample_db_def CurrentSchemaVersion_def Let_def)

text \<open>Opening a store migrates a database of an older schema once: the opened database has
  the current schema, peer-to-peer transfer is enabled, one migration and one audit event
  are recorded, every table is kept, and what is on disk is the opened database. A newer
  schema is refused.\<close>

theorem openStore_migrates:
  assumes "SchemaVersion db < CurrentSchemaVersion"
  shows "(\<exists>s. openStoreWithBackend newID (Inr (Some db)) None now = Inr s \<and>
      SchemaVersion (Store_db s) = CurrentSchemaVersion \<and>
      Settings_P2PEnabled (Settings (Store_db s)) \<and>
      Migrations (Store_db s) = Migrations db @ [''schema_3''] \<and>
      length (Audit (Store_db s)) = Suc (length (Audit db)) \<and>
      Nodes (Store_db s) = Nodes db \<and> Slots (Store_db s) = Slots db \<and>
      Tasks (Store_db s) = Tasks db \<and> Attempts (Store_db s) = Attempts db \<and>
      Users (Store_db s) = Users db \<and> ComputeLedger (Store_db s) = ComputeLedger db \<and>
      Store_disk s = Some (Snapshot s)) \<and>
    openStoreWithBackend newID (Inr (Some (db\<lparr>SchemaVersion := CurrentSchemaVersion + 1\<rparr>))) None now =
      Inl ''database schema is newer''"
proof -
  have "show_int CurrentSchemaVersion = ''3''"
    by code_simp
  with assms show ?thesis
    by (simp add: openStoreWithBackend_def migrateLocked_def saveLocked_def auditLocked_def
        Snapshot_def CurrentSchemaVersion_def Let_def)
qed

theorem openStore_migrates_witness:
  "\<exists>s. openStoreWithBackend (\<lambda>_ _. []) (Inr (Some (sample_db\<lparr>SchemaVersion := 2\<rparr>))) None 9 = Inr s \<and>
     SchemaVersion (Store_db s) = CurrentSchemaVersion"
  using openStore_migrates [of "sample_db\<lparr>SchemaVersion := 2\<rparr>" "\<lambda>_ _. []" 9]
  by (auto simp: CurrentSchemaVersion_def)

end
