(* ===== verification/Quarantine.thy ===== *)
theory Quarantine
  imports Store
begin

section \<open>Quarantine and flapping (quarantine.go, manager_worker_flapping.go)\<close>

text \<open>
  A slot that fails repeatedly for one reason is quarantined for a while; a worker that
  disconnects and reconnects often gets no warm placements for a while. Both expire by time:
  the maintenance loop calls \<open>clearExpiredQuarantines\<close> and \<open>clearExpiredWorkerSuppressions\<close>.
\<close>

definition minutes :: "int \<Rightarrow> duration" where
  "minutes n = n * 60 * 1000000000"

subsection \<open>Slot failures and quarantine\<close>

text \<open>\<^verbatim>\<open>recordSlotFailure\<close> changes the slot it is given and the database, and returns both.\<close>

definition failureReason :: "string \<Rightarrow> string" where
  "failureReason reason = (if reason = [] then ''unknown'' else reason)"

definition failureThreshold :: "int \<Rightarrow> int" where
  "failureThreshold threshold = (if threshold \<le> 0 then 3 else threshold)"

definition failureDuration :: "duration \<Rightarrow> duration" where
  "failureDuration duration = (if duration \<le> 0 then minutes 5 else duration)"

definition recordSlotFailure ::
  "id_source \<Rightarrow> Database \<Rightarrow> Slot \<Rightarrow> string \<Rightarrow> time \<Rightarrow> int \<Rightarrow> duration \<Rightarrow> Database \<times> Slot" where
  "recordSlotFailure newID db slot reason0 now threshold0 duration0 =
     (let reason = failureReason reason0;
          counters = mput reason (mget 0 (Slot_FailureCounters slot) reason + 1) (Slot_FailureCounters slot);
          slot1 = slot\<lparr>Slot_FailureCount := Slot_FailureCount slot + 1,
            Slot_FailureCounters := counters,
            Slot_LastFailure := reason,
            Slot_LastFailureAt := Some now\<rparr>;
          threshold = failureThreshold threshold0;
          duration = failureDuration duration0;
          banned = mget 0 counters reason \<ge> threshold;
          slot2 = (if banned
                   then slot1\<lparr>Slot_Quarantined := True, Slot_QuarantineReason := reason,
                     Slot_QuarantineUntil := Some (now + duration), Slot_AcceptsNew := False,
                     Slot_MismatchReason := FailureQuarantined @ '': '' @ reason\<rparr>
                   else slot1);
          db1 = (if banned
                 then appendAudit newID ''quarantine.slot_banned'' ''manager'' (Slot_ID slot)
                   [(''reason'', AnyString reason)] now db
                 else db);
          node = mget zero_Node (Nodes db1) (Slot_NodeID slot);
          db2 = (if Node_ID node \<noteq> []
                 then db1\<lparr>Nodes := mput (Node_ID node)
                   (node\<lparr>Node_LastFailure := reason, Node_LastFailureAt := Some now\<rparr>) (Nodes db1)\<rparr>
                 else db1)
      in (db2, slot2))"

definition quarantineExpired :: "Slot \<Rightarrow> time \<Rightarrow> bool" where
  "quarantineExpired slot now \<longleftrightarrow>
     Slot_Quarantined slot \<and> (case Slot_QuarantineUntil slot of None \<Rightarrow> False | Some u \<Rightarrow> \<not> u > now)"

definition quarantineExpiredNode :: "Node \<Rightarrow> time \<Rightarrow> bool" where
  "quarantineExpiredNode node now \<longleftrightarrow>
     Node_Quarantined node \<and> (case Node_QuarantineUntil node of None \<Rightarrow> False | Some u \<Rightarrow> \<not> u > now)"

definition clearSlotQuarantine :: "Slot \<Rightarrow> Slot" where
  "clearSlotQuarantine slot =
     (let slot1 = slot\<lparr>Slot_Quarantined := False, Slot_QuarantineReason := [],
            Slot_QuarantineUntil := None\<rparr>
      in if Slot_State slot1 = SlotStateReady \<and> Slot_ActiveTaskID slot1 = []
         then slot1\<lparr>Slot_AcceptsNew := True, Slot_MismatchReason := []\<rparr> else slot1)"

definition clearNodeQuarantine :: "Node \<Rightarrow> Node" where
  "clearNodeQuarantine node =
     node\<lparr>Node_Quarantined := False, Node_QuarantineReason := [], Node_QuarantineUntil := None\<rparr>"

definition hasExpiredQuarantines :: "Database \<Rightarrow> time \<Rightarrow> bool" where
  "hasExpiredQuarantines db now \<longleftrightarrow>
     list_ex (\<lambda>n. quarantineExpiredNode n now) (mvals (Nodes db)) \<or>
     list_ex (\<lambda>s. quarantineExpired s now) (mvals (Slots db))"

definition clearExpiredQuarantines :: "id_source \<Rightarrow> time \<Rightarrow> Database \<Rightarrow> Database" where
  "clearExpiredQuarantines newID now db =
     (if \<not> hasExpiredQuarantines db now then db
      else (let expiredNodes = filter (\<lambda>(_, n). quarantineExpiredNode n now) (Nodes db);
                expiredSlots = filter (\<lambda>(_, s). quarantineExpired s now) (Slots db);
                db1 = foldl (\<lambda>d (k, _). appendAudit newID ''quarantine.node_expired'' ''manager'' k [] now d)
                  (db\<lparr>Nodes := mmap (\<lambda>_ n. if quarantineExpiredNode n now then clearNodeQuarantine n else n)
                     (Nodes db)\<rparr>) expiredNodes
            in foldl (\<lambda>d (k, _). appendAudit newID ''quarantine.slot_expired'' ''manager'' k [] now d)
                 (db1\<lparr>Slots := mmap (\<lambda>_ s. if quarantineExpired s now then clearSlotQuarantine s else s)
                    (Slots db1)\<rparr>) expiredSlots))"

subsection \<open>Worker flapping\<close>

definition workerFlapEventDisconnect :: string where
  "workerFlapEventDisconnect = ''disconnect''"

definition workerFlapEventReconnect :: string where
  "workerFlapEventReconnect = ''reconnect''"

definition workerFlapEventHeartbeatExpired :: string where
  "workerFlapEventHeartbeatExpired = ''heartbeat_expired''"

definition workerFlapThreshold :: "ManagerConfig \<Rightarrow> int" where
  "workerFlapThreshold cfg = (if Cfg_WorkerFlapThreshold cfg \<le> 0 then 4 else Cfg_WorkerFlapThreshold cfg)"

definition workerFlapWindow :: "ManagerConfig \<Rightarrow> duration" where
  "workerFlapWindow cfg = (if Cfg_WorkerFlapWindow cfg \<le> 0 then minutes 5 else Cfg_WorkerFlapWindow cfg)"

definition workerFlapCooldown :: "ManagerConfig \<Rightarrow> duration" where
  "workerFlapCooldown cfg = (if Cfg_WorkerFlapCooldown cfg \<le> 0 then minutes 5 else Cfg_WorkerFlapCooldown cfg)"

definition pruneWorkerFlapEvents :: "WorkerFlapEvent list \<Rightarrow> time \<Rightarrow> duration \<Rightarrow> WorkerFlapEvent list" where
  "pruneWorkerFlapEvents events now window =
     (let cutoff = now + - window in filter (\<lambda>event. \<not> Flap_At event < cutoff) events)"

definition recordWorkerFlapEvent :: "Node \<Rightarrow> string \<Rightarrow> time \<Rightarrow> ManagerConfig \<Rightarrow> Node" where
  "recordWorkerFlapEvent node eventType now cfg =
     (if eventType = [] then node
      else (let node1 = node\<lparr>Node_RecentFlapEvents :=
                  pruneWorkerFlapEvents (Node_RecentFlapEvents node) now (workerFlapWindow cfg) @
                  [\<lparr>Flap_Type = eventType, Flap_At = now\<rparr>]\<rparr>
            in if int (length (Node_RecentFlapEvents node1)) \<ge> workerFlapThreshold cfg
               then node1\<lparr>Node_WarmPlacementSuppressed := True,
                 Node_WarmPlacementSuppressionReason := FailureWorkerFlapping,
                 Node_WarmPlacementSuppressionUntil := Some (now + workerFlapCooldown cfg)\<rparr>
               else node1))"

definition workerReconnectEventApplies :: "Node \<Rightarrow> string \<Rightarrow> bool" where
  "workerReconnectEventApplies existing sessionID \<longleftrightarrow>
     (if Node_ID existing = [] then False
      else if Node_State existing \<noteq> NodeStateOnline then True
      else Node_ConnectedSession existing \<noteq> sessionID)"

definition nodeWarmPlacementSuppressed :: "Node \<Rightarrow> time \<Rightarrow> bool" where
  "nodeWarmPlacementSuppressed node now \<longleftrightarrow>
     Node_WarmPlacementSuppressed node \<and>
     (case Node_WarmPlacementSuppressionUntil node of None \<Rightarrow> False | Some u \<Rightarrow> u > now)"

definition clearExpiredWorkerSuppression :: "Node \<Rightarrow> time \<Rightarrow> Node" where
  "clearExpiredWorkerSuppression node now =
     (if \<not> Node_WarmPlacementSuppressed node then node
      else if (case Node_WarmPlacementSuppressionUntil node of None \<Rightarrow> False | Some u \<Rightarrow> u > now) then node
      else node\<lparr>Node_WarmPlacementSuppressed := False, Node_WarmPlacementSuppressionReason := [],
             Node_WarmPlacementSuppressionUntil := None\<rparr>)"

definition needsWorkerFlapMaintenance :: "ManagerConfig \<Rightarrow> time \<Rightarrow> Database \<Rightarrow> bool" where
  "needsWorkerFlapMaintenance cfg now db \<longleftrightarrow>
     (let cutoff = now + - workerFlapWindow cfg in
      list_ex (\<lambda>node. Node_WarmPlacementSuppressed node \<and> \<not> nodeWarmPlacementSuppressed node now \<or>
          list_ex (\<lambda>event. Flap_At event < cutoff) (Node_RecentFlapEvents node)) (mvals (Nodes db)))"

definition clearExpiredWorkerSuppressions :: "Database \<Rightarrow> time \<Rightarrow> ManagerConfig \<Rightarrow> Database" where
  "clearExpiredWorkerSuppressions db now cfg =
     db\<lparr>Nodes := mmap (\<lambda>_ node. clearExpiredWorkerSuppression
          (node\<lparr>Node_RecentFlapEvents :=
             pruneWorkerFlapEvents (Node_RecentFlapEvents node) now (workerFlapWindow cfg)\<rparr>) now) (Nodes db)\<rparr>"

definition Manager_clearExpiredWorkerSuppressions :: "ManagerConfig \<Rightarrow> time \<Rightarrow> Database \<Rightarrow> Database" where
  "Manager_clearExpiredWorkerSuppressions cfg now db =
     (if \<not> needsWorkerFlapMaintenance cfg now db then db
      else clearExpiredWorkerSuppressions db now cfg)"

subsection \<open>Lemmas\<close>

lemma failureThreshold_pos: "0 < failureThreshold t"
  by (simp add: failureThreshold_def)

lemma failureDuration_pos: "0 < failureDuration d"
  by (simp add: failureDuration_def minutes_def)

lemma recordSlotFailure_slot [simp]:
  "Slot_FailureCount (snd (recordSlotFailure newID db slot r now t d)) = Slot_FailureCount slot + 1"
  "mget 0 (Slot_FailureCounters (snd (recordSlotFailure newID db slot r now t d))) k =
     mget 0 (Slot_FailureCounters slot) k + (if k = failureReason r then 1 else 0)"
  "Slot_ID (snd (recordSlotFailure newID db slot r now t d)) = Slot_ID slot"
  "Slot_NodeID (snd (recordSlotFailure newID db slot r now t d)) = Slot_NodeID slot"
  "Slot_State (snd (recordSlotFailure newID db slot r now t d)) = Slot_State slot"
  "Slot_ActiveTaskID (snd (recordSlotFailure newID db slot r now t d)) = Slot_ActiveTaskID slot"
  "Slot_ProfileID (snd (recordSlotFailure newID db slot r now t d)) = Slot_ProfileID slot"
  by (simp_all add: recordSlotFailure_def Let_def)

lemma recordSlotFailure_quarantined:
  "Slot_Quarantined (snd (recordSlotFailure newID db slot r now t d)) \<longleftrightarrow>
     Slot_Quarantined slot \<or>
     failureThreshold t \<le> mget 0 (Slot_FailureCounters slot) (failureReason r) + 1"
  by (simp add: recordSlotFailure_def Let_def)

lemma recordSlotFailure_until:
  "failureThreshold t \<le> mget 0 (Slot_FailureCounters slot) (failureReason r) + 1 \<Longrightarrow>
   Slot_QuarantineUntil (snd (recordSlotFailure newID db slot r now t d)) = Some (now + failureDuration d)"
  by (simp add: recordSlotFailure_def Let_def)

lemma recordSlotFailure_accepts:
  "Slot_AcceptsNew (snd (recordSlotFailure newID db slot r now t d)) \<longleftrightarrow>
     Slot_AcceptsNew slot \<and> mget 0 (Slot_FailureCounters slot) (failureReason r) + 1 < failureThreshold t"
  by (auto simp: recordSlotFailure_def Let_def)

lemma recordSlotFailure_db [simp]:
  "Slots (fst (recordSlotFailure newID db slot r now t d)) = Slots db"
  "Tasks (fst (recordSlotFailure newID db slot r now t d)) = Tasks db"
  "Attempts (fst (recordSlotFailure newID db slot r now t d)) = Attempts db"
  "Reports (fst (recordSlotFailure newID db slot r now t d)) = Reports db"
  "Users (fst (recordSlotFailure newID db slot r now t d)) = Users db"
  "APIKeys (fst (recordSlotFailure newID db slot r now t d)) = APIKeys db"
  "Profiles (fst (recordSlotFailure newID db slot r now t d)) = Profiles db"
  "Policies (fst (recordSlotFailure newID db slot r now t d)) = Policies db"
  "Assignments (fst (recordSlotFailure newID db slot r now t d)) = Assignments db"
  "ComputeLedger (fst (recordSlotFailure newID db slot r now t d)) = ComputeLedger db"
  "NodeTokenHashes (fst (recordSlotFailure newID db slot r now t d)) = NodeTokenHashes db"
  "Artifacts (fst (recordSlotFailure newID db slot r now t d)) = Artifacts db"
  "ArtifactEvictions (fst (recordSlotFailure newID db slot r now t d)) = ArtifactEvictions db"
  "CacheIntents (fst (recordSlotFailure newID db slot r now t d)) = CacheIntents db"
  "Updates (fst (recordSlotFailure newID db slot r now t d)) = Updates db"
  "Settings (fst (recordSlotFailure newID db slot r now t d)) = Settings db"
  by (simp_all add: recordSlotFailure_def Let_def)

text \<open>What a node keeps when one of its slots fails.\<close>

lemma recordSlotFailure_node:
  assumes "keyed Node_ID (Nodes db)"
  shows "map_of (Nodes (fst (recordSlotFailure newID db slot r now t d))) k =
    (case map_of (Nodes db) k of
       None \<Rightarrow> None
     | Some n \<Rightarrow> Some (if k = Slot_NodeID slot \<and> k \<noteq> []
                     then n\<lparr>Node_LastFailure := failureReason r, Node_LastFailureAt := Some now\<rparr> else n))"
  using keyed_lookup [OF assms, of "Slot_NodeID slot"]
  by (cases "map_of (Nodes db) (Slot_NodeID slot)")
    (auto simp: recordSlotFailure_def Let_def mget_def split: option.splits)

lemma foldl_audit_sel [simp]:
  "Nodes (foldl (\<lambda>d (k, _). appendAudit newID t a k md now d) db ks) = Nodes db"
  "Slots (foldl (\<lambda>d (k, _). appendAudit newID t a k md now d) db ks) = Slots db"
  "length (Audit (foldl (\<lambda>d (k, _). appendAudit newID t a k md now d) db ks)) = length (Audit db) + length ks"
  by (induction ks arbitrary: db) (auto split: prod.split)

lemma hasExpired_no_change:
  assumes "\<not> hasExpiredQuarantines db now"
  shows "mmap (\<lambda>_ n. if quarantineExpiredNode n now then clearNodeQuarantine n else n) (Nodes db) = Nodes db"
    and "mmap (\<lambda>_ s. if quarantineExpired s now then clearSlotQuarantine s else s) (Slots db) = Slots db"
    and "filter (\<lambda>(_, n). quarantineExpiredNode n now) (Nodes db) = []"
    and "filter (\<lambda>(_, s). quarantineExpired s now) (Slots db) = []"
  using assms
  by (auto simp: hasExpiredQuarantines_def list_ex_iff set_mvals filter_empty_conv intro!: mmap_id)

lemma clearExpiredQuarantines_tables:
  "Nodes (clearExpiredQuarantines newID now db) =
     mmap (\<lambda>_ n. if quarantineExpiredNode n now then clearNodeQuarantine n else n) (Nodes db)"
  "Slots (clearExpiredQuarantines newID now db) =
     mmap (\<lambda>_ s. if quarantineExpired s now then clearSlotQuarantine s else s) (Slots db)"
  "length (Audit (clearExpiredQuarantines newID now db)) = length (Audit db) +
     length (filter (\<lambda>(_, n). quarantineExpiredNode n now) (Nodes db)) +
     length (filter (\<lambda>(_, s). quarantineExpired s now) (Slots db))"
  by (cases "hasExpiredQuarantines db now";
      simp add: clearExpiredQuarantines_def Let_def hasExpired_no_change)+

lemma clearExpiredWorkerSuppression_sel [simp]:
  "Node_RecentFlapEvents (clearExpiredWorkerSuppression n now) = Node_RecentFlapEvents n"
  "Node_WarmPlacementSuppressed (clearExpiredWorkerSuppression n now) = nodeWarmPlacementSuppressed n now"
  "nodeWarmPlacementSuppressed (clearExpiredWorkerSuppression n now) now = nodeWarmPlacementSuppressed n now"
  by (simp_all add: clearExpiredWorkerSuppression_def nodeWarmPlacementSuppressed_def split: option.split)

lemma nodeWarmPlacementSuppressed_events [simp]:
  "nodeWarmPlacementSuppressed (n\<lparr>Node_RecentFlapEvents := es\<rparr>) now = nodeWarmPlacementSuppressed n now"
  by (simp add: nodeWarmPlacementSuppressed_def)

text \<open>The failures of one slot for one reason, one after the other.\<close>

fun failSlotRepeatedly ::
  "id_source \<Rightarrow> Database \<Rightarrow> Slot \<Rightarrow> string \<Rightarrow> int \<Rightarrow> duration \<Rightarrow> time list \<Rightarrow> Database \<times> Slot" where
  "failSlotRepeatedly newID db slot reason threshold duration [] = (db, slot)"
| "failSlotRepeatedly newID db slot reason threshold duration (now # nows) =
     (let (db', slot') = recordSlotFailure newID db slot reason now threshold duration
      in failSlotRepeatedly newID db' slot' reason threshold duration nows)"

lemma failSlotRepeatedly_counter:
  "mget 0 (Slot_FailureCounters (snd (failSlotRepeatedly newID db slot r t d nows))) (failureReason r) =
     mget 0 (Slot_FailureCounters slot) (failureReason r) + int (length nows)"
proof (induction nows arbitrary: db slot)
  case (Cons now nows)
  show ?case
    using Cons.IH [of "fst (recordSlotFailure newID db slot r now t d)"
        "snd (recordSlotFailure newID db slot r now t d)"]
    by (simp add: case_prod_beta)
qed simp

lemma failSlotRepeatedly_quarantined:
  "Slot_Quarantined (snd (failSlotRepeatedly newID db slot r t d nows)) \<longleftrightarrow>
     Slot_Quarantined slot \<or> nows \<noteq> [] \<and>
     failureThreshold t \<le> mget 0 (Slot_FailureCounters slot) (failureReason r) + int (length nows)"
proof (induction nows arbitrary: db slot)
  case (Cons now nows)
  show ?case
    using Cons.IH [of "fst (recordSlotFailure newID db slot r now t d)"
        "snd (recordSlotFailure newID db slot r now t d)"]
    by (cases nows) (auto simp: case_prod_beta recordSlotFailure_quarantined)
qed simp

subsection \<open>Properties\<close>

text \<open>A slot that starts without recorded failures and is not quarantined becomes
  quarantined by a run of failures for one reason exactly when the run reaches the
  threshold (3 when the configuration leaves it unset).\<close>

theorem slot_quarantined_at_threshold:
  assumes "\<not> Slot_Quarantined slot" and "Slot_FailureCounters slot = []"
  shows "Slot_Quarantined (snd (failSlotRepeatedly newID db slot r t d nows)) \<longleftrightarrow>
    failureThreshold t \<le> int (length nows)"
  using assms failureThreshold_pos [of t] by (auto simp: failSlotRepeatedly_quarantined)

theorem slot_quarantined_at_threshold_witness:
  "\<not> Slot_Quarantined (snd (failSlotRepeatedly (\<lambda>_ _. []) sample_db sample_slot ''oom'' 0 0 [1, 2])) \<and>
   Slot_Quarantined (snd (failSlotRepeatedly (\<lambda>_ _. []) sample_db sample_slot ''oom'' 0 0 [1, 2, 3]))"
  using slot_quarantined_at_threshold [of sample_slot "\<lambda>_ _. []" sample_db "''oom''" 0 0 "[1, 2]"]
    slot_quarantined_at_threshold [of sample_slot "\<lambda>_ _. []" sample_db "''oom''" 0 0 "[1, 2, 3]"]
  by (simp add: sample_slot_def failureThreshold_def)

text \<open>A quarantine imposed at time \<open>now\<close> lasts until \<open>now\<close> plus the configured duration
  and no longer: the maintenance pass at a later time leaves the slot unchanged before that
  moment, and lifts the quarantine, reopening an idle ready slot, from that moment on.\<close>

theorem slot_quarantine_window:
  assumes "failureThreshold t \<le> mget 0 (Slot_FailureCounters slot) (failureReason r) + 1"
    and "s = snd (recordSlotFailure newID db slot r now t d)"
    and "map_of (Slots db') k = Some s"
  shows "(later < now + failureDuration d \<longrightarrow>
       map_of (Slots (clearExpiredQuarantines newID later db')) k = Some s) \<and>
    (now + failureDuration d \<le> later \<longrightarrow>
       (\<exists>s'. map_of (Slots (clearExpiredQuarantines newID later db')) k = Some s' \<and>
          \<not> Slot_Quarantined s' \<and>
          (Slot_State slot = SlotStateReady \<longrightarrow> Slot_ActiveTaskID slot = [] \<longrightarrow> Slot_AcceptsNew s')))"
proof -
  have "Slot_Quarantined s" "Slot_QuarantineUntil s = Some (now + failureDuration d)"
    "Slot_State s = Slot_State slot" "Slot_ActiveTaskID s = Slot_ActiveTaskID slot"
    using assms(1,2) by (auto simp: recordSlotFailure_quarantined recordSlotFailure_until)
  with assms(3) show ?thesis
    by (auto simp: clearExpiredQuarantines_tables quarantineExpired_def clearSlotQuarantine_def Let_def)
qed

theorem slot_quarantine_window_witness:
  "let s = snd (recordSlotFailure (\<lambda>_ _. []) sample_db sample_slot ''oom'' 100 1 10);
       db' = sample_db\<lparr>Slots := [(''n1/slot0'', s)]\<rparr>
   in map_of (Slots (clearExpiredQuarantines (\<lambda>_ _. []) 109 db')) ''n1/slot0'' = Some s \<and>
      (\<exists>s'. map_of (Slots (clearExpiredQuarantines (\<lambda>_ _. []) 110 db')) ''n1/slot0'' = Some s' \<and>
         \<not> Slot_Quarantined s' \<and> Slot_AcceptsNew s')"
proof -
  let ?s = "snd (recordSlotFailure (\<lambda>_ _. []) sample_db sample_slot ''oom'' 100 1 10)"
  have t: "failureThreshold 1 \<le> mget 0 (Slot_FailureCounters sample_slot) (failureReason ''oom'') + 1"
    by (simp add: failureThreshold_def sample_slot_def)
  have m: "map_of (Slots (sample_db\<lparr>Slots := [(''n1/slot0'', ?s)]\<rparr>)) ''n1/slot0'' = Some ?s"
    by simp
  show ?thesis
    unfolding Let_def
    using slot_quarantine_window [OF t refl m, of 109] slot_quarantine_window [OF t refl m, of 110]
    by (simp add: failureDuration_def sample_slot_def)
qed

text \<open>The flapping maintenance pass is complete: after it no node needs maintenance at that
  time, a node whose suppression is still running keeps it, and a pass that finds nothing
  to do would have changed nothing.\<close>

theorem flap_maintenance_complete:
  "\<not> needsWorkerFlapMaintenance cfg now (Manager_clearExpiredWorkerSuppressions cfg now db) \<and>
   map (\<lambda>n. nodeWarmPlacementSuppressed n now) (mvals (Nodes (Manager_clearExpiredWorkerSuppressions cfg now db))) =
   map (\<lambda>n. nodeWarmPlacementSuppressed n now) (mvals (Nodes db)) \<and>
   Manager_clearExpiredWorkerSuppressions cfg now db = clearExpiredWorkerSuppressions db now cfg"
proof -
  let ?f = "\<lambda>node. clearExpiredWorkerSuppression
     (node\<lparr>Node_RecentFlapEvents := pruneWorkerFlapEvents (Node_RecentFlapEvents node) now (workerFlapWindow cfg)\<rparr>) now"
  have complete: "\<not> needsWorkerFlapMaintenance cfg now (clearExpiredWorkerSuppressions db now cfg)"
    by (auto simp: needsWorkerFlapMaintenance_def clearExpiredWorkerSuppressions_def list_ex_iff set_mvals
        mmap_def Let_def pruneWorkerFlapEvents_def)
  have keep: "nodeWarmPlacementSuppressed (?f n) now = nodeWarmPlacementSuppressed n now" for n
    by simp
  have "clearExpiredWorkerSuppressions db now cfg = db" if "\<not> needsWorkerFlapMaintenance cfg now db"
  proof -
    have "?f n = n" if "(k, n) \<in> set (Nodes db)" for k n
    proof -
      have "filter (\<lambda>e. \<not> Flap_At e < now + - workerFlapWindow cfg) (Node_RecentFlapEvents n) =
          Node_RecentFlapEvents n"
        using \<open>\<not> needsWorkerFlapMaintenance cfg now db\<close> \<open>(k, n) \<in> set (Nodes db)\<close>
        by (auto simp: needsWorkerFlapMaintenance_def list_ex_iff set_mvals Let_def filter_id_conv)
      with \<open>\<not> needsWorkerFlapMaintenance cfg now db\<close> \<open>(k, n) \<in> set (Nodes db)\<close> show ?thesis
        by (auto simp: needsWorkerFlapMaintenance_def list_ex_iff set_mvals Let_def pruneWorkerFlapEvents_def
            clearExpiredWorkerSuppression_def nodeWarmPlacementSuppressed_def)
    qed
    then show ?thesis
      by (simp add: clearExpiredWorkerSuppressions_def mmap_id)
  qed
  with complete keep show ?thesis
    by (auto simp: Manager_clearExpiredWorkerSuppressions_def clearExpiredWorkerSuppressions_def mvals_def mmap_def)
qed

end
