(* ===== verification/Capacity.thy ===== *)
theory Capacity
  imports Fit Quarantine
begin

section \<open>Policy capacity and auto-balance (placement_capacity.go, placement_cooldown.go)\<close>

text \<open>
  How many warm and cached copies a placement policy asks for. A fixed policy names the
  counts; an auto-balanced one derives them from the tasks of the profile: queued, running,
  and the smoothed arrivals of the last ten minutes, held up for a cooldown after the
  demand falls.
\<close>

datatype policy_error = NegativeCount string | WarmBounds | CachedBounds

text \<open>The range over the literal map reports the first negative field of an unspecified order;
  the order of the literal stands for it.\<close>

definition validatePlacementPolicy :: "PlacementPolicy \<Rightarrow> policy_error option" where
  "validatePlacementPolicy policy =
     (case find (\<lambda>(name, v). v < 0)
         [(''cachedCount'', Policy_CachedCount policy), (''warmCount'', Policy_WarmCount policy),
          (''minCachedCount'', Policy_MinCachedCount policy), (''maxCachedCount'', Policy_MaxCachedCount policy),
          (''minWarmCount'', Policy_MinWarmCount policy), (''maxWarmCount'', Policy_MaxWarmCount policy),
          (''maxCachedProfilesPerNode'', Policy_MaxCachedProfilesPerNode policy),
          (''maxWarmProfilesPerNode'', Policy_MaxWarmProfilesPerNode policy)] of
        Some (name, _) \<Rightarrow> Some (NegativeCount name)
      | None \<Rightarrow>
          if Policy_MaxWarmCount policy > 0 \<and> Policy_MinWarmCount policy > Policy_MaxWarmCount policy
          then Some WarmBounds
          else if Policy_MaxCachedCount policy > 0 \<and> Policy_MinCachedCount policy > Policy_MaxCachedCount policy
          then Some CachedBounds
          else None)"

record policyCapacity =
  Cap_Cached :: int
  Cap_Warm :: int
  Cap_MinCached :: int
  Cap_MinWarm :: int
  Cap_DemandQueued :: int
  Cap_DemandRunning :: int
  Cap_DemandRecent :: int
  Cap_DemandSmoothed :: int

definition autoBalanceDemandWindow :: duration where
  "autoBalanceDemandWindow = minutes 10"

definition autoBalanceDemandBuckets :: int where
  "autoBalanceDemandBuckets = 5"

definition defaultAutoBalanceScaleDownCooldown :: duration where
  "defaultAutoBalanceScaleDownCooldown = minutes 5"

definition clampCount :: "int \<Rightarrow> int \<Rightarrow> int \<Rightarrow> int" where
  "clampCount v minValue maxValue =
     (let v1 = (if v < minValue then minValue else v)
      in if maxValue > 0 \<and> v1 > maxValue then maxValue else v1)"

definition ceilDiv :: "int \<Rightarrow> int \<Rightarrow> int" where
  "ceilDiv v divisor = (if v \<le> 0 \<or> divisor \<le> 0 then 0 else (v + divisor - 1) div divisor)"

definition max64 :: "int \<Rightarrow> int \<Rightarrow> int" where
  "max64 a b = (if a > b then a else b)"

text \<open>\<^verbatim>\<open>now.Sub\<close> saturates beyond 292 years, where the age exceeds the window anyway.\<close>

definition demandBucket :: "time \<Rightarrow> time \<Rightarrow> int option" where
  "demandBucket createdAt now =
     (if createdAt = 0 \<or> createdAt > now then None
      else (let age = now - createdAt in
        if age \<ge> autoBalanceDemandWindow then None
        else (let bucketSize = autoBalanceDemandWindow div autoBalanceDemandBuckets;
                  bucket = age div bucketSize
              in if bucket \<ge> autoBalanceDemandBuckets then None else Some bucket)))"

definition smoothedDemand :: "int \<Rightarrow> int list \<Rightarrow> int" where
  "smoothedDemand recent buckets =
     (if recent = 0 then 0
      else (let activeBuckets = max 1 (int (length (filter (\<lambda>count. count > 0) buckets)))
            in ceilDiv (recent * activeBuckets) (4 * autoBalanceDemandBuckets)))"

fun profileDemand_loop ::
  "string \<Rightarrow> time \<Rightarrow> int \<Rightarrow> int \<Rightarrow> int \<Rightarrow> int list \<Rightarrow> Task list \<Rightarrow> int \<times> int \<times> int \<times> int" where
  "profileDemand_loop profileID now queued running recent buckets [] =
     (queued, running, recent, smoothedDemand recent buckets)"
| "profileDemand_loop profileID now queued running recent buckets (task # tasks) =
     (if Task_ProfileID task \<noteq> profileID
      then profileDemand_loop profileID now queued running recent buckets tasks
      else (let queued' = (if Task_Status task = TaskStatusQueued then queued + 1 else queued);
                running' = (if Task_Status task = TaskStatusRunning then running + 1 else running)
            in case demandBucket (Task_CreatedAt task) now of
                 Some b \<Rightarrow> profileDemand_loop profileID now queued' running' (recent + 1)
                   (buckets[nat b := buckets ! nat b + 1]) tasks
               | None \<Rightarrow> profileDemand_loop profileID now queued' running' recent buckets tasks))"

definition profileDemand :: "Database \<Rightarrow> string \<Rightarrow> time \<Rightarrow> int \<times> int \<times> int \<times> int" where
  "profileDemand db profileID now =
     profileDemand_loop profileID now 0 0 0 (replicate (nat autoBalanceDemandBuckets) 0) (mvals (Tasks db))"

definition taskTerminal :: "string \<Rightarrow> bool" where
  "taskTerminal status \<longleftrightarrow>
     status = TaskStatusCompleted \<or> status = TaskStatusFailed \<or> status = TaskStatusCancelled"

definition taskFinishedAt :: "Task \<Rightarrow> time" where
  "taskFinishedAt task =
     (case Task_CompletedAt task of Some t \<Rightarrow> t | None \<Rightarrow> Task_UpdatedAt task)"

definition recentlyFinishedDemand :: "Database \<Rightarrow> string \<Rightarrow> time \<Rightarrow> duration \<Rightarrow> int" where
  "recentlyFinishedDemand db profileID now cooldown =
     (let cutoff = now + - cooldown; recentCutoff = now + - autoBalanceDemandWindow
      in int (length (filter (\<lambda>task.
           Task_ProfileID task = profileID \<and> taskTerminal (Task_Status task) \<and>
           \<not> Task_CreatedAt task > recentCutoff \<and>
           taskFinishedAt task > cutoff \<and> \<not> taskFinishedAt task > now) (mvals (Tasks db)))))"

definition autoBalanceCooldownDemand :: "Database \<Rightarrow> string \<Rightarrow> time \<Rightarrow> duration \<Rightarrow> int" where
  "autoBalanceCooldownDemand db profileID now cooldown =
     (if cooldown \<le> 0 then 0
      else (case profileDemand db profileID (now + - cooldown) of
              (_, _, _, smoothed) \<Rightarrow> max smoothed (recentlyFinishedDemand db profileID now cooldown)))"

definition managerAutoBalanceCooldown :: "ManagerConfig \<Rightarrow> duration" where
  "managerAutoBalanceCooldown cfg =
     (if Cfg_AutoBalanceScaleDownCooldown cfg > 0 then Cfg_AutoBalanceScaleDownCooldown cfg
      else defaultAutoBalanceScaleDownCooldown)"

definition policyMinWarm :: "PlacementPolicy \<Rightarrow> int" where
  "policyMinWarm policy =
     (if Policy_MinWarmCount policy = 0 \<and> Policy_WarmCount policy > 0
      then Policy_WarmCount policy else Policy_MinWarmCount policy)"

definition policyMinCached :: "PlacementPolicy \<Rightarrow> int" where
  "policyMinCached policy =
     (let minCached = max (Policy_MinCachedCount policy) (policyMinWarm policy)
      in if minCached = 0 \<and> Policy_CachedCount policy > 0 then Policy_CachedCount policy else minCached)"

definition effectivePolicyCapacity ::
  "Database \<Rightarrow> PlacementPolicy \<Rightarrow> time \<Rightarrow> duration \<Rightarrow> policyCapacity" where
  "effectivePolicyCapacity db policy now cooldown =
     (if \<not> Policy_AutoBalance policy
      then (let warm = max 0 (Policy_WarmCount policy);
                cached = max warm (Policy_CachedCount policy)
            in \<lparr>Cap_Cached = cached, Cap_Warm = warm, Cap_MinCached = cached, Cap_MinWarm = warm,
                 Cap_DemandQueued = 0, Cap_DemandRunning = 0, Cap_DemandRecent = 0, Cap_DemandSmoothed = 0\<rparr>)
      else (case profileDemand db (Policy_ProfileID policy) now of
              (queued, running, recent, smoothed) \<Rightarrow>
                (let minWarm = policyMinWarm policy;
                     minCached = policyMinCached policy;
                     demand = max (queued + running + smoothed)
                       (autoBalanceCooldownDemand db (Policy_ProfileID policy) now cooldown);
                     warm = clampCount demand minWarm (Policy_MaxWarmCount policy);
                     cached = max (clampCount (max warm minCached) minCached (Policy_MaxCachedCount policy)) warm
                 in \<lparr>Cap_Cached = cached, Cap_Warm = warm, Cap_MinCached = minCached, Cap_MinWarm = minWarm,
                      Cap_DemandQueued = queued, Cap_DemandRunning = running, Cap_DemandRecent = recent,
                      Cap_DemandSmoothed = smoothed\<rparr>)))"

definition EffectivePolicyCapacity :: "Database \<Rightarrow> PlacementPolicy \<Rightarrow> time \<Rightarrow> policyCapacity" where
  "EffectivePolicyCapacity db policy now =
     effectivePolicyCapacity db policy now defaultAutoBalanceScaleDownCooldown"

definition decoratePolicyEffectiveCapacityWithCooldown :: "Database \<Rightarrow> time \<Rightarrow> duration \<Rightarrow> Database" where
  "decoratePolicyEffectiveCapacityWithCooldown db now cooldown =
     db\<lparr>Policies := mmap (\<lambda>_ policy.
          let capacity = effectivePolicyCapacity db policy now cooldown
          in policy\<lparr>Policy_EffectiveCachedCount := Cap_Cached capacity,
               Policy_EffectiveWarmCount := Cap_Warm capacity,
               Policy_DemandQueued := Cap_DemandQueued capacity,
               Policy_DemandRunning := Cap_DemandRunning capacity,
               Policy_DemandRecent := Cap_DemandRecent capacity,
               Policy_DemandSmoothed := Cap_DemandSmoothed capacity\<rparr>) (Policies db)\<rparr>"

definition decoratePolicyEffectiveCapacity :: "Database \<Rightarrow> time \<Rightarrow> Database" where
  "decoratePolicyEffectiveCapacity db now =
     decoratePolicyEffectiveCapacityWithCooldown db now defaultAutoBalanceScaleDownCooldown"

definition desiredCachedCount :: "PlacementPolicy \<Rightarrow> int" where
  "desiredCachedCount policy =
     (if Policy_EffectiveCachedCount policy > 0 \<or> Policy_AutoBalance policy
      then Policy_EffectiveCachedCount policy
      else max (Policy_CachedCount policy) (Policy_WarmCount policy))"

definition desiredWarmCount :: "PlacementPolicy \<Rightarrow> int" where
  "desiredWarmCount policy =
     (if Policy_EffectiveWarmCount policy > 0 \<or> Policy_AutoBalance policy
      then Policy_EffectiveWarmCount policy else Policy_WarmCount policy)"

subsection \<open>Sizes and budgets\<close>

definition profileMemoryBytes :: "WorkloadProfile \<Rightarrow> int" where
  "profileMemoryBytes profile =
     (case Profile_Requirements profile of
        None \<Rightarrow> 0
      | Some req \<Rightarrow> if Req_UnifiedMemoryBytes req > 0 then Req_UnifiedMemoryBytes req else Req_RAMBytes req)"

text \<open>The sizes come from manifests and requests, so the sum wraps like \<^verbatim>\<open>int64\<close>.\<close>

definition artifactsBytes :: "Database \<Rightarrow> string list \<Rightarrow> int" where
  "artifactsBytes db ids =
     foldl (\<lambda>total id. wrap64 (total + Artifact_SizeBytes (mget zero_Artifact (Artifacts db) id))) 0 ids"

definition profileDiskBytes :: "Database \<Rightarrow> WorkloadProfile \<Rightarrow> int" where
  "profileDiskBytes db profile =
     (case Profile_Requirements profile of
        Some req \<Rightarrow> if Req_DiskBytes req > 0 then Req_DiskBytes req
                    else artifactsBytes db (Profile_Artifacts profile)
      | None \<Rightarrow> artifactsBytes db (Profile_Artifacts profile))"

definition nodeMemoryBudget :: "Node \<Rightarrow> int" where
  "nodeMemoryBudget node =
     (if Budget_UnifiedMemoryBytes (Node_Budgets node) > 0
      then Budget_UnifiedMemoryBytes (Node_Budgets node) else Budget_RAMBytes (Node_Budgets node))"

definition nodePlacementBudget :: "Node \<Rightarrow> int" where
  "nodePlacementBudget node = max64 (nodeMemoryBudget node) (Budget_DiskBytes (Node_Budgets node))"

definition profilePlacementSize :: "Database \<Rightarrow> WorkloadProfile \<Rightarrow> int" where
  "profilePlacementSize db profile =
     foldl (\<lambda>size variant.
        let effective = EffectiveProfileForVariant profile variant
        in max64 size (wrap64 (profileMemoryBytes effective + profileDiskBytes db effective)))
       0 (ProfileRuntimeVariants profile)"

subsection \<open>Clamping and smoothing\<close>

lemma clampCount_le: "0 < maxV \<Longrightarrow> clampCount v minV maxV \<le> maxV"
  by (simp add: clampCount_def Let_def)

lemma clampCount_ge: "maxV \<le> 0 \<or> minV \<le> maxV \<Longrightarrow> minV \<le> clampCount v minV maxV"
  by (auto simp: clampCount_def Let_def)

lemma clampCount_between:
  "minV \<le> v \<Longrightarrow> maxV \<le> 0 \<or> v \<le> maxV \<Longrightarrow> clampCount v minV maxV = v"
  by (auto simp: clampCount_def Let_def)

lemma clampCount_mono: "v \<le> v' \<Longrightarrow> clampCount v minV maxV \<le> clampCount v' minV maxV"
  by (auto simp: clampCount_def Let_def)

lemma ceilDiv_eq: "0 \<le> v \<Longrightarrow> 0 < d \<Longrightarrow> d * ceilDiv v d \<ge> v \<and> d * (ceilDiv v d - 1) < v \<or> v = 0 \<and> ceilDiv v d = 0"
proof -
  assume v: "0 \<le> v" and d: "0 < d"
  show ?thesis
  proof (cases "v = 0")
    case False
    define q where "q = (v + d - 1) div d"
    have "d * q + (v + d - 1) mod d = v + d - 1"
      by (simp add: q_def)
    moreover have "0 \<le> (v + d - 1) mod d" "(v + d - 1) mod d < d"
      using d by auto
    ultimately have "v \<le> d * q" and "d * q - d < v"
      by linarith+
    moreover have "ceilDiv v d = q"
      using v d False by (simp add: ceilDiv_def q_def)
    ultimately show ?thesis
      by (simp add: right_diff_distrib)
  qed (simp add: ceilDiv_def)
qed

lemma demandBucket_range: "demandBucket c now = Some b \<Longrightarrow> 0 \<le> b \<and> b < autoBalanceDemandBuckets"
  by (auto simp: demandBucket_def Let_def autoBalanceDemandWindow_def autoBalanceDemandBuckets_def minutes_def
      pos_imp_zdiv_nonneg_iff split: if_splits)

text \<open>The demand, counted declaratively.\<close>

definition demandTasks :: "Database \<Rightarrow> string \<Rightarrow> (Task \<Rightarrow> bool) \<Rightarrow> int" where
  "demandTasks db profileID P =
     int (length (filter (\<lambda>t. Task_ProfileID t = profileID \<and> P t) (mvals (Tasks db))))"

lemma profileDemand_loop_counts:
  assumes "profileDemand_loop pid now q r rc bs ts = (q', r', rc', sm)"
  shows "q' = q + int (length (filter (\<lambda>t. Task_ProfileID t = pid \<and> Task_Status t = TaskStatusQueued) ts)) \<and>
    r' = r + int (length (filter (\<lambda>t. Task_ProfileID t = pid \<and> Task_Status t = TaskStatusRunning) ts)) \<and>
    rc' = rc + int (length (filter (\<lambda>t. Task_ProfileID t = pid \<and> demandBucket (Task_CreatedAt t) now \<noteq> None) ts))"
  using assms
proof (induction ts arbitrary: q r rc bs)
  case (Cons t ts)
  then show ?case
    by (fastforce simp: Let_def split: if_splits option.splits)
qed simp

lemma profileDemand_loop_smoothed:
  assumes "profileDemand_loop pid now q r rc bs ts = (q', r', rc', sm)" and "length bs = 5"
  shows "\<exists>bs'. sm = smoothedDemand rc' bs' \<and> length bs' = 5"
  using assms
proof (induction ts arbitrary: q r rc bs)
  case (Cons t ts)
  then show ?case
    by (fastforce simp: Let_def split: if_splits option.splits)
qed auto

lemma profileDemand_counts:
  assumes "profileDemand db pid now = (queued, running, recent, smoothed)"
  shows "queued = demandTasks db pid (\<lambda>t. Task_Status t = TaskStatusQueued)"
    and "running = demandTasks db pid (\<lambda>t. Task_Status t = TaskStatusRunning)"
    and "recent = demandTasks db pid (\<lambda>t. demandBucket (Task_CreatedAt t) now \<noteq> None)"
  using profileDemand_loop_counts [OF assms [unfolded profileDemand_def]]
  by (simp_all add: demandTasks_def)

lemma smoothedDemand_bounds:
  assumes "0 \<le> recent" and "length buckets = 5"
  shows "0 \<le> smoothedDemand recent buckets \<and> smoothedDemand recent buckets \<le> recent \<and>
    (smoothedDemand recent buckets = 0 \<longleftrightarrow> recent = 0)"
proof (cases "recent = 0")
  case False
  define a where "a = max 1 (int (length (filter (\<lambda>count. count > 0) buckets)))"
  have "length (filter (\<lambda>count. count > 0) buckets) \<le> 5"
    using length_filter_le [of "\<lambda>count. count > 0" buckets] assms(2) by simp
  then have a: "1 \<le> a" "a \<le> 5"
    by (simp_all add: a_def)
  define v where "v = recent * a"
  have r: "1 \<le> recent" using False assms(1) by simp
  have "recent * 1 \<le> v" "v \<le> recent * 5"
    unfolding v_def using r a by (intro mult_left_mono; simp)+
  then have v: "1 \<le> v" "v \<le> 5 * recent"
    using r by linarith+
  have "20 * ceilDiv v 20 \<ge> v" "20 * (ceilDiv v 20 - 1) < v"
    using ceilDiv_eq [of v 20] v by auto
  moreover have "smoothedDemand recent buckets = ceilDiv v 20"
    using False by (simp add: smoothedDemand_def v_def a_def autoBalanceDemandBuckets_def Let_def)
  ultimately show ?thesis
    using v r by auto
qed (simp add: smoothedDemand_def)

lemma demandTasks_nonneg [simp]: "0 \<le> demandTasks db pid P"
  by (simp add: demandTasks_def)

lemma profileDemand_smoothed:
  assumes "profileDemand db pid now = (queued, running, recent, smoothed)"
  shows "0 \<le> smoothed \<and> smoothed \<le> recent \<and> (smoothed = 0 \<longleftrightarrow> recent = 0)"
  using profileDemand_loop_smoothed [OF assms [unfolded profileDemand_def]] profileDemand_counts(3) [OF assms]
    smoothedDemand_bounds by (force simp: autoBalanceDemandBuckets_def)

lemma policyMinCached_ge: "policyMinWarm policy \<le> policyMinCached policy"
  by (auto simp: policyMinCached_def Let_def)

subsection \<open>Properties\<close>

text \<open>For every policy the effective counts are consistent: at least as many cached as warm
  copies; a fixed policy's minimum and target agree and are its configured counts; an
  auto-balanced policy's warm target is its demand, raised to the minimum and cut at a
  positive maximum, where the demand is the queued, running and smoothed tasks of the
  profile or the cooldown demand, whichever is larger.\<close>

theorem effectivePolicyCapacity_sound:
  "Cap_Warm (effectivePolicyCapacity db policy now cooldown) \<le>
     Cap_Cached (effectivePolicyCapacity db policy now cooldown) \<and>
   (if Policy_AutoBalance policy
    then (\<exists>recent smoothed.
       recent = demandTasks db (Policy_ProfileID policy) (\<lambda>t. demandBucket (Task_CreatedAt t) now \<noteq> None) \<and>
       0 \<le> smoothed \<and> smoothed \<le> recent \<and> (smoothed = 0 \<longleftrightarrow> recent = 0) \<and>
       Cap_Warm (effectivePolicyCapacity db policy now cooldown) =
         clampCount (max (demandTasks db (Policy_ProfileID policy) (\<lambda>t. Task_Status t = TaskStatusQueued) +
             demandTasks db (Policy_ProfileID policy) (\<lambda>t. Task_Status t = TaskStatusRunning) + smoothed)
           (autoBalanceCooldownDemand db (Policy_ProfileID policy) now cooldown))
           (policyMinWarm policy) (Policy_MaxWarmCount policy))
    else Cap_MinWarm (effectivePolicyCapacity db policy now cooldown) = max 0 (Policy_WarmCount policy) \<and>
       Cap_Warm (effectivePolicyCapacity db policy now cooldown) = max 0 (Policy_WarmCount policy) \<and>
       Cap_Cached (effectivePolicyCapacity db policy now cooldown) =
         Cap_MinCached (effectivePolicyCapacity db policy now cooldown))"
proof -
  obtain queued running recent smoothed where
    d: "profileDemand db (Policy_ProfileID policy) now = (queued, running, recent, smoothed)"
    by (metis surj_pair)
  show ?thesis
    using d profileDemand_counts [OF d] profileDemand_smoothed [OF d]
    by (auto simp: effectivePolicyCapacity_def Let_def)
qed

text \<open>For an auto-balanced policy that validation accepts, the warm target never exceeds a
  positive maximum, and it reaches the minimum whenever the minimum is given explicitly or
  the warm count it falls back to respects the maximum; likewise the cached target when the
  maximum leaves room for the warm copies.\<close>

theorem autobalance_bounds:
  assumes "validatePlacementPolicy policy = None" and "Policy_AutoBalance policy"
  shows "0 \<le> Cap_Warm (effectivePolicyCapacity db policy now cooldown) \<and>
    (0 < Policy_MaxWarmCount policy \<longrightarrow>
       Cap_Warm (effectivePolicyCapacity db policy now cooldown) \<le> Policy_MaxWarmCount policy) \<and>
    (Policy_MaxWarmCount policy = 0 \<or> 0 < Policy_MinWarmCount policy \<or>
       Policy_WarmCount policy \<le> Policy_MaxWarmCount policy \<longrightarrow>
       Cap_MinWarm (effectivePolicyCapacity db policy now cooldown) \<le>
       Cap_Warm (effectivePolicyCapacity db policy now cooldown)) \<and>
    (0 < Policy_MaxCachedCount policy \<longrightarrow>
       Cap_Cached (effectivePolicyCapacity db policy now cooldown) \<le>
       max (Policy_MaxCachedCount policy) (Cap_Warm (effectivePolicyCapacity db policy now cooldown)))"
proof -
  obtain queued running recent smoothed where
    d: "profileDemand db (Policy_ProfileID policy) now = (queued, running, recent, smoothed)"
    by (metis surj_pair)
  define demand where "demand = max (queued + running + smoothed)
     (autoBalanceCooldownDemand db (Policy_ProfileID policy) now cooldown)"
  have dem: "0 \<le> demand"
    using profileDemand_counts(1,2) [OF d] profileDemand_smoothed [OF d]
    by (simp add: demand_def le_max_iff_disj)
  have v: "0 \<le> Policy_WarmCount policy" "0 \<le> Policy_MinWarmCount policy" "0 \<le> Policy_MaxWarmCount policy"
    "Policy_MaxWarmCount policy = 0 \<or> Policy_MinWarmCount policy \<le> Policy_MaxWarmCount policy"
    using assms(1) by (auto simp: validatePlacementPolicy_def split: if_splits)
  have warm: "Cap_Warm (effectivePolicyCapacity db policy now cooldown) =
      clampCount demand (policyMinWarm policy) (Policy_MaxWarmCount policy)"
    and minw: "Cap_MinWarm (effectivePolicyCapacity db policy now cooldown) = policyMinWarm policy"
    and cached: "Cap_Cached (effectivePolicyCapacity db policy now cooldown) =
      max (clampCount (max (clampCount demand (policyMinWarm policy) (Policy_MaxWarmCount policy))
           (policyMinCached policy)) (policyMinCached policy) (Policy_MaxCachedCount policy))
        (clampCount demand (policyMinWarm policy) (Policy_MaxWarmCount policy))"
    using assms(2) d by (simp_all add: effectivePolicyCapacity_def demand_def Let_def)
  have "0 \<le> clampCount demand (policyMinWarm policy) (Policy_MaxWarmCount policy)"
    using dem v by (auto simp: clampCount_def Let_def policyMinWarm_def)
  moreover have "policyMinWarm policy \<le> clampCount demand (policyMinWarm policy) (Policy_MaxWarmCount policy)"
    if "Policy_MaxWarmCount policy = 0 \<or> 0 < Policy_MinWarmCount policy \<or>
      Policy_WarmCount policy \<le> Policy_MaxWarmCount policy"
    using that v by (intro clampCount_ge) (auto simp: policyMinWarm_def)
  ultimately show ?thesis
    unfolding warm minw cached using clampCount_le by (auto simp: max.coboundedI1)
qed

definition sample_policy :: PlacementPolicy where
  "sample_policy = zero_PlacementPolicy\<lparr>Policy_ID := ''pol1'', Policy_ProfileID := ''p1'',
     Policy_WarmCount := 1\<rparr>"

definition sample_policy_auto :: PlacementPolicy where
  "sample_policy_auto = sample_policy\<lparr>Policy_AutoBalance := True, Policy_WarmCount := 5,
     Policy_MaxWarmCount := 2, Policy_MaxCachedCount := 1\<rparr>"

theorem autobalance_bounds_witness:
  "validatePlacementPolicy sample_policy_auto = None \<and>
   Cap_Warm (effectivePolicyCapacity sample_db sample_policy_auto 0 0) \<le> 2"
proof -
  have v: "validatePlacementPolicy sample_policy_auto = None" "Policy_AutoBalance sample_policy_auto"
    by (simp_all add: validatePlacementPolicy_def sample_policy_auto_def sample_policy_def)
  show ?thesis
    using v autobalance_bounds [OF v, of sample_db 0 0] by (simp add: sample_policy_auto_def)
qed

text \<open>The fallback of the minimum to the warm count is not checked against the maximum: a
  policy that validation accepts, with warm count 5, at most 2 warm and 1 cached copies,
  gets a warm minimum of 5, and cached targets above its cached maximum.\<close>

theorem autobalance_minimum_exceeds_maximum:
  "validatePlacementPolicy sample_policy_auto = None \<and> Policy_MaxWarmCount sample_policy_auto = 2 \<and>
   Policy_MaxCachedCount sample_policy_auto = 1 \<and>
   Cap_MinWarm (effectivePolicyCapacity sample_db sample_policy_auto 0 0) = 5 \<and>
   Cap_Warm (effectivePolicyCapacity sample_db sample_policy_auto 0 0) = 2 \<and>
   Cap_Cached (effectivePolicyCapacity sample_db sample_policy_auto 0 0) = 2"
  by code_simp

end
