(* ===== verification/Planner.thy ===== *)
theory Planner
  imports Capacity
begin

section \<open>The placement planner (placement_plan.go, placement_explain.go, placement_drain.go)\<close>

text \<open>
  Given the policies, profiles, nodes and slots, the planner decides which slots should keep
  which profile warm and which nodes should cache it. The planner is a record of counters
  and of the assignments made so far; every method of \<^verbatim>\<open>placementPlanner\<close> is a function from
  planner to planner. The explainer, which records why candidates were selected or
  rejected, is an optional part of the planner, as the source's pointer is.
\<close>

record policyPlanItem =
  Item_profile :: WorkloadProfile
  Item_policy :: PlacementPolicy
  Item_capacity :: policyCapacity
  Item_scarcity :: int
  Item_size :: int
  Item_demand :: int

record placementCandidate =
  Cand_slot :: Slot
  Cand_node :: Node
  Cand_profile :: WorkloadProfile
  Cand_effective :: WorkloadProfile
  Cand_fit :: FitResult

subsection \<open>The explainer\<close>

record PlacementCandidateExplanation =
  CandX_Phase :: string
  CandX_NodeID :: string
  CandX_SlotID :: string
  CandX_RuntimeVariantID :: string
  CandX_ModelArtifactID :: string
  CandX_DesiredCached :: bool
  CandX_DesiredWarm :: bool
  CandX_ActualCached :: bool
  CandX_ActualWarm :: bool
  CandX_Ready :: bool
  CandX_Reasons :: "string list"

record PlacementMissingExplanation =
  MissX_Phase :: string
  MissX_DesiredCached :: bool
  MissX_DesiredWarm :: bool
  MissX_Reasons :: "string list"

record PlacementProfileExplanation =
  ProfX_ProfileID :: string
  ProfX_PolicyID :: string
  ProfX_LogicalModel :: string
  ProfX_DesiredCached :: int
  ProfX_DesiredWarm :: int
  ProfX_Selected :: "PlacementCandidateExplanation list"
  ProfX_Rejected :: "PlacementCandidateExplanation list"
  ProfX_Missing :: "PlacementMissingExplanation list"

record PlacementExplainResponse =
  Explain_GeneratedAt :: time
  Explain_Plan :: "PlacementAssignment list"
  Explain_Profiles :: "PlacementProfileExplanation list"

record placementExplainer =
  Expl_generatedAt :: time
  Expl_profiles :: "PlacementProfileExplanation gomap"
  Expl_order :: "string list"
  Expl_plan :: "PlacementAssignment list"
  Expl_seen :: "bool gomap"

definition newPlacementExplainer :: "time \<Rightarrow> placementExplainer" where
  "newPlacementExplainer now =
     \<lparr>Expl_generatedAt = now, Expl_profiles = [], Expl_order = [], Expl_plan = [], Expl_seen = []\<rparr>"

definition zero_ProfileExplanation :: "string \<Rightarrow> PlacementProfileExplanation" where
  "zero_ProfileExplanation profileID =
     \<lparr>ProfX_ProfileID = profileID, ProfX_PolicyID = [], ProfX_LogicalModel = [], ProfX_DesiredCached = 0,
      ProfX_DesiredWarm = 0, ProfX_Selected = [], ProfX_Rejected = [], ProfX_Missing = []\<rparr>"

text \<open>\<^verbatim>\<open>e.profile(id)\<close> yields a pointer into the map; \<open>updProfile\<close> is a write through it.\<close>

definition expl_profile :: "string \<Rightarrow> placementExplainer \<Rightarrow> placementExplainer" where
  "expl_profile profileID e =
     (case map_of (Expl_profiles e) profileID of
        Some _ \<Rightarrow> e
      | None \<Rightarrow> e\<lparr>Expl_profiles := mput profileID (zero_ProfileExplanation profileID) (Expl_profiles e),
                  Expl_order := Expl_order e @ [profileID]\<rparr>)"

definition updProfile ::
  "string \<Rightarrow> (PlacementProfileExplanation \<Rightarrow> PlacementProfileExplanation) \<Rightarrow> placementExplainer \<Rightarrow>
   placementExplainer" where
  "updProfile profileID f e =
     (let e1 = expl_profile profileID e
      in e1\<lparr>Expl_profiles := mput profileID
           (f (mget (zero_ProfileExplanation profileID) (Expl_profiles e1) profileID)) (Expl_profiles e1)\<rparr>)"

definition addPolicyItem :: "policyPlanItem \<Rightarrow> placementExplainer \<Rightarrow> placementExplainer" where
  "addPolicyItem item e =
     updProfile (Profile_ID (Item_profile item)) (\<lambda>profile. profile\<lparr>
        ProfX_PolicyID := Policy_ID (Item_policy item),
        ProfX_LogicalModel := ProfileLogicalModel (Item_profile item),
        ProfX_DesiredCached := Cap_Cached (Item_capacity item),
        ProfX_DesiredWarm := Cap_Warm (Item_capacity item)\<rparr>) e"

definition setPlan :: "PlacementAssignment list \<Rightarrow> placementExplainer \<Rightarrow> placementExplainer" where
  "setPlan plan e = e\<lparr>Expl_plan := plan\<rparr>"

definition response :: "placementExplainer \<Rightarrow> PlacementExplainResponse" where
  "response e =
     \<lparr>Explain_GeneratedAt = Expl_generatedAt e, Explain_Plan = Expl_plan e,
      Explain_Profiles = map (\<lambda>id. mget (zero_ProfileExplanation id) (Expl_profiles e) id) (Expl_order e)\<rparr>"

definition seenKey :: "string \<Rightarrow> string \<Rightarrow> PlacementCandidateExplanation \<Rightarrow> string" where
  "seenKey profileID decision item =
     Join [profileID, decision, CandX_Phase item, CandX_NodeID item, CandX_SlotID item,
       CandX_RuntimeVariantID item, Join (CandX_Reasons item) '',''] ''|''"

definition markSeen ::
  "string \<Rightarrow> string \<Rightarrow> PlacementCandidateExplanation \<Rightarrow> placementExplainer \<Rightarrow> bool \<times> placementExplainer" where
  "markSeen profileID decision item e =
     (let key = seenKey profileID decision item
      in if mget False (Expl_seen e) key then (False, e)
         else (True, e\<lparr>Expl_seen := mput key True (Expl_seen e)\<rparr>))"

definition containsArtifactID :: "string list \<Rightarrow> string \<Rightarrow> bool" where
  "containsArtifactID items want = list_ex (\<lambda>item. NormalizeSHA256 item = NormalizeSHA256 want) items"

definition nodeHasArtifacts :: "Node \<Rightarrow> string list \<Rightarrow> bool" where
  "nodeHasArtifacts node artifacts =
     (if length artifacts = 0 then False
      else list_all (\<lambda>artifact. containsArtifactID (Node_CachedArtifacts node) artifact) artifacts)"

definition placementCandidateExplanation ::
  "string \<Rightarrow> placementCandidate \<Rightarrow> bool \<Rightarrow> string list \<Rightarrow> PlacementCandidateExplanation" where
  "placementCandidateExplanation phase c warm reasons =
     (let slot = Cand_slot c; effective = Cand_effective c;
          current = slotProfileCurrent slot (Profile_ID (Cand_profile c)) effective
      in \<lparr>CandX_Phase = phase, CandX_NodeID = Node_ID (Cand_node c), CandX_SlotID = Slot_ID slot,
          CandX_RuntimeVariantID = Profile_RuntimeVariantID effective,
          CandX_ModelArtifactID = ConcreteModelArtifactID effective,
          CandX_DesiredCached = True, CandX_DesiredWarm = warm,
          CandX_ActualCached = nodeHasArtifacts (Cand_node c) (Profile_Artifacts effective),
          CandX_ActualWarm = (current \<and> (Slot_State slot = SlotStateReady \<or> Slot_State slot = SlotStateServing)),
          CandX_Ready = (current \<and> Slot_State slot = SlotStateReady \<and> Slot_ActiveTaskID slot = [] \<and>
            \<not> Slot_Quarantined slot),
          CandX_Reasons = reasons\<rparr>)"

definition addSelected ::
  "string \<Rightarrow> string \<Rightarrow> placementCandidate \<Rightarrow> bool \<Rightarrow> string list \<Rightarrow> placementExplainer \<Rightarrow> placementExplainer" where
  "addSelected profileID phase c warm reasons e =
     (let e1 = expl_profile profileID e;
          item = placementCandidateExplanation phase c warm (uniqueSorted reasons)
      in case markSeen profileID ''selected'' item e1 of
           (True, e2) \<Rightarrow> updProfile profileID (\<lambda>profile. profile\<lparr>ProfX_Selected := ProfX_Selected profile @ [item]\<rparr>) e2
         | (False, e2) \<Rightarrow> e2)"

definition addRejected ::
  "string \<Rightarrow> string \<Rightarrow> placementCandidate \<Rightarrow> bool \<Rightarrow> string list \<Rightarrow> placementExplainer \<Rightarrow> placementExplainer" where
  "addRejected profileID phase c warm reasons e =
     (let e1 = expl_profile profileID e;
          item = placementCandidateExplanation phase c warm (uniqueSorted reasons)
      in case markSeen profileID ''rejected'' item e1 of
           (True, e2) \<Rightarrow> updProfile profileID (\<lambda>profile. profile\<lparr>ProfX_Rejected := ProfX_Rejected profile @ [item]\<rparr>) e2
         | (False, e2) \<Rightarrow> e2)"

definition expl_addMissing ::
  "string \<Rightarrow> string \<Rightarrow> bool \<Rightarrow> string list \<Rightarrow> placementExplainer \<Rightarrow> placementExplainer" where
  "expl_addMissing profileID phase warm reasons e =
     updProfile profileID (\<lambda>profile. profile\<lparr>ProfX_Missing := ProfX_Missing profile @
        [\<lparr>MissX_Phase = phase, MissX_DesiredCached = True, MissX_DesiredWarm = warm,
          MissX_Reasons = uniqueSorted reasons\<rparr>]\<rparr>) e"

definition placementPhase :: "bool \<Rightarrow> string" where
  "placementPhase warm = (if warm then ''warm'' else ''cache'')"

subsection \<open>The planner state\<close>

record placementPlanner =
  Plan_db :: Database
  Plan_now :: time
  Plan_cooldown :: duration
  Plan_explain :: "placementExplainer option"
  Plan_assignments :: "PlacementAssignment list"
  Plan_protected :: "bool gomap"
  Plan_warmByProfile :: "int gomap"
  Plan_cacheByProfile :: "int gomap"
  Plan_slotUsed :: "bool gomap"
  Plan_nodeMemoryUsed :: "int gomap"
  Plan_nodeDiskUsed :: "int gomap"
  Plan_nodeWarm :: "bool gomap gomap"
  Plan_nodeCache :: "bool gomap gomap"
  Plan_missing :: "int gomap"

definition newPlacementPlanner ::
  "Database \<Rightarrow> time \<Rightarrow> placementExplainer option \<Rightarrow> duration \<Rightarrow> placementPlanner" where
  "newPlacementPlanner db now explain cooldown =
     \<lparr>Plan_db = db, Plan_now = now, Plan_cooldown = cooldown, Plan_explain = explain,
      Plan_assignments = [], Plan_protected = [], Plan_warmByProfile = [], Plan_cacheByProfile = [],
      Plan_slotUsed = [], Plan_nodeMemoryUsed = [], Plan_nodeDiskUsed = [], Plan_nodeWarm = [],
      Plan_nodeCache = [], Plan_missing = []\<rparr>"

text \<open>\<^verbatim>\<open>if p.explain != nil { p.explain.f(...) }\<close>\<close>

definition explainWith ::
  "(placementExplainer \<Rightarrow> placementExplainer) \<Rightarrow> placementPlanner \<Rightarrow> placementPlanner" where
  "explainWith f p = p\<lparr>Plan_explain := map_option f (Plan_explain p)\<rparr>"

definition addAssignment :: "PlacementAssignment \<Rightarrow> placementPlanner \<Rightarrow> placementPlanner" where
  "addAssignment a p = p\<lparr>Plan_assignments := Plan_assignments p @ [a]\<rparr>"

definition nodeHasProfileWarm :: "placementPlanner \<Rightarrow> string \<Rightarrow> string \<Rightarrow> bool" where
  "nodeHasProfileWarm p nodeID profileID = mget False (mget [] (Plan_nodeWarm p) nodeID) profileID"

definition nodeHasProfileCache :: "placementPlanner \<Rightarrow> string \<Rightarrow> string \<Rightarrow> bool" where
  "nodeHasProfileCache p nodeID profileID = mget False (mget [] (Plan_nodeCache p) nodeID) profileID"

definition markCache :: "policyPlanItem \<Rightarrow> placementCandidate \<Rightarrow> placementPlanner \<Rightarrow> placementPlanner" where
  "markCache item candidate p =
     (let nodeID = Node_ID (Cand_node candidate); profileID = Profile_ID (Item_profile item) in
      if nodeHasProfileCache p nodeID profileID then p
      else p\<lparr>Plan_nodeDiskUsed := mput nodeID
               (wrap64 (mget 0 (Plan_nodeDiskUsed p) nodeID + profileDiskBytes (Plan_db p) (Cand_effective candidate)))
               (Plan_nodeDiskUsed p),
             Plan_nodeCache := mput nodeID (mput profileID True (mget [] (Plan_nodeCache p) nodeID)) (Plan_nodeCache p),
             Plan_cacheByProfile := mput profileID (mget 0 (Plan_cacheByProfile p) profileID + 1)
               (Plan_cacheByProfile p)\<rparr>)"

definition markWarm :: "policyPlanItem \<Rightarrow> placementCandidate \<Rightarrow> placementPlanner \<Rightarrow> placementPlanner" where
  "markWarm item candidate p =
     (let nodeID = Node_ID (Cand_node candidate); profileID = Profile_ID (Item_profile item)
      in markCache item candidate
        (p\<lparr>Plan_slotUsed := mput (Slot_ID (Cand_slot candidate)) True (Plan_slotUsed p),
           Plan_nodeMemoryUsed := mput nodeID
             (wrap64 (mget 0 (Plan_nodeMemoryUsed p) nodeID + profileMemoryBytes (Cand_effective candidate)))
             (Plan_nodeMemoryUsed p),
           Plan_nodeWarm := mput nodeID (mput profileID True (mget [] (Plan_nodeWarm p) nodeID)) (Plan_nodeWarm p),
           Plan_warmByProfile := mput profileID (mget 0 (Plan_warmByProfile p) profileID + 1)
             (Plan_warmByProfile p)\<rparr>))"

subsection \<open>Candidates\<close>

definition nodeUsableForPlacement :: "Node \<Rightarrow> PlacementPolicy \<Rightarrow> bool" where
  "nodeUsableForPlacement node policy =
     (if Node_State node \<noteq> NodeStateOnline \<or> \<not> Node_Approved node \<or> Node_Quarantined node then False
      else if Contains (Constraints_DenyNodes (Policy_Constraints policy)) (Node_ID node) \<or>
        Contains (Constraints_DenyNodes (Policy_Constraints policy)) (Node_Name node) then False
      else HasAll (Node_Tags node) (Constraints_RequireTags (Policy_Constraints policy)))"

definition placementScore :: "string \<Rightarrow> PlacementPolicy \<Rightarrow> placementCandidate \<Rightarrow> int" where
  "placementScore profileID policy c =
     (let prefer = Constraints_PreferNodes (Policy_Constraints policy);
          preferred = (if Contains prefer (Node_ID (Cand_node c)) \<or> Contains prefer (Node_Name (Cand_node c))
            then 1000000 else 0);
          current = (if slotProfileCurrent (Cand_slot c) profileID (Cand_effective c) then 100000 else 0)
      in wrap64 (preferred + current + nodePlacementBudget (Cand_node c) sdiv 2 ^ 30 -
           wrap64 (Slot_FailureCount (Cand_slot c) * 100)))"

definition slotCandidates ::
  "Database \<Rightarrow> WorkloadProfile \<Rightarrow> PlacementPolicy \<Rightarrow> Slot \<Rightarrow> placementCandidate list" where
  "slotCandidates db profile policy slot =
     (case map_of (Nodes db) (Slot_NodeID slot) of
        None \<Rightarrow> []
      | Some node \<Rightarrow>
          if \<not> nodeUsableForPlacement node policy then []
          else concat (map (\<lambda>variant.
            let effective = EffectiveProfileForVariant profile variant;
                fit = FitProfileToSlot effective node slot
            in if Fit_Fits fit
               then [\<lparr>Cand_slot = slot, Cand_node = node, Cand_profile = profile,
                      Cand_effective = effective, Cand_fit = fit\<rparr>]
               else []) (ProfileRuntimeVariants profile)))"

definition placementCandidates ::
  "Database \<Rightarrow> WorkloadProfile \<Rightarrow> PlacementPolicy \<Rightarrow> placementCandidate list" where
  "placementCandidates db profile policy =
     sort_by (\<lambda>a b.
        let scoreI = placementScore (Profile_ID profile) policy a;
            scoreJ = placementScore (Profile_ID profile) policy b
        in if scoreI = scoreJ then Slot_ID (Cand_slot a) < Slot_ID (Cand_slot b) else scoreI > scoreJ)
       (concat (map (slotCandidates db profile policy) (SortedSlots db)))"

definition slotAvailableForWarm :: "Slot \<Rightarrow> WorkloadProfile \<Rightarrow> WorkloadProfile \<Rightarrow> bool" where
  "slotAvailableForWarm slot profile effective =
     (if Slot_ActiveTaskID slot \<noteq> [] then False
      else if Slot_State slot = SlotStateServing then slotProfileCurrent slot (Profile_ID profile) effective
      else Slot_State slot \<noteq> SlotStateUnavailable \<and> Slot_State slot \<noteq> SlotStateError)"

definition profileLimitRejectionReason ::
  "placementPlanner \<Rightarrow> policyPlanItem \<Rightarrow> string \<Rightarrow> bool \<Rightarrow> string" where
  "profileLimitRejectionReason p item nodeID warm =
     (let maxWarm = Policy_MaxWarmProfilesPerNode (Item_policy item);
          maxCached = Policy_MaxCachedProfilesPerNode (Item_policy item);
          profileID = Profile_ID (Item_profile item)
      in if warm \<and> maxWarm > 0 \<and> \<not> nodeHasProfileWarm p nodeID profileID \<and>
            int (length (mget [] (Plan_nodeWarm p) nodeID)) \<ge> maxWarm then ''per_node_warm_profile_limit''
         else if \<not> nodeHasProfileCache p nodeID profileID \<and> maxCached > 0 \<and>
            int (length (mget [] (Plan_nodeCache p) nodeID)) \<ge> maxCached then ''per_node_cached_profile_limit''
         else [])"

definition withinProfileLimit :: "placementPlanner \<Rightarrow> policyPlanItem \<Rightarrow> string \<Rightarrow> bool \<Rightarrow> bool" where
  "withinProfileLimit p item nodeID warm = (profileLimitRejectionReason p item nodeID warm = [])"

definition withinDiskBudget :: "placementPlanner \<Rightarrow> Node \<Rightarrow> WorkloadProfile \<Rightarrow> bool" where
  "withinDiskBudget p node profile =
     (let budget = Budget_DiskBytes (Node_Budgets node) in
      if budget \<le> 0 then True
      else wrap64 (mget 0 (Plan_nodeDiskUsed p) (Node_ID node) + profileDiskBytes (Plan_db p) profile) \<le> budget)"

definition withinMemoryBudget :: "placementPlanner \<Rightarrow> Node \<Rightarrow> WorkloadProfile \<Rightarrow> bool" where
  "withinMemoryBudget p node profile =
     (let budget = nodeMemoryBudget node; need = profileMemoryBytes profile in
      if budget \<le> 0 \<or> need \<le> 0 then True
      else wrap64 (mget 0 (Plan_nodeMemoryUsed p) (Node_ID node) + need) \<le> budget)"

definition canUseCandidate ::
  "placementPlanner \<Rightarrow> policyPlanItem \<Rightarrow> placementCandidate \<Rightarrow> bool \<Rightarrow> bool" where
  "canUseCandidate p item candidate warm =
     (if warm \<and> nodeWarmPlacementSuppressed (Cand_node candidate) (Plan_now p) then False
      else if \<not> withinProfileLimit p item (Node_ID (Cand_node candidate)) warm then False
      else if \<not> withinDiskBudget p (Cand_node candidate) (Cand_effective candidate) then False
      else \<not> warm \<or> withinMemoryBudget p (Cand_node candidate) (Cand_effective candidate))"

subsection \<open>Rejection reasons\<close>

definition nodePlacementRejectionReasons :: "Node \<Rightarrow> PlacementPolicy \<Rightarrow> string list" where
  "nodePlacementRejectionReasons node policy =
     (if Node_ID node = [] then [''node_missing'']
      else (if Node_State node = NodeStateDisabled \<or> Node_Mode node = ''disabled'' then [''node_disabled'']
            else if Node_State node = NodeStateOffline then [''node_offline'']
            else if Node_State node \<noteq> NodeStateOnline then [''node_not_online''] else []) @
           (if \<not> Node_Approved node then [''node_not_approved''] else []) @
           (if Node_Quarantined node then [FailureQuarantined] else []) @
           (if Contains (Constraints_DenyNodes (Policy_Constraints policy)) (Node_ID node) \<or>
               Contains (Constraints_DenyNodes (Policy_Constraints policy)) (Node_Name node)
            then [''node_denied''] else []) @
           (if \<not> HasAll (Node_Tags node) (Constraints_RequireTags (Policy_Constraints policy))
            then [''missing_required_tags''] else []))"

definition candidateBaseRejectionReasons :: "policyPlanItem \<Rightarrow> placementCandidate \<Rightarrow> string list" where
  "candidateBaseRejectionReasons item candidate =
     uniqueSorted (nodePlacementRejectionReasons (Cand_node candidate) (Item_policy item) @
       (if \<not> Fit_Fits (Cand_fit candidate) then Fit_Reasons (Cand_fit candidate) else []))"

definition warmSlotUnavailableReasons :: "Slot \<Rightarrow> WorkloadProfile \<Rightarrow> WorkloadProfile \<Rightarrow> string list" where
  "warmSlotUnavailableReasons slot profile effective =
     (if Slot_ActiveTaskID slot \<noteq> [] then [''slot_active_task''] else []) @
     (if Slot_State slot = SlotStateServing \<and> \<not> slotProfileCurrent slot (Profile_ID profile) effective
      then [''slot_serving_other_profile''] else []) @
     (if Slot_State slot = SlotStateUnavailable then [''slot_unavailable''] else []) @
     (if Slot_State slot = SlotStateError then [''slot_error''] else []) @
     (if Slot_MismatchReason slot \<noteq> [] then [Slot_MismatchReason slot] else [])"

definition placementMemoryReason :: "WorkloadProfile \<Rightarrow> string" where
  "placementMemoryReason profile =
     (case Profile_Requirements profile of
        Some req \<Rightarrow> if Req_UnifiedMemoryBytes req > 0 then ''resource_exhausted_unified_memory''
                    else FailureResourceExhaustedRAM
      | None \<Rightarrow> FailureResourceExhaustedRAM)"

definition nodeBudgetRejectionReasons ::
  "placementPlanner \<Rightarrow> policyPlanItem \<Rightarrow> placementCandidate \<Rightarrow> bool \<Rightarrow> string list" where
  "nodeBudgetRejectionReasons p item candidate warm =
     (let node = Cand_node candidate;
          reason = profileLimitRejectionReason p item (Node_ID node) warm
      in (if warm \<and> nodeWarmPlacementSuppressed node (Plan_now p) then [FailureWorkerFlapping] else []) @
         (if reason \<noteq> [] then [reason] else []) @
         (if \<not> withinDiskBudget p node (Cand_effective candidate) then [FailureResourceExhaustedDisk] else []) @
         (if warm \<and> \<not> withinMemoryBudget p node (Cand_effective candidate)
          then [placementMemoryReason (Cand_effective candidate)] else []))"

definition hardPinRejectionReasons ::
  "placementPlanner \<Rightarrow> policyPlanItem \<Rightarrow> placementCandidate \<Rightarrow> string list" where
  "hardPinRejectionReasons p item candidate =
     uniqueSorted (candidateBaseRejectionReasons item candidate @ nodeBudgetRejectionReasons p item candidate True)"

definition warmCandidateRejectionReasons ::
  "placementPlanner \<Rightarrow> policyPlanItem \<Rightarrow> placementCandidate \<Rightarrow> string list" where
  "warmCandidateRejectionReasons p item candidate =
     uniqueSorted (candidateBaseRejectionReasons item candidate @
       (if mget False (Plan_slotUsed p) (Slot_ID (Cand_slot candidate)) then [''slot_already_reserved''] else []) @
       (if \<not> slotAvailableForWarm (Cand_slot candidate) (Item_profile item) (Cand_effective candidate)
        then warmSlotUnavailableReasons (Cand_slot candidate) (Item_profile item) (Cand_effective candidate)
        else []) @
       nodeBudgetRejectionReasons p item candidate True)"

definition cacheCandidateRejectionReasons ::
  "placementPlanner \<Rightarrow> policyPlanItem \<Rightarrow> placementCandidate \<Rightarrow> string list" where
  "cacheCandidateRejectionReasons p item candidate =
     uniqueSorted (candidateBaseRejectionReasons item candidate @ nodeBudgetRejectionReasons p item candidate False)"

subsection \<open>The next candidate\<close>

definition explainFitResult :: "WorkloadProfile \<Rightarrow> Node \<Rightarrow> Slot \<Rightarrow> bool \<Rightarrow> FitResult" where
  "explainFitResult profile node slot nodeOK =
     (if \<not> nodeOK
      then zero_FitResult\<lparr>Fit_ProfileID := Profile_ID profile, Fit_LogicalModel := ProfileLogicalModel profile,
        Fit_SlotID := Slot_ID slot, Fit_NodeID := Slot_NodeID slot, Fit_Fits := False,
        Fit_Reasons := [''node_missing'']\<rparr>
      else FitProfileToSlot profile node slot)"

definition explainSlotCandidates :: "Database \<Rightarrow> WorkloadProfile \<Rightarrow> Slot \<Rightarrow> placementCandidate list" where
  "explainSlotCandidates db profile slot =
     (let node = mget zero_Node (Nodes db) (Slot_NodeID slot); nodeOK = mhas (Nodes db) (Slot_NodeID slot)
      in map (\<lambda>variant.
           let effective = EffectiveProfileForVariant profile variant
           in \<lparr>Cand_slot = slot, Cand_node = node, Cand_profile = profile, Cand_effective = effective,
               Cand_fit = explainFitResult effective node slot nodeOK\<rparr>) (ProfileRuntimeVariants profile))"

definition sortExplainPlacementCandidates ::
  "placementCandidate list \<Rightarrow> string \<Rightarrow> PlacementPolicy \<Rightarrow> placementCandidate list" where
  "sortExplainPlacementCandidates out profileID policy =
     sort_by (\<lambda>a b.
        let scoreI = placementScore profileID policy a; scoreJ = placementScore profileID policy b
        in if scoreI \<noteq> scoreJ then scoreI > scoreJ
           else if Slot_ID (Cand_slot a) \<noteq> Slot_ID (Cand_slot b)
           then Slot_ID (Cand_slot a) < Slot_ID (Cand_slot b)
           else Profile_RuntimeVariantID (Cand_effective a) < Profile_RuntimeVariantID (Cand_effective b)) out"

definition explainPlacementCandidates ::
  "Database \<Rightarrow> WorkloadProfile \<Rightarrow> PlacementPolicy \<Rightarrow> placementCandidate list" where
  "explainPlacementCandidates db profile policy =
     sortExplainPlacementCandidates (concat (map (explainSlotCandidates db profile) (SortedSlots db)))
       (Profile_ID profile) policy"

fun nextWarmExplain_loop ::
  "policyPlanItem \<Rightarrow> placementCandidate option \<Rightarrow> placementCandidate list \<Rightarrow> placementPlanner \<Rightarrow>
   placementCandidate option \<times> placementPlanner" where
  "nextWarmExplain_loop item selected [] p = (selected, p)"
| "nextWarmExplain_loop item selected (candidate # candidates) p =
     (let reasons = warmCandidateRejectionReasons p item candidate; id = Profile_ID (Item_profile item) in
      if length reasons > 0
      then nextWarmExplain_loop item selected candidates
        (explainWith (addRejected id ''warm'' candidate True reasons) p)
      else if selected \<noteq> None then nextWarmExplain_loop item selected candidates p
      else nextWarmExplain_loop item (Some candidate) candidates
        (explainWith (addSelected id ''warm'' candidate True [''selected_for_warm_copy'']) p))"

definition nextWarmCandidateExplain ::
  "policyPlanItem \<Rightarrow> placementPlanner \<Rightarrow> placementCandidate option \<times> placementPlanner" where
  "nextWarmCandidateExplain item p =
     nextWarmExplain_loop item None (explainPlacementCandidates (Plan_db p) (Item_profile item) (Item_policy item)) p"

fun nextCacheExplain_loop ::
  "policyPlanItem \<Rightarrow> string list \<Rightarrow> placementCandidate option \<Rightarrow> placementCandidate list \<Rightarrow> placementPlanner \<Rightarrow>
   placementCandidate option \<times> placementPlanner" where
  "nextCacheExplain_loop item seen selected [] p = (selected, p)"
| "nextCacheExplain_loop item seen selected (candidate # candidates) p =
     (let base = candidateBaseRejectionReasons item candidate; id = Profile_ID (Item_profile item);
          nodeID = Node_ID (Cand_node candidate) in
      if length base > 0
      then nextCacheExplain_loop item seen selected candidates
        (explainWith (addRejected id ''cache'' candidate False base) p)
      else if Contains seen nodeID \<or> nodeHasProfileCache p nodeID id
      then nextCacheExplain_loop item seen selected candidates p
      else (let reasons = cacheCandidateRejectionReasons p item candidate in
        if length reasons > 0
        then nextCacheExplain_loop item (nodeID # seen) selected candidates
          (explainWith (addRejected id ''cache'' candidate False reasons) p)
        else if selected \<noteq> None then nextCacheExplain_loop item (nodeID # seen) selected candidates p
        else nextCacheExplain_loop item (nodeID # seen) (Some candidate) candidates
          (explainWith (addSelected id ''cache'' candidate False [''selected_for_cached_copy'']) p)))"

definition nextCacheCandidateExplain ::
  "policyPlanItem \<Rightarrow> placementPlanner \<Rightarrow> placementCandidate option \<times> placementPlanner" where
  "nextCacheCandidateExplain item p =
     nextCacheExplain_loop item [] None
       (explainPlacementCandidates (Plan_db p) (Item_profile item) (Item_policy item)) p"

definition warmSelectable :: "placementPlanner \<Rightarrow> policyPlanItem \<Rightarrow> placementCandidate \<Rightarrow> bool" where
  "warmSelectable p item candidate \<longleftrightarrow>
     \<not> mget False (Plan_slotUsed p) (Slot_ID (Cand_slot candidate)) \<and>
     slotAvailableForWarm (Cand_slot candidate) (Item_profile item) (Cand_effective candidate) \<and>
     canUseCandidate p item candidate True"

definition nextWarmCandidate ::
  "policyPlanItem \<Rightarrow> placementPlanner \<Rightarrow> placementCandidate option \<times> placementPlanner" where
  "nextWarmCandidate item p =
     (if Plan_explain p \<noteq> None then nextWarmCandidateExplain item p
      else (find (warmSelectable p item)
              (placementCandidates (Plan_db p) (Item_profile item) (Item_policy item)), p))"

fun nextCache_loop ::
  "placementPlanner \<Rightarrow> policyPlanItem \<Rightarrow> string list \<Rightarrow> placementCandidate list \<Rightarrow> placementCandidate option" where
  "nextCache_loop p item seen [] = None"
| "nextCache_loop p item seen (candidate # candidates) =
     (let nodeID = Node_ID (Cand_node candidate) in
      if Contains seen nodeID \<or> nodeHasProfileCache p nodeID (Profile_ID (Item_profile item))
      then nextCache_loop p item seen candidates
      else if canUseCandidate p item candidate False then Some candidate
      else nextCache_loop p item (nodeID # seen) candidates)"

definition nextCacheCandidate ::
  "policyPlanItem \<Rightarrow> placementPlanner \<Rightarrow> placementCandidate option \<times> placementPlanner" where
  "nextCacheCandidate item p =
     (if Plan_explain p \<noteq> None then nextCacheCandidateExplain item p
      else (nextCache_loop p item [] (placementCandidates (Plan_db p) (Item_profile item) (Item_policy item)), p))"

subsection \<open>Missing copies\<close>

definition missingPlacementAssignment :: "string \<Rightarrow> int \<Rightarrow> bool \<Rightarrow> time \<Rightarrow> PlacementAssignment" where
  "missingPlacementAssignment profileID selected warm now =
     zero_PlacementAssignment\<lparr>Asg_ID := assignmentID profileID [] (''missing-'' @ show_int selected),
       Asg_ProfileID := profileID, Asg_DesiredCached := True, Asg_DesiredWarm := warm,
       Asg_MismatchReason := ''insufficient_compatible_slots'', Asg_UpdatedAt := now\<rparr>"

definition nextMissing :: "string \<Rightarrow> placementPlanner \<Rightarrow> int \<times> placementPlanner" where
  "nextMissing profileID p =
     (let n = mget 0 (Plan_missing p) profileID
      in (n, p\<lparr>Plan_missing := mput profileID (n + 1) (Plan_missing p)\<rparr>))"

definition addMissing :: "string \<Rightarrow> bool \<Rightarrow> placementPlanner \<Rightarrow> placementPlanner" where
  "addMissing profileID warm p =
     (let (n, p1) = nextMissing profileID p;
          a = missingPlacementAssignment profileID n warm (Plan_now p);
          p2 = explainWith (expl_addMissing profileID (placementPhase warm) warm [Asg_MismatchReason a])
                 (addAssignment a p1);
          p3 = p2\<lparr>Plan_cacheByProfile := mput profileID (mget 0 (Plan_cacheByProfile p2) profileID + 1)
                     (Plan_cacheByProfile p2)\<rparr>
      in if warm
         then p3\<lparr>Plan_warmByProfile := mput profileID (mget 0 (Plan_warmByProfile p3) profileID + 1)
                (Plan_warmByProfile p3)\<rparr>
         else p3)"

subsection \<open>Placing\<close>

text \<open>An assignment for a warm copy, with both desires set.\<close>

definition warmAssignment :: "policyPlanItem \<Rightarrow> placementCandidate \<Rightarrow> time \<Rightarrow> PlacementAssignment" where
  "warmAssignment item candidate now =
     (assignmentFromFit (Profile_ID (Item_profile item)) (Cand_effective candidate) (Cand_slot candidate)
        (Cand_fit candidate) now)\<lparr>Asg_DesiredCached := True, Asg_DesiredWarm := True\<rparr>"

definition cacheAssignmentFromCandidate :: "string \<Rightarrow> placementCandidate \<Rightarrow> time \<Rightarrow> PlacementAssignment" where
  "cacheAssignmentFromCandidate profileID c now =
     zero_PlacementAssignment\<lparr>
       Asg_ID := assignmentID profileID (Node_ID (Cand_node c)) ''cache'',
       Asg_ProfileID := profileID,
       Asg_LogicalModel := ProfileLogicalModel (Cand_effective c),
       Asg_RuntimeVariantID := Profile_RuntimeVariantID (Cand_effective c),
       Asg_ModelArtifactID := ConcreteModelArtifactID (Cand_effective c),
       Asg_ModelSHA256 := ConcreteModelSHA256 (Cand_effective c),
       Asg_NodeID := Node_ID (Cand_node c),
       Asg_DesiredCached := True,
       Asg_ActualCached := nodeHasArtifacts (Cand_node c) (Profile_Artifacts (Cand_effective c)),
       Asg_UpdatedAt := now\<rparr>"

definition placeHardPin :: "policyPlanItem \<Rightarrow> string \<Rightarrow> placementPlanner \<Rightarrow> placementPlanner" where
  "placeHardPin item pin p =
     (let profileID = Profile_ID (Item_profile item) in
      case map_of (Slots (Plan_db p)) pin of
        None \<Rightarrow>
          (let (n, p1) = nextMissing profileID p
           in explainWith (expl_addMissing profileID ''hard_pin'' True [''hard_pinned_slot_missing''])
                (addAssignment (missingPlacementAssignment profileID n True (Plan_now p)) p1))
      | Some slot \<Rightarrow>
          (let node = mget zero_Node (Nodes (Plan_db p)) (Slot_NodeID slot);
               (effective, fit) = BestVariantForSlot (Item_profile item) node slot;
               candidate = \<lparr>Cand_slot = slot, Cand_node = node, Cand_profile = Item_profile item,
                 Cand_effective = effective, Cand_fit = fit\<rparr>;
               a = warmAssignment item candidate (Plan_now p);
               reasons = hardPinRejectionReasons p item candidate
           in if nodeWarmPlacementSuppressed node (Plan_now p)
              then explainWith (addRejected profileID ''hard_pin'' candidate True [FailureWorkerFlapping])
                (addAssignment (a\<lparr>Asg_MismatchReason := FailureWorkerFlapping\<rparr>) p)
              else if length reasons > 0
              then explainWith (addRejected profileID ''hard_pin'' candidate True reasons)
                (addAssignment (a\<lparr>Asg_MismatchReason :=
                   firstNonEmpty [Asg_MismatchReason a, ''resource_exhausted_node_budget'']\<rparr>) p)
              else markWarm item candidate
                (explainWith (addSelected profileID ''hard_pin'' candidate True [''selected_hard_pin''])
                  (addAssignment a p))))"

definition placeHardPins :: "policyPlanItem list \<Rightarrow> placementPlanner \<Rightarrow> placementPlanner" where
  "placeHardPins items p =
     fold (\<lambda>item p. fold (placeHardPin item) (Policy_HardPinnedSlots (Item_policy item)) p) items p"

definition runtimeCopyProtected :: "Slot \<Rightarrow> bool" where
  "runtimeCopyProtected slot =
     (if Slot_ActiveTaskID slot \<noteq> [] then True
      else Slot_State slot = SlotStateServing \<or> Slot_State slot = SlotStateLoading \<or>
        Slot_State slot = SlotStateWarming)"

definition protectedRuntimeCandidate ::
  "placementPlanner \<Rightarrow> policyPlanItem \<Rightarrow> Slot \<Rightarrow> placementCandidate option" where
  "protectedRuntimeCandidate p item slot =
     (case map_of (Nodes (Plan_db p)) (Slot_NodeID slot) of
        None \<Rightarrow> None
      | Some node \<Rightarrow>
          if \<not> nodeUsableForPlacement node (Item_policy item) then None
          else (case find (\<lambda>variant. slotProfileCurrent slot (Profile_ID (Item_profile item))
                    (EffectiveProfileForVariant (Item_profile item) variant))
                  (ProfileRuntimeVariants (Item_profile item)) of
                  None \<Rightarrow> None
                | Some variant \<Rightarrow>
                    (let effective = EffectiveProfileForVariant (Item_profile item) variant;
                         fit = FitProfileToSlot effective node slot
                     in if Fit_Fits fit
                        then Some \<lparr>Cand_slot = slot, Cand_node = node, Cand_profile = Item_profile item,
                                Cand_effective = effective, Cand_fit = fit\<rparr>
                        else None)))"

definition policyItemsByProfile :: "policyPlanItem list \<Rightarrow> policyPlanItem gomap" where
  "policyItemsByProfile items = fold (\<lambda>item out. mput (Profile_ID (Item_profile item)) item out) items []"

definition preserveRuntimeCopy :: "policyPlanItem gomap \<Rightarrow> Slot \<Rightarrow> placementPlanner \<Rightarrow> placementPlanner" where
  "preserveRuntimeCopy byProfile slot p =
     (if \<not> runtimeCopyProtected slot \<or> mget False (Plan_slotUsed p) (Slot_ID slot) then p
      else case map_of byProfile (Slot_ProfileID slot) of
        None \<Rightarrow> p
      | Some item \<Rightarrow>
          (case protectedRuntimeCandidate p item slot of
             None \<Rightarrow> p
           | Some candidate \<Rightarrow>
               if \<not> canUseCandidate p item candidate True then p
               else (let a = warmAssignment item candidate (Plan_now p);
                         p1 = addAssignment a p;
                         p2 = p1\<lparr>Plan_protected := mput (Asg_ID a) True (Plan_protected p1)\<rparr>
                     in explainWith (addSelected (Profile_ID (Item_profile item)) ''drain'' candidate True
                            [''preserved_runtime_copy''])
                          (markWarm item candidate p2))))"

definition preserveRuntimeCopies :: "policyPlanItem list \<Rightarrow> placementPlanner \<Rightarrow> placementPlanner" where
  "preserveRuntimeCopies items p =
     fold (preserveRuntimeCopy (policyItemsByProfile items)) (SortedSlots (Plan_db p)) p"

text \<open>One round of each filling loop, then the loops.\<close>

definition placeWarmStep :: "policyPlanItem \<Rightarrow> placementPlanner \<Rightarrow> placementPlanner" where
  "placeWarmStep item p =
     (case nextWarmCandidate item p of
        (None, p1) \<Rightarrow> addMissing (Profile_ID (Item_profile item)) True p1
      | (Some candidate, p1) \<Rightarrow>
          markWarm item candidate (addAssignment (warmAssignment item candidate (Plan_now p1)) p1))"

definition placeCacheStep :: "policyPlanItem \<Rightarrow> placementPlanner \<Rightarrow> placementPlanner" where
  "placeCacheStep item p =
     (case nextCacheCandidate item p of
        (None, p1) \<Rightarrow> addMissing (Profile_ID (Item_profile item)) False p1
      | (Some candidate, p1) \<Rightarrow>
          markCache item candidate (addAssignment
            ((cacheAssignmentFromCandidate (Profile_ID (Item_profile item)) candidate (Plan_now p1))
               \<lparr>Asg_DesiredCached := True\<rparr>) p1))"

definition warmCount :: "policyPlanItem \<Rightarrow> placementPlanner \<Rightarrow> int" where
  "warmCount item p = mget 0 (Plan_warmByProfile p) (Profile_ID (Item_profile item))"

definition cacheCount :: "policyPlanItem \<Rightarrow> placementPlanner \<Rightarrow> int" where
  "cacheCount item p = mget 0 (Plan_cacheByProfile p) (Profile_ID (Item_profile item))"

subsection \<open>The filling loops end\<close>

lemma explainWith_sel [simp]:
  "Plan_db (explainWith f p) = Plan_db p"
  "Plan_now (explainWith f p) = Plan_now p"
  "Plan_cooldown (explainWith f p) = Plan_cooldown p"
  "Plan_explain (explainWith f p) = map_option f (Plan_explain p)"
  "Plan_assignments (explainWith f p) = Plan_assignments p"
  "Plan_protected (explainWith f p) = Plan_protected p"
  "Plan_warmByProfile (explainWith f p) = Plan_warmByProfile p"
  "Plan_cacheByProfile (explainWith f p) = Plan_cacheByProfile p"
  "Plan_slotUsed (explainWith f p) = Plan_slotUsed p"
  "Plan_nodeMemoryUsed (explainWith f p) = Plan_nodeMemoryUsed p"
  "Plan_nodeDiskUsed (explainWith f p) = Plan_nodeDiskUsed p"
  "Plan_nodeWarm (explainWith f p) = Plan_nodeWarm p"
  "Plan_nodeCache (explainWith f p) = Plan_nodeCache p"
  "Plan_missing (explainWith f p) = Plan_missing p"
  by (simp_all add: explainWith_def)

lemma addAssignment_sel [simp]:
  "Plan_db (addAssignment a p) = Plan_db p"
  "Plan_now (addAssignment a p) = Plan_now p"
  "Plan_cooldown (addAssignment a p) = Plan_cooldown p"
  "Plan_explain (addAssignment a p) = Plan_explain p"
  "Plan_assignments (addAssignment a p) = Plan_assignments p @ [a]"
  "Plan_protected (addAssignment a p) = Plan_protected p"
  "Plan_warmByProfile (addAssignment a p) = Plan_warmByProfile p"
  "Plan_cacheByProfile (addAssignment a p) = Plan_cacheByProfile p"
  "Plan_slotUsed (addAssignment a p) = Plan_slotUsed p"
  "Plan_nodeMemoryUsed (addAssignment a p) = Plan_nodeMemoryUsed p"
  "Plan_nodeDiskUsed (addAssignment a p) = Plan_nodeDiskUsed p"
  "Plan_nodeWarm (addAssignment a p) = Plan_nodeWarm p"
  "Plan_nodeCache (addAssignment a p) = Plan_nodeCache p"
  "Plan_missing (addAssignment a p) = Plan_missing p"
  by (simp_all add: addAssignment_def)

text \<open>The planner without its explainer. Everything but the explanations is a function of it.\<close>

definition bare :: "placementPlanner \<Rightarrow> placementPlanner" where
  "bare p = p\<lparr>Plan_explain := None\<rparr>"

lemma bare_sel [simp]:
  "Plan_db (bare p) = Plan_db p"
  "Plan_now (bare p) = Plan_now p"
  "Plan_cooldown (bare p) = Plan_cooldown p"
  "Plan_explain (bare p) = None"
  "Plan_assignments (bare p) = Plan_assignments p"
  "Plan_protected (bare p) = Plan_protected p"
  "Plan_warmByProfile (bare p) = Plan_warmByProfile p"
  "Plan_cacheByProfile (bare p) = Plan_cacheByProfile p"
  "Plan_slotUsed (bare p) = Plan_slotUsed p"
  "Plan_nodeMemoryUsed (bare p) = Plan_nodeMemoryUsed p"
  "Plan_nodeDiskUsed (bare p) = Plan_nodeDiskUsed p"
  "Plan_nodeWarm (bare p) = Plan_nodeWarm p"
  "Plan_nodeCache (bare p) = Plan_nodeCache p"
  "Plan_missing (bare p) = Plan_missing p"
  by (simp_all add: bare_def)

lemma bare_explainWith [simp]: "bare (explainWith f p) = bare p"
  by (simp add: bare_def explainWith_def)

lemma bare_id: "Plan_explain p = None \<Longrightarrow> bare p = p"
  by (simp add: bare_def)

lemma bare_eq_sel:
  assumes "bare p = bare q"
  shows "Plan_db p = Plan_db q" "Plan_now p = Plan_now q" "Plan_assignments p = Plan_assignments q"
    "Plan_protected p = Plan_protected q" "Plan_warmByProfile p = Plan_warmByProfile q"
    "Plan_cacheByProfile p = Plan_cacheByProfile q" "Plan_slotUsed p = Plan_slotUsed q"
    "Plan_nodeMemoryUsed p = Plan_nodeMemoryUsed q" "Plan_nodeDiskUsed p = Plan_nodeDiskUsed q"
    "Plan_nodeWarm p = Plan_nodeWarm q" "Plan_nodeCache p = Plan_nodeCache q" "Plan_missing p = Plan_missing q"
  using assms by (metis bare_sel)+

lemma bare_nextWarmExplain_loop:
  "bare (snd (nextWarmExplain_loop item selected cs p)) = bare p"
  by (induction item selected cs p rule: nextWarmExplain_loop.induct) (simp_all add: Let_def)

lemma bare_nextCacheExplain_loop:
  "bare (snd (nextCacheExplain_loop item seen selected cs p)) = bare p"
  by (induction item seen selected cs p rule: nextCacheExplain_loop.induct) (simp_all add: Let_def)

lemma bare_nextWarmCandidate: "bare (snd (nextWarmCandidate item p)) = bare p"
  by (simp add: nextWarmCandidate_def nextWarmCandidateExplain_def bare_nextWarmExplain_loop)

lemma bare_nextCacheCandidate: "bare (snd (nextCacheCandidate item p)) = bare p"
  by (simp add: nextCacheCandidate_def nextCacheCandidateExplain_def bare_nextCacheExplain_loop)

lemma nodeHasProfileCache_bare [simp]: "nodeHasProfileCache (bare p) n pid = nodeHasProfileCache p n pid"
  by (simp add: nodeHasProfileCache_def)

lemma nodeHasProfileCache_cong: "bare p = bare q \<Longrightarrow> nodeHasProfileCache p n pid = nodeHasProfileCache q n pid"
  by (drule bare_eq_sel(11)) (simp add: nodeHasProfileCache_def)

lemma nextCacheExplain_loop_uncached:
  assumes "nextCacheExplain_loop item seen selected cs p = (Some c, p')"
    and "\<And>c. selected = Some c \<Longrightarrow> \<not> nodeHasProfileCache p (Node_ID (Cand_node c)) (Profile_ID (Item_profile item))"
  shows "\<not> nodeHasProfileCache p (Node_ID (Cand_node c)) (Profile_ID (Item_profile item))"
  using assms
proof (induction item seen selected cs p rule: nextCacheExplain_loop.induct)
  case (2 item seen selected candidate candidates p)
  have cong: "nodeHasProfileCache (explainWith f p) n pid = nodeHasProfileCache p n pid" for f n pid
    by (rule nodeHasProfileCache_cong) simp
  from 2 show ?case
    by (auto simp: Let_def cong split: if_splits)
qed simp

lemma nextCache_loop_uncached:
  "nextCache_loop p item seen cs = Some c \<Longrightarrow>
   \<not> nodeHasProfileCache p (Node_ID (Cand_node c)) (Profile_ID (Item_profile item))"
  by (induction p item seen cs rule: nextCache_loop.induct) (auto simp: Let_def split: if_splits)

lemma nextCacheCandidate_uncached:
  assumes "nextCacheCandidate item p = (Some c, p')"
  shows "\<not> nodeHasProfileCache p' (Node_ID (Cand_node c)) (Profile_ID (Item_profile item))"
proof -
  have "\<not> nodeHasProfileCache p (Node_ID (Cand_node c)) (Profile_ID (Item_profile item))"
    using assms nextCacheExplain_loop_uncached [of item "[]" None _ p c p']
    by (auto simp: nextCacheCandidate_def nextCacheCandidateExplain_def nextCache_loop_uncached split: if_splits)
  then show ?thesis
    using assms bare_nextCacheCandidate [of item p] nodeHasProfileCache_cong by (metis snd_conv)
qed

lemma markCache_sel [simp]:
  "Plan_warmByProfile (markCache item c p) = Plan_warmByProfile p"
  "Plan_assignments (markCache item c p) = Plan_assignments p"
  "Plan_protected (markCache item c p) = Plan_protected p"
  "Plan_slotUsed (markCache item c p) = Plan_slotUsed p"
  "Plan_nodeMemoryUsed (markCache item c p) = Plan_nodeMemoryUsed p"
  "Plan_nodeWarm (markCache item c p) = Plan_nodeWarm p"
  "Plan_db (markCache item c p) = Plan_db p"
  "Plan_now (markCache item c p) = Plan_now p"
  "Plan_cooldown (markCache item c p) = Plan_cooldown p"
  "Plan_explain (markCache item c p) = Plan_explain p"
  "Plan_missing (markCache item c p) = Plan_missing p"
  by (simp_all add: markCache_def Let_def)

lemma markWarm_sel [simp]:
  "Plan_warmByProfile (markWarm item c p) =
     mput (Profile_ID (Item_profile item)) (warmCount item p + 1) (Plan_warmByProfile p)"
  "Plan_assignments (markWarm item c p) = Plan_assignments p"
  "Plan_protected (markWarm item c p) = Plan_protected p"
  "Plan_slotUsed (markWarm item c p) = mput (Slot_ID (Cand_slot c)) True (Plan_slotUsed p)"
  "Plan_nodeMemoryUsed (markWarm item c p) = mput (Node_ID (Cand_node c))
     (wrap64 (mget 0 (Plan_nodeMemoryUsed p) (Node_ID (Cand_node c)) + profileMemoryBytes (Cand_effective c)))
     (Plan_nodeMemoryUsed p)"
  "Plan_db (markWarm item c p) = Plan_db p"
  "Plan_now (markWarm item c p) = Plan_now p"
  "Plan_cooldown (markWarm item c p) = Plan_cooldown p"
  "Plan_explain (markWarm item c p) = Plan_explain p"
  "Plan_missing (markWarm item c p) = Plan_missing p"
  by (simp_all add: markWarm_def warmCount_def Let_def)

lemma cacheCount_markCache:
  "cacheCount item' (markCache item c p) = cacheCount item' p +
     (if Profile_ID (Item_profile item') = Profile_ID (Item_profile item) \<and>
       \<not> nodeHasProfileCache p (Node_ID (Cand_node c)) (Profile_ID (Item_profile item)) then 1 else 0)"
  by (simp add: markCache_def cacheCount_def Let_def)

lemma addMissing_counts:
  "warmCount item (addMissing pid warm p) =
     warmCount item p + (if Profile_ID (Item_profile item) = pid \<and> warm then 1 else 0)"
  "cacheCount item (addMissing pid warm p) =
     cacheCount item p + (if Profile_ID (Item_profile item) = pid then 1 else 0)"
  by (simp_all add: addMissing_def nextMissing_def warmCount_def cacheCount_def Let_def)

lemma warmCount_cong: "bare p = bare q \<Longrightarrow> warmCount item p = warmCount item q"
  by (drule bare_eq_sel(5)) (simp add: warmCount_def)

lemma cacheCount_cong: "bare p = bare q \<Longrightarrow> cacheCount item p = cacheCount item q"
  by (drule bare_eq_sel(6)) (simp add: cacheCount_def)

lemma addAssignment_counts [simp]:
  "warmCount item (addAssignment a p) = warmCount item p"
  "cacheCount item (addAssignment a p) = cacheCount item p"
  "nodeHasProfileCache (addAssignment a p) n pid = nodeHasProfileCache p n pid"
  by (simp_all add: warmCount_def cacheCount_def nodeHasProfileCache_def)

lemma warmCount_markWarm:
  "warmCount item' (markWarm item c p) =
     warmCount item' p + (if Profile_ID (Item_profile item') = Profile_ID (Item_profile item) then 1 else 0)"
  by (simp add: warmCount_def)

lemma warmCount_step: "warmCount item (placeWarmStep item p) = warmCount item p + 1"
proof -
  obtain cand p1 where n: "nextWarmCandidate item p = (cand, p1)"
    by (cases "nextWarmCandidate item p")
  then have "warmCount item p1 = warmCount item p"
    using bare_nextWarmCandidate [of item p] by (auto intro: warmCount_cong)
  with n show ?thesis
    by (cases cand) (simp_all add: placeWarmStep_def addMissing_counts warmCount_markWarm)
qed

lemma cacheCount_step: "cacheCount item (placeCacheStep item p) = cacheCount item p + 1"
proof -
  obtain cand p1 where n: "nextCacheCandidate item p = (cand, p1)"
    by (cases "nextCacheCandidate item p")
  then have c: "cacheCount item p1 = cacheCount item p"
    using bare_nextCacheCandidate [of item p] by (auto intro: cacheCount_cong)
  show ?thesis
  proof (cases cand)
    case (Some c)
    with n have "\<not> nodeHasProfileCache p1 (Node_ID (Cand_node c)) (Profile_ID (Item_profile item))"
      using nextCacheCandidate_uncached by blast
    with n c Some show ?thesis
      by (simp add: placeCacheStep_def cacheCount_markCache)
  qed (use n c in \<open>simp add: placeCacheStep_def addMissing_counts\<close>)
qed

function placeWarmUntil :: "policyPlanItem \<Rightarrow> int \<Rightarrow> placementPlanner \<Rightarrow> placementPlanner" where
  "placeWarmUntil item target p =
     (if warmCount item p < target then placeWarmUntil item target (placeWarmStep item p) else p)"
  by auto
termination
  by (relation "measure (\<lambda>(item, target, p). nat (target - warmCount item p))") (auto simp: warmCount_step)

function placeCacheUntil :: "policyPlanItem \<Rightarrow> int \<Rightarrow> placementPlanner \<Rightarrow> placementPlanner" where
  "placeCacheUntil item target p =
     (if cacheCount item p < target then placeCacheUntil item target (placeCacheStep item p) else p)"
  by auto
termination
  by (relation "measure (\<lambda>(item, target, p). nat (target - cacheCount item p))") (auto simp: cacheCount_step)

declare placeWarmUntil.simps [simp del] placeCacheUntil.simps [simp del]

text \<open>
  The contract of a filling loop: it repeats a step that raises a counter by one until the
  counter reaches the target. Both loops of the planner meet it.
\<close>

locale fill_loop =
  fixes count :: "'s \<Rightarrow> int" and step :: "'s \<Rightarrow> 's" and loop :: "int \<Rightarrow> 's \<Rightarrow> 's"
  assumes loop_eq: "loop t s = (if count s < t then loop t (step s) else s)"
    and count_step: "count (step s) = count s + 1"
begin

lemma loop_funpow: "loop t s = (step ^^ nat (t - count s)) s"
proof (induction "nat (t - count s)" arbitrary: s)
  case 0
  then show ?case by (subst loop_eq) simp
next
  case (Suc n)
  then have "count s < t" and n: "n = nat (t - count (step s))"
    by (simp_all add: count_step)
  then have "loop t s = (step ^^ n) (step s)"
    using Suc.hyps(1) [OF n] by (subst loop_eq) simp
  also have "\<dots> = (step ^^ Suc n) s"
    by (simp add: funpow_swap1)
  finally show ?case
    using Suc.hyps(2) by simp
qed

lemma count_loop: "count (loop t s) = max t (count s)"
proof -
  have "count ((step ^^ n) s) = count s + int n" for n
    by (induction n) (simp_all add: count_step)
  then show ?thesis
    by (simp add: loop_funpow)
qed

lemma loop_invariant:
  assumes "I s" and "\<And>s. I s \<Longrightarrow> I (step s)"
  shows "I (loop t s)"
proof -
  have "I ((step ^^ n) s)" for n
    by (induction n) (simp_all add: assms)
  then show ?thesis
    by (simp add: loop_funpow)
qed

end

interpretation warm_loop: fill_loop "warmCount item" "placeWarmStep item" "placeWarmUntil item" for item
  by unfold_locales (rule placeWarmUntil.simps, rule warmCount_step)

interpretation cache_loop: fill_loop "cacheCount item" "placeCacheStep item" "placeCacheUntil item" for item
  by unfold_locales (rule placeCacheUntil.simps, rule cacheCount_step)

end
