(* ===== verification/Plan.thy ===== *)
theory Plan
  imports Planner
begin

section \<open>A planning run (placement_plan.go, placement_explain.go, placement_drain.go)\<close>

text \<open>
  The order in which a run visits the policies, the run itself with and without an
  explainer, the draining of surplus runtime copies, and the drain state that the
  assignments impose on the slots.
\<close>

definition profileScarcity :: "Database \<Rightarrow> WorkloadProfile \<Rightarrow> PlacementPolicy \<Rightarrow> int" where
  "profileScarcity db profile policy =
     (let nodes = remdups (map (\<lambda>c. Node_ID (Cand_node c)) (placementCandidates db profile policy))
      in if length nodes = 0 then 2 ^ 30 else int (length nodes))"

definition policyItem :: "placementPlanner \<Rightarrow> PlacementPolicy \<Rightarrow> policyPlanItem option" where
  "policyItem p policy =
     (case map_of (Profiles (Plan_db p)) (Policy_ProfileID policy) of
        None \<Rightarrow> None
      | Some profile \<Rightarrow>
          (let capacity = effectivePolicyCapacity (Plan_db p) policy (Plan_now p) (Plan_cooldown p)
           in Some \<lparr>Item_profile = profile, Item_policy = policy, Item_capacity = capacity,
                Item_scarcity = profileScarcity (Plan_db p) profile policy,
                Item_size = profilePlacementSize (Plan_db p) profile,
                Item_demand = Cap_DemandQueued capacity + Cap_DemandRunning capacity + Cap_DemandSmoothed capacity\<rparr>))"

definition policyItems :: "placementPlanner \<Rightarrow> policyPlanItem list \<times> placementPlanner" where
  "policyItems p =
     (let items = List.map_filter (policyItem p) (SortedPolicies (Plan_db p))
      in (items, fold (\<lambda>item. explainWith (addPolicyItem item)) items p))"

definition sortPolicyItems :: "bool \<Rightarrow> policyPlanItem list \<Rightarrow> policyPlanItem list" where
  "sortPolicyItems extras items =
     sort_by (\<lambda>a b.
        if extras \<and> Item_demand a \<noteq> Item_demand b then Item_demand a > Item_demand b
        else if Item_scarcity a \<noteq> Item_scarcity b then Item_scarcity a < Item_scarcity b
        else if Item_size a \<noteq> Item_size b then Item_size a > Item_size b
        else Profile_ID (Item_profile a) < Profile_ID (Item_profile b)) items"

subsection \<open>Draining\<close>

definition warmTargetsByProfile :: "policyPlanItem list \<Rightarrow> int gomap" where
  "warmTargetsByProfile items =
     fold (\<lambda>item out. mput (Profile_ID (Item_profile item)) (Cap_Warm (Item_capacity item)) out) items []"

definition desiredWarmCounts :: "PlacementAssignment list \<Rightarrow> int gomap" where
  "desiredWarmCounts assignments =
     fold (\<lambda>a out. if Asg_DesiredWarm a \<and> Asg_MismatchReason a = []
              then mput (Asg_ProfileID a) (mget 0 out (Asg_ProfileID a) + 1) out else out) assignments []"

fun markDraining_loop ::
  "bool gomap \<Rightarrow> int gomap \<Rightarrow> int gomap \<Rightarrow> PlacementAssignment list \<Rightarrow> PlacementAssignment list" where
  "markDraining_loop protect targets counts [] = []"
| "markDraining_loop protect targets counts (a # as) =
     (if \<not> mget False protect (Asg_ID a) \<or> \<not> Asg_DesiredWarm a \<or> Asg_MismatchReason a \<noteq> []
      then a # markDraining_loop protect targets counts as
      else if mget 0 counts (Asg_ProfileID a) \<le> mget 0 targets (Asg_ProfileID a)
      then a # markDraining_loop protect targets counts as
      else a\<lparr>Asg_Draining := True\<rparr> # markDraining_loop protect targets
             (mput (Asg_ProfileID a) (mget 0 counts (Asg_ProfileID a) - 1) counts) as)"

definition markDrainingAssignments :: "policyPlanItem list \<Rightarrow> placementPlanner \<Rightarrow> placementPlanner" where
  "markDrainingAssignments items p =
     p\<lparr>Plan_assignments := markDraining_loop (Plan_protected p) (warmTargetsByProfile items)
          (desiredWarmCounts (Plan_assignments p)) (Plan_assignments p)\<rparr>"

subsection \<open>The run\<close>

definition planPlaced :: "Database \<Rightarrow> time \<Rightarrow> placementExplainer option \<Rightarrow> duration \<Rightarrow>
  policyPlanItem list \<times> placementPlanner" where
  "planPlaced db now explain cooldown =
     (let (items, p0) = policyItems (newPlacementPlanner db now explain cooldown);
          p1 = placeHardPins items p0;
          p2 = preserveRuntimeCopies items p1;
          items1 = sortPolicyItems False items;
          p3 = fold (\<lambda>item. placeWarmUntil item (Cap_MinWarm (Item_capacity item))) items1 p2;
          p4 = fold (\<lambda>item. placeCacheUntil item (Cap_MinCached (Item_capacity item))) items1 p3;
          items2 = sortPolicyItems True items1;
          p5 = fold (\<lambda>item. placeWarmUntil item (Cap_Warm (Item_capacity item))) items2 p4;
          p6 = fold (\<lambda>item. placeCacheUntil item (Cap_Cached (Item_capacity item))) items2 p5
      in (items2, p6))"

definition planRun :: "Database \<Rightarrow> time \<Rightarrow> placementExplainer option \<Rightarrow> duration \<Rightarrow> placementPlanner" where
  "planRun db now explain cooldown =
     (let (items, p) = planPlaced db now explain cooldown;
          p1 = markDrainingAssignments items p;
          p2 = p1\<lparr>Plan_assignments := sortAssignments (Plan_assignments p1)\<rparr>
      in explainWith (setPlan (Plan_assignments p2)) p2)"

definition planPlacementWithCooldown ::
  "Database \<Rightarrow> time \<Rightarrow> placementExplainer option \<Rightarrow> duration \<Rightarrow> PlacementAssignment list" where
  "planPlacementWithCooldown db now explain cooldown = Plan_assignments (planRun db now explain cooldown)"

definition PlanPlacement :: "Database \<Rightarrow> time \<Rightarrow> PlacementAssignment list" where
  "PlanPlacement db now = planPlacementWithCooldown db now None defaultAutoBalanceScaleDownCooldown"

definition PlanPlacementWithConfig :: "Database \<Rightarrow> ManagerConfig \<Rightarrow> time \<Rightarrow> PlacementAssignment list" where
  "PlanPlacementWithConfig db cfg now = planPlacementWithCooldown db now None (managerAutoBalanceCooldown cfg)"

definition explainPlacementWithCooldown ::
  "Database \<Rightarrow> time \<Rightarrow> duration \<Rightarrow> PlacementExplainResponse" where
  "explainPlacementWithCooldown db now cooldown =
     (case Plan_explain (planRun db now (Some (newPlacementExplainer now)) cooldown) of
        Some e \<Rightarrow> response e
      | None \<Rightarrow> response (newPlacementExplainer now))"

definition ExplainPlacementWithConfig :: "Database \<Rightarrow> ManagerConfig \<Rightarrow> time \<Rightarrow> PlacementExplainResponse" where
  "ExplainPlacementWithConfig db cfg now = explainPlacementWithCooldown db now (managerAutoBalanceCooldown cfg)"

subsection \<open>The drain state of the slots\<close>

definition placementDrainingReason :: string where
  "placementDrainingReason = ''placement_draining''"

definition profileHasPolicy :: "Database \<Rightarrow> string \<Rightarrow> bool" where
  "profileHasPolicy db profileID = list_ex (\<lambda>policy. Policy_ProfileID policy = profileID) (mvals (Policies db))"

definition warmIntent :: "PlacementAssignment \<Rightarrow> bool" where
  "warmIntent a \<longleftrightarrow> \<not> (Asg_SlotID a = [] \<or> \<not> Asg_DesiredWarm a \<or> Asg_MismatchReason a \<noteq> [])"

definition warmSlotIntent :: "Database \<Rightarrow> string list \<times> string list" where
  "warmSlotIntent db =
     (let as = filter warmIntent (mvals (Assignments db))
      in (map Asg_SlotID as, map Asg_SlotID (filter Asg_Draining as)))"

definition slotDrainable :: "Slot \<Rightarrow> bool" where
  "slotDrainable slot \<longleftrightarrow>
     Slot_ProfileID slot \<noteq> [] \<and> Slot_State slot = SlotStateReady \<and> Slot_ActiveTaskID slot = [] \<and>
     \<not> Slot_Quarantined slot"

definition drainSlot :: "Database \<Rightarrow> string \<Rightarrow> Slot \<Rightarrow> Slot" where
  "drainSlot db slotID slot =
     (let (desired, draining) = warmSlotIntent db in
      if \<not> slotDrainable slot then slot
      else if \<not> profileHasPolicy db (Slot_ProfileID slot) then slot
      else if Contains desired slotID \<and> \<not> Contains draining slotID
      then slot\<lparr>Slot_AcceptsNew := True,
             Slot_MismatchReason := (if Slot_MismatchReason slot = placementDrainingReason then []
                                     else Slot_MismatchReason slot)\<rparr>
      else slot\<lparr>Slot_AcceptsNew := False,
             Slot_MismatchReason := (if Slot_MismatchReason slot = [] then placementDrainingReason
                                     else Slot_MismatchReason slot)\<rparr>)"

definition applyPlacementDrainState :: "Database \<Rightarrow> Database" where
  "applyPlacementDrainState db = db\<lparr>Slots := mmap (drainSlot db) (Slots db)\<rparr>"

end
