(* ===== verification/Plan_Invariants.thy ===== *)
theory Plan_Invariants
  imports Plan
begin

section \<open>What a planning run promises\<close>

text \<open>
  The planner's moves as a step relation: an assignment that records a shortage, a warm
  placement, a cache placement. Every operation of the planner is a sequence of moves
  (\<open>moves_*\<close>), so an invariant is proved once per move. The invariants tie the counters of
  the planner to the assignments: which slots are used, what memory and disk the placements
  charge, and how many copies were asked for.
\<close>

subsection \<open>Healthy assignments\<close>

definition healthy :: "PlacementAssignment \<Rightarrow> bool" where
  "healthy a \<longleftrightarrow> Asg_DesiredWarm a \<and> Asg_MismatchReason a = []"

lemma assignmentFromFit_sel [simp]:
  "Asg_ID (assignmentFromFit pid e s f now) = assignmentID pid (Slot_NodeID s) (Slot_ID s)"
  "Asg_ProfileID (assignmentFromFit pid e s f now) = pid"
  "Asg_SlotID (assignmentFromFit pid e s f now) = Slot_ID s"
  "Asg_NodeID (assignmentFromFit pid e s f now) = Slot_NodeID s"
  "Asg_MismatchReason (assignmentFromFit pid e s f now) = (if Fit_Fits f then [] else Join (Fit_Reasons f) '','')"
  "Asg_Draining (assignmentFromFit pid e s f now) = False"
  by (simp_all add: assignmentFromFit_def Let_def)

lemma warmAssignment_sel [simp]:
  "Asg_ID (warmAssignment item c now) =
     assignmentID (Profile_ID (Item_profile item)) (Slot_NodeID (Cand_slot c)) (Slot_ID (Cand_slot c))"
  "Asg_ProfileID (warmAssignment item c now) = Profile_ID (Item_profile item)"
  "Asg_SlotID (warmAssignment item c now) = Slot_ID (Cand_slot c)"
  "Asg_NodeID (warmAssignment item c now) = Slot_NodeID (Cand_slot c)"
  "Asg_DesiredWarm (warmAssignment item c now)" "Asg_DesiredCached (warmAssignment item c now)"
  "Asg_MismatchReason (warmAssignment item c now) =
     (if Fit_Fits (Cand_fit c) then [] else Join (Fit_Reasons (Cand_fit c)) '','')"
  "Asg_Draining (warmAssignment item c now) = False"
  by (simp_all add: warmAssignment_def)

lemma missingPlacementAssignment_sel [simp]:
  "Asg_ProfileID (missingPlacementAssignment pid n warm now) = pid"
  "Asg_DesiredWarm (missingPlacementAssignment pid n warm now) = warm"
  "Asg_DesiredCached (missingPlacementAssignment pid n warm now)"
  "Asg_MismatchReason (missingPlacementAssignment pid n warm now) = ''insufficient_compatible_slots''"
  "Asg_SlotID (missingPlacementAssignment pid n warm now) = []"
  "Asg_Draining (missingPlacementAssignment pid n warm now) = False"
  by (simp_all add: missingPlacementAssignment_def)

lemma cacheAssignmentFromCandidate_sel [simp]:
  "Asg_ProfileID (cacheAssignmentFromCandidate pid c now) = pid"
  "Asg_DesiredWarm (cacheAssignmentFromCandidate pid c now) = False"
  "Asg_DesiredCached (cacheAssignmentFromCandidate pid c now)"
  "Asg_NodeID (cacheAssignmentFromCandidate pid c now) = Node_ID (Cand_node c)"
  "Asg_Draining (cacheAssignmentFromCandidate pid c now) = False"
  by (simp_all add: cacheAssignmentFromCandidate_def)

lemma cacheAssignment_cached [simp]:
  "(cacheAssignmentFromCandidate pid c now)\<lparr>Asg_DesiredCached := True\<rparr> = cacheAssignmentFromCandidate pid c now"
  by (simp add: cacheAssignmentFromCandidate_def)

subsection \<open>Acceptable placements\<close>

text \<open>What makes a cache placement, and what makes a warm one, acceptable on its own.\<close>

definition cache_ok :: "Database \<Rightarrow> policyPlanItem \<Rightarrow> placementCandidate \<Rightarrow> bool" where
  "cache_ok db item c \<longleftrightarrow>
     Item_profile item \<in> set (mvals (Profiles db)) \<and>
     Cand_slot c \<in> set (mvals (Slots db)) \<and>
     map_of (Nodes db) (Slot_NodeID (Cand_slot c)) = Some (Cand_node c) \<and>
     nodeUsableForPlacement (Cand_node c) (Item_policy item) \<and>
     (\<exists>v \<in> set (ProfileRuntimeVariants (Item_profile item)).
        Cand_effective c = EffectiveProfileForVariant (Item_profile item) v) \<and>
     Cand_fit c = FitProfileToSlot (Cand_effective c) (Cand_node c) (Cand_slot c) \<and>
     Fit_Fits (Cand_fit c)"

definition warm_ok :: "Database \<Rightarrow> time \<Rightarrow> policyPlanItem \<Rightarrow> placementCandidate \<Rightarrow> bool" where
  "warm_ok db now item c \<longleftrightarrow> cache_ok db item c \<and> \<not> nodeWarmPlacementSuppressed (Cand_node c) now"

definition item_ok :: "Database \<Rightarrow> policyPlanItem \<Rightarrow> bool" where
  "item_ok db item \<longleftrightarrow> Item_profile item \<in> set (mvals (Profiles db))"

lemma SortedSlots_set [simp]: "set (SortedSlots db) = set (mvals (Slots db))"
  by (simp add: SortedSlots_def sortSlots_def)

lemma placementCandidates_ok:
  assumes "item_ok db item" and "c \<in> set (placementCandidates db (Item_profile item) (Item_policy item))"
  shows "cache_ok db item c"
  using assms by (auto simp: placementCandidates_def slotCandidates_def cache_ok_def item_ok_def Let_def
      split: option.splits if_splits)

lemma placementCandidates_profile:
  assumes "c \<in> set (placementCandidates db profile policy)"
  shows "Cand_profile c = profile"
  using assms by (auto simp: placementCandidates_def slotCandidates_def Let_def split: option.splits if_splits)

lemma explainFitResult_wf: "fit_wf (explainFitResult e n s ok)"
  by (simp add: explainFitResult_def fit_wf_FitProfileToSlot) (simp add: fit_wf_def)

lemma explainPlacementCandidates_wf:
  "c \<in> set (explainPlacementCandidates db profile policy) \<Longrightarrow> fit_wf (Cand_fit c)"
  by (auto simp: explainPlacementCandidates_def sortExplainPlacementCandidates_def explainSlotCandidates_def
      explainFitResult_wf Let_def)

text \<open>No rejection reason means that the corresponding checks of the planner hold.\<close>

lemma nodePlacementRejectionReasons_Nil:
  "set (nodePlacementRejectionReasons node policy) \<subseteq> {[]} \<longleftrightarrow>
     Node_ID node \<noteq> [] \<and> Node_Mode node \<noteq> ''disabled'' \<and> nodeUsableForPlacement node policy"
proof -
  have "NodeStateOnline \<noteq> NodeStateDisabled" "NodeStateOnline \<noteq> NodeStateOffline"
    by (simp_all add: NodeStateOnline_def NodeStateDisabled_def NodeStateOffline_def)
  then show ?thesis
    by (auto simp: nodePlacementRejectionReasons_def nodeUsableForPlacement_def FailureQuarantined_def)
qed

lemma candidateBaseRejectionReasons_Nil:
  assumes "fit_wf (Cand_fit c)"
  shows "candidateBaseRejectionReasons item c = [] \<longleftrightarrow>
    Node_ID (Cand_node c) \<noteq> [] \<and> Node_Mode (Cand_node c) \<noteq> ''disabled'' \<and>
    nodeUsableForPlacement (Cand_node c) (Item_policy item) \<and> Fit_Fits (Cand_fit c)"
proof -
  have "set (Fit_Reasons (Cand_fit c)) \<subseteq> {[]} \<longleftrightarrow> Fit_Fits (Cand_fit c)"
    using assms by (cases "Fit_Reasons (Cand_fit c)") (auto simp: fit_wf_def)
  then show ?thesis
    using nodePlacementRejectionReasons_Nil [of "Cand_node c" "Item_policy item"]
    by (auto simp: candidateBaseRejectionReasons_def uniqueSorted_Nil_iff)
qed

lemma candidateBaseRejectionReasons_nonempty: "[] \<notin> set (candidateBaseRejectionReasons item c)"
  by (simp add: candidateBaseRejectionReasons_def)

lemma nodeBudgetRejectionReasons_Nil:
  "set (nodeBudgetRejectionReasons p item c warm) \<subseteq> {[]} \<longleftrightarrow> canUseCandidate p item c warm"
  by (auto simp: nodeBudgetRejectionReasons_def canUseCandidate_def withinProfileLimit_def Let_def
      FailureWorkerFlapping_def FailureResourceExhaustedDisk_def FailureResourceExhaustedRAM_def
      placementMemoryReason_def split: option.splits)

lemma uniqueSorted_append_Nil:
  "[] \<notin> set xs \<Longrightarrow> uniqueSorted (xs @ ys) = [] \<longleftrightarrow> xs = [] \<and> set ys \<subseteq> {[]}"
  by (cases xs) (auto simp: uniqueSorted_Nil_iff)

lemma hardPinRejectionReasons_Nil:
  "hardPinRejectionReasons p item c = [] \<longleftrightarrow>
     candidateBaseRejectionReasons item c = [] \<and> canUseCandidate p item c True"
  by (simp only: hardPinRejectionReasons_def uniqueSorted_append_Nil [OF candidateBaseRejectionReasons_nonempty]
      nodeBudgetRejectionReasons_Nil)

lemma cacheCandidateRejectionReasons_Nil:
  "cacheCandidateRejectionReasons p item c = [] \<longleftrightarrow>
     candidateBaseRejectionReasons item c = [] \<and> canUseCandidate p item c False"
  by (simp only: cacheCandidateRejectionReasons_def uniqueSorted_append_Nil [OF candidateBaseRejectionReasons_nonempty]
      nodeBudgetRejectionReasons_Nil)

lemma warmSlotUnavailableReasons_nonempty:
  "\<not> slotAvailableForWarm s profile e \<Longrightarrow> \<not> set (warmSlotUnavailableReasons s profile e) \<subseteq> {[]}"
  by (auto simp: slotAvailableForWarm_def warmSlotUnavailableReasons_def split: if_splits)

lemma warmCandidateRejectionReasons_Nil:
  "warmCandidateRejectionReasons p item c = [] \<longleftrightarrow>
     candidateBaseRejectionReasons item c = [] \<and> warmSelectable p item c"
proof -
  have "warmCandidateRejectionReasons p item c = [] \<longleftrightarrow>
      candidateBaseRejectionReasons item c = [] \<and>
      \<not> mget False (Plan_slotUsed p) (Slot_ID (Cand_slot c)) \<and>
      slotAvailableForWarm (Cand_slot c) (Item_profile item) (Cand_effective c) \<and>
      set (nodeBudgetRejectionReasons p item c True) \<subseteq> {[]}"
    using warmSlotUnavailableReasons_nonempty [of "Cand_slot c" "Item_profile item" "Cand_effective c"]
    by (auto simp: warmCandidateRejectionReasons_def uniqueSorted_append_Nil [OF candidateBaseRejectionReasons_nonempty]
        split: if_splits)
  then show ?thesis
    by (auto simp: warmSelectable_def nodeBudgetRejectionReasons_Nil)
qed

subsection \<open>The next candidate\<close>

lemma checks_explainWith [simp]:
  "nodeHasProfileCache (explainWith f p) n pid = nodeHasProfileCache p n pid"
  "nodeHasProfileWarm (explainWith f p) n pid = nodeHasProfileWarm p n pid"
  "profileLimitRejectionReason (explainWith f p) item n warm = profileLimitRejectionReason p item n warm"
  "withinDiskBudget (explainWith f p) node e = withinDiskBudget p node e"
  "withinMemoryBudget (explainWith f p) node e = withinMemoryBudget p node e"
  by (simp_all add: nodeHasProfileCache_def nodeHasProfileWarm_def profileLimitRejectionReason_def
      withinDiskBudget_def withinMemoryBudget_def Let_def)

lemma canUse_explainWith [simp]:
  "canUseCandidate (explainWith f p) item c warm = canUseCandidate p item c warm"
  "warmSelectable (explainWith f p) item = warmSelectable p item"
  by (simp_all add: canUseCandidate_def withinProfileLimit_def warmSelectable_def fun_eq_iff)

lemma checks_bare [simp]:
  "profileLimitRejectionReason (bare p) item n warm = profileLimitRejectionReason p item n warm"
  "withinDiskBudget (bare p) node e = withinDiskBudget p node e"
  "withinMemoryBudget (bare p) node e = withinMemoryBudget p node e"
  by (simp_all add: nodeHasProfileCache_def nodeHasProfileWarm_def profileLimitRejectionReason_def
      withinDiskBudget_def withinMemoryBudget_def Let_def)

lemma canUse_bare [simp]:
  "canUseCandidate (bare p) item c warm = canUseCandidate p item c warm"
  "warmSelectable (bare p) item = warmSelectable p item"
  by (simp_all add: canUseCandidate_def withinProfileLimit_def warmSelectable_def fun_eq_iff)

definition base_ok :: "policyPlanItem \<Rightarrow> placementCandidate \<Rightarrow> bool" where
  "base_ok item c \<longleftrightarrow> candidateBaseRejectionReasons item c = []"

lemma base_ok_Nil [simp]: "candidateBaseRejectionReasons item c = [] \<longleftrightarrow> base_ok item c"
  by (simp add: base_ok_def)

lemma nextWarmExplain_loop_fst:
  "fst (nextWarmExplain_loop item selected cs p) =
     (if selected \<noteq> None then selected else find (warmSelectable p item) (filter (base_ok item) cs))"
  by (induction item selected cs p rule: nextWarmExplain_loop.induct)
    (auto simp: Let_def warmCandidateRejectionReasons_Nil)

lemma nextCache_loop_explainWith [simp]:
  "nextCache_loop (explainWith f p) item seen cs = nextCache_loop p item seen cs"
  by (induction cs arbitrary: seen) (auto simp: Let_def)

lemma nextCache_loop_bare [simp]: "nextCache_loop (bare p) item seen cs = nextCache_loop p item seen cs"
  by (induction cs arbitrary: seen) (auto simp: Let_def)

lemma nextCacheExplain_loop_fst:
  "fst (nextCacheExplain_loop item seen selected cs p) =
     (if selected \<noteq> None then selected else nextCache_loop p item seen (filter (base_ok item) cs))"
  by (induction item seen selected cs p rule: nextCacheExplain_loop.induct)
    (auto simp: Let_def cacheCandidateRejectionReasons_Nil)

lemma nextCache_loop_SomeD:
  "nextCache_loop p item seen cs = Some c \<Longrightarrow> c \<in> set cs \<and> canUseCandidate p item c False"
  by (induction p item seen cs rule: nextCache_loop.induct) (auto simp: Let_def split: if_splits)

lemma explainPlacementCandidates_ok:
  assumes "item_ok db item" and "c \<in> set (explainPlacementCandidates db (Item_profile item) (Item_policy item))"
    and "base_ok item c"
  shows "cache_ok db item c"
proof -
  have b: "Node_ID (Cand_node c) \<noteq> []" "nodeUsableForPlacement (Cand_node c) (Item_policy item)" "Fit_Fits (Cand_fit c)"
    using assms(3) candidateBaseRejectionReasons_Nil [OF explainPlacementCandidates_wf [OF assms(2)], of item]
    by simp_all
  obtain slot v where c: "slot \<in> set (mvals (Slots db))" "v \<in> set (ProfileRuntimeVariants (Item_profile item))"
    "Cand_slot c = slot" "Cand_node c = mget zero_Node (Nodes db) (Slot_NodeID slot)"
    "Cand_effective c = EffectiveProfileForVariant (Item_profile item) v"
    "Cand_fit c = explainFitResult (Cand_effective c) (Cand_node c) slot (mhas (Nodes db) (Slot_NodeID slot))"
    using assms(2) by (auto simp: explainPlacementCandidates_def sortExplainPlacementCandidates_def
        explainSlotCandidates_def Let_def)
  have "map_of (Nodes db) (Slot_NodeID slot) = Some (Cand_node c)"
    using b(1) c(4) by (cases "map_of (Nodes db) (Slot_NodeID slot)") (auto simp: mget_def)
  then show ?thesis
    using b c assms(1) by (auto simp: cache_ok_def item_ok_def explainFitResult_def mhas_def)
qed

text \<open>Any way of looking for a candidate yields an acceptable one that the checks admit.\<close>

lemma nextWarmCandidate_ok:
  assumes "nextWarmCandidate item p = (Some c, p')" and "item_ok (Plan_db p) item"
  shows "warm_ok (Plan_db p) (Plan_now p) item c \<and> warmSelectable p item c"
proof -
  have "cache_ok (Plan_db p) item c \<and> warmSelectable p item c"
  proof (cases "Plan_explain p = None")
    case True
    with assms(1) have "find (warmSelectable p item)
        (placementCandidates (Plan_db p) (Item_profile item) (Item_policy item)) = Some c"
      by (auto simp: nextWarmCandidate_def)
    then show ?thesis
      using placementCandidates_ok [OF assms(2)] by (auto simp: find_Some_iff)
  next
    case False
    with assms(1) have "find (warmSelectable p item) (filter (base_ok item)
        (explainPlacementCandidates (Plan_db p) (Item_profile item) (Item_policy item))) = Some c"
      using nextWarmExplain_loop_fst [of item None _ p]
      by (simp add: nextWarmCandidate_def nextWarmCandidateExplain_def) (metis fst_conv)
    then have "c \<in> set (filter (base_ok item)
        (explainPlacementCandidates (Plan_db p) (Item_profile item) (Item_policy item)))"
      and "warmSelectable p item c"
      by (auto simp: find_Some_iff simp del: set_filter)
    then show ?thesis
      using explainPlacementCandidates_ok [OF assms(2)] by simp
  qed
  then show ?thesis
    by (auto simp: warm_ok_def warmSelectable_def canUseCandidate_def split: if_splits)
qed

lemma nextCacheCandidate_ok:
  assumes "nextCacheCandidate item p = (Some c, p')" and "item_ok (Plan_db p) item"
  shows "cache_ok (Plan_db p) item c \<and> canUseCandidate p item c False"
proof (cases "Plan_explain p = None")
  case True
  with assms(1) have "nextCache_loop p item []
      (placementCandidates (Plan_db p) (Item_profile item) (Item_policy item)) = Some c"
    by (auto simp: nextCacheCandidate_def)
  then show ?thesis
    using placementCandidates_ok [OF assms(2)] by (auto dest: nextCache_loop_SomeD)
next
  case False
  with assms(1) have "nextCache_loop p item [] (filter (base_ok item)
      (explainPlacementCandidates (Plan_db p) (Item_profile item) (Item_policy item))) = Some c"
    using nextCacheExplain_loop_fst [of item "[]" None _ p]
    by (simp add: nextCacheCandidate_def nextCacheCandidateExplain_def) (metis fst_conv)
  then show ?thesis
    using explainPlacementCandidates_ok [OF assms(2)] by (auto dest!: nextCache_loop_SomeD)
qed

subsection \<open>The planner's moves\<close>

text \<open>
  \<open>pin\<close> marks the phase in which hard pins are placed: only there may a warm placement take a
  slot that is already used.
\<close>

inductive plan_move :: "bool \<Rightarrow> placementPlanner \<Rightarrow> placementPlanner \<Rightarrow> bool" for pin :: bool where
  note_move: "bare q = (bare p)\<lparr>Plan_missing := m, Plan_protected := pr\<rparr> \<Longrightarrow> plan_move pin p q"
| shortage_move: "Asg_MismatchReason a \<noteq> [] \<Longrightarrow> Asg_DesiredCached a \<Longrightarrow> \<not> Asg_Draining a \<Longrightarrow>
    (\<And>pid. mget 0 (Plan_warmByProfile p) pid \<le> mget 0 w pid \<and>
       mget 0 w pid \<le> mget 0 (Plan_warmByProfile p) pid + of_bool (Asg_ProfileID a = pid \<and> Asg_DesiredWarm a)) \<Longrightarrow>
    (\<And>pid. mget 0 (Plan_cacheByProfile p) pid \<le> mget 0 k pid \<and>
       mget 0 k pid \<le> mget 0 (Plan_cacheByProfile p) pid + of_bool (Asg_ProfileID a = pid)) \<Longrightarrow>
    plan_move pin p (p\<lparr>Plan_assignments := Plan_assignments p @ [a], Plan_warmByProfile := w,
       Plan_cacheByProfile := k\<rparr>)"
| warm_move: "warm_ok (Plan_db p) (Plan_now p) item c \<Longrightarrow> canUseCandidate p item c True \<Longrightarrow>
    \<not> pin \<longrightarrow> \<not> mget False (Plan_slotUsed p) (Slot_ID (Cand_slot c)) \<Longrightarrow>
    plan_move pin p (markWarm item c (addAssignment (warmAssignment item c (Plan_now p)) p))"
| cache_move: "cache_ok (Plan_db p) item c \<Longrightarrow> canUseCandidate p item c False \<Longrightarrow>
    \<not> nodeHasProfileCache p (Node_ID (Cand_node c)) (Profile_ID (Item_profile item)) \<Longrightarrow>
    plan_move pin p (markCache item c (addAssignment
      (cacheAssignmentFromCandidate (Profile_ID (Item_profile item)) c (Plan_now p)) p))"

abbreviation plan_moves :: "bool \<Rightarrow> placementPlanner \<Rightarrow> placementPlanner \<Rightarrow> bool" where
  "plan_moves pin \<equiv> (plan_move pin)\<^sup>*\<^sup>*"

lemma note_move_sel:
  assumes "bare q = (bare p)\<lparr>Plan_missing := m, Plan_protected := pr\<rparr>"
  shows "Plan_db q = Plan_db p" "Plan_now q = Plan_now p" "Plan_assignments q = Plan_assignments p"
    "Plan_warmByProfile q = Plan_warmByProfile p" "Plan_cacheByProfile q = Plan_cacheByProfile p"
    "Plan_slotUsed q = Plan_slotUsed p" "Plan_nodeMemoryUsed q = Plan_nodeMemoryUsed p"
    "Plan_nodeDiskUsed q = Plan_nodeDiskUsed p" "Plan_nodeCache q = Plan_nodeCache p"
  using arg_cong [OF assms, of Plan_db] arg_cong [OF assms, of Plan_now] arg_cong [OF assms, of Plan_assignments]
    arg_cong [OF assms, of Plan_warmByProfile] arg_cong [OF assms, of Plan_cacheByProfile]
    arg_cong [OF assms, of Plan_slotUsed] arg_cong [OF assms, of Plan_nodeMemoryUsed]
    arg_cong [OF assms, of Plan_nodeDiskUsed] arg_cong [OF assms, of Plan_nodeCache]
  by simp_all

lemma plan_move_db: "plan_move pin p q \<Longrightarrow> Plan_db q = Plan_db p \<and> Plan_now q = Plan_now p"
  by (induction rule: plan_move.induct) (auto dest: note_move_sel(1,2))

lemma plan_moves_db: "plan_moves pin p q \<Longrightarrow> Plan_db q = Plan_db p \<and> Plan_now q = Plan_now p"
  by (induction rule: rtranclp_induct) (auto dest: plan_move_db)

lemma moves_bare: "bare q = bare p \<Longrightarrow> plan_moves pin p q"
proof -
  assume "bare q = bare p"
  then have "bare q = (bare p)\<lparr>Plan_missing := Plan_missing p, Plan_protected := Plan_protected p\<rparr>"
    by (simp add: bare_def)
  then show ?thesis by (blast intro: note_move)
qed

lemma moves_explainWith: "plan_moves pin p (explainWith f p)"
  by (rule moves_bare) simp

lemma moves_missing: "plan_moves pin p (p\<lparr>Plan_missing := m\<rparr>)"
proof -
  have "bare (p\<lparr>Plan_missing := m\<rparr>) = (bare p)\<lparr>Plan_missing := m, Plan_protected := Plan_protected p\<rparr>"
    by (simp add: bare_def)
  then show ?thesis by (blast intro: note_move)
qed

lemma moves_protected: "plan_moves pin p (p\<lparr>Plan_protected := pr\<rparr>)"
proof -
  have "bare (p\<lparr>Plan_protected := pr\<rparr>) = (bare p)\<lparr>Plan_missing := Plan_missing p, Plan_protected := pr\<rparr>"
    by (simp add: bare_def)
  then show ?thesis by (blast intro: note_move)
qed

lemma moves_shortage:
  assumes "Asg_MismatchReason a \<noteq> []" and "Asg_DesiredCached a" and "\<not> Asg_Draining a"
  shows "plan_moves pin p (addAssignment a p)"
proof -
  have "plan_move pin p (p\<lparr>Plan_assignments := Plan_assignments p @ [a],
      Plan_warmByProfile := Plan_warmByProfile p, Plan_cacheByProfile := Plan_cacheByProfile p\<rparr>)"
    using assms by (intro shortage_move) auto
  then show ?thesis by (auto simp: addAssignment_def)
qed

lemma moves_addMissing: "plan_moves pin p (addMissing pid warm p)"
proof -
  define a where "a = missingPlacementAssignment pid (mget 0 (Plan_missing p) pid) warm (Plan_now p)"
  define p1 where "p1 = explainWith (expl_addMissing pid (placementPhase warm) warm [Asg_MismatchReason a])
      (p\<lparr>Plan_missing := mput pid (mget 0 (Plan_missing p) pid + 1) (Plan_missing p)\<rparr>)"
  have "plan_moves pin p p1"
    unfolding p1_def by (rule rtranclp_trans [OF moves_missing moves_explainWith])
  moreover have "plan_move pin p1 (p1\<lparr>Plan_assignments := Plan_assignments p1 @ [a],
      Plan_warmByProfile := (if warm then mput pid (mget 0 (Plan_warmByProfile p1) pid + 1) (Plan_warmByProfile p1)
        else Plan_warmByProfile p1),
      Plan_cacheByProfile := mput pid (mget 0 (Plan_cacheByProfile p1) pid + 1) (Plan_cacheByProfile p1)\<rparr>)"
    by (rule shortage_move) (auto simp: a_def)
  moreover have "p1\<lparr>Plan_assignments := Plan_assignments p1 @ [a],
      Plan_warmByProfile := (if warm then mput pid (mget 0 (Plan_warmByProfile p1) pid + 1) (Plan_warmByProfile p1)
        else Plan_warmByProfile p1),
      Plan_cacheByProfile := mput pid (mget 0 (Plan_cacheByProfile p1) pid + 1) (Plan_cacheByProfile p1)\<rparr> =
      addMissing pid warm p"
    by (simp add: addMissing_def nextMissing_def addAssignment_def explainWith_def p1_def a_def Let_def)
  ultimately show ?thesis
    by (metis rtranclp.rtrancl_into_rtrancl)
qed

lemma checks_bare_cong:
  assumes "bare p = bare q"
  shows "canUseCandidate p item c warm = canUseCandidate q item c warm"
    and "warmSelectable p item = warmSelectable q item"
  using assms canUse_bare by metis+

lemma moves_placeWarmStep:
  assumes "item_ok (Plan_db p) item"
  shows "plan_moves False p (placeWarmStep item p)"
proof -
  obtain cand p1 where n: "nextWarmCandidate item p = (cand, p1)"
    by (cases "nextWarmCandidate item p")
  then have b: "bare p1 = bare p"
    using bare_nextWarmCandidate [of item p] by simp
  then have m: "plan_moves False p p1" by (rule moves_bare)
  note same = bare_eq_sel(1,2,7) [OF b]
  show ?thesis
  proof (cases cand)
    case None
    with n m moves_addMissing show ?thesis
      by (simp add: placeWarmStep_def) (metis rtranclp_trans)
  next
    case (Some c)
    have "warm_ok (Plan_db p1) (Plan_now p1) item c" and "warmSelectable p1 item c"
      using nextWarmCandidate_ok [OF _ assms] n Some checks_bare_cong(2) [OF b] same by auto
    then have "plan_move False p1 (markWarm item c (addAssignment (warmAssignment item c (Plan_now p1)) p1))"
      by (intro warm_move) (auto simp: warmSelectable_def)
    with m n Some show ?thesis
      by (simp add: placeWarmStep_def)
  qed
qed

lemma moves_placeCacheStep:
  assumes "item_ok (Plan_db p) item"
  shows "plan_moves False p (placeCacheStep item p)"
proof -
  obtain cand p1 where n: "nextCacheCandidate item p = (cand, p1)"
    by (cases "nextCacheCandidate item p")
  then have b: "bare p1 = bare p"
    using bare_nextCacheCandidate [of item p] by simp
  then have m: "plan_moves False p p1" by (rule moves_bare)
  show ?thesis
  proof (cases cand)
    case None
    with n m moves_addMissing show ?thesis
      by (simp add: placeCacheStep_def) (metis rtranclp_trans)
  next
    case (Some c)
    have "cache_ok (Plan_db p1) item c" and "canUseCandidate p1 item c False"
      using nextCacheCandidate_ok [OF _ assms] n Some checks_bare_cong(1) [OF b] bare_eq_sel(1) [OF b] by auto
    moreover have "\<not> nodeHasProfileCache p1 (Node_ID (Cand_node c)) (Profile_ID (Item_profile item))"
      using n Some nextCacheCandidate_uncached by blast
    ultimately have "plan_move False p1 (markCache item c (addAssignment
        (cacheAssignmentFromCandidate (Profile_ID (Item_profile item)) c (Plan_now p1)) p1))"
      by (rule cache_move)
    then show ?thesis
      using m n Some by (simp add: placeCacheStep_def)
  qed
qed

text \<open>A hard pin: refused with a reason, or placed like any warm copy.\<close>

lemma markWarm_explain_comm:
  "markWarm item c (explainWith f (addAssignment a p)) = markWarm item c (addAssignment a (explainWith f p))"
proof -
  have "explainWith f (addAssignment a p) = addAssignment a (explainWith f p)"
    by (rule placementPlanner.equality) (simp_all add: explainWith_def addAssignment_def)
  then show ?thesis by (rule arg_cong)
qed

lemma addAssignment_protected:
  "(addAssignment a p)\<lparr>Plan_protected := pr\<rparr> = addAssignment a (p\<lparr>Plan_protected := pr\<rparr>)"
  by (rule placementPlanner.equality) (simp_all add: addAssignment_def)

lemma checks_protected [simp]:
  "nodeHasProfileCache (p\<lparr>Plan_protected := pr\<rparr>) n pid = nodeHasProfileCache p n pid"
  "profileLimitRejectionReason (p\<lparr>Plan_protected := pr\<rparr>) item n warm = profileLimitRejectionReason p item n warm"
  "withinDiskBudget (p\<lparr>Plan_protected := pr\<rparr>) node e = withinDiskBudget p node e"
  "withinMemoryBudget (p\<lparr>Plan_protected := pr\<rparr>) node e = withinMemoryBudget p node e"
  by (simp_all add: nodeHasProfileCache_def nodeHasProfileWarm_def profileLimitRejectionReason_def
      withinDiskBudget_def withinMemoryBudget_def Let_def)

lemma canUse_protected [simp]:
  "canUseCandidate (p\<lparr>Plan_protected := pr\<rparr>) item c warm = canUseCandidate p item c warm"
  by (simp add: canUseCandidate_def withinProfileLimit_def)

lemma moves_placeHardPin:
  assumes "item_ok (Plan_db p) item"
  shows "plan_moves True p (placeHardPin item pin p)"
proof (cases "map_of (Slots (Plan_db p)) pin")
  case None
  show ?thesis
    using None rtranclp_trans [OF moves_missing rtranclp_trans [OF moves_shortage moves_explainWith]]
    by (simp add: placeHardPin_def nextMissing_def Let_def)
next
  case (Some slot)
  define node where "node = mget zero_Node (Nodes (Plan_db p)) (Slot_NodeID slot)"
  obtain e f where ef: "BestVariantForSlot (Item_profile item) node slot = (e, f)"
    by (cases "BestVariantForSlot (Item_profile item) node slot")
  define c where "c = \<lparr>Cand_slot = slot, Cand_node = node, Cand_profile = Item_profile item,
     Cand_effective = e, Cand_fit = f\<rparr>"
  have pin: "placeHardPin item pin p =
     (if nodeWarmPlacementSuppressed node (Plan_now p)
      then explainWith (addRejected (Profile_ID (Item_profile item)) ''hard_pin'' c True [FailureWorkerFlapping])
        (addAssignment ((warmAssignment item c (Plan_now p))\<lparr>Asg_MismatchReason := FailureWorkerFlapping\<rparr>) p)
      else if hardPinRejectionReasons p item c \<noteq> []
      then explainWith (addRejected (Profile_ID (Item_profile item)) ''hard_pin'' c True (hardPinRejectionReasons p item c))
        (addAssignment ((warmAssignment item c (Plan_now p))\<lparr>Asg_MismatchReason :=
           firstNonEmpty [Asg_MismatchReason (warmAssignment item c (Plan_now p)), ''resource_exhausted_node_budget'']\<rparr>) p)
      else markWarm item c (addAssignment (warmAssignment item c (Plan_now p))
        (explainWith (addSelected (Profile_ID (Item_profile item)) ''hard_pin'' c True [''selected_hard_pin'']) p)))"
    using Some ef by (simp add: placeHardPin_def Let_def node_def c_def markWarm_explain_comm)
  have refused: "plan_moves True p (explainWith g (addAssignment
      ((warmAssignment item c (Plan_now p))\<lparr>Asg_MismatchReason := r\<rparr>) p))" if "r \<noteq> []" for g r
    using that by (intro rtranclp_trans [OF moves_shortage moves_explainWith]) (simp_all add: healthy_def)
  have placed: "plan_moves True p (markWarm item c (addAssignment (warmAssignment item c (Plan_now p))
      (explainWith g p)))"
    if sup: "\<not> nodeWarmPlacementSuppressed node (Plan_now p)" and r: "hardPinRejectionReasons p item c = []" for g
  proof -
    have "fit_wf f"
      using fit_wf_bestVariant_loop [of "[]" "ProfileRuntimeVariants (Item_profile item)" "Item_profile item" node slot
          zero_WorkloadProfile zero_FitResult] ef by (simp add: BestVariantForSlot_def)
    then have ok: "Node_ID node \<noteq> []" "nodeUsableForPlacement node (Item_policy item)" "Fit_Fits f"
      and use: "canUseCandidate p item c True"
      using r candidateBaseRejectionReasons_Nil [of c item] by (auto simp: hardPinRejectionReasons_Nil c_def)
    obtain v where v: "v \<in> set (ProfileRuntimeVariants (Item_profile item))"
      "e = EffectiveProfileForVariant (Item_profile item) v" "f = fitConcrete e node slot"
      using ef ok(3) by (cases rule: BestVariantForSlot_cases [of "Item_profile item" node slot]) auto
    have "map_of (Nodes (Plan_db p)) (Slot_NodeID slot) = Some node"
      using ok(1) by (cases "map_of (Nodes (Plan_db p)) (Slot_NodeID slot)") (auto simp: node_def mget_def)
    moreover have "slot \<in> set (mvals (Slots (Plan_db p)))"
      using Some map_of_SomeD by (fastforce simp: set_mvals)
    ultimately have "warm_ok (Plan_db p) (Plan_now p) item c"
      using ok v sup assms by (auto simp: warm_ok_def cache_ok_def item_ok_def c_def)
    with use have "plan_move True (explainWith g p) (markWarm item c
        (addAssignment (warmAssignment item c (Plan_now (explainWith g p))) (explainWith g p)))"
      by (intro warm_move) simp_all
    then show ?thesis
      using moves_explainWith [of True p g] by simp
  qed
  show ?thesis
    unfolding pin using refused placed by (auto simp: FailureWorkerFlapping_def)
qed

lemma moves_preserveRuntimeCopy:
  assumes "list_all (item_ok (Plan_db p)) (mvals byProfile)" and "slot \<in> set (mvals (Slots (Plan_db p)))"
  shows "plan_moves False p (preserveRuntimeCopy byProfile slot p)"
proof (cases "preserveRuntimeCopy byProfile slot p = p")
  case False
  then obtain item c where i: "\<not> mget False (Plan_slotUsed p) (Slot_ID slot)"
    "map_of byProfile (Slot_ProfileID slot) = Some item" "protectedRuntimeCandidate p item slot = Some c"
    "canUseCandidate p item c True" "runtimeCopyProtected slot"
    by (auto simp: preserveRuntimeCopy_def split: if_splits option.splits)
  define p1 where "p1 = p\<lparr>Plan_protected := mput (Asg_ID (warmAssignment item c (Plan_now p))) True (Plan_protected p)\<rparr>"
  have "item_ok (Plan_db p) item"
    using assms(1) i(2) map_of_SomeD by (fastforce simp: list_all_iff set_mvals)
  then have "cache_ok (Plan_db p) item c" and cs: "Cand_slot c = slot"
    using i(3) assms(2) by (auto simp: protectedRuntimeCandidate_def cache_ok_def item_ok_def Let_def find_Some_iff
        split: option.splits if_splits)
  moreover have "\<not> nodeWarmPlacementSuppressed (Cand_node c) (Plan_now p)"
    using i(4) by (simp add: canUseCandidate_def split: if_splits)
  ultimately have "warm_ok (Plan_db p1) (Plan_now p1) item c"
    by (simp add: warm_ok_def p1_def)
  moreover have "canUseCandidate p1 item c True"
    using i(4) by (simp add: p1_def)
  ultimately have "plan_move False p1 (markWarm item c (addAssignment (warmAssignment item c (Plan_now p1)) p1))"
    using i(1) cs by (intro warm_move) (simp_all add: p1_def)
  moreover have "plan_moves False p p1"
    unfolding p1_def by (rule moves_protected)
  ultimately have m: "plan_moves False p (markWarm item c (addAssignment (warmAssignment item c (Plan_now p1)) p1))"
    by (rule rtranclp.rtrancl_into_rtrancl [rotated])
  have "preserveRuntimeCopy byProfile slot p =
      explainWith (addSelected (Profile_ID (Item_profile item)) ''drain'' c True [''preserved_runtime_copy''])
        (markWarm item c (addAssignment (warmAssignment item c (Plan_now p1)) p1))"
    using i by (simp add: preserveRuntimeCopy_def addAssignment_protected p1_def Let_def)
  then show ?thesis
    using rtranclp_trans [OF m moves_explainWith] by simp
qed simp

end
