(* ===== verification/Plan_Ledger.thy ===== *)
theory Plan_Ledger
  imports Plan_Invariants
begin

section \<open>Budgets, slots and targets of a plan\<close>

text \<open>
  The placements behind a plan, as two lists: \<open>ws\<close> the warm ones and \<open>cs\<close> the ones that put a
  profile on a node's disk. The ledger invariant says that the counters of the planner are
  the sums over these lists, that the healthy assignments are exactly the warm placements,
  and that no budget is exceeded; every move of the planner keeps it.
\<close>

type_synonym placement = "policyPlanItem \<times> placementCandidate"

fun placement_node :: "placement \<Rightarrow> string" where
  "placement_node (item, c) = Node_ID (Cand_node c)"

fun placement_slot :: "placement \<Rightarrow> string" where
  "placement_slot (item, c) = Slot_ID (Cand_slot c)"

fun placement_profile :: "placement \<Rightarrow> string" where
  "placement_profile (item, c) = Profile_ID (Item_profile item)"

fun placement_memory :: "placement \<Rightarrow> int" where
  "placement_memory (item, c) = profileMemoryBytes (Cand_effective c)"

fun placement_disk :: "Database \<Rightarrow> placement \<Rightarrow> int" where
  "placement_disk db (item, c) = profileDiskBytes db (Cand_effective c)"

text \<open>What the placements on a node add up to.\<close>

definition charged :: "(placement \<Rightarrow> int) \<Rightarrow> string \<Rightarrow> placement list \<Rightarrow> int" where
  "charged f n xs = sum_list (map f (filter (\<lambda>x. placement_node x = n) xs))"

lemma charged_Nil [simp]: "charged f n [] = 0"
  by (simp add: charged_def)

lemma charged_snoc [simp]:
  "charged f n (xs @ [x]) = charged f n xs + (if placement_node x = n then f x else 0)"
  by (simp add: charged_def)

lemma charged_nonneg: "(\<And>x. x \<in> set xs \<Longrightarrow> 0 \<le> f x) \<Longrightarrow> 0 \<le> charged f n xs"
  by (auto simp: charged_def intro!: sum_list_nonneg)

text \<open>
  Sizes below 4 EiB: the sum of an admitted budget and one more request then stays within
  \<^verbatim>\<open>int64\<close>, so that the planner's comparison is not fooled by wrap-around.
\<close>

definition sane_size :: "int \<Rightarrow> bool" where
  "sane_size x \<longleftrightarrow> 0 \<le> x \<and> x < 2 ^ 62"

definition sane_db :: "Database \<Rightarrow> bool" where
  "sane_db db \<longleftrightarrow>
     keyed Node_ID (Nodes db) \<and> keyed Slot_ID (Slots db) \<and>
     list_all (\<lambda>profile. list_all (\<lambda>v.
        sane_size (profileMemoryBytes (EffectiveProfileForVariant profile v)) \<and>
        sane_size (profileDiskBytes db (EffectiveProfileForVariant profile v)))
       (ProfileRuntimeVariants profile)) (mvals (Profiles db)) \<and>
     list_all (\<lambda>node. nodeMemoryBudget node < 2 ^ 62 \<and> Budget_DiskBytes (Node_Budgets node) < 2 ^ 62)
       (mvals (Nodes db))"

text \<open>
  The contract of a budget check: where both the budget and the request are set, an admitted
  request keeps the (wrapping) sum within the budget. Memory and disk both meet it.
\<close>

locale budget_guard =
  fixes used :: "'s \<Rightarrow> Node \<Rightarrow> int" and need :: "'s \<Rightarrow> WorkloadProfile \<Rightarrow> int"
    and budget :: "Node \<Rightarrow> int" and admit :: "'s \<Rightarrow> Node \<Rightarrow> WorkloadProfile \<Rightarrow> bool"
  assumes admit_guard:
    "admit s n e \<Longrightarrow> 0 < budget n \<Longrightarrow> 0 < need s e \<Longrightarrow> wrap64 (used s n + need s e) \<le> budget n"
begin

lemma charge_within:
  assumes "admit s n e" and "0 < budget n" and "budget n < 2 ^ 62" and "sane_size (need s e)"
    and "used s n = wrap64 sum0" and "0 \<le> sum0" and "sum0 \<le> budget n"
  shows "sum0 + need s e \<le> budget n"
proof (cases "need s e = 0")
  case False
  with assms(4) have r: "0 < need s e" "need s e < 2 ^ 62"
    by (auto simp: sane_size_def)
  have "wrap64 (used s n + need s e) = wrap64 (sum0 + need s e)"
    by (simp add: assms(5) wrap64_add_left)
  also have "\<dots> = sum0 + need s e"
    using assms(3,6,7) r by (intro wrap64_id) (simp add: in64_def)
  finally show ?thesis
    using admit_guard [OF assms(1,2) r(1)] by simp
qed (use assms in simp)

end

interpretation memory: budget_guard "\<lambda>p n. mget 0 (Plan_nodeMemoryUsed p) (Node_ID n)"
  "\<lambda>p. profileMemoryBytes" nodeMemoryBudget withinMemoryBudget
  by unfold_locales (simp add: withinMemoryBudget_def Let_def split: if_splits)

interpretation disk: budget_guard "\<lambda>p n. mget 0 (Plan_nodeDiskUsed p) (Node_ID n)"
  "\<lambda>p. profileDiskBytes (Plan_db p)" "\<lambda>n. Budget_DiskBytes (Node_Budgets n)" withinDiskBudget
  by unfold_locales (simp add: withinDiskBudget_def Let_def split: if_splits)

subsection \<open>The ledger invariant\<close>

definition within_budgets :: "Database \<Rightarrow> placement list \<Rightarrow> placement list \<Rightarrow> bool" where
  "within_budgets db ws cs \<longleftrightarrow>
     (\<forall>n node. map_of (Nodes db) n = Some node \<longrightarrow>
        (0 < nodeMemoryBudget node \<longrightarrow> charged placement_memory n ws \<le> nodeMemoryBudget node) \<and>
        (0 < Budget_DiskBytes (Node_Budgets node) \<longrightarrow>
           charged (placement_disk db) n cs \<le> Budget_DiskBytes (Node_Budgets node)))"

definition ledger :: "placement list \<Rightarrow> placement list \<Rightarrow> placementPlanner \<Rightarrow> bool" where
  "ledger ws cs p \<longleftrightarrow>
     filter healthy (Plan_assignments p) = map (\<lambda>(item, c). warmAssignment item c (Plan_now p)) ws \<and>
     (\<forall>(item, c) \<in> set ws. warm_ok (Plan_db p) (Plan_now p) item c) \<and>
     (\<forall>(item, c) \<in> set cs. cache_ok (Plan_db p) item c) \<and>
     (\<forall>n. mget 0 (Plan_nodeMemoryUsed p) n = wrap64 (charged placement_memory n ws)) \<and>
     (\<forall>n. mget 0 (Plan_nodeDiskUsed p) n = wrap64 (charged (placement_disk (Plan_db p)) n cs)) \<and>
     (\<forall>sid. mget False (Plan_slotUsed p) sid \<longleftrightarrow> sid \<in> placement_slot ` set ws) \<and>
     (\<forall>n pid. nodeHasProfileCache p n pid \<longleftrightarrow> (n, pid) \<in> (\<lambda>x. (placement_node x, placement_profile x)) ` set cs) \<and>
     distinct (map (\<lambda>x. (placement_node x, placement_profile x)) cs) \<and>
     (\<forall>a \<in> set (Plan_assignments p). Asg_MismatchReason a = [] \<longrightarrow>
        (Asg_NodeID a, Asg_ProfileID a) \<in> (\<lambda>x. (placement_node x, placement_profile x)) ` set cs) \<and>
     within_budgets (Plan_db p) ws cs"

lemma sane_placement:
  assumes "sane_db db" and "cache_ok db item c"
  shows "sane_size (profileMemoryBytes (Cand_effective c))" "sane_size (profileDiskBytes db (Cand_effective c))"
    "map_of (Nodes db) (Node_ID (Cand_node c)) = Some (Cand_node c)"
    "nodeMemoryBudget (Cand_node c) < 2 ^ 62" "Budget_DiskBytes (Node_Budgets (Cand_node c)) < 2 ^ 62"
    "map_of (Slots db) (Slot_ID (Cand_slot c)) = Some (Cand_slot c)"
    "Slot_NodeID (Cand_slot c) = Node_ID (Cand_node c)"
proof -
  obtain v where v: "v \<in> set (ProfileRuntimeVariants (Item_profile item))"
    "Cand_effective c = EffectiveProfileForVariant (Item_profile item) v"
    "Item_profile item \<in> set (mvals (Profiles db))"
    using assms(2) by (auto simp: cache_ok_def)
  then show "sane_size (profileMemoryBytes (Cand_effective c))" "sane_size (profileDiskBytes db (Cand_effective c))"
    using assms(1) by (auto simp: sane_db_def list_all_iff)
  have n: "map_of (Nodes db) (Slot_NodeID (Cand_slot c)) = Some (Cand_node c)"
    using assms(2) by (simp add: cache_ok_def)
  then show i: "Slot_NodeID (Cand_slot c) = Node_ID (Cand_node c)"
    using assms(1) keyed_lookup by (fastforce simp: sane_db_def)
  show "map_of (Nodes db) (Node_ID (Cand_node c)) = Some (Cand_node c)"
    using n i by simp
  then show "nodeMemoryBudget (Cand_node c) < 2 ^ 62" "Budget_DiskBytes (Node_Budgets (Cand_node c)) < 2 ^ 62"
    using assms(1) map_of_SomeD by (fastforce simp: sane_db_def list_all_iff set_mvals)+
  show "map_of (Slots db) (Slot_ID (Cand_slot c)) = Some (Cand_slot c)"
    using assms by (auto simp: sane_db_def cache_ok_def keyed_mvals)
qed

lemma ledger_charges_nonneg:
  assumes "sane_db (Plan_db p)" and "ledger ws cs p"
  shows "0 \<le> charged placement_memory n ws" "0 \<le> charged (placement_disk (Plan_db p)) n cs"
  using assms sane_placement [OF assms(1)]
  by (auto intro!: charged_nonneg simp: ledger_def warm_ok_def sane_size_def)

lemma within_budgets_snoc:
  assumes "within_budgets db ws cs" and "map_of (Nodes db) (placement_node x) = Some node"
    and "add_w \<Longrightarrow> 0 < nodeMemoryBudget node \<Longrightarrow>
       charged placement_memory (placement_node x) ws + placement_memory x \<le> nodeMemoryBudget node"
    and "add_c \<Longrightarrow> 0 < Budget_DiskBytes (Node_Budgets node) \<Longrightarrow>
       charged (placement_disk db) (placement_node x) cs + placement_disk db x \<le> Budget_DiskBytes (Node_Budgets node)"
  shows "within_budgets db (if add_w then ws @ [x] else ws) (if add_c then cs @ [x] else cs)"
  using assms by (auto simp: within_budgets_def)

lemma nodeHasProfileCache_markCache [simp]:
  "nodeHasProfileCache (markCache item c p) n pid \<longleftrightarrow>
     nodeHasProfileCache p n pid \<or> n = Node_ID (Cand_node c) \<and> pid = Profile_ID (Item_profile item)"
  by (auto simp: nodeHasProfileCache_def markCache_def Let_def)

lemma nodeHasProfileCache_markWarm [simp]:
  "nodeHasProfileCache (markWarm item c p) n pid \<longleftrightarrow>
     nodeHasProfileCache p n pid \<or> n = Node_ID (Cand_node c) \<and> pid = Profile_ID (Item_profile item)"
  by (simp add: markWarm_def Let_def) (simp add: nodeHasProfileCache_def)

lemma nodeDiskUsed_markCache:
  "Plan_nodeDiskUsed (markCache item c p) =
     (if nodeHasProfileCache p (Node_ID (Cand_node c)) (Profile_ID (Item_profile item)) then Plan_nodeDiskUsed p
      else mput (Node_ID (Cand_node c)) (wrap64 (mget 0 (Plan_nodeDiskUsed p) (Node_ID (Cand_node c)) +
        profileDiskBytes (Plan_db p) (Cand_effective c))) (Plan_nodeDiskUsed p))"
  by (simp add: markCache_def Let_def)

lemma nodeDiskUsed_markWarm:
  "Plan_nodeDiskUsed (markWarm item c p) =
     (if nodeHasProfileCache p (Node_ID (Cand_node c)) (Profile_ID (Item_profile item)) then Plan_nodeDiskUsed p
      else mput (Node_ID (Cand_node c)) (wrap64 (mget 0 (Plan_nodeDiskUsed p) (Node_ID (Cand_node c)) +
        profileDiskBytes (Plan_db p) (Cand_effective c))) (Plan_nodeDiskUsed p))"
  by (simp add: markWarm_def nodeDiskUsed_markCache Let_def) (simp add: nodeHasProfileCache_def)

lemma ledger_warm:
  assumes "sane_db (Plan_db p)" and "ledger ws cs p" and "warm_ok (Plan_db p) (Plan_now p) item c"
    and "canUseCandidate p item c True"
  defines "cached \<equiv> nodeHasProfileCache p (Node_ID (Cand_node c)) (Profile_ID (Item_profile item))"
  shows "ledger (ws @ [(item, c)]) (if \<not> cached then cs @ [(item, c)] else cs)
    (markWarm item c (addAssignment (warmAssignment item c (Plan_now p)) p))"
proof -
  have ok: "cache_ok (Plan_db p) item c"
    using assms(3) by (simp add: warm_ok_def)
  note sane = sane_placement [OF assms(1) ok] and nn = ledger_charges_nonneg [OF assms(1,2)]
  have b: "within_budgets (Plan_db p) ws cs"
    and um: "mget 0 (Plan_nodeMemoryUsed p) (Node_ID (Cand_node c)) = wrap64 (charged placement_memory (Node_ID (Cand_node c)) ws)"
    and ud: "mget 0 (Plan_nodeDiskUsed p) (Node_ID (Cand_node c)) =
      wrap64 (charged (placement_disk (Plan_db p)) (Node_ID (Cand_node c)) cs)"
    using assms(2) by (auto simp: ledger_def)
  have admit: "withinMemoryBudget p (Cand_node c) (Cand_effective c)" "withinDiskBudget p (Cand_node c) (Cand_effective c)"
    using assms(4) by (auto simp: canUseCandidate_def split: if_splits)
  have "charged placement_memory (Node_ID (Cand_node c)) ws + profileMemoryBytes (Cand_effective c) \<le> nodeMemoryBudget (Cand_node c)"
    if "0 < nodeMemoryBudget (Cand_node c)"
    using memory.charge_within [OF admit(1) that sane(4) sane(1) um nn(1)] b sane(3) that
    by (simp add: within_budgets_def)
  moreover have "charged (placement_disk (Plan_db p)) (Node_ID (Cand_node c)) cs +
      profileDiskBytes (Plan_db p) (Cand_effective c) \<le> Budget_DiskBytes (Node_Budgets (Cand_node c))"
    if "0 < Budget_DiskBytes (Node_Budgets (Cand_node c))"
    using disk.charge_within [OF admit(2) that sane(5) sane(2) ud nn(2)] b sane(3) that
    by (simp add: within_budgets_def)
  ultimately have w: "within_budgets (Plan_db p) (ws @ [(item, c)]) (if \<not> cached then cs @ [(item, c)] else cs)"
    using within_budgets_snoc [OF b, of "(item, c)" "Cand_node c" True "\<not> cached"] sane(3) by simp
  have h: "healthy (warmAssignment item c (Plan_now p))"
    using ok by (auto simp: healthy_def cache_ok_def)
  show ?thesis
    using assms(2,3) ok w h
    by (auto simp: ledger_def nodeDiskUsed_markWarm cached_def wrap64_add_left sane(7))
qed

lemma ledger_cache:
  assumes "sane_db (Plan_db p)" and "ledger ws cs p" and "cache_ok (Plan_db p) item c"
    and "canUseCandidate p item c False"
    and "\<not> nodeHasProfileCache p (Node_ID (Cand_node c)) (Profile_ID (Item_profile item))"
  shows "ledger ws (cs @ [(item, c)]) (markCache item c (addAssignment
    (cacheAssignmentFromCandidate (Profile_ID (Item_profile item)) c (Plan_now p)) p))"
proof -
  note sane = sane_placement [OF assms(1,3)] and nn = ledger_charges_nonneg [OF assms(1,2)]
  have b: "within_budgets (Plan_db p) ws cs"
    and ud: "mget 0 (Plan_nodeDiskUsed p) (Node_ID (Cand_node c)) =
      wrap64 (charged (placement_disk (Plan_db p)) (Node_ID (Cand_node c)) cs)"
    using assms(2) by (auto simp: ledger_def)
  have admit: "withinDiskBudget p (Cand_node c) (Cand_effective c)"
    using assms(4) by (auto simp: canUseCandidate_def split: if_splits)
  have "charged (placement_disk (Plan_db p)) (Node_ID (Cand_node c)) cs +
      profileDiskBytes (Plan_db p) (Cand_effective c) \<le> Budget_DiskBytes (Node_Budgets (Cand_node c))"
    if "0 < Budget_DiskBytes (Node_Budgets (Cand_node c))"
    using disk.charge_within [OF admit that sane(5) sane(2) ud nn(2)] b sane(3) that
    by (simp add: within_budgets_def)
  then have w: "within_budgets (Plan_db p) ws (cs @ [(item, c)])"
    using within_budgets_snoc [OF b, of "(item, c)" "Cand_node c" False True] sane(3) by simp
  show ?thesis
    using assms(2,3,5) w
    by (auto simp: ledger_def nodeDiskUsed_markCache wrap64_add_left healthy_def)
qed

lemma ledger_move:
  assumes "plan_move pin p q" and "sane_db (Plan_db p)" and "ledger ws cs p"
  shows "\<exists>ws' cs'. ledger ws' cs' q"
  using assms
proof cases
  case (note_move m pr)
  then have "ledger ws cs q"
    using assms(3) note_move_sel [OF note_move] by (simp add: ledger_def nodeHasProfileCache_def)
  then show ?thesis by blast
next
  case (shortage_move a w k)
  then have "ledger ws cs q"
    using assms(3) by (simp add: ledger_def nodeHasProfileCache_def healthy_def)
  then show ?thesis by blast
next
  case (warm_move item c)
  then show ?thesis
    using ledger_warm [OF assms(2,3)] by blast
next
  case (cache_move item c)
  then show ?thesis
    using ledger_cache [OF assms(2,3)] by blast
qed

lemma ledger_moves:
  assumes "plan_moves pin p q" and "sane_db (Plan_db p)" and "\<exists>ws cs. ledger ws cs p"
  shows "\<exists>ws cs. ledger ws cs q"
  using assms
proof (induction rule: rtranclp_induct)
  case (step q r)
  then have "sane_db (Plan_db q)"
    using plan_moves_db by metis
  with step show ?case
    using ledger_move by blast
qed

end
