(* ===== verification/Plan_Properties.thy ===== *)
theory Plan_Properties
  imports Plan_Ledger
begin

section \<open>Properties of a plan\<close>

text \<open>
  The moves of a whole run, the counters at its end, and the theorems about the plan that
  the run returns: targets met, budgets respected, slots not double-booked, draining.
\<close>

subsection \<open>A run is a sequence of moves\<close>

lemma moves_fold:
  assumes "\<And>x q. x \<in> set xs \<Longrightarrow> Plan_db q = Plan_db p \<Longrightarrow> plan_moves pin q (f x q)"
  shows "plan_moves pin p (fold f xs p)"
proof -
  have "plan_moves pin q (fold f xs q)" if "Plan_db q = Plan_db p" for q
    using assms that
  proof (induction xs arbitrary: q)
    case (Cons x xs)
    have m: "plan_moves pin q (f x q)"
      using Cons.prems by simp
    then have "Plan_db (f x q) = Plan_db p"
      using plan_moves_db Cons.prems(2) by metis
    with Cons have "plan_moves pin (f x q) (fold f xs (f x q))"
      by simp
    with m show ?case
      by (simp add: rtranclp_trans [OF m])
  qed simp
  then show ?thesis by simp
qed

lemma moves_placeWarmUntil:
  assumes "item_ok (Plan_db p) item"
  shows "plan_moves False p (placeWarmUntil item t p)"
proof (rule warm_loop.loop_invariant)
  fix q assume m: "plan_moves False p q"
  then have "item_ok (Plan_db q) item"
    using assms plan_moves_db by metis
  then show "plan_moves False p (placeWarmStep item q)"
    using m moves_placeWarmStep rtranclp_trans by metis
qed simp

lemma moves_placeCacheUntil:
  assumes "item_ok (Plan_db p) item"
  shows "plan_moves False p (placeCacheUntil item t p)"
proof (rule cache_loop.loop_invariant)
  fix q assume m: "plan_moves False p q"
  then have "item_ok (Plan_db q) item"
    using assms plan_moves_db by metis
  then show "plan_moves False p (placeCacheStep item q)"
    using m moves_placeCacheStep rtranclp_trans by metis
qed simp

lemma set_sortPolicyItems [simp]: "set (sortPolicyItems extras items) = set items"
  by (simp add: sortPolicyItems_def)

lemma map_of_mvals: "map_of m k = Some v \<Longrightarrow> v \<in> set (mvals m)"
  by (auto simp: set_mvals dest: map_of_SomeD)

lemma policyItems_ok: "item \<in> set (fst (policyItems p)) \<Longrightarrow> item_ok (Plan_db p) item"
  by (auto simp: policyItems_def policyItem_def item_ok_def map_filter_def Let_def
      split: option.splits dest: map_of_mvals)

lemma moves_policyItems: "plan_moves pin p (snd (policyItems p))"
  by (simp add: policyItems_def Let_def) (rule moves_fold, rule moves_explainWith)

lemma mvals_policyItemsByProfile: "set (mvals (policyItemsByProfile items)) \<subseteq> set items"
proof -
  have "set (mvals (fold (\<lambda>item out. mput (Profile_ID (Item_profile item)) item out) items out)) \<subseteq>
      set (mvals out) \<union> set items" for out
  proof (induction items arbitrary: out)
    case (Cons item items)
    have "set (mvals (mput k v m)) \<subseteq> insert v (set (mvals m))" for k and v :: policyPlanItem and m
      by (induction m) (auto simp: mput_def mvals_def split: if_splits)
    then show ?case
      using Cons.IH [of "mput (Profile_ID (Item_profile item)) item out"] by fastforce
  qed simp
  from this [of "[]"] show ?thesis
    by (simp add: policyItemsByProfile_def mvals_def)
qed

text \<open>The intermediate planners of a run.\<close>

definition plan_items :: "Database \<Rightarrow> time \<Rightarrow> duration \<Rightarrow> policyPlanItem list" where
  "plan_items db now cooldown = fst (policyItems (newPlacementPlanner db now None cooldown))"

lemma newPlacementPlanner_sel [simp]:
  "Plan_db (newPlacementPlanner db now explain cooldown) = db"
  "Plan_now (newPlacementPlanner db now explain cooldown) = now"
  "Plan_cooldown (newPlacementPlanner db now explain cooldown) = cooldown"
  by (simp_all add: newPlacementPlanner_def)

lemma policyItem_explain:
  "policyItem (newPlacementPlanner db now explain cooldown) = policyItem (newPlacementPlanner db now None cooldown)"
  by (rule ext) (simp add: policyItem_def split: option.split)

lemma fst_policyItems [simp]:
  "fst (policyItems (newPlacementPlanner db now explain cooldown)) = plan_items db now cooldown"
  by (simp add: plan_items_def policyItems_def Let_def policyItem_explain [of db now explain])

lemma plan_items_ok: "item \<in> set (plan_items db now cooldown) \<Longrightarrow> item_ok db item"
  using policyItems_ok [of item "newPlacementPlanner db now None cooldown"] by simp

definition plan_pinned :: "Database \<Rightarrow> time \<Rightarrow> placementExplainer option \<Rightarrow> duration \<Rightarrow> placementPlanner" where
  "plan_pinned db now explain cooldown =
     placeHardPins (plan_items db now cooldown) (snd (policyItems (newPlacementPlanner db now explain cooldown)))"

definition plan_cached_min :: "Database \<Rightarrow> time \<Rightarrow> placementExplainer option \<Rightarrow> duration \<Rightarrow> placementPlanner" where
  "plan_cached_min db now explain cooldown =
     (let items = sortPolicyItems False (plan_items db now cooldown);
          p2 = preserveRuntimeCopies (plan_items db now cooldown) (plan_pinned db now explain cooldown);
          p3 = fold (\<lambda>item. placeWarmUntil item (Cap_MinWarm (Item_capacity item))) items p2
      in fold (\<lambda>item. placeCacheUntil item (Cap_MinCached (Item_capacity item))) items p3)"

lemma planPlaced_eq:
  "planPlaced db now explain cooldown =
     (let items2 = sortPolicyItems True (sortPolicyItems False (plan_items db now cooldown));
          p5 = fold (\<lambda>item. placeWarmUntil item (Cap_Warm (Item_capacity item))) items2
                 (plan_cached_min db now explain cooldown)
      in (items2, fold (\<lambda>item. placeCacheUntil item (Cap_Cached (Item_capacity item))) items2 p5))"
  using fst_policyItems [of db now explain cooldown]
  by (simp add: planPlaced_def plan_cached_min_def plan_pinned_def Let_def case_prod_beta)

lemma moves_placeHardPins:
  assumes "\<And>item. item \<in> set items \<Longrightarrow> item_ok (Plan_db p) item"
  shows "plan_moves True p (placeHardPins items p)"
  unfolding placeHardPins_def
proof (rule moves_fold)
  fix item and q :: placementPlanner assume "item \<in> set items" and "Plan_db q = Plan_db p"
  then show "plan_moves True q (fold (placeHardPin item) (Policy_HardPinnedSlots (Item_policy item)) q)"
    using assms by (intro moves_fold moves_placeHardPin) simp
qed

lemma moves_preserveRuntimeCopies:
  assumes "\<And>item. item \<in> set items \<Longrightarrow> item_ok (Plan_db p) item"
  shows "plan_moves False p (preserveRuntimeCopies items p)"
  unfolding preserveRuntimeCopies_def
proof (rule moves_fold)
  fix slot and q :: placementPlanner assume "slot \<in> set (SortedSlots (Plan_db p))" and "Plan_db q = Plan_db p"
  then show "plan_moves False q (preserveRuntimeCopy (policyItemsByProfile items) slot q)"
    using assms mvals_policyItemsByProfile
    by (intro moves_preserveRuntimeCopy) (auto simp: list_all_iff)
qed

lemma plan_pinned_moves:
  "plan_moves True (newPlacementPlanner db now explain cooldown) (plan_pinned db now explain cooldown)"
  "Plan_db (plan_pinned db now explain cooldown) = db" "Plan_now (plan_pinned db now explain cooldown) = now"
proof -
  let ?p = "newPlacementPlanner db now explain cooldown"
  have s: "plan_moves True ?p (snd (policyItems ?p))" by (rule moves_policyItems)
  then have d: "Plan_db (snd (policyItems ?p)) = db"
    using plan_moves_db [OF s] by (simp add: newPlacementPlanner_def)
  have "plan_moves True (snd (policyItems ?p)) (plan_pinned db now explain cooldown)"
    unfolding plan_pinned_def using plan_items_ok d by (intro moves_placeHardPins) simp
  with s show m: "plan_moves True ?p (plan_pinned db now explain cooldown)"
    by (rule rtranclp_trans)
  show "Plan_db (plan_pinned db now explain cooldown) = db" "Plan_now (plan_pinned db now explain cooldown) = now"
    using plan_moves_db [OF m] by (simp_all add: newPlacementPlanner_def)
qed

lemma fill_moves:
  assumes "\<And>item. item \<in> set items \<Longrightarrow> item_ok (Plan_db p) item"
  shows "plan_moves False p (fold (\<lambda>item. placeWarmUntil item (w item)) items p)"
    and "plan_moves False p (fold (\<lambda>item. placeCacheUntil item (k item)) items p)"
  using assms by (auto intro!: moves_fold moves_placeWarmUntil moves_placeCacheUntil)

lemma plan_cached_min_moves:
  "plan_moves False (plan_pinned db now explain cooldown) (plan_cached_min db now explain cooldown)"
  "Plan_db (plan_cached_min db now explain cooldown) = db"
proof -
  let ?items = "sortPolicyItems False (plan_items db now cooldown)"
  let ?p1 = "plan_pinned db now explain cooldown"
  define p2 where "p2 = preserveRuntimeCopies (plan_items db now cooldown) ?p1"
  define p3 where "p3 = fold (\<lambda>item. placeWarmUntil item (Cap_MinWarm (Item_capacity item))) ?items p2"
  have m2: "plan_moves False ?p1 p2"
    unfolding p2_def using plan_items_ok plan_pinned_moves(2) by (intro moves_preserveRuntimeCopies) simp
  then have d2: "Plan_db p2 = db" using plan_moves_db plan_pinned_moves(2) by metis
  have m3: "plan_moves False p2 p3"
    unfolding p3_def using plan_items_ok d2 by (intro fill_moves) simp
  then have d3: "Plan_db p3 = db" using plan_moves_db d2 by metis
  have "plan_moves False p3 (plan_cached_min db now explain cooldown)"
    unfolding plan_cached_min_def Let_def p2_def [symmetric] p3_def [symmetric]
    using plan_items_ok d3 by (intro fill_moves) simp
  then show m: "plan_moves False ?p1 (plan_cached_min db now explain cooldown)"
    using m2 m3 by (meson rtranclp_trans)
  show "Plan_db (plan_cached_min db now explain cooldown) = db"
    using plan_moves_db [OF m] plan_pinned_moves(2) by simp
qed

lemma planPlaced_moves:
  assumes "planPlaced db now explain cooldown = (items, p)"
  shows "plan_moves False (plan_pinned db now explain cooldown) p" and "Plan_db p = db" and "Plan_now p = now"
    and "set items = set (plan_items db now cooldown)"
proof -
  define p5 where "p5 = fold (\<lambda>item. placeWarmUntil item (Cap_Warm (Item_capacity item))) items
     (plan_cached_min db now explain cooldown)"
  have i: "items = sortPolicyItems True (sortPolicyItems False (plan_items db now cooldown))"
    and p: "p = fold (\<lambda>item. placeCacheUntil item (Cap_Cached (Item_capacity item))) items p5"
    using assms by (auto simp: planPlaced_eq p5_def Let_def)
  then show s: "set items = set (plan_items db now cooldown)" by simp
  have m5: "plan_moves False (plan_cached_min db now explain cooldown) p5"
    unfolding p5_def using s plan_items_ok plan_cached_min_moves(2) by (intro fill_moves) simp
  then have "Plan_db p5 = db" using plan_moves_db plan_cached_min_moves(2) by metis
  then have "plan_moves False p5 p"
    unfolding p using s plan_items_ok by (intro fill_moves) simp
  then show m: "plan_moves False (plan_pinned db now explain cooldown) p"
    using m5 plan_cached_min_moves(1) by (meson rtranclp_trans)
  show "Plan_db p = db" "Plan_now p = now"
    using plan_moves_db [OF m] plan_pinned_moves by simp_all
qed

subsection \<open>Counters and assignments\<close>

definition warm_requests :: "string \<Rightarrow> PlacementAssignment list \<Rightarrow> int" where
  "warm_requests pid as = int (length (filter (\<lambda>a. Asg_ProfileID a = pid \<and> Asg_DesiredWarm a) as))"

definition cache_requests :: "string \<Rightarrow> PlacementAssignment list \<Rightarrow> int" where
  "cache_requests pid as = int (length (filter (\<lambda>a. Asg_ProfileID a = pid \<and> Asg_DesiredCached a) as))"

lemma requests_snoc [simp]:
  "warm_requests pid (as @ [a]) = warm_requests pid as + of_bool (Asg_ProfileID a = pid \<and> Asg_DesiredWarm a)"
  "cache_requests pid (as @ [a]) = cache_requests pid as + of_bool (Asg_ProfileID a = pid \<and> Asg_DesiredCached a)"
  by (simp_all add: warm_requests_def cache_requests_def)

definition counts_ok :: "placementPlanner \<Rightarrow> bool" where
  "counts_ok p \<longleftrightarrow>
     (\<forall>pid. mget 0 (Plan_warmByProfile p) pid \<le> warm_requests pid (Plan_assignments p) \<and>
        mget 0 (Plan_cacheByProfile p) pid \<le> cache_requests pid (Plan_assignments p))"

lemma cacheByProfile_markCache:
  "mget 0 (Plan_cacheByProfile (markCache item c p)) pid =
     mget 0 (Plan_cacheByProfile p) pid +
     of_bool (pid = Profile_ID (Item_profile item) \<and> \<not> nodeHasProfileCache p (Node_ID (Cand_node c)) pid)"
  by (simp add: markCache_def Let_def)

lemma cacheByProfile_markWarm:
  "mget 0 (Plan_cacheByProfile (markWarm item c p)) pid =
     mget 0 (Plan_cacheByProfile p) pid +
     of_bool (pid = Profile_ID (Item_profile item) \<and> \<not> nodeHasProfileCache p (Node_ID (Cand_node c)) pid)"
  by (auto simp: markWarm_def cacheByProfile_markCache Let_def nodeHasProfileCache_def)

lemma move_counts:
  assumes "plan_move pin p q"
  shows "mget 0 (Plan_warmByProfile p) pid \<le> mget 0 (Plan_warmByProfile q) pid"
    and "mget 0 (Plan_cacheByProfile p) pid \<le> mget 0 (Plan_cacheByProfile q) pid"
proof -
  have "mget 0 (Plan_warmByProfile p) pid \<le> mget 0 (Plan_warmByProfile q) pid \<and>
      mget 0 (Plan_cacheByProfile p) pid \<le> mget 0 (Plan_cacheByProfile q) pid"
    using assms
  proof cases
    case (note_move m pr)
    then show ?thesis using note_move_sel(4,5) [OF note_move] by simp
  qed (auto simp: warmCount_def cacheByProfile_markWarm cacheByProfile_markCache)
  then show "mget 0 (Plan_warmByProfile p) pid \<le> mget 0 (Plan_warmByProfile q) pid"
    and "mget 0 (Plan_cacheByProfile p) pid \<le> mget 0 (Plan_cacheByProfile q) pid"
    by simp_all
qed

lemma moves_counts:
  assumes "plan_moves pin p q"
  shows "warmCount item p \<le> warmCount item q" and "cacheCount item p \<le> cacheCount item q"
  using assms unfolding warmCount_def cacheCount_def
  by (induction rule: rtranclp_induct) (auto intro: order_trans move_counts)

lemma move_counts_ok:
  assumes "plan_move pin p q" and "counts_ok p"
  shows "counts_ok q"
  unfolding counts_ok_def
proof
  fix pid
  have c: "mget 0 (Plan_warmByProfile p) pid \<le> warm_requests pid (Plan_assignments p)"
    "mget 0 (Plan_cacheByProfile p) pid \<le> cache_requests pid (Plan_assignments p)"
    using assms(2) by (auto simp: counts_ok_def)
  show "mget 0 (Plan_warmByProfile q) pid \<le> warm_requests pid (Plan_assignments q) \<and>
      mget 0 (Plan_cacheByProfile q) pid \<le> cache_requests pid (Plan_assignments q)"
    using assms(1)
  proof cases
    case (note_move m pr)
    then show ?thesis using c note_move_sel(3,4,5) [OF note_move] by simp
  next
    case (shortage_move a w k)
    have "mget 0 w pid \<le> warm_requests pid (Plan_assignments p) + of_bool (Asg_ProfileID a = pid \<and> Asg_DesiredWarm a)"
      "mget 0 k pid \<le> cache_requests pid (Plan_assignments p) + of_bool (Asg_ProfileID a = pid)"
      using c shortage_move(5,6) [of pid] by linarith+
    then show ?thesis using shortage_move(1,3) by simp
  qed (use c in \<open>auto simp: warmCount_def cacheByProfile_markWarm cacheByProfile_markCache\<close>)
qed

lemma moves_counts_ok: "plan_moves pin p q \<Longrightarrow> counts_ok p \<Longrightarrow> counts_ok q"
  by (induction rule: rtranclp_induct) (auto intro: move_counts_ok)

lemma fill_warm_reaches:
  assumes "item \<in> set items" and "\<And>item. item \<in> set items \<Longrightarrow> item_ok (Plan_db p) item"
  shows "w item \<le> warmCount item (fold (\<lambda>item. placeWarmUntil item (w item)) items p)"
  using assms
proof (induction items arbitrary: p)
  case (Cons i items)
  define q where "q = placeWarmUntil i (w i) p"
  have "Plan_db q = Plan_db p"
    using Cons.prems(2) plan_moves_db moves_placeWarmUntil [of p i] unfolding q_def by (metis list.set_intros(1))
  then have ok: "\<And>item. item \<in> set items \<Longrightarrow> item_ok (Plan_db q) item"
    using Cons.prems(2) by simp
  have "w i \<le> warmCount i q"
    by (simp add: q_def warm_loop.count_loop)
  then have "w i \<le> warmCount i (fold (\<lambda>item. placeWarmUntil item (w item)) items q)"
    using moves_counts(1) [OF fill_moves(1) [OF ok]] by (meson order_trans)
  then show ?case
    using Cons.IH [OF _ ok] Cons.prems(1) by (auto simp: q_def)
qed simp

lemma fill_cache_reaches:
  assumes "item \<in> set items" and "\<And>item. item \<in> set items \<Longrightarrow> item_ok (Plan_db p) item"
  shows "k item \<le> cacheCount item (fold (\<lambda>item. placeCacheUntil item (k item)) items p)"
  using assms
proof (induction items arbitrary: p)
  case (Cons i items)
  define q where "q = placeCacheUntil i (k i) p"
  have "Plan_db q = Plan_db p"
    using Cons.prems(2) plan_moves_db moves_placeCacheUntil [of p i] unfolding q_def by (metis list.set_intros(1))
  then have ok: "\<And>item. item \<in> set items \<Longrightarrow> item_ok (Plan_db q) item"
    using Cons.prems(2) by simp
  have "k i \<le> cacheCount i q"
    by (simp add: q_def cache_loop.count_loop)
  then have "k i \<le> cacheCount i (fold (\<lambda>item. placeCacheUntil item (k item)) items q)"
    using moves_counts(2) [OF fill_moves(2) [OF ok]] by (meson order_trans)
  then show ?case
    using Cons.IH [OF _ ok] Cons.prems(1) by (auto simp: q_def)
qed simp

text \<open>One filling pass over the items: it moves, keeps the database and reaches every target.\<close>

lemma fill_warm_pass:
  assumes "set items = set (plan_items db now cooldown)" and "Plan_db p = db"
    and "q = fold (\<lambda>item. placeWarmUntil item (w item)) items p"
  shows "plan_moves False p q" "Plan_db q = db" "item \<in> set items \<Longrightarrow> w item \<le> warmCount item q"
proof -
  have ok: "\<And>item. item \<in> set items \<Longrightarrow> item_ok (Plan_db p) item"
    using plan_items_ok assms(1,2) by simp
  show m: "plan_moves False p q"
    unfolding assms(3) by (rule fill_moves(1) [OF ok])
  show "Plan_db q = db"
    using plan_moves_db [OF m] assms(2) by simp
  show "item \<in> set items \<Longrightarrow> w item \<le> warmCount item q"
    unfolding assms(3) by (rule fill_warm_reaches [OF _ ok])
qed

lemma fill_cache_pass:
  assumes "set items = set (plan_items db now cooldown)" and "Plan_db p = db"
    and "q = fold (\<lambda>item. placeCacheUntil item (k item)) items p"
  shows "plan_moves False p q" "Plan_db q = db" "item \<in> set items \<Longrightarrow> k item \<le> cacheCount item q"
proof -
  have ok: "\<And>item. item \<in> set items \<Longrightarrow> item_ok (Plan_db p) item"
    using plan_items_ok assms(1,2) by simp
  show m: "plan_moves False p q"
    unfolding assms(3) by (rule fill_moves(2) [OF ok])
  show "Plan_db q = db"
    using plan_moves_db [OF m] assms(2) by simp
  show "item \<in> set items \<Longrightarrow> k item \<le> cacheCount item q"
    unfolding assms(3) by (rule fill_cache_reaches [OF _ ok])
qed

lemma planPlaced_counts:
  assumes "planPlaced db now explain cooldown = (items, p)" and "item \<in> set (plan_items db now cooldown)"
  shows "Cap_MinWarm (Item_capacity item) \<le> warmCount item p" "Cap_Warm (Item_capacity item) \<le> warmCount item p"
    "Cap_MinCached (Item_capacity item) \<le> cacheCount item p" "Cap_Cached (Item_capacity item) \<le> cacheCount item p"
proof -
  define items1 where "items1 = sortPolicyItems False (plan_items db now cooldown)"
  define p2 where "p2 = preserveRuntimeCopies (plan_items db now cooldown) (plan_pinned db now explain cooldown)"
  define p3 where "p3 = fold (\<lambda>item. placeWarmUntil item (Cap_MinWarm (Item_capacity item))) items1 p2"
  define p4 where "p4 = fold (\<lambda>item. placeCacheUntil item (Cap_MinCached (Item_capacity item))) items1 p3"
  define p5 where "p5 = fold (\<lambda>item. placeWarmUntil item (Cap_Warm (Item_capacity item))) items p4"
  have s1: "set items1 = set (plan_items db now cooldown)"
    by (simp add: items1_def)
  have p4': "plan_cached_min db now explain cooldown = p4"
    by (simp add: plan_cached_min_def p4_def p3_def p2_def items1_def Let_def)
  have p: "p = fold (\<lambda>item. placeCacheUntil item (Cap_Cached (Item_capacity item))) items p5"
    and s: "set items = set (plan_items db now cooldown)"
    using assms(1) by (auto simp: planPlaced_eq p4' p5_def Let_def)
  have d2: "Plan_db p2 = db"
    using plan_moves_db [OF moves_preserveRuntimeCopies, of "plan_items db now cooldown" "plan_pinned db now explain cooldown"]
      plan_pinned_moves(2) plan_items_ok unfolding p2_def by simp
  note f3 = fill_warm_pass [OF s1 d2 p3_def] and f4 = fill_cache_pass [OF s1 fill_warm_pass(2) [OF s1 d2 p3_def] p4_def]
  note f5 = fill_warm_pass [OF s f4(2) p5_def]
  note f6 = fill_cache_pass [OF s f5(2) p]
  have m5: "plan_moves False p4 p" and m4: "plan_moves False p3 p"
    using f4(1) f5(1) f6(1) by (meson rtranclp_trans)+
  show "Cap_MinWarm (Item_capacity item) \<le> warmCount item p"
    using f3(3) [of item] s1 assms(2) order_trans [OF _ moves_counts(1) [OF m4]] by simp
  show "Cap_Warm (Item_capacity item) \<le> warmCount item p"
    using f5(3) [of item] s assms(2) order_trans [OF _ moves_counts(1) [OF f6(1)]] by simp
  show "Cap_MinCached (Item_capacity item) \<le> cacheCount item p"
    using f4(3) [of item] s1 assms(2) order_trans [OF _ moves_counts(2) [OF m5]] by simp
  show "Cap_Cached (Item_capacity item) \<le> cacheCount item p"
    using f6(3) [of item] s assms(2) by simp
qed

subsection \<open>Draining\<close>

definition undrained :: "PlacementAssignment \<Rightarrow> PlacementAssignment" where
  "undrained a = a\<lparr>Asg_Draining := False\<rparr>"

lemma undrained_sel [simp]:
  "Asg_ProfileID (undrained a) = Asg_ProfileID a" "Asg_SlotID (undrained a) = Asg_SlotID a"
  "Asg_NodeID (undrained a) = Asg_NodeID a" "Asg_DesiredWarm (undrained a) = Asg_DesiredWarm a"
  "Asg_DesiredCached (undrained a) = Asg_DesiredCached a" "Asg_MismatchReason (undrained a) = Asg_MismatchReason a"
  "healthy (undrained a) = healthy a"
  by (simp_all add: undrained_def healthy_def)

lemma undrained_id: "\<not> Asg_Draining a \<Longrightarrow> undrained a = a"
  by (cases a) (simp add: undrained_def)

lemma undrained_markDraining [simp]:
  "map undrained (markDraining_loop protect targets counts as) = map undrained as"
  by (induction protect targets counts as rule: markDraining_loop.induct) (auto simp: undrained_def)

lemma move_undrained:
  assumes "plan_move pin p q" and "\<forall>a \<in> set (Plan_assignments p). \<not> Asg_Draining a"
  shows "\<forall>a \<in> set (Plan_assignments q). \<not> Asg_Draining a"
  using assms(1)
proof cases
  case (note_move m pr)
  then show ?thesis using assms(2) note_move_sel(3) [OF note_move] by simp
qed (use assms(2) in auto)

lemma moves_undrained:
  "plan_moves pin p q \<Longrightarrow> \<forall>a \<in> set (Plan_assignments p). \<not> Asg_Draining a \<Longrightarrow>
   \<forall>a \<in> set (Plan_assignments q). \<not> Asg_Draining a"
  by (induction rule: rtranclp_induct) (auto dest: move_undrained)

definition healthy_count :: "string \<Rightarrow> (PlacementAssignment \<Rightarrow> bool) \<Rightarrow> PlacementAssignment list \<Rightarrow> int" where
  "healthy_count pid P as = int (length (filter (\<lambda>a. healthy a \<and> Asg_ProfileID a = pid \<and> P a) as))"

lemma healthy_count_nonneg [simp]: "0 \<le> healthy_count pid P as"
  by (simp add: healthy_count_def)

lemma desiredWarmCounts_eq: "mget 0 (desiredWarmCounts as) pid = healthy_count pid (\<lambda>_. True) as"
proof -
  have "mget 0 (fold (\<lambda>a out. if Asg_DesiredWarm a \<and> Asg_MismatchReason a = []
      then mput (Asg_ProfileID a) (mget 0 out (Asg_ProfileID a) + 1) out else out) as out) pid =
    mget 0 out pid + healthy_count pid (\<lambda>_. True) as" for out
    by (induction as arbitrary: out) (auto simp: healthy_count_def healthy_def)
  from this [of "[]"] show ?thesis
    by (simp add: desiredWarmCounts_def)
qed

lemma markDraining_loop_count:
  assumes "\<forall>a \<in> set as. \<not> Asg_Draining a"
  shows "healthy_count pid Asg_Draining (markDraining_loop protect targets counts as) =
    min (healthy_count pid (\<lambda>a. mget False protect (Asg_ID a)) as)
      (max 0 (mget 0 counts pid - mget 0 targets pid))"
  using assms
proof (induction protect targets counts as rule: markDraining_loop.induct)
  case (2 protect targets counts a as)
  show ?case
  proof (cases "mget False protect (Asg_ID a) \<and> healthy a \<and> mget 0 targets (Asg_ProfileID a) < mget 0 counts (Asg_ProfileID a)")
    case True
    with 2 show ?thesis
      by (cases "Asg_ProfileID a = pid") (auto simp: healthy_count_def healthy_def)
  next
    case False
    then have step: "markDraining_loop protect targets counts (a # as) = a # markDraining_loop protect targets counts as"
      by (auto simp: healthy_def not_less)
    have "healthy_count pid Asg_Draining (markDraining_loop protect targets counts as) =
        min (healthy_count pid (\<lambda>a. mget False protect (Asg_ID a)) as) (max 0 (mget 0 counts pid - mget 0 targets pid))"
      using 2 False by (auto simp: healthy_def not_less)
    moreover have "0 \<le> healthy_count pid (\<lambda>a. mget False protect (Asg_ID a)) as" by simp
    ultimately show ?thesis
      using False 2(4) by (auto simp: step healthy_count_def healthy_def)
  qed
qed (simp add: healthy_count_def)

lemma mset_sortAssignments [simp]: "mset (sortAssignments as) = mset as"
  by (simp add: sortAssignments_def)

lemma healthy_count_mset: "mset as = mset bs \<Longrightarrow> healthy_count pid P as = healthy_count pid P bs"
  by (simp add: healthy_count_def length_filter_mset)

lemma planRun_assignments:
  assumes "planPlaced db now explain cooldown = (items, p)"
  shows "planPlacementWithCooldown db now explain cooldown =
    sortAssignments (markDraining_loop (Plan_protected p) (warmTargetsByProfile items)
      (desiredWarmCounts (Plan_assignments p)) (Plan_assignments p))"
  using assms by (simp add: planPlacementWithCooldown_def planRun_def markDrainingAssignments_def Let_def)

lemma plan_undrained:
  assumes "planPlaced db now explain cooldown = (items, p)"
  shows "mset (map undrained (planPlacementWithCooldown db now explain cooldown)) = mset (Plan_assignments p)"
    and "\<forall>a \<in> set (Plan_assignments p). \<not> Asg_Draining a"
proof -
  have "\<forall>a \<in> set (Plan_assignments (newPlacementPlanner db now explain cooldown)). \<not> Asg_Draining a"
    by (simp add: newPlacementPlanner_def)
  then show nd: "\<forall>a \<in> set (Plan_assignments p). \<not> Asg_Draining a"
    using moves_undrained plan_pinned_moves(1) planPlaced_moves(1) [OF assms] by meson
  then have "map undrained (Plan_assignments p) = Plan_assignments p"
    by (intro map_idI) (simp add: undrained_id)
  then have "map undrained (markDraining_loop (Plan_protected p) (warmTargetsByProfile items)
      (desiredWarmCounts (Plan_assignments p)) (Plan_assignments p)) = Plan_assignments p"
    by simp
  then show "mset (map undrained (planPlacementWithCooldown db now explain cooldown)) = mset (Plan_assignments p)"
    unfolding planRun_assignments [OF assms] by (metis mset_map mset_sortAssignments)
qed

text \<open>Counting assignments of the plan by what draining does not touch.\<close>

lemma plan_filter_count:
  assumes "planPlaced db now explain cooldown = (items, p)" and "\<And>a. P (undrained a) = P a"
  shows "length (filter P (planPlacementWithCooldown db now explain cooldown)) = length (filter P (Plan_assignments p))"
proof -
  have "length (filter P (map undrained xs)) = length (filter P xs)" for xs
    by (induction xs) (simp_all add: assms(2))
  then have "length (filter P (planPlacementWithCooldown db now explain cooldown)) =
      size (filter_mset P (mset (map undrained (planPlacementWithCooldown db now explain cooldown))))"
    by (metis length_filter_mset)
  also have "\<dots> = length (filter P (Plan_assignments p))"
    unfolding plan_undrained(1) [OF assms(1)] by (simp add: length_filter_mset)
  finally show ?thesis .
qed

subsection \<open>Slots\<close>

definition slot_load :: "string \<Rightarrow> PlacementAssignment list \<Rightarrow> nat" where
  "slot_load sid as = length (filter (\<lambda>a. healthy a \<and> Asg_SlotID a = sid) as)"

lemma slot_load_snoc [simp]:
  "slot_load sid (as @ [a]) = slot_load sid as + of_bool (healthy a \<and> Asg_SlotID a = sid)"
  by (simp add: slot_load_def)

lemma slot_load_placeHardPin:
  assumes "keyed Slot_ID (Slots (Plan_db p))"
  shows "slot_load sid (Plan_assignments (placeHardPin item pin p)) \<le>
    slot_load sid (Plan_assignments p) + of_bool (pin = sid)"
proof (cases "map_of (Slots (Plan_db p)) pin")
  case None
  then show ?thesis by (simp add: placeHardPin_def nextMissing_def healthy_def Let_def)
next
  case (Some slot)
  then have "Slot_ID slot = pin"
    by (rule keyed_lookup [OF assms])
  then have "\<exists>a. Plan_assignments (placeHardPin item pin p) = Plan_assignments p @ [a] \<and> Asg_SlotID a = pin"
    using Some by (simp add: placeHardPin_def Let_def case_prod_beta)
  then show ?thesis by auto
qed

lemma count_list_append [simp]: "count_list (xs @ ys) x = count_list xs x + count_list ys x"
  by (induction xs) simp_all

lemma slot_load_pins:
  assumes "keyed Slot_ID (Slots (Plan_db p))" and "item_ok (Plan_db p) item"
  shows "slot_load sid (Plan_assignments (fold (placeHardPin item) pins p)) \<le>
    slot_load sid (Plan_assignments p) + count_list pins sid"
  using assms
proof (induction pins arbitrary: p)
  case (Cons pin pins)
  have "Plan_db (placeHardPin item pin p) = Plan_db p"
    using plan_moves_db [OF moves_placeHardPin [OF Cons.prems(2)]] by simp
  then show ?case
    using Cons.IH [of "placeHardPin item pin p"] Cons.prems slot_load_placeHardPin [OF Cons.prems(1), of sid item pin]
    by (auto split: if_splits)
qed simp

lemma slot_load_placeHardPins:
  assumes "keyed Slot_ID (Slots (Plan_db p))" and "\<And>item. item \<in> set items \<Longrightarrow> item_ok (Plan_db p) item"
  shows "slot_load sid (Plan_assignments (placeHardPins items p)) \<le>
    slot_load sid (Plan_assignments p) + count_list (concat (map (\<lambda>item. Policy_HardPinnedSlots (Item_policy item)) items)) sid"
  using assms unfolding placeHardPins_def
proof (induction items arbitrary: p)
  case (Cons item items)
  let ?q = "fold (placeHardPin item) (Policy_HardPinnedSlots (Item_policy item)) p"
  have "plan_moves True p ?q"
    using Cons.prems(2) by (intro moves_fold moves_placeHardPin) simp
  then have "Plan_db ?q = Plan_db p"
    using plan_moves_db by blast
  then have "slot_load sid (Plan_assignments (fold (\<lambda>item. fold (placeHardPin item)
      (Policy_HardPinnedSlots (Item_policy item))) items ?q)) \<le> slot_load sid (Plan_assignments ?q) +
      count_list (concat (map (\<lambda>item. Policy_HardPinnedSlots (Item_policy item)) items)) sid"
    using Cons.prems by (intro Cons.IH) simp_all
  moreover have "slot_load sid (Plan_assignments ?q) \<le>
      slot_load sid (Plan_assignments p) + count_list (Policy_HardPinnedSlots (Item_policy item)) sid"
    using Cons.prems by (intro slot_load_pins) simp_all
  ultimately show ?case by simp
qed simp

lemma slot_load_ledger: "ledger ws cs p \<Longrightarrow> slot_load sid (Plan_assignments p) = length (filter (\<lambda>x. placement_slot x = sid) ws)"
proof -
  assume l: "ledger ws cs p"
  have "slot_load sid (Plan_assignments p) = length (filter (\<lambda>a. Asg_SlotID a = sid) (filter healthy (Plan_assignments p)))"
    unfolding slot_load_def by (simp add: conj_commute)
  also have "\<dots> = length (filter (\<lambda>a. Asg_SlotID a = sid) (map (\<lambda>(item, c). warmAssignment item c (Plan_now p)) ws))"
    using l by (simp add: ledger_def)
  also have "\<dots> = length (filter (\<lambda>x. placement_slot x = sid) ws)"
    by (induction ws) auto
  finally show ?thesis .
qed

lemma move_slot_load:
  assumes "plan_move False p q" and "ledger ws cs p"
  shows "slot_load sid (Plan_assignments q) \<le> max 1 (slot_load sid (Plan_assignments p))"
  using assms(1)
proof cases
  case (note_move m pr)
  then show ?thesis using note_move_sel(3) [OF note_move] by simp
next
  case (warm_move item c)
  then have "Slot_ID (Cand_slot c) \<notin> placement_slot ` set ws"
    using assms(2) by (auto simp: ledger_def)
  then have "filter (\<lambda>x. placement_slot x = Slot_ID (Cand_slot c)) ws = []"
    by (force simp: filter_empty_conv)
  then have "slot_load (Slot_ID (Cand_slot c)) (Plan_assignments p) = 0"
    using slot_load_ledger [OF assms(2)] by simp
  then show ?thesis
    using warm_move by auto
qed (auto simp: healthy_def)

lemma moves_slot_load:
  assumes "plan_moves False p q" and "sane_db (Plan_db p)" and "\<exists>ws cs. ledger ws cs p"
  shows "slot_load sid (Plan_assignments q) \<le> max 1 (slot_load sid (Plan_assignments p))"
  using assms
proof (induction rule: rtranclp_induct)
  case (step q r)
  obtain ws cs where "ledger ws cs q"
    using ledger_moves [OF step.hyps(1) step.prems] by blast
  from move_slot_load [OF step.hyps(2) this, of sid] step.IH [OF step.prems] show ?case
    by simp
qed simp

lemma ledger_new: "\<exists>ws cs. ledger ws cs (newPlacementPlanner db now explain cooldown)"
proof -
  have "wrap64 0 = 0" by (simp add: wrap64_def)
  then have "ledger [] [] (newPlacementPlanner db now explain cooldown)"
    by (simp add: ledger_def newPlacementPlanner_def nodeHasProfileCache_def within_budgets_def)
  then show ?thesis by blast
qed

lemma planPlaced_ledger:
  assumes "sane_db db" and "planPlaced db now explain cooldown = (items, p)"
  shows "\<exists>ws cs. ledger ws cs p"
proof -
  have "\<exists>ws cs. ledger ws cs (plan_pinned db now explain cooldown)"
    using ledger_moves [OF plan_pinned_moves(1) _ ledger_new] assms(1) by simp
  then show ?thesis
    using ledger_moves [OF planPlaced_moves(1) [OF assms(2)]] plan_pinned_moves(2) assms(1) by simp
qed

end
