(* ===== verification/Plan_Theorems.thy ===== *)
theory Plan_Theorems
  imports Plan_Properties
begin

section \<open>The theorems about placement\<close>

text \<open>
  What a caller of \<^verbatim>\<open>PlanPlacement\<close> can rely on, stated over the returned assignments, and
  the effect of the drain state on the slots.
\<close>

definition sample_plan_db :: Database where
  "sample_plan_db = sample_db\<lparr>Policies := [(''pol1'', sample_policy)]\<rparr>"

lemma plan_items_policy:
  assumes "policy \<in> set (mvals (Policies db))" and "map_of (Profiles db) (Policy_ProfileID policy) = Some profile"
  shows "\<exists>item \<in> set (plan_items db now cooldown). Item_profile item = profile \<and> Item_policy item = policy \<and>
    Item_capacity item = effectivePolicyCapacity db policy now cooldown"
proof -
  let ?p = "newPlacementPlanner db now None cooldown"
  obtain item where i: "policyItem ?p policy = Some item" "Item_profile item = profile"
    "Item_policy item = policy" "Item_capacity item = effectivePolicyCapacity db policy now cooldown"
    using assms(2) by (simp add: policyItem_def Let_def)
  have "policy \<in> set (SortedPolicies db)"
    using assms(1) by (simp add: SortedPolicies_def sortPolicies_def)
  then have "item \<in> set (plan_items db now cooldown)"
    using i(1) by (force simp: plan_items_def policyItems_def map_filter_def Let_def simp del: fst_policyItems)
  with i show ?thesis by blast
qed

text \<open>C9: the plan asks for enough copies: for every policy whose profile exists, the returned
  plan holds at least as many warm requests for the profile as the larger of its minimum and
  its target, and at least as many cache requests. A copy for which there is no room is still
  requested, as an assignment that names the shortage.\<close>

theorem plan_meets_targets:
  fixes now cooldown explain
  assumes "policy \<in> set (mvals (Policies db))" and "map_of (Profiles db) (Policy_ProfileID policy) = Some profile"
  defines "cap \<equiv> effectivePolicyCapacity db policy now cooldown"
    and "plan \<equiv> planPlacementWithCooldown db now explain cooldown"
  shows "max (Cap_MinWarm cap) (Cap_Warm cap) \<le> warm_requests (Profile_ID profile) plan \<and>
    max (Cap_MinCached cap) (Cap_Cached cap) \<le> cache_requests (Profile_ID profile) plan"
proof -
  obtain items p where pl: "planPlaced db now explain cooldown = (items, p)"
    by (cases "planPlaced db now explain cooldown")
  obtain item where i: "item \<in> set (plan_items db now cooldown)" "Item_profile item = profile"
    "Item_capacity item = cap"
    using plan_items_policy [OF assms(1,2)] by (auto simp: cap_def)
  have "counts_ok (newPlacementPlanner db now explain cooldown)"
    by (simp add: counts_ok_def newPlacementPlanner_def warm_requests_def cache_requests_def)
  then have "counts_ok p"
    using moves_counts_ok plan_pinned_moves(1) planPlaced_moves(1) [OF pl] by meson
  then have "warmCount item p \<le> warm_requests (Profile_ID profile) (Plan_assignments p)"
    "cacheCount item p \<le> cache_requests (Profile_ID profile) (Plan_assignments p)"
    using i(2) by (auto simp: counts_ok_def warmCount_def cacheCount_def)
  moreover have "warm_requests pid plan = warm_requests pid (Plan_assignments p)"
    "cache_requests pid plan = cache_requests pid (Plan_assignments p)" for pid
    unfolding plan_def warm_requests_def cache_requests_def by (simp_all add: plan_filter_count [OF pl])
  ultimately show ?thesis
    using planPlaced_counts [OF pl i(1)] i(3) by simp
qed

theorem plan_meets_targets_witness:
  "1 \<le> warm_requests ''p1'' (planPlacementWithCooldown sample_plan_db 5 None 0)"
proof -
  have "sample_policy \<in> set (mvals (Policies sample_plan_db))"
    "map_of (Profiles sample_plan_db) (Policy_ProfileID sample_policy) = Some sample_profile"
    by (simp_all add: sample_plan_db_def sample_db_def sample_policy_def mvals_def)
  from plan_meets_targets [OF this, of 5 0 None] show ?thesis
    by (simp add: effectivePolicyCapacity_def sample_policy_def sample_profile_def Let_def)
qed



lemma plan_slots_bound:
  assumes "sane_db db"
  shows "slot_load sid (planPlacementWithCooldown db now explain cooldown) \<le>
    max 1 (count_list (concat (map Policy_HardPinnedSlots (SortedPolicies db))) sid)"
proof -
  obtain items p where pl: "planPlaced db now explain cooldown = (items, p)"
    by (cases "planPlaced db now explain cooldown")
  let ?new = "newPlacementPlanner db now explain cooldown"
  have l: "\<exists>ws cs. ledger ws cs (plan_pinned db now explain cooldown)"
    using ledger_moves [OF plan_pinned_moves(1) _ ledger_new] assms by simp
  have d: "Plan_db (snd (policyItems ?new)) = db"
    using plan_moves_db [OF moves_policyItems [of False ?new]] by simp
  have items: "count_list (concat (map (\<lambda>item. Policy_HardPinnedSlots (Item_policy item))
      (List.map_filter (policyItem ?new) ps))) sid \<le> count_list (concat (map Policy_HardPinnedSlots ps)) sid" for ps
    by (induction ps) (auto simp: policyItem_def Let_def split: option.splits)
  have "Plan_assignments (snd (policyItems ?new)) = []"
  proof -
    have "Plan_assignments (fold (\<lambda>item. explainWith (addPolicyItem item)) xs q) = Plan_assignments q" for xs q
      by (induction xs arbitrary: q) simp_all
    then show ?thesis
      by (simp add: policyItems_def Let_def) (simp add: newPlacementPlanner_def)
  qed
  then have "slot_load sid (Plan_assignments (plan_pinned db now explain cooldown)) \<le>
      count_list (concat (map (\<lambda>item. Policy_HardPinnedSlots (Item_policy item)) (plan_items db now cooldown))) sid"
    using slot_load_placeHardPins [of "snd (policyItems ?new)" "plan_items db now cooldown" sid] plan_items_ok assms d
    by (simp add: plan_pinned_def slot_load_def sane_db_def)
  also have "\<dots> \<le> count_list (concat (map Policy_HardPinnedSlots (SortedPolicies db))) sid"
    using items [of "SortedPolicies db"]
    by (simp add: fst_policyItems [of db now explain cooldown, symmetric] policyItems_def Let_def del: fst_policyItems)
  finally have "max 1 (slot_load sid (Plan_assignments (plan_pinned db now explain cooldown))) \<le>
      max 1 (count_list (concat (map Policy_HardPinnedSlots (SortedPolicies db))) sid)"
    by simp
  moreover have "slot_load sid (Plan_assignments p) \<le>
      max 1 (slot_load sid (Plan_assignments (plan_pinned db now explain cooldown)))"
    using moves_slot_load [OF planPlaced_moves(1) [OF pl] _ l] plan_pinned_moves(2) assms by simp
  moreover have "slot_load sid (planPlacementWithCooldown db now explain cooldown) = slot_load sid (Plan_assignments p)"
    unfolding slot_load_def by (rule plan_filter_count [OF pl]) simp
  ultimately show ?thesis by simp
qed

text \<open>C10: a slot is not double-booked: the number of healthy warm assignments on a slot is at
  most one, or at most the number of times that the policies pin the slot. (Automatic
  placement checks the slot, a hard pin does not.)\<close>

theorem plan_slots_not_double_booked:
  assumes "sane_db db"
  shows "slot_load sid (planPlacementWithCooldown db now explain cooldown) \<le>
    max 1 (count_list (concat (map Policy_HardPinnedSlots (SortedPolicies db))) sid)"
  by (rule plan_slots_bound [OF assms])

theorem plan_slots_not_double_booked_witness:
  "sane_db sample_plan_db \<and> slot_load ''n1/slot0'' (planPlacementWithCooldown sample_plan_db 5 None 0) \<le> 1"
proof -
  have s: "sane_db sample_plan_db" by code_simp
  have "concat (map Policy_HardPinnedSlots (SortedPolicies sample_plan_db)) = []" by code_simp
  with s plan_slots_not_double_booked [OF s, of "''n1/slot0''" 5 None 0] show ?thesis by simp
qed

text \<open>C24: surplus runtime copies drain, and only as many as are surplus: of the healthy warm
  assignments of a profile, those marked draining number exactly the excess over the
  profile's warm target, as far as copies preserved for running work can cover it; so at
  least the target's worth of healthy copies stay undrained when there are that many.\<close>

theorem plan_draining_exact:
  fixes pid
  assumes "planPlaced db now explain cooldown = (items, p)"
  defines "plan \<equiv> planPlacementWithCooldown db now explain cooldown"
    and "target \<equiv> mget 0 (warmTargetsByProfile items) pid"
  shows "healthy_count pid Asg_Draining plan =
      min (healthy_count pid (\<lambda>a. mget False (Plan_protected p) (Asg_ID a)) (Plan_assignments p))
        (max 0 (healthy_count pid (\<lambda>_. True) plan - target)) \<and>
    min (healthy_count pid (\<lambda>_. True) plan) target \<le> healthy_count pid (\<lambda>a. \<not> Asg_Draining a) plan"
proof -
  have all: "healthy_count pid (\<lambda>_. True) plan = healthy_count pid (\<lambda>_. True) (Plan_assignments p)"
    unfolding plan_def healthy_count_def by (simp add: plan_filter_count [OF assms(1)])
  have "healthy_count pid Asg_Draining plan = healthy_count pid Asg_Draining
      (markDraining_loop (Plan_protected p) (warmTargetsByProfile items)
        (desiredWarmCounts (Plan_assignments p)) (Plan_assignments p))"
    unfolding plan_def planRun_assignments [OF assms(1)] by (rule healthy_count_mset) simp
  then have d: "healthy_count pid Asg_Draining plan =
      min (healthy_count pid (\<lambda>a. mget False (Plan_protected p) (Asg_ID a)) (Plan_assignments p))
        (max 0 (healthy_count pid (\<lambda>_. True) plan - target))"
    using markDraining_loop_count [OF plan_undrained(2) [OF assms(1)]]
    by (simp add: desiredWarmCounts_eq all target_def)
  have "healthy_count pid (\<lambda>_. True) xs = healthy_count pid Asg_Draining xs + healthy_count pid (\<lambda>a. \<not> Asg_Draining a) xs" for xs
    by (induction xs) (auto simp: healthy_count_def)
  from d this [of plan] show ?thesis by auto
qed

theorem plan_draining_exact_witness:
  "let (items, p) = planPlaced sample_plan_db 5 None 0;
       plan = planPlacementWithCooldown sample_plan_db 5 None 0
   in min (healthy_count ''p1'' (\<lambda>_. True) plan) (mget 0 (warmTargetsByProfile items) ''p1'') \<le>
        healthy_count ''p1'' (\<lambda>a. \<not> Asg_Draining a) plan"
  using plan_draining_exact [of sample_plan_db 5 None 0 "fst (planPlaced sample_plan_db 5 None 0)"
      "snd (planPlaced sample_plan_db 5 None 0)" "''p1''"]
  by (simp add: case_prod_beta)

text \<open>Applying the drain state changes only idle ready slots of profiles that a policy covers:
  such a slot accepts new tasks exactly when a healthy, non-draining warm assignment wants
  it; applying the state twice is applying it once.\<close>

theorem drain_state_exact:
  assumes "map_of (Slots db) sid = Some slot"
  shows "\<exists>slot'. map_of (Slots (applyPlacementDrainState db)) sid = Some slot' \<and>
      (if slotDrainable slot \<and> profileHasPolicy db (Slot_ProfileID slot)
       then Slot_AcceptsNew slot' \<longleftrightarrow>
         (\<exists>a \<in> set (mvals (Assignments db)). warmIntent a \<and> Asg_SlotID a = sid) \<and>
         \<not> (\<exists>a \<in> set (mvals (Assignments db)). warmIntent a \<and> Asg_SlotID a = sid \<and> Asg_Draining a)
       else slot' = slot) \<and>
    applyPlacementDrainState (applyPlacementDrainState db) = applyPlacementDrainState db"
proof -
  have sel: "warmSlotIntent (applyPlacementDrainState db) = warmSlotIntent db"
    "profileHasPolicy (applyPlacementDrainState db) = profileHasPolicy db"
    by (simp_all add: applyPlacementDrainState_def warmSlotIntent_def profileHasPolicy_def fun_eq_iff)
  have keep: "slotDrainable (drainSlot db k s) = slotDrainable s" "Slot_ProfileID (drainSlot db k s) = Slot_ProfileID s" for k s
    by (simp_all add: drainSlot_def slotDrainable_def Let_def case_prod_beta)
  have idem: "drainSlot db k (drainSlot db k s) = drainSlot db k s" for k s
    by (simp add: drainSlot_def slotDrainable_def Let_def case_prod_beta placementDrainingReason_def)
  have same: "drainSlot (applyPlacementDrainState db) = drainSlot db"
    by (intro ext) (simp only: drainSlot_def sel)
  have "applyPlacementDrainState (applyPlacementDrainState db) = applyPlacementDrainState db"
    unfolding applyPlacementDrainState_def [of "applyPlacementDrainState db"] same
    by (simp add: applyPlacementDrainState_def comp_def idem)
  moreover have "Slot_AcceptsNew (drainSlot db sid slot) \<longleftrightarrow>
       (\<exists>a \<in> set (mvals (Assignments db)). warmIntent a \<and> Asg_SlotID a = sid) \<and>
       \<not> (\<exists>a \<in> set (mvals (Assignments db)). warmIntent a \<and> Asg_SlotID a = sid \<and> Asg_Draining a)"
    if "slotDrainable slot \<and> profileHasPolicy db (Slot_ProfileID slot)"
    using that by (auto simp: drainSlot_def warmSlotIntent_def Let_def case_prod_beta image_iff)
  moreover have "drainSlot db sid slot = slot"
    if "\<not> (slotDrainable slot \<and> profileHasPolicy db (Slot_ProfileID slot))"
    using that by (auto simp: drainSlot_def Let_def case_prod_beta)
  ultimately show ?thesis
    using assms by (simp add: applyPlacementDrainState_def)
qed

theorem drain_state_exact_witness:
  "\<exists>slot'. map_of (Slots (applyPlacementDrainState sample_plan_db)) ''n1/slot0'' = Some slot' \<and>
     \<not> Slot_AcceptsNew slot'"
proof -
  have m: "map_of (Slots sample_plan_db) ''n1/slot0'' = Some sample_slot"
    by (simp add: sample_plan_db_def sample_db_def)
  have "slotDrainable sample_slot" "profileHasPolicy sample_plan_db (Slot_ProfileID sample_slot)"
    "mvals (Assignments sample_plan_db) = []"
    by code_simp+
  with drain_state_exact [OF m] show ?thesis by auto
qed

end
