(* ===== verification/Plan_Explain.thy ===== *)
theory Plan_Explain
  imports Plan_Theorems
begin

section \<open>Explaining a plan\<close>

text \<open>
  The explain endpoint runs the planner with an explainer. Its candidate loops are separate
  code, over all slots instead of the fitting ones and with one more sort key, the variant
  identifier. This theory shows that the explained run makes the same plan when the variants
  of each profile are listed in identifier order, and that it need not otherwise.
\<close>

subsection \<open>The two candidate lists\<close>

text \<open>A further sort key changes nothing when equal elements already come in its order.\<close>

lemma insert_by_refine:
  assumes "\<forall>y \<in> set ys. lt' y x = lt y x"
  shows "insert_by lt' x ys = insert_by lt x ys"
  using assms by (induction ys) auto

lemma sort_by_refine:
  assumes "sorted_wrt (\<lambda>x y. lt' y x = lt y x) xs"
  shows "sort_by lt' xs = sort_by lt xs"
  using assms
proof (induction xs)
  case (Cons x xs)
  then show ?case
    by (simp add: insert_by_refine)
qed simp

definition explain_less :: "string \<Rightarrow> PlacementPolicy \<Rightarrow> placementCandidate \<Rightarrow> placementCandidate \<Rightarrow> bool" where
  "explain_less profileID policy a b =
     (let scoreI = placementScore profileID policy a; scoreJ = placementScore profileID policy b
      in if scoreI \<noteq> scoreJ then scoreI > scoreJ
         else if Slot_ID (Cand_slot a) \<noteq> Slot_ID (Cand_slot b)
         then Slot_ID (Cand_slot a) < Slot_ID (Cand_slot b)
         else Profile_RuntimeVariantID (Cand_effective a) < Profile_RuntimeVariantID (Cand_effective b))"

definition plan_less :: "string \<Rightarrow> PlacementPolicy \<Rightarrow> placementCandidate \<Rightarrow> placementCandidate \<Rightarrow> bool" where
  "plan_less profileID policy a b =
     (let scoreI = placementScore profileID policy a; scoreJ = placementScore profileID policy b
      in if scoreI = scoreJ then Slot_ID (Cand_slot a) < Slot_ID (Cand_slot b) else scoreI > scoreJ)"

interpretation explain_order: key_order "explain_less profileID policy"
  "\<lambda>c. (- placementScore profileID policy c, Slot_ID (Cand_slot c), Profile_RuntimeVariantID (Cand_effective c))"
  for profileID policy
  by unfold_locales (auto simp: explain_less_def less_prod_def' Let_def)

lemma candidates_by_order:
  "explainPlacementCandidates db profile policy = sort_by (explain_less (Profile_ID profile) policy)
     (concat (map (explainSlotCandidates db profile) (SortedSlots db)))"
  "placementCandidates db profile policy = sort_by (plan_less (Profile_ID profile) policy)
     (concat (map (slotCandidates db profile policy) (SortedSlots db)))"
  by (simp_all only: explainPlacementCandidates_def sortExplainPlacementCandidates_def placementCandidates_def
      explain_less_def [abs_def] plan_less_def [abs_def])

lemma filter_sort_explain:
  "filter P (sort_by (explain_less profileID policy) xs) = sort_by (explain_less profileID policy) (filter P xs)"
  by (simp add: explain_order.sort_by_sort_key filter_sort)

definition variants_ascending :: "WorkloadProfile \<Rightarrow> bool" where
  "variants_ascending profile \<longleftrightarrow> sorted (map Variant_ID (ProfileRuntimeVariants profile))"

definition explain_ok :: "Database \<Rightarrow> bool" where
  "explain_ok db \<longleftrightarrow>
     keyed Slot_ID (Slots db) \<and> keyed Node_ID (Nodes db) \<and> \<not> mhas (Nodes db) [] \<and>
     list_all variants_ascending (mvals (Profiles db))"

lemma filter_explainSlotCandidates:
  assumes "keyed Node_ID (Nodes db)" and "\<not> mhas (Nodes db) []"
  shows "filter (base_ok item) (explainSlotCandidates db (Item_profile item) slot) =
    slotCandidates db (Item_profile item) (Item_policy item) slot"
proof (cases "map_of (Nodes db) (Slot_NodeID slot)")
  case None
  have "\<not> base_ok item c" if "c \<in> set (explainSlotCandidates db (Item_profile item) slot)" for c
    using that None candidateBaseRejectionReasons_Nil [of c item]
    by (auto simp: explainSlotCandidates_def mget_def mhas_def explainFitResult_wf Let_def)
  then have "filter (base_ok item) (explainSlotCandidates db (Item_profile item) slot) = []"
    by (auto simp: filter_empty_conv)
  with None show ?thesis
    by (simp add: slotCandidates_def)
next
  case (Some node)
  have id: "Node_ID node \<noteq> []"
    using Some assms keyed_lookup [OF assms(1) Some] by (auto simp: mhas_def)
  have dis: "Node_Mode node \<noteq> ''disabled''" if "Fit_Fits (fitConcrete e node slot)" for e
    using that by (auto simp: fitConcrete_fits admissible_def)
  have base: "base_ok item \<lparr>Cand_slot = slot, Cand_node = node, Cand_profile = Item_profile item,
        Cand_effective = EffectiveProfileForVariant (Item_profile item) v,
        Cand_fit = fitConcrete (EffectiveProfileForVariant (Item_profile item) v) node slot\<rparr> \<longleftrightarrow>
      nodeUsableForPlacement node (Item_policy item) \<and>
      Fit_Fits (fitConcrete (EffectiveProfileForVariant (Item_profile item) v) node slot)" for v
    using id dis candidateBaseRejectionReasons_Nil [of "\<lparr>Cand_slot = slot, Cand_node = node, Cand_profile = Item_profile item,
        Cand_effective = EffectiveProfileForVariant (Item_profile item) v,
        Cand_fit = fitConcrete (EffectiveProfileForVariant (Item_profile item) v) node slot\<rparr>" item] by auto
  have fm: "filter (base_ok item) (map f vs) = (if u then concat (map (\<lambda>v. if Q v then [f v] else []) vs) else [])"
    if "\<And>v. base_ok item (f v) \<longleftrightarrow> u \<and> Q v" for f u Q and vs :: "RuntimeModelVariant list"
    using that by (induction vs) auto
  show ?thesis
    using Some fm [of "\<lambda>v. \<lparr>Cand_slot = slot, Cand_node = node, Cand_profile = Item_profile item,
        Cand_effective = EffectiveProfileForVariant (Item_profile item) v,
        Cand_fit = fitConcrete (EffectiveProfileForVariant (Item_profile item) v) node slot\<rparr>"
      "nodeUsableForPlacement node (Item_policy item)", OF base]
    by (simp add: explainSlotCandidates_def slotCandidates_def explainFitResult_def mget_def mhas_def Let_def
        cong: if_cong)
qed

lemma slotCandidates_slot: "c \<in> set (slotCandidates db profile policy slot) \<Longrightarrow> Cand_slot c = slot"
  by (auto simp: slotCandidates_def Let_def split: option.splits if_splits)

lemma slotCandidates_ascending:
  assumes "variants_ascending profile"
  shows "sorted_wrt (\<lambda>x y. Profile_RuntimeVariantID (Cand_effective x) \<le> Profile_RuntimeVariantID (Cand_effective y))
    (slotCandidates db profile policy slot)"
proof (cases "map_of (Nodes db) (Slot_NodeID slot)")
  case (Some node)
  have nrm: "Variant_ID (normalizeVariant profile v) = Variant_ID v" if "v \<in> set (ProfileRuntimeVariants profile)" for v
    using ProfileRuntimeVariants_normal [OF that] by simp
  have "sorted_wrt (\<lambda>x y. Profile_RuntimeVariantID (Cand_effective x) \<le> Profile_RuntimeVariantID (Cand_effective y))
      (concat (map (\<lambda>v. if Q v then [\<lparr>Cand_slot = slot, Cand_node = node, Cand_profile = profile,
         Cand_effective = EffectiveProfileForVariant profile v, Cand_fit = g v\<rparr>] else []) vs))"
    if "sorted (map Variant_ID vs)" "set vs \<subseteq> set (ProfileRuntimeVariants profile)" for Q g vs
    using that
  proof (induction vs)
    case (Cons v vs)
    then show ?case
      using nrm by (auto simp del: normalizeVariant_sel split: if_splits)
  qed simp
  then show ?thesis
    using assms Some by (simp add: slotCandidates_def variants_ascending_def Let_def)
qed (simp add: slotCandidates_def)

lemma candidates_refine:
  assumes "variants_ascending profile" and "distinct (map Slot_ID slots)"
  shows "sorted_wrt (\<lambda>x y. explain_less pid policy y x = plan_less pid policy y x)
    (concat (map (slotCandidates db profile policy) slots))"
  using assms(2)
proof (induction slots)
  case (Cons slot slots)
  have "sorted_wrt (\<lambda>x y. explain_less pid policy y x = plan_less pid policy y x) (slotCandidates db profile policy slot)"
    using slotCandidates_ascending [OF assms(1)]
    by (rule sorted_wrt_mono_rel [rotated]) (auto simp: explain_less_def plan_less_def Let_def dest!: slotCandidates_slot)
  moreover have "explain_less pid policy y x = plan_less pid policy y x"
    if "x \<in> set (slotCandidates db profile policy slot)" "s \<in> set slots" "y \<in> set (slotCandidates db profile policy s)" for x y s
  proof -
    have "Slot_ID (Cand_slot y) \<noteq> Slot_ID (Cand_slot x)"
      using Cons.prems that(2) slotCandidates_slot [OF that(1)] slotCandidates_slot [OF that(3)]
      by (auto simp: image_iff)
    then show ?thesis by (simp add: explain_less_def plan_less_def Let_def)
  qed
  ultimately show ?case
    using Cons by (auto simp: sorted_wrt_append)
qed simp

lemma explain_candidates:
  assumes "explain_ok db" and "item_ok db item"
  shows "filter (base_ok item) (explainPlacementCandidates db (Item_profile item) (Item_policy item)) =
    placementCandidates db (Item_profile item) (Item_policy item)"
proof -
  let ?pid = "Profile_ID (Item_profile item)" and ?pol = "Item_policy item"
  have "filter (base_ok item) (concat (map (explainSlotCandidates db (Item_profile item)) (SortedSlots db))) =
      concat (map (slotCandidates db (Item_profile item) ?pol) (SortedSlots db))"
    using assms(1) by (simp add: filter_concat comp_def filter_explainSlotCandidates explain_ok_def)
  moreover have "distinct (map Slot_ID (SortedSlots db))"
  proof -
    have "mset (map Slot_ID (SortedSlots db)) = mset (map Slot_ID (mvals (Slots db)))"
      by (simp add: SortedSlots_def sortSlots_def)
    moreover have "distinct (map Slot_ID (mvals (Slots db)))"
      using assms(1) keyed_distinct [of Slot_ID "Slots db"] by (simp add: explain_ok_def keyed_mvals_key)
    ultimately show ?thesis by (metis mset_eq_imp_distinct_iff)
  qed
  moreover have "variants_ascending (Item_profile item)"
    using assms by (auto simp: explain_ok_def item_ok_def list_all_iff)
  ultimately show ?thesis
    using sort_by_refine [OF candidates_refine, of "Item_profile item" "SortedSlots db" ?pid ?pol db]
    by (simp add: candidates_by_order filter_sort_explain)
qed

subsection \<open>The explained run simulates the plain run\<close>

lemma nextWarmCandidate_bare:
  assumes "explain_ok (Plan_db p)" and "item_ok (Plan_db p) item"
  shows "nextWarmCandidate item (bare p) = (fst (nextWarmCandidate item p), bare p)"
proof (cases "Plan_explain p = None")
  case True
  then show ?thesis by (simp add: nextWarmCandidate_def)
next
  case False
  then show ?thesis
    using explain_candidates [OF assms]
    by (simp add: nextWarmCandidate_def nextWarmCandidateExplain_def nextWarmExplain_loop_fst)
qed

lemma nextCacheCandidate_bare:
  assumes "explain_ok (Plan_db p)" and "item_ok (Plan_db p) item"
  shows "nextCacheCandidate item (bare p) = (fst (nextCacheCandidate item p), bare p)"
proof (cases "Plan_explain p = None")
  case True
  then show ?thesis by (simp add: nextCacheCandidate_def)
next
  case False
  then show ?thesis
    using explain_candidates [OF assms]
    by (simp add: nextCacheCandidate_def nextCacheCandidateExplain_def nextCacheExplain_loop_fst)
qed

lemma bare_addAssignment [simp]: "bare (addAssignment a p) = addAssignment a (bare p)"
  by (rule placementPlanner.equality) (simp_all add: bare_def addAssignment_def)

lemma bare_markCache [simp]: "bare (markCache item c p) = markCache item c (bare p)"
  by (rule placementPlanner.equality) (simp_all add: bare_def markCache_def nodeHasProfileCache_def Let_def)

lemma bare_markWarm [simp]: "bare (markWarm item c p) = markWarm item c (bare p)"
proof -
  have upd: "bare (p\<lparr>Plan_slotUsed := a, Plan_nodeMemoryUsed := b, Plan_nodeWarm := d, Plan_warmByProfile := e\<rparr>) =
      (bare p)\<lparr>Plan_slotUsed := a, Plan_nodeMemoryUsed := b, Plan_nodeWarm := d, Plan_warmByProfile := e\<rparr>" for a b d e
    by (rule placementPlanner.equality) (simp_all add: bare_def)
  show ?thesis
    by (simp only: markWarm_def Let_def bare_markCache upd bare_sel)
qed

lemma explainWith_None [simp]: "Plan_explain p = None \<Longrightarrow> explainWith f p = p"
  by (rule placementPlanner.equality) (simp_all add: explainWith_def)

lemma bare_missing [simp]: "bare (p\<lparr>Plan_missing := m\<rparr>) = (bare p)\<lparr>Plan_missing := m\<rparr>"
  by (rule placementPlanner.equality) (simp_all add: bare_def)

lemma bare_protected [simp]: "bare (p\<lparr>Plan_protected := m\<rparr>) = (bare p)\<lparr>Plan_protected := m\<rparr>"
  by (rule placementPlanner.equality) (simp_all add: bare_def)

lemma bare_addMissing [simp]: "bare (addMissing pid warm p) = addMissing pid warm (bare p)"
  by (rule placementPlanner.equality)
    (simp_all add: bare_def addMissing_def nextMissing_def addAssignment_def explainWith_def Let_def)

lemma bare_placeWarmStep:
  assumes "explain_ok (Plan_db p)" and "item_ok (Plan_db p) item"
  shows "bare (placeWarmStep item p) = placeWarmStep item (bare p)"
proof -
  obtain cand q where n: "nextWarmCandidate item p = (cand, q)"
    by (cases "nextWarmCandidate item p")
  then have b: "bare q = bare p"
    using bare_nextWarmCandidate [of item p] by simp
  then have "Plan_now q = Plan_now p" by (rule bare_eq_sel(2))
  with n b show ?thesis
    by (simp add: placeWarmStep_def nextWarmCandidate_bare [OF assms] split: option.split)
qed

lemma bare_placeCacheStep:
  assumes "explain_ok (Plan_db p)" and "item_ok (Plan_db p) item"
  shows "bare (placeCacheStep item p) = placeCacheStep item (bare p)"
proof -
  obtain cand q where n: "nextCacheCandidate item p = (cand, q)"
    by (cases "nextCacheCandidate item p")
  then have b: "bare q = bare p"
    using bare_nextCacheCandidate [of item p] by simp
  then have "Plan_now q = Plan_now p" by (rule bare_eq_sel(2))
  with n b show ?thesis
    by (simp add: placeCacheStep_def nextCacheCandidate_bare [OF assms] split: option.split)
qed

text \<open>What a simulated operation does: it forgets the explainer and keeps the database.\<close>

definition simulated :: "Database \<Rightarrow> (placementPlanner \<Rightarrow> placementPlanner) \<Rightarrow> bool" where
  "simulated db f \<longleftrightarrow> (\<forall>p. Plan_db p = db \<longrightarrow> bare (f p) = f (bare p) \<and> Plan_db (f p) = db)"

lemma simulated_fold: "(\<And>x. x \<in> set xs \<Longrightarrow> simulated db (f x)) \<Longrightarrow> simulated db (fold f xs)"
proof (induction xs)
  case (Cons x xs)
  then have "simulated db (f x)" "simulated db (fold f xs)" by simp_all
  then show ?case by (simp add: simulated_def)
qed (simp add: simulated_def)

lemma simulated_funpow: "simulated db f \<Longrightarrow> simulated db (f ^^ n)"
  by (induction n) (simp_all add: simulated_def)

lemma simulated_steps:
  assumes "explain_ok db" and "item_ok db item"
  shows "simulated db (placeWarmStep item)" and "simulated db (placeCacheStep item)"
  unfolding simulated_def
  using assms bare_placeWarmStep bare_placeCacheStep plan_moves_db moves_placeWarmStep moves_placeCacheStep by metis+

lemma simulated_loops:
  assumes "explain_ok db" and "item_ok db item"
  shows "simulated db (placeWarmUntil item t)" and "simulated db (placeCacheUntil item t)"
proof -
  have "warmCount item (bare p) = warmCount item p" "cacheCount item (bare p) = cacheCount item p" for p
    by (simp_all add: warmCount_def cacheCount_def)
  then show "simulated db (placeWarmUntil item t)" and "simulated db (placeCacheUntil item t)"
    using simulated_funpow [OF simulated_steps(1) [OF assms]] simulated_funpow [OF simulated_steps(2) [OF assms]]
    by (simp_all add: simulated_def warm_loop.loop_funpow cache_loop.loop_funpow)
qed

lemma nodeBudgetRejectionReasons_bare [simp]:
  "nodeBudgetRejectionReasons (bare p) item c warm = nodeBudgetRejectionReasons p item c warm"
  by (simp add: nodeBudgetRejectionReasons_def)

lemma hardPinRejectionReasons_bare [simp]: "hardPinRejectionReasons (bare p) item c = hardPinRejectionReasons p item c"
  by (simp add: hardPinRejectionReasons_def)

lemma simulated_placeHardPin:
  assumes "item_ok db item"
  shows "simulated db (placeHardPin item pin)"
proof -
  have "bare (placeHardPin item pin p) = placeHardPin item pin (bare p)" for p
    by (simp add: placeHardPin_def nextMissing_def Let_def case_prod_beta split: option.split)
  moreover have "Plan_db (placeHardPin item pin p) = db" if "Plan_db p = db" for p
    using plan_moves_db [OF moves_placeHardPin] that assms by simp
  ultimately show ?thesis by (simp add: simulated_def)
qed

lemma simulated_preserveRuntimeCopy:
  assumes "list_all (item_ok db) (mvals byProfile)" and "slot \<in> set (mvals (Slots db))"
  shows "simulated db (preserveRuntimeCopy byProfile slot)"
proof -
  have "bare (preserveRuntimeCopy byProfile slot p) = preserveRuntimeCopy byProfile slot (bare p)" for p
    by (simp add: preserveRuntimeCopy_def protectedRuntimeCandidate_def Let_def split: option.split)
  moreover have "Plan_db (preserveRuntimeCopy byProfile slot p) = db" if "Plan_db p = db" for p
    using plan_moves_db [OF moves_preserveRuntimeCopy] that assms by simp
  ultimately show ?thesis by (simp add: simulated_def)
qed

lemma simulated_comp: "simulated db f \<Longrightarrow> simulated db g \<Longrightarrow> simulated db (f \<circ> g)"
  by (simp add: simulated_def)

lemma simulated_passes:
  assumes "explain_ok db" and "set items = set (plan_items db now cooldown)"
  shows "simulated db (fold (\<lambda>item. placeWarmUntil item (w item)) items)"
    and "simulated db (fold (\<lambda>item. placeCacheUntil item (k item)) items)"
    and "simulated db (placeHardPins items)"
    and "simulated db (preserveRuntimeCopies items)"
proof -
  have ok: "item_ok db item" if "item \<in> set items" for item
    using that assms(2) plan_items_ok by simp
  show "simulated db (fold (\<lambda>item. placeWarmUntil item (w item)) items)"
    "simulated db (fold (\<lambda>item. placeCacheUntil item (k item)) items)"
    using simulated_loops [OF assms(1)] ok by (auto intro!: simulated_fold)
  have "simulated db (fold (\<lambda>item p. fold (placeHardPin item) (Policy_HardPinnedSlots (Item_policy item)) p) items)"
    using simulated_placeHardPin ok by (auto intro!: simulated_fold)
  then show "simulated db (placeHardPins items)"
    by (simp add: simulated_def placeHardPins_def)
  have "simulated db (fold (preserveRuntimeCopy (policyItemsByProfile items)) (SortedSlots db))"
    using ok mvals_policyItemsByProfile [of items]
    by (intro simulated_fold simulated_preserveRuntimeCopy) (auto simp: list_all_iff)
  then show "simulated db (preserveRuntimeCopies items)"
    by (simp add: simulated_def preserveRuntimeCopies_def)
qed

text \<open>All placing of a run, after its items are made.\<close>

definition run_passes :: "policyPlanItem list \<Rightarrow> placementPlanner \<Rightarrow> placementPlanner" where
  "run_passes items =
     (let items1 = sortPolicyItems False items; items2 = sortPolicyItems True items1
      in fold (\<lambda>item. placeCacheUntil item (Cap_Cached (Item_capacity item))) items2 \<circ>
         fold (\<lambda>item. placeWarmUntil item (Cap_Warm (Item_capacity item))) items2 \<circ>
         fold (\<lambda>item. placeCacheUntil item (Cap_MinCached (Item_capacity item))) items1 \<circ>
         fold (\<lambda>item. placeWarmUntil item (Cap_MinWarm (Item_capacity item))) items1 \<circ>
         preserveRuntimeCopies items \<circ> placeHardPins items)"

lemma simulated_run_passes:
  assumes "explain_ok db"
  shows "simulated db (run_passes (plan_items db now cooldown))"
  unfolding run_passes_def Let_def
  by (intro simulated_comp simulated_passes [OF assms]) simp_all

lemma planPlaced_passes:
  "snd (planPlaced db now explain cooldown) =
     run_passes (plan_items db now cooldown) (snd (policyItems (newPlacementPlanner db now explain cooldown)))"
  by (simp add: planPlaced_eq plan_cached_min_def plan_pinned_def run_passes_def Let_def)

lemma bare_policyItems:
  "bare (snd (policyItems (newPlacementPlanner db now explain cooldown))) = newPlacementPlanner db now None cooldown"
proof -
  have "bare (fold (\<lambda>item. explainWith (addPolicyItem item)) xs q) = bare q" for xs q
    by (induction xs arbitrary: q) simp_all
  then have "bare (snd (policyItems (newPlacementPlanner db now explain cooldown))) =
      bare (newPlacementPlanner db now explain cooldown)"
    by (simp add: policyItems_def Let_def)
  then show ?thesis
    by (simp add: bare_def newPlacementPlanner_def)
qed

lemma planPlaced_bare:
  assumes "explain_ok db"
  shows "bare (snd (planPlaced db now explain cooldown)) = snd (planPlaced db now None cooldown)"
proof -
  let ?start = "\<lambda>explain. snd (policyItems (newPlacementPlanner db now explain cooldown))"
  have "Plan_db (bare (?start explain)) = db" for explain
    by (subst bare_policyItems) simp
  then have d: "Plan_db (?start explain) = db" for explain by simp
  have "Plan_explain (fold (\<lambda>item. explainWith (addPolicyItem item)) xs q) = None" if "Plan_explain q = None" for xs q
    using that by (induction xs arbitrary: q) simp_all
  then have "Plan_explain (?start None) = None"
    by (simp add: policyItems_def Let_def) (simp add: newPlacementPlanner_def)
  then have "?start None = newPlacementPlanner db now None cooldown"
    using bare_policyItems [of db now None cooldown] by (simp add: bare_id)
  then show ?thesis
    using simulated_run_passes [OF assms, of now cooldown] d [of explain] bare_policyItems [of db now explain cooldown]
    by (simp add: planPlaced_passes simulated_def)
qed

text \<open>An explained run still has its explainer at the end.\<close>

definition keeps_explain :: "(placementPlanner \<Rightarrow> placementPlanner) \<Rightarrow> bool" where
  "keeps_explain f \<longleftrightarrow> (\<forall>p. Plan_explain (f p) = None \<longleftrightarrow> Plan_explain p = None)"

lemma keeps_fold: "(\<And>x. x \<in> set xs \<Longrightarrow> keeps_explain (f x)) \<Longrightarrow> keeps_explain (fold f xs)"
  by (induction xs) (simp_all add: keeps_explain_def)

lemma keeps_funpow: "keeps_explain f \<Longrightarrow> keeps_explain (f ^^ n)"
  by (induction n) (simp_all add: keeps_explain_def)

lemma keeps_nextWarm:
  "Plan_explain (snd (nextWarmExplain_loop item selected cs p)) = None \<longleftrightarrow> Plan_explain p = None"
  by (induction item selected cs p rule: nextWarmExplain_loop.induct) (simp_all add: Let_def)

lemma keeps_nextCache:
  "Plan_explain (snd (nextCacheExplain_loop item seen selected cs p)) = None \<longleftrightarrow> Plan_explain p = None"
  by (induction item seen selected cs p rule: nextCacheExplain_loop.induct) (simp_all add: Let_def)

lemma keeps_nextCandidates:
  "Plan_explain (snd (nextWarmCandidate item p)) = None \<longleftrightarrow> Plan_explain p = None"
  "Plan_explain (snd (nextCacheCandidate item p)) = None \<longleftrightarrow> Plan_explain p = None"
  by (simp_all add: nextWarmCandidate_def nextWarmCandidateExplain_def nextCacheCandidate_def
      nextCacheCandidateExplain_def keeps_nextWarm keeps_nextCache)

lemma keeps_addMissing: "Plan_explain (addMissing pid warm p) = None \<longleftrightarrow> Plan_explain p = None"
  by (simp add: addMissing_def nextMissing_def Let_def)

lemma keeps_steps: "keeps_explain (placeWarmStep item)" "keeps_explain (placeCacheStep item)"
proof -
  have "Plan_explain (placeWarmStep item p) = None \<longleftrightarrow> Plan_explain (snd (nextWarmCandidate item p)) = None" for p
    by (simp add: placeWarmStep_def keeps_addMissing case_prod_beta split: option.split)
  then show "keeps_explain (placeWarmStep item)"
    by (simp add: keeps_explain_def keeps_nextCandidates)
  have "Plan_explain (placeCacheStep item p) = None \<longleftrightarrow> Plan_explain (snd (nextCacheCandidate item p)) = None" for p
    by (simp add: placeCacheStep_def keeps_addMissing case_prod_beta split: option.split)
  then show "keeps_explain (placeCacheStep item)"
    by (simp add: keeps_explain_def keeps_nextCandidates)
qed

lemma keeps_loops: "keeps_explain (placeWarmUntil item t)" "keeps_explain (placeCacheUntil item t)"
  using keeps_funpow [OF keeps_steps(1)] keeps_funpow [OF keeps_steps(2)]
  by (simp_all add: keeps_explain_def warm_loop.loop_funpow cache_loop.loop_funpow)

lemma keeps_placeHardPin: "keeps_explain (placeHardPin item pin)"
  by (simp add: keeps_explain_def placeHardPin_def nextMissing_def Let_def case_prod_beta split: option.split)

lemma keeps_preserve: "keeps_explain (preserveRuntimeCopy byProfile slot)"
  by (simp add: keeps_explain_def preserveRuntimeCopy_def Let_def split: option.split)

lemma keeps_run_passes: "keeps_explain (run_passes items)"
proof -
  have pins: "keeps_explain (fold (placeHardPin item) xs)" for item xs
    using keeps_placeHardPin by (intro keeps_fold)
  have "keeps_explain (fold (\<lambda>item. fold (placeHardPin item) (Policy_HardPinnedSlots (Item_policy item))) items)"
    using pins by (rule keeps_fold)
  moreover have "keeps_explain (fold (\<lambda>item. placeWarmUntil item (w item)) xs)"
    "keeps_explain (fold (\<lambda>item. placeCacheUntil item (w item)) xs)" for w xs
    using keeps_loops by (auto intro!: keeps_fold)
  moreover have "keeps_explain (fold (preserveRuntimeCopy byProfile) xs)" for byProfile xs
    using keeps_preserve by (intro keeps_fold)
  ultimately show ?thesis
    by (simp add: keeps_explain_def run_passes_def preserveRuntimeCopies_def placeHardPins_def Let_def)
qed

lemma explain_plan_response:
  "Explain_Plan (explainPlacementWithCooldown db now cooldown) =
     planPlacementWithCooldown db now (Some (newPlacementExplainer now)) cooldown"
proof -
  let ?e = "Some (newPlacementExplainer now)"
  have "keeps_explain (fold (\<lambda>item. explainWith (addPolicyItem item)) xs)" for xs
    by (rule keeps_fold) (simp add: keeps_explain_def)
  then have "Plan_explain (snd (planPlaced db now ?e cooldown)) \<noteq> None"
    using keeps_run_passes [of "plan_items db now cooldown"]
    by (simp add: planPlaced_passes keeps_explain_def policyItems_def Let_def) (simp add: newPlacementPlanner_def)
  then show ?thesis
    by (auto simp: explainPlacementWithCooldown_def planPlacementWithCooldown_def planRun_def response_def
        setPlan_def markDrainingAssignments_def Let_def case_prod_beta)
qed

subsection \<open>Properties\<close>

text \<open>C23: the explain endpoint explains the plan that the scheduler would make: when every
  profile lists its variants in identifier order (and the tables are keyed by identifier,
  with no empty node identifier), the plan of the explanation equals the plan without an
  explainer.\<close>

theorem explain_same_plan:
  assumes "explain_ok db"
  shows "Explain_Plan (explainPlacementWithCooldown db now cooldown) = planPlacementWithCooldown db now None cooldown"
proof -
  let ?e = "Some (newPlacementExplainer now)"
  obtain items p where pe: "planPlaced db now ?e cooldown = (items, p)"
    by (cases "planPlaced db now ?e cooldown")
  obtain items' q where pn: "planPlaced db now None cooldown = (items', q)"
    by (cases "planPlaced db now None cooldown")
  have "bare p = q"
    using planPlaced_bare [OF assms, of now ?e cooldown] pe pn by simp
  moreover have "items = items'"
    using pe pn by (simp add: planPlaced_eq Let_def)
  ultimately show ?thesis
    by (auto simp: explain_plan_response planRun_assignments [OF pe] planRun_assignments [OF pn])
qed

theorem explain_same_plan_witness:
  "explain_ok sample_plan_db \<and>
   Explain_Plan (explainPlacementWithCooldown sample_plan_db 5 0) = planPlacementWithCooldown sample_plan_db 5 None 0"
proof -
  have e: "explain_ok sample_plan_db" by code_simp
  from e explain_same_plan [OF e, of 5 0] show ?thesis by simp
qed

text \<open>
  A profile with two variants, listed in descending identifier order, that both fit the one
  free slot.
\<close>

definition sample_variants_profile :: WorkloadProfile where
  "sample_variants_profile = sample_profile\<lparr>Profile_RuntimeVariants :=
     [zero_RuntimeModelVariant\<lparr>Variant_ID := ''b''\<rparr>, zero_RuntimeModelVariant\<lparr>Variant_ID := ''a''\<rparr>]\<rparr>"

definition sample_variants_db :: Database where
  "sample_variants_db = sample_plan_db\<lparr>Profiles := [(''p1'', sample_variants_profile)],
     Slots := [(''n1/slot1'', sample_slot2)]\<rparr>"

lemma sample_variants_plans:
  "map Asg_RuntimeVariantID (planPlacementWithCooldown sample_variants_db 5 None 0) = [''b''] \<and>
   map Asg_RuntimeVariantID (planPlacementWithCooldown sample_variants_db 5 (Some (newPlacementExplainer 5)) 0) = [''a'']"
  by code_simp

lemmas sample_variants_plan = sample_variants_plans [THEN conjunct1]
  and sample_variants_explained = sample_variants_plans [THEN conjunct2]

text \<open>Without that order the explanation can differ from the plan: the planner places the
  first listed variant, the explanation claims the one with the smaller identifier.\<close>

theorem explain_other_plan:
  "map Asg_RuntimeVariantID (planPlacementWithCooldown sample_variants_db 5 None 0) = [''b''] \<and>
   map Asg_RuntimeVariantID (Explain_Plan (explainPlacementWithCooldown sample_variants_db 5 0)) = [''a'']"
  by (simp only: explain_plan_response sample_variants_plan sample_variants_explained)

text \<open>
  Two policies that pin the same slot.
\<close>

definition sample_pins_db :: Database where
  "sample_pins_db = sample_plan_db\<lparr>Policies :=
     [(''pol1'', sample_policy\<lparr>Policy_HardPinnedSlots := [''n1/slot0'']\<rparr>),
      (''pol2'', sample_policy\<lparr>Policy_ID := ''pol2'', Policy_ProfileID := ''p2'',
         Policy_HardPinnedSlots := [''n1/slot0'']\<rparr>)]\<rparr>"

lemma slot_load_mono: "plan_moves pin p q \<Longrightarrow> slot_load sid (Plan_assignments p) \<le> slot_load sid (Plan_assignments q)"
proof (induction rule: rtranclp_induct)
  case (step q r)
  have "slot_load sid (Plan_assignments q) \<le> slot_load sid (Plan_assignments r)"
    using step.hyps(2)
  proof cases
    case (note_move m pr)
    then show ?thesis using note_move_sel(3) [OF note_move] by simp
  qed simp_all
  with step.IH show ?case by simp
qed simp

lemma sample_pins_pinned: "slot_load ''n1/slot0'' (Plan_assignments (plan_pinned sample_pins_db 5 None 0)) = 2"
  by code_simp

text \<open>Hard pins can double-book a slot: two policies that pin one slot both get a healthy
  warm assignment for it.\<close>

theorem hard_pins_double_book:
  "slot_load ''n1/slot0'' (planPlacementWithCooldown sample_pins_db 5 None 0) = 2"
proof (rule antisym)
  have "sane_db sample_pins_db" by code_simp
  moreover have "count_list (concat (map Policy_HardPinnedSlots (SortedPolicies sample_pins_db))) ''n1/slot0'' = 2"
    by code_simp
  ultimately show "slot_load ''n1/slot0'' (planPlacementWithCooldown sample_pins_db 5 None 0) \<le> 2"
    using plan_slots_bound [of sample_pins_db "''n1/slot0''" 5 None 0] by simp
  obtain items p where pl: "planPlaced sample_pins_db 5 None 0 = (items, p)"
    by (cases "planPlaced sample_pins_db 5 None 0")
  have "slot_load ''n1/slot0'' (planPlacementWithCooldown sample_pins_db 5 None 0) =
      slot_load ''n1/slot0'' (Plan_assignments p)"
    unfolding slot_load_def by (rule plan_filter_count [OF pl]) simp
  then show "2 \<le> slot_load ''n1/slot0'' (planPlacementWithCooldown sample_pins_db 5 None 0)"
    using slot_load_mono [OF planPlaced_moves(1) [OF pl], of "''n1/slot0''"] sample_pins_pinned by simp
qed

end
