(* ===== verification/Protocol.thy ===== *)
theory Protocol
  imports Store
begin

section \<open>The worker protocol (protocol.go)\<close>

text \<open>
  The envelopes that a worker and the manager exchange over the web socket, with their
  payload records and the message types. A payload travels as the bytes of its JSON form;
  \<open>json_codec\<close> holds the decoders and encoders of the standard library for the payload
  types, and every handler takes it as an argument.
\<close>

definition MsgHello :: string where
  "MsgHello = ''worker.hello''"

definition MsgFullState :: string where
  "MsgFullState = ''worker.full_state''"

definition MsgHeartbeat :: string where
  "MsgHeartbeat = ''worker.heartbeat''"

definition MsgTelemetry :: string where
  "MsgTelemetry = ''worker.telemetry''"

definition MsgSlotState :: string where
  "MsgSlotState = ''worker.slot_state''"

definition MsgArtifactState :: string where
  "MsgArtifactState = ''worker.artifact_state''"

definition MsgAssignProfile :: string where
  "MsgAssignProfile = ''manager.assign_profile''"

definition MsgExecuteTask :: string where
  "MsgExecuteTask = ''manager.execute_task''"

definition MsgCancelTask :: string where
  "MsgCancelTask = ''manager.cancel_task''"

definition MsgEvictArtifact :: string where
  "MsgEvictArtifact = ''manager.evict_artifact''"

definition MsgP2PConfig :: string where
  "MsgP2PConfig = ''manager.p2p_config''"

definition MsgUpdateWorker :: string where
  "MsgUpdateWorker = ''manager.update_worker''"

definition MsgAck :: string where
  "MsgAck = ''control.ack''"

definition MsgToken :: string where
  "MsgToken = ''attempt.token''"

definition MsgAttemptStarted :: string where
  "MsgAttemptStarted = ''attempt.started''"

definition MsgAttemptLease :: string where
  "MsgAttemptLease = ''attempt.lease_renewed''"

definition MsgAttemptFailed :: string where
  "MsgAttemptFailed = ''attempt.failed''"

definition MsgAttemptCompleted :: string where
  "MsgAttemptCompleted = ''attempt.completed''"

definition MsgComputeReport :: string where
  "MsgComputeReport = ''attempt.compute_report''"

definition MsgError :: string where
  "MsgError = ''control.error''"

lemmas Msg_defs = MsgHello_def MsgFullState_def MsgHeartbeat_def MsgTelemetry_def MsgSlotState_def
  MsgArtifactState_def MsgAssignProfile_def MsgExecuteTask_def MsgCancelTask_def MsgEvictArtifact_def
  MsgP2PConfig_def MsgUpdateWorker_def MsgAck_def MsgToken_def MsgAttemptStarted_def
  MsgAttemptLease_def MsgAttemptFailed_def MsgAttemptCompleted_def MsgComputeReport_def MsgError_def

record Envelope =
  Env_ID :: string
  Env_Type :: string
  Env_NodeID :: string
  Env_TaskID :: string
  Env_Attempt :: string
  Env_Payload :: string

definition zero_Envelope :: Envelope where
  "zero_Envelope = \<lparr>Env_ID = [],
     Env_Type = [],
     Env_NodeID = [],
     Env_TaskID = [],
     Env_Attempt = [],
     Env_Payload = []\<rparr>"

lemma zero_Envelope_sel [simp]:
  "Env_ID zero_Envelope = []"
  "Env_Type zero_Envelope = []"
  "Env_NodeID zero_Envelope = []"
  "Env_TaskID zero_Envelope = []"
  "Env_Attempt zero_Envelope = []"
  "Env_Payload zero_Envelope = []"
  by (simp_all add: zero_Envelope_def)

record HelloPayload =
  Hello_NodeToken :: string
  Hello_Node :: Node
  Hello_Slots :: "Slot list"

text \<open>\<open>None\<close> is a slice that the message leaves out, which Go decodes as \<^verbatim>\<open>nil\<close>.\<close>

record FullStatePayload =
  Full_NodeToken :: string
  Full_Node :: Node
  Full_Slots :: "Slot list"
  Full_Cached :: "string list option"
  Full_WarmProfiles :: "string list option"
  Full_Assignments :: "PlacementAssignment list"
  Full_ProcessedIDs :: "string list"

record WorkerRegistrationAck =
  Ack_Status :: string
  Ack_NodeToken :: string

record ArtifactSpec =
  Spec_ID :: string
  Spec_Kind :: string
  Spec_Name :: string
  Spec_SHA256 :: string
  Spec_SizeBytes :: int
  Spec_URL :: string
  Spec_Torrent :: "ArtifactTorrent option"
  Spec_P2PPeers :: "string list"

record AssignmentPayload =
  Assign_Profile :: WorkloadProfile
  Assign_Artifacts :: "ArtifactSpec list"
  Assign_SlotID :: string
  Assign_Cached :: bool
  Assign_Warm :: bool

record ChatMessage =
  Chat_Role :: string
  Chat_Content :: string

record ExecuteTaskPayload =
  Exec_TaskID :: string
  Exec_AttemptID :: string
  Exec_SlotID :: string
  Exec_Profile :: WorkloadProfile
  Exec_Artifacts :: "ArtifactSpec list"
  Exec_Messages :: "ChatMessage list"
  Exec_MaxTokens :: int
  Exec_Temperature :: float64
  Exec_RequestedAt :: int

record CancelTaskPayload =
  Cancel_TaskID :: string
  Cancel_AttemptID :: string
  Cancel_FailureReason :: string

record EvictArtifactPayload =
  EvictP_ArtifactID :: string
  EvictP_Reason :: string

record P2PConfigPayload =
  P2PConfig_Enabled :: bool

record TokenPayload =
  Token_TaskID :: string
  Token_AttemptID :: string
  Token_Token :: string
  Token_Index :: int
  Token_FinishReason :: string

definition zero_TokenPayload :: TokenPayload where
  "zero_TokenPayload = \<lparr>Token_TaskID = [],
     Token_AttemptID = [],
     Token_Token = [],
     Token_Index = 0,
     Token_FinishReason = []\<rparr>"

lemma zero_TokenPayload_sel [simp]:
  "Token_TaskID zero_TokenPayload = []"
  "Token_AttemptID zero_TokenPayload = []"
  "Token_Token zero_TokenPayload = []"
  "Token_Index zero_TokenPayload = 0"
  "Token_FinishReason zero_TokenPayload = []"
  by (simp_all add: zero_TokenPayload_def)

record SlotStatePayload =
  SlotSt_SlotID :: string
  SlotSt_State :: string
  SlotSt_ProfileID :: string
  SlotSt_ProfileVersion :: int
  SlotSt_LogicalModel :: string
  SlotSt_RuntimeVariantID :: string
  SlotSt_ModelArtifactID :: string
  SlotSt_ModelSHA256 :: string
  SlotSt_ActiveTaskID :: string
  SlotSt_MismatchReason :: string

definition zero_SlotStatePayload :: SlotStatePayload where
  "zero_SlotStatePayload = \<lparr>SlotSt_SlotID = [],
     SlotSt_State = [],
     SlotSt_ProfileID = [],
     SlotSt_ProfileVersion = 0,
     SlotSt_LogicalModel = [],
     SlotSt_RuntimeVariantID = [],
     SlotSt_ModelArtifactID = [],
     SlotSt_ModelSHA256 = [],
     SlotSt_ActiveTaskID = [],
     SlotSt_MismatchReason = []\<rparr>"

lemma zero_SlotStatePayload_sel [simp]:
  "SlotSt_SlotID zero_SlotStatePayload = []"
  "SlotSt_State zero_SlotStatePayload = []"
  "SlotSt_ProfileID zero_SlotStatePayload = []"
  "SlotSt_ProfileVersion zero_SlotStatePayload = 0"
  "SlotSt_LogicalModel zero_SlotStatePayload = []"
  "SlotSt_RuntimeVariantID zero_SlotStatePayload = []"
  "SlotSt_ModelArtifactID zero_SlotStatePayload = []"
  "SlotSt_ModelSHA256 zero_SlotStatePayload = []"
  "SlotSt_ActiveTaskID zero_SlotStatePayload = []"
  "SlotSt_MismatchReason zero_SlotStatePayload = []"
  by (simp_all add: zero_SlotStatePayload_def)

record ArtifactStatePayload =
  ArtSt_ArtifactID :: string
  ArtSt_State :: string
  ArtSt_SHA256 :: string
  ArtSt_Error :: string

definition zero_ArtifactStatePayload :: ArtifactStatePayload where
  "zero_ArtifactStatePayload = \<lparr>ArtSt_ArtifactID = [],
     ArtSt_State = [],
     ArtSt_SHA256 = [],
     ArtSt_Error = []\<rparr>"

lemma zero_ArtifactStatePayload_sel [simp]:
  "ArtSt_ArtifactID zero_ArtifactStatePayload = []"
  "ArtSt_State zero_ArtifactStatePayload = []"
  "ArtSt_SHA256 zero_ArtifactStatePayload = []"
  "ArtSt_Error zero_ArtifactStatePayload = []"
  by (simp_all add: zero_ArtifactStatePayload_def)

record AttemptFailedPayload =
  Failed_TaskID :: string
  Failed_AttemptID :: string
  Failed_Phase :: string
  Failed_FailureReason :: string
  Failed_CanRetry :: bool
  Failed_FirstOutputSent :: bool

definition zero_AttemptFailedPayload :: AttemptFailedPayload where
  "zero_AttemptFailedPayload = \<lparr>Failed_TaskID = [],
     Failed_AttemptID = [],
     Failed_Phase = [],
     Failed_FailureReason = [],
     Failed_CanRetry = False,
     Failed_FirstOutputSent = False\<rparr>"

lemma zero_AttemptFailedPayload_sel [simp]:
  "Failed_TaskID zero_AttemptFailedPayload = []"
  "Failed_AttemptID zero_AttemptFailedPayload = []"
  "Failed_Phase zero_AttemptFailedPayload = []"
  "Failed_FailureReason zero_AttemptFailedPayload = []"
  "Failed_CanRetry zero_AttemptFailedPayload = False"
  "Failed_FirstOutputSent zero_AttemptFailedPayload = False"
  by (simp_all add: zero_AttemptFailedPayload_def)

record UpdatePayload =
  UpdateP_Update :: UpdateRecord
  UpdateP_Artifact :: ArtifactSpec

text \<open>\<^verbatim>\<open>json.Unmarshal\<close> and \<^verbatim>\<open>MarshalPayload\<close> on each payload type. \<open>Inl\<close> is a decoding error.\<close>

record json_codec =
  unmarshalHello :: "string \<Rightarrow> string + HelloPayload"
  unmarshalFullState :: "string \<Rightarrow> string + FullStatePayload"
  unmarshalSlotState :: "string \<Rightarrow> string + SlotStatePayload"
  unmarshalArtifactState :: "string \<Rightarrow> string + ArtifactStatePayload"
  unmarshalToken :: "string \<Rightarrow> string + TokenPayload"
  unmarshalAttemptFailed :: "string \<Rightarrow> string + AttemptFailedPayload"
  unmarshalReport :: "string \<Rightarrow> string + ComputeReport"
  unmarshalTelemetry :: "string \<Rightarrow> string + string gomap"
  marshalAck :: "WorkerRegistrationAck \<Rightarrow> string"
  marshalAssignment :: "AssignmentPayload \<Rightarrow> string"
  marshalExecute :: "ExecuteTaskPayload \<Rightarrow> string"
  marshalCancel :: "CancelTaskPayload \<Rightarrow> string"
  marshalEvict :: "EvictArtifactPayload \<Rightarrow> string"
  marshalP2PConfig :: "P2PConfigPayload \<Rightarrow> string"
  marshalUpdate :: "UpdatePayload \<Rightarrow> string"
  marshalError :: "string gomap \<Rightarrow> string"

end
