(* ===== verification/Accounting.thy ===== *)
theory Accounting
  imports Profiles Store
begin

section \<open>Compute accounting and identity (compute_accounting.go, identity.go, manager_accounting_admin.go)\<close>

text \<open>
  Users hold a balance of compute units; every change of a balance is an entry of the
  ledger. A completed report debits the client and credits the owner of the node; an
  administrator adjusts balances. API keys are stored by the hash of their token.
  Operations that can fail return \<open>Inl\<close> with the error, and have changed nothing then.
\<close>

subsection \<open>The ledger\<close>

definition applyLedgerBalance :: "Database \<Rightarrow> ComputeLedgerEntry \<Rightarrow> Database" where
  "applyLedgerBalance db entry =
     (let user = mget zero_User (Users db) (Ledger_UserID entry) in
      if User_ID user = [] then db
      else (let user' =
              (if Ledger_Direction entry = LedgerDebit
               then user\<lparr>User_ComputeBalance := wrap64 (User_ComputeBalance user - Ledger_Amount entry)\<rparr>
               else if Ledger_Direction entry = LedgerCredit
               then user\<lparr>User_ComputeBalance := wrap64 (User_ComputeBalance user + Ledger_Amount entry)\<rparr>
               else user)
            in db\<lparr>Users := mput (User_ID user') user' (Users db)\<rparr>))"

definition appendLedgerEntry :: "id_source \<Rightarrow> time \<Rightarrow> ComputeLedgerEntry \<Rightarrow> Database \<Rightarrow> Database" where
  "appendLedgerEntry newID now entry db =
     (let entry1 = entry\<lparr>Ledger_ID := (if Ledger_ID entry = [] then newID ''led'' (length (ComputeLedger db))
                                     else Ledger_ID entry),
                       Ledger_CreatedAt := (if Ledger_CreatedAt entry = 0 then now else Ledger_CreatedAt entry)\<rparr>
      in applyLedgerBalance (db\<lparr>ComputeLedger := ComputeLedger db @ [entry1]\<rparr>) entry1)"

definition appendConsumptionLedger :: "id_source \<Rightarrow> ComputeReport \<Rightarrow> time \<Rightarrow> Database \<Rightarrow> Database" where
  "appendConsumptionLedger newID report now db =
     (if \<not> mhas (Users db) (Report_UserID report) then db
      else appendLedgerEntry newID now (zero_ComputeLedgerEntry\<lparr>
        Ledger_Type := LedgerConsumeCompute,
        Ledger_UserID := Report_UserID report,
        Ledger_TaskID := Report_TaskID report,
        Ledger_AttemptID := Report_AttemptID report,
        Ledger_ReportID := Report_ID report,
        Ledger_NodeID := Report_NodeID report,
        Ledger_SlotID := Report_SlotID report,
        Ledger_ProfileID := Report_ProfileID report,
        Ledger_ProfileVersion := Report_ProfileVersion report,
        Ledger_ComputeCost := Report_ComputeCost report,
        Ledger_Amount := Report_ComputeCost report,
        Ledger_Direction := LedgerDebit,
        Ledger_Reason := ''completed task'',
        Ledger_CreatedAt := now\<rparr>) db)"

definition appendProductionLedger :: "id_source \<Rightarrow> ComputeReport \<Rightarrow> time \<Rightarrow> Database \<Rightarrow> Database" where
  "appendProductionLedger newID report now db =
     (let node = mget zero_Node (Nodes db) (Report_NodeID report) in
      if Node_OwnerUserID node = [] then db
      else if \<not> mhas (Users db) (Node_OwnerUserID node) then db
      else appendLedgerEntry newID now (zero_ComputeLedgerEntry\<lparr>
        Ledger_Type := LedgerProduceCompute,
        Ledger_UserID := Node_OwnerUserID node,
        Ledger_TaskID := Report_TaskID report,
        Ledger_AttemptID := Report_AttemptID report,
        Ledger_ReportID := Report_ID report,
        Ledger_NodeID := Report_NodeID report,
        Ledger_SlotID := Report_SlotID report,
        Ledger_ProfileID := Report_ProfileID report,
        Ledger_ProfileVersion := Report_ProfileVersion report,
        Ledger_ComputeCost := Report_ComputeCost report,
        Ledger_Amount := Report_ComputeCost report,
        Ledger_Direction := LedgerCredit,
        Ledger_Reason := ''completed task on owned node'',
        Ledger_CreatedAt := now\<rparr>) db)"

definition ledgerExistsForReport :: "Database \<Rightarrow> string \<Rightarrow> bool" where
  "ledgerExistsForReport db reportID = list_ex (\<lambda>entry. Ledger_ReportID entry = reportID) (ComputeLedger db)"

definition applyReportAccounting ::
  "id_source \<Rightarrow> Database \<Rightarrow> ComputeReport \<Rightarrow> time \<Rightarrow> Database \<times> ComputeReport" where
  "applyReportAccounting newID db report now =
     (let attempt = mget zero_Attempt (Attempts db) (Report_AttemptID report);
          task = mget zero_Task (Tasks db) (Report_TaskID report);
          report1 = report\<lparr>
            Report_UserID := firstNonEmpty [Attempt_UserID attempt, Task_UserID task, Report_UserID report],
            Report_ProfileVersion := firstNonZero [Attempt_ProfileVersion attempt, Task_ProfileVersion task,
              Report_ProfileVersion report],
            Report_ComputeCost := firstNonZero [Attempt_ComputeCost attempt, Task_ComputeCost task,
              Report_ComputeCost report]\<rparr>
      in if Report_Status report1 = TaskStatusCompleted \<and> Report_ComputeCost report1 > 0 \<and>
            \<not> ledgerExistsForReport db (Report_ID report1)
         then (appendProductionLedger newID report1 now (appendConsumptionLedger newID report1 now db), report1)
         else (db, report1))"

definition pendingComputeCost :: "Database \<Rightarrow> string \<Rightarrow> int" where
  "pendingComputeCost db userID =
     foldl (\<lambda>sum0 task. if Task_UserID task \<noteq> userID then sum0
              else if Task_Status task = TaskStatusQueued \<or> Task_Status task = TaskStatusRunning
              then wrap64 (sum0 + Task_ComputeCost task) else sum0) 0 (mvals (Tasks db))"

definition ensureSufficientAvailableBalance ::
  "Database \<Rightarrow> string \<Rightarrow> int \<Rightarrow> bool \<Rightarrow> manager_error option" where
  "ensureSufficientAvailableBalance db userID computeCost enforce =
     (if \<not> enforce \<or> computeCost \<le> 0 then None
      else (let current = mget zero_User (Users db) userID in
            if wrap64 (User_ComputeBalance current - pendingComputeCost db userID) < computeCost
            then Some InsufficientBalance else None))"

definition ensureSufficientBalance :: "Database \<Rightarrow> User \<Rightarrow> WorkloadProfile \<Rightarrow> bool \<Rightarrow> manager_error option" where
  "ensureSufficientBalance db user profile enforce =
     ensureSufficientAvailableBalance db (User_ID user) (Profile_ComputeCost profile) enforce"

subsection \<open>Users, keys and adjustments\<close>

record CreateUserRequest =
  CreateUser_ID :: string
  CreateUser_Name :: string

record UpdateUserRequest =
  UpdateUser_ID :: string
  UpdateUser_Name :: string
  UpdateUser_Disabled :: bool

record IssueAPIKeyRequest =
  IssueKey_UserID :: string
  IssueKey_Name :: string

record AdminBalanceAdjustmentRequest =
  Adjust_UserID :: string
  Adjust_Amount :: int
  Adjust_Reason :: string

record SetProfileComputeCostRequest =
  SetCost_ProfileID :: string
  SetCost_ComputeCost :: int

definition setProfileComputeCost ::
  "id_source \<Rightarrow> SetProfileComputeCostRequest \<Rightarrow> time \<Rightarrow> Database \<Rightarrow> manager_error + Database" where
  "setProfileComputeCost newID req now db =
     (case map_of (Profiles db) (SetCost_ProfileID req) of
        None \<Rightarrow> Inl (NotFound ''profile'' (SetCost_ProfileID req))
      | Some profile \<Rightarrow>
          if SetCost_ComputeCost req < 0 then Inl (Invalid ''computeCost must be non-negative'')
          else (let profile' = profile\<lparr>Profile_ComputeCost := SetCost_ComputeCost req,
                       Profile_Version := Profile_Version profile + 1\<rparr>
                in Inr (appendAudit newID ''profile.compute_cost.updated'' ''admin'' (Profile_ID profile') [] now
                     (db\<lparr>Profiles := mput (Profile_ID profile') profile' (Profiles db)\<rparr>))))"

definition newUser :: "id_source \<Rightarrow> CreateUserRequest \<Rightarrow> time \<Rightarrow> Database \<Rightarrow> User" where
  "newUser newID req now db =
     (let user = zero_User\<lparr>User_ID := CreateUser_ID req, User_Name := CreateUser_Name req, User_CreatedAt := now\<rparr>;
          user1 = (if User_ID user = [] then user\<lparr>User_ID := newID ''usr'' (length (Users db))\<rparr> else user)
      in if User_Name user1 = [] then user1\<lparr>User_Name := User_ID user1\<rparr> else user1)"

definition handleAdminUserCreate ::
  "id_source \<Rightarrow> CreateUserRequest \<Rightarrow> time \<Rightarrow> Database \<Rightarrow> manager_error + Database" where
  "handleAdminUserCreate newID req now db =
     (let user = newUser newID req now db in
      if mhas (Users db) (User_ID user) then Inl (AlreadyExists ''user'' (User_ID user))
      else Inr (appendAudit newID ''user.created'' ''admin'' (User_ID user) [] (User_CreatedAt user)
             (db\<lparr>Users := mput (User_ID user) user (Users db)\<rparr>)))"

definition updateUser :: "id_source \<Rightarrow> UpdateUserRequest \<Rightarrow> time \<Rightarrow> Database \<Rightarrow> manager_error + Database" where
  "updateUser newID req now db =
     (if UpdateUser_ID req = [] then Inl (Required ''userId'')
      else case map_of (Users db) (UpdateUser_ID req) of
        None \<Rightarrow> Inl (NotFound ''user'' (UpdateUser_ID req))
      | Some user \<Rightarrow>
          (let user' = user\<lparr>User_Name := (if UpdateUser_Name req \<noteq> [] then UpdateUser_Name req else User_Name user),
                 User_Disabled := UpdateUser_Disabled req\<rparr>
           in Inr (appendAudit newID ''user.updated'' ''admin'' (User_ID user') [] now
                (db\<lparr>Users := mput (User_ID user') user' (Users db)\<rparr>))))"

text \<open>\<open>sha256hex\<close> is the hexadecimal SHA-256 digest of the standard library.\<close>

definition apiTokenHash :: "(string \<Rightarrow> string) \<Rightarrow> string \<Rightarrow> string" where
  "apiTokenHash sha256hex token = ''sha256:'' @ sha256hex token"

definition newIssuedAPIKey ::
  "(string \<Rightarrow> string) \<Rightarrow> id_source \<Rightarrow> string \<Rightarrow> IssueAPIKeyRequest \<Rightarrow> time \<Rightarrow> Database \<Rightarrow> APIKey" where
  "newIssuedAPIKey sha256hex newID token req now db =
     (let key = zero_APIKey\<lparr>Key_ID := newID ''key'' (length (APIKeys db)), Key_UserID := IssueKey_UserID req,
            Key_Name := IssueKey_Name req, Key_TokenHash := apiTokenHash sha256hex token,
            Key_Status := APIKeyStatusActive, Key_CreatedAt := now\<rparr>
      in if Key_Name key = [] then key\<lparr>Key_Name := Key_ID key\<rparr> else key)"

definition storeAPIKey :: "id_source \<Rightarrow> APIKey \<Rightarrow> Database \<Rightarrow> manager_error + Database" where
  "storeAPIKey newID key db =
     (if \<not> mhas (Users db) (Key_UserID key) then Inl (NotFound ''user'' (Key_UserID key))
      else Inr (appendAudit newID ''api_key.issued'' ''admin'' (Key_ID key) [] (Key_CreatedAt key)
             (db\<lparr>APIKeys := mput (Key_ID key) key (APIKeys db)\<rparr>)))"

definition revokeAPIKey :: "id_source \<Rightarrow> string \<Rightarrow> time \<Rightarrow> Database \<Rightarrow> manager_error + Database" where
  "revokeAPIKey newID keyID now db =
     (case map_of (APIKeys db) keyID of
        None \<Rightarrow> Inl (NotFound ''api key'' keyID)
      | Some key \<Rightarrow>
          (let key' = key\<lparr>Key_Status := APIKeyStatusRevoked, Key_RevokedAt := Some now\<rparr>
           in Inr (appendAudit newID ''api_key.revoked'' ''admin'' (Key_ID key') [] now
                (db\<lparr>APIKeys := mput (Key_ID key') key' (APIKeys db)\<rparr>))))"

definition adminAdjustmentEntry ::
  "AdminBalanceAdjustmentRequest \<Rightarrow> time \<Rightarrow> manager_error + ComputeLedgerEntry" where
  "adminAdjustmentEntry req now =
     (if Adjust_UserID req = [] then Inl (Required ''userId'')
      else if Adjust_Amount req = 0 then Inl (Invalid ''amount must be non-zero'')
      else Inr (zero_ComputeLedgerEntry\<lparr>Ledger_Type := LedgerAdminAdjustment, Ledger_UserID := Adjust_UserID req,
             Ledger_Amount := (if Adjust_Amount req < 0 then wrap64 (- Adjust_Amount req) else Adjust_Amount req),
             Ledger_Direction := (if Adjust_Amount req < 0 then LedgerDebit else LedgerCredit),
             Ledger_Reason := (if Adjust_Reason req = [] then ''admin adjustment'' else Adjust_Reason req),
             Ledger_CreatedAt := now\<rparr>))"

definition storeAdminAdjustment ::
  "id_source \<Rightarrow> ComputeLedgerEntry \<Rightarrow> time \<Rightarrow> Database \<Rightarrow> manager_error + Database" where
  "storeAdminAdjustment newID entry now db =
     (if \<not> mhas (Users db) (Ledger_UserID entry) then Inl (NotFound ''user'' (Ledger_UserID entry))
      else Inr (appendAudit newID ''compute.admin_adjustment'' ''admin'' (Ledger_UserID entry) []
             (Ledger_CreatedAt entry) (appendLedgerEntry newID now entry db)))"

definition handleAdminBalanceAdjustment ::
  "id_source \<Rightarrow> AdminBalanceAdjustmentRequest \<Rightarrow> time \<Rightarrow> Database \<Rightarrow> manager_error + Database" where
  "handleAdminBalanceAdjustment newID req now db =
     (case adminAdjustmentEntry req now of
        Inl e \<Rightarrow> Inl e
      | Inr entry \<Rightarrow> storeAdminAdjustment newID entry now db)"

subsection \<open>Client authentication\<close>

fun activeAPIKeyForHash_loop :: "string \<Rightarrow> APIKey \<Rightarrow> APIKey list \<Rightarrow> APIKey option" where
  "activeAPIKeyForHash_loop hash found [] = (if Key_ID found \<noteq> [] then Some found else None)"
| "activeAPIKeyForHash_loop hash found (key # keys) =
     (if Key_TokenHash key \<noteq> hash \<or> Key_Status key \<noteq> APIKeyStatusActive \<or> Key_RevokedAt key \<noteq> None
      then activeAPIKeyForHash_loop hash found keys
      else if Key_ID found \<noteq> [] then None
      else activeAPIKeyForHash_loop hash key keys)"

definition activeAPIKeyForHash :: "Database \<Rightarrow> string \<Rightarrow> APIKey option" where
  "activeAPIKeyForHash db hash = activeAPIKeyForHash_loop hash zero_APIKey (mvals (APIKeys db))"

definition apiKeyUserID :: "Database \<Rightarrow> string \<Rightarrow> string" where
  "apiKeyUserID db hash = (case activeAPIKeyForHash db hash of None \<Rightarrow> [] | Some key \<Rightarrow> Key_UserID key)"

definition authenticateClient ::
  "(string \<Rightarrow> string) \<Rightarrow> string \<Rightarrow> time \<Rightarrow> Database \<Rightarrow> manager_error + User \<times> Database" where
  "authenticateClient sha256hex token now db =
     (if token = [] then Inl Unauthorized
      else case activeAPIKeyForHash db (apiTokenHash sha256hex token) of
        None \<Rightarrow> Inl Unauthorized
      | Some key \<Rightarrow>
          (case map_of (Users db) (Key_UserID key) of
             None \<Rightarrow> Inl Unauthorized
           | Some user \<Rightarrow>
               if User_Disabled user then Inl Unauthorized
               else (let key' = key\<lparr>Key_LastUsedAt := Some now\<rparr>
                     in Inr (user, db\<lparr>APIKeys := mput (Key_ID key') key' (APIKeys db)\<rparr>))))"

definition apiKeyView :: "APIKey \<Rightarrow> APIKeyView" where
  "apiKeyView key = \<lparr>KeyView_ID = Key_ID key, KeyView_UserID = Key_UserID key, KeyView_Name = Key_Name key,
     KeyView_Status = Key_Status key, KeyView_CreatedAt = Key_CreatedAt key, KeyView_RevokedAt = Key_RevokedAt key,
     KeyView_LastUsedAt = Key_LastUsedAt key\<rparr>"

definition lookupAPIKey :: "(string \<Rightarrow> string) \<Rightarrow> string \<Rightarrow> Database \<Rightarrow> manager_error + APIKeyView \<times> User" where
  "lookupAPIKey sha256hex token db =
     (if token = [] then Inl (Required ''token'')
      else case activeAPIKeyForHash db (apiTokenHash sha256hex token) of
        None \<Rightarrow> Inl (NotFound ''api key'' [])
      | Some key \<Rightarrow>
          (case map_of (Users db) (Key_UserID key) of
             None \<Rightarrow> Inl (NotFound ''user'' (Key_UserID key))
           | Some user \<Rightarrow> Inr (apiKeyView key, user)))"

definition defaultClientUserID :: string where
  "defaultClientUserID = ''user_configured_client''"

definition ensureConfiguredClientKey ::
  "(string \<Rightarrow> string) \<Rightarrow> ManagerConfig \<Rightarrow> time \<Rightarrow> Database \<Rightarrow> Database" where
  "ensureConfiguredClientKey sha256hex cfg now db =
     (if Cfg_ClientAPIKey cfg = [] then db
      else (let hash = apiTokenHash sha256hex (Cfg_ClientAPIKey cfg) in
        if apiKeyUserID db hash \<noteq> [] then db
        else (let db1 = (if mhas (Users db) defaultClientUserID then db
                         else db\<lparr>Users := mput defaultClientUserID (zero_User\<lparr>User_ID := defaultClientUserID,
                           User_Name := ''Configured API client'', User_CreatedAt := now\<rparr>) (Users db)\<rparr>)
              in db1\<lparr>APIKeys := mput ''key_configured_client'' (zero_APIKey\<lparr>Key_ID := ''key_configured_client'',
                   Key_UserID := defaultClientUserID, Key_Name := ''Configured API key'', Key_TokenHash := hash,
                   Key_Status := APIKeyStatusActive, Key_CreatedAt := now\<rparr>) (APIKeys db1)\<rparr>)))"

subsection \<open>The books\<close>

definition ledger_delta :: "ComputeLedgerEntry \<Rightarrow> int" where
  "ledger_delta e =
     (if Ledger_Direction e = LedgerDebit then - Ledger_Amount e
      else if Ledger_Direction e = LedgerCredit then Ledger_Amount e else 0)"

definition user_total :: "ComputeLedgerEntry list \<Rightarrow> string \<Rightarrow> int" where
  "user_total es uid = sum_list (map ledger_delta (filter (\<lambda>e. Ledger_UserID e = uid) es))"

lemma user_total_snoc [simp]:
  "user_total (es @ [e]) uid = user_total es uid + (if Ledger_UserID e = uid then ledger_delta e else 0)"
  by (simp add: user_total_def)

text \<open>
  The invariant of the accounts: users are stored under their identifiers, every ledger entry
  belongs to a user, and every balance is the sum of the user's entries (in \<^verbatim>\<open>int64\<close>).
\<close>

definition books_ok :: "User gomap \<Rightarrow> ComputeLedgerEntry list \<Rightarrow> bool" where
  "books_ok users es \<longleftrightarrow>
     keyed User_ID users \<and> \<not> mhas users [] \<and> (\<forall>e \<in> set es. mhas users (Ledger_UserID e)) \<and>
     (\<forall>uid u. map_of users uid = Some u \<longrightarrow> User_ComputeBalance u = wrap64 (user_total es uid))"

abbreviation accounts_ok :: "Database \<Rightarrow> bool" where
  "accounts_ok db \<equiv> books_ok (Users db) (ComputeLedger db)"

lemma books_ok_code [code]:
  "books_ok users es \<longleftrightarrow> keyed User_ID users \<and> \<not> mhas users [] \<and> list_all (\<lambda>e. mhas users (Ledger_UserID e)) es \<and>
     list_all (\<lambda>(uid, u). User_ComputeBalance u = wrap64 (user_total es uid)) users"
proof (cases "keyed User_ID users")
  case True
  then have "(uid, u) \<in> set users \<longleftrightarrow> map_of users uid = Some u" for uid u
    by (simp add: keyed_def)
  then show ?thesis
    by (simp add: books_ok_def list_all_iff Ball_def split_paired_All)
qed (simp add: books_ok_def)

lemma mhas_mput [simp]: "mhas (mput k v m) k' \<longleftrightarrow> k' = k \<or> mhas m k'"
  by (simp add: mhas_def)

lemma wrap64_wrap64_add [simp]: "wrap64 (wrap64 x + y) = wrap64 (x + y)" "wrap64 (wrap64 x - y) = wrap64 (x - y)"
  by (simp_all add: wrap64_add_left wrap64_diff_left)

lemma applyLedgerBalance_users:
  assumes "keyed User_ID (Users db)" and "map_of (Users db) (Ledger_UserID e) = Some u" and "Ledger_UserID e \<noteq> []"
    and "in64 (User_ComputeBalance u)"
  shows "applyLedgerBalance db e = db\<lparr>Users := mput (Ledger_UserID e)
     (u\<lparr>User_ComputeBalance := wrap64 (User_ComputeBalance u + ledger_delta e)\<rparr>) (Users db)\<rparr>"
proof -
  have "User_ID u = Ledger_UserID e"
    using assms(1,2) keyed_lookup by fastforce
  moreover have "LedgerDebit \<noteq> LedgerCredit" by simp
  ultimately show ?thesis
    using assms by (auto simp: applyLedgerBalance_def ledger_delta_def mget_SomeD wrap64_id Let_def)
qed

definition stampedEntry :: "id_source \<Rightarrow> time \<Rightarrow> nat \<Rightarrow> ComputeLedgerEntry \<Rightarrow> ComputeLedgerEntry" where
  "stampedEntry newID now n e =
     e\<lparr>Ledger_ID := (if Ledger_ID e = [] then newID ''led'' n else Ledger_ID e),
       Ledger_CreatedAt := (if Ledger_CreatedAt e = 0 then now else Ledger_CreatedAt e)\<rparr>"

lemma stampedEntry_sel [simp]:
  "Ledger_UserID (stampedEntry newID now n e) = Ledger_UserID e"
  "Ledger_ReportID (stampedEntry newID now n e) = Ledger_ReportID e"
  "ledger_delta (stampedEntry newID now n e) = ledger_delta e"
  "Ledger_Type (stampedEntry newID now n e) = Ledger_Type e"
  by (simp_all add: stampedEntry_def ledger_delta_def)

lemma books_balance:
  "books_ok users es \<Longrightarrow> map_of users uid = Some u \<Longrightarrow> in64 (User_ComputeBalance u) \<and> uid \<noteq> [] \<and> User_ID u = uid"
  by (auto simp: books_ok_def mhas_def dest: keyed_lookup)

text \<open>What an entry for an existing user does.\<close>

lemma appendLedgerEntry_eq:
  assumes "accounts_ok db" and "map_of (Users db) (Ledger_UserID e) = Some u"
  shows "appendLedgerEntry newID now e db =
    db\<lparr>ComputeLedger := ComputeLedger db @ [stampedEntry newID now (length (ComputeLedger db)) e],
       Users := mput (Ledger_UserID e)
         (u\<lparr>User_ComputeBalance := wrap64 (User_ComputeBalance u + ledger_delta e)\<rparr>) (Users db)\<rparr>"
proof -
  let ?e = "stampedEntry newID now (length (ComputeLedger db)) e"
  have "appendLedgerEntry newID now e db = applyLedgerBalance (db\<lparr>ComputeLedger := ComputeLedger db @ [?e]\<rparr>) ?e"
    by (simp add: appendLedgerEntry_def stampedEntry_def Let_def)
  then show ?thesis
    using applyLedgerBalance_users [of "db\<lparr>ComputeLedger := ComputeLedger db @ [?e]\<rparr>" ?e u] assms
      books_balance [OF assms] by (auto simp: books_ok_def)
qed

lemma books_mput:
  assumes "books_ok users es" and "User_ID u = uid" and "uid \<noteq> []"
    and "User_ComputeBalance u = wrap64 (user_total es' uid)"
    and "\<And>uid'. uid' \<noteq> uid \<Longrightarrow> user_total es' uid' = user_total es uid'"
    and "\<And>e. e \<in> set es' \<Longrightarrow> mhas users (Ledger_UserID e) \<or> Ledger_UserID e = uid"
  shows "books_ok (mput uid u users) es'"
  unfolding books_ok_def
proof (intro conjI allI impI)
  show "keyed User_ID (mput uid u users)"
    using assms(1,2) by (auto simp: books_ok_def)
  show "\<not> mhas (mput uid u users) []"
    using assms(1,3) by (simp add: books_ok_def)
  show "\<forall>e \<in> set es'. mhas (mput uid u users) (Ledger_UserID e)"
    using assms(6) by auto
  fix k v assume k: "map_of (mput uid u users) k = Some v"
  show "User_ComputeBalance v = wrap64 (user_total es' k)"
  proof (cases "k = uid")
    case False
    with k have "map_of users k = Some v" by simp
    then have "User_ComputeBalance v = wrap64 (user_total es k)"
      using assms(1) unfolding books_ok_def by blast
    with assms(5) [OF False] show ?thesis by simp
  qed (use k assms(4) in simp)
qed

lemma books_user: "books_ok users es \<Longrightarrow> \<not> mhas users []"
  by (simp add: books_ok_def)

lemma books_total: "books_ok users es \<Longrightarrow> map_of users uid = Some u \<Longrightarrow> User_ComputeBalance u = wrap64 (user_total es uid)"
  unfolding books_ok_def by blast

lemma books_entries: "books_ok users es \<Longrightarrow> e \<in> set es \<Longrightarrow> mhas users (Ledger_UserID e)"
  unfolding books_ok_def by blast

lemma books_entry:
  assumes "books_ok users es" and "map_of users uid = Some u" and "Ledger_UserID e = uid"
  shows "books_ok (mput uid (u\<lparr>User_ComputeBalance := wrap64 (User_ComputeBalance u + ledger_delta e)\<rparr>) users) (es @ [e])"
  using books_balance [OF assms(1,2)] books_total [OF assms(1,2)] books_entries [OF assms(1)] assms(3)
  by (intro books_mput [OF assms(1)]) auto

lemma appendLedgerEntry_ok:
  assumes "accounts_ok db" and "mhas (Users db) (Ledger_UserID e)"
  shows "accounts_ok (appendLedgerEntry newID now e db)"
proof -
  obtain u where u: "map_of (Users db) (Ledger_UserID e) = Some u"
    using assms(2) by (auto simp: mhas_def)
  show ?thesis
    using books_entry [OF assms(1) u, of "stampedEntry newID now (length (ComputeLedger db)) e"]
    by (simp add: appendLedgerEntry_eq [OF assms(1) u])
qed

lemma books_new_user:
  assumes "books_ok users es" and "\<not> mhas users uid" and "uid \<noteq> []" and "User_ID u = uid" and "User_ComputeBalance u = 0"
  shows "books_ok (mput uid u users) es"
proof -
  have "filter (\<lambda>e. Ledger_UserID e = uid) es = []"
    using assms(1,2) by (auto simp: books_ok_def filter_empty_conv)
  then have "wrap64 (user_total es uid) = 0"
    by (simp add: user_total_def wrap64_def)
  with assms(3-5) show ?thesis
    using books_entries [OF assms(1)] by (intro books_mput [OF assms(1)]) auto
qed

lemma books_same_balance:
  assumes "books_ok users es" and "map_of users uid = Some u" and "User_ID u' = User_ID u"
    and "User_ComputeBalance u' = User_ComputeBalance u"
  shows "books_ok (mput uid u' users) es"
  using assms(3,4) books_balance [OF assms(1,2)] books_total [OF assms(1,2)] books_entries [OF assms(1)]
  by (intro books_mput [OF assms(1)]) auto

subsection \<open>Every accounting operation keeps the books\<close>

lemma appendLedgerEntry_sel [simp]:
  "Nodes (appendLedgerEntry newID now e db) = Nodes db"
  "Slots (appendLedgerEntry newID now e db) = Slots db"
  "Tasks (appendLedgerEntry newID now e db) = Tasks db"
  "Attempts (appendLedgerEntry newID now e db) = Attempts db"
  "Reports (appendLedgerEntry newID now e db) = Reports db"
  "Profiles (appendLedgerEntry newID now e db) = Profiles db"
  "Policies (appendLedgerEntry newID now e db) = Policies db"
  "Assignments (appendLedgerEntry newID now e db) = Assignments db"
  "APIKeys (appendLedgerEntry newID now e db) = APIKeys db"
  "NodeTokenHashes (appendLedgerEntry newID now e db) = NodeTokenHashes db"
  "Audit (appendLedgerEntry newID now e db) = Audit db"
  by (simp_all add: appendLedgerEntry_def applyLedgerBalance_def Let_def)

lemma reportLedger_sel [simp]:
  "Nodes (appendConsumptionLedger newID r now db) = Nodes db"
  "Tasks (appendConsumptionLedger newID r now db) = Tasks db"
  "Attempts (appendConsumptionLedger newID r now db) = Attempts db"
  "Slots (appendConsumptionLedger newID r now db) = Slots db"
  "Reports (appendConsumptionLedger newID r now db) = Reports db"
  "Profiles (appendConsumptionLedger newID r now db) = Profiles db"
  "APIKeys (appendConsumptionLedger newID r now db) = APIKeys db"
  "NodeTokenHashes (appendConsumptionLedger newID r now db) = NodeTokenHashes db"
  "Nodes (appendProductionLedger newID r now db) = Nodes db"
  "Tasks (appendProductionLedger newID r now db) = Tasks db"
  "Attempts (appendProductionLedger newID r now db) = Attempts db"
  "Slots (appendProductionLedger newID r now db) = Slots db"
  "Reports (appendProductionLedger newID r now db) = Reports db"
  "Profiles (appendProductionLedger newID r now db) = Profiles db"
  "APIKeys (appendProductionLedger newID r now db) = APIKeys db"
  "NodeTokenHashes (appendProductionLedger newID r now db) = NodeTokenHashes db"
  by (simp_all add: appendConsumptionLedger_def appendProductionLedger_def Let_def)

lemma applyReportAccounting_sel [simp]:
  "Nodes (fst (applyReportAccounting newID db r now)) = Nodes db"
  "Tasks (fst (applyReportAccounting newID db r now)) = Tasks db"
  "Attempts (fst (applyReportAccounting newID db r now)) = Attempts db"
  "Slots (fst (applyReportAccounting newID db r now)) = Slots db"
  "Reports (fst (applyReportAccounting newID db r now)) = Reports db"
  "Profiles (fst (applyReportAccounting newID db r now)) = Profiles db"
  "APIKeys (fst (applyReportAccounting newID db r now)) = APIKeys db"
  "NodeTokenHashes (fst (applyReportAccounting newID db r now)) = NodeTokenHashes db"
  by (simp_all add: applyReportAccounting_def Let_def)

lemma applyReportAccounting_ok:
  assumes "accounts_ok db"
  shows "accounts_ok (fst (applyReportAccounting newID db r now))"
proof -
  have "accounts_ok (appendConsumptionLedger newID r' now d)" if "accounts_ok d" for r' d
    using appendLedgerEntry_ok [OF that] that by (simp add: appendConsumptionLedger_def)
  moreover have "accounts_ok (appendProductionLedger newID r' now d)" if "accounts_ok d" for r' d
    using appendLedgerEntry_ok [OF that] that by (simp add: appendProductionLedger_def Let_def)
  ultimately show ?thesis
    using assms by (simp add: applyReportAccounting_def Let_def)
qed

lemma storeAdminAdjustment_ok:
  "accounts_ok db \<Longrightarrow> storeAdminAdjustment newID e now db = Inr db' \<Longrightarrow> accounts_ok db'"
  using appendLedgerEntry_ok [of db e newID now] by (auto simp: storeAdminAdjustment_def split: if_splits)

lemma handleAdminBalanceAdjustment_ok:
  "accounts_ok db \<Longrightarrow> handleAdminBalanceAdjustment newID req now db = Inr db' \<Longrightarrow> accounts_ok db'"
  by (auto simp: handleAdminBalanceAdjustment_def split: sum.splits dest: storeAdminAdjustment_ok)

lemma newUser_sel:
  "User_ID (newUser newID req now db) = (if CreateUser_ID req = [] then newID ''usr'' (length (Users db)) else CreateUser_ID req)"
  "User_ComputeBalance (newUser newID req now db) = 0"
  by (simp_all add: newUser_def Let_def)

lemma handleAdminUserCreate_ok:
  assumes "accounts_ok db" and "handleAdminUserCreate newID req now db = Inr db'" and "\<And>p n. newID p n \<noteq> []"
  shows "accounts_ok db'"
  using assms books_new_user [OF assms(1), of "User_ID (newUser newID req now db)" "newUser newID req now db"]
  by (auto simp: handleAdminUserCreate_def newUser_sel Let_def split: if_splits)

lemma updateUser_ok:
  assumes "accounts_ok db" and "updateUser newID req now db = Inr db'"
  shows "accounts_ok db'"
proof -
  obtain u where u: "map_of (Users db) (UpdateUser_ID req) = Some u"
    using assms(2) by (auto simp: updateUser_def split: if_splits option.splits)
  then have "User_ID u = UpdateUser_ID req"
    using books_balance [OF assms(1)] by blast
  with u assms show ?thesis
    by (auto simp: updateUser_def Let_def split: if_splits intro!: books_same_balance)
qed

lemma ensureConfiguredClientKey_ok:
  assumes "accounts_ok db"
  shows "accounts_ok (ensureConfiguredClientKey sha cfg now db)"
proof -
  have "books_ok (mput defaultClientUserID (zero_User\<lparr>User_ID := defaultClientUserID,
      User_Name := ''Configured API client'', User_CreatedAt := now\<rparr>) (Users db)) (ComputeLedger db)"
    if "\<not> mhas (Users db) defaultClientUserID"
    using books_new_user [OF assms that] by (simp add: defaultClientUserID_def)
  with assms show ?thesis
    by (simp add: ensureConfiguredClientKey_def Let_def)
qed

lemma other_ops_accounts:
  "setProfileComputeCost newID sreq now db = Inr db' \<Longrightarrow> Users db' = Users db \<and> ComputeLedger db' = ComputeLedger db"
  "storeAPIKey newID key db = Inr db' \<Longrightarrow> Users db' = Users db \<and> ComputeLedger db' = ComputeLedger db"
  "revokeAPIKey newID kid now db = Inr db' \<Longrightarrow> Users db' = Users db \<and> ComputeLedger db' = ComputeLedger db"
  "authenticateClient sha token now db = Inr (user, db') \<Longrightarrow> Users db' = Users db \<and> ComputeLedger db' = ComputeLedger db"
  by (auto simp: setProfileComputeCost_def storeAPIKey_def revokeAPIKey_def authenticateClient_def Let_def
      split: option.splits if_splits)

subsection \<open>Active keys\<close>

definition live_key :: "string \<Rightarrow> APIKey \<Rightarrow> bool" where
  "live_key hash key \<longleftrightarrow> Key_TokenHash key = hash \<and> Key_Status key = APIKeyStatusActive \<and> Key_RevokedAt key = None"

definition keys_ok :: "Database \<Rightarrow> bool" where
  "keys_ok db \<longleftrightarrow> keyed Key_ID (APIKeys db) \<and> \<not> mhas (APIKeys db) []"

lemma activeAPIKeyForHash_loop_eq:
  assumes "\<forall>key \<in> set keys. Key_ID key \<noteq> []"
  shows "activeAPIKeyForHash_loop hash found keys =
    (case filter (live_key hash) keys of
       [] \<Rightarrow> if Key_ID found \<noteq> [] then Some found else None
     | [key] \<Rightarrow> if Key_ID found \<noteq> [] then None else Some key
     | _ \<Rightarrow> None)"
  using assms by (induction keys arbitrary: found) (auto simp: live_key_def split: list.splits)

lemma keys_ok_nonempty: "keys_ok db \<Longrightarrow> key \<in> set (mvals (APIKeys db)) \<Longrightarrow> Key_ID key \<noteq> []"
  by (auto simp: keys_ok_def keyed_mvals mhas_def)

lemma activeAPIKeyForHash_eq:
  "keys_ok db \<Longrightarrow> activeAPIKeyForHash db hash =
    (case filter (live_key hash) (mvals (APIKeys db)) of [key] \<Rightarrow> Some key | _ \<Rightarrow> None)"
  using keys_ok_nonempty
  by (simp add: activeAPIKeyForHash_def activeAPIKeyForHash_loop_eq split: list.split)

text \<open>The live keys after a new key is stored.\<close>

lemma filter_mvals_new:
  "\<not> mhas m k \<Longrightarrow> filter P (mvals (mput k v m)) = filter P (mvals m) @ (if P v then [v] else [])"
  by (simp add: mvals_mput_new mhas_def mvals_def)

lemma mput_mput_same [simp]: "mput k v (mput k w m) = mput k v m"
  by (induction m) (auto simp: mput_def)

subsection \<open>What a report posts\<close>

lemma appendLedgerEntry_effect:
  assumes "accounts_ok db" and "mhas (Users db) (Ledger_UserID e)"
  shows "map_of (Users (appendLedgerEntry newID now e db)) uid = map_option (\<lambda>u. u\<lparr>User_ComputeBalance :=
      wrap64 (User_ComputeBalance u + (if uid = Ledger_UserID e then ledger_delta e else 0))\<rparr>) (map_of (Users db) uid)"
    and "ComputeLedger (appendLedgerEntry newID now e db) =
      ComputeLedger db @ [stampedEntry newID now (length (ComputeLedger db)) e]"
proof -
  obtain u where u: "map_of (Users db) (Ledger_UserID e) = Some u"
    using assms(2) by (auto simp: mhas_def)
  show "map_of (Users (appendLedgerEntry newID now e db)) uid = map_option (\<lambda>u. u\<lparr>User_ComputeBalance :=
      wrap64 (User_ComputeBalance u + (if uid = Ledger_UserID e then ledger_delta e else 0))\<rparr>) (map_of (Users db) uid)"
    using books_balance [OF assms(1)]
    by (cases "map_of (Users db) uid") (auto simp: appendLedgerEntry_eq [OF assms(1) u] u wrap64_id)
  show "ComputeLedger (appendLedgerEntry newID now e db) =
      ComputeLedger db @ [stampedEntry newID now (length (ComputeLedger db)) e]"
    by (simp add: appendLedgerEntry_eq [OF assms(1) u])
qed

definition report_owner :: "Database \<Rightarrow> ComputeReport \<Rightarrow> string" where
  "report_owner db r = Node_OwnerUserID (mget zero_Node (Nodes db) (Report_NodeID r))"

lemma appendConsumptionLedger_cases:
  obtains (none) "\<And>t d. Users d = Users db \<Longrightarrow> appendConsumptionLedger newID r t d = d" "\<not> mhas (Users db) (Report_UserID r)"
  | (entry) e where "appendConsumptionLedger newID r now db = appendLedgerEntry newID now e db"
      "mhas (Users db) (Ledger_UserID e)" "Ledger_UserID e = Report_UserID r" "Ledger_ReportID e = Report_ID r"
      "ledger_delta e = - Report_ComputeCost r"
proof (cases "mhas (Users db) (Report_UserID r)")
  case False
  then show ?thesis by (intro none) (simp_all add: appendConsumptionLedger_def)
next
  case True
  show ?thesis
    by (rule entry, simp only: appendConsumptionLedger_def True not_True_eq_False if_False)
      (simp_all add: True ledger_delta_def)
qed

lemma appendProductionLedger_cases:
  assumes "\<not> mhas (Users db) []"
  obtains (none) "\<And>t d. Users d = Users db \<Longrightarrow> Nodes d = Nodes db \<Longrightarrow> appendProductionLedger newID r t d = d"
      "\<not> mhas (Users db) (report_owner db r)"
  | (entry) e where "appendProductionLedger newID r now db = appendLedgerEntry newID now e db"
      "mhas (Users db) (Ledger_UserID e)" "Ledger_UserID e = report_owner db r" "Ledger_ReportID e = Report_ID r"
      "ledger_delta e = Report_ComputeCost r"
proof (cases "mhas (Users db) (report_owner db r)")
  case False
  then show ?thesis by (intro none) (simp_all add: appendProductionLedger_def report_owner_def Let_def)
next
  case True
  moreover from this have "Node_OwnerUserID (mget zero_Node (Nodes db) (Report_NodeID r)) \<noteq> []"
    using assms by (auto simp: report_owner_def)
  ultimately show ?thesis
    by (intro entry, simp only: appendProductionLedger_def report_owner_def not_True_eq_False if_False Let_def)
      (simp_all add: report_owner_def ledger_delta_def)
qed

lemma appendConsumptionLedger_effect:
  assumes "accounts_ok db"
  shows "accounts_ok (appendConsumptionLedger newID r now db) \<and>
    map_of (Users (appendConsumptionLedger newID r now db)) uid = map_option (\<lambda>u. u\<lparr>User_ComputeBalance :=
      wrap64 (User_ComputeBalance u - (if uid = Report_UserID r then Report_ComputeCost r else 0))\<rparr>) (map_of (Users db) uid) \<and>
    (\<exists>es. ComputeLedger (appendConsumptionLedger newID r now db) = ComputeLedger db @ es \<and> length es \<le> 1 \<and>
       list_all (\<lambda>e. Ledger_ReportID e = Report_ID r) es \<and>
       (es = [] \<longrightarrow> (\<forall>t. appendConsumptionLedger newID r t db = db)))"
proof (cases rule: appendConsumptionLedger_cases [where db = db and newID = newID and r = r and now = now])
  case none
  have "appendConsumptionLedger newID r t db = db" for t
    by (rule none(1)) simp
  moreover have "map_of (Users db) uid = map_option (\<lambda>u. u\<lparr>User_ComputeBalance :=
      wrap64 (User_ComputeBalance u - (if uid = Report_UserID r then Report_ComputeCost r else 0))\<rparr>) (map_of (Users db) uid)"
    using none(2) books_balance [OF assms] by (cases "map_of (Users db) uid") (auto simp: mhas_def wrap64_id)
  ultimately show ?thesis
    using assms by simp
next
  case (entry e)
  show ?thesis
    using appendLedgerEntry_ok [OF assms entry(2)] entry(3-5)
    by (auto simp: entry(1) appendLedgerEntry_effect [OF assms entry(2)] intro!: option.map_cong)
qed

lemma appendProductionLedger_effect:
  assumes "accounts_ok db"
  shows "map_of (Users (appendProductionLedger newID r now db)) uid = map_option (\<lambda>u. u\<lparr>User_ComputeBalance :=
      wrap64 (User_ComputeBalance u + (if uid = report_owner db r then Report_ComputeCost r else 0))\<rparr>) (map_of (Users db) uid) \<and>
    (\<exists>es. ComputeLedger (appendProductionLedger newID r now db) = ComputeLedger db @ es \<and> length es \<le> 1 \<and>
       list_all (\<lambda>e. Ledger_ReportID e = Report_ID r) es \<and>
       (es = [] \<longrightarrow> (\<forall>t. appendProductionLedger newID r t db = db)))"
proof (cases rule: appendProductionLedger_cases [OF books_user [OF assms], where newID = newID and r = r and now = now, case_names none entry])
  case none
  have "appendProductionLedger newID r t db = db" for t
    by (rule none(1)) simp_all
  moreover have "map_of (Users db) uid = map_option (\<lambda>u. u\<lparr>User_ComputeBalance :=
      wrap64 (User_ComputeBalance u + (if uid = report_owner db r then Report_ComputeCost r else 0))\<rparr>) (map_of (Users db) uid)"
    using none(2) books_balance [OF assms] by (cases "map_of (Users db) uid") (auto simp: mhas_def wrap64_id)
  ultimately show ?thesis by simp
next
  case (entry e)
  show ?thesis
    using entry(3-5)
    by (auto simp: entry(1) appendLedgerEntry_effect [OF assms entry(2)] intro!: option.map_cong)
qed

text \<open>The report as it is billed: user, version and cost come from the attempt or the task if they have them.\<close>

definition billedReport :: "Database \<Rightarrow> ComputeReport \<Rightarrow> ComputeReport" where
  "billedReport db report = snd (applyReportAccounting (\<lambda>_ _. []) db report 0)"

lemma applyReportAccounting_eq:
  "applyReportAccounting newID db report now =
     (if Report_Status report = TaskStatusCompleted \<and> 0 < Report_ComputeCost (billedReport db report) \<and>
         \<not> ledgerExistsForReport db (Report_ID report)
      then (appendProductionLedger newID (billedReport db report) now
              (appendConsumptionLedger newID (billedReport db report) now db), billedReport db report)
      else (db, billedReport db report))"
proof -
  have "billedReport db report = report\<lparr>
      Report_UserID := firstNonEmpty [Attempt_UserID (mget zero_Attempt (Attempts db) (Report_AttemptID report)),
        Task_UserID (mget zero_Task (Tasks db) (Report_TaskID report)), Report_UserID report],
      Report_ProfileVersion := firstNonZero [Attempt_ProfileVersion (mget zero_Attempt (Attempts db) (Report_AttemptID report)),
        Task_ProfileVersion (mget zero_Task (Tasks db) (Report_TaskID report)), Report_ProfileVersion report],
      Report_ComputeCost := firstNonZero [Attempt_ComputeCost (mget zero_Attempt (Attempts db) (Report_AttemptID report)),
        Task_ComputeCost (mget zero_Task (Tasks db) (Report_TaskID report)), Report_ComputeCost report]\<rparr>"
    by (simp only: billedReport_def applyReportAccounting_def Let_def if_distrib [of snd] snd_conv if_cancel)
  then show ?thesis
    by (simp add: applyReportAccounting_def Let_def)
qed

lemma billedReport_sel [simp]:
  "Report_ID (billedReport db report) = Report_ID report"
  "Report_Status (billedReport db report) = Report_Status report"
  "Report_NodeID (billedReport db report) = Report_NodeID report"
  by (simp_all add: billedReport_def applyReportAccounting_def Let_def)

lemma billedReport_cong:
  assumes "Attempts d = Attempts db" and "Tasks d = Tasks db"
  shows "billedReport d report = billedReport db report"
  by (simp only: billedReport_def applyReportAccounting_def Let_def assms if_distrib [of snd] snd_conv if_cancel)

lemma wrap64_neg_neg: "in64 a \<Longrightarrow> wrap64 (x - wrap64 (- a)) = wrap64 (x + a)"
  unfolding wrap64_eq_iff by (metis diff_minus_eq_add mod_diff_right_eq wrap64_cong)

subsection \<open>Properties\<close>

lemma applyReportAccounting_billed:
  assumes "Report_Status report = TaskStatusCompleted" and "0 < Report_ComputeCost (billedReport db report)"
    and "Attempts d = Attempts db" and "Tasks d = Tasks db"
  shows "applyReportAccounting newID d report t =
    (if ledgerExistsForReport d (Report_ID report) then (d, billedReport db report)
     else (appendProductionLedger newID (billedReport db report) t (appendConsumptionLedger newID (billedReport db report) t d), billedReport db report))"
  using billedReport_cong [OF assms(3,4), of report] assms(1,2) by (simp add: applyReportAccounting_eq)

text \<open>C12: billing is exact. For a completed report with a positive cost and no ledger entry yet,
  every balance changes by exactly the cost: minus for the client, plus for the owner of
  the node, nothing for anyone else (in \<^verbatim>\<open>int64\<close>; a client that owns the node ends even).
  The ledger gains only entries for this report, and accounting for the report again,
  at any later time, changes nothing: no report is billed twice.\<close>

theorem billing_exact:
  assumes "accounts_ok db" and "applyReportAccounting newID db report now = (db', report')"
    and "Report_Status report = TaskStatusCompleted" and "0 < Report_ComputeCost report'"
    and "\<not> ledgerExistsForReport db (Report_ID report)"
  shows "map_of (Users db') uid = map_option (\<lambda>u. u\<lparr>User_ComputeBalance := wrap64 (User_ComputeBalance u
        - (if uid = Report_UserID report' then Report_ComputeCost report' else 0)
        + (if uid = Node_OwnerUserID (mget zero_Node (Nodes db) (Report_NodeID report))
           then Report_ComputeCost report' else 0))\<rparr>) (map_of (Users db) uid) \<and>
    (\<exists>es. ComputeLedger db' = ComputeLedger db @ es \<and> length es \<le> 2 \<and>
       list_all (\<lambda>e. Ledger_ReportID e = Report_ID report) es) \<and>
    applyReportAccounting newID db' report later = (db', report')"
proof -
  define r where "r = report'"
  define owner where "owner = Node_OwnerUserID (mget zero_Node (Nodes db) (Report_NodeID report))"
  have r: "billedReport db report = r"
    using assms(2) by (auto simp: applyReportAccounting_eq r_def split: if_splits)
  have rs: "Report_Status r = TaskStatusCompleted" "Report_ID r = Report_ID report" "Report_NodeID r = Report_NodeID report"
    using assms(3) by (simp_all flip: r)
  note step = applyReportAccounting_billed [OF assms(3), of db, unfolded r, OF assms(4) [folded r_def]]
  let ?d1 = "appendConsumptionLedger newID r now db"
  have db': "db' = appendProductionLedger newID r now ?d1"
    using step [OF refl refl, of newID now] assms(2,5) by simp
  have "accounts_ok db" by fact
  note c = appendConsumptionLedger_effect [OF this, of newID r now uid]
  then have "accounts_ok ?d1" by blast
  note p = appendProductionLedger_effect [OF this, of newID r now uid, folded db']
  have own: "report_owner ?d1 r = owner"
    by (simp add: report_owner_def owner_def rs)
  obtain es es' where es: "ComputeLedger ?d1 = ComputeLedger db @ es" "length es \<le> 1"
      "list_all (\<lambda>e. Ledger_ReportID e = Report_ID report) es" "es = [] \<Longrightarrow> appendConsumptionLedger newID r t db = db"
    and es': "ComputeLedger db' = ComputeLedger ?d1 @ es'" "length es' \<le> 1"
      "list_all (\<lambda>e. Ledger_ReportID e = Report_ID report) es'" "es' = [] \<Longrightarrow> appendProductionLedger newID r t ?d1 = ?d1" for t
    using c p unfolding rs(2) by blast
  have balance: "map_of (Users db') uid = map_option (\<lambda>u. u\<lparr>User_ComputeBalance := wrap64 (User_ComputeBalance u
        - (if uid = Report_UserID r then Report_ComputeCost r else 0)
        + (if uid = owner then Report_ComputeCost r else 0))\<rparr>) (map_of (Users db) uid)"
    using c p by (cases "map_of (Users db) uid") (simp_all add: own)
  have again: "applyReportAccounting newID db' report later = (db', r)"
  proof (cases "es @ es' = []")
    case True
    then have "?d1 = db" "db' = db" "appendConsumptionLedger newID r later db = db" "appendProductionLedger newID r later db = db"
      using es(4) es'(4) db' by simp_all
    then show ?thesis
      using step [OF refl refl, of newID later] assms(5) by simp
  next
    case False
    then have "ledgerExistsForReport db' (Report_ID report)"
      using es(1,3) es'(1,3) by (cases es; cases es') (auto simp: ledgerExistsForReport_def)
    then show ?thesis
      by (simp add: step db')
  qed
  show ?thesis
    using balance again es(1-3) es'(1-3) by (auto simp: owner_def r_def)
qed

definition sample_report :: ComputeReport where
  "sample_report = zero_ComputeReport\<lparr>Report_ID := ''rep'', Report_TaskID := ''t1'', Report_NodeID := ''n1'',
     Report_Status := TaskStatusCompleted\<rparr>"

definition sample_billing_db :: Database where
  "sample_billing_db = sample_db\<lparr>Users := [(''client'', sample_user\<lparr>User_ComputeBalance := 0\<rparr>), (''owner'', sample_owner)],
     Tasks := [(''t1'', zero_Task\<lparr>Task_ID := ''t1'', Task_UserID := ''client'', Task_ComputeCost := 5\<rparr>)]\<rparr>"

theorem billing_exact_witness:
  "map_option User_ComputeBalance (map_of (Users (fst (applyReportAccounting (\<lambda>_ _. ''x'') sample_billing_db sample_report 7))) ''client'')
     = Some (-5)"
proof -
  have "accounts_ok sample_billing_db" by code_simp
  moreover have "Report_Status sample_report = TaskStatusCompleted" by code_simp
  moreover have "0 < Report_ComputeCost (snd (applyReportAccounting (\<lambda>_ _. ''x'') sample_billing_db sample_report 7))"
    by code_simp
  moreover have "\<not> ledgerExistsForReport sample_billing_db (Report_ID sample_report)" by code_simp
  ultimately have "map_of (Users (fst (applyReportAccounting (\<lambda>_ _. ''x'') sample_billing_db sample_report 7))) ''client'' =
      map_option (\<lambda>u. u\<lparr>User_ComputeBalance := wrap64 (User_ComputeBalance u - 5 + 0)\<rparr>)
        (map_of (Users sample_billing_db) ''client'')"
    using billing_exact [of sample_billing_db "\<lambda>_ _. ''x''" sample_report 7
        "fst (applyReportAccounting (\<lambda>_ _. ''x'') sample_billing_db sample_report 7)"
        "snd (applyReportAccounting (\<lambda>_ _. ''x'') sample_billing_db sample_report 7)" "''client''" 8]
    by (simp add: applyReportAccounting_def sample_billing_db_def sample_report_def sample_defs Let_def mget_def)
  then show ?thesis
    by (simp add: sample_billing_db_def sample_defs wrap64_def)
qed

text \<open>C26: a client is authenticated exactly when its token is the token of exactly one active,
  unrevoked key, and the user of that key exists and is not disabled. Authenticating
  records the use of the key and changes nothing else.\<close>

theorem client_authentication:
  assumes "keys_ok db"
  shows "authenticateClient sha256hex token now db = Inr (user, db') \<longleftrightarrow>
    token \<noteq> [] \<and> (\<exists>key. filter (live_key (apiTokenHash sha256hex token)) (mvals (APIKeys db)) = [key] \<and>
      map_of (Users db) (Key_UserID key) = Some user \<and> \<not> User_Disabled user \<and>
      db' = db\<lparr>APIKeys := mput (Key_ID key) (key\<lparr>Key_LastUsedAt := Some now\<rparr>) (APIKeys db)\<rparr>)"
  by (auto simp: authenticateClient_def activeAPIKeyForHash_eq [OF assms] Let_def split: list.splits option.splits)

definition sample_keys_db :: Database where
  "sample_keys_db = sample_db\<lparr>APIKeys := [(''k'', zero_APIKey\<lparr>Key_ID := ''k'', Key_UserID := ''client'',
     Key_TokenHash := ''sha256:tok'', Key_Status := APIKeyStatusActive\<rparr>)]\<rparr>"

theorem client_authentication_witness:
  "\<exists>db'. authenticateClient (\<lambda>s. s) ''tok'' 3 sample_keys_db = Inr (sample_user, db')"
proof -
  have "keys_ok sample_keys_db" by code_simp
  then show ?thesis
    using client_authentication [of sample_keys_db "\<lambda>s. s" "''tok''" 3 sample_user]
    by (auto simp: sample_keys_db_def sample_defs live_key_def apiTokenHash_def mvals_def)
qed

text \<open>The life of an API key. A key issued for an enabled user, under a fresh identifier and
  with a token that no live key has, authenticates exactly that user; once it is revoked,
  its token is refused. Issuing never touches a balance.\<close>

theorem api_key_lifecycle:
  assumes "keys_ok db" and "map_of (Users db) (IssueKey_UserID req) = Some user" and "\<not> User_Disabled user"
    and "newID ''key'' (length (APIKeys db)) = kid" and "kid \<noteq> []" and "\<not> mhas (APIKeys db) kid"
    and "token \<noteq> []" and "\<forall>key \<in> set (mvals (APIKeys db)). \<not> live_key (apiTokenHash sha256hex token) key"
  shows "\<exists>db1 db2 db3.
    storeAPIKey newID (newIssuedAPIKey sha256hex newID token req now db) db = Inr db1 \<and>
    authenticateClient sha256hex token t2 db1 = Inr (user, db2) \<and>
    revokeAPIKey newID kid t3 db2 = Inr db3 \<and>
    authenticateClient sha256hex token t4 db3 = Inl Unauthorized \<and>
    Users db3 = Users db \<and> ComputeLedger db3 = ComputeLedger db"
proof -
  define key where "key = newIssuedAPIKey sha256hex newID token req now db"
  define hash where "hash = apiTokenHash sha256hex token"
  have key: "Key_ID key = kid" "Key_UserID key = IssueKey_UserID req" "live_key hash key"
    using assms(4) by (simp_all add: key_def newIssuedAPIKey_def live_key_def hash_def Let_def)
  have none: "filter (live_key hash) (mvals (APIKeys db)) = []"
    using assms(8) by (simp add: hash_def filter_empty_conv)
  have ok: "keys_ok (d\<lparr>APIKeys := mput kid v (APIKeys db)\<rparr>)" if "Key_ID v = kid" for d v
    using assms(1,5) that by (auto simp: keys_ok_def)
  have live: "activeAPIKeyForHash (d\<lparr>APIKeys := mput kid v (APIKeys db)\<rparr>) hash = (if live_key hash v then Some v else None)"
    if "Key_ID v = kid" for d v
    using none assms(6) by (simp add: activeAPIKeyForHash_eq [OF ok [OF that]] filter_mvals_new)
  define db1 where "db1 = appendAudit newID ''api_key.issued'' ''admin'' kid [] (Key_CreatedAt key)
    (db\<lparr>APIKeys := mput kid key (APIKeys db)\<rparr>)"
  define db2 where "db2 = db1\<lparr>APIKeys := mput kid (key\<lparr>Key_LastUsedAt := Some t2\<rparr>) (APIKeys db)\<rparr>"
  define rev_key where "rev_key = key\<lparr>Key_LastUsedAt := Some t2, Key_Status := APIKeyStatusRevoked, Key_RevokedAt := Some t3\<rparr>"
  define db3 where "db3 = appendAudit newID ''api_key.revoked'' ''admin'' kid [] t3
    (db2\<lparr>APIKeys := mput kid rev_key (APIKeys db)\<rparr>)"
  have users: "Users db1 = Users db" "Users db2 = Users db" "Users db3 = Users db"
    by (simp_all add: db1_def db2_def db3_def)
  have "storeAPIKey newID key db = Inr db1"
    using assms(2) key by (simp add: storeAPIKey_def db1_def mhas_def)
  moreover have "activeAPIKeyForHash db1 hash = Some key"
    using live [of key db1] key by (simp add: db1_def activeAPIKeyForHash_def)
  then have "authenticateClient sha256hex token t2 db1 = Inr (user, db2)"
    using assms(2,3,7) key users by (simp add: authenticateClient_def db2_def db1_def flip: hash_def)
  moreover have "revokeAPIKey newID kid t3 db2 = Inr db3"
    using key by (simp add: revokeAPIKey_def db2_def db3_def rev_key_def)
  moreover have "activeAPIKeyForHash db3 hash = None"
    using live [of rev_key db3] key by (simp add: db3_def rev_key_def live_key_def activeAPIKeyForHash_def)
  then have "authenticateClient sha256hex token t4 db3 = Inl Unauthorized"
    using assms(7) by (simp add: authenticateClient_def flip: hash_def)
  ultimately show ?thesis
    using users by (auto simp: key_def db1_def db2_def db3_def)
qed

theorem api_key_lifecycle_witness:
  "\<exists>db1 db2. storeAPIKey (\<lambda>_ _. ''k'') (newIssuedAPIKey (\<lambda>s. s) (\<lambda>_ _. ''k'') ''tok''
       \<lparr>IssueKey_UserID = ''client'', IssueKey_Name = []\<rparr> 1 sample_db) sample_db = Inr db1 \<and>
     authenticateClient (\<lambda>s. s) ''tok'' 2 db1 = Inr (sample_user, db2)"
  using api_key_lifecycle [of sample_db "\<lparr>IssueKey_UserID = ''client'', IssueKey_Name = []\<rparr>" sample_user
      "\<lambda>_ _. ''k''" "''k''" "''tok''" "\<lambda>s. s" 1 2 3 4]
  by (auto simp: sample_defs keys_ok_def mhas_def mvals_def)

text \<open>A balance adjustment is exact and audited: it is refused without a user or with amount
  zero, and otherwise the balance of that user alone changes by the signed amount, with one
  ledger entry and one audit event.\<close>

theorem admin_adjustment_exact:
  assumes "accounts_ok db" and "in64 (Adjust_Amount req)"
  shows "case handleAdminBalanceAdjustment newID req now db of
      Inl e \<Rightarrow> e = Required ''userId'' \<and> Adjust_UserID req = [] \<or>
        e = Invalid ''amount must be non-zero'' \<and> Adjust_Amount req = 0 \<or>
        e = NotFound ''user'' (Adjust_UserID req) \<and> \<not> mhas (Users db) (Adjust_UserID req)
    | Inr db' \<Rightarrow>
        map_of (Users db') uid = map_option (\<lambda>u. u\<lparr>User_ComputeBalance := wrap64 (User_ComputeBalance u
          + (if uid = Adjust_UserID req then Adjust_Amount req else 0))\<rparr>) (map_of (Users db) uid) \<and>
        length (ComputeLedger db') = Suc (length (ComputeLedger db)) \<and>
        length (Audit db') = Suc (length (Audit db))"
proof (cases "handleAdminBalanceAdjustment newID req now db")
  case (Inr db')
  then obtain e where e: "adminAdjustmentEntry req now = Inr e" and has: "mhas (Users db) (Ledger_UserID e)"
    and db': "db' = appendAudit newID ''compute.admin_adjustment'' ''admin'' (Ledger_UserID e) [] (Ledger_CreatedAt e)
      (appendLedgerEntry newID now e db)"
    by (auto simp: handleAdminBalanceAdjustment_def storeAdminAdjustment_def split: sum.splits if_splits)
  have uid: "Ledger_UserID e = Adjust_UserID req" and delta: "wrap64 (x + ledger_delta e) = wrap64 (x + Adjust_Amount req)" for x
    using e wrap64_neg_neg [OF assms(2)]
    by (auto simp: adminAdjustmentEntry_def ledger_delta_def split: if_splits)
  have "map_of (Users db') uid = map_option (\<lambda>u. u\<lparr>User_ComputeBalance := wrap64 (User_ComputeBalance u
          + (if uid = Adjust_UserID req then Adjust_Amount req else 0))\<rparr>) (map_of (Users db) uid)"
    using delta by (simp add: db' appendLedgerEntry_effect [OF assms(1) has] uid)
  then show ?thesis
    using Inr by (simp add: db' appendLedgerEntry_effect [OF assms(1) has])
qed (auto simp: handleAdminBalanceAdjustment_def adminAdjustmentEntry_def storeAdminAdjustment_def
    split: if_splits)

theorem admin_adjustment_exact_witness:
  "\<exists>db'. handleAdminBalanceAdjustment (\<lambda>_ _. ''x'') \<lparr>Adjust_UserID = ''client'', Adjust_Amount = -3, Adjust_Reason = []\<rparr> 1
       sample_billing_db = Inr db' \<and> map_option User_ComputeBalance (map_of (Users db') ''client'') = Some (-3)"
proof -
  have "accounts_ok sample_billing_db" by code_simp
  then show ?thesis
    using admin_adjustment_exact [of sample_billing_db "\<lparr>Adjust_UserID = ''client'', Adjust_Amount = -3, Adjust_Reason = []\<rparr>"
        "''client''" "\<lambda>_ _. ''x''" 1]
    by (auto simp: handleAdminBalanceAdjustment_def adminAdjustmentEntry_def storeAdminAdjustment_def
        sample_billing_db_def sample_defs in64_def mhas_def wrap64_def split: sum.splits)
qed

end
