(* ===== verification/Manager_State.thy ===== *)
theory Manager_State
  imports Protocol Quarantine Accounting
begin

section \<open>The running manager (manager.go, manager_ws.go)\<close>

text \<open>
  Beside the database the manager holds, behind a second mutex, the web-socket sessions of
  the workers and the streams of the attempts that clients wait for. The sessions are
  objects shared by reference: \<open>Mgr_workers\<close> is the store of session objects by session
  identifier, and \<open>Mgr_sessions\<close> maps a node to the session that serves it. An outgoing
  queue holds at most 256 envelopes. An event channel blocks its sender when it is full;
  \<open>Active_events\<close> is all that was sent to it.
\<close>

record workerSession =
  Session_id :: string
  Session_nodeID :: string
  Session_baseURL :: string
  Session_remoteHost :: string
  Session_send :: "Envelope list"
  Session_done :: bool

definition zero_workerSession :: workerSession where
  "zero_workerSession = \<lparr>Session_id = [], Session_nodeID = [], Session_baseURL = [], Session_remoteHost = [],
     Session_send = [], Session_done = False\<rparr>"

lemma zero_workerSession_sel [simp]:
  "Session_id zero_workerSession = []" "Session_nodeID zero_workerSession = []"
  "Session_baseURL zero_workerSession = []" "Session_remoteHost zero_workerSession = []"
  "Session_send zero_workerSession = []" "Session_done zero_workerSession = False"
  by (simp_all add: zero_workerSession_def)

datatype streamEvent =
    EventToken TokenPayload
  | EventFailed AttemptFailedPayload
  | EventReport ComputeReport
  | EventError string

record activeAttempt =
  Active_taskID :: string
  Active_attemptID :: string
  Active_firstOutput :: bool
  Active_events :: "streamEvent list"
  Active_createdAt :: time

text \<open>
  \<open>Mgr_pickDone\<close> is what \<^verbatim>\<open>select\<close> takes in \<^verbatim>\<open>enqueue\<close> when the session is done and its queue
  still has room: Go leaves that choice open.
\<close>

record Manager =
  Mgr_cfg :: ManagerConfig
  Mgr_db :: Database
  Mgr_workers :: "workerSession gomap"
  Mgr_sessions :: "string gomap"
  Mgr_streams :: "activeAttempt gomap"
  Mgr_queue :: nat
  Mgr_tickets :: "time gomap"
  Mgr_pickDone :: bool

text \<open>A transaction on the database: \<^verbatim>\<open>m.store.Update\<close> with a function that cannot fail.\<close>

definition update_db :: "(Database \<Rightarrow> Database) \<Rightarrow> Manager \<Rightarrow> Manager" where
  "update_db f m = m\<lparr>Mgr_db := f (Mgr_db m)\<rparr>"

lemma update_db_sel [simp]:
  "Mgr_db (update_db f m) = f (Mgr_db m)"
  "Mgr_cfg (update_db f m) = Mgr_cfg m"
  "Mgr_workers (update_db f m) = Mgr_workers m"
  "Mgr_sessions (update_db f m) = Mgr_sessions m"
  "Mgr_streams (update_db f m) = Mgr_streams m"
  "Mgr_queue (update_db f m) = Mgr_queue m"
  "Mgr_tickets (update_db f m) = Mgr_tickets m"
  "Mgr_pickDone (update_db f m) = Mgr_pickDone m"
  by (simp_all add: update_db_def)

subsection \<open>Sessions\<close>

definition sendCapacity :: nat where
  "sendCapacity = 256"

definition enqueue :: "bool \<Rightarrow> Envelope \<Rightarrow> workerSession \<Rightarrow> bool \<times> workerSession" where
  "enqueue pickDone msg s =
     (if Session_done s \<and> (pickDone \<or> length (Session_send s) \<ge> sendCapacity) then (False, s)
      else if length (Session_send s) < sendCapacity
      then (True, s\<lparr>Session_send := Session_send s @ [msg]\<rparr>)
      else (False, s))"

text \<open>\<^verbatim>\<open>m.sessions[nodeID]\<close>: the session object that serves a node, if any.\<close>

definition sessionFor :: "Manager \<Rightarrow> string \<Rightarrow> workerSession option" where
  "sessionFor m nodeID = Option.bind (map_of (Mgr_sessions m) nodeID) (map_of (Mgr_workers m))"

text \<open>\<^verbatim>\<open>sess.enqueue(msg)\<close> on a session object; the envelope's own identifier is drawn here.\<close>

definition enqueueSession :: "id_source \<Rightarrow> string \<Rightarrow> Envelope \<Rightarrow> Manager \<Rightarrow> bool \<times> Manager" where
  "enqueueSession newID sid msg m =
     (case map_of (Mgr_workers m) sid of
        None \<Rightarrow> (False, m)
      | Some s \<Rightarrow>
          (let (sent, s') = enqueue (Mgr_pickDone m)
             (msg\<lparr>Env_ID := newID ''msg'' (length (Session_send s))\<rparr>) s
           in (sent, m\<lparr>Mgr_workers := mput sid s' (Mgr_workers m)\<rparr>)))"

definition removeSession :: "workerSession \<Rightarrow> Manager \<Rightarrow> Manager" where
  "removeSession s m =
     (if map_of (Mgr_sessions m) (Session_nodeID s) = Some (Session_id s)
      then m\<lparr>Mgr_sessions := mdel (Session_nodeID s) (Mgr_sessions m)\<rparr> else m)"

definition broadcastP2PConfig :: "json_codec \<Rightarrow> id_source \<Rightarrow> bool \<Rightarrow> Manager \<Rightarrow> Manager" where
  "broadcastP2PConfig J newID enabled m =
     foldl (\<lambda>m sid. snd (enqueueSession newID sid (zero_Envelope\<lparr>Env_Type := MsgP2PConfig,
         Env_Payload := marshalP2PConfig J \<lparr>P2PConfig_Enabled = enabled\<rparr>\<rparr>) m)) m (mvals (Mgr_sessions m))"

definition sendP2PConfigToSession :: "json_codec \<Rightarrow> id_source \<Rightarrow> string \<Rightarrow> Manager \<Rightarrow> Manager" where
  "sendP2PConfigToSession J newID sid m =
     snd (enqueueSession newID sid (zero_Envelope\<lparr>Env_Type := MsgP2PConfig,
       Env_Payload := marshalP2PConfig J \<lparr>P2PConfig_Enabled = Settings_P2PEnabled (Settings (Mgr_db m))\<rparr>\<rparr>) m)"

subsection \<open>Streams\<close>

definition registerStream :: "string \<Rightarrow> activeAttempt \<Rightarrow> Manager \<Rightarrow> Manager" where
  "registerStream attemptID active m = m\<lparr>Mgr_streams := mput attemptID active (Mgr_streams m)\<rparr>"

definition unregisterStream :: "string \<Rightarrow> Manager \<Rightarrow> Manager" where
  "unregisterStream attemptID m = m\<lparr>Mgr_streams := mdel attemptID (Mgr_streams m)\<rparr>"

definition streamForAttempt :: "Manager \<Rightarrow> string \<Rightarrow> activeAttempt option" where
  "streamForAttempt m attemptID = map_of (Mgr_streams m) attemptID"

text \<open>\<^verbatim>\<open>if active := m.streamForAttempt(id); active != nil { active.events <- ev }\<close>\<close>

definition publishEvent :: "string \<Rightarrow> streamEvent \<Rightarrow> Manager \<Rightarrow> Manager" where
  "publishEvent attemptID ev m =
     (case streamForAttempt m attemptID of
        None \<Rightarrow> m
      | Some active \<Rightarrow>
          m\<lparr>Mgr_streams := mput attemptID (active\<lparr>Active_events := Active_events active @ [ev]\<rparr>) (Mgr_streams m)\<rparr>)"

definition publishWorkerDisconnectFailures :: "AttemptFailedPayload list \<Rightarrow> Manager \<Rightarrow> Manager" where
  "publishWorkerDisconnectFailures failed m =
     foldl (\<lambda>m payload. publishEvent (Failed_AttemptID payload) (EventFailed payload) m) m failed"

subsection \<open>The global queue and the tickets of the state socket\<close>

definition acquireQueue :: "Manager \<Rightarrow> Manager option" where
  "acquireQueue m =
     (if int (Mgr_queue m) < Cfg_QueueLimit (Mgr_cfg m) then Some (m\<lparr>Mgr_queue := Suc (Mgr_queue m)\<rparr>) else None)"

definition releaseQueue :: "Manager \<Rightarrow> Manager" where
  "releaseQueue m = m\<lparr>Mgr_queue := Mgr_queue m - 1\<rparr>"

definition adminStateWSTicketTTL :: duration where
  "adminStateWSTicketTTL = 30 * 1000000000"

definition purgeExpiredAdminStateWSTicketsLocked :: "time \<Rightarrow> Manager \<Rightarrow> Manager" where
  "purgeExpiredAdminStateWSTicketsLocked now m =
     m\<lparr>Mgr_tickets := mfilter (\<lambda>_ expiresAt. now < expiresAt) (Mgr_tickets m)\<rparr>"

definition issueAdminStateWSTicket ::
  "(string \<Rightarrow> string) \<Rightarrow> id_source \<Rightarrow> time \<Rightarrow> Manager \<Rightarrow> (string \<times> time) \<times> Manager" where
  "issueAdminStateWSTicket sha256hex newID now m =
     (let ticket = newID ''wst'' (length (Mgr_tickets m));
          expiresAt = now + adminStateWSTicketTTL;
          m1 = purgeExpiredAdminStateWSTicketsLocked now m
      in ((ticket, expiresAt), m1\<lparr>Mgr_tickets := mput (apiTokenHash sha256hex ticket) expiresAt (Mgr_tickets m1)\<rparr>))"

definition consumeAdminStateWSTicket ::
  "(string \<Rightarrow> string) \<Rightarrow> string \<Rightarrow> time \<Rightarrow> Manager \<Rightarrow> bool \<times> Manager" where
  "consumeAdminStateWSTicket sha256hex ticket now m =
     (if ticket = [] then (False, m)
      else (let hash = apiTokenHash sha256hex ticket;
                m1 = purgeExpiredAdminStateWSTicketsLocked now m
            in case map_of (Mgr_tickets m1) hash of
                 None \<Rightarrow> (False, m1)
               | Some expiresAt \<Rightarrow> (now < expiresAt, m1\<lparr>Mgr_tickets := mdel hash (Mgr_tickets m1)\<rparr>)))"

subsection \<open>Lemmas\<close>

lemma enqueue_sel [simp]:
  "Session_id (snd (enqueue b msg s)) = Session_id s"
  "Session_nodeID (snd (enqueue b msg s)) = Session_nodeID s"
  "Session_done (snd (enqueue b msg s)) = Session_done s"
  by (simp_all add: enqueue_def)

text \<open>Everything but the session objects is untouched by a message.\<close>

lemma enqueueSession_sel [simp]:
  "Mgr_db (snd (enqueueSession newID sid msg m)) = Mgr_db m"
  "Mgr_cfg (snd (enqueueSession newID sid msg m)) = Mgr_cfg m"
  "Mgr_sessions (snd (enqueueSession newID sid msg m)) = Mgr_sessions m"
  "Mgr_streams (snd (enqueueSession newID sid msg m)) = Mgr_streams m"
  "Mgr_queue (snd (enqueueSession newID sid msg m)) = Mgr_queue m"
  "Mgr_tickets (snd (enqueueSession newID sid msg m)) = Mgr_tickets m"
  by (simp_all add: enqueueSession_def Let_def split: option.split prod.split)

lemma publishEvent_sel [simp]:
  "Mgr_db (publishEvent a ev m) = Mgr_db m"
  "Mgr_cfg (publishEvent a ev m) = Mgr_cfg m"
  "Mgr_workers (publishEvent a ev m) = Mgr_workers m"
  "Mgr_sessions (publishEvent a ev m) = Mgr_sessions m"
  by (simp_all add: publishEvent_def split: option.split)

lemma publishWorkerDisconnectFailures_sel [simp]:
  "Mgr_db (publishWorkerDisconnectFailures fs m) = Mgr_db m"
  "Mgr_cfg (publishWorkerDisconnectFailures fs m) = Mgr_cfg m"
  "Mgr_workers (publishWorkerDisconnectFailures fs m) = Mgr_workers m"
  "Mgr_sessions (publishWorkerDisconnectFailures fs m) = Mgr_sessions m"
  by (induction fs arbitrary: m) (simp_all add: publishWorkerDisconnectFailures_def)

lemma stream_ops_db [simp]:
  "Mgr_db (registerStream a act m) = Mgr_db m" "Mgr_db (unregisterStream a m) = Mgr_db m"
  "Mgr_db (removeSession s m) = Mgr_db m" "Mgr_cfg (registerStream a act m) = Mgr_cfg m"
  "Mgr_cfg (unregisterStream a m) = Mgr_cfg m" "Mgr_cfg (removeSession s m) = Mgr_cfg m"
  by (simp_all add: registerStream_def unregisterStream_def removeSession_def)

subsection \<open>Properties\<close>

text \<open>A ticket for the state socket works once and for its thirty seconds only: a ticket
  just issued is accepted at every time before it expires and refused from then on, and
  after it was accepted it is refused for ever. The hypothesis on the hash is that the
  other tickets, if any, have other hashes, which the purge keeps.\<close>

theorem state_ticket_single_use:
  assumes "issueAdminStateWSTicket sha256hex newID now m = ((ticket, expiresAt), m')"
    and "ticket \<noteq> []" and "distinct (map fst (Mgr_tickets m))" and "now \<le> t" and "t \<le> t'"
  shows "expiresAt = now + 30 * 1000000000 \<and>
    fst (consumeAdminStateWSTicket sha256hex ticket t m') = (t < expiresAt) \<and>
    fst (consumeAdminStateWSTicket sha256hex ticket t' (snd (consumeAdminStateWSTicket sha256hex ticket t m'))) = False"
proof -
  define hash where "hash = apiTokenHash sha256hex ticket"
  have exp: "expiresAt = now + 30 * 1000000000" and m': "map_of (Mgr_tickets m') hash = Some expiresAt"
    and d: "distinct (map fst (Mgr_tickets m'))"
    using assms(1,3)
    by (auto simp: issueAdminStateWSTicket_def adminStateWSTicketTTL_def hash_def Let_def
        purgeExpiredAdminStateWSTicketsLocked_def)
  have purge: "map_of (Mgr_tickets (purgeExpiredAdminStateWSTicketsLocked s n)) hash =
      (case map_of (Mgr_tickets n) hash of None \<Rightarrow> None | Some v \<Rightarrow> if s < v then Some v else None)"
    if "distinct (map fst (Mgr_tickets n))" for s n
    using map_of_mfilter [OF that] by (simp add: purgeExpiredAdminStateWSTicketsLocked_def)
  have first: "fst (consumeAdminStateWSTicket sha256hex ticket t m') = (t < expiresAt)"
    using assms(2) m' purge [OF d, of t] by (simp add: consumeAdminStateWSTicket_def Let_def flip: hash_def)
  define m2 where "m2 = snd (consumeAdminStateWSTicket sha256hex ticket t m')"
  have "map_of (Mgr_tickets m2) hash = None" and "distinct (map fst (Mgr_tickets m2))"
    using assms(2) m' purge [OF d, of t] d
    by (auto simp: m2_def consumeAdminStateWSTicket_def Let_def purgeExpiredAdminStateWSTicketsLocked_def
        simp flip: hash_def split: option.splits if_splits)
  then have "fst (consumeAdminStateWSTicket sha256hex ticket t' m2) = False"
    using purge [of m2 t'] by (simp add: consumeAdminStateWSTicket_def Let_def flip: hash_def)
  with exp first show ?thesis
    by (simp add: m2_def)
qed

definition sample_codec :: json_codec where
  "sample_codec = \<lparr>unmarshalHello = (\<lambda>_. Inl ''syntax''), unmarshalFullState = (\<lambda>_. Inl ''syntax''),
     unmarshalSlotState = (\<lambda>_. Inl ''syntax''), unmarshalArtifactState = (\<lambda>_. Inl ''syntax''),
     unmarshalToken = (\<lambda>_. Inl ''syntax''), unmarshalAttemptFailed = (\<lambda>_. Inl ''syntax''),
     unmarshalReport = (\<lambda>_. Inl ''syntax''), unmarshalTelemetry = (\<lambda>_. Inl ''syntax''),
     marshalAck = (\<lambda>_. ''{}''), marshalAssignment = (\<lambda>_. ''{}''), marshalExecute = (\<lambda>_. ''{}''),
     marshalCancel = (\<lambda>_. ''{}''), marshalEvict = (\<lambda>_. ''{}''), marshalP2PConfig = (\<lambda>_. ''{}''),
     marshalUpdate = (\<lambda>_. ''{}''), marshalError = (\<lambda>_. ''{}'')\<rparr>"

definition sample_manager :: Manager where
  "sample_manager = \<lparr>Mgr_cfg = zero_ManagerConfig, Mgr_db = sample_db,
     Mgr_workers = [(''s1'', zero_workerSession\<lparr>Session_id := ''s1'', Session_nodeID := ''n1''\<rparr>)],
     Mgr_sessions = [(''n1'', ''s1'')], Mgr_streams = [], Mgr_queue = 0, Mgr_tickets = [], Mgr_pickDone = True\<rparr>"

theorem state_ticket_single_use_witness:
  "fst (consumeAdminStateWSTicket (\<lambda>s. s) ''tk'' 9
     (snd (issueAdminStateWSTicket (\<lambda>s. s) (\<lambda>_ _. ''tk'') 5 sample_manager))) = True"
  using state_ticket_single_use [of "\<lambda>s. s" "\<lambda>_ _. ''tk''" 5 sample_manager "''tk''" "5 + 30 * 1000000000"
      "snd (issueAdminStateWSTicket (\<lambda>s. s) (\<lambda>_ _. ''tk'') 5 sample_manager)" 9 9]
  by (simp add: issueAdminStateWSTicket_def adminStateWSTicketTTL_def sample_manager_def Let_def)

end
