(* ===== verification/Eviction.thy ===== *)
theory Eviction
  imports Manager_State
begin

section \<open>Cache eviction (manager_cache_eviction.go, manager_cache_eviction_state.go)\<close>

text \<open>
  Workers cache model files. The manager asks a worker to evict an artifact when nothing
  desires it any more and nothing on that node is using it; an administrator may pin an
  artifact (\<^verbatim>\<open>keep\<close>), evict it, or have it evicted when idle. Every request leaves an
  eviction record.
\<close>

definition CacheIntentKeep :: string where
  "CacheIntentKeep = ''keep''"

definition CacheIntentEvictWhenIdle :: string where
  "CacheIntentEvictWhenIdle = ''evict_when_idle''"

definition cacheActionEvict :: string where
  "cacheActionEvict = ''evict''"

definition ArtifactEvictionQueued :: string where
  "ArtifactEvictionQueued = ''queued''"

definition ArtifactEvictionBlocked :: string where
  "ArtifactEvictionBlocked = ''blocked''"

definition ArtifactEvictionEvicted :: string where
  "ArtifactEvictionEvicted = ''evicted''"

definition ArtifactEvictionFailed :: string where
  "ArtifactEvictionFailed = ''failed''"

subsection \<open>Eviction records\<close>

fun latestArtifactEvictionID_loop ::
  "string \<Rightarrow> string \<Rightarrow> string \<Rightarrow> time \<Rightarrow> ArtifactEvictionRecord list \<Rightarrow> string" where
  "latestArtifactEvictionID_loop nodeID artifactID rid updatedAt [] = rid"
| "latestArtifactEvictionID_loop nodeID artifactID rid updatedAt (r # rs) =
     (if Evict_NodeID r \<noteq> nodeID \<or> NormalizeSHA256 (Evict_ArtifactID r) \<noteq> artifactID
      then latestArtifactEvictionID_loop nodeID artifactID rid updatedAt rs
      else if rid = [] \<or> Evict_UpdatedAt r > updatedAt
      then latestArtifactEvictionID_loop nodeID artifactID (Evict_ID r) (Evict_UpdatedAt r) rs
      else latestArtifactEvictionID_loop nodeID artifactID rid updatedAt rs)"

definition latestArtifactEvictionID :: "Database \<Rightarrow> string \<Rightarrow> string \<Rightarrow> string" where
  "latestArtifactEvictionID db nodeID artifactID =
     latestArtifactEvictionID_loop nodeID artifactID [] 0 (mvals (ArtifactEvictions db))"

definition upsertArtifactEvictionRecord ::
  "id_source \<Rightarrow> string \<Rightarrow> string \<Rightarrow> string \<Rightarrow> string \<Rightarrow> string \<Rightarrow> time \<Rightarrow> Database \<Rightarrow> Database" where
  "upsertArtifactEvictionRecord newID nodeID artifactID0 reason status failure now db =
     (let artifactID = NormalizeSHA256 artifactID0 in
      if nodeID = [] \<or> artifactID = [] then db
      else (let rid = latestArtifactEvictionID db nodeID artifactID;
                record0 = mget zero_ArtifactEvictionRecord (ArtifactEvictions db) rid;
                record1 = (if Evict_ID record0 = []
                           then record0\<lparr>Evict_ID := newID ''evict'' (length (ArtifactEvictions db)),
                             Evict_NodeID := nodeID, Evict_ArtifactID := artifactID, Evict_RequestedAt := now\<rparr>
                           else record0);
                record2 = (if reason \<noteq> [] then record1\<lparr>Evict_Reason := reason\<rparr> else record1);
                record3 = record2\<lparr>Evict_Status := status, Evict_Failure := failure, Evict_UpdatedAt := now\<rparr>
            in db\<lparr>ArtifactEvictions := mput (Evict_ID record3) record3 (ArtifactEvictions db)\<rparr>))"

definition evictionStatusForArtifactState :: "string \<Rightarrow> string" where
  "evictionStatusForArtifactState state =
     (if state = ''evicted'' then ArtifactEvictionEvicted
      else if state = ''evict_failed'' then ArtifactEvictionFailed else [])"

subsection \<open>Intents\<close>

definition cacheIntentID :: "string \<Rightarrow> string \<Rightarrow> string" where
  "cacheIntentID nodeID artifactID = ReplaceSeparators (nodeID @ ''_'' @ NormalizeSHA256 artifactID)"

definition cacheIntentRecord :: "Database \<Rightarrow> string \<Rightarrow> string \<Rightarrow> CacheIntentRecord" where
  "cacheIntentRecord db nodeID artifactID =
     mget zero_CacheIntentRecord (CacheIntents db) (cacheIntentID nodeID artifactID)"

definition clearCacheIntentRecord :: "string \<Rightarrow> string \<Rightarrow> Database \<Rightarrow> Database" where
  "clearCacheIntentRecord nodeID artifactID db =
     db\<lparr>CacheIntents := mdel (cacheIntentID nodeID artifactID) (CacheIntents db)\<rparr>"

definition containsArtifactID :: "string list \<Rightarrow> string \<Rightarrow> bool" where
  "containsArtifactID items artifactID =
     list_ex (\<lambda>item. NormalizeSHA256 item = NormalizeSHA256 artifactID) items"

definition removeArtifactID :: "string list \<Rightarrow> string \<Rightarrow> string list" where
  "removeArtifactID items artifactID =
     filter (\<lambda>existing. NormalizeSHA256 existing \<noteq> NormalizeSHA256 artifactID) items"

text \<open>The error is the code of \<^verbatim>\<open>artifactDeleteError\<close>.\<close>

definition recordCacheIntent ::
  "id_source \<Rightarrow> string \<Rightarrow> string \<Rightarrow> string \<Rightarrow> time \<Rightarrow> Database \<Rightarrow> string + Database" where
  "recordCacheIntent newID nodeID artifactID0 action now db =
     (let artifactID = NormalizeSHA256 artifactID0 in
      case map_of (Nodes db) nodeID of
        None \<Rightarrow> Inl ''not_found''
      | Some node \<Rightarrow>
          if \<not> containsArtifactID (Node_CachedArtifacts node) artifactID then Inl ''not_found''
          else if action = [] then Inr (clearCacheIntentRecord nodeID artifactID db)
          else (let iid = cacheIntentID nodeID artifactID;
                    intent0 = mget zero_CacheIntentRecord (CacheIntents db) iid;
                    intent1 = (if Intent_ID intent0 = []
                               then zero_CacheIntentRecord\<lparr>Intent_ID := iid, Intent_NodeID := nodeID,
                                 Intent_ArtifactID := artifactID, Intent_RequestedAt := now\<rparr>
                               else intent0);
                    intent2 = intent1\<lparr>Intent_Action := action, Intent_UpdatedAt := now\<rparr>
                in Inr (appendAudit newID (''cache.intent.'' @ action) ''admin'' artifactID
                     [(''nodeId'', AnyString nodeID)] now
                     (db\<lparr>CacheIntents := mput iid intent2 (CacheIntents db)\<rparr>))))"

subsection \<open>What a node may lose\<close>

definition addArtifact :: "string \<Rightarrow> string \<Rightarrow> bool gomap gomap \<Rightarrow> bool gomap gomap" where
  "addArtifact nodeID artifactID0 out =
     (let artifactID = NormalizeSHA256 artifactID0 in
      if nodeID = [] \<or> artifactID = [] then out
      else mput nodeID (mput artifactID True (mget [] out nodeID)) out)"

definition addProfileArtifacts :: "string \<Rightarrow> WorkloadProfile \<Rightarrow> bool gomap gomap \<Rightarrow> bool gomap gomap" where
  "addProfileArtifacts nodeID profile out =
     foldl (\<lambda>out aid. addArtifact nodeID aid out) out (profileArtifactIDs profile)"

definition updateTargets :: "Database \<Rightarrow> UpdateRecord \<Rightarrow> string list" where
  "updateTargets db update =
     (if Update_TargetNodes update \<noteq> [] then Update_TargetNodes update else map fst (Nodes db))"

definition desiredArtifactsByNode :: "Database \<Rightarrow> bool gomap gomap" where
  "desiredArtifactsByNode db =
     (let out = foldl (\<lambda>out assignment.
            if Asg_NodeID assignment = [] \<or> \<not> Asg_DesiredCached assignment then out
            else case map_of (Profiles db) (Asg_ProfileID assignment) of
              None \<Rightarrow> out
            | Some profile \<Rightarrow>
                addProfileArtifacts (Asg_NodeID assignment) (effectiveProfileForAssignment profile assignment) out)
          [] (mvals (Assignments db))
      in foldl (\<lambda>out update. foldl (\<lambda>out nodeID. addArtifact nodeID (Update_ArtifactID update) out) out
           (updateTargets db update)) out (mvals (Updates db)))"

definition activeArtifactsByNode :: "Database \<Rightarrow> bool gomap gomap" where
  "activeArtifactsByNode db =
     (let out = foldl (\<lambda>out attempt.
            if Attempt_Status attempt \<noteq> TaskStatusRunning then out
            else (let out1 = (case map_of (Profiles db) (Attempt_ProfileID attempt) of
                                None \<Rightarrow> out
                              | Some profile \<Rightarrow> addProfileArtifacts (Attempt_NodeID attempt) profile out)
                  in addArtifact (Attempt_NodeID attempt)
                       (Slot_ModelArtifactID (mget zero_Slot (Slots db) (Attempt_SlotID attempt))) out1))
          [] (mvals (Attempts db))
      in foldl (\<lambda>out slot. if Slot_State slot = SlotStateServing
            then addArtifact (Slot_NodeID slot) (Slot_ModelArtifactID slot) out else out)
           out (mvals (Slots db)))"

definition slotBusyForEviction :: "Slot \<Rightarrow> bool" where
  "slotBusyForEviction slot \<longleftrightarrow>
     Slot_ActiveTaskID slot \<noteq> [] \<or>
     Slot_State slot \<in> {SlotStateDownloading, SlotStateLoading, SlotStateWarming, SlotStateServing}"

definition evictionBusyArtifactsByNode :: "Database \<Rightarrow> bool gomap gomap" where
  "evictionBusyArtifactsByNode db =
     foldl (\<lambda>out slot.
        if \<not> slotBusyForEviction slot then out
        else (let out1 = addArtifact (Slot_NodeID slot) (Slot_ModelArtifactID slot) out
              in case map_of (Profiles db) (Slot_ProfileID slot) of
                   None \<Rightarrow> out1
                 | Some profile \<Rightarrow> addProfileArtifacts (Slot_NodeID slot) profile out1))
       (activeArtifactsByNode db) (mvals (Slots db))"

record artifactEvictionTarget =
  Target_nodeID :: string
  Target_artifactID :: string
  Target_reason :: string

definition staleEvictionReason :: "CacheIntentRecord \<Rightarrow> string" where
  "staleEvictionReason intent =
     (if Intent_Action intent = CacheIntentEvictWhenIdle then ''admin_requested_idle'' else [])"

definition marked :: "bool gomap gomap \<Rightarrow> string \<Rightarrow> string \<Rightarrow> bool" where
  "marked out nodeID artifactID = mget False (mget [] out nodeID) artifactID"

definition staleArtifactEvictions :: "Database \<Rightarrow> artifactEvictionTarget list" where
  "staleArtifactEvictions db =
     (let allowed = desiredArtifactsByNode db; busy = evictionBusyArtifactsByNode db in
      concat (map (\<lambda>node. concat (map (\<lambda>cached.
        (let artifactID = NormalizeSHA256 cached;
             intent = cacheIntentRecord db (Node_ID node) artifactID
         in if artifactID = [] \<or> marked allowed (Node_ID node) artifactID \<or> marked busy (Node_ID node) artifactID \<or>
               Intent_Action intent = CacheIntentKeep
            then []
            else [\<lparr>Target_nodeID = Node_ID node, Target_artifactID = artifactID,
                   Target_reason = staleEvictionReason intent\<rparr>]))
        (Node_CachedArtifacts node))) (mvals (Nodes db))))"

subsection \<open>Requests to the workers\<close>

definition recordArtifactEviction ::
  "id_source \<Rightarrow> string \<Rightarrow> string \<Rightarrow> string \<Rightarrow> string \<Rightarrow> string \<Rightarrow> time \<Rightarrow> Manager \<Rightarrow> Manager" where
  "recordArtifactEviction newID nodeID artifactID reason status failure now m =
     update_db (upsertArtifactEvictionRecord newID nodeID artifactID reason status failure now) m"

definition dispatchArtifactEviction ::
  "json_codec \<Rightarrow> id_source \<Rightarrow> string \<Rightarrow> string \<Rightarrow> string \<Rightarrow> time \<Rightarrow> Manager \<Rightarrow> bool \<times> Manager" where
  "dispatchArtifactEviction J newID nodeID artifactID0 reason now m =
     (let artifactID = NormalizeSHA256 artifactID0 in
      case sessionFor m nodeID of
        None \<Rightarrow> (False, recordArtifactEviction newID nodeID artifactID reason ArtifactEvictionBlocked ''worker_offline'' now m)
      | Some sess \<Rightarrow>
          (let (sent, m1) = enqueueSession newID (Session_id sess) (zero_Envelope\<lparr>Env_Type := MsgEvictArtifact,
                 Env_NodeID := nodeID,
                 Env_Payload := marshalEvict J \<lparr>EvictP_ArtifactID = artifactID, EvictP_Reason = reason\<rparr>\<rparr>) m
           in if \<not> sent
              then (False, recordArtifactEviction newID nodeID artifactID reason ArtifactEvictionBlocked
                      ''worker_send_queue_full'' now m1)
              else (True, recordArtifactEviction newID nodeID artifactID reason ArtifactEvictionQueued [] now m1)))"

definition dispatchStaleArtifactEvictions ::
  "json_codec \<Rightarrow> id_source \<Rightarrow> string \<Rightarrow> time \<Rightarrow> Manager \<Rightarrow> Manager" where
  "dispatchStaleArtifactEvictions J newID reason now m =
     foldl (\<lambda>m target. snd (dispatchArtifactEviction J newID (Target_nodeID target) (Target_artifactID target)
         (firstNonEmpty [Target_reason target, reason]) now m)) m (staleArtifactEvictions (cloneDatabase (Mgr_db m)))"

definition validateManualArtifactEviction :: "Database \<Rightarrow> string \<Rightarrow> string \<Rightarrow> string option" where
  "validateManualArtifactEviction db nodeID artifactID =
     (case map_of (Nodes db) nodeID of
        None \<Rightarrow> Some ''not_found''
      | Some node \<Rightarrow>
          if \<not> containsArtifactID (Node_CachedArtifacts node) artifactID then Some ''not_found''
          else if marked (desiredArtifactsByNode db) nodeID artifactID \<or>
                  marked (evictionBusyArtifactsByNode db) nodeID artifactID
          then Some ''artifact_in_use''
          else None)"

subsection \<open>The administrator's actions\<close>

text \<open>The HTTP status of a reply, and its status or error code.\<close>

datatype reply = Reply int string

definition writeManualArtifactEvictionError :: "string \<Rightarrow> reply" where
  "writeManualArtifactEvictionError code = Reply (if code = ''artifact_in_use'' then 409 else 404) code"

definition handleKeepCacheAction ::
  "id_source \<Rightarrow> string \<Rightarrow> string \<Rightarrow> time \<Rightarrow> Manager \<Rightarrow> reply \<times> Manager" where
  "handleKeepCacheAction newID nodeID artifactID now m =
     (case recordCacheIntent newID nodeID artifactID CacheIntentKeep now (Mgr_db m) of
        Inl e \<Rightarrow> (writeManualArtifactEvictionError e, m)
      | Inr db \<Rightarrow> (Reply 200 ''cache_kept'', m\<lparr>Mgr_db := db\<rparr>))"

definition handleEvictCacheAction ::
  "json_codec \<Rightarrow> id_source \<Rightarrow> string \<Rightarrow> string \<Rightarrow> time \<Rightarrow> Manager \<Rightarrow> reply \<times> Manager" where
  "handleEvictCacheAction J newID nodeID artifactID now m =
     (case validateManualArtifactEviction (cloneDatabase (Mgr_db m)) nodeID artifactID of
        Some e \<Rightarrow> (writeManualArtifactEvictionError e, m)
      | None \<Rightarrow>
          (case recordCacheIntent newID nodeID artifactID [] now (Mgr_db m) of
             Inl e \<Rightarrow> (Reply 500 ''store_error'', m)
           | Inr db \<Rightarrow>
               (case dispatchArtifactEviction J newID nodeID artifactID ''admin_requested'' now (m\<lparr>Mgr_db := db\<rparr>) of
                  (False, m1) \<Rightarrow> (Reply 409 ''worker_offline'', m1)
                | (True, m1) \<Rightarrow> (Reply 202 ''eviction_queued'',
                    update_db (appendAudit newID ''artifact.evict_requested'' ''admin'' artifactID
                      [(''nodeId'', AnyString nodeID)] now) m1))))"

definition handleEvictWhenIdleCacheAction ::
  "json_codec \<Rightarrow> id_source \<Rightarrow> string \<Rightarrow> string \<Rightarrow> time \<Rightarrow> Manager \<Rightarrow> reply \<times> Manager" where
  "handleEvictWhenIdleCacheAction J newID nodeID artifactID now m =
     (case recordCacheIntent newID nodeID artifactID CacheIntentEvictWhenIdle now (Mgr_db m) of
        Inl e \<Rightarrow> (writeManualArtifactEvictionError e, m)
      | Inr db \<Rightarrow>
          (let m1 = m\<lparr>Mgr_db := db\<rparr> in
           case validateManualArtifactEviction (cloneDatabase db) nodeID artifactID of
             Some e \<Rightarrow> (Reply 202 ''eviction_deferred'', m1)
           | None \<Rightarrow>
               (case dispatchArtifactEviction J newID nodeID artifactID ''admin_requested_idle'' now m1 of
                  (False, m2) \<Rightarrow> (Reply 202 ''eviction_deferred'', m2)
                | (True, m2) \<Rightarrow> (Reply 202 ''eviction_queued'', m2))))"

definition normalizeCacheArtifactAction :: "string \<Rightarrow> string" where
  "normalizeCacheArtifactAction action =
     (let a = ToLower (TrimSpace action) in
      if a = CacheIntentKeep \<or> a = ''pin'' then CacheIntentKeep
      else if a = cacheActionEvict then cacheActionEvict
      else if a = CacheIntentEvictWhenIdle \<or> a = ''evictwhenidle'' then CacheIntentEvictWhenIdle
      else [])"

definition handleAdminNodeArtifactAction ::
  "json_codec \<Rightarrow> id_source \<Rightarrow> string \<Rightarrow> string \<Rightarrow> string \<Rightarrow> time \<Rightarrow> Manager \<Rightarrow> reply \<times> Manager" where
  "handleAdminNodeArtifactAction J newID nodeID artifactID action now m =
     (let a = normalizeCacheArtifactAction action in
      if a = CacheIntentKeep then handleKeepCacheAction newID nodeID artifactID now m
      else if a = cacheActionEvict then handleEvictCacheAction J newID nodeID artifactID now m
      else if a = CacheIntentEvictWhenIdle then handleEvictWhenIdleCacheAction J newID nodeID artifactID now m
      else (Reply 400 ''bad_request'', m))"

text \<open>The DELETE request of \<^verbatim>\<open>handleAdminNodeArtifactByPath\<close>, which evicts without a recorded intent.\<close>

definition evictNodeArtifact ::
  "json_codec \<Rightarrow> id_source \<Rightarrow> string \<Rightarrow> string \<Rightarrow> time \<Rightarrow> Manager \<Rightarrow> reply \<times> Manager" where
  "evictNodeArtifact J newID nodeID artifactID now m =
     (case validateManualArtifactEviction (cloneDatabase (Mgr_db m)) nodeID artifactID of
        Some e \<Rightarrow> (writeManualArtifactEvictionError e, m)
      | None \<Rightarrow>
          (case dispatchArtifactEviction J newID nodeID artifactID ''admin_requested'' now m of
             (False, m1) \<Rightarrow> (Reply 409 ''worker_offline'', m1)
           | (True, m1) \<Rightarrow> (Reply 202 ''eviction_queued'',
               update_db (appendAudit newID ''artifact.evict_requested'' ''admin'' artifactID [(''nodeId'', AnyString nodeID)] now) m1)))"

subsection \<open>What the marks mean\<close>

definition profile_uses :: "WorkloadProfile \<Rightarrow> string \<Rightarrow> bool" where
  "profile_uses profile artifactID \<longleftrightarrow> artifactID \<noteq> [] \<and> artifactID \<in> NormalizeSHA256 ` set (profileArtifactIDs profile)"

text \<open>An assignment or a worker update wants the artifact on the node.\<close>

definition desired_on :: "Database \<Rightarrow> string \<Rightarrow> string \<Rightarrow> bool" where
  "desired_on db nodeID artifactID \<longleftrightarrow>
     (\<exists>assignment \<in> set (mvals (Assignments db)). Asg_NodeID assignment = nodeID \<and> Asg_DesiredCached assignment \<and>
        (\<exists>profile. map_of (Profiles db) (Asg_ProfileID assignment) = Some profile \<and>
           profile_uses (effectiveProfileForAssignment profile assignment) artifactID)) \<or>
     (\<exists>update \<in> set (mvals (Updates db)). nodeID \<in> set (updateTargets db update) \<and>
        NormalizeSHA256 (Update_ArtifactID update) = artifactID)"

text \<open>A running attempt or a slot that downloads, loads, warms or serves uses the artifact on the node.\<close>

definition in_use_on :: "Database \<Rightarrow> string \<Rightarrow> string \<Rightarrow> bool" where
  "in_use_on db nodeID artifactID \<longleftrightarrow>
     (\<exists>attempt \<in> set (mvals (Attempts db)). Attempt_NodeID attempt = nodeID \<and> Attempt_Status attempt = TaskStatusRunning \<and>
        ((\<exists>profile. map_of (Profiles db) (Attempt_ProfileID attempt) = Some profile \<and> profile_uses profile artifactID) \<or>
         NormalizeSHA256 (Slot_ModelArtifactID (mget zero_Slot (Slots db) (Attempt_SlotID attempt))) = artifactID)) \<or>
     (\<exists>slot \<in> set (mvals (Slots db)). Slot_NodeID slot = nodeID \<and> slotBusyForEviction slot \<and>
        ((\<exists>profile. map_of (Profiles db) (Slot_ProfileID slot) = Some profile \<and> profile_uses profile artifactID) \<or>
         NormalizeSHA256 (Slot_ModelArtifactID slot) = artifactID))"

lemma marked_Nil [simp]: "\<not> marked [] n a"
  by (simp add: marked_def)

lemma marked_addArtifact:
  "n \<noteq> [] \<Longrightarrow> a \<noteq> [] \<Longrightarrow> marked (addArtifact n' a' out) n a \<longleftrightarrow> marked out n a \<or> n = n' \<and> NormalizeSHA256 a' = a"
  by (auto simp: marked_def addArtifact_def Let_def mget_def)

text \<open>A loop that marks more and more artifacts marks what its rounds mark.\<close>

lemma marked_foldl:
  assumes "\<And>out x. marked (f out x) n a \<longleftrightarrow> marked out n a \<or> P x"
  shows "marked (foldl f out xs) n a \<longleftrightarrow> marked out n a \<or> (\<exists>x \<in> set xs. P x)"
  by (induction xs arbitrary: out) (auto simp: assms)

lemma marked_addProfileArtifacts:
  assumes "n \<noteq> []" and "a \<noteq> []"
  shows "marked (addProfileArtifacts n' p out) n a \<longleftrightarrow> marked out n a \<or> n = n' \<and> profile_uses p a"
proof -
  have "marked (addProfileArtifacts n' p out) n a \<longleftrightarrow>
      marked out n a \<or> (\<exists>x \<in> set (profileArtifactIDs p). n = n' \<and> NormalizeSHA256 x = a)"
    unfolding addProfileArtifacts_def by (rule marked_foldl) (simp add: marked_addArtifact assms)
  with assms show ?thesis
    by (auto simp: profile_uses_def)
qed

lemma marked_desired:
  assumes "n \<noteq> []" and "a \<noteq> []"
  shows "marked (desiredArtifactsByNode db) n a \<longleftrightarrow> desired_on db n a"
proof -
  have upd: "marked (foldl (\<lambda>out nodeID. addArtifact nodeID (Update_ArtifactID u) out) out (updateTargets db u)) n a \<longleftrightarrow>
      marked out n a \<or> (n \<in> set (updateTargets db u) \<and> NormalizeSHA256 (Update_ArtifactID u) = a)" for out u
    using marked_foldl [of "\<lambda>out nodeID. addArtifact nodeID (Update_ArtifactID u) out" n a
        "\<lambda>x. n = x \<and> NormalizeSHA256 (Update_ArtifactID u) = a" out "updateTargets db u"]
    by (auto simp: marked_addArtifact assms)
  show ?thesis
    unfolding desiredArtifactsByNode_def desired_on_def Let_def
    by (subst marked_foldl, rule upd, subst marked_foldl)
      (auto simp: marked_addProfileArtifacts assms split: option.split)
qed

lemma marked_busy:
  assumes "n \<noteq> []" and "a \<noteq> []"
  shows "marked (evictionBusyArtifactsByNode db) n a \<longleftrightarrow> in_use_on db n a"
proof -
  let ?uses = "\<lambda>pid. \<exists>profile. map_of (Profiles db) pid = Some profile \<and> profile_uses profile a"
  let ?serving = "\<lambda>slot. Slot_State slot = SlotStateServing \<and> n = Slot_NodeID slot \<and> NormalizeSHA256 (Slot_ModelArtifactID slot) = a"
  have active: "marked (activeArtifactsByNode db) n a \<longleftrightarrow>
      (\<exists>attempt \<in> set (mvals (Attempts db)). Attempt_NodeID attempt = n \<and> Attempt_Status attempt = TaskStatusRunning \<and>
        (?uses (Attempt_ProfileID attempt) \<or>
         NormalizeSHA256 (Slot_ModelArtifactID (mget zero_Slot (Slots db) (Attempt_SlotID attempt))) = a)) \<or>
      (\<exists>slot \<in> set (mvals (Slots db)). ?serving slot)"
    unfolding activeArtifactsByNode_def Let_def
    by (subst marked_foldl [where P = ?serving], simp add: marked_addArtifact assms, subst marked_foldl)
      (auto simp: marked_addArtifact marked_addProfileArtifacts assms split: option.split)
  have serving: "?serving slot \<Longrightarrow> slotBusyForEviction slot" for slot
    by (simp add: slotBusyForEviction_def)
  have busy: "marked (evictionBusyArtifactsByNode db) n a \<longleftrightarrow> marked (activeArtifactsByNode db) n a \<or>
      (\<exists>slot \<in> set (mvals (Slots db)). Slot_NodeID slot = n \<and> slotBusyForEviction slot \<and>
        (?uses (Slot_ProfileID slot) \<or> NormalizeSHA256 (Slot_ModelArtifactID slot) = a))"
    unfolding evictionBusyArtifactsByNode_def Let_def
    by (subst marked_foldl) (auto simp: marked_addArtifact marked_addProfileArtifacts assms split: option.split)
  show ?thesis
    unfolding in_use_on_def busy active using serving by blast
qed

lemma cloneDatabase_Nodes [simp]: "Nodes (cloneDatabase db) = mmap (\<lambda>_. cloneNode) (Nodes db)"
  by (simp add: cloneDatabase_def)

lemma cloneDatabase_sel [simp]:
  "Slots (cloneDatabase db) = Slots db" "Tasks (cloneDatabase db) = Tasks db"
  "Attempts (cloneDatabase db) = Attempts db" "Profiles (cloneDatabase db) = Profiles db"
  "Assignments (cloneDatabase db) = Assignments db" "Updates (cloneDatabase db) = Updates db"
  "CacheIntents (cloneDatabase db) = CacheIntents db" "Artifacts (cloneDatabase db) = Artifacts db"
  by (simp_all add: cloneDatabase_def)

lemma eviction_sel [simp]:
  "Users (upsertArtifactEvictionRecord newID n a r st f now db) = Users db"
  "ComputeLedger (upsertArtifactEvictionRecord newID n a r st f now db) = ComputeLedger db"
  "Slots (upsertArtifactEvictionRecord newID n a r st f now db) = Slots db"
  "Nodes (upsertArtifactEvictionRecord newID n a r st f now db) = Nodes db"
  "Tasks (upsertArtifactEvictionRecord newID n a r st f now db) = Tasks db"
  "Attempts (upsertArtifactEvictionRecord newID n a r st f now db) = Attempts db"
  "Reports (upsertArtifactEvictionRecord newID n a r st f now db) = Reports db"
  "NodeTokenHashes (upsertArtifactEvictionRecord newID n a r st f now db) = NodeTokenHashes db"
  "APIKeys (upsertArtifactEvictionRecord newID n a r st f now db) = APIKeys db"
  "Assignments (upsertArtifactEvictionRecord newID n a r st f now db) = Assignments db"
  "Profiles (upsertArtifactEvictionRecord newID n a r st f now db) = Profiles db"
  by (simp_all add: upsertArtifactEvictionRecord_def Let_def)

subsection \<open>Properties\<close>

text \<open>C22: the manager asks a node to evict an artifact on its own account exactly when the node
  caches it, no assignment and no update wants it there, no running attempt and no slot
  that downloads, loads, warms or serves is using it there, and no administrator pinned it.\<close>

theorem stale_evictions_exact:
  assumes "nodeID \<noteq> []"
  shows "(\<exists>target \<in> set (staleArtifactEvictions db). Target_nodeID target = nodeID \<and> Target_artifactID target = artifactID) \<longleftrightarrow>
    artifactID \<noteq> [] \<and>
    (\<exists>node \<in> set (mvals (Nodes db)). Node_ID node = nodeID \<and> artifactID \<in> NormalizeSHA256 ` set (Node_CachedArtifacts node)) \<and>
    \<not> desired_on db nodeID artifactID \<and> \<not> in_use_on db nodeID artifactID \<and>
    Intent_Action (cacheIntentRecord db nodeID artifactID) \<noteq> CacheIntentKeep"
  (is "?lhs \<longleftrightarrow> ?rhs")
proof
  assume ?lhs
  then obtain node cached where "node \<in> set (mvals (Nodes db))" "Node_ID node = nodeID"
    "cached \<in> set (Node_CachedArtifacts node)" "NormalizeSHA256 cached = artifactID" "artifactID \<noteq> []"
    "\<not> marked (desiredArtifactsByNode db) nodeID artifactID" "\<not> marked (evictionBusyArtifactsByNode db) nodeID artifactID"
    "Intent_Action (cacheIntentRecord db nodeID artifactID) \<noteq> CacheIntentKeep"
    by (auto simp: staleArtifactEvictions_def Let_def split: if_splits)
  then show ?rhs
    using assms marked_desired [of nodeID artifactID db] marked_busy [of nodeID artifactID db] by blast
next
  assume r: ?rhs
  then obtain node cached where n: "node \<in> set (mvals (Nodes db))" "Node_ID node = nodeID"
    "cached \<in> set (Node_CachedArtifacts node)" "NormalizeSHA256 cached = artifactID"
    by auto
  moreover have "\<not> marked (desiredArtifactsByNode db) nodeID artifactID" "\<not> marked (evictionBusyArtifactsByNode db) nodeID artifactID"
    using r assms marked_desired marked_busy by blast+
  ultimately show ?lhs
    using r by (fastforce simp: staleArtifactEvictions_def Let_def)
qed

theorem stale_evictions_exact_witness:
  "\<exists>target \<in> set (staleArtifactEvictions (sample_db\<lparr>Nodes := [(''n1'', sample_node\<lparr>Node_CachedArtifacts := [''sha256:cc'']\<rparr>)]\<rparr>)).
     Target_nodeID target = ''n1'' \<and> Target_artifactID target = ''sha256:cc''"
proof -
  have "NormalizeSHA256 ''sha256:cc'' = ''sha256:cc''" by code_simp
  then show ?thesis
    using stale_evictions_exact [of "''n1''" "sample_db\<lparr>Nodes := [(''n1'', sample_node\<lparr>Node_CachedArtifacts := [''sha256:cc'']\<rparr>)]\<rparr>"
        "''sha256:cc''"]
    by (simp add: sample_defs mvals_def desired_on_def in_use_on_def slotBusyForEviction_def cacheIntentRecord_def
        CacheIntentKeep_def)
qed

text \<open>An administrator cannot evict what is needed. The evict action is refused, and changes
  nothing, when the node is unknown, when it does not cache the artifact, or (with 409)
  when the artifact is desired or in use there; when the eviction is queued, the artifact was
  neither desired nor in use and a worker serves the node.\<close>

theorem admin_evict_guarded:
  assumes "nodeID \<noteq> []" and "artifactID \<noteq> []" and "NormalizeSHA256 artifactID = artifactID"
    and "handleEvictCacheAction J newID nodeID artifactID now m = (reply, m')"
  shows "(reply = Reply 404 ''not_found'' \<longrightarrow> m' = m) \<and>
    (reply = Reply 409 ''artifact_in_use'' \<longleftrightarrow>
       (\<exists>node. map_of (Nodes (Mgr_db m)) nodeID = Some node \<and> containsArtifactID (Node_CachedArtifacts node) artifactID) \<and>
       (desired_on (Mgr_db m) nodeID artifactID \<or> in_use_on (Mgr_db m) nodeID artifactID)) \<and>
    (reply = Reply 409 ''artifact_in_use'' \<longrightarrow> m' = m) \<and>
    (reply = Reply 202 ''eviction_queued'' \<longrightarrow>
       \<not> desired_on (Mgr_db m) nodeID artifactID \<and> \<not> in_use_on (Mgr_db m) nodeID artifactID \<and>
       (\<exists>s. sessionFor m nodeID = Some s))"
proof -
  have clone: "desired_on (cloneDatabase db) n a = desired_on db n a" "in_use_on (cloneDatabase db) n a = in_use_on db n a"
    for db n a
    by (simp_all add: desired_on_def in_use_on_def updateTargets_def)
  note marks = marked_desired [OF assms(1,2), of "cloneDatabase (Mgr_db m)"] marked_busy [OF assms(1,2), of "cloneDatabase (Mgr_db m)"]
  have sess: "sessionFor (m\<lparr>Mgr_db := db\<rparr>) nodeID = sessionFor m nodeID" for db
    by (simp add: sessionFor_def)
  show ?thesis
    using assms(4) marks
    by (auto simp: handleEvictCacheAction_def validateManualArtifactEviction_def writeManualArtifactEvictionError_def
        clone cloneNode_def dispatchArtifactEviction_def sess Let_def
        split: option.splits if_splits sum.splits prod.splits bool.splits)
qed

definition sample_serving_manager :: Manager where
  "sample_serving_manager = sample_manager\<lparr>Mgr_db := sample_db\<lparr>
     Nodes := [(''n1'', sample_node\<lparr>Node_CachedArtifacts := [''sha256:aa'']\<rparr>)],
     Slots := [(''n1/slot0'', sample_slot\<lparr>Slot_State := SlotStateServing\<rparr>)]\<rparr>\<rparr>"

theorem admin_evict_guarded_witness:
  "fst (handleEvictCacheAction sample_codec (\<lambda>_ _. ''x'') ''n1'' ''sha256:aa'' 4 sample_serving_manager) =
     Reply 409 ''artifact_in_use''"
proof -
  have norm: "NormalizeSHA256 ''sha256:aa'' = ''sha256:aa''" by code_simp
  have "in_use_on (Mgr_db sample_serving_manager) ''n1'' ''sha256:aa''"
    by (simp add: sample_serving_manager_def in_use_on_def sample_defs mvals_def slotBusyForEviction_def norm)
  then show ?thesis
    using admin_evict_guarded [OF _ _ norm surjective_pairing, of "''n1''" sample_codec "\<lambda>_ _. ''x''" 4 sample_serving_manager]
    by (simp add: sample_serving_manager_def containsArtifactID_def)
qed

end
