(* ===== verification/Lifecycle.thy ===== *)
theory Lifecycle
  imports Protocol Quarantine Accounting
begin

section \<open>The life of tasks and attempts\<close>

text \<open>
  The database transactions of \<^verbatim>\<open>manager_client.go\<close>, \<^verbatim>\<open>manager_chat.go\<close>,
  \<^verbatim>\<open>manager_scheduler.go\<close>, \<^verbatim>\<open>manager_worker_messages.go\<close>, \<^verbatim>\<open>manager_worker_security.go\<close> and
  \<^verbatim>\<open>manager_ws.go\<close> that move a task from the queue to a slot and to its end. Each runs under
  the store's mutex, so it is one atomic step; a transaction that returns an error has
  changed nothing before.
\<close>

subsection \<open>New tasks\<close>

record ChatCompletionRequest =
  ChatReq_Model :: string
  ChatReq_Messages :: "ChatMessage list"
  ChatReq_Stream :: bool
  ChatReq_MaxTokens :: int
  ChatReq_Temperature :: float64
  ChatReq_MinContext :: int
  ChatReq_ComradMinContextTokens :: int

record chatOptions =
  Opts_minContext :: int
  Opts_maxTokens :: int
  Opts_temperature :: float64

text \<open>\<open>temp02\<close> is the \<^verbatim>\<open>float64\<close> constant 0.2, in IEEE 754.\<close>

definition temp02 :: float64 where
  "temp02 = 0x3FC999999999999A"

text \<open>A \<^verbatim>\<open>float64\<close> equals 0 when it is plus or minus zero.\<close>

definition float_is_zero :: "float64 \<Rightarrow> bool" where
  "float_is_zero f \<longleftrightarrow> f = 0 \<or> f = 0x8000000000000000"

definition defaultChatOptions :: "ChatCompletionRequest \<Rightarrow> chatOptions" where
  "defaultChatOptions req =
     (let minContext = (if ChatReq_ComradMinContextTokens req > ChatReq_MinContext req
                        then ChatReq_ComradMinContextTokens req else ChatReq_MinContext req)
      in \<lparr>Opts_minContext = (if minContext = 0 then 1 else minContext),
          Opts_maxTokens = (if ChatReq_MaxTokens req \<le> 0 then 128 else ChatReq_MaxTokens req),
          Opts_temperature = (if float_is_zero (ChatReq_Temperature req) then temp02 else ChatReq_Temperature req)\<rparr>)"

definition newChatTask ::
  "id_source \<Rightarrow> ChatCompletionRequest \<Rightarrow> WorkloadProfile \<Rightarrow> int \<Rightarrow> User \<Rightarrow> time \<Rightarrow> Database \<Rightarrow> Task" where
  "newChatTask newID req profile minContext user now db = zero_Task\<lparr>
     Task_ID := newID ''task'' (length (Tasks db)), Task_UserID := User_ID user, Task_Kind := ''llm.chat'',
     Task_Model := ChatReq_Model req, Task_ProfileID := Profile_ID profile,
     Task_ProfileVersion := profileVersion profile, Task_LogicalModel := ProfileLogicalModel profile,
     Task_ComputeCost := Profile_ComputeCost profile, Task_MinContextTokens := minContext,
     Task_Status := TaskStatusQueued, Task_Stream := ChatReq_Stream req, Task_CreatedAt := now, Task_UpdatedAt := now\<rparr>"

definition storeNewTask :: "id_source \<Rightarrow> Task \<Rightarrow> bool \<Rightarrow> Database \<Rightarrow> manager_error + Database" where
  "storeNewTask newID task enforceBalance db =
     (case ensureSufficientAvailableBalance db (Task_UserID task) (Task_ComputeCost task) enforceBalance of
        Some e \<Rightarrow> Inl e
      | None \<Rightarrow> Inr (appendAudit newID ''task.created'' ''client'' (Task_ID task) [] (Task_CreatedAt task)
          (db\<lparr>Tasks := mput (Task_ID task) task (Tasks db)\<rparr>)))"

definition clientTask :: "Database \<Rightarrow> User \<Rightarrow> string \<Rightarrow> Task option" where
  "clientTask db user taskID =
     (case map_of (Tasks db) taskID of
        None \<Rightarrow> None
      | Some task \<Rightarrow> if Task_UserID task \<noteq> [] \<and> Task_UserID task \<noteq> User_ID user then None else Some task)"

subsection \<open>Reserving a slot\<close>

definition newAttempt ::
  "id_source \<Rightarrow> Task \<Rightarrow> WorkloadProfile \<Rightarrow> WorkloadProfile \<Rightarrow> Slot \<Rightarrow> time \<Rightarrow> Database \<Rightarrow> Attempt" where
  "newAttempt newID task profile effective slot now db = zero_Attempt\<lparr>
     Attempt_ID := newID ''att'' (length (Attempts db)), Attempt_TaskID := Task_ID task,
     Attempt_UserID := Task_UserID task, Attempt_NodeID := Slot_NodeID slot, Attempt_SlotID := Slot_ID slot,
     Attempt_ProfileID := Profile_ID profile, Attempt_ProfileVersion := Task_ProfileVersion task,
     Attempt_LogicalModel := ProfileLogicalModel effective,
     Attempt_RuntimeVariantID := Profile_RuntimeVariantID effective,
     Attempt_RuntimeAdapter := Profile_RuntimeAdapter effective, Attempt_ComputeCost := Task_ComputeCost task,
     Attempt_Status := TaskStatusRunning, Attempt_Phase := ''assigned'', Attempt_CanRetry := True,
     Attempt_LeaseExpiresAt := now + 30 * 1000000000, Attempt_StartedAt := now\<rparr>"

datatype reserve_error = TaskCancelled | SlotUnavailable

definition reserveAttemptInDB ::
  "id_source \<Rightarrow> Task \<Rightarrow> WorkloadProfile \<Rightarrow> WorkloadProfile \<Rightarrow> Slot \<Rightarrow> Attempt \<Rightarrow> time \<Rightarrow> Database \<Rightarrow>
   reserve_error + Database" where
  "reserveAttemptInDB newID task0 profile effective slot attempt now db =
     (let storedTask = mget zero_Task (Tasks db) (Task_ID task0);
          current = mget zero_Slot (Slots db) (Slot_ID slot)
      in if Task_Status storedTask = TaskStatusCancelled then Inl TaskCancelled
         else if Task_Status storedTask \<noteq> TaskStatusQueued then Inl SlotUnavailable
         else if Slot_State current \<noteq> SlotStateReady \<or> Slot_ActiveTaskID current \<noteq> [] \<or>
                 \<not> Slot_AcceptsNew current \<or> Slot_Quarantined current then Inl SlotUnavailable
         else if Slot_ProfileID current \<noteq> Profile_ID profile \<or>
                 Slot_RuntimeVariantID current \<noteq> Profile_RuntimeVariantID effective then Inl SlotUnavailable
         else (let current' = current\<lparr>Slot_State := SlotStateServing, Slot_ActiveTaskID := Task_ID task0,
                     Slot_LastTaskAt := now, Slot_AcceptsNew := False\<rparr>;
                   db1 = db\<lparr>Slots := mput (Slot_ID current') current' (Slots db)\<rparr>;
                   task = (mget zero_Task (Tasks db1) (Task_ID task0))\<lparr>Task_Status := TaskStatusRunning,
                     Task_ProfileID := Profile_ID profile, Task_ProfileVersion := profileVersion profile,
                     Task_LogicalModel := ProfileLogicalModel effective,
                     Task_RuntimeVariantID := Profile_RuntimeVariantID effective,
                     Task_ComputeCost := Profile_ComputeCost profile, Task_UpdatedAt := now\<rparr>;
                   db2 = db1\<lparr>Tasks := mput (Task_ID task) task (Tasks db1),
                     Attempts := mput (Attempt_ID attempt) attempt (Attempts db1)\<rparr>
               in Inr (appendAudit newID ''attempt.assigned'' ''manager'' (Attempt_ID attempt) [] now db2)))"

subsection \<open>Failing and cancelling\<close>

definition taskIsCancelled :: "Database \<Rightarrow> string \<Rightarrow> bool" where
  "taskIsCancelled db taskID \<longleftrightarrow> Task_Status (mget zero_Task (Tasks db) taskID) = TaskStatusCancelled"

definition taskFinal :: "Task \<Rightarrow> bool" where
  "taskFinal task \<longleftrightarrow> Task_Status task \<in> {TaskStatusCompleted, TaskStatusFailed, TaskStatusCancelled}"

definition failTask :: "string \<Rightarrow> string \<Rightarrow> time \<Rightarrow> Database \<Rightarrow> Database" where
  "failTask taskID reason now db =
     (let task = mget zero_Task (Tasks db) taskID in
      if taskFinal task then db
      else db\<lparr>Tasks := mput taskID (task\<lparr>Task_Status := TaskStatusFailed, Task_FailureReason := reason,
             Task_UpdatedAt := now, Task_CompletedAt := Some now\<rparr>) (Tasks db)\<rparr>)"

text \<open>What a failed attempt does to its task: back to the queue while it may be retried.\<close>

definition retryOrFail :: "bool \<Rightarrow> string \<Rightarrow> string \<Rightarrow> time \<Rightarrow> Task \<Rightarrow> Task" where
  "retryOrFail retry reason slotID now task =
     (let task1 = task\<lparr>Task_FailureReason := reason, Task_UpdatedAt := now,
            Task_FailedSlots := appendUnique (Task_FailedSlots task) slotID\<rparr>
      in if retry
         then task1\<lparr>Task_Status := TaskStatusQueued, Task_RuntimeVariantID := [], Task_CompletedAt := None\<rparr>
         else task1\<lparr>Task_Status := TaskStatusFailed, Task_CompletedAt := Some now\<rparr>)"

definition markAttemptFailed ::
  "id_source \<Rightarrow> ManagerConfig \<Rightarrow> string \<Rightarrow> string \<Rightarrow> string \<Rightarrow> bool \<Rightarrow> bool \<Rightarrow> time \<Rightarrow> Database \<Rightarrow> Database" where
  "markAttemptFailed newID cfg attemptID phase reason canRetry firstOutput now db =
     (let attempt = (mget zero_Attempt (Attempts db) attemptID)\<lparr>Attempt_Status := TaskStatusFailed,
            Attempt_Phase := phase, Attempt_FailureReason := reason, Attempt_CanRetry := canRetry,
            Attempt_FirstOutputSent := firstOutput, Attempt_CompletedAt := Some now\<rparr>;
          db1 = db\<lparr>Attempts := mput attemptID attempt (Attempts db)\<rparr>;
          slot = (mget zero_Slot (Slots db1) (Attempt_SlotID attempt))\<lparr>Slot_State := SlotStateReady,
            Slot_ActiveTaskID := []\<rparr>;
          (db2, slot') = recordSlotFailure newID db1 slot reason now (Cfg_QuarantineThreshold cfg)
            (Cfg_QuarantineDuration cfg);
          db3 = db2\<lparr>Slots := mput (Slot_ID slot') slot' (Slots db2)\<rparr>;
          task = retryOrFail (canRetry \<and> \<not> firstOutput) reason (Attempt_SlotID attempt) now
            (mget zero_Task (Tasks db3) (Attempt_TaskID attempt))
      in db3\<lparr>Tasks := mput (Task_ID task) task (Tasks db3)\<rparr>)"

definition markTaskCancelRequested :: "id_source \<Rightarrow> string \<Rightarrow> string \<Rightarrow> time \<Rightarrow> Database \<Rightarrow> Database" where
  "markTaskCancelRequested newID taskID reason now db =
     (let task = mget zero_Task (Tasks db) taskID in
      if Task_ID task = [] \<or> taskFinal task then db
      else appendAudit newID ''task.cancel_requested'' ''client'' (Task_ID task) [] now
        (db\<lparr>Tasks := mput (Task_ID task) (task\<lparr>Task_Status := TaskStatusCancelled, Task_FailureReason := reason,
             Task_UpdatedAt := now, Task_CompletedAt := Some now\<rparr>) (Tasks db)\<rparr>))"

subsection \<open>What a worker reports\<close>

definition requireWorkerAttempt :: "Database \<Rightarrow> string \<Rightarrow> string \<Rightarrow> string \<Rightarrow> manager_error + Attempt" where
  "requireWorkerAttempt db nodeID attemptID taskID =
     (if attemptID = [] then Inl (Required ''attempt id'')
      else (let attempt = mget zero_Attempt (Attempts db) attemptID in
            if Attempt_ID attempt = [] then Inl (NotFound ''attempt'' attemptID)
            else if Attempt_NodeID attempt \<noteq> nodeID then Inl (NotOwner ''worker'' attemptID)
            else if taskID \<noteq> [] \<and> Attempt_TaskID attempt \<noteq> taskID then Inl (NotOwner ''task'' attemptID)
            else Inr attempt))"

definition attemptStarted :: "string \<Rightarrow> string \<Rightarrow> string \<Rightarrow> Database \<Rightarrow> manager_error + Database" where
  "attemptStarted nodeID attemptID taskID db =
     (case requireWorkerAttempt db nodeID attemptID taskID of
        Inl e \<Rightarrow> Inl e
      | Inr attempt \<Rightarrow> Inr (db\<lparr>Attempts := mput (Attempt_ID attempt)
          (attempt\<lparr>Attempt_Phase := ''running'', Attempt_Status := TaskStatusRunning\<rparr>) (Attempts db)\<rparr>))"

definition attemptLease :: "string \<Rightarrow> string \<Rightarrow> string \<Rightarrow> time \<Rightarrow> Database \<Rightarrow> manager_error + Database" where
  "attemptLease nodeID attemptID taskID now db =
     (case requireWorkerAttempt db nodeID attemptID taskID of
        Inl e \<Rightarrow> Inl e
      | Inr attempt \<Rightarrow> Inr (db\<lparr>Attempts := mput (Attempt_ID attempt)
          (attempt\<lparr>Attempt_LeaseExpiresAt := now + 30 * 1000000000\<rparr>) (Attempts db)\<rparr>))"

definition recordFirstOutput ::
  "id_source \<Rightarrow> string \<Rightarrow> TokenPayload \<Rightarrow> time \<Rightarrow> Database \<Rightarrow> manager_error + Database" where
  "recordFirstOutput newID nodeID payload now db =
     (case requireWorkerAttempt db nodeID (Token_AttemptID payload) (Token_TaskID payload) of
        Inl e \<Rightarrow> Inl e
      | Inr attempt \<Rightarrow>
          if Attempt_FirstOutputSent attempt then Inr db
          else Inr (appendAudit newID ''attempt.first_output'' ''worker'' (Attempt_ID attempt) [] now
            (db\<lparr>Attempts := mput (Attempt_ID attempt) (attempt\<lparr>Attempt_FirstOutputSent := True,
               Attempt_FirstOutputAt := Some now, Attempt_CanRetry := False\<rparr>) (Attempts db)\<rparr>)))"

text \<open>\<open>attemptFailed\<close> is the transaction of \<^verbatim>\<open>handleAttemptFailed\<close>.\<close>

definition attemptFailed ::
  "id_source \<Rightarrow> ManagerConfig \<Rightarrow> string \<Rightarrow> AttemptFailedPayload \<Rightarrow> time \<Rightarrow> Database \<Rightarrow>
   manager_error + AttemptFailedPayload \<times> Database" where
  "attemptFailed newID cfg nodeID payload0 now db =
     (case requireWorkerAttempt db nodeID (Failed_AttemptID payload0) (Failed_TaskID payload0) of
        Inl e \<Rightarrow> Inl e
      | Inr authoritative \<Rightarrow>
          (let payload = payload0\<lparr>Failed_TaskID := Attempt_TaskID authoritative\<rparr>;
               attempt = authoritative\<lparr>Attempt_Status := TaskStatusFailed, Attempt_Phase := Failed_Phase payload,
                 Attempt_FailureReason := Failed_FailureReason payload, Attempt_CanRetry := Failed_CanRetry payload,
                 Attempt_FirstOutputSent := Failed_FirstOutputSent payload, Attempt_CompletedAt := Some now\<rparr>;
               db1 = db\<lparr>Attempts := mput (Attempt_ID attempt) attempt (Attempts db)\<rparr>;
               slot0 = (mget zero_Slot (Slots db1) (Attempt_SlotID attempt))\<lparr>Slot_ActiveTaskID := []\<rparr>;
               slot1 = (if Slot_ProfileID slot0 = Attempt_ProfileID attempt
                        then slot0\<lparr>Slot_State := SlotStateReady, Slot_AcceptsNew := True\<rparr>
                        else slot0\<lparr>Slot_State := SlotStateIdle\<rparr>);
               (db2, slot2) = recordSlotFailure newID db1 slot1 (Failed_FailureReason payload) now
                 (Cfg_QuarantineThreshold cfg) (Cfg_QuarantineDuration cfg);
               db3 = db2\<lparr>Slots := mput (Slot_ID slot2) slot2 (Slots db2)\<rparr>;
               task = retryOrFail (Failed_CanRetry payload \<and> \<not> Failed_FirstOutputSent payload)
                 (Failed_FailureReason payload) (Attempt_SlotID attempt) now
                 (mget zero_Task (Tasks db3) (Failed_TaskID payload));
               db4 = db3\<lparr>Tasks := mput (Task_ID task) task (Tasks db3)\<rparr>
           in Inr (payload, appendAudit newID ''attempt.failed'' ''worker'' (Attempt_ID attempt) [] now db4)))"

definition applyAuthoritativeReportFields :: "ComputeReport \<Rightarrow> Attempt \<Rightarrow> Task \<Rightarrow> ComputeReport" where
  "applyAuthoritativeReportFields report attempt task = report\<lparr>
     Report_TaskID := Attempt_TaskID attempt,
     Report_UserID := firstNonEmpty [Attempt_UserID attempt, Task_UserID task],
     Report_NodeID := Attempt_NodeID attempt,
     Report_SlotID := Attempt_SlotID attempt,
     Report_ProfileID := firstNonEmpty [Attempt_ProfileID attempt, Task_ProfileID task],
     Report_ProfileVersion := firstNonZero [Attempt_ProfileVersion attempt, Task_ProfileVersion task],
     Report_LogicalModel := firstNonEmpty [Attempt_LogicalModel attempt, Task_LogicalModel task],
     Report_RuntimeVariantID := firstNonEmpty [Attempt_RuntimeVariantID attempt, Task_RuntimeVariantID task],
     Report_RuntimeAdapter := Attempt_RuntimeAdapter attempt,
     Report_ComputeCost := firstNonZero [Attempt_ComputeCost attempt, Task_ComputeCost task]\<rparr>"

text \<open>The slot after a report: ready again if it still has the profile, idle otherwise.\<close>

definition reportedSlot :: "ComputeReport \<Rightarrow> Slot \<Rightarrow> Slot" where
  "reportedSlot report slot0 =
     (let slot = slot0\<lparr>Slot_ActiveTaskID := []\<rparr> in
      if Report_Status report = TaskStatusCompleted \<and> Slot_ProfileID slot = Report_ProfileID report
      then slot\<lparr>Slot_State := SlotStateReady, Slot_AcceptsNew := True, Slot_MismatchReason := []\<rparr>
      else if Slot_ProfileID slot = Report_ProfileID report
      then slot\<lparr>Slot_State := SlotStateReady, Slot_AcceptsNew := True,
             Slot_MismatchReason := Report_FailureReason report\<rparr>
      else slot\<lparr>Slot_State := SlotStateIdle, Slot_AcceptsNew := False\<rparr>)"

definition reportedTask :: "ComputeReport \<Rightarrow> Attempt \<Rightarrow> time \<Rightarrow> Task \<Rightarrow> Task" where
  "reportedTask report attempt now task0 =
     (let task = task0\<lparr>Task_FailureReason := Report_FailureReason report, Task_UpdatedAt := now\<rparr> in
      if Report_Status report = TaskStatusFailed \<and> Report_CanRetry report \<and> \<not> Attempt_FirstOutputSent attempt
      then task\<lparr>Task_Status := TaskStatusQueued, Task_RuntimeVariantID := [], Task_CompletedAt := None,
             Task_FailedSlots := appendUnique (Task_FailedSlots task) (Report_SlotID report)\<rparr>
      else task\<lparr>Task_Status := Report_Status report, Task_CompletedAt := Some now\<rparr>)"

text \<open>
  \<open>computeReport\<close> is the transaction of \<^verbatim>\<open>handleComputeReport\<close>, with the report it publishes;
  \<open>acceptReport\<close> is what it does with a report that is not stored yet.
\<close>

definition acceptReport ::
  "id_source \<Rightarrow> ManagerConfig \<Rightarrow> Attempt \<Rightarrow> ComputeReport \<Rightarrow> time \<Rightarrow> Database \<Rightarrow> ComputeReport \<times> Database" where
  "acceptReport newID cfg attempt0 report0 now db =
     (let (db1, report) = applyReportAccounting newID db report0 now;
          db2 = db1\<lparr>Reports := mput (Report_ID report) report (Reports db1)\<rparr>;
          attempt = attempt0\<lparr>Attempt_Status := Report_Status report, Attempt_Phase := Report_Phase report,
            Attempt_FailureReason := Report_FailureReason report,
            Attempt_CanRetry := Report_CanRetry report, Attempt_CompletedAt := Some now\<rparr>;
          db3 = db2\<lparr>Attempts := mput (Attempt_ID attempt) attempt (Attempts db2)\<rparr>;
          task = reportedTask report attempt now (mget zero_Task (Tasks db3) (Report_TaskID report));
          db4 = db3\<lparr>Tasks := mput (Task_ID task) task (Tasks db3)\<rparr>;
          slot = reportedSlot report (mget zero_Slot (Slots db4) (Report_SlotID report));
          (db5, slot') =
            (if Report_Status report = TaskStatusFailed \<and> Attempt_Status attempt0 \<noteq> TaskStatusFailed
             then recordSlotFailure newID db4 slot (Report_FailureReason report) now
               (Cfg_QuarantineThreshold cfg) (Cfg_QuarantineDuration cfg)
             else (db4, slot));
          db6 = db5\<lparr>Slots := mput (Slot_ID slot') slot' (Slots db5)\<rparr>
      in (report, appendAudit newID ''attempt.compute_report'' ''worker'' (Report_AttemptID report) [] now db6))"

definition stampReport :: "id_source \<Rightarrow> time \<Rightarrow> Database \<Rightarrow> ComputeReport \<Rightarrow> ComputeReport" where
  "stampReport newID now db report = report\<lparr>
     Report_ID := (if Report_ID report = [] then newID ''rep'' (length (Reports db)) else Report_ID report),
     Report_CreatedAt := (if Report_CreatedAt report = 0 then now else Report_CreatedAt report)\<rparr>"

definition computeReport ::
  "id_source \<Rightarrow> ManagerConfig \<Rightarrow> string \<Rightarrow> ComputeReport \<Rightarrow> time \<Rightarrow> Database \<Rightarrow> manager_error + ComputeReport \<times> Database" where
  "computeReport newID cfg nodeID report0 now db =
     (case requireWorkerAttempt db nodeID (Report_AttemptID report0) (Report_TaskID report0) of
        Inl e \<Rightarrow> Inl e
      | Inr attempt \<Rightarrow>
          (let report = applyAuthoritativeReportFields (stampReport newID now db report0) attempt
                 (mget zero_Task (Tasks db) (Attempt_TaskID attempt))
           in if mhas (Reports db) (Report_ID report) then Inr (report, db)
              else Inr (acceptReport newID cfg attempt report now db)))"

subsection \<open>Slot states\<close>

definition applySlotModelPayload :: "SlotStatePayload \<Rightarrow> Slot \<Rightarrow> Slot" where
  "applySlotModelPayload payload slot = slot\<lparr>
     Slot_ProfileVersion := (if SlotSt_ProfileVersion payload > 0 then SlotSt_ProfileVersion payload else Slot_ProfileVersion slot),
     Slot_LogicalModel := (if SlotSt_LogicalModel payload \<noteq> [] then SlotSt_LogicalModel payload else Slot_LogicalModel slot),
     Slot_RuntimeVariantID := (if SlotSt_RuntimeVariantID payload \<noteq> [] then SlotSt_RuntimeVariantID payload
                               else Slot_RuntimeVariantID slot),
     Slot_ModelArtifactID := (if SlotSt_ModelArtifactID payload \<noteq> [] then SlotSt_ModelArtifactID payload
                              else Slot_ModelArtifactID slot),
     Slot_ModelSHA256 := (if SlotSt_ModelSHA256 payload \<noteq> [] then SlotSt_ModelSHA256 payload else Slot_ModelSHA256 slot)\<rparr>"

definition applySlotStatePayload :: "SlotStatePayload \<Rightarrow> time \<Rightarrow> Slot \<Rightarrow> Slot" where
  "applySlotStatePayload payload now slot =
     (let slot1 = applySlotModelPayload payload (slot\<lparr>Slot_State := SlotSt_State payload,
            Slot_ProfileID := SlotSt_ProfileID payload\<rparr>);
          slot2 = slot1\<lparr>Slot_ActiveTaskID := SlotSt_ActiveTaskID payload,
            Slot_MismatchReason := SlotSt_MismatchReason payload,
            Slot_AcceptsNew := (SlotSt_State payload = SlotStateReady \<and> \<not> Slot_Quarantined slot1)\<rparr>;
          slot3 = (if Slot_Quarantined slot2
                   then slot2\<lparr>Slot_MismatchReason := FailureQuarantined @ '': '' @ Slot_QuarantineReason slot2\<rparr>
                   else slot2)
      in if SlotSt_State payload = SlotStateReady then slot3\<lparr>Slot_LastReady := now\<rparr> else slot3)"

definition updateSlotState :: "string \<Rightarrow> SlotStatePayload \<Rightarrow> time \<Rightarrow> Database \<Rightarrow> manager_error + Database" where
  "updateSlotState nodeID payload now db =
     (let slot = mget zero_Slot (Slots db) (SlotSt_SlotID payload) in
      if Slot_ID slot = [] then Inl (NotFound ''slot'' (SlotSt_SlotID payload))
      else if Slot_NodeID slot \<noteq> nodeID then Inl (NotOwner ''worker'' (SlotSt_SlotID payload))
      else Inr (db\<lparr>Slots := mput (Slot_ID slot) (applySlotStatePayload payload now slot) (Slots db)\<rparr>))"

subsection \<open>Disconnected workers\<close>

definition disconnectedSlot :: "Slot \<Rightarrow> Slot" where
  "disconnectedSlot slot = slot\<lparr>Slot_State := SlotStateUnavailable, Slot_AcceptsNew := False,
     Slot_MismatchReason := FailureWorkerDisconnected\<rparr>"

definition markDisconnectedNode :: "Node \<Rightarrow> Database \<Rightarrow> Database" where
  "markDisconnectedNode node0 db =
     (let node = node0\<lparr>Node_State := NodeStateOffline, Node_ConnectedSession := []\<rparr>
      in db\<lparr>Nodes := mput (Node_ID node) node (Nodes db),
            Slots := mmap (\<lambda>_ slot. if Slot_NodeID slot = Node_ID node \<and> Slot_State slot \<noteq> SlotStateServing
                                   then disconnectedSlot slot else slot) (Slots db)\<rparr>)"

definition markDisconnectedSlot :: "id_source \<Rightarrow> ManagerConfig \<Rightarrow> Attempt \<Rightarrow> time \<Rightarrow> Database \<Rightarrow> Database" where
  "markDisconnectedSlot newID cfg attempt now db =
     (let slot = disconnectedSlot ((mget zero_Slot (Slots db) (Attempt_SlotID attempt))\<lparr>Slot_ActiveTaskID := []\<rparr>);
          (db1, slot') = recordSlotFailure newID db slot FailureWorkerDisconnected now
            (Cfg_QuarantineThreshold cfg) (Cfg_QuarantineDuration cfg)
      in db1\<lparr>Slots := mput (Slot_ID slot') slot' (Slots db1)\<rparr>)"

definition markDisconnectedTask :: "Attempt \<Rightarrow> time \<Rightarrow> Database \<Rightarrow> Database" where
  "markDisconnectedTask attempt now db =
     (let task = retryOrFail (\<not> Attempt_FirstOutputSent attempt) FailureWorkerDisconnected (Attempt_SlotID attempt) now
            (mget zero_Task (Tasks db) (Attempt_TaskID attempt))
      in db\<lparr>Tasks := mput (Task_ID task) task (Tasks db)\<rparr>)"

definition disconnectedPayload :: "Attempt \<Rightarrow> AttemptFailedPayload" where
  "disconnectedPayload attempt = \<lparr>Failed_TaskID = Attempt_TaskID attempt, Failed_AttemptID = Attempt_ID attempt,
     Failed_Phase = FailureWorkerDisconnected, Failed_FailureReason = FailureWorkerDisconnected,
     Failed_CanRetry = (\<not> Attempt_FirstOutputSent attempt), Failed_FirstOutputSent = Attempt_FirstOutputSent attempt\<rparr>"

definition disconnectedAttempt :: "time \<Rightarrow> Attempt \<Rightarrow> Attempt" where
  "disconnectedAttempt now attempt = attempt\<lparr>Attempt_Status := TaskStatusFailed, Attempt_Phase := FailureWorkerDisconnected,
     Attempt_FailureReason := FailureWorkerDisconnected, Attempt_CanRetry := (\<not> Attempt_FirstOutputSent attempt),
     Attempt_CompletedAt := Some now\<rparr>"

definition failDisconnectedAttempt ::
  "id_source \<Rightarrow> ManagerConfig \<Rightarrow> time \<Rightarrow> string \<Rightarrow> Attempt \<Rightarrow> Database \<Rightarrow> Database" where
  "failDisconnectedAttempt newID cfg now aid attempt db =
     (let attempt' = disconnectedAttempt now attempt
      in markDisconnectedTask attempt' now (markDisconnectedSlot newID cfg attempt' now
           (db\<lparr>Attempts := mput aid attempt' (Attempts db)\<rparr>)))"

definition runningOn :: "string \<Rightarrow> Attempt \<Rightarrow> bool" where
  "runningOn nodeID attempt \<longleftrightarrow> Attempt_NodeID attempt = nodeID \<and> Attempt_Status attempt = TaskStatusRunning"

text \<open>
  The loop over the attempts changes only the attempt it visits, so it visits the attempts
  as they were. \<open>sessionID\<close> and \<open>nodeID\<close> are those of the session that closed.
\<close>

definition failRunningAttempts ::
  "id_source \<Rightarrow> ManagerConfig \<Rightarrow> string \<Rightarrow> string \<Rightarrow> string \<Rightarrow> time \<Rightarrow> Database \<Rightarrow>
   AttemptFailedPayload list \<times> Database" where
  "failRunningAttempts newID cfg sessionID nodeID eventType now db =
     (let node = mget zero_Node (Nodes db) nodeID;
          db1 = (if Node_ConnectedSession node = sessionID \<or> Node_ConnectedSession node = []
                 then markDisconnectedNode (recordWorkerFlapEvent node eventType now cfg) db else db);
          running = filter (\<lambda>(_, attempt). runningOn nodeID attempt) (Attempts db1);
          db2 = foldl (\<lambda>d (aid, attempt). failDisconnectedAttempt newID cfg now aid attempt d) db1 running
      in (map (\<lambda>(_, attempt). disconnectedPayload (disconnectedAttempt now attempt)) running,
          appendAudit newID ''worker.disconnected'' ''worker'' nodeID [] now db2))"

definition markOfflineWorkers ::
  "ManagerConfig \<Rightarrow> string list \<Rightarrow> string \<Rightarrow> time \<Rightarrow> Database \<Rightarrow> Database" where
  "markOfflineWorkers cfg nodeIDs eventType now db =
     foldl (\<lambda>d nodeID. let node = mget zero_Node (Nodes d) nodeID in
        if Node_ID node \<noteq> [] then markDisconnectedNode (recordWorkerFlapEvent node eventType now cfg) d else d) db nodeIDs"

end
