(* ===== verification/Worker_State.thy ===== *)
theory Worker_State
  imports Eviction Lifecycle
begin

section \<open>Registration of workers (manager_worker_state.go, manager_worker_security.go)\<close>

text \<open>
  A worker registers with its node and its slots. The manager merges what the worker says
  with what it has stored, and a node is bound to the token that its first registration
  issued.
\<close>

subsection \<open>Merging a node\<close>

definition normalizeWorkerNode ::
  "id_source \<Rightarrow> Node \<Rightarrow> string \<Rightarrow> string list option \<Rightarrow> string list option \<Rightarrow> time \<Rightarrow> Database \<Rightarrow> Node" where
  "normalizeWorkerNode newID node sessionID cached warm now db =
     (let node1 = (if Node_ID node = [] then node\<lparr>Node_ID := newID ''node'' (length (Nodes db))\<rparr> else node);
          node2 = node1\<lparr>Node_LastSeen := now, Node_State := NodeStateOnline, Node_ConnectedSession := sessionID,
            Node_Mode := (if Node_Mode node1 = [] then ''reserved_always'' else Node_Mode node1),
            Node_Target := (if Node_Target node1 = [] \<and> Node_OS node1 = ''darwin'' \<and> Node_Arch node1 = ''arm64''
                            then TargetDarwinArm64Metal else Node_Target node1)\<rparr>;
          node3 = (case cached of None \<Rightarrow> node2 | Some c \<Rightarrow> node2\<lparr>Node_CachedArtifacts := c\<rparr>)
      in case warm of None \<Rightarrow> node3 | Some w \<Rightarrow> node3\<lparr>Node_WarmProfiles := w\<rparr>)"

definition mergeExistingNodeConfig :: "Node \<Rightarrow> Node \<Rightarrow> Node" where
  "mergeExistingNodeConfig node existing = node\<lparr>
     Node_Tags := (if Node_Tags existing \<noteq> [] \<and> Node_Tags node = [] then Node_Tags existing else Node_Tags node),
     Node_Mode := (if Node_Mode existing \<noteq> [] \<and> Node_Mode node = [] then Node_Mode existing else Node_Mode node)\<rparr>"

definition copyNodeFailureState :: "Node \<Rightarrow> Node \<Rightarrow> Node" where
  "copyNodeFailureState node existing = node\<lparr>
     Node_LastFailure := Node_LastFailure existing,
     Node_LastFailureAt := Node_LastFailureAt existing,
     Node_P2P := (if Node_P2P node = None then Node_P2P existing else Node_P2P node),
     Node_Quarantined := Node_Quarantined existing,
     Node_QuarantineReason := Node_QuarantineReason existing,
     Node_QuarantineUntil := Node_QuarantineUntil existing,
     Node_RecentFlapEvents := Node_RecentFlapEvents existing,
     Node_WarmPlacementSuppressed := Node_WarmPlacementSuppressed existing,
     Node_WarmPlacementSuppressionReason := Node_WarmPlacementSuppressionReason existing,
     Node_WarmPlacementSuppressionUntil := Node_WarmPlacementSuppressionUntil existing\<rparr>"

definition mergeExistingNode :: "Node \<Rightarrow> Node \<Rightarrow> bool \<Rightarrow> time \<Rightarrow> Node" where
  "mergeExistingNode node existing autoApprove now =
     (let node1 = (if Node_ID existing \<noteq> []
                   then copyNodeFailureState
                     (mergeExistingNodeConfig (node\<lparr>Node_Approved := Node_Approved existing\<rparr>) existing) existing
                   else node);
          node2 = (if quarantineExpiredNode node1 now then clearNodeQuarantine node1 else node1);
          node3 = clearExpiredWorkerSuppression node2 now
      in if autoApprove then node3\<lparr>Node_Approved := True\<rparr> else node3)"

subsection \<open>Merging slots\<close>

definition normalizeWorkerSlot :: "Slot \<Rightarrow> Node \<Rightarrow> Slot" where
  "normalizeWorkerSlot slot node =
     (let slot1 = slot\<lparr>Slot_ID := (if Slot_ID slot = [] then Node_ID node @ ''/slot0'' else Slot_ID slot),
            Slot_NodeID := Node_ID node,
            Slot_Target := (if Slot_Target slot = [] then Node_Target node else Slot_Target slot),
            Slot_RuntimeAdapter := (if Slot_RuntimeAdapter slot = [] \<and> Node_RuntimeAdapters node \<noteq> []
                                    then hd (Node_RuntimeAdapters node) else Slot_RuntimeAdapter slot),
            Slot_State := (if Slot_State slot = [] then SlotStateIdle else Slot_State slot)\<rparr>
      in slot1\<lparr>Slot_AcceptsNew := (Slot_State slot1 = SlotStateReady)\<rparr>)"

definition mergeSlotProfileState :: "Slot \<Rightarrow> Slot \<Rightarrow> Slot" where
  "mergeSlotProfileState slot old = slot\<lparr>
     Slot_ProfileID := (if Slot_ProfileID old \<noteq> [] \<and> Slot_ProfileID slot = [] then Slot_ProfileID old else Slot_ProfileID slot),
     Slot_ProfileVersion := (if Slot_ProfileVersion old \<noteq> 0 \<and> Slot_ProfileVersion slot = 0 then Slot_ProfileVersion old
                             else Slot_ProfileVersion slot),
     Slot_RuntimeVariantID := (if Slot_RuntimeVariantID old \<noteq> [] \<and> Slot_RuntimeVariantID slot = []
                               then Slot_RuntimeVariantID old else Slot_RuntimeVariantID slot),
     Slot_LogicalModel := (if Slot_LogicalModel old \<noteq> [] \<and> Slot_LogicalModel slot = [] then Slot_LogicalModel old
                           else Slot_LogicalModel slot),
     Slot_ModelArtifactID := (if Slot_ModelArtifactID old \<noteq> [] \<and> Slot_ModelArtifactID slot = []
                              then Slot_ModelArtifactID old else Slot_ModelArtifactID slot),
     Slot_ModelSHA256 := (if Slot_ModelSHA256 old \<noteq> [] \<and> Slot_ModelSHA256 slot = [] then Slot_ModelSHA256 old
                          else Slot_ModelSHA256 slot)\<rparr>"

definition copySlotFailureState :: "Slot \<Rightarrow> Slot \<Rightarrow> Slot" where
  "copySlotFailureState slot old = slot\<lparr>
     Slot_FailureCount := Slot_FailureCount old,
     Slot_FailureCounters := Slot_FailureCounters old,
     Slot_LastFailure := Slot_LastFailure old,
     Slot_LastFailureAt := Slot_LastFailureAt old,
     Slot_Quarantined := Slot_Quarantined old,
     Slot_QuarantineReason := Slot_QuarantineReason old,
     Slot_QuarantineUntil := Slot_QuarantineUntil old\<rparr>"

definition mergeExistingSlot :: "Slot \<Rightarrow> Slot \<Rightarrow> time \<Rightarrow> Slot" where
  "mergeExistingSlot slot old now =
     (let slot1 = copySlotFailureState (mergeSlotProfileState slot old) old;
          slot2 = (if quarantineExpired slot1 now then clearSlotQuarantine slot1 else slot1)
      in if Slot_Quarantined slot2
         then slot2\<lparr>Slot_AcceptsNew := False,
                Slot_MismatchReason := FailureQuarantined @ '': '' @ Slot_QuarantineReason slot2\<rparr>
         else slot2)"

definition upsertWorkerSlot :: "Node \<Rightarrow> time \<Rightarrow> Database \<Rightarrow> Slot \<Rightarrow> Database" where
  "upsertWorkerSlot node now db slot0 =
     (let slot1 = normalizeWorkerSlot slot0 node;
          slot2 = mergeExistingSlot slot1 (mget zero_Slot (Slots db) (Slot_ID slot1)) now
      in db\<lparr>Slots := mput (Slot_ID slot2) slot2 (Slots db)\<rparr>)"

definition upsertWorkerSlots :: "Node \<Rightarrow> Slot list \<Rightarrow> time \<Rightarrow> Database \<Rightarrow> Database" where
  "upsertWorkerSlots node slots now db = foldl (upsertWorkerSlot node now) db slots"

subsection \<open>Authorisation\<close>

text \<open>The session is given by the node that it is registered as, empty before the first registration.\<close>

definition authorizeWorkerNode ::
  "(string \<Rightarrow> string) \<Rightarrow> id_source \<Rightarrow> string \<Rightarrow> string \<Rightarrow> string \<Rightarrow> Database \<Rightarrow> manager_error + string \<times> Database" where
  "authorizeWorkerNode sha256hex newID sessionNode nodeID providedToken db =
     (if nodeID = [] then Inl (Required ''worker node id'')
      else (let hash = mget [] (NodeTokenHashes db) nodeID in
        if hash = []
        then (if mhas (Nodes db) nodeID then Inl (NotFound ''worker node token'' nodeID)
              else (let token = newID ''wnt'' (length (NodeTokenHashes db))
                    in Inr (token, db\<lparr>NodeTokenHashes := mput nodeID (apiTokenHash sha256hex token) (NodeTokenHashes db)\<rparr>)))
        else if sessionNode = nodeID then Inr ([], db)
        else if apiTokenHash sha256hex providedToken \<noteq> hash then Inl Unauthorized
        else Inr ([], db)))"

definition workerNodeTokenAuthorized :: "(string \<Rightarrow> string) \<Rightarrow> Database \<Rightarrow> string \<Rightarrow> string \<Rightarrow> bool" where
  "workerNodeTokenAuthorized sha256hex db nodeID token \<longleftrightarrow>
     nodeID \<noteq> [] \<and> token \<noteq> [] \<and> apiTokenHash sha256hex token = mget [] (NodeTokenHashes db) nodeID"

text \<open>
  \<open>registerWorker\<close> is the transaction of \<^verbatim>\<open>upsertWorkerState\<close>, with the node that it stored and
  the token that it issued, empty if none.
\<close>

definition registerWorker ::
  "(string \<Rightarrow> string) \<Rightarrow> id_source \<Rightarrow> ManagerConfig \<Rightarrow> string \<Rightarrow> string \<Rightarrow> Node \<Rightarrow> Slot list \<Rightarrow> string \<Rightarrow> time \<Rightarrow>
   Database \<Rightarrow> manager_error + (Node \<times> string) \<times> Database" where
  "registerWorker sha256hex newID cfg sessionID sessionNode node0 slots nodeToken now db =
     (case authorizeWorkerNode sha256hex newID sessionNode (Node_ID node0) nodeToken db of
        Inl e \<Rightarrow> Inl e
      | Inr (token, db1) \<Rightarrow>
          (let existing = mget zero_Node (Nodes db1) (Node_ID node0);
               node1 = mergeExistingNode node0 existing (Cfg_AutoApprove cfg) now;
               node2 = (if workerReconnectEventApplies existing sessionID
                        then recordWorkerFlapEvent node1 workerFlapEventReconnect now cfg else node1);
               db2 = upsertWorkerSlots node2 slots now (db1\<lparr>Nodes := mput (Node_ID node2) node2 (Nodes db1)\<rparr>)
           in Inr ((node2, token), appendAudit newID ''worker.connected'' ''worker'' (Node_ID node2) [] now db2)))"

subsection \<open>Other reports of a worker\<close>

definition workerHeartbeat :: "string \<Rightarrow> time \<Rightarrow> Database \<Rightarrow> Database" where
  "workerHeartbeat nodeID now db =
     (let node = (mget zero_Node (Nodes db) nodeID)\<lparr>Node_LastSeen := now, Node_State := NodeStateOnline\<rparr>
      in db\<lparr>Nodes := mput (Node_ID node) node (Nodes db)\<rparr>)"

definition artifactState :: "id_source \<Rightarrow> string \<Rightarrow> ArtifactStatePayload \<Rightarrow> time \<Rightarrow> Database \<Rightarrow> Database" where
  "artifactState newID nodeID payload now db =
     (let node = mget zero_Node (Nodes db) nodeID;
          aid = ArtSt_ArtifactID payload;
          node1 = (if ArtSt_State payload = ''verified'' \<and> \<not> Contains (Node_CachedArtifacts node) aid
                   then node\<lparr>Node_CachedArtifacts := Node_CachedArtifacts node @ [aid]\<rparr> else node);
          node2 = (if ArtSt_State payload = ''evicted''
                   then node1\<lparr>Node_CachedArtifacts := removeArtifactID (Node_CachedArtifacts node1) aid\<rparr> else node1);
          db1 = (if ArtSt_State payload = ''evicted'' then clearCacheIntentRecord nodeID aid db else db);
          status = evictionStatusForArtifactState (ArtSt_State payload);
          db2 = (if status \<noteq> [] then upsertArtifactEvictionRecord newID nodeID aid [] status (ArtSt_Error payload) now db1
                 else db1)
      in appendAudit newID (''worker.artifact_'' @ ArtSt_State payload) ''worker'' aid
           [(''nodeId'', AnyString nodeID), (''error'', AnyString (ArtSt_Error payload))] now
           (db2\<lparr>Nodes := mput (Node_ID node2) node2 (Nodes db2)\<rparr>))"

definition mergeUpdateDelivery :: "string \<Rightarrow> string \<Rightarrow> string" where
  "mergeUpdateDelivery current next0 =
     (let next1 = TrimSpace next0 in
      if next1 = [] \<or> next1 = current then current
      else if current = [] then next1 else ''mixed'')"

definition recordWorkerUpdateTelemetry ::
  "string \<Rightarrow> string \<Rightarrow> string \<Rightarrow> string \<Rightarrow> time \<Rightarrow> Database \<Rightarrow> Database" where
  "recordWorkerUpdateTelemetry nodeID updateID status detail now db =
     (case map_of (Updates db) updateID of
        None \<Rightarrow> db
      | Some update0 \<Rightarrow>
          (let update1 = (if status \<noteq> [] then update0\<lparr>Update_Status := status\<rparr> else update0);
               update2 = (if detail \<noteq> [] \<and> status = ''update_failed'' then update1\<lparr>Update_Failure := detail\<rparr> else update1);
               update3 = (if status = ''update_downloaded''
                          then update2\<lparr>Update_Delivery := mergeUpdateDelivery (Update_Delivery update2) detail,
                                 Update_DeliveryDetail := detail\<rparr> else update2);
               node0 = (mget zero_Node (Nodes db) nodeID)\<lparr>Node_UpdateStatus := status\<rparr>;
               node1 = (if status = ''update_failed'' \<and> detail \<noteq> []
                        then node0\<lparr>Node_LastFailure := detail, Node_LastFailureAt := Some now\<rparr> else node0)
           in db\<lparr>Updates := mput updateID update3 (Updates db), Nodes := mput nodeID node1 (Nodes db)\<rparr>))"

subsection \<open>Lemmas\<close>

lemma authorizeWorkerNode_Inr:
  assumes "authorizeWorkerNode sha newID sn nid tok db = Inr (token, db')"
  shows "nid \<noteq> []" "db' = db\<lparr>NodeTokenHashes := NodeTokenHashes db'\<rparr>"
    "mget [] (NodeTokenHashes db) nid = [] \<Longrightarrow> \<not> mhas (Nodes db) nid \<and> token = newID ''wnt'' (length (NodeTokenHashes db)) \<and>
       NodeTokenHashes db' = mput nid (apiTokenHash sha token) (NodeTokenHashes db)"
    "mget [] (NodeTokenHashes db) nid \<noteq> [] \<Longrightarrow> token = [] \<and> db' = db \<and>
       (sn = nid \<or> apiTokenHash sha tok = mget [] (NodeTokenHashes db) nid)"
  using assms by (auto simp: authorizeWorkerNode_def Let_def split: if_splits)

lemma mergeExistingNode_sel [simp]:
  "Node_ID (mergeExistingNode node existing auto now) = Node_ID node"
  "Node_OwnerUserID (mergeExistingNode node existing auto now) = Node_OwnerUserID node"
  "Node_State (mergeExistingNode node existing auto now) = Node_State node"
  "Node_Approved (mergeExistingNode node existing auto now) \<longleftrightarrow>
     auto \<or> (if Node_ID existing \<noteq> [] then Node_Approved existing else Node_Approved node)"
  by (simp_all add: mergeExistingNode_def Let_def copyNodeFailureState_def mergeExistingNodeConfig_def
      clearExpiredWorkerSuppression_def clearNodeQuarantine_def)

lemma recordWorkerFlapEvent_approved [simp]:
  "Node_Approved (recordWorkerFlapEvent node ev now cfg) = Node_Approved node"
  "Node_State (recordWorkerFlapEvent node ev now cfg) = Node_State node"
  "Node_ID (recordWorkerFlapEvent node ev now cfg) = Node_ID node"
  "Node_OwnerUserID (recordWorkerFlapEvent node ev now cfg) = Node_OwnerUserID node"
  by (simp_all add: recordWorkerFlapEvent_def Let_def)

lemma mergeExistingSlot_sel [simp]:
  "Slot_ID (mergeExistingSlot slot old now) = Slot_ID slot"
  "Slot_NodeID (mergeExistingSlot slot old now) = Slot_NodeID slot"
  by (simp_all add: mergeExistingSlot_def Let_def copySlotFailureState_def mergeSlotProfileState_def clearSlotQuarantine_def)

lemma mergeExistingSlot_quarantine:
  assumes "Slot_Quarantined old" and "\<not> quarantineExpired old now"
  shows "Slot_Quarantined (mergeExistingSlot slot old now) \<and> \<not> Slot_AcceptsNew (mergeExistingSlot slot old now)"
  using assms by (simp add: mergeExistingSlot_def Let_def copySlotFailureState_def mergeSlotProfileState_def quarantineExpired_def)

lemma normalizeWorkerSlot_sel [simp]:
  "Slot_NodeID (normalizeWorkerSlot slot node) = Node_ID node"
  "Slot_ID (normalizeWorkerSlot slot node) = (if Slot_ID slot = [] then Node_ID node @ ''/slot0'' else Slot_ID slot)"
  by (simp_all add: normalizeWorkerSlot_def Let_def)

lemma upsertWorkerSlot_sel [simp]:
  "Nodes (upsertWorkerSlot node now db slot) = Nodes db"
  "NodeTokenHashes (upsertWorkerSlot node now db slot) = NodeTokenHashes db"
  "Users (upsertWorkerSlot node now db slot) = Users db"
  "ComputeLedger (upsertWorkerSlot node now db slot) = ComputeLedger db"
  "Tasks (upsertWorkerSlot node now db slot) = Tasks db"
  "Attempts (upsertWorkerSlot node now db slot) = Attempts db"
  "Reports (upsertWorkerSlot node now db slot) = Reports db"
  "APIKeys (upsertWorkerSlot node now db slot) = APIKeys db"
  by (simp_all add: upsertWorkerSlot_def Let_def)

lemma upsertWorkerSlots_sel [simp]:
  "Nodes (upsertWorkerSlots node slots now db) = Nodes db"
  "NodeTokenHashes (upsertWorkerSlots node slots now db) = NodeTokenHashes db"
  "Users (upsertWorkerSlots node slots now db) = Users db"
  "ComputeLedger (upsertWorkerSlots node slots now db) = ComputeLedger db"
  "Tasks (upsertWorkerSlots node slots now db) = Tasks db"
  "Attempts (upsertWorkerSlots node slots now db) = Attempts db"
  "Reports (upsertWorkerSlots node slots now db) = Reports db"
  "APIKeys (upsertWorkerSlots node slots now db) = APIKeys db"
  unfolding upsertWorkerSlots_def by (induction slots arbitrary: db) simp_all

lemma keyed_upsertWorkerSlot: "keyed Slot_ID (Slots db) \<Longrightarrow> keyed Slot_ID (Slots (upsertWorkerSlot node now db slot))"
  by (auto simp: upsertWorkerSlot_def Let_def)

lemma keyed_upsertWorkerSlots: "keyed Slot_ID (Slots db) \<Longrightarrow> keyed Slot_ID (Slots (upsertWorkerSlots node slots now db))"
  unfolding upsertWorkerSlots_def
  by (induction slots arbitrary: db) (auto simp: keyed_upsertWorkerSlot)

text \<open>A slot of the registration ends up at the node; a running quarantine outlives it.\<close>

lemma upsertWorkerSlot_lookup:
  "map_of (Slots (upsertWorkerSlot node now db slot)) k =
     (if k = Slot_ID (normalizeWorkerSlot slot node)
      then Some (mergeExistingSlot (normalizeWorkerSlot slot node) (mget zero_Slot (Slots db) k) now)
      else map_of (Slots db) k)"
  by (auto simp: upsertWorkerSlot_def Let_def simp del: normalizeWorkerSlot_sel)

lemma upsertWorkerSlots_lookup:
  assumes "map_of (Slots (upsertWorkerSlots node slots now db)) k = Some s"
  shows "if k \<in> (\<lambda>slot. Slot_ID (normalizeWorkerSlot slot node)) ` set slots then Slot_NodeID s = Node_ID node
         else map_of (Slots db) k = Some s"
  using assms unfolding upsertWorkerSlots_def
proof (induction slots arbitrary: s rule: rev_induct)
  case (snoc slot slots)
  then show ?case
    by (auto simp: upsertWorkerSlot_lookup simp del: normalizeWorkerSlot_sel(2) split: if_splits)
qed simp

lemma upsertWorkerSlots_quarantine:
  assumes "map_of (Slots db) k = Some old" and "Slot_Quarantined old" and "\<not> quarantineExpired old now"
  shows "\<exists>s. map_of (Slots (upsertWorkerSlots node slots now db)) k = Some s \<and> Slot_Quarantined s \<and>
    \<not> quarantineExpired s now \<and> (k \<in> (\<lambda>slot. Slot_ID (normalizeWorkerSlot slot node)) ` set slots \<longrightarrow> \<not> Slot_AcceptsNew s)"
  unfolding upsertWorkerSlots_def
proof (induction slots rule: rev_induct)
  case Nil
  then show ?case using assms by simp
next
  case (snoc slot slots)
  then obtain s where s: "map_of (Slots (foldl (upsertWorkerSlot node now) db slots)) k = Some s" "Slot_Quarantined s"
      "\<not> quarantineExpired s now" "k \<in> (\<lambda>slot. Slot_ID (normalizeWorkerSlot slot node)) ` set slots \<longrightarrow> \<not> Slot_AcceptsNew s"
    by blast
  have "quarantineExpired (mergeExistingSlot x s now) now = False" for x
    using s(2,3) by (simp add: mergeExistingSlot_def Let_def copySlotFailureState_def mergeSlotProfileState_def quarantineExpired_def)
  then show ?case
    using s mergeExistingSlot_quarantine [OF s(2,3)]
    by (auto simp: upsertWorkerSlot_lookup mget_def simp del: normalizeWorkerSlot_sel)
qed

lemma registerWorker_Inr:
  assumes "registerWorker sha newID cfg sid sn node slots tok now db = Inr ((node', token), db')"
  obtains db1 where "authorizeWorkerNode sha newID sn (Node_ID node) tok db = Inr (token, db1)"
    "Node_ID node' = Node_ID node" "Node_OwnerUserID node' = Node_OwnerUserID node" "Node_State node' = Node_State node"
    "Node_Approved node' \<longleftrightarrow> Cfg_AutoApprove cfg \<or> (if Node_ID (mget zero_Node (Nodes db) (Node_ID node)) \<noteq> []
       then Node_Approved (mget zero_Node (Nodes db) (Node_ID node)) else Node_Approved node)"
    "Nodes db' = mput (Node_ID node) node' (Nodes db)" "NodeTokenHashes db' = NodeTokenHashes db1"
    "Slots db' = Slots (upsertWorkerSlots node' slots now (db1\<lparr>Nodes := mput (Node_ID node) node' (Nodes db)\<rparr>))"
    "Slots db1 = Slots db"
    "Users db' = Users db" "ComputeLedger db' = ComputeLedger db" "Tasks db' = Tasks db" "Attempts db' = Attempts db"
    "Reports db' = Reports db" "APIKeys db' = APIKeys db"
proof -
  obtain tok1 db1 where a: "authorizeWorkerNode sha newID sn (Node_ID node) tok db = Inr (tok1, db1)"
    using assms by (auto simp: registerWorker_def split: sum.splits)
  define existing where "existing = mget zero_Node (Nodes db1) (Node_ID node)"
  have node': "node' = (if workerReconnectEventApplies existing sid
        then recordWorkerFlapEvent (mergeExistingNode node existing (Cfg_AutoApprove cfg) now) workerFlapEventReconnect now cfg
        else mergeExistingNode node existing (Cfg_AutoApprove cfg) now)"
    and db': "token = tok1" "db' = appendAudit newID ''worker.connected'' ''worker'' (Node_ID node') [] now
        (upsertWorkerSlots node' slots now (db1\<lparr>Nodes := mput (Node_ID node') node' (Nodes db1)\<rparr>))"
    using assms unfolding registerWorker_def a sum.case prod.case Let_def existing_def [symmetric] by blast+
  have sel: "Node_ID node' = Node_ID node" "Node_OwnerUserID node' = Node_OwnerUserID node" "Node_State node' = Node_State node"
    "Node_Approved node' \<longleftrightarrow> Cfg_AutoApprove cfg \<or> (if Node_ID existing \<noteq> [] then Node_Approved existing else Node_Approved node)"
    by (simp_all add: node')
  obtain h where h: "db1 = db\<lparr>NodeTokenHashes := h\<rparr>"
    using authorizeWorkerNode_Inr(2) [OF a] by blast
  then have "Nodes db1 = Nodes db" "Slots db1 = Slots db" "Users db1 = Users db" "ComputeLedger db1 = ComputeLedger db"
    "Tasks db1 = Tasks db" "Attempts db1 = Attempts db" "Reports db1 = Reports db" "APIKeys db1 = APIKeys db"
    by simp_all
  with sel db' a show ?thesis
    by (intro that [of db1]) (simp_all add: existing_def)
qed

subsection \<open>Properties\<close>

text \<open>C21: a node belongs to the worker that registered it first. A registration succeeds exactly
  when the node is new, or the session is already registered as the node, or the worker
  presents the node's token; only a new node gets a token, and from then on that token
  opens the node to every session while a token with another hash opens it to none that is
  not registered as the node.\<close>

theorem node_token_binding:
  assumes "Node_ID node = nid" and "nid \<noteq> []"
  shows "((\<exists>r. registerWorker sha256hex newID cfg sid sn node slots tok now db = Inr r) \<longleftrightarrow>
      (mget [] (NodeTokenHashes db) nid = [] \<and> \<not> mhas (Nodes db) nid \<or>
       mget [] (NodeTokenHashes db) nid \<noteq> [] \<and> (sn = nid \<or> apiTokenHash sha256hex tok = mget [] (NodeTokenHashes db) nid))) \<and>
    (registerWorker sha256hex newID cfg sid sn node slots tok now db = Inr ((node', token), db') \<longrightarrow>
      (mget [] (NodeTokenHashes db) nid \<noteq> [] \<longrightarrow> token = [] \<and> NodeTokenHashes db' = NodeTokenHashes db) \<and>
      (mget [] (NodeTokenHashes db) nid = [] \<longrightarrow>
        (\<exists>r. registerWorker sha256hex newID cfg sid2 sn2 node slots2 token later db' = Inr r) \<and>
        (apiTokenHash sha256hex other \<noteq> apiTokenHash sha256hex token \<and> sn2 \<noteq> nid \<longrightarrow>
          registerWorker sha256hex newID cfg sid2 sn2 node slots2 other later db' = Inl Unauthorized)))"
proof (intro conjI impI)
  show "(\<exists>r. registerWorker sha256hex newID cfg sid sn node slots tok now db = Inr r) \<longleftrightarrow>
      (mget [] (NodeTokenHashes db) nid = [] \<and> \<not> mhas (Nodes db) nid \<or>
       mget [] (NodeTokenHashes db) nid \<noteq> [] \<and> (sn = nid \<or> apiTokenHash sha256hex tok = mget [] (NodeTokenHashes db) nid))"
    using assms by (auto simp: registerWorker_def authorizeWorkerNode_def Let_def)
next
  assume r: "registerWorker sha256hex newID cfg sid sn node slots tok now db = Inr ((node', token), db')"
  obtain db1 where a: "authorizeWorkerNode sha256hex newID sn (Node_ID node) tok db = Inr (token, db1)"
    and t: "NodeTokenHashes db' = NodeTokenHashes db1"
    by (rule registerWorker_Inr [OF r])
  have hash: "apiTokenHash sha256hex token \<noteq> []"
    by (simp add: apiTokenHash_def)
  note auth = authorizeWorkerNode_Inr [OF a]
  {
    assume "mget [] (NodeTokenHashes db) nid \<noteq> []"
    then show "token = []" and "NodeTokenHashes db' = NodeTokenHashes db"
      using auth(4) assms t by auto
  }
  assume "mget [] (NodeTokenHashes db) nid = []"
  then have "NodeTokenHashes db' = mput nid (apiTokenHash sha256hex token) (NodeTokenHashes db)"
    using auth(3) assms t by auto
  with hash show "\<exists>r. registerWorker sha256hex newID cfg sid2 sn2 node slots2 token later db' = Inr r"
    and "apiTokenHash sha256hex other \<noteq> apiTokenHash sha256hex token \<and> sn2 \<noteq> nid \<Longrightarrow>
      registerWorker sha256hex newID cfg sid2 sn2 node slots2 other later db' = Inl Unauthorized"
    using assms by (auto simp: registerWorker_def authorizeWorkerNode_def Let_def)
qed

theorem node_token_binding_witness:
  "\<exists>r. registerWorker (\<lambda>s. s) (\<lambda>_ _. ''tok'') zero_ManagerConfig ''s9'' [] (zero_Node\<lparr>Node_ID := ''n9''\<rparr>) [] [] 5 sample_db = Inr r"
  using node_token_binding [of "zero_Node\<lparr>Node_ID := ''n9''\<rparr>" "''n9''" "\<lambda>s. s" "\<lambda>_ _. ''tok''" zero_ManagerConfig "''s9''" "[]" "[]" "[]" 5 sample_db]
  by (simp add: sample_defs mhas_def)

text \<open>Reconnecting does not clear a quarantine, and a registration places its slots. Whatever a
  worker sends, a quarantined slot whose quarantine is running stays quarantined, and the
  slots that the worker lists accept nothing while they are; every listed slot is stored at
  the registering node, and a slot that is not listed is unchanged.\<close>

theorem quarantine_survives_reconnect:
  assumes "registerWorker sha256hex newID cfg sid sn node slots tok now db = Inr ((node', token), db')"
    and "map_of (Slots db) k = Some old"
  shows "(Slot_Quarantined old \<and> \<not> quarantineExpired old now \<longrightarrow>
      (\<exists>s. map_of (Slots db') k = Some s \<and> Slot_Quarantined s \<and>
         (k \<in> (\<lambda>slot. Slot_ID (normalizeWorkerSlot slot node')) ` set slots \<longrightarrow> \<not> Slot_AcceptsNew s))) \<and>
    (\<forall>s. map_of (Slots db') k = Some s \<longrightarrow>
       (if k \<in> (\<lambda>slot. Slot_ID (normalizeWorkerSlot slot node')) ` set slots then Slot_NodeID s = Node_ID node else s = old))"
proof -
  obtain db1 where s: "Slots db' = Slots (upsertWorkerSlots node' slots now (db1\<lparr>Nodes := mput (Node_ID node) node' (Nodes db)\<rparr>))"
    and db1: "Slots db1 = Slots db" and nid: "Node_ID node' = Node_ID node"
    by (rule registerWorker_Inr [OF assms(1)])
  let ?d = "db1\<lparr>Nodes := mput (Node_ID node) node' (Nodes db)\<rparr>"
  have k: "map_of (Slots ?d) k = Some old"
    using assms(2) db1 by simp
  show ?thesis
    unfolding s
  proof (intro conjI impI allI)
    assume "Slot_Quarantined old \<and> \<not> quarantineExpired old now"
    then show "\<exists>sl. map_of (Slots (upsertWorkerSlots node' slots now ?d)) k = Some sl \<and> Slot_Quarantined sl \<and>
        (k \<in> (\<lambda>slot. Slot_ID (normalizeWorkerSlot slot node')) ` set slots \<longrightarrow> \<not> Slot_AcceptsNew sl)"
      using upsertWorkerSlots_quarantine [OF k] by blast
  next
    fix sl
    assume "map_of (Slots (upsertWorkerSlots node' slots now ?d)) k = Some sl"
    from upsertWorkerSlots_lookup [OF this]
    show "if k \<in> (\<lambda>slot. Slot_ID (normalizeWorkerSlot slot node')) ` set slots then Slot_NodeID sl = Node_ID node else sl = old"
      unfolding k nid by (simp only: option.inject eq_commute split: if_splits)
  qed
qed

theorem quarantine_survives_reconnect_witness:
  "let db = sample_db\<lparr>Slots := [(''n1/slot0'', sample_slot\<lparr>Slot_Quarantined := True, Slot_QuarantineUntil := Some 99\<rparr>)],
       NodeTokenHashes := [(''n1'', ''sha256:tok'')]\<rparr>;
       r = registerWorker (\<lambda>s. s) (\<lambda>_ _. ''x'') zero_ManagerConfig ''s1'' [] sample_node [sample_slot] ''tok'' 5 db
   in \<exists>s. map_of (Slots (snd (projr r))) ''n1/slot0'' = Some s \<and> Slot_Quarantined s"
proof -
  let ?db = "sample_db\<lparr>Slots := [(''n1/slot0'', sample_slot\<lparr>Slot_Quarantined := True, Slot_QuarantineUntil := Some 99\<rparr>)],
       NodeTokenHashes := [(''n1'', ''sha256:tok'')]\<rparr>"
  let ?r = "registerWorker (\<lambda>s. s) (\<lambda>_ _. ''x'') zero_ManagerConfig ''s1'' [] sample_node [sample_slot] ''tok'' 5 ?db"
  have auth: "authorizeWorkerNode (\<lambda>s. s) (\<lambda>_ _. ''x'') [] (Node_ID sample_node) ''tok'' ?db = Inr ([], ?db)"
    by (simp add: authorizeWorkerNode_def apiTokenHash_def sample_defs mget_def Let_def)
  obtain node' token db' where r: "?r = Inr ((node', token), db')"
    unfolding registerWorker_def auth Let_def by (simp only: sum.case prod.case)
  have k: "map_of (Slots ?db) ''n1/slot0'' = Some (sample_slot\<lparr>Slot_Quarantined := True, Slot_QuarantineUntil := Some 99\<rparr>)"
    by simp
  have "\<exists>s. map_of (Slots db') ''n1/slot0'' = Some s \<and> Slot_Quarantined s"
    using quarantine_survives_reconnect [OF r k] by (auto simp: quarantineExpired_def)
  then show ?thesis
    by (simp add: Let_def r)
qed

subsection \<open>Where registration trusts the worker\<close>

text \<open>A worker approves and assigns itself. Without automatic approval, the approval of a node
  that is not known yet is what the worker's own message says (the worker sends true), and
  the owner that earns the credits of the node's work becomes, at every registration, the
  one in the worker's message: the owner that an administrator set is lost.\<close>

theorem registration_trusts_worker:
  assumes "registerWorker sha256hex newID cfg sid sn node slots tok now db = Inr ((node', token), db')"
    and "\<not> Cfg_AutoApprove cfg"
  shows "map_of (Nodes db') (Node_ID node) = Some node' \<and> Node_OwnerUserID node' = Node_OwnerUserID node \<and>
    (\<not> mhas (Nodes db) (Node_ID node) \<longrightarrow> Node_Approved node' = Node_Approved node)"
proof -
  have "mget zero_Node (Nodes db) (Node_ID node) = zero_Node" if "\<not> mhas (Nodes db) (Node_ID node)"
    using that by (simp add: mhas_def mget_def)
  moreover obtain db1 where "Nodes db' = mput (Node_ID node) node' (Nodes db)" "Node_OwnerUserID node' = Node_OwnerUserID node"
    "Node_Approved node' \<longleftrightarrow> Cfg_AutoApprove cfg \<or> (if Node_ID (mget zero_Node (Nodes db) (Node_ID node)) \<noteq> []
       then Node_Approved (mget zero_Node (Nodes db) (Node_ID node)) else Node_Approved node)"
    by (rule registerWorker_Inr [OF assms(1)])
  ultimately show ?thesis
    using assms(2) by simp
qed

theorem registration_trusts_worker_witness:
  "let r = registerWorker (\<lambda>s. s) (\<lambda>_ _. ''x'') zero_ManagerConfig ''s1'' []
       (sample_node\<lparr>Node_ID := ''n9'', Node_OwnerUserID := ''me''\<rparr>) [] [] 5 sample_db
   in Node_Approved (fst (fst (projr r))) \<and> Node_OwnerUserID (fst (fst (projr r))) = ''me''"
proof -
  let ?node = "sample_node\<lparr>Node_ID := ''n9'', Node_OwnerUserID := ''me''\<rparr>"
  let ?r = "registerWorker (\<lambda>s. s) (\<lambda>_ _. ''x'') zero_ManagerConfig ''s1'' [] ?node [] [] 5 sample_db"
  have "isl ?r = False" by code_simp
  then obtain node' token db' where r: "?r = Inr ((node', token), db')"
    by (cases ?r) auto
  have "Node_OwnerUserID node' = ''me'' \<and> Node_Approved node'"
    using registration_trusts_worker [OF r] by (simp add: sample_defs mhas_def zero_ManagerConfig_def)
  then show ?thesis by (simp add: Let_def r)
qed

text \<open>A worker takes over a slot of any other node by listing its identifier.\<close>

lemma slot_takeover:
  assumes "registerWorker sha newID cfg sid sn node slots tok now db = Inr ((node', token), db')"
    and "slot \<in> set slots" and "Slot_ID slot \<noteq> []" and "map_of (Slots db') (Slot_ID slot) = Some s"
  shows "Slot_NodeID s = Node_ID node"
proof -
  obtain db1 where "Slots db' = Slots (upsertWorkerSlots node' slots now (db1\<lparr>Nodes := mput (Node_ID node) node' (Nodes db)\<rparr>))"
    and "Node_ID node' = Node_ID node"
    by (rule registerWorker_Inr [OF assms(1)])
  moreover have "Slot_ID slot \<in> (\<lambda>slot. Slot_ID (normalizeWorkerSlot slot node')) ` set slots"
    by (rule image_eqI [OF _ assms(2)]) (simp add: assms(3))
  ultimately show ?thesis
    using upsertWorkerSlots_lookup assms(4) by (metis (no_types, lifting))
qed

text \<open>A heartbeat for a node that was deleted stores an online node under the empty identifier.\<close>

lemma heartbeat_revives_nothing:
  "map_option Node_State (map_of (Nodes (workerHeartbeat ''n9'' 5 sample_db)) []) = Some NodeStateOnline"
  by code_simp

text \<open>A node that an administrator entered, and that has no token, can never be registered.\<close>

lemma preconfigured_node_locked_out:
  assumes "mhas (Nodes db) nid" and "mget [] (NodeTokenHashes db) nid = []" and "Node_ID node = nid" and "nid \<noteq> []"
  shows "registerWorker sha newID cfg sid sn node slots tok now db = Inl (NotFound ''worker node token'' nid)"
  using assms by (simp add: registerWorker_def authorizeWorkerNode_def)

end
