(* ===== verification/Dispatch.thy ===== *)
theory Dispatch
  imports Plan Worker_State
begin

section \<open>Planning, dispatch and scheduling (manager_scheduler.go, manager_chat.go, manager_ws.go)\<close>

text \<open>
  The operations of the running manager: they combine transactions on the database with
  messages to the workers and events to waiting clients. Every operation reads the database
  through a snapshot (\<open>cloneDatabase\<close>), as the code does. \<open>now\<close> is the time of the call.
\<close>

subsection \<open>What a worker needs for a profile\<close>

definition TrimRightSlash :: "string \<Rightarrow> string" where
  "TrimRightSlash s = rev (dropWhile (\<lambda>c. c = CHR ''/'') (rev s))"

definition peersForArtifact :: "Manager \<Rightarrow> Database \<Rightarrow> string \<Rightarrow> string list" where
  "peersForArtifact m db artifactID =
     concat (map (\<lambda>node.
       case Node_P2P node of
         None \<Rightarrow> []
       | Some p2p \<Rightarrow>
           if Node_State node \<noteq> NodeStateOnline \<or> \<not> P2P_Available p2p \<or> P2P_Port p2p \<le> 0 then []
           else if \<not> Contains (Node_CachedArtifacts node) artifactID then []
           else case sessionFor m (Node_ID node) of
                  None \<Rightarrow> []
                | Some sess \<Rightarrow> if Session_remoteHost sess = [] then []
                    else [Session_remoteHost sess @ '':'' @ show_int (P2P_Port p2p)]) (mvals (Nodes db)))"

definition artifactSpecs :: "Manager \<Rightarrow> WorkloadProfile \<Rightarrow> string \<Rightarrow> ArtifactSpec list" where
  "artifactSpecs m profile baseURL =
     (let db = cloneDatabase (Mgr_db m); p2pEnabled = Settings_P2PEnabled (Settings db) in
      concat (map (\<lambda>aid.
        case map_of (Artifacts db) aid of
          None \<Rightarrow> []
        | Some artifact \<Rightarrow>
            [\<lparr>Spec_ID = Artifact_ID artifact, Spec_Kind = Artifact_Kind artifact, Spec_Name = Artifact_Name artifact,
              Spec_SHA256 = Artifact_SHA256 artifact, Spec_SizeBytes = Artifact_SizeBytes artifact,
              Spec_URL = TrimRightSlash baseURL @ ''/api/worker/artifacts/'' @ Artifact_ID artifact,
              Spec_Torrent = (if p2pEnabled then Artifact_Torrent artifact else None),
              Spec_P2PPeers = (if p2pEnabled then peersForArtifact m db aid else [])\<rparr>])
        (Profile_Artifacts profile)))"

subsection \<open>Replanning\<close>

definition storePlan :: "PlacementAssignment list \<Rightarrow> Database \<Rightarrow> Database" where
  "storePlan plan db =
     applyPlacementDrainState (db\<lparr>Assignments := foldl (\<lambda>as a. mput (Asg_ID a) a as) [] plan\<rparr>)"

text \<open>Whether an assignment still has to be sent to its worker.\<close>

definition assignmentPending :: "PlacementAssignment \<Rightarrow> bool" where
  "assignmentPending a \<longleftrightarrow>
     \<not> (\<not> Asg_DesiredCached a \<or> Asg_NodeID a = [] \<or> Asg_MismatchReason a \<noteq> []) \<and>
     \<not> (Asg_ActualCached a \<and> (\<not> Asg_DesiredWarm a \<or> Asg_ActualWarm a))"

definition dispatchAssignment ::
  "json_codec \<Rightarrow> id_source \<Rightarrow> Database \<Rightarrow> Manager \<Rightarrow> PlacementAssignment \<Rightarrow> Manager" where
  "dispatchAssignment J newID db m a =
     (if \<not> assignmentPending a then m
      else (let profile = effectiveProfileForAssignment (mget zero_WorkloadProfile (Profiles db) (Asg_ProfileID a)) a in
        case sessionFor m (Asg_NodeID a) of
          None \<Rightarrow> m
        | Some sess \<Rightarrow>
            snd (enqueueSession newID (Session_id sess) (zero_Envelope\<lparr>Env_Type := MsgAssignProfile,
              Env_NodeID := Asg_NodeID a,
              Env_Payload := marshalAssignment J \<lparr>Assign_Profile = profile,
                Assign_Artifacts = artifactSpecs m profile (Session_baseURL sess),
                Assign_SlotID = Asg_SlotID a, Assign_Cached = Asg_DesiredCached a, Assign_Warm = Asg_DesiredWarm a\<rparr>\<rparr>) m)))"

definition maintain :: "id_source \<Rightarrow> time \<Rightarrow> Manager \<Rightarrow> Manager" where
  "maintain newID now m =
     update_db (\<lambda>db. Manager_clearExpiredWorkerSuppressions (Mgr_cfg m) now (clearExpiredQuarantines newID now db)) m"

definition replanAndDispatch :: "json_codec \<Rightarrow> id_source \<Rightarrow> time \<Rightarrow> Manager \<Rightarrow> Manager" where
  "replanAndDispatch J newID now m =
     (let m1 = maintain newID now m;
          db = cloneDatabase (Mgr_db m1);
          plan = PlanPlacementWithConfig db (Mgr_cfg m1) now;
          m2 = update_db (storePlan plan) m1;
          m3 = foldl (dispatchAssignment J newID db) m2 plan
      in dispatchStaleArtifactEvictions J newID ''not_desired'' now m3)"

subsection \<open>Closing sessions\<close>

definition closeWithFlapEvent :: "id_source \<Rightarrow> string \<Rightarrow> string \<Rightarrow> time \<Rightarrow> Manager \<Rightarrow> Manager" where
  "closeWithFlapEvent newID sid eventType now m =
     (case map_of (Mgr_workers m) sid of
        None \<Rightarrow> m
      | Some s \<Rightarrow>
          if Session_done s then m
          else (let m1 = m\<lparr>Mgr_workers := mput sid (s\<lparr>Session_done := True\<rparr>) (Mgr_workers m)\<rparr> in
            if Session_nodeID s = [] then m1
            else (let m2 = removeSession s m1;
                      (failed, db) = failRunningAttempts newID (Mgr_cfg m2) (Session_id s) (Session_nodeID s) eventType now
                        (Mgr_db m2)
                  in publishWorkerDisconnectFailures failed (m2\<lparr>Mgr_db := db\<rparr>))))"

definition close :: "id_source \<Rightarrow> string \<Rightarrow> time \<Rightarrow> Manager \<Rightarrow> Manager" where
  "close newID sid now m = closeWithFlapEvent newID sid workerFlapEventDisconnect now m"

definition staleWorkerSessions :: "Manager \<Rightarrow> time \<Rightarrow> string list \<times> string list" where
  "staleWorkerSessions m cutoff =
     (let stale = filter (\<lambda>node. \<not> (Node_State node \<noteq> NodeStateOnline \<or> cutoff < Node_LastSeen node))
            (mvals (Nodes (cloneDatabase (Mgr_db m))))
      in (concat (map (\<lambda>node. case sessionFor m (Node_ID node) of None \<Rightarrow> [] | Some s \<Rightarrow> [Session_id s]) stale),
          concat (map (\<lambda>node. case sessionFor m (Node_ID node) of None \<Rightarrow> [Node_ID node] | Some s \<Rightarrow> []) stale)))"

definition expireWorkerHeartbeats :: "json_codec \<Rightarrow> id_source \<Rightarrow> time \<Rightarrow> Manager \<Rightarrow> Manager" where
  "expireWorkerHeartbeats J newID now m =
     (let timeout = Cfg_WorkerHeartbeatTimeout (Mgr_cfg m) in
      if timeout \<le> 0 then m
      else (let (sessions, offline) = staleWorkerSessions m (now - timeout);
                m1 = foldl (\<lambda>m sid. closeWithFlapEvent newID sid workerFlapEventHeartbeatExpired now m) m sessions;
                m2 = (if offline \<noteq> []
                      then update_db (markOfflineWorkers (Mgr_cfg m1) offline workerFlapEventHeartbeatExpired now) m1 else m1)
            in if sessions \<noteq> [] \<or> offline \<noteq> [] then replanAndDispatch J newID now m2 else m2))"

subsection \<open>Choosing a slot\<close>

definition failedSlotsForTask :: "Database \<Rightarrow> string \<Rightarrow> string list" where
  "failedSlotsForTask db taskID =
     Task_FailedSlots (mget zero_Task (Tasks db) taskID) @
     map Attempt_SlotID (filter (\<lambda>attempt. Attempt_TaskID attempt = taskID \<and> Attempt_Status attempt = TaskStatusFailed)
       (mvals (Attempts db)))"

definition slotReadyForProfile :: "Slot \<Rightarrow> Node \<Rightarrow> string \<Rightarrow> string list \<Rightarrow> bool" where
  "slotReadyForProfile slot node profileID failed \<longleftrightarrow>
     (if Slot_ProfileID slot \<noteq> profileID \<or> Slot_State slot \<noteq> SlotStateReady \<or> Slot_ActiveTaskID slot \<noteq> [] \<or>
         \<not> Slot_AcceptsNew slot then False
      else if Slot_Quarantined slot \<or> Contains failed (Slot_ID slot) then False
      else Node_State node = NodeStateOnline \<and> Node_Approved node \<and> \<not> Node_Quarantined node)"

definition variantCandidates :: "WorkloadProfile \<Rightarrow> Node \<Rightarrow> Slot \<Rightarrow> placementCandidate list" where
  "variantCandidates profile node slot =
     concat (map (\<lambda>variant.
       let effective = EffectiveProfileForVariant profile variant in
       if Slot_RuntimeVariantID slot \<noteq> [] \<and> Slot_RuntimeVariantID slot \<noteq> Profile_RuntimeVariantID effective then []
       else (let fit = FitProfileToSlot effective node slot in
             if Fit_Fits fit \<and> slotProfileCurrent slot (Profile_ID profile) effective
             then [\<lparr>Cand_slot = slot, Cand_node = node, Cand_profile = zero_WorkloadProfile, Cand_effective = effective,
                    Cand_fit = fit\<rparr>] else []))
       (ProfileRuntimeVariants profile))"

definition readySlotCandidates :: "Database \<Rightarrow> WorkloadProfile \<Rightarrow> string list \<Rightarrow> placementCandidate list" where
  "readySlotCandidates db profile failed =
     concat (map (\<lambda>slot. let node = mget zero_Node (Nodes db) (Slot_NodeID slot) in
        if \<not> slotReadyForProfile slot node (Profile_ID profile) failed then [] else variantCandidates profile node slot)
       (mvals (Slots db)))"

definition readyLess :: "placementCandidate \<Rightarrow> placementCandidate \<Rightarrow> bool" where
  "readyLess a b \<longleftrightarrow>
     (if Slot_FailureCount (Cand_slot a) = Slot_FailureCount (Cand_slot b)
      then Slot_LastTaskAt (Cand_slot a) < Slot_LastTaskAt (Cand_slot b)
      else Slot_FailureCount (Cand_slot a) < Slot_FailureCount (Cand_slot b))"

definition sortReadySlotCandidates :: "placementCandidate list \<Rightarrow> placementCandidate list" where
  "sortReadySlotCandidates candidates = sort_by readyLess candidates"

interpretation ready_order: key_order readyLess
  "\<lambda>c. (Slot_FailureCount (Cand_slot c), Slot_LastTaskAt (Cand_slot c))"
  by unfold_locales (auto simp: readyLess_def less_prod_def')

text \<open>The first candidate, in order, whose node a session serves.\<close>

definition pickReadySlot :: "Manager \<Rightarrow> placementCandidate list \<Rightarrow> (placementCandidate \<times> workerSession) option" where
  "pickReadySlot m candidates =
     (case filter (\<lambda>c. sessionFor m (Slot_NodeID (Cand_slot c)) \<noteq> None) candidates of
        [] \<Rightarrow> None
      | c # _ \<Rightarrow> map_option (Pair c) (sessionFor m (Slot_NodeID (Cand_slot c))))"

definition selectReadySlot ::
  "json_codec \<Rightarrow> id_source \<Rightarrow> WorkloadProfile \<Rightarrow> string \<Rightarrow> time \<Rightarrow> Manager \<Rightarrow>
   (Slot \<times> WorkloadProfile \<times> workerSession) option \<times> Manager" where
  "selectReadySlot J newID profile taskID now m =
     (let m1 = expireWorkerHeartbeats J newID now (maintain newID now m);
          db = cloneDatabase (Mgr_db m1);
          candidates = sortReadySlotCandidates (readySlotCandidates db profile (failedSlotsForTask db taskID))
      in (map_option (\<lambda>(c, s). (Cand_slot c, Cand_effective c, s)) (pickReadySlot m1 candidates), m1))"

subsection \<open>Cancelling\<close>

definition cancelAttempt ::
  "json_codec \<Rightarrow> id_source \<Rightarrow> string \<Rightarrow> string \<Rightarrow> string \<Rightarrow> string \<Rightarrow> Manager \<Rightarrow> Manager" where
  "cancelAttempt J newID nodeID taskID attemptID reason m =
     (case sessionFor m nodeID of
        None \<Rightarrow> m
      | Some sess \<Rightarrow>
          snd (enqueueSession newID (Session_id sess) (zero_Envelope\<lparr>Env_Type := MsgCancelTask, Env_NodeID := nodeID,
            Env_TaskID := taskID, Env_Attempt := attemptID,
            Env_Payload := marshalCancel J \<lparr>Cancel_TaskID = taskID, Cancel_AttemptID = attemptID,
              Cancel_FailureReason = reason\<rparr>\<rparr>) m))"

definition cancelTask :: "json_codec \<Rightarrow> id_source \<Rightarrow> string \<Rightarrow> string \<Rightarrow> time \<Rightarrow> Manager \<Rightarrow> Manager" where
  "cancelTask J newID taskID reason now m =
     (let m1 = update_db (markTaskCancelRequested newID taskID reason now) m in
      foldl (\<lambda>m attempt. if Attempt_TaskID attempt = taskID \<and> Attempt_Status attempt = TaskStatusRunning
          then cancelAttempt J newID (Attempt_NodeID attempt) taskID (Attempt_ID attempt) reason m else m)
        m1 (mvals (Attempts (cloneDatabase (Mgr_db m1)))))"

subsection \<open>Attempts\<close>

definition dispatchAttempt ::
  "json_codec \<Rightarrow> id_source \<Rightarrow> workerSession \<Rightarrow> Task \<Rightarrow> WorkloadProfile \<Rightarrow> Slot \<Rightarrow> Attempt \<Rightarrow> ChatMessage list \<Rightarrow> int \<Rightarrow>
   float64 \<Rightarrow> time \<Rightarrow> Manager \<Rightarrow> bool \<times> Manager" where
  "dispatchAttempt J newID sess task effective slot attempt messages maxTokens temperature now m =
     enqueueSession newID (Session_id sess) (zero_Envelope\<lparr>Env_Type := MsgExecuteTask, Env_NodeID := Slot_NodeID slot,
       Env_TaskID := Task_ID task, Env_Attempt := Attempt_ID attempt,
       Env_Payload := marshalExecute J \<lparr>Exec_TaskID = Task_ID task, Exec_AttemptID = Attempt_ID attempt,
         Exec_SlotID = Slot_ID slot, Exec_Profile = effective,
         Exec_Artifacts = artifactSpecs m effective (Session_baseURL sess), Exec_Messages = messages,
         Exec_MaxTokens = maxTokens, Exec_Temperature = temperature, Exec_RequestedAt = now div 1000000000\<rparr>\<rparr>) m"

definition newActiveAttempt :: "string \<Rightarrow> string \<Rightarrow> time \<Rightarrow> activeAttempt" where
  "newActiveAttempt taskID attemptID now = \<lparr>Active_taskID = taskID, Active_attemptID = attemptID,
     Active_firstOutput = False, Active_events = [], Active_createdAt = now\<rparr>"

datatype begin_error = BeginReserve reserve_error | BeginDisconnected

definition beginAttempt ::
  "json_codec \<Rightarrow> id_source \<Rightarrow> Task \<Rightarrow> WorkloadProfile \<Rightarrow> WorkloadProfile \<Rightarrow> Slot \<Rightarrow> workerSession \<Rightarrow> ChatMessage list \<Rightarrow> int \<Rightarrow>
   float64 \<Rightarrow> time \<Rightarrow> Manager \<Rightarrow> (begin_error + string) \<times> Manager" where
  "beginAttempt J newID task profile effective slot sess messages maxTokens temperature now m =
     (let attempt = newAttempt newID task profile effective slot now (Mgr_db m) in
      case reserveAttemptInDB newID task profile effective slot attempt now (Mgr_db m) of
        Inl e \<Rightarrow> (Inl (BeginReserve e), m)
      | Inr db \<Rightarrow>
          (let m1 = registerStream (Attempt_ID attempt) (newActiveAttempt (Task_ID task) (Attempt_ID attempt) now)
                 (m\<lparr>Mgr_db := db\<rparr>);
               (sent, m2) = dispatchAttempt J newID sess task effective slot attempt messages maxTokens temperature now m1
           in if sent then (Inr (Attempt_ID attempt), m2)
              else (Inl BeginDisconnected,
                update_db (markAttemptFailed newID (Mgr_cfg m2) (Attempt_ID attempt) ''dispatch'' FailureWorkerDisconnected
                  True False now) (unregisterStream (Attempt_ID attempt) m2))))"

text \<open>
  One round of the loop of \<^verbatim>\<open>startAttempt\<close>, which polls until an attempt is dispatched, the
  request is cancelled or the deadline passes; \<open>ctxDone\<close> is the state of the request's context.
\<close>

datatype start_round = Started string | StartCancelled | StartFailed begin_error | NoCapacity | PollAgain

definition startAttempt ::
  "json_codec \<Rightarrow> id_source \<Rightarrow> bool \<Rightarrow> time \<Rightarrow> Task \<Rightarrow> WorkloadProfile \<Rightarrow> ChatMessage list \<Rightarrow> int \<Rightarrow> float64 \<Rightarrow> time \<Rightarrow>
   Manager \<Rightarrow> start_round \<times> Manager" where
  "startAttempt J newID ctxDone deadline task profile messages maxTokens temperature now m =
     (if ctxDone then (StartCancelled, m)
      else if taskIsCancelled (cloneDatabase (Mgr_db m)) (Task_ID task) then (StartCancelled, m)
      else case selectReadySlot J newID profile (Task_ID task) now m of
        (Some (slot, effective, sess), m1) \<Rightarrow>
          (case beginAttempt J newID task profile effective slot sess messages maxTokens temperature now m1 of
             (Inr aid, m2) \<Rightarrow> (Started aid, m2)
           | (Inl (BeginReserve SlotUnavailable), m2) \<Rightarrow> (PollAgain, m2)
           | (Inl e, m2) \<Rightarrow> (StartFailed e, m2))
      | (None, m1) \<Rightarrow>
          if deadline < now
          then (NoCapacity, update_db (failTask (Task_ID task) FailureNoCapacity now) m1)
          else (PollAgain, m1))"

end
