(* ===== verification/Lifecycle_Properties.thy ===== *)
theory Lifecycle_Properties
  imports Lifecycle
begin

section \<open>Properties of tasks and attempts\<close>

text \<open>
  Reservation is exclusive, the balance is never overcommitted, finished tasks stay as they
  are under cancellation and time-outs, reports cannot be forged, a disconnected worker
  leaves nothing running, and where the transactions fall short of the documentation.
\<close>

subsection \<open>Lemmas\<close>

lemma retryOrFail_sel [simp]:
  "Task_ID (retryOrFail retry reason slotID now task) = Task_ID task"
  "Task_UserID (retryOrFail retry reason slotID now task) = Task_UserID task"
  "Task_ComputeCost (retryOrFail retry reason slotID now task) = Task_ComputeCost task"
  "Task_Status (retryOrFail retry reason slotID now task) = (if retry then TaskStatusQueued else TaskStatusFailed)"
  "Task_FailedSlots (retryOrFail retry reason slotID now task) = appendUnique (Task_FailedSlots task) slotID"
  by (simp_all add: retryOrFail_def Let_def)

lemma requireWorkerAttempt_Inr:
  "requireWorkerAttempt db nodeID aid tid = Inr a \<Longrightarrow>
     map_of (Attempts db) aid = Some a \<and> Attempt_ID a \<noteq> [] \<and> Attempt_NodeID a = nodeID \<and> aid \<noteq> [] \<and>
     (tid = [] \<or> Attempt_TaskID a = tid)"
  by (auto simp: requireWorkerAttempt_def Let_def mget_def split: if_splits option.splits)

text \<open>What a reservation does, when it succeeds.\<close>

lemma reserve_Inr:
  assumes "keyed Slot_ID (Slots db)" and "keyed Task_ID (Tasks db)"
    and "reserveAttemptInDB newID task profile effective slot attempt now db = Inr db'"
  obtains current stored where
    "Task_Status stored = TaskStatusQueued" "mget zero_Task (Tasks db) (Task_ID task) = stored"
    "map_of (Slots db) (Slot_ID slot) = Some current" "Slot_State current = SlotStateReady"
    "Slot_ActiveTaskID current = []" "Slot_AcceptsNew current" "\<not> Slot_Quarantined current"
    "Slot_ProfileID current = Profile_ID profile"
    "Slots db' = mput (Slot_ID slot) (current\<lparr>Slot_State := SlotStateServing, Slot_ActiveTaskID := Task_ID task,
       Slot_LastTaskAt := now, Slot_AcceptsNew := False\<rparr>) (Slots db)"
    "Tasks db' = mput (Task_ID task) (stored\<lparr>Task_Status := TaskStatusRunning,
       Task_ProfileID := Profile_ID profile, Task_ProfileVersion := profileVersion profile,
       Task_LogicalModel := ProfileLogicalModel effective, Task_RuntimeVariantID := Profile_RuntimeVariantID effective,
       Task_ComputeCost := Profile_ComputeCost profile, Task_UpdatedAt := now\<rparr>) (Tasks db)"
    "Attempts db' = mput (Attempt_ID attempt) attempt (Attempts db)"
proof -
  define current where "current = mget zero_Slot (Slots db) (Slot_ID slot)"
  define stored where "stored = mget zero_Task (Tasks db) (Task_ID task)"
  have c: "Task_Status stored = TaskStatusQueued" "Slot_State current = SlotStateReady" "Slot_ActiveTaskID current = []"
      "Slot_AcceptsNew current" "\<not> Slot_Quarantined current" "Slot_ProfileID current = Profile_ID profile"
    and r: "db' = appendAudit newID ''attempt.assigned'' ''manager'' (Attempt_ID attempt) [] now
      (db\<lparr>Slots := mput (Slot_ID current) (current\<lparr>Slot_State := SlotStateServing, Slot_ActiveTaskID := Task_ID task,
         Slot_LastTaskAt := now, Slot_AcceptsNew := False\<rparr>) (Slots db),
       Tasks := mput (Task_ID stored) (stored\<lparr>Task_Status := TaskStatusRunning,
       Task_ProfileID := Profile_ID profile, Task_ProfileVersion := profileVersion profile,
       Task_LogicalModel := ProfileLogicalModel effective, Task_RuntimeVariantID := Profile_RuntimeVariantID effective,
       Task_ComputeCost := Profile_ComputeCost profile, Task_UpdatedAt := now\<rparr>) (Tasks db),
       Attempts := mput (Attempt_ID attempt) attempt (Attempts db)\<rparr>)"
    using assms(3) by (auto simp: reserveAttemptInDB_def Let_def current_def stored_def split: if_splits)
  have slot: "map_of (Slots db) (Slot_ID slot) = Some current"
    using c(2) by (cases "map_of (Slots db) (Slot_ID slot)") (auto simp: current_def mget_def)
  have task: "map_of (Tasks db) (Task_ID task) = Some stored"
    using c(1) by (cases "map_of (Tasks db) (Task_ID task)") (auto simp: stored_def mget_def)
  have ids: "Slot_ID current = Slot_ID slot" "Task_ID stored = Task_ID task"
    using keyed_lookup [OF assms(1) slot] keyed_lookup [OF assms(2) task] .
  show ?thesis
    by (rule that [of stored current]) (use c r slot ids in \<open>simp_all add: stored_def\<close>)
qed

subsection \<open>Reservation\<close>

text \<open>C11: a reservation is exclusive. It succeeds only for a queued task and a ready slot that
  accepts work; then the slot serves exactly that task and accepts nothing, the task is
  running and the attempt is stored. While this is the state, every further reservation of
  the slot, for whatever task, and every further reservation for the task, on whatever
  slot, is refused. No other slot and no other task changes.\<close>

theorem reservation_exclusive:
  assumes "keyed Slot_ID (Slots db)" and "keyed Task_ID (Tasks db)"
    and "reserveAttemptInDB newID task profile effective slot attempt now db = Inr db'"
  shows "Task_Status (mget zero_Task (Tasks db) (Task_ID task)) = TaskStatusQueued \<and>
    (\<exists>current. map_of (Slots db) (Slot_ID slot) = Some current \<and> Slot_State current = SlotStateReady \<and>
       Slot_ActiveTaskID current = [] \<and> Slot_AcceptsNew current \<and> \<not> Slot_Quarantined current) \<and>
    (\<exists>current'. map_of (Slots db') (Slot_ID slot) = Some current' \<and> Slot_State current' = SlotStateServing \<and>
       Slot_ActiveTaskID current' = Task_ID task \<and> \<not> Slot_AcceptsNew current') \<and>
    Task_Status (mget zero_Task (Tasks db') (Task_ID task)) = TaskStatusRunning \<and>
    map_of (Attempts db') (Attempt_ID attempt) = Some attempt \<and>
    (Slot_ID slot2 = Slot_ID slot \<or> Task_ID task2 = Task_ID task \<longrightarrow>
       (\<exists>e. reserveAttemptInDB newID task2 profile2 effective2 slot2 attempt2 later db' = Inl e)) \<and>
    (\<forall>sid. sid \<noteq> Slot_ID slot \<longrightarrow> map_of (Slots db') sid = map_of (Slots db) sid) \<and>
    (\<forall>tid. tid \<noteq> Task_ID task \<longrightarrow> map_of (Tasks db') tid = map_of (Tasks db) tid)"
proof -
  obtain current stored where r: "Task_Status stored = TaskStatusQueued" "mget zero_Task (Tasks db) (Task_ID task) = stored"
    "map_of (Slots db) (Slot_ID slot) = Some current" "Slot_State current = SlotStateReady"
    "Slot_ActiveTaskID current = []" "Slot_AcceptsNew current" "\<not> Slot_Quarantined current"
    "Slots db' = mput (Slot_ID slot) (current\<lparr>Slot_State := SlotStateServing, Slot_ActiveTaskID := Task_ID task,
       Slot_LastTaskAt := now, Slot_AcceptsNew := False\<rparr>) (Slots db)"
    "Tasks db' = mput (Task_ID task) (stored\<lparr>Task_Status := TaskStatusRunning,
       Task_ProfileID := Profile_ID profile, Task_ProfileVersion := profileVersion profile,
       Task_LogicalModel := ProfileLogicalModel effective, Task_RuntimeVariantID := Profile_RuntimeVariantID effective,
       Task_ComputeCost := Profile_ComputeCost profile, Task_UpdatedAt := now\<rparr>) (Tasks db)"
    "Attempts db' = mput (Attempt_ID attempt) attempt (Attempts db)"
    by (rule reserve_Inr [OF assms])
  have "\<exists>e. reserveAttemptInDB newID task2 profile2 effective2 slot2 attempt2 later db' = Inl e"
    if "Slot_ID slot2 = Slot_ID slot \<or> Task_ID task2 = Task_ID task"
    using that r(8,9) by (auto simp: reserveAttemptInDB_def Let_def)
  with r show ?thesis by simp
qed

definition sample_task :: Task where
  "sample_task = zero_Task\<lparr>Task_ID := ''t1'', Task_UserID := ''client'', Task_ProfileID := ''p1'', Task_ComputeCost := 5,
     Task_Status := TaskStatusQueued\<rparr>"

definition sample_attempt :: Attempt where
  "sample_attempt = zero_Attempt\<lparr>Attempt_ID := ''a1'', Attempt_TaskID := ''t1'', Attempt_UserID := ''client'',
     Attempt_NodeID := ''n1'', Attempt_SlotID := ''n1/slot0'', Attempt_ProfileID := ''p1'', Attempt_ComputeCost := 5,
     Attempt_Status := TaskStatusRunning\<rparr>"

definition sample_queued_db :: Database where
  "sample_queued_db = sample_db\<lparr>Tasks := [(''t1'', sample_task)]\<rparr>"

theorem reservation_exclusive_witness:
  "\<exists>db' e. reserveAttemptInDB (\<lambda>_ _. ''x'') sample_task sample_profile (sample_profile\<lparr>Profile_RuntimeVariantID := ''p1''\<rparr>)
       sample_slot sample_attempt 9 sample_queued_db = Inr db' \<and>
     reserveAttemptInDB (\<lambda>_ _. ''x'') sample_task sample_profile sample_profile sample_slot2 sample_attempt 10 db' = Inl e"
proof -
  let ?r = "reserveAttemptInDB (\<lambda>_ _. ''x'') sample_task sample_profile (sample_profile\<lparr>Profile_RuntimeVariantID := ''p1''\<rparr>)
    sample_slot sample_attempt 9 sample_queued_db"
  have "keyed Slot_ID (Slots sample_queued_db)" by code_simp
  moreover have "keyed Task_ID (Tasks sample_queued_db)" by code_simp
  moreover have "isl ?r = False" by code_simp
  then obtain db' where "?r = Inr db'" by (cases ?r) auto
  ultimately show ?thesis
    using reservation_exclusive [of sample_queued_db "\<lambda>_ _. ''x''" sample_task sample_profile
      "sample_profile\<lparr>Profile_RuntimeVariantID := ''p1''\<rparr>" sample_slot sample_attempt 9 db'
      sample_slot2 sample_task sample_profile sample_profile sample_attempt 10] by blast
qed

subsection \<open>Balances\<close>

definition task_open :: "string \<Rightarrow> Task \<Rightarrow> bool" where
  "task_open uid task \<longleftrightarrow> Task_UserID task = uid \<and> (Task_Status task = TaskStatusQueued \<or> Task_Status task = TaskStatusRunning)"

text \<open>The cost of a user's queued and running tasks, as an integer without bounds.\<close>

definition open_cost :: "Database \<Rightarrow> string \<Rightarrow> int" where
  "open_cost db uid = sum_list (map Task_ComputeCost (filter (task_open uid) (mvals (Tasks db))))"

lemma pendingComputeCost_eq: "pendingComputeCost db uid = wrap64 (open_cost db uid)"
proof -
  have "foldl (\<lambda>sum0 task. if Task_UserID task \<noteq> uid then sum0
          else if Task_Status task = TaskStatusQueued \<or> Task_Status task = TaskStatusRunning
          then wrap64 (sum0 + Task_ComputeCost task) else sum0) (wrap64 s) ts =
        wrap64 (s + sum_list (map Task_ComputeCost (filter (task_open uid) ts)))" for s ts
    by (induction ts arbitrary: s) (auto simp: task_open_def add.assoc)
  from this [of 0] show ?thesis
    by (simp add: pendingComputeCost_def open_cost_def wrap64_id in64_def)
qed

lemma open_cost_new:
  "\<not> mhas (Tasks db) (Task_ID task) \<Longrightarrow> task_open uid task \<Longrightarrow> Tasks db' = mput (Task_ID task) task (Tasks db) \<Longrightarrow>
   open_cost db' uid = open_cost db uid + Task_ComputeCost task"
  by (simp add: open_cost_def filter_mvals_new)



subsection \<open>Finished tasks\<close>

text \<open>A time-out or a cancellation never touches a finished task. For an existing task that
  is queued or running, cancelling makes it cancelled with the given reason and a completion
  time, and failing makes it failed; no other task changes, and after a cancellation no
  reservation for the task succeeds.\<close>

theorem finished_tasks_stay:
  assumes "keyed Task_ID (Tasks db)" and "map_of (Tasks db) tid = Some task" and "tid \<noteq> []"
  shows "(taskFinal task \<longrightarrow> failTask tid reason now db = db \<and> markTaskCancelRequested newID tid reason now db = db) \<and>
    (\<not> taskFinal task \<longrightarrow>
       map_of (Tasks (markTaskCancelRequested newID tid reason now db)) tid =
         Some (task\<lparr>Task_Status := TaskStatusCancelled, Task_FailureReason := reason, Task_UpdatedAt := now,
           Task_CompletedAt := Some now\<rparr>) \<and>
       map_of (Tasks (failTask tid reason now db)) tid =
         Some (task\<lparr>Task_Status := TaskStatusFailed, Task_FailureReason := reason, Task_UpdatedAt := now,
           Task_CompletedAt := Some now\<rparr>) \<and>
       (Task_ID task2 = tid \<longrightarrow> reserveAttemptInDB newID task2 profile effective slot attempt later
          (markTaskCancelRequested newID tid reason now db) = Inl TaskCancelled)) \<and>
    (tid' \<noteq> tid \<longrightarrow> map_of (Tasks (markTaskCancelRequested newID tid reason now db)) tid' = map_of (Tasks db) tid' \<and>
       map_of (Tasks (failTask tid reason now db)) tid' = map_of (Tasks db) tid')"
proof -
  have "Task_ID task = tid" and "mget zero_Task (Tasks db) tid = task"
    using keyed_lookup [OF assms(1,2)] mget_SomeD [OF assms(2)] by blast+
  with assms(3) show ?thesis
    by (auto simp: failTask_def markTaskCancelRequested_def reserveAttemptInDB_def Let_def)
qed

theorem finished_tasks_stay_witness:
  "map_option Task_Status (map_of (Tasks (markTaskCancelRequested (\<lambda>_ _. ''x'') ''t1'' ''bye'' 7 sample_queued_db)) ''t1'')
     = Some TaskStatusCancelled"
proof -
  have "keyed Task_ID (Tasks sample_queued_db)" by code_simp
  moreover have "map_of (Tasks sample_queued_db) ''t1'' = Some sample_task" by (simp add: sample_queued_db_def)
  moreover have "\<not> taskFinal sample_task" by code_simp
  ultimately show ?thesis
    using finished_tasks_stay [of sample_queued_db "''t1''" sample_task "''bye''" 7 "\<lambda>_ _. ''x''"] by simp
qed

subsection \<open>Reports\<close>

lemma acceptReport_report:
  "fst (acceptReport newID cfg a r now db) = snd (applyReportAccounting newID db r now)"
  by (simp add: acceptReport_def Let_def case_prod_beta)

lemma applyReportAccounting_keeps [simp]:
  "Report_NodeID (snd (applyReportAccounting newID db r now)) = Report_NodeID r"
  "Report_SlotID (snd (applyReportAccounting newID db r now)) = Report_SlotID r"
  "Report_TaskID (snd (applyReportAccounting newID db r now)) = Report_TaskID r"
  "Report_ProfileID (snd (applyReportAccounting newID db r now)) = Report_ProfileID r"
  "Report_Status (snd (applyReportAccounting newID db r now)) = Report_Status r"
  "Report_ID (snd (applyReportAccounting newID db r now)) = Report_ID r"
  by (simp_all add: applyReportAccounting_def Let_def)

text \<open>C20: a report cannot be forged. A worker's report is refused unless the attempt exists, ran on
  that worker's node and, if the report names a task, belongs to it. When it is accepted, who
  pays, how much, for which node, slot, profile and variant come from the attempt and the task
  that the manager stored: whatever the worker wrote there makes no difference to the
  database or to the report.\<close>

theorem report_unforgeable:
  "computeReport newID cfg nodeID (report\<lparr>Report_UserID := u, Report_NodeID := n, Report_SlotID := sl,
      Report_ProfileID := p, Report_ProfileVersion := v, Report_LogicalModel := lm, Report_RuntimeVariantID := rv,
      Report_RuntimeAdapter := ra, Report_ComputeCost := c\<rparr>) now db =
    computeReport newID cfg nodeID report now db \<and>
   (case computeReport newID cfg nodeID report now db of
      Inl e \<Rightarrow> True
    | Inr (report', db') \<Rightarrow> (\<exists>attempt. map_of (Attempts db) (Report_AttemptID report) = Some attempt \<and>
        Attempt_NodeID attempt = nodeID \<and> (Report_TaskID report = [] \<or> Report_TaskID report = Attempt_TaskID attempt) \<and>
        Report_NodeID report' = nodeID \<and> Report_SlotID report' = Attempt_SlotID attempt \<and>
        Report_TaskID report' = Attempt_TaskID attempt))"
proof -
  have auth: "applyAuthoritativeReportFields (stampReport newID now db (report\<lparr>Report_UserID := u, Report_NodeID := n,
      Report_SlotID := sl, Report_ProfileID := p, Report_ProfileVersion := v, Report_LogicalModel := lm,
      Report_RuntimeVariantID := rv, Report_RuntimeAdapter := ra, Report_ComputeCost := c\<rparr>)) a t =
    applyAuthoritativeReportFields (stampReport newID now db report) a t" for a t
    by (simp add: applyAuthoritativeReportFields_def stampReport_def)
  have "\<exists>attempt. map_of (Attempts db) (Report_AttemptID report) = Some attempt \<and>
        Attempt_NodeID attempt = nodeID \<and> (Report_TaskID report = [] \<or> Report_TaskID report = Attempt_TaskID attempt) \<and>
        Report_NodeID report' = nodeID \<and> Report_SlotID report' = Attempt_SlotID attempt \<and>
        Report_TaskID report' = Attempt_TaskID attempt"
    if ok: "computeReport newID cfg nodeID report now db = Inr (report', db')" for report' db'
  proof -
    obtain a where a: "requireWorkerAttempt db nodeID (Report_AttemptID report) (Report_TaskID report) = Inr a"
      using ok by (auto simp: computeReport_def split: sum.splits)
    then have "report' = applyAuthoritativeReportFields (stampReport newID now db report) a
          (mget zero_Task (Tasks db) (Attempt_TaskID a)) \<or>
        report' = fst (acceptReport newID cfg a (applyAuthoritativeReportFields (stampReport newID now db report) a
          (mget zero_Task (Tasks db) (Attempt_TaskID a))) now db)"
      using ok by (auto simp: computeReport_def Let_def split: if_splits)
    then have "Report_NodeID report' = Attempt_NodeID a \<and> Report_SlotID report' = Attempt_SlotID a \<and>
        Report_TaskID report' = Attempt_TaskID a"
      by (elim disjE) (simp_all add: acceptReport_report applyAuthoritativeReportFields_def)
    with requireWorkerAttempt_Inr [OF a] show ?thesis by auto
  qed
  then show ?thesis
    by (auto simp: computeReport_def auth split: sum.splits)
qed

subsection \<open>Disconnection\<close>

definition released :: "Slot \<Rightarrow> bool" where
  "released slot \<longleftrightarrow> Slot_State slot = SlotStateUnavailable \<and> \<not> Slot_AcceptsNew slot \<and> Slot_ActiveTaskID slot = []"

lemma markDisconnectedSlot_sel [simp]:
  "Attempts (markDisconnectedSlot newID cfg a now db) = Attempts db"
  "Tasks (markDisconnectedSlot newID cfg a now db) = Tasks db"
  "Users (markDisconnectedSlot newID cfg a now db) = Users db"
  "ComputeLedger (markDisconnectedSlot newID cfg a now db) = ComputeLedger db"
  "Reports (markDisconnectedSlot newID cfg a now db) = Reports db"
  "NodeTokenHashes (markDisconnectedSlot newID cfg a now db) = NodeTokenHashes db"
  "APIKeys (markDisconnectedSlot newID cfg a now db) = APIKeys db"
  by (simp_all add: markDisconnectedSlot_def Let_def split: prod.split) (metis fst_conv recordSlotFailure_db)+

lemma markDisconnectedTask_sel [simp]:
  "Attempts (markDisconnectedTask a now db) = Attempts db"
  "Slots (markDisconnectedTask a now db) = Slots db"
  "Nodes (markDisconnectedTask a now db) = Nodes db"
  "Users (markDisconnectedTask a now db) = Users db"
  "ComputeLedger (markDisconnectedTask a now db) = ComputeLedger db"
  "Reports (markDisconnectedTask a now db) = Reports db"
  "NodeTokenHashes (markDisconnectedTask a now db) = NodeTokenHashes db"
  "APIKeys (markDisconnectedTask a now db) = APIKeys db"
  by (simp_all add: markDisconnectedTask_def Let_def)

lemma markDisconnectedSlot_slots:
  "Slots (markDisconnectedSlot newID cfg a now db) =
     (let slot = snd (recordSlotFailure newID db (disconnectedSlot ((mget zero_Slot (Slots db) (Attempt_SlotID a))\<lparr>Slot_ActiveTaskID := []\<rparr>))
        FailureWorkerDisconnected now (Cfg_QuarantineThreshold cfg) (Cfg_QuarantineDuration cfg))
      in mput (Slot_ID (mget zero_Slot (Slots db) (Attempt_SlotID a))) slot (Slots db))"
  by (simp add: markDisconnectedSlot_def Let_def disconnectedSlot_def case_prod_beta)

lemma keyed_markDisconnectedSlot [intro]:
  "keyed Slot_ID (Slots db) \<Longrightarrow> keyed Slot_ID (Slots (markDisconnectedSlot newID cfg a now db))"
  by (auto simp: markDisconnectedSlot_slots disconnectedSlot_def Let_def)

lemma markDisconnectedSlot_lookup:
  assumes "keyed Slot_ID (Slots db)" and "k \<noteq> []"
  shows "map_of (Slots (markDisconnectedSlot newID cfg a now db)) k =
     (if k = Attempt_SlotID a then map_option (\<lambda>s. snd (recordSlotFailure newID db (disconnectedSlot (s\<lparr>Slot_ActiveTaskID := []\<rparr>))
        FailureWorkerDisconnected now (Cfg_QuarantineThreshold cfg) (Cfg_QuarantineDuration cfg))) (map_of (Slots db) k)
      else map_of (Slots db) k)"
proof (cases "map_of (Slots db) (Attempt_SlotID a)")
  case None
  with assms show ?thesis by (simp add: markDisconnectedSlot_slots mget_def Let_def)
next
  case (Some s)
  with keyed_lookup [OF assms(1) Some] show ?thesis
    by (simp add: markDisconnectedSlot_slots mget_def Let_def)
qed

lemma released_failure: "released (snd (recordSlotFailure newID db (disconnectedSlot (s\<lparr>Slot_ActiveTaskID := []\<rparr>)) r now t d))"
  by (simp add: released_def recordSlotFailure_accepts disconnectedSlot_def)

text \<open>The loop over the running attempts.\<close>

abbreviation failAll :: "id_source \<Rightarrow> ManagerConfig \<Rightarrow> time \<Rightarrow> Database \<Rightarrow> Attempt gomap \<Rightarrow> Database" where
  "failAll newID cfg now \<equiv> foldl (\<lambda>d (aid, attempt). failDisconnectedAttempt newID cfg now aid attempt d)"

lemma failDisconnectedAttempt_sel [simp]:
  "Attempts (failDisconnectedAttempt newID cfg now aid a db) = mput aid (disconnectedAttempt now a) (Attempts db)"
  "Users (failDisconnectedAttempt newID cfg now aid a db) = Users db"
  "ComputeLedger (failDisconnectedAttempt newID cfg now aid a db) = ComputeLedger db"
  "Reports (failDisconnectedAttempt newID cfg now aid a db) = Reports db"
  "NodeTokenHashes (failDisconnectedAttempt newID cfg now aid a db) = NodeTokenHashes db"
  "APIKeys (failDisconnectedAttempt newID cfg now aid a db) = APIKeys db"
  by (simp_all add: failDisconnectedAttempt_def Let_def)

lemma failAll_sel [simp]:
  "Users (failAll newID cfg now db as) = Users db"
  "ComputeLedger (failAll newID cfg now db as) = ComputeLedger db"
  "Reports (failAll newID cfg now db as) = Reports db"
  "NodeTokenHashes (failAll newID cfg now db as) = NodeTokenHashes db"
  "APIKeys (failAll newID cfg now db as) = APIKeys db"
  by (induction as arbitrary: db) (auto split: prod.split)

lemma failAll_attempts:
  "distinct (map fst as) \<Longrightarrow> map_of (Attempts (failAll newID cfg now db as)) k =
     (case map_of as k of Some a \<Rightarrow> Some (disconnectedAttempt now a) | None \<Rightarrow> map_of (Attempts db) k)"
proof (induction as arbitrary: db)
  case (Cons e as)
  then have "map_of as (fst e) = None"
    by (simp add: map_of_eq_None_iff)
  with Cons show ?case
    by (auto split: prod.splits option.splits)
qed simp

lemma failDisconnectedAttempt_slots:
  "Slots (failDisconnectedAttempt newID cfg now aid a db) =
     Slots (markDisconnectedSlot newID cfg (disconnectedAttempt now a) now
       (db\<lparr>Attempts := mput aid (disconnectedAttempt now a) (Attempts db)\<rparr>))"
  by (simp add: failDisconnectedAttempt_def Let_def)

lemma disconnectedAttempt_sel [simp]:
  "Attempt_SlotID (disconnectedAttempt now a) = Attempt_SlotID a"
  "Attempt_TaskID (disconnectedAttempt now a) = Attempt_TaskID a"
  "Attempt_ID (disconnectedAttempt now a) = Attempt_ID a"
  "Attempt_NodeID (disconnectedAttempt now a) = Attempt_NodeID a"
  "Attempt_FirstOutputSent (disconnectedAttempt now a) = Attempt_FirstOutputSent a"
  "Attempt_Status (disconnectedAttempt now a) = TaskStatusFailed"
  by (simp_all add: disconnectedAttempt_def)

lemma keyed_failDisconnectedAttempt:
  "keyed Slot_ID (Slots db) \<Longrightarrow> keyed Slot_ID (Slots (failDisconnectedAttempt newID cfg now aid a db))"
  "keyed Task_ID (Tasks db) \<Longrightarrow> keyed Task_ID (Tasks (failDisconnectedAttempt newID cfg now aid a db))"
  by (auto simp: failDisconnectedAttempt_slots failDisconnectedAttempt_def markDisconnectedTask_def Let_def)

lemma keyed_failAll:
  "keyed Slot_ID (Slots db) \<Longrightarrow> keyed Slot_ID (Slots (failAll newID cfg now db as))"
  "keyed Task_ID (Tasks db) \<Longrightarrow> keyed Task_ID (Tasks (failAll newID cfg now db as))"
  by (induction as arbitrary: db) (auto simp: keyed_failDisconnectedAttempt split: prod.split)

lemma failDisconnectedAttempt_task:
  assumes "keyed Task_ID (Tasks db)" and "tid \<noteq> []"
  shows "map_of (Tasks (failDisconnectedAttempt newID cfg now aid a db)) tid =
    (if Attempt_TaskID a = tid then map_option (retryOrFail (\<not> Attempt_FirstOutputSent a) FailureWorkerDisconnected
       (Attempt_SlotID a) now) (map_of (Tasks db) tid) else map_of (Tasks db) tid)"
proof (cases "map_of (Tasks db) (Attempt_TaskID a)")
  case None
  with assms(2) show ?thesis
    by (auto simp: failDisconnectedAttempt_def markDisconnectedTask_def mget_def Let_def)
next
  case (Some t)
  with keyed_lookup [OF assms(1) Some] show ?thesis
    by (auto simp: failDisconnectedAttempt_def markDisconnectedTask_def mget_def Let_def)
qed

lemma failAll_tasks:
  assumes "keyed Task_ID (Tasks db)" and "tid \<noteq> []"
  shows "map_of (Tasks (failAll newID cfg now db as)) tid =
    foldl (\<lambda>t a. map_option (retryOrFail (\<not> Attempt_FirstOutputSent a) FailureWorkerDisconnected (Attempt_SlotID a) now) t)
      (map_of (Tasks db) tid) (filter (\<lambda>a. Attempt_TaskID a = tid) (map snd as))"
  using assms
proof (induction as arbitrary: db)
  case (Cons e as)
  then show ?case
    by (simp add: case_prod_beta keyed_failDisconnectedAttempt failDisconnectedAttempt_task)
qed simp

lemma failAll_slots:
  assumes "keyed Slot_ID (Slots db)" and "k \<noteq> []" and "map_of (Slots (failAll newID cfg now db as)) k = Some s"
  shows "if k \<in> Attempt_SlotID ` snd ` set as then released s else map_of (Slots db) k = Some s"
  using assms
proof (induction as arbitrary: db rule: rev_induct)
  case (snoc e as)
  obtain aid a where e: "e = (aid, a)" by (cases e)
  define d where "d = failAll newID cfg now db as"
  have d: "keyed Slot_ID (Slots d)"
    unfolding d_def using snoc.prems(1) by (rule keyed_failAll)
  have "map_of (Slots (failDisconnectedAttempt newID cfg now aid a d)) k = Some s"
    using snoc.prems(3) by (simp add: e d_def)
  then have "if k = Attempt_SlotID a then released s else map_of (Slots d) k = Some s"
    using d snoc.prems(2) by (auto simp: failDisconnectedAttempt_slots markDisconnectedSlot_lookup released_failure)
  with snoc.IH [OF snoc.prems(1,2)] show ?case
    by (auto simp: e d_def split: if_splits)
qed simp

lemma recordWorkerFlapEvent_sel [simp]:
  "Node_ID (recordWorkerFlapEvent node ev now cfg) = Node_ID node"
  "Node_ConnectedSession (recordWorkerFlapEvent node ev now cfg) = Node_ConnectedSession node"
  "Node_OwnerUserID (recordWorkerFlapEvent node ev now cfg) = Node_OwnerUserID node"
  by (simp_all add: recordWorkerFlapEvent_def Let_def)

lemma recordSlotFailure_node_state:
  assumes "keyed Node_ID (Nodes db)"
  shows "map_option Node_State (map_of (Nodes (fst (recordSlotFailure newID db slot r now t d))) k) =
    map_option Node_State (map_of (Nodes db) k)"
    and "keyed Node_ID (Nodes (fst (recordSlotFailure newID db slot r now t d)))"
proof -
  show "map_option Node_State (map_of (Nodes (fst (recordSlotFailure newID db slot r now t d))) k) =
    map_option Node_State (map_of (Nodes db) k)"
    by (simp add: recordSlotFailure_node [OF assms] split: option.split)
  show "keyed Node_ID (Nodes (fst (recordSlotFailure newID db slot r now t d)))"
    using assms by (auto simp: recordSlotFailure_def Let_def)
qed

lemma failDisconnectedAttempt_node_state:
  assumes "keyed Node_ID (Nodes db)"
  shows "map_option Node_State (map_of (Nodes (failDisconnectedAttempt newID cfg now aid a db)) k) =
      map_option Node_State (map_of (Nodes db) k)"
    and "keyed Node_ID (Nodes (failDisconnectedAttempt newID cfg now aid a db))"
  using recordSlotFailure_node_state [of "db\<lparr>Attempts := mput aid (disconnectedAttempt now a) (Attempts db)\<rparr>"] assms
  by (simp_all add: failDisconnectedAttempt_def markDisconnectedSlot_def Let_def case_prod_beta)

lemma failAll_node_state:
  assumes "keyed Node_ID (Nodes db)"
  shows "map_option Node_State (map_of (Nodes (failAll newID cfg now db as)) k) = map_option Node_State (map_of (Nodes db) k)"
    and "keyed Node_ID (Nodes (failAll newID cfg now db as))"
  using assms
  by (induction as arbitrary: db) (auto simp: failDisconnectedAttempt_node_state split: prod.split)

lemma markDisconnectedNode_sel [simp]:
  "Attempts (markDisconnectedNode node db) = Attempts db"
  "Tasks (markDisconnectedNode node db) = Tasks db"
  "Users (markDisconnectedNode node db) = Users db"
  "ComputeLedger (markDisconnectedNode node db) = ComputeLedger db"
  "Reports (markDisconnectedNode node db) = Reports db"
  "NodeTokenHashes (markDisconnectedNode node db) = NodeTokenHashes db"
  "APIKeys (markDisconnectedNode node db) = APIKeys db"
  by (simp_all add: markDisconnectedNode_def Let_def)

lemma disconnectedSlot_sel [simp]:
  "Slot_State (disconnectedSlot s) = SlotStateUnavailable" "\<not> Slot_AcceptsNew (disconnectedSlot s)"
  "Slot_ID (disconnectedSlot s) = Slot_ID s" "Slot_NodeID (disconnectedSlot s) = Slot_NodeID s"
  by (simp_all add: disconnectedSlot_def)

lemma markDisconnectedNode_slot:
  "map_of (Slots (markDisconnectedNode node db)) k = Some s \<Longrightarrow> Slot_NodeID s = Node_ID node \<Longrightarrow>
   Slot_State s = SlotStateUnavailable \<and> \<not> Slot_AcceptsNew s \<or> Slot_State s = SlotStateServing"
  by (auto simp: markDisconnectedNode_def Let_def split: if_splits) (metis disconnectedSlot_sel(1,2))+

lemma keyed_markDisconnectedNode:
  "keyed Slot_ID (Slots db) \<Longrightarrow> keyed Slot_ID (Slots (markDisconnectedNode node db))"
  "keyed Node_ID (Nodes db) \<Longrightarrow> keyed Node_ID (Nodes (markDisconnectedNode node db))"
  by (auto simp: markDisconnectedNode_def disconnectedSlot_def Let_def)

text \<open>The attempts that run on a node, as entries of the table.\<close>

definition running_entries :: "string \<Rightarrow> Database \<Rightarrow> (string \<times> Attempt) list" where
  "running_entries nid db = filter (\<lambda>(_, attempt). runningOn nid attempt) (Attempts db)"

lemma running_entries:
  assumes "keyed Attempt_ID (Attempts db)"
  shows "distinct (map fst (running_entries nid db))"
    and "map_of (running_entries nid db) aid = (case map_of (Attempts db) aid of None \<Rightarrow> None | Some a \<Rightarrow> if runningOn nid a then Some a else None)"
    and "map snd (running_entries nid db) = filter (runningOn nid) (mvals (Attempts db))"
    and "Attempt_SlotID ` snd ` set (running_entries nid db) = Attempt_SlotID ` set (filter (runningOn nid) (mvals (Attempts db)))"
proof -
  show "distinct (map fst (running_entries nid db))"
    using keyed_distinct [OF assms] by (auto simp: running_entries_def distinct_map intro: inj_on_subset)
  show "map_of (running_entries nid db) aid = (case map_of (Attempts db) aid of None \<Rightarrow> None | Some a \<Rightarrow> if runningOn nid a then Some a else None)"
    using map_of_mfilter [OF keyed_distinct [OF assms], of "\<lambda>_. runningOn nid"] by (simp add: running_entries_def mfilter_def)
  show vals: "map snd (running_entries nid db) = filter (runningOn nid) (mvals (Attempts db))"
    unfolding running_entries_def mvals_def filter_map o_def case_prod_beta ..
  show "Attempt_SlotID ` snd ` set (running_entries nid db) = Attempt_SlotID ` set (filter (runningOn nid) (mvals (Attempts db)))"
    by (simp only: vals [symmetric] list.set_map)
qed

lemma failRunningAttempts_eq:
  assumes "map_of (Nodes db) nid = Some node" and "Node_ConnectedSession node = sid"
    and "failRunningAttempts newID cfg sid nid ev now db = (failed, db')"
  shows "failed = map (\<lambda>(_, a). disconnectedPayload (disconnectedAttempt now a)) (running_entries nid db)"
    and "db' = appendAudit newID ''worker.disconnected'' ''worker'' nid [] now
      (failAll newID cfg now (markDisconnectedNode (recordWorkerFlapEvent node ev now cfg) db) (running_entries nid db))"
proof -
  have "Attempts (markDisconnectedNode n db) = Attempts db" for n by (simp add: markDisconnectedNode_def Let_def)
  then show "failed = map (\<lambda>(_, a). disconnectedPayload (disconnectedAttempt now a)) (running_entries nid db)"
    "db' = appendAudit newID ''worker.disconnected'' ''worker'' nid [] now
      (failAll newID cfg now (markDisconnectedNode (recordWorkerFlapEvent node ev now cfg) db) (running_entries nid db))"
    using assms(3) by (simp_all add: failRunningAttempts_def mget_SomeD [OF assms(1)] assms(2) running_entries_def Let_def)
qed

text \<open>Which slots of the lost node still say that they serve.\<close>

lemma disconnected_slot:
  assumes "keyed Attempt_ID (Attempts db)" and "keyed Slot_ID (Slots db)" and "k \<noteq> []" and "Slot_NodeID slot = Node_ID node"
    and "map_of (Slots (failAll newID cfg now (markDisconnectedNode node db) (running_entries nid db))) k = Some slot"
  shows "Slot_State slot = SlotStateUnavailable \<and> \<not> Slot_AcceptsNew slot \<or>
     Slot_State slot = SlotStateServing \<and> k \<notin> Attempt_SlotID ` set (filter (runningOn nid) (mvals (Attempts db)))"
  using failAll_slots [OF keyed_markDisconnectedNode(1) [OF assms(2)] assms(3,5)]
    markDisconnectedNode_slot [of node db k slot] assms(4) running_entries(4) [OF assms(1), of nid]
  unfolding released_def by (simp split: if_splits)


definition sample_running_db :: Database where
  "sample_running_db = sample_db\<lparr>Tasks := [(''t1'', sample_task\<lparr>Task_Status := TaskStatusRunning\<rparr>)],
     Nodes := [(''n1'', sample_node\<lparr>Node_ConnectedSession := ''s1''\<rparr>)],
     Slots := [(''n1/slot0'', sample_slot\<lparr>Slot_State := SlotStateServing, Slot_ActiveTaskID := ''t1''\<rparr>)],
     Attempts := [(''a1'', sample_attempt)]\<rparr>"


end
