(* ===== verification/Messages.thy ===== *)
theory Messages
  imports Dispatch Lifecycle_Properties
begin

section \<open>Messages from the workers (manager_worker_messages.go, manager_ws.go)\<close>

text \<open>
  Every envelope that a session reads goes through \<open>handleWorkerEnvelope\<close>. A handler returns
  the error that is sent back to the worker, if any, and the manager after it. \<open>sid\<close> is the
  identifier of the session object.
\<close>

type_synonym handler_result = "manager_error option \<times> Manager"

definition sessionOf :: "Manager \<Rightarrow> string \<Rightarrow> workerSession" where
  "sessionOf m sid = mget zero_workerSession (Mgr_workers m) sid"

definition validateWorkerEnvelopeSession :: "workerSession \<Rightarrow> Envelope \<Rightarrow> manager_error option" where
  "validateWorkerEnvelopeSession s msg =
     (if Env_Type msg = MsgHello \<or> Env_Type msg = MsgFullState then None
      else if Session_nodeID s = [] then Some Unauthorized
      else if Env_NodeID msg \<noteq> [] \<and> Env_NodeID msg \<noteq> Session_nodeID s then Some (NotOwner ''worker'' (Env_NodeID msg))
      else None)"

text \<open>A transaction that may fail, run on the manager's database.\<close>

definition try_db :: "(Database \<Rightarrow> manager_error + Database) \<Rightarrow> Manager \<Rightarrow> handler_result" where
  "try_db f m = (case f (Mgr_db m) of Inl e \<Rightarrow> (Some e, m) | Inr db \<Rightarrow> (None, m\<lparr>Mgr_db := db\<rparr>))"

subsection \<open>Registration\<close>

definition upsertWorkerState ::
  "json_codec \<Rightarrow> (string \<Rightarrow> string) \<Rightarrow> id_source \<Rightarrow> string \<Rightarrow> Node \<Rightarrow> Slot list \<Rightarrow> string list option \<Rightarrow> string list option \<Rightarrow>
   string \<Rightarrow> time \<Rightarrow> Manager \<Rightarrow> handler_result" where
  "upsertWorkerState J sha256hex newID sid node0 slots cached warm nodeToken now m =
     (let s = sessionOf m sid;
          node = normalizeWorkerNode newID node0 sid cached warm now (Mgr_db m)
      in if Session_nodeID s \<noteq> [] \<and> Session_nodeID s \<noteq> Node_ID node
         then (Some (AlreadyExists ''worker session'' (Session_nodeID s)), m)
         else case registerWorker sha256hex newID (Mgr_cfg m) sid (Session_nodeID s) node slots nodeToken now (Mgr_db m) of
           Inl e \<Rightarrow> (Some e, m)
         | Inr ((node', token), db) \<Rightarrow>
             (let nid = Node_ID node';
                  old = map_of (Mgr_sessions m) nid;
                  m1 = m\<lparr>Mgr_db := db, Mgr_workers := mput sid (s\<lparr>Session_nodeID := nid\<rparr>) (Mgr_workers m),
                         Mgr_sessions := mput nid sid (Mgr_sessions m)\<rparr>;
                  m2 = (case old of None \<Rightarrow> m1 | Some osid \<Rightarrow> if osid \<noteq> sid then close newID osid now m1 else m1);
                  m3 = snd (enqueueSession newID sid (zero_Envelope\<lparr>Env_Type := MsgAck, Env_NodeID := nid,
                         Env_Payload := marshalAck J \<lparr>Ack_Status = ''registered'', Ack_NodeToken = token\<rparr>\<rparr>) m2);
                  m4 = sendP2PConfigToSession J newID sid m3
              in (None, replanAndDispatch J newID now m4)))"

definition handleWorkerHello ::
  "json_codec \<Rightarrow> (string \<Rightarrow> string) \<Rightarrow> id_source \<Rightarrow> string \<Rightarrow> Envelope \<Rightarrow> time \<Rightarrow> Manager \<Rightarrow> handler_result" where
  "handleWorkerHello J sha256hex newID sid msg now m =
     (case unmarshalHello J (Env_Payload msg) of
        Inl e \<Rightarrow> (Some (Invalid e), m)
      | Inr p \<Rightarrow> upsertWorkerState J sha256hex newID sid (Hello_Node p) (Hello_Slots p) None None (Hello_NodeToken p) now m)"

definition handleWorkerFullState ::
  "json_codec \<Rightarrow> (string \<Rightarrow> string) \<Rightarrow> id_source \<Rightarrow> string \<Rightarrow> Envelope \<Rightarrow> time \<Rightarrow> Manager \<Rightarrow> handler_result" where
  "handleWorkerFullState J sha256hex newID sid msg now m =
     (case unmarshalFullState J (Env_Payload msg) of
        Inl e \<Rightarrow> (Some (Invalid e), m)
      | Inr p \<Rightarrow> upsertWorkerState J sha256hex newID sid (Full_Node p) (Full_Slots p) (Full_Cached p) (Full_WarmProfiles p)
          (Full_NodeToken p) now m)"

subsection \<open>States of nodes, slots and artifacts\<close>

definition handleWorkerHeartbeat :: "string \<Rightarrow> time \<Rightarrow> Manager \<Rightarrow> handler_result" where
  "handleWorkerHeartbeat sid now m =
     (let s = sessionOf m sid in
      if Session_nodeID s = [] then (None, m) else (None, update_db (workerHeartbeat (Session_nodeID s) now) m))"

definition thenReplan :: "json_codec \<Rightarrow> id_source \<Rightarrow> time \<Rightarrow> handler_result \<Rightarrow> handler_result" where
  "thenReplan J newID now r = (case r of (Some e, m) \<Rightarrow> (Some e, m) | (None, m) \<Rightarrow> (None, replanAndDispatch J newID now m))"

definition handleWorkerSlotState :: "json_codec \<Rightarrow> id_source \<Rightarrow> string \<Rightarrow> Envelope \<Rightarrow> time \<Rightarrow> Manager \<Rightarrow> handler_result" where
  "handleWorkerSlotState J newID sid msg now m =
     (case unmarshalSlotState J (Env_Payload msg) of
        Inl e \<Rightarrow> (Some (Invalid e), m)
      | Inr p \<Rightarrow> thenReplan J newID now (try_db (updateSlotState (Session_nodeID (sessionOf m sid)) p now) m))"

definition handleWorkerArtifactState :: "json_codec \<Rightarrow> id_source \<Rightarrow> string \<Rightarrow> Envelope \<Rightarrow> time \<Rightarrow> Manager \<Rightarrow> handler_result" where
  "handleWorkerArtifactState J newID sid msg now m =
     (case unmarshalArtifactState J (Env_Payload msg) of
        Inl e \<Rightarrow> (Some (Invalid e), m)
      | Inr p \<Rightarrow> thenReplan J newID now (None, update_db (artifactState newID (Session_nodeID (sessionOf m sid)) p now) m))"

subsection \<open>Attempts\<close>

definition handleToken :: "id_source \<Rightarrow> string \<Rightarrow> TokenPayload \<Rightarrow> time \<Rightarrow> Manager \<Rightarrow> handler_result" where
  "handleToken newID nodeID payload now m =
     (case streamForAttempt m (Token_AttemptID payload) of
        None \<Rightarrow>
          (case requireWorkerAttempt (cloneDatabase (Mgr_db m)) nodeID (Token_AttemptID payload) (Token_TaskID payload) of
             Inl e \<Rightarrow> (Some e, m)
           | Inr _ \<Rightarrow> (None, m))
      | Some active \<Rightarrow>
          if Active_taskID active \<noteq> Token_TaskID payload then (Some (NotOwner ''task'' (Token_AttemptID payload)), m)
          else if Active_firstOutput active
          then (None, publishEvent (Token_AttemptID payload) (EventToken payload) m)
          else case recordFirstOutput newID nodeID payload now (Mgr_db m) of
            Inl e \<Rightarrow> (Some e, m)
          | Inr db \<Rightarrow>
              (None, publishEvent (Token_AttemptID payload) (EventToken payload)
                 (m\<lparr>Mgr_db := db, Mgr_streams := mput (Token_AttemptID payload) (active\<lparr>Active_firstOutput := True\<rparr>)
                    (Mgr_streams m)\<rparr>)))"

definition handleWorkerToken :: "json_codec \<Rightarrow> id_source \<Rightarrow> string \<Rightarrow> Envelope \<Rightarrow> time \<Rightarrow> Manager \<Rightarrow> handler_result" where
  "handleWorkerToken J newID sid msg now m =
     (case unmarshalToken J (Env_Payload msg) of
        Inl e \<Rightarrow> (Some (Invalid e), m)
      | Inr p \<Rightarrow> handleToken newID (Session_nodeID (sessionOf m sid)) p now m)"

definition handleWorkerAttemptStarted :: "string \<Rightarrow> Envelope \<Rightarrow> Manager \<Rightarrow> handler_result" where
  "handleWorkerAttemptStarted sid msg m =
     try_db (attemptStarted (Session_nodeID (sessionOf m sid)) (Env_Attempt msg) (Env_TaskID msg)) m"

definition handleWorkerAttemptLease :: "string \<Rightarrow> Envelope \<Rightarrow> time \<Rightarrow> Manager \<Rightarrow> handler_result" where
  "handleWorkerAttemptLease sid msg now m =
     try_db (attemptLease (Session_nodeID (sessionOf m sid)) (Env_Attempt msg) (Env_TaskID msg) now) m"

definition handleAttemptFailed :: "id_source \<Rightarrow> string \<Rightarrow> AttemptFailedPayload \<Rightarrow> time \<Rightarrow> Manager \<Rightarrow> handler_result" where
  "handleAttemptFailed newID nodeID payload now m =
     (case attemptFailed newID (Mgr_cfg m) nodeID payload now (Mgr_db m) of
        Inl e \<Rightarrow> (Some e, m)
      | Inr (payload', db) \<Rightarrow> (None, publishEvent (Failed_AttemptID payload') (EventFailed payload') (m\<lparr>Mgr_db := db\<rparr>)))"

definition handleWorkerAttemptFailed :: "json_codec \<Rightarrow> id_source \<Rightarrow> string \<Rightarrow> Envelope \<Rightarrow> time \<Rightarrow> Manager \<Rightarrow> handler_result" where
  "handleWorkerAttemptFailed J newID sid msg now m =
     (case unmarshalAttemptFailed J (Env_Payload msg) of
        Inl e \<Rightarrow> (Some (Invalid e), m)
      | Inr p \<Rightarrow> handleAttemptFailed newID (Session_nodeID (sessionOf m sid)) p now m)"

definition handleComputeReport ::
  "json_codec \<Rightarrow> id_source \<Rightarrow> string \<Rightarrow> ComputeReport \<Rightarrow> time \<Rightarrow> Manager \<Rightarrow> handler_result" where
  "handleComputeReport J newID nodeID report now m =
     (case computeReport newID (Mgr_cfg m) nodeID report now (Mgr_db m) of
        Inl e \<Rightarrow> (Some e, m)
      | Inr (report', db) \<Rightarrow>
          (None, replanAndDispatch J newID now
             (publishEvent (Report_AttemptID report') (EventReport report') (m\<lparr>Mgr_db := db\<rparr>))))"

definition handleWorkerComputeReport :: "json_codec \<Rightarrow> id_source \<Rightarrow> string \<Rightarrow> Envelope \<Rightarrow> time \<Rightarrow> Manager \<Rightarrow> handler_result" where
  "handleWorkerComputeReport J newID sid msg now m =
     (case unmarshalReport J (Env_Payload msg) of
        Inl e \<Rightarrow> (Some (Invalid e), m)
      | Inr r \<Rightarrow> handleComputeReport J newID (Session_nodeID (sessionOf m sid)) r now m)"

subsection \<open>Telemetry and the dispatcher\<close>

definition handleWorkerTelemetry :: "json_codec \<Rightarrow> id_source \<Rightarrow> string \<Rightarrow> Envelope \<Rightarrow> time \<Rightarrow> Manager \<Rightarrow> handler_result" where
  "handleWorkerTelemetry J newID sid msg now m =
     (let nodeID = Session_nodeID (sessionOf m sid) in
      if Env_Payload msg = []
      then (None, update_db (appendAudit newID ''worker.telemetry'' ''worker'' nodeID
             [(''messageId'', AnyString (Env_ID msg))] now) m)
      else case unmarshalTelemetry J (Env_Payload msg) of
        Inl e \<Rightarrow> (Some (Invalid e), m)
      | Inr payload \<Rightarrow>
          (let updateID = mget [] payload ''updateId''; status = mget [] payload ''status''; detail = mget [] payload ''detail'';
               m1 = (if updateID \<noteq> [] then update_db (recordWorkerUpdateTelemetry nodeID updateID status detail now) m else m)
           in (None, update_db (appendAudit newID ''worker.telemetry'' ''worker'' nodeID
                [(''messageId'', AnyString (Env_ID msg)), (''updateId'', AnyString updateID),
                 (''status'', AnyString status), (''detail'', AnyString detail)] now) m1)))"

definition handleWorkerEnvelope ::
  "json_codec \<Rightarrow> (string \<Rightarrow> string) \<Rightarrow> id_source \<Rightarrow> string \<Rightarrow> Envelope \<Rightarrow> time \<Rightarrow> Manager \<Rightarrow> handler_result" where
  "handleWorkerEnvelope J sha256hex newID sid msg now m =
     (case validateWorkerEnvelopeSession (sessionOf m sid) msg of
        Some e \<Rightarrow> (Some e, m)
      | None \<Rightarrow>
          (let t = Env_Type msg in
           if t = MsgHello then handleWorkerHello J sha256hex newID sid msg now m
           else if t = MsgFullState then handleWorkerFullState J sha256hex newID sid msg now m
           else if t = MsgHeartbeat then handleWorkerHeartbeat sid now m
           else if t = MsgSlotState then handleWorkerSlotState J newID sid msg now m
           else if t = MsgArtifactState then handleWorkerArtifactState J newID sid msg now m
           else if t = MsgToken then handleWorkerToken J newID sid msg now m
           else if t = MsgAttemptStarted then handleWorkerAttemptStarted sid msg m
           else if t = MsgAttemptLease then handleWorkerAttemptLease sid msg now m
           else if t = MsgAttemptFailed then handleWorkerAttemptFailed J newID sid msg now m
           else if t = MsgComputeReport then handleWorkerComputeReport J newID sid msg now m
           else if t = MsgAck then (None, m)
           else if t = MsgTelemetry then handleWorkerTelemetry J newID sid msg now m
           else (Some (Invalid ''unknown message type''), m)))"

end
