(* ===== verification/Invariants.thy ===== *)
theory Invariants
  imports Messages
begin

section \<open>The invariant of the database\<close>

text \<open>
  What every transaction keeps: the slots, tasks, attempts and reports are stored under their
  own identifiers (the nodes are not: a worker update creates a blank node for a target that
  is unknown), the accounts are balanced, and the ledger bills a report at most once per direction and
  only reports that are stored. One lemma per transaction; a transaction that does not touch
  a table keeps its part by simplification.
\<close>

definition tables_ok :: "Database \<Rightarrow> bool" where
  "tables_ok db \<longleftrightarrow> distinct (map fst (Nodes db)) \<and> keyed Slot_ID (Slots db) \<and> keyed Task_ID (Tasks db) \<and>
     keyed Attempt_ID (Attempts db) \<and> keyed Report_ID (Reports db)"

text \<open>The entries that a report caused: those of the administrator name no report.\<close>

definition report_entries :: "ComputeLedgerEntry list \<Rightarrow> ComputeLedgerEntry list" where
  "report_entries es = filter (\<lambda>e. Ledger_ReportID e \<noteq> []) es"

definition ledger_ok :: "ComputeReport gomap \<Rightarrow> ComputeLedgerEntry list \<Rightarrow> bool" where
  "ledger_ok reports es \<longleftrightarrow>
     distinct (map (\<lambda>e. (Ledger_Type e, Ledger_ReportID e)) (report_entries es)) \<and>
     list_all (\<lambda>e. mhas reports (Ledger_ReportID e)) (report_entries es)"

definition db_ok :: "Database \<Rightarrow> bool" where
  "db_ok db \<longleftrightarrow> tables_ok db \<and> accounts_ok db \<and> ledger_ok (Reports db) (ComputeLedger db)"

text \<open>A transaction that changes none of the tables of the invariant keeps it.\<close>

definition same_tables :: "Database \<Rightarrow> Database \<Rightarrow> bool" where
  "same_tables db' db \<longleftrightarrow> Nodes db' = Nodes db \<and> Slots db' = Slots db \<and> Tasks db' = Tasks db \<and> Attempts db' = Attempts db \<and>
     Reports db' = Reports db \<and> Users db' = Users db \<and> ComputeLedger db' = ComputeLedger db"

lemma db_ok_same: "same_tables db' db \<Longrightarrow> db_ok db' = db_ok db"
  by (simp add: db_ok_def tables_ok_def same_tables_def)

lemma db_ok_tables:
  assumes "db_ok db"
  shows "distinct (map fst (Nodes db))" "keyed Slot_ID (Slots db)" "keyed Task_ID (Tasks db)" "keyed Attempt_ID (Attempts db)"
    "keyed Report_ID (Reports db)" "accounts_ok db" "ledger_ok (Reports db) (ComputeLedger db)"
  using assms by (simp_all add: db_ok_def tables_ok_def)

lemma db_ok_set:
  assumes "db_ok db"
  shows "distinct (map fst ns) \<Longrightarrow> db_ok (db\<lparr>Nodes := ns\<rparr>)" and "keyed Slot_ID ss \<Longrightarrow> db_ok (db\<lparr>Slots := ss\<rparr>)"
    and "keyed Task_ID ts \<Longrightarrow> db_ok (db\<lparr>Tasks := ts\<rparr>)" and "keyed Attempt_ID as \<Longrightarrow> db_ok (db\<lparr>Attempts := as\<rparr>)"
  using assms by (simp_all add: db_ok_def tables_ok_def)

text \<open>Writing a record under its own identifier.\<close>

lemma db_ok_put:
  assumes "db_ok db"
  shows "db_ok (db\<lparr>Nodes := mput nid n (Nodes db)\<rparr>)"
    and "k = Slot_ID s \<Longrightarrow> db_ok (db\<lparr>Slots := mput k s (Slots db)\<rparr>)"
    and "k = Task_ID t \<Longrightarrow> db_ok (db\<lparr>Tasks := mput k t (Tasks db)\<rparr>)"
    and "k = Attempt_ID a \<Longrightarrow> db_ok (db\<lparr>Attempts := mput k a (Attempts db)\<rparr>)"
  using assms by (auto simp: db_ok_def tables_ok_def)

lemma db_ok_map:
  assumes "db_ok db"
  shows "db_ok (db\<lparr>Nodes := mmap f (Nodes db)\<rparr>)"
    and "(\<And>k s. Slot_ID (g k s) = Slot_ID s) \<Longrightarrow> db_ok (db\<lparr>Slots := mmap g (Slots db)\<rparr>)"
  using assms by (auto simp: db_ok_def tables_ok_def)

lemma db_ok_audit [simp]: "db_ok (appendAudit newID t a s md now db) = db_ok db"
  by (rule db_ok_same) (simp add: same_tables_def)

lemma db_ok_other [simp]:
  "db_ok (db\<lparr>Assignments := as\<rparr>) = db_ok db" "db_ok (db\<lparr>CacheIntents := ci\<rparr>) = db_ok db"
  "db_ok (db\<lparr>ArtifactEvictions := ev\<rparr>) = db_ok db" "db_ok (db\<lparr>Updates := us\<rparr>) = db_ok db"
  "db_ok (db\<lparr>Profiles := ps\<rparr>) = db_ok db" "db_ok (db\<lparr>Policies := pol\<rparr>) = db_ok db"
  "db_ok (db\<lparr>Artifacts := arts\<rparr>) = db_ok db" "db_ok (db\<lparr>APIKeys := keys\<rparr>) = db_ok db"
  "db_ok (db\<lparr>NodeTokenHashes := hs\<rparr>) = db_ok db" "db_ok (db\<lparr>Settings := st\<rparr>) = db_ok db"
  by (rule db_ok_same, simp add: same_tables_def)+

lemma db_ok_foldl: "db_ok db \<Longrightarrow> (\<And>d x. x \<in> set xs \<Longrightarrow> db_ok d \<Longrightarrow> db_ok (f d x)) \<Longrightarrow> db_ok (foldl f db xs)"
  by (induction xs arbitrary: db) auto

lemma db_ok_if: "db_ok a \<Longrightarrow> db_ok b \<Longrightarrow> db_ok (if c then a else b)"
  by simp

subsection \<open>Maintenance and planning\<close>

lemma clearExpired_ids [simp]:
  "Node_ID (clearNodeQuarantine n) = Node_ID n" "Slot_ID (clearSlotQuarantine s) = Slot_ID s"
  "Node_ID (clearExpiredWorkerSuppression n now) = Node_ID n"
  by (simp_all add: clearNodeQuarantine_def clearSlotQuarantine_def clearExpiredWorkerSuppression_def Let_def)

lemma db_ok_clearExpiredQuarantines: "db_ok db \<Longrightarrow> db_ok (clearExpiredQuarantines newID now db)"
  unfolding clearExpiredQuarantines_def Let_def
  by (intro db_ok_if db_ok_foldl db_ok_map) (auto split: prod.split)

lemma db_ok_suppressions: "db_ok db \<Longrightarrow> db_ok (Manager_clearExpiredWorkerSuppressions cfg now db)"
  unfolding Manager_clearExpiredWorkerSuppressions_def clearExpiredWorkerSuppressions_def
  by (intro db_ok_if db_ok_map) auto

lemma drainSlot_id [simp]: "Slot_ID (drainSlot db k s) = Slot_ID s"
  by (simp add: drainSlot_def Let_def split: prod.split)

lemma db_ok_storePlan: "db_ok db \<Longrightarrow> db_ok (storePlan plan db)"
  unfolding storePlan_def applyPlacementDrainState_def by (intro db_ok_map) auto

lemma db_ok_evictionRecord: "db_ok db \<Longrightarrow> db_ok (upsertArtifactEvictionRecord newID n a r st f now db)"
  by (simp add: upsertArtifactEvictionRecord_def Let_def)

lemma db_ok_clearCacheIntent [simp]: "db_ok (clearCacheIntentRecord n a db) = db_ok db"
  by (simp add: clearCacheIntentRecord_def)

lemma db_ok_recordCacheIntent: "db_ok db \<Longrightarrow> recordCacheIntent newID n a act now db = Inr db' \<Longrightarrow> db_ok db'"
  by (auto simp: recordCacheIntent_def Let_def split: option.splits if_splits)

subsection \<open>Tasks and attempts\<close>

lemma db_ok_recordSlotFailure: "db_ok db \<Longrightarrow> db_ok (fst (recordSlotFailure newID db slot r now t d))"
  unfolding recordSlotFailure_def Let_def fst_conv by (intro db_ok_if db_ok_put) auto

lemma db_ok_storeNewTask: "db_ok db \<Longrightarrow> storeNewTask newID task enforce db = Inr db' \<Longrightarrow> db_ok db'"
  by (auto simp: storeNewTask_def intro!: db_ok_put split: option.splits)

lemma db_ok_reserve:
  "db_ok db \<Longrightarrow> reserveAttemptInDB newID task profile effective slot attempt now db = Inr db' \<Longrightarrow> db_ok db'"
  by (auto simp: reserveAttemptInDB_def Let_def db_ok_def tables_ok_def intro!: keyed_mput split: if_splits)

lemma db_ok_failTask: "db_ok db \<Longrightarrow> mhas (Tasks db) taskID \<Longrightarrow> db_ok (failTask taskID reason now db)"
  using keyed_lookup [OF db_ok_tables(3), of db taskID]
  by (auto simp: failTask_def Let_def mhas_def mget_def intro!: db_ok_put)

lemma db_ok_markTaskCancelRequested: "db_ok db \<Longrightarrow> db_ok (markTaskCancelRequested newID taskID reason now db)"
  by (auto simp: markTaskCancelRequested_def Let_def intro!: db_ok_put)

lemma db_ok_markAttemptFailed:
  assumes "db_ok db" and "mhas (Attempts db) aid"
  shows "db_ok (markAttemptFailed newID cfg aid phase reason canRetry out now db)"
proof -
  have "Attempt_ID (mget zero_Attempt (Attempts db) aid) = aid"
    using keyed_lookup [OF db_ok_tables(4) [OF assms(1)]] assms(2) by (auto simp: mhas_def mget_def)
  then show ?thesis
    unfolding markAttemptFailed_def Let_def split_beta using assms(1)
    by (intro db_ok_put db_ok_recordSlotFailure) simp_all
qed

lemma db_ok_worker_attempt:
  "db_ok db \<Longrightarrow> attemptStarted n a t db = Inr db' \<Longrightarrow> db_ok db'"
  "db_ok db \<Longrightarrow> attemptLease n a t now db = Inr db' \<Longrightarrow> db_ok db'"
  "db_ok db \<Longrightarrow> recordFirstOutput newID n p now db = Inr db' \<Longrightarrow> db_ok db'"
  by (auto simp: attemptStarted_def attemptLease_def recordFirstOutput_def intro!: db_ok_put split: sum.splits if_splits)

lemma db_ok_attemptFailed:
  "db_ok db \<Longrightarrow> attemptFailed newID cfg nodeID payload now db = Inr (p', db') \<Longrightarrow> db_ok db'"
  by (auto simp: attemptFailed_def Let_def split_beta db_ok_tables split: sum.splits
      intro!: db_ok_set keyed_mput db_ok_recordSlotFailure)

subsection \<open>Disconnection and registration\<close>

lemma db_ok_markDisconnectedNode: "db_ok db \<Longrightarrow> db_ok (markDisconnectedNode node db)"
  unfolding markDisconnectedNode_def Let_def db_ok_def tables_ok_def by auto

lemma db_ok_failDisconnected:
  "db_ok db \<Longrightarrow> Attempt_ID attempt = aid \<Longrightarrow> db_ok (failDisconnectedAttempt newID cfg now aid attempt db)"
  unfolding failDisconnectedAttempt_def markDisconnectedTask_def markDisconnectedSlot_def Let_def split_beta
  by (intro db_ok_put db_ok_recordSlotFailure) simp_all

lemma db_ok_failRunningAttempts:
  assumes "db_ok db"
  shows "db_ok (snd (failRunningAttempts newID cfg sid nid ev now db))"
proof -
  define db1 where "db1 = (if Node_ConnectedSession (mget zero_Node (Nodes db) nid) = sid \<or>
      Node_ConnectedSession (mget zero_Node (Nodes db) nid) = []
    then markDisconnectedNode (recordWorkerFlapEvent (mget zero_Node (Nodes db) nid) ev now cfg) db else db)"
  have ok: "db_ok db1"
    using assms by (simp add: db1_def db_ok_markDisconnectedNode)
  have "Attempt_ID a = aid" if "(aid, a) \<in> set (Attempts db1)" for aid a
    using db_ok_tables(4) [OF ok] that by (auto simp: keyed_def list_all_iff)
  then show ?thesis
    using ok by (auto simp: failRunningAttempts_def Let_def db1_def [symmetric] intro!: db_ok_foldl db_ok_failDisconnected)
qed

lemma db_ok_markOfflineWorkers: "db_ok db \<Longrightarrow> db_ok (markOfflineWorkers cfg nids ev now db)"
  unfolding markOfflineWorkers_def Let_def by (intro db_ok_foldl db_ok_if db_ok_markDisconnectedNode)

lemma db_ok_upsertWorkerSlots: "db_ok db \<Longrightarrow> db_ok (upsertWorkerSlots node slots now db)"
  unfolding upsertWorkerSlots_def upsertWorkerSlot_def Let_def by (intro db_ok_foldl db_ok_put) auto

lemma db_ok_authorize: "db_ok db \<Longrightarrow> authorizeWorkerNode sha newID sn nid tok db = Inr (t, db') \<Longrightarrow> db_ok db'"
  by (auto simp: authorizeWorkerNode_def Let_def split: if_splits)

lemma db_ok_registerWorker:
  "db_ok db \<Longrightarrow> registerWorker sha newID cfg sid sn node slots tok now db = Inr (r, db') \<Longrightarrow> db_ok db'"
  by (auto simp: registerWorker_def Let_def split: sum.splits prod.splits
      intro!: db_ok_upsertWorkerSlots db_ok_put dest: db_ok_authorize)

lemma db_ok_workerHeartbeat: "db_ok db \<Longrightarrow> db_ok (workerHeartbeat nid now db)"
  by (auto simp: workerHeartbeat_def Let_def intro!: db_ok_put)

lemma db_ok_updateSlotState: "db_ok db \<Longrightarrow> updateSlotState nid p now db = Inr db' \<Longrightarrow> db_ok db'"
  by (auto simp: updateSlotState_def applySlotStatePayload_def applySlotModelPayload_def Let_def intro!: db_ok_put split: if_splits)

lemma db_ok_artifactState: "db_ok db \<Longrightarrow> db_ok (artifactState newID nid p now db)"
  unfolding artifactState_def Let_def db_ok_audit by (intro db_ok_put db_ok_if db_ok_evictionRecord) simp_all

lemma db_ok_updateTelemetry: "db_ok db \<Longrightarrow> db_ok (recordWorkerUpdateTelemetry nid uid st detail now db)"
  by (cases "map_of (Updates db) uid")
    (simp_all only: recordWorkerUpdateTelemetry_def Let_def option.case, intro db_ok_set, simp_all add: db_ok_tables del: if_split)

subsection \<open>Reports and accounts\<close>

lemma appendLedgerEntry_ledger [simp]:
  "ComputeLedger (appendLedgerEntry newID now e db) =
     ComputeLedger db @ [stampedEntry newID now (length (ComputeLedger db)) e]"
  by (simp add: appendLedgerEntry_def applyLedgerBalance_def stampedEntry_def Let_def)

text \<open>The entries of a report: at most one per type, and none if the report is billed already.\<close>

lemma applyReportAccounting_ledger:
  obtains es where "ComputeLedger (fst (applyReportAccounting newID db r now)) = ComputeLedger db @ es"
    "list_all (\<lambda>e. Ledger_ReportID e = Report_ID r) es" "distinct (map Ledger_Type es)"
    "es = [] \<or> \<not> ledgerExistsForReport db (Report_ID r)"
proof (cases "Report_Status r = TaskStatusCompleted \<and> 0 < Report_ComputeCost (billedReport db r) \<and>
    \<not> ledgerExistsForReport db (Report_ID r)")
  case False
  show ?thesis by (rule that [of "[]"]) (use False in \<open>auto simp: applyReportAccounting_eq\<close>)
next
  case True
  have c: "\<exists>es. ComputeLedger (appendConsumptionLedger newID r' now d) = ComputeLedger d @ es \<and>
      list_all (\<lambda>e. Ledger_ReportID e = Report_ID r' \<and> Ledger_Type e = LedgerConsumeCompute) es \<and> length es \<le> 1" for r' d
    by (cases "mhas (Users d) (Report_UserID r')") (simp_all add: appendConsumptionLedger_def)
  have p: "\<exists>es. ComputeLedger (appendProductionLedger newID r' now d) = ComputeLedger d @ es \<and>
      list_all (\<lambda>e. Ledger_ReportID e = Report_ID r' \<and> Ledger_Type e = LedgerProduceCompute) es \<and> length es \<le> 1" for r' d
    by (simp add: appendProductionLedger_def Let_def)
  let ?r = "billedReport db r"
  obtain es1 where es1: "ComputeLedger (appendConsumptionLedger newID ?r now db) = ComputeLedger db @ es1"
      "list_all (\<lambda>e. Ledger_ReportID e = Report_ID ?r \<and> Ledger_Type e = LedgerConsumeCompute) es1" "length es1 \<le> 1"
    using c by blast
  obtain es2 where es2: "ComputeLedger (appendProductionLedger newID ?r now (appendConsumptionLedger newID ?r now db)) =
        ComputeLedger (appendConsumptionLedger newID ?r now db) @ es2"
      "list_all (\<lambda>e. Ledger_ReportID e = Report_ID ?r \<and> Ledger_Type e = LedgerProduceCompute) es2" "length es2 \<le> 1"
    using p by blast
  have one: "distinct (map Ledger_Type xs)" if "length xs \<le> 1" for xs
    using that by (cases xs) auto
  have "set (map Ledger_Type es1) \<inter> set (map Ledger_Type es2) = {}"
    using es1(2) es2(2) by (auto simp: list_all_iff)
  then show ?thesis
    by (intro that [of "es1 @ es2"]) (use True es1 es2 one in \<open>auto simp: applyReportAccounting_eq list_all_iff\<close>)
qed

lemma ledger_ok_append:
  assumes "ledger_ok reports es" and "list_all (\<lambda>e. Ledger_ReportID e = rid) new" and "distinct (map Ledger_Type new)"
    and "new = [] \<or> list_all (\<lambda>e. Ledger_ReportID e \<noteq> rid) es" and "\<And>k. mhas reports k \<Longrightarrow> mhas reports' k"
    and "mhas reports' rid"
  shows "ledger_ok reports' (es @ new)"
proof (cases "rid = []")
  case True
  then have "report_entries (es @ new) = report_entries es"
    using assms(2) by (auto simp: report_entries_def list_all_iff)
  then show ?thesis
    using assms(1,5) by (auto simp: ledger_ok_def list_all_iff)
next
  case False
  then have new: "report_entries (es @ new) = report_entries es @ new"
    using assms(2) by (auto simp: report_entries_def list_all_iff intro!: filter_True)
  have "distinct (map (\<lambda>e. (Ledger_Type e, Ledger_ReportID e)) new)"
    using assms(2,3) by (auto simp: distinct_map inj_on_def list_all_iff)
  then show ?thesis
    using assms(1,2,4,5,6) unfolding ledger_ok_def new by (force simp: list_all_iff report_entries_def)
qed

lemma acceptReport_tables:
  "Users (snd (acceptReport newID cfg a r now db)) = Users (fst (applyReportAccounting newID db r now))"
  "ComputeLedger (snd (acceptReport newID cfg a r now db)) = ComputeLedger (fst (applyReportAccounting newID db r now))"
  "Reports (snd (acceptReport newID cfg a r now db)) =
     mput (Report_ID r) (snd (applyReportAccounting newID db r now)) (Reports db)"
  by (simp_all add: acceptReport_def Let_def split_beta)

lemma reportedTask_id [simp]: "Task_ID (reportedTask r a now t) = Task_ID t"
  by (simp add: reportedTask_def Let_def)

lemma reportedSlot_id [simp]: "Slot_ID (reportedSlot r s) = Slot_ID s"
  by (simp add: reportedSlot_def Let_def)

lemma acceptReport_keyed:
  assumes "tables_ok db"
  shows "tables_ok (snd (acceptReport newID cfg a r now db))"
proof -
  have "distinct (map fst (Nodes (fst (recordSlotFailure newID d s re t th du))))" if "distinct (map fst (Nodes d))"
    for d s re t th du
    using that by (simp add: recordSlotFailure_def Let_def)
  then show ?thesis
    using assms by (auto simp: acceptReport_def tables_ok_def Let_def split_beta intro!: keyed_mput)
qed

lemma db_ok_acceptReport:
  assumes "db_ok db"
  shows "db_ok (snd (acceptReport newID cfg a r now db))"
proof -
  obtain es where es: "ComputeLedger (fst (applyReportAccounting newID db r now)) = ComputeLedger db @ es"
      "list_all (\<lambda>e. Ledger_ReportID e = Report_ID r) es" "distinct (map Ledger_Type es)"
      "es = [] \<or> \<not> ledgerExistsForReport db (Report_ID r)"
    by (rule applyReportAccounting_ledger)
  have "ledger_ok (mput (Report_ID r) (snd (applyReportAccounting newID db r now)) (Reports db)) (ComputeLedger db @ es)"
    by (rule ledger_ok_append [OF db_ok_tables(7) [OF assms] es(2,3)])
      (use es(4) in \<open>auto simp: ledgerExistsForReport_def list_ex_iff list_all_iff\<close>)
  then show ?thesis
    using assms acceptReport_keyed applyReportAccounting_ok [OF db_ok_tables(6) [OF assms], of newID r now]
    by (simp add: db_ok_def acceptReport_tables es(1))
qed

lemma db_ok_accepted: "db_ok db \<Longrightarrow> acceptReport newID cfg a r now db = (r', db') \<Longrightarrow> db_ok db'"
  using db_ok_acceptReport [of db newID cfg a r now] by simp

lemma db_ok_computeReport: "db_ok db \<Longrightarrow> computeReport newID cfg nid r now db = Inr (r', db') \<Longrightarrow> db_ok db'"
  by (auto simp: computeReport_def Let_def split: sum.splits if_splits dest: db_ok_accepted)

lemma db_ok_accounts:
  assumes "db_ok db" and "accounts_ok db'" and "ComputeLedger db' = ComputeLedger db"
    and "same_tables (db'\<lparr>Users := Users db\<rparr>) db"
  shows "db_ok db'"
  using assms by (simp add: db_ok_def tables_ok_def same_tables_def)

lemma db_ok_userCreate:
  assumes "db_ok db" and "handleAdminUserCreate newID req now db = Inr db'" and "\<And>p n. newID p n \<noteq> []"
  shows "db_ok db'"
  using handleAdminUserCreate_ok [OF db_ok_tables(6) [OF assms(1)] assms(2,3)] assms(2)
  by (intro db_ok_accounts [OF assms(1)]) (auto simp: handleAdminUserCreate_def same_tables_def Let_def split: if_splits)

lemma db_ok_updateUser: "db_ok db \<Longrightarrow> updateUser newID req now db = Inr db' \<Longrightarrow> db_ok db'"
  using updateUser_ok [OF db_ok_tables(6)]
  by (rule_tac db_ok_accounts [of db]) (auto simp: updateUser_def same_tables_def Let_def split: if_splits option.splits)

lemma db_ok_configuredKey: "db_ok db \<Longrightarrow> db_ok (ensureConfiguredClientKey sha cfg now db)"
  using ensureConfiguredClientKey_ok [OF db_ok_tables(6), of db sha cfg now]
  by (rule_tac db_ok_accounts [of db]) (auto simp: ensureConfiguredClientKey_def same_tables_def Let_def split: if_splits)

lemma db_ok_adjustment:
  assumes "db_ok db" and "handleAdminBalanceAdjustment newID req now db = Inr db'"
  shows "db_ok db'"
proof -
  obtain e where e: "ComputeLedger db' = ComputeLedger db @ [e]" "Ledger_ReportID e = []" "Reports db' = Reports db"
    using assms(2)
    by (auto simp: handleAdminBalanceAdjustment_def storeAdminAdjustment_def adminAdjustmentEntry_def split: sum.splits if_splits)
  then have "ledger_ok (Reports db') (ComputeLedger db')"
    using db_ok_tables(7) [OF assms(1)] by (simp add: ledger_ok_def report_entries_def)
  moreover have "tables_ok db'"
    using assms by (auto simp: db_ok_def tables_ok_def handleAdminBalanceAdjustment_def storeAdminAdjustment_def
        split: sum.splits if_splits)
  ultimately show ?thesis
    using handleAdminBalanceAdjustment_ok [OF db_ok_tables(6) [OF assms(1)] assms(2)] by (simp add: db_ok_def)
qed

lemma db_ok_keys:
  "db_ok db \<Longrightarrow> setProfileComputeCost newID sreq now db = Inr db' \<Longrightarrow> db_ok db'"
  "db_ok db \<Longrightarrow> storeAPIKey newID key db = Inr db' \<Longrightarrow> db_ok db'"
  "db_ok db \<Longrightarrow> revokeAPIKey newID kid now db = Inr db' \<Longrightarrow> db_ok db'"
  "db_ok db \<Longrightarrow> authenticateClient sha token now db = Inr (user, db') \<Longrightarrow> db_ok db'"
  by (auto simp: setProfileComputeCost_def storeAPIKey_def revokeAPIKey_def authenticateClient_def Let_def
      split: option.splits if_splits)

end
