(* ===== verification/Manager_Invariants.thy ===== *)
theory Manager_Invariants
  imports Invariants
begin

section \<open>Invariants of the running manager\<close>

text \<open>
  The operations of the manager are compositions of transactions and messages. A property of
  the database that every transaction keeps is kept by every operation: this is proved once,
  in a locale whose laws are about the transactions, and used for the invariant of the
  database and for what an operation leaves alone.
\<close>

subsection \<open>Properties that the transactions keep\<close>

locale db_maintenance =
  fixes D :: "Database \<Rightarrow> bool"
  assumes D_audit: "D db \<Longrightarrow> D (appendAudit newID t a s md now db)"
    and D_quarantines: "D db \<Longrightarrow> D (clearExpiredQuarantines newID now db)"
    and D_suppressions: "D db \<Longrightarrow> D (Manager_clearExpiredWorkerSuppressions cfg now db)"
    and D_storePlan: "D db \<Longrightarrow> D (storePlan plan db)"
    and D_eviction: "D db \<Longrightarrow> D (upsertArtifactEvictionRecord newID n art r st f now db)"
begin

lemma D_foldl:
  "D (Mgr_db m) \<Longrightarrow> (\<And>n x. D (Mgr_db n) \<Longrightarrow> D (Mgr_db (f n x))) \<Longrightarrow> D (Mgr_db (foldl f m xs))"
  by (induction xs arbitrary: m) auto

lemma D_maintain: "D (Mgr_db m) \<Longrightarrow> D (Mgr_db (maintain newID now m))"
  by (simp add: maintain_def D_quarantines D_suppressions)

lemma D_dispatchEviction: "D (Mgr_db m) \<Longrightarrow> D (Mgr_db (snd (dispatchArtifactEviction J newID n art r now m)))"
  by (auto simp: dispatchArtifactEviction_def recordArtifactEviction_def Let_def split_beta intro: D_eviction split: option.split)

lemma D_replan: "D (Mgr_db m) \<Longrightarrow> D (Mgr_db (replanAndDispatch J newID now m))"
  unfolding replanAndDispatch_def Let_def dispatchStaleArtifactEvictions_def
  by (intro D_foldl D_dispatchEviction)
    (auto simp: dispatchAssignment_def Let_def D_storePlan D_maintain split: option.split)

end

text \<open>The transactions of scheduling, of the workers and of their sessions.\<close>

locale db_property = db_maintenance +
  assumes D_intent: "D db \<Longrightarrow> recordCacheIntent newID n art act now db = Inr db' \<Longrightarrow> D db'"
    and D_disconnect: "D db \<Longrightarrow> D (snd (failRunningAttempts newID cfg sid nid ev now db))"
    and D_offline: "D db \<Longrightarrow> D (markOfflineWorkers cfg nids ev now db)"
    and D_cancel: "D db \<Longrightarrow> D (markTaskCancelRequested newID tid reason now db)"
    and D_failTask: "D db \<Longrightarrow> mhas (Tasks db) tid \<Longrightarrow> D (failTask tid reason now db)"
    and D_newTask: "D db \<Longrightarrow> storeNewTask newID task enforce db = Inr db' \<Longrightarrow> D db'"
    and D_reserve: "D db \<Longrightarrow> reserveAttemptInDB newID task profile effective slot attempt now db = Inr db' \<Longrightarrow> D db'"
    and D_markFailed: "D db \<Longrightarrow> mhas (Attempts db) aid \<Longrightarrow> D (markAttemptFailed newID cfg aid phase reason canRetry out now db)"
    and D_register: "D db \<Longrightarrow> registerWorker sha newID cfg sid sn node slots tok now db = Inr (reg, db') \<Longrightarrow> D db'"
    and D_heartbeat: "D db \<Longrightarrow> D (workerHeartbeat nid now db)"
    and D_slotState: "D db \<Longrightarrow> updateSlotState nid sp now db = Inr db' \<Longrightarrow> D db'"
    and D_artifactState: "D db \<Longrightarrow> D (artifactState newID nid ap now db)"
    and D_firstOutput: "D db \<Longrightarrow> recordFirstOutput newID nid tp now db = Inr db' \<Longrightarrow> D db'"
    and D_started: "D db \<Longrightarrow> attemptStarted nid aid tid db = Inr db' \<Longrightarrow> D db'"
    and D_lease: "D db \<Longrightarrow> attemptLease nid aid tid now db = Inr db' \<Longrightarrow> D db'"
    and D_failed: "D db \<Longrightarrow> attemptFailed newID cfg nid fp now db = Inr (fp', db') \<Longrightarrow> D db'"
    and D_telemetry: "D db \<Longrightarrow> D (recordWorkerUpdateTelemetry nid uid st detail now db)"
begin

lemma D_close: "D (Mgr_db m) \<Longrightarrow> D (Mgr_db (closeWithFlapEvent newID sid ev now m))"
  by (auto simp: closeWithFlapEvent_def Let_def split_beta D_disconnect split: option.split)

lemma D_expire: "D (Mgr_db m) \<Longrightarrow> D (Mgr_db (expireWorkerHeartbeats J newID now m))"
  by (auto simp: expireWorkerHeartbeats_def Let_def split_beta intro!: D_replan D_foldl D_offline D_close)

lemma D_select: "D (Mgr_db m) \<Longrightarrow> D (Mgr_db (snd (selectReadySlot J newID profile tid now m)))"
  by (simp add: selectReadySlot_def Let_def D_expire D_maintain)

lemma D_cancelTask: "D (Mgr_db m) \<Longrightarrow> D (Mgr_db (cancelTask J newID tid reason now m))"
  unfolding cancelTask_def Let_def
  by (intro D_foldl) (auto simp: cancelAttempt_def D_cancel split: option.split)

lemma D_begin:
  assumes "D (Mgr_db m)"
  shows "D (Mgr_db (snd (beginAttempt J newID task profile effective slot sess msgs maxT temp now m)))"
proof -
  have "mhas (Attempts db') (Attempt_ID a)" if "reserveAttemptInDB newID task profile effective slot a now db = Inr db'" for a db db'
    using that by (auto simp: reserveAttemptInDB_def Let_def mhas_def split: if_splits)
  with assms show ?thesis
    by (auto simp: beginAttempt_def Let_def split_beta dispatchAttempt_def intro: D_reserve D_markFailed split: sum.split)
qed

lemma D_start:
  assumes "D (Mgr_db m)"
    and "mhas (Tasks (Mgr_db (snd (selectReadySlot J newID profile (Task_ID task) now m)))) (Task_ID task)"
  shows "D (Mgr_db (snd (startAttempt J newID done deadline task profile msgs maxT temp now m)))"
proof -
  let ?sel = "selectReadySlot J newID profile (Task_ID task) now m"
  obtain r m1 where sel: "?sel = (r, m1)" by fastforce
  have m1: "D (Mgr_db m1)" using D_select [OF assms(1)] sel by (metis snd_conv)
  have begun: "D (Mgr_db m2)" if "beginAttempt J newID task profile effective slot sess msgs maxT temp now m1 = (x, m2)"
    for effective slot sess x m2
    using D_begin [OF m1] that by (metis snd_conv)
  show ?thesis
    using assms m1 sel
    by (auto simp: startAttempt_def D_failTask split: option.splits prod.splits sum.splits begin_error.splits reserve_error.splits
        dest: begun)
qed

lemma D_try: "D (Mgr_db m) \<Longrightarrow> (\<And>db'. f (Mgr_db m) = Inr db' \<Longrightarrow> D db') \<Longrightarrow> D (Mgr_db (snd (try_db f m)))"
  by (auto simp: try_db_def split: sum.split)

lemma D_thenReplan: "D (Mgr_db (snd r)) \<Longrightarrow> D (Mgr_db (snd (thenReplan J newID now r)))"
  by (auto simp: thenReplan_def D_replan split: prod.splits option.splits)

lemma D_upsert:
  assumes "D (Mgr_db m)"
  shows "D (Mgr_db (snd (upsertWorkerState J sha newID sid node slots cached warm tok now m)))"
proof -
  let ?node = "normalizeWorkerNode newID node sid cached warm now (Mgr_db m)"
  let ?sn = "Session_nodeID (sessionOf m sid)"
  have closed: "D (Mgr_db (case old of None \<Rightarrow> n | Some os \<Rightarrow> if os \<noteq> sid then close newID os now n else n))"
    if "D (Mgr_db n)" for n and old :: "string option"
    using that by (simp add: close_def D_close split: option.split)
  show ?thesis
  proof (cases "registerWorker sha newID (Mgr_cfg m) sid ?sn ?node slots tok now (Mgr_db m)")
    case (Inl e)
    then show ?thesis using assms by (simp add: upsertWorkerState_def Let_def)
  next
    case (Inr r)
    obtain n t db where r: "r = ((n, t), db)" by (metis surj_pair)
    have "D db" using D_register [OF assms] Inr r by blast
    then show ?thesis
      unfolding upsertWorkerState_def Let_def Inr r sum.case prod.case
      using assms by (auto simp: sendP2PConfigToSession_def intro!: D_replan closed)
  qed
qed

lemma D_token: "D (Mgr_db m) \<Longrightarrow> D (Mgr_db (snd (handleToken newID nid p now m)))"
  by (auto simp: handleToken_def intro: D_firstOutput split: option.split sum.split)

lemma D_handleFailed: "D (Mgr_db m) \<Longrightarrow> D (Mgr_db (snd (handleAttemptFailed newID nid p now m)))"
  by (auto simp: handleAttemptFailed_def intro: D_failed split: sum.split prod.split)

lemma D_evictNodeArtifact: "D (Mgr_db m) \<Longrightarrow> D (Mgr_db (snd (evictNodeArtifact J newID n art now m)))"
  using D_dispatchEviction [of m J newID n art "''admin_requested''" now]
  by (auto simp: evictNodeArtifact_def intro: D_audit split: option.split prod.split bool.split)

lemma D_cacheAction: "D (Mgr_db m) \<Longrightarrow> D (Mgr_db (snd (handleAdminNodeArtifactAction J newID n art act now m)))"
proof -
  assume D: "D (Mgr_db m)"
  have ev: "D (Mgr_db m2)" if "dispatchArtifactEviction J newID n art r now m1 = (b, m2)" "D (Mgr_db m1)" for r m1 b m2
    using D_dispatchEviction [OF that(2), of J newID n art r now] that(1) by simp
  have "D (Mgr_db (snd (handleKeepCacheAction newID n art now m)))"
    using D by (auto simp: handleKeepCacheAction_def intro: D_audit D_intent split: sum.split)
  moreover have "D (Mgr_db (snd (handleEvictCacheAction J newID n art now m)))"
    using D by (auto simp: handleEvictCacheAction_def split: sum.split option.split prod.split bool.split
        intro: D_audit D_intent dest!: ev)
  moreover have "D (Mgr_db (snd (handleEvictWhenIdleCacheAction J newID n art now m)))"
    using D by (auto simp: handleEvictWhenIdleCacheAction_def Let_def split: sum.split option.split prod.split bool.split
        intro: D_intent dest!: ev)
  ultimately show ?thesis using D by (simp add: handleAdminNodeArtifactAction_def Let_def)
qed

end

text \<open>With reports, every message of a worker keeps the property.\<close>

locale db_invariant = db_property +
  assumes D_report: "D db \<Longrightarrow> computeReport newID cfg nid r now db = Inr (r', db') \<Longrightarrow> D db'"
begin

lemma D_handleReport: "D (Mgr_db m) \<Longrightarrow> D (Mgr_db (snd (handleComputeReport J newID nid r now m)))"
  by (auto simp: handleComputeReport_def intro!: D_replan intro: D_report split: sum.split prod.split)

lemma D_envelope:
  assumes "D (Mgr_db m)"
  shows "D (Mgr_db (snd (handleWorkerEnvelope J sha newID sid msg now m)))"
proof -
  have "D (Mgr_db (snd (handleWorkerTelemetry J newID sid msg now m)))"
    using assms by (auto simp: handleWorkerTelemetry_def Let_def intro: D_audit D_telemetry split: sum.split)
  moreover have "D (Mgr_db (snd (handleWorkerAttemptStarted sid msg m)))" "D (Mgr_db (snd (handleWorkerAttemptLease sid msg now m)))"
    unfolding handleWorkerAttemptStarted_def handleWorkerAttemptLease_def
    using assms by (auto intro!: D_try intro: D_started D_lease)
  moreover have "D (Mgr_db (snd (handleWorkerSlotState J newID sid msg now m)))"
    "D (Mgr_db (snd (handleWorkerArtifactState J newID sid msg now m)))"
    using assms by (auto simp: handleWorkerSlotState_def handleWorkerArtifactState_def intro!: D_thenReplan D_try
        intro: D_slotState D_artifactState split: sum.split)
  moreover have "D (Mgr_db (snd (handleWorkerHeartbeat sid now m)))"
    using assms by (simp add: handleWorkerHeartbeat_def Let_def D_heartbeat)
  moreover have "D (Mgr_db (snd (handleWorkerHello J sha newID sid msg now m)))" "D (Mgr_db (snd (handleWorkerFullState J sha newID sid msg now m)))"
    "D (Mgr_db (snd (handleWorkerToken J newID sid msg now m)))" "D (Mgr_db (snd (handleWorkerAttemptFailed J newID sid msg now m)))"
    "D (Mgr_db (snd (handleWorkerComputeReport J newID sid msg now m)))"
    using assms by (simp_all add: handleWorkerHello_def handleWorkerFullState_def handleWorkerToken_def handleWorkerAttemptFailed_def
        handleWorkerComputeReport_def D_upsert D_token D_handleFailed D_handleReport split: sum.split)
  ultimately show ?thesis
    using assms by (simp add: handleWorkerEnvelope_def Let_def split: option.split)
qed

end

interpretation db_inv: db_invariant db_ok
  by unfold_locales (auto simp: db_ok_clearExpiredQuarantines db_ok_suppressions db_ok_storePlan db_ok_evictionRecord
      db_ok_failRunningAttempts db_ok_markOfflineWorkers db_ok_markTaskCancelRequested db_ok_failTask db_ok_markAttemptFailed
      db_ok_workerHeartbeat db_ok_artifactState db_ok_updateTelemetry
      dest: db_ok_recordCacheIntent db_ok_storeNewTask db_ok_reserve db_ok_registerWorker db_ok_updateSlotState
        db_ok_worker_attempt db_ok_attemptFailed db_ok_computeReport)

text \<open>
  The transactions of scheduling leave the accounts alone: \<open>books\<close> is what the accounts
  depend on.
\<close>

definition books :: "Database \<Rightarrow> User gomap \<times> ComputeLedgerEntry list \<times> ComputeReport gomap" where
  "books db = (Users db, ComputeLedger db, Reports db)"

lemma books_same: "same_tables db' db \<Longrightarrow> books db' = books db"
  by (simp add: books_def same_tables_def)

lemma books_update [simp]:
  "books (db\<lparr>Nodes := ns\<rparr>) = books db" "books (db\<lparr>Slots := ss\<rparr>) = books db" "books (db\<lparr>Tasks := ts\<rparr>) = books db"
  "books (db\<lparr>Attempts := as\<rparr>) = books db" "books (db\<lparr>Assignments := asg\<rparr>) = books db"
  "books (db\<lparr>CacheIntents := ci\<rparr>) = books db" "books (db\<lparr>ArtifactEvictions := ev\<rparr>) = books db"
  "books (db\<lparr>Updates := us\<rparr>) = books db" "books (db\<lparr>NodeTokenHashes := hs\<rparr>) = books db"
  "books (db\<lparr>Profiles := ps\<rparr>) = books db" "books (db\<lparr>Policies := pol\<rparr>) = books db"
  "books (db\<lparr>Artifacts := arts\<rparr>) = books db" "books (db\<lparr>APIKeys := keys\<rparr>) = books db"
  "books (db\<lparr>Settings := st\<rparr>) = books db" "books (appendAudit newID t a s md now db) = books db"
  by (simp_all add: books_def)

lemma books_foldl: "(\<And>d x. books (f d x) = books d) \<Longrightarrow> books (foldl f db xs) = books db"
  by (induction xs arbitrary: db) auto

lemma books_recordSlotFailure [simp]: "books (fst (recordSlotFailure newID db s r now t d)) = books db"
  by (simp add: books_def)

lemma books_markDisconnectedNode [simp]: "books (markDisconnectedNode n db) = books db"
  by (simp add: markDisconnectedNode_def Let_def)

lemma books_maintenance:
  "books (clearExpiredQuarantines newID now db) = books db"
  "books (Manager_clearExpiredWorkerSuppressions cfg now db) = books db"
  "books (storePlan plan db) = books db"
  "books (upsertArtifactEvictionRecord newID n art r st f now db) = books db"
  "books (markOfflineWorkers cfg nids ev now db) = books db"
  by (auto simp: clearExpiredQuarantines_def Manager_clearExpiredWorkerSuppressions_def clearExpiredWorkerSuppressions_def
      storePlan_def applyPlacementDrainState_def upsertArtifactEvictionRecord_def markOfflineWorkers_def Let_def books_foldl
      split: prod.split)

lemma books_tasks:
  "books (markTaskCancelRequested newID tid reason now db) = books db"
  "books (failTask tid reason now db) = books db"
  "books (markAttemptFailed newID cfg aid phase reason canRetry out now db) = books db"
  "books (failDisconnectedAttempt newID cfg now aid attempt db) = books db"
  "storeNewTask newID task enforce db = Inr db' \<Longrightarrow> books db' = books db"
  "reserveAttemptInDB newID task profile effective slot att now db = Inr db' \<Longrightarrow> books db' = books db"
  by (auto simp: markTaskCancelRequested_def failTask_def markAttemptFailed_def failDisconnectedAttempt_def markDisconnectedTask_def
      markDisconnectedSlot_def storeNewTask_def reserveAttemptInDB_def Let_def split_beta split: option.splits if_splits)

lemma books_worker:
  "books (snd (failRunningAttempts newID cfg sid nid ev now db)) = books db"
  "registerWorker sha newID cfg sid sn node slots tok now db = Inr (reg, db') \<Longrightarrow> books db' = books db"
  "books (workerHeartbeat nid now db) = books db"
  "updateSlotState nid sp now db = Inr db' \<Longrightarrow> books db' = books db"
  "books (artifactState newID nid ap now db) = books db"
  "recordFirstOutput newID nid tp now db = Inr db' \<Longrightarrow> books db' = books db"
  "attemptStarted nid aid tid db = Inr db' \<Longrightarrow> books db' = books db"
  "attemptLease nid aid tid now db = Inr db' \<Longrightarrow> books db' = books db"
  "recordCacheIntent newID n art act now db = Inr db' \<Longrightarrow> books db' = books db"
proof -
  show "books (snd (failRunningAttempts newID cfg sid nid ev now db)) = books db"
    by (simp add: failRunningAttempts_def Let_def books_foldl books_tasks split_beta)
  show "books db' = books db" if "registerWorker sha newID cfg sid sn node slots tok now db = Inr (reg, db')"
  proof -
    obtain n t where "reg = (n, t)" by fastforce
    with that show ?thesis by (auto elim: registerWorker_Inr simp: books_def)
  qed
  show "books (artifactState newID nid ap now db) = books db"
    by (simp add: artifactState_def Let_def books_maintenance(4) clearCacheIntentRecord_def del: eviction_sel)
qed (auto simp: workerHeartbeat_def updateSlotState_def recordFirstOutput_def attemptStarted_def attemptLease_def
    recordCacheIntent_def clearCacheIntentRecord_def Let_def split: sum.splits if_splits option.splits)

lemma books_attemptFailed: "attemptFailed newID cfg nid fp now db = Inr (fp', db') \<Longrightarrow> books db' = books db"
  by (auto simp: attemptFailed_def Let_def split_beta split: sum.splits)

lemma books_telemetry: "books (recordWorkerUpdateTelemetry nid uid st detail now db) = books db"
  by (cases "map_of (Updates db) uid") (simp_all add: recordWorkerUpdateTelemetry_def Let_def del: if_split)

interpretation db_frame: db_property "\<lambda>db. books db = b" for b
  by unfold_locales (auto simp: books_maintenance books_tasks books_worker(1,3,5) books_telemetry
      dest: books_tasks(5,6) books_worker(2,4,6-9) books_attemptFailed)

text \<open>A stored task stays stored: no transaction deletes one.\<close>

lemma tasks_foldl: "mhas (Tasks db) tid \<Longrightarrow> (\<And>d x. mhas (Tasks d) tid \<Longrightarrow> mhas (Tasks (f d x)) tid) \<Longrightarrow> mhas (Tasks (foldl f db xs)) tid"
  by (induction xs arbitrary: db) auto

lemma foldl_audit_tables [simp]:
  "Tasks (foldl (\<lambda>d (k, _). appendAudit newID t a k md now d) db ks) = Tasks db"
  "Attempts (foldl (\<lambda>d (k, _). appendAudit newID t a k md now d) db ks) = Attempts db"
  by (induction ks arbitrary: db) (auto split: prod.split)

lemma tasks_maintenance [simp]:
  "Tasks (clearExpiredQuarantines newID now db) = Tasks db"
  "Tasks (Manager_clearExpiredWorkerSuppressions cfg now db) = Tasks db"
  "Tasks (storePlan plan db) = Tasks db"
  "Tasks (upsertArtifactEvictionRecord newID n art r st f now db) = Tasks db"
  "Tasks (workerHeartbeat nid now db) = Tasks db"
  "Tasks (clearCacheIntentRecord n art db) = Tasks db"
  "Tasks (recordWorkerUpdateTelemetry nid uid st detail now db) = Tasks db"
  "Tasks (artifactState newID nid ap now db) = Tasks db"
proof -
  show "Tasks (clearExpiredQuarantines newID now db) = Tasks db"
    by (simp add: clearExpiredQuarantines_def Let_def)
  show "Tasks (upsertArtifactEvictionRecord newID n art r st f now db) = Tasks db" for db and n art r st f
    by (simp add: upsertArtifactEvictionRecord_def Let_def)
  then show "Tasks (artifactState newID nid ap now db) = Tasks db"
    by (simp add: artifactState_def clearCacheIntentRecord_def Let_def)
  show "Tasks (recordWorkerUpdateTelemetry nid uid st detail now db) = Tasks db"
    by (cases "map_of (Updates db) uid") (simp_all add: recordWorkerUpdateTelemetry_def Let_def del: if_split)
qed (simp_all add: Manager_clearExpiredWorkerSuppressions_def clearExpiredWorkerSuppressions_def storePlan_def
    applyPlacementDrainState_def workerHeartbeat_def clearCacheIntentRecord_def Let_def)

lemma tasks_markOffline [simp]: "Tasks (markOfflineWorkers cfg nids ev now db) = Tasks db"
  unfolding markOfflineWorkers_def by (induction nids arbitrary: db) (simp_all add: Let_def)

lemma task_failDisconnected: "mhas (Tasks db) tid \<Longrightarrow> mhas (Tasks (failDisconnectedAttempt newID cfg now aid attempt db)) tid"
  by (simp add: failDisconnectedAttempt_def markDisconnectedTask_def Let_def)

lemma task_failRunning: "mhas (Tasks db) tid \<Longrightarrow> mhas (Tasks (snd (failRunningAttempts newID cfg sid nid ev now db))) tid"
  by (auto simp: failRunningAttempts_def Let_def split_beta intro!: tasks_foldl task_failDisconnected)

lemma task_kept_Inr:
  "mhas (Tasks db) tid \<Longrightarrow> recordCacheIntent newID n art act now db = Inr db' \<Longrightarrow> mhas (Tasks db') tid"
  "mhas (Tasks db) tid \<Longrightarrow> storeNewTask newID task enforce db = Inr db' \<Longrightarrow> mhas (Tasks db') tid"
  "mhas (Tasks db) tid \<Longrightarrow> reserveAttemptInDB newID task profile effective slot att now db = Inr db' \<Longrightarrow> mhas (Tasks db') tid"
  "mhas (Tasks db) tid \<Longrightarrow> updateSlotState nid sp now db = Inr db' \<Longrightarrow> mhas (Tasks db') tid"
  "mhas (Tasks db) tid \<Longrightarrow> recordFirstOutput newID nid tp now db = Inr db' \<Longrightarrow> mhas (Tasks db') tid"
  "mhas (Tasks db) tid \<Longrightarrow> attemptStarted nid aid tid' db = Inr db' \<Longrightarrow> mhas (Tasks db') tid"
  "mhas (Tasks db) tid \<Longrightarrow> attemptLease nid aid tid' now db = Inr db' \<Longrightarrow> mhas (Tasks db') tid"
  "mhas (Tasks db) tid \<Longrightarrow> attemptFailed newID cfg nid fp now db = Inr (fp', db') \<Longrightarrow> mhas (Tasks db') tid"
  by (auto simp: recordCacheIntent_def storeNewTask_def reserveAttemptInDB_def updateSlotState_def recordFirstOutput_def
      attemptStarted_def attemptLease_def attemptFailed_def Let_def split_beta split: sum.splits option.splits if_splits)

lemma task_kept_register:
  "mhas (Tasks db) tid \<Longrightarrow> registerWorker sha newID cfg sid sn node slots tok now db = Inr (reg, db') \<Longrightarrow> mhas (Tasks db') tid"
  by (cases reg) (auto elim: registerWorker_Inr)

interpretation task_kept: db_property "\<lambda>db. mhas (Tasks db) tid" for tid
  by unfold_locales (auto simp: task_failRunning markTaskCancelRequested_def failTask_def markAttemptFailed_def Let_def split_beta
      dest: task_kept_Inr task_kept_register)

text \<open>Planning leaves the attempts alone.\<close>

lemma attempts_maintenance [simp]:
  "Attempts (clearExpiredQuarantines newID now db) = Attempts db"
  "Attempts (Manager_clearExpiredWorkerSuppressions cfg now db) = Attempts db"
  "Attempts (storePlan plan db) = Attempts db"
  "Attempts (upsertArtifactEvictionRecord newID n art r st f now db) = Attempts db"
  by (simp_all add: clearExpiredQuarantines_def Manager_clearExpiredWorkerSuppressions_def clearExpiredWorkerSuppressions_def storePlan_def
    applyPlacementDrainState_def upsertArtifactEvictionRecord_def Let_def)

interpretation attempts_frame: db_maintenance "\<lambda>db. Attempts db = as" for as
  by unfold_locales auto

interpretation tasks_frame: db_maintenance "\<lambda>db. Tasks db = ts" for ts
  by unfold_locales auto

subsection \<open>Sessions\<close>

text \<open>
  The invariant of the session tables: a session object is stored under its identifier, and
  the session that serves a node is registered as that node.
\<close>

definition sessions_ok :: "Manager \<Rightarrow> bool" where
  "sessions_ok m \<longleftrightarrow> keyed Session_id (Mgr_workers m) \<and>
     (\<forall>nid sid. map_of (Mgr_sessions m) nid = Some sid \<longrightarrow>
        nid \<noteq> [] \<and> (\<exists>s. map_of (Mgr_workers m) sid = Some s \<and> Session_nodeID s = nid))"

lemma sessions_ok_served:
  "sessions_ok m \<Longrightarrow> map_of (Mgr_sessions m) nid = Some sid \<Longrightarrow> map_of (Mgr_workers m) sid = Some s \<Longrightarrow>
   Session_nodeID s = nid \<and> nid \<noteq> []"
  unfolding sessions_ok_def by fastforce

lemma sessions_okD:
  assumes "sessions_ok m" and "sessionFor m nid = Some s"
  shows "map_of (Mgr_workers m) (Session_id s) = Some s" and "Session_nodeID s = nid" and "nid \<noteq> []"
    and "map_of (Mgr_sessions m) nid = Some (Session_id s)"
  using assms sessions_ok_served [OF assms(1)] by (auto simp: sessionFor_def bind_eq_Some_conv sessions_ok_def dest: keyed_lookup)

lemma sessions_ok_cong:
  "Mgr_sessions m' = Mgr_sessions m \<Longrightarrow> Mgr_workers m' = Mgr_workers m \<Longrightarrow> sessions_ok m' = sessions_ok m"
  by (simp add: sessions_ok_def)

lemma sessions_ok_db [simp]: "sessions_ok (m\<lparr>Mgr_db := db\<rparr>) = sessions_ok m" "sessions_ok (update_db f m) = sessions_ok m"
  by (rule sessions_ok_cong, simp_all)+

lemma sessions_ok_worker:
  assumes "sessions_ok m" and "map_of (Mgr_workers m) sid = Some s" and "Session_id s' = Session_id s"
    and "Session_nodeID s' = Session_nodeID s"
  shows "sessions_ok (m\<lparr>Mgr_workers := mput sid s' (Mgr_workers m)\<rparr>)"
  using assms sessions_ok_served [OF assms(1) _ assms(2)]
  by (auto simp: sessions_ok_def intro!: keyed_mput dest: keyed_lookup)

lemma sessions_ok_enqueue: "sessions_ok m \<Longrightarrow> sessions_ok (snd (enqueueSession newID sid msg m))"
  by (auto simp: enqueueSession_def Let_def split_beta intro: sessions_ok_worker split: option.split)

lemma sessions_ok_foldl: "sessions_ok m \<Longrightarrow> (\<And>n x. sessions_ok n \<Longrightarrow> sessions_ok (f n x)) \<Longrightarrow> sessions_ok (foldl f m xs)"
  by (induction xs arbitrary: m) auto

lemma sessions_ok_evict: "sessions_ok m \<Longrightarrow> sessions_ok (snd (dispatchArtifactEviction J newID n art r now m))"
  by (auto simp: dispatchArtifactEviction_def recordArtifactEviction_def Let_def split_beta sessions_ok_enqueue split: option.split)

lemma sessions_ok_replan: "sessions_ok m \<Longrightarrow> sessions_ok (replanAndDispatch J newID now m)"
  unfolding replanAndDispatch_def Let_def dispatchStaleArtifactEvictions_def
  by (intro sessions_ok_foldl sessions_ok_evict)
    (auto simp: maintain_def dispatchAssignment_def Let_def sessions_ok_enqueue split: option.split)

lemma sessions_ok_streams:
  "sessions_ok (publishEvent a ev m) = sessions_ok m" "sessions_ok (publishWorkerDisconnectFailures fs m) = sessions_ok m"
  "sessions_ok (registerStream a act m) = sessions_ok m" "sessions_ok (unregisterStream a m) = sessions_ok m"
  by (rule sessions_ok_cong, simp_all add: registerStream_def unregisterStream_def)+

lemma sessions_ok_remove: "sessions_ok m \<Longrightarrow> sessions_ok (removeSession s m)"
  by (auto simp: removeSession_def sessions_ok_def)

lemma sessions_ok_close: "sessions_ok m \<Longrightarrow> sessions_ok (closeWithFlapEvent newID sid ev now m)"
  by (auto simp: closeWithFlapEvent_def Let_def split_beta sessions_ok_streams intro!: sessions_ok_remove intro: sessions_ok_worker
      split: option.split)

lemma sessions_ok_expire: "sessions_ok m \<Longrightarrow> sessions_ok (expireWorkerHeartbeats J newID now m)"
  by (auto simp: expireWorkerHeartbeats_def Let_def split_beta intro!: sessions_ok_replan sessions_ok_foldl sessions_ok_close)

lemma sessions_ok_select: "sessions_ok m \<Longrightarrow> sessions_ok (snd (selectReadySlot J newID profile tid now m))"
  by (simp add: selectReadySlot_def Let_def maintain_def sessions_ok_expire)

lemma sessions_ok_cancel: "sessions_ok m \<Longrightarrow> sessions_ok (cancelTask J newID tid reason now m)"
  unfolding cancelTask_def Let_def
  by (intro sessions_ok_foldl) (auto simp: cancelAttempt_def sessions_ok_enqueue split: option.split)

lemma sessions_ok_begin:
  "sessions_ok m \<Longrightarrow> sessions_ok (snd (beginAttempt J newID task profile effective slot sess msgs maxT temp now m))"
  by (auto simp: beginAttempt_def Let_def split_beta dispatchAttempt_def sessions_ok_streams sessions_ok_enqueue split: sum.split)

lemma sessions_ok_start:
  assumes "sessions_ok m"
  shows "sessions_ok (snd (startAttempt J newID done deadline task profile msgs maxT temp now m))"
proof -
  obtain r m1 where sel: "selectReadySlot J newID profile (Task_ID task) now m = (r, m1)" by fastforce
  have m1: "sessions_ok m1" using sessions_ok_select [OF assms] sel by (metis snd_conv)
  have begun: "sessions_ok m2" if "beginAttempt J newID task profile effective slot sess msgs maxT temp now m1 = (x, m2)"
    for effective slot sess x m2
    using sessions_ok_begin [OF m1] that by (metis snd_conv)
  show ?thesis
    using assms m1 sel
    by (auto simp: startAttempt_def split: option.splits prod.splits sum.splits begin_error.splits reserve_error.splits dest: begun)
qed

text \<open>A registration moves the node to the session that registers, which serves no other node.\<close>

lemma sessions_ok_moved:
  assumes "sessions_ok m" and "map_of (Mgr_workers m) sid = Some s" and "Session_nodeID s = [] \<or> Session_nodeID s = nid" and "nid \<noteq> []"
  shows "sessions_ok (m\<lparr>Mgr_db := db, Mgr_workers := mput sid (s\<lparr>Session_nodeID := nid\<rparr>) (Mgr_workers m),
    Mgr_sessions := mput nid sid (Mgr_sessions m)\<rparr>)"
  using assms sessions_ok_served [OF assms(1) _ assms(2)]
  by (auto simp: sessions_ok_def intro!: keyed_mput dest: keyed_lookup)

lemma sessions_ok_upsert:
  assumes "sessions_ok m" and "map_of (Mgr_workers m) sid = Some s"
  shows "sessions_ok (snd (upsertWorkerState J sha newID sid node slots cached warm tok now m))"
proof (cases "registerWorker sha newID (Mgr_cfg m) sid (Session_nodeID s)
    (normalizeWorkerNode newID node sid cached warm now (Mgr_db m)) slots tok now (Mgr_db m)")
  case (Inl e)
  then show ?thesis using assms by (simp add: upsertWorkerState_def sessionOf_def mget_SomeD Let_def)
next
  case (Inr r)
  obtain n t db where r: "r = ((n, t), db)" by (metis surj_pair)
  have s: "sessionOf m sid = s" using assms(2) by (simp add: sessionOf_def mget_SomeD)
  have n: "Node_ID n = Node_ID (normalizeWorkerNode newID node sid cached warm now (Mgr_db m))" "Node_ID n \<noteq> []"
    using Inr r by (auto elim!: registerWorker_Inr dest: authorizeWorkerNode_Inr(1))
  have closed: "sessions_ok (case old of None \<Rightarrow> m | Some os \<Rightarrow> if os \<noteq> sid then close newID os now m else m)"
    if "sessions_ok m" for m and old :: "string option"
    using that by (simp add: close_def sessions_ok_close split: option.split)
  show ?thesis
    unfolding upsertWorkerState_def Let_def s Inr r sum.case prod.case
    using assms n sessions_ok_moved [OF assms, of "Node_ID n" db]
    by (auto simp: sendP2PConfigToSession_def intro!: sessions_ok_replan sessions_ok_enqueue closed)
qed

lemma sessions_ok_envelope:
  assumes "sessions_ok m" and "map_of (Mgr_workers m) sid = Some s"
  shows "sessions_ok (snd (handleWorkerEnvelope J sha newID sid msg now m))"
proof -
  have t: "sessions_ok (snd (try_db f m))" for f
    using assms(1) by (simp add: try_db_def split: sum.split)
  have r: "sessions_ok (snd (thenReplan J newID now r))" if "sessions_ok (snd r)" for r
    using that by (auto simp: thenReplan_def sessions_ok_replan split: prod.split option.split)
  have h: "sessions_ok (snd (handleWorkerHeartbeat sid now m))" "sessions_ok (snd (handleWorkerTelemetry J newID sid msg now m))"
    using assms(1) by (simp_all add: handleWorkerHeartbeat_def handleWorkerTelemetry_def Let_def split: sum.split)
  have tok: "sessions_ok (snd (handleToken newID nid p now m))" for nid p
    using assms(1) sessions_ok_cong [of "m\<lparr>Mgr_db := db, Mgr_streams := st\<rparr>" m for db st]
    by (simp add: handleToken_def sessions_ok_streams split: option.split sum.split)
  have f: "sessions_ok (snd (handleAttemptFailed newID nid p now m))" "sessions_ok (snd (handleComputeReport J newID nid rep now m))"
    for nid p rep
    using assms(1) by (auto simp: handleAttemptFailed_def handleComputeReport_def sessions_ok_streams intro!: sessions_ok_replan
        split: sum.split prod.split)
  have "sessions_ok (snd (handleWorkerHello J sha newID sid msg now m))" "sessions_ok (snd (handleWorkerFullState J sha newID sid msg now m))"
    using assms(1) sessions_ok_upsert [OF assms] by (simp_all add: handleWorkerHello_def handleWorkerFullState_def split: sum.split)
  moreover have "sessions_ok (snd (handleWorkerToken J newID sid msg now m))"
    "sessions_ok (snd (handleWorkerAttemptFailed J newID sid msg now m))"
    "sessions_ok (snd (handleWorkerComputeReport J newID sid msg now m))"
    "sessions_ok (snd (handleWorkerAttemptStarted sid msg m))" "sessions_ok (snd (handleWorkerAttemptLease sid msg now m))"
    using assms(1) tok f t by (simp_all add: handleWorkerToken_def handleWorkerAttemptFailed_def handleWorkerComputeReport_def
        handleWorkerAttemptStarted_def handleWorkerAttemptLease_def split: sum.split)
  moreover have "sessions_ok (snd (handleWorkerSlotState J newID sid msg now m))"
    "sessions_ok (snd (handleWorkerArtifactState J newID sid msg now m))"
    using assms(1) by (auto simp: handleWorkerSlotState_def handleWorkerArtifactState_def intro!: r t split: sum.split)
  ultimately show ?thesis
    using assms(1) h by (simp add: handleWorkerEnvelope_def Let_def split: option.split)
qed

end
