(* ===== verification/Dispatch_Properties.thy ===== *)
theory Dispatch_Properties
  imports Manager_Invariants
begin

section \<open>Properties of scheduling\<close>

text \<open>
  The slot that a task gets is an eligible one, the best by failures and idle time, and one
  is found whenever there is one; an attempt on it is dispatched completely or undone; a
  round of the scheduler makes progress.
\<close>

subsection \<open>The choice of a slot\<close>

text \<open>
  The specification of the choice: \<open>eligible m profile taskID slot effective\<close> says that the
  stored slot may run the task with the effective profile. It is warm for this very
  profile, idle and open, on a healthy node that a session serves, and the task has not
  failed on it.
\<close>

definition eligible :: "Manager \<Rightarrow> WorkloadProfile \<Rightarrow> string \<Rightarrow> Slot \<Rightarrow> WorkloadProfile \<Rightarrow> bool" where
  "eligible m profile taskID slot effective \<longleftrightarrow>
     (let db = cloneDatabase (Mgr_db m); node = mget zero_Node (Nodes db) (Slot_NodeID slot) in
      slot \<in> set (mvals (Slots (Mgr_db m))) \<and>
      Slot_State slot = SlotStateReady \<and> Slot_ActiveTaskID slot = [] \<and> Slot_AcceptsNew slot \<and> \<not> Slot_Quarantined slot \<and>
      Slot_ID slot \<notin> set (failedSlotsForTask db taskID) \<and>
      Node_State node = NodeStateOnline \<and> Node_Approved node \<and> \<not> Node_Quarantined node \<and>
      sessionFor m (Slot_NodeID slot) \<noteq> None \<and>
      effective \<in> set (map (EffectiveProfileForVariant profile) (ProfileRuntimeVariants profile)) \<and>
      Fit_Fits (FitProfileToSlot effective node slot) \<and> slotProfileCurrent slot (Profile_ID profile) effective)"

lemma set_variantCandidates:
  "set (variantCandidates profile node slot) =
     {\<lparr>Cand_slot = slot, Cand_node = node, Cand_profile = zero_WorkloadProfile, Cand_effective = e,
       Cand_fit = FitProfileToSlot e node slot\<rparr> | e.
       e \<in> set (map (EffectiveProfileForVariant profile) (ProfileRuntimeVariants profile)) \<and>
       Fit_Fits (FitProfileToSlot e node slot) \<and> slotProfileCurrent slot (Profile_ID profile) e}"
  by (auto simp: variantCandidates_def Let_def slotProfileCurrent_def)

lemma mem_readySlotCandidates:
  "c \<in> set (readySlotCandidates db profile failed) \<longleftrightarrow>
     (\<exists>slot \<in> set (mvals (Slots db)). slotReadyForProfile slot (mget zero_Node (Nodes db) (Slot_NodeID slot)) (Profile_ID profile) failed \<and>
        c \<in> set (variantCandidates profile (mget zero_Node (Nodes db) (Slot_NodeID slot)) slot))"
  by (auto simp: readySlotCandidates_def Let_def split: if_splits)

text \<open>The candidates whose node a session serves are the eligible slots.\<close>

lemma readySlotCandidates_eligible:
  "(\<exists>c \<in> set (readySlotCandidates (cloneDatabase (Mgr_db m)) profile (failedSlotsForTask (cloneDatabase (Mgr_db m)) taskID)).
      sessionFor m (Slot_NodeID (Cand_slot c)) \<noteq> None \<and> Cand_slot c = slot \<and> Cand_effective c = effective) \<longleftrightarrow>
   eligible m profile taskID slot effective" (is "?l \<longleftrightarrow> ?r")
proof
  assume ?l
  then show ?r
    by (auto simp: mem_readySlotCandidates set_variantCandidates eligible_def slotReadyForProfile_def Let_def
        simp del: FitProfileToSlot_effective split: if_splits)
next
  let ?db = "cloneDatabase (Mgr_db m)"
  let ?node = "mget zero_Node (Nodes ?db) (Slot_NodeID slot)"
  assume ?r
  then have "slot \<in> set (mvals (Slots ?db))"
      "slotReadyForProfile slot ?node (Profile_ID profile) (failedSlotsForTask ?db taskID)"
      "sessionFor m (Slot_NodeID slot) \<noteq> None"
      "\<lparr>Cand_slot = slot, Cand_node = ?node, Cand_profile = zero_WorkloadProfile, Cand_effective = effective,
        Cand_fit = FitProfileToSlot effective ?node slot\<rparr> \<in> set (variantCandidates profile ?node slot)"
    by (auto simp: eligible_def Let_def slotReadyForProfile_def set_variantCandidates slotProfileCurrent_def
        simp del: FitProfileToSlot_effective)
  then show ?l
    unfolding mem_readySlotCandidates by (intro bexI [rotated]) (auto simp: mem_readySlotCandidates)
qed

lemma pickReadySlot_None:
  "pickReadySlot m cs = None \<longleftrightarrow> (\<forall>c \<in> set cs. sessionFor m (Slot_NodeID (Cand_slot c)) = None)"
  by (auto simp: pickReadySlot_def filter_empty_conv split: list.splits dest: filter_eq_ConsD)

lemma pickReadySlot_Some:
  assumes "pickReadySlot m cs = Some (c, s)"
  shows "\<exists>rest. filter (\<lambda>c. sessionFor m (Slot_NodeID (Cand_slot c)) \<noteq> None) cs = c # rest"
    and "sessionFor m (Slot_NodeID (Cand_slot c)) = Some s"
  using assms by (auto simp: pickReadySlot_def split: list.splits)

lemma pickReadySlot_mem: "pickReadySlot m cs = Some (c, s) \<Longrightarrow> c \<in> set cs"
  using pickReadySlot_Some(1) [of m cs c s] by (auto dest!: filter_eq_ConsD)

text \<open>The first candidate that a session serves is a least one among those.\<close>

lemma pickReadySlot_least:
  assumes "pickReadySlot m (sortReadySlotCandidates cs) = Some (c, s)" and "d \<in> set cs"
    and "sessionFor m (Slot_NodeID (Cand_slot d)) \<noteq> None"
  shows "\<not> readyLess d c"
proof -
  let ?P = "\<lambda>c. sessionFor m (Slot_NodeID (Cand_slot c)) \<noteq> None"
  obtain rest where f: "filter ?P (sortReadySlotCandidates cs) = c # rest"
    using pickReadySlot_Some(1) [OF assms(1)] by blast
  have "sorted_wrt (\<lambda>x y. \<not> readyLess y x) (c # rest)"
    unfolding f [symmetric] sortReadySlotCandidates_def by (rule sorted_wrt_filter [OF ready_order.sorted_sort_by])
  moreover have "d \<in> set (c # rest)"
    unfolding f [symmetric] using assms(2,3) by (simp add: sortReadySlotCandidates_def)
  ultimately show "\<not> readyLess d c"
    by (auto dest: ready_order.asym)
qed

lemma sorted_candidates_set [simp]: "set (sortReadySlotCandidates cs) = set cs"
  by (simp add: sortReadySlotCandidates_def)

lemma selectReadySlot_eq:
  assumes "selectReadySlot J newID profile taskID now m = (choice, m')"
  obtains cs where
    "choice = map_option (\<lambda>(c, s). (Cand_slot c, Cand_effective c, s)) (pickReadySlot m' (sortReadySlotCandidates cs))"
    "\<forall>slot effective. eligible m' profile taskID slot effective \<longleftrightarrow>
       (\<exists>c \<in> set cs. sessionFor m' (Slot_NodeID (Cand_slot c)) \<noteq> None \<and> Cand_slot c = slot \<and> Cand_effective c = effective)"
proof (rule that)
  let ?db = "cloneDatabase (Mgr_db m')"
  show "choice = map_option (\<lambda>(c, s). (Cand_slot c, Cand_effective c, s)) (pickReadySlot m' (sortReadySlotCandidates
      (readySlotCandidates ?db profile (failedSlotsForTask ?db taskID))))"
    using assms by (auto simp: selectReadySlot_def Let_def)
qed (intro allI readySlotCandidates_eligible [symmetric])

lemma selectReadySlot_None:
  assumes "selectReadySlot J newID profile taskID now m = (None, m')"
  shows "\<not> eligible m' profile taskID slot effective"
  by (rule selectReadySlot_eq [OF assms]) (simp add: pickReadySlot_None)

lemma selectReadySlot_Some:
  assumes "selectReadySlot J newID profile taskID now m = (Some (slot, effective, sess), m')"
  shows "eligible m' profile taskID slot effective" and "sessionFor m' (Slot_NodeID slot) = Some sess"
    and "eligible m' profile taskID slot' effective' \<Longrightarrow>
      \<not> (Slot_FailureCount slot', Slot_LastTaskAt slot') < (Slot_FailureCount slot, Slot_LastTaskAt slot)"
proof -
  obtain cs where cs: "Some (slot, effective, sess) =
      map_option (\<lambda>(c, s). (Cand_slot c, Cand_effective c, s)) (pickReadySlot m' (sortReadySlotCandidates cs))"
    "\<forall>slot effective. eligible m' profile taskID slot effective \<longleftrightarrow>
       (\<exists>c \<in> set cs. sessionFor m' (Slot_NodeID (Cand_slot c)) \<noteq> None \<and> Cand_slot c = slot \<and> Cand_effective c = effective)"
    by (rule selectReadySlot_eq [OF assms])
  then obtain c where c: "pickReadySlot m' (sortReadySlotCandidates cs) = Some (c, sess)" "Cand_slot c = slot" "Cand_effective c = effective"
    by (cases "pickReadySlot m' (sortReadySlotCandidates cs)") auto
  show "sessionFor m' (Slot_NodeID slot) = Some sess"
    using pickReadySlot_Some(2) [OF c(1)] c(2) by simp
  with c pickReadySlot_mem [OF c(1)] show "eligible m' profile taskID slot effective"
    unfolding cs(2) [rule_format] by auto
  show "\<not> (Slot_FailureCount slot', Slot_LastTaskAt slot') < (Slot_FailureCount slot, Slot_LastTaskAt slot)"
    if "eligible m' profile taskID slot' effective'"
    using that pickReadySlot_least [OF c(1)] c(2) unfolding cs(2) [rule_format] by (auto simp: ready_order.less_key)
qed

text \<open>C28: the scheduler's choice is sound, complete and best. After the maintenance of the
  round, a slot is chosen exactly when there is an eligible one; the chosen slot and
  effective profile are eligible, the session is the one that serves the slot's node, and
  no eligible slot has failed less often or, with as many failures, been idle for longer.\<close>

theorem selectReadySlot_best:
  "case selectReadySlot J newID profile taskID now m of
     (None, m') \<Rightarrow> (\<nexists>slot effective. eligible m' profile taskID slot effective)
   | (Some (slot, effective, sess), m') \<Rightarrow>
       eligible m' profile taskID slot effective \<and> sessionFor m' (Slot_NodeID slot) = Some sess \<and>
       (\<nexists>slot' effective'. eligible m' profile taskID slot' effective' \<and>
          (Slot_FailureCount slot', Slot_LastTaskAt slot') < (Slot_FailureCount slot, Slot_LastTaskAt slot))"
  by (auto split: prod.split option.split dest: selectReadySlot_None selectReadySlot_Some)

subsection \<open>Attempts\<close>

lemma reserve_fresh:
  assumes "db_ok db" and "eligible m profile taskID slot effective" and "Mgr_db m = db" and "Task_ID task = taskID"
    and "Task_Status (mget zero_Task (Tasks db) taskID) = TaskStatusQueued"
  shows "\<exists>db'. reserveAttemptInDB newID task profile effective slot attempt now db = Inr db'"
proof -
  have "slot \<in> set (mvals (Slots db))"
    using assms(2,3) by (simp add: eligible_def Let_def)
  then have "map_of (Slots db) (Slot_ID slot) = Some slot"
    using keyed_mvals [OF db_ok_tables(2) [OF assms(1)]] by blast
  then show ?thesis
    using assms(2-5) by (simp add: reserveAttemptInDB_def Let_def mget_SomeD eligible_def slotProfileCurrent_def)
qed

lemma enqueueSession_cases:
  assumes "map_of (Mgr_workers m) sid = Some s"
  obtains (sent) "enqueueSession newID sid msg m = (True, m\<lparr>Mgr_workers := mput sid
      (s\<lparr>Session_send := Session_send s @ [msg\<lparr>Env_ID := newID ''msg'' (length (Session_send s))\<rparr>]\<rparr>) (Mgr_workers m)\<rparr>)"
  | (refused) "fst (enqueueSession newID sid msg m) = False" "Session_done s \<or> sendCapacity \<le> length (Session_send s)"
proof (cases "Session_done s \<and> (Mgr_pickDone m \<or> length (Session_send s) \<ge> sendCapacity) \<or> sendCapacity \<le> length (Session_send s)")
  case True
  then show ?thesis
    by (intro refused) (use assms in \<open>auto simp: enqueueSession_def enqueue_def Let_def\<close>)
next
  case False
  then show ?thesis
    by (intro sent) (use assms in \<open>auto simp: enqueueSession_def enqueue_def Let_def\<close>)
qed

text \<open>An attempt that could not be sent is undone: the task is back in the queue and avoids the slot.\<close>

lemma markAttemptFailed_retry:
  assumes "db_ok db" and "map_of (Attempts db) aid = Some a" and "map_of (Slots db) (Attempt_SlotID a) = Some s"
    and "map_of (Tasks db) (Attempt_TaskID a) = Some t"
    and "db' = markAttemptFailed newID cfg aid phase reason True False now db"
  shows "Task_Status (mget zero_Task (Tasks db') (Attempt_TaskID a)) = TaskStatusQueued \<and>
    Attempt_SlotID a \<in> set (failedSlotsForTask db' (Attempt_TaskID a)) \<and>
    Attempt_Status (mget zero_Attempt (Attempts db') aid) = TaskStatusFailed \<and>
    Slot_ActiveTaskID (mget zero_Slot (Slots db') (Attempt_SlotID a)) = []"
proof -
  define a' where "a' = a\<lparr>Attempt_Status := TaskStatusFailed, Attempt_Phase := phase, Attempt_FailureReason := reason,
    Attempt_CanRetry := True, Attempt_FirstOutputSent := False, Attempt_CompletedAt := Some now\<rparr>"
  have att: "Attempts db' = mput aid a' (Attempts db)"
    using assms(2) by (simp add: assms(5) markAttemptFailed_def Let_def split_beta mget_SomeD a'_def)
  have "map_of (Attempts db') aid = Some a'"
    by (simp add: att)
  then have "a' \<in> set (mvals (Attempts db'))"
    by (auto simp: set_mvals dest: map_of_SomeD)
  moreover have "Attempt_SlotID a' = Attempt_SlotID a" "Attempt_TaskID a' = Attempt_TaskID a" "Attempt_Status a' = TaskStatusFailed"
    by (simp_all add: a'_def)
  ultimately have "Attempt_SlotID a \<in> set (failedSlotsForTask db' (Attempt_TaskID a))"
    by (auto simp: failedSlotsForTask_def image_iff intro!: bexI [of _ a'])
  moreover have "Task_Status (mget zero_Task (Tasks db') (Attempt_TaskID a)) = TaskStatusQueued"
    "Slot_ActiveTaskID (mget zero_Slot (Slots db') (Attempt_SlotID a)) = []"
    using assms(2-4) keyed_lookup [OF db_ok_tables(2) [OF assms(1)] assms(3)]
      keyed_lookup [OF db_ok_tables(3) [OF assms(1)] assms(4)]
    by (simp_all add: assms(5) markAttemptFailed_def Let_def split_beta mget_SomeD)
  ultimately show ?thesis
    by (simp add: att a'_def)
qed

text \<open>
  An attempt is dispatched completely or not at all: if the slot cannot be reserved, nothing
  has changed; if the session does not take the message, the attempt is undone.
\<close>

lemma beginAttempt_all_or_nothing:
  assumes "db_ok (Mgr_db m)" and "map_of (Mgr_workers m) (Session_id sess) = Some sess"
    and "beginAttempt J newID task profile effective slot sess messages maxTokens temperature now m = (result, m')"
  defines "attempt \<equiv> newAttempt newID task profile effective slot now (Mgr_db m)"
  shows "case result of
      Inl (BeginReserve e) \<Rightarrow> m' = m
    | Inr aid \<Rightarrow> aid = Attempt_ID attempt \<and> map_of (Attempts (Mgr_db m')) aid = Some attempt \<and>
        Task_Status (mget zero_Task (Tasks (Mgr_db m')) (Task_ID task)) = TaskStatusRunning \<and>
        Slot_ActiveTaskID (mget zero_Slot (Slots (Mgr_db m')) (Slot_ID slot)) = Task_ID task \<and>
        streamForAttempt m' aid = Some (newActiveAttempt (Task_ID task) aid now) \<and>
        (\<exists>env. map_of (Mgr_workers m') (Session_id sess) = Some (sess\<lparr>Session_send := Session_send sess @ [env]\<rparr>) \<and>
           Env_Type env = MsgExecuteTask \<and> Env_Attempt env = aid \<and> Env_TaskID env = Task_ID task)
    | Inl BeginDisconnected \<Rightarrow> streamForAttempt m' (Attempt_ID attempt) = None \<and>
        (Session_done sess \<or> sendCapacity \<le> length (Session_send sess)) \<and>
        Task_Status (mget zero_Task (Tasks (Mgr_db m')) (Task_ID task)) = TaskStatusQueued \<and>
        Slot_ID slot \<in> set (failedSlotsForTask (Mgr_db m') (Task_ID task)) \<and>
        Attempt_Status (mget zero_Attempt (Attempts (Mgr_db m')) (Attempt_ID attempt)) = TaskStatusFailed \<and>
        Slot_ActiveTaskID (mget zero_Slot (Slots (Mgr_db m')) (Slot_ID slot)) = []"
proof (cases "reserveAttemptInDB newID task profile effective slot attempt now (Mgr_db m)")
  case (Inl e)
  then show ?thesis
    using assms(3) by (auto simp: beginAttempt_def Let_def attempt_def)
next
  case (Inr db)
  define aid where "aid = Attempt_ID attempt"
  have at: "Attempt_SlotID attempt = Slot_ID slot" "Attempt_TaskID attempt = Task_ID task"
    by (simp_all add: attempt_def newAttempt_def)
  have ok: "db_ok db"
    using db_ok_reserve [OF assms(1) Inr] .
  obtain current stored where res: "map_of (Slots db) (Slot_ID slot) = Some current" "Slot_ActiveTaskID current = Task_ID task"
      "map_of (Tasks db) (Task_ID task) = Some stored" "Task_Status stored = TaskStatusRunning"
      "map_of (Attempts db) aid = Some attempt"
    using Inr by (auto elim!: reserve_Inr [OF db_ok_tables(2,3) [OF assms(1)]] simp: aid_def)
  define m1 where "m1 = registerStream aid (newActiveAttempt (Task_ID task) aid now) (m\<lparr>Mgr_db := db\<rparr>)"
  have m1: "map_of (Mgr_workers m1) (Session_id sess) = Some sess" "Mgr_db m1 = db"
    using assms(2) by (simp_all add: m1_def registerStream_def)
  obtain env where env: "dispatchAttempt J newID sess task effective slot attempt messages maxTokens temperature now m1 =
      enqueueSession newID (Session_id sess) env m1" "Env_Type env = MsgExecuteTask" "Env_Attempt env = aid" "Env_TaskID env = Task_ID task"
    by (simp add: dispatchAttempt_def aid_def)
  obtain sent m2 where d: "enqueueSession newID (Session_id sess) env m1 = (sent, m2)"
    by fastforce
  have r: "(result, m') = (if sent then (Inr aid, m2) else (Inl BeginDisconnected, update_db (markAttemptFailed newID (Mgr_cfg m2) aid
      ''dispatch'' FailureWorkerDisconnected True False now) (unregisterStream aid m2)))"
    using assms(3) Inr env(1) d
    by (auto simp: beginAttempt_def Let_def attempt_def [symmetric] aid_def m1_def split: if_splits)
  show ?thesis
  proof (cases sent)
    case True
    have m2: "m2 = m1\<lparr>Mgr_workers := mput (Session_id sess) (sess\<lparr>Session_send := Session_send sess @
        [env\<lparr>Env_ID := newID ''msg'' (length (Session_send sess))\<rparr>]\<rparr>) (Mgr_workers m1)\<rparr>"
      using True d by (cases rule: enqueueSession_cases [OF m1(1), of newID env]) auto
    have "streamForAttempt m2 aid = Some (newActiveAttempt (Task_ID task) aid now)"
      by (simp add: m2 m1_def registerStream_def streamForAttempt_def)
    with True r m2 m1 env(2-4) res show ?thesis
      by (auto simp: aid_def mget_SomeD)
  next
    case False
    have full: "Session_done sess \<or> sendCapacity \<le> length (Session_send sess)"
      using False d by (cases rule: enqueueSession_cases [OF m1(1), of newID env]) auto
    have "Mgr_db m2 = db"
      using d m1(2) by (metis enqueueSession_sel(1) snd_conv)
    then show ?thesis
      using False r full markAttemptFailed_retry [OF ok res(5), of current stored] res
      by (simp add: aid_def [symmetric] at unregisterStream_def streamForAttempt_def)
  qed
qed

subsection \<open>A round of the scheduler\<close>

text \<open>C29: a round of the scheduler makes progress. For a task that is queued, with \<open>m'\<close> the manager
  after the maintenance of the round: if some slot is eligible, an attempt on an eligible slot
  is started completely (it is stored, the task is running, the slot serves the task, a stream
  waits for its events and the message that carries it is the last one queued for the session
  of the slot's node) or, when the session is closed or its queue is full, the task is queued
  again and avoids that slot; the slot cannot turn out to be taken. If none is eligible, the task is failed
  for lack of capacity when the deadline has passed, and otherwise nothing changes and the scheduler
  polls again.\<close>

theorem startAttempt_progress:
  assumes "db_ok (Mgr_db m)" and "sessions_ok m"
    and "\<not> taskIsCancelled (Mgr_db m) (Task_ID task)"
    and "selectReadySlot J newID profile (Task_ID task) now m = (choice, m')"
    and "Task_Status (mget zero_Task (Tasks (Mgr_db m')) (Task_ID task)) = TaskStatusQueued"
    and "startAttempt J newID False deadline task profile messages maxTokens temperature now m = (result, m2)"
  shows "case result of
      Started aid \<Rightarrow> (\<exists>slot effective sess env. eligible m' profile (Task_ID task) slot effective \<and>
        map_of (Attempts (Mgr_db m2)) aid = Some (newAttempt newID task profile effective slot now (Mgr_db m')) \<and>
        Task_Status (mget zero_Task (Tasks (Mgr_db m2)) (Task_ID task)) = TaskStatusRunning \<and>
        Slot_ActiveTaskID (mget zero_Slot (Slots (Mgr_db m2)) (Slot_ID slot)) = Task_ID task \<and>
        streamForAttempt m2 aid = Some (newActiveAttempt (Task_ID task) aid now) \<and>
        sessionFor m' (Slot_NodeID slot) = Some sess \<and> Session_nodeID sess = Slot_NodeID slot \<and>
        map_of (Mgr_workers m2) (Session_id sess) = Some (sess\<lparr>Session_send := Session_send sess @ [env]\<rparr>) \<and>
        Env_Type env = MsgExecuteTask \<and> Env_Attempt env = aid \<and> Env_TaskID env = Task_ID task)
    | StartFailed e \<Rightarrow> e = BeginDisconnected \<and>
        (\<exists>slot effective sess. eligible m' profile (Task_ID task) slot effective \<and>
           sessionFor m' (Slot_NodeID slot) = Some sess \<and> (Session_done sess \<or> sendCapacity \<le> length (Session_send sess)) \<and>
           Slot_ID slot \<in> set (failedSlotsForTask (Mgr_db m2) (Task_ID task))) \<and>
        Task_Status (mget zero_Task (Tasks (Mgr_db m2)) (Task_ID task)) = TaskStatusQueued
    | NoCapacity \<Rightarrow> (\<nexists>slot effective. eligible m' profile (Task_ID task) slot effective) \<and> deadline < now \<and>
        Task_Status (mget zero_Task (Tasks (Mgr_db m2)) (Task_ID task)) = TaskStatusFailed
    | PollAgain \<Rightarrow> (\<nexists>slot effective. eligible m' profile (Task_ID task) slot effective) \<and> now \<le> deadline \<and> m2 = m'
    | StartCancelled \<Rightarrow> False"
proof -
  have ok: "db_ok (Mgr_db m')" "sessions_ok m'"
    using db_inv.D_select [OF assms(1)] sessions_ok_select [OF assms(2)] assms(4) by (metis snd_conv)+
  have run: "(result, m2) = (case choice of
      Some (slot, effective, sess) \<Rightarrow>
        (case beginAttempt J newID task profile effective slot sess messages maxTokens temperature now m' of
           (Inr aid, m2) \<Rightarrow> (Started aid, m2)
         | (Inl (BeginReserve SlotUnavailable), m2) \<Rightarrow> (PollAgain, m2)
         | (Inl e, m2) \<Rightarrow> (StartFailed e, m2))
    | None \<Rightarrow> if deadline < now then (NoCapacity, update_db (failTask (Task_ID task) FailureNoCapacity now) m') else (PollAgain, m'))"
    using assms(3,4,6) by (simp add: startAttempt_def taskIsCancelled_def split: option.split)
  show ?thesis
  proof (cases choice)
    case None
    then show ?thesis
      using run assms(5) selectReadySlot_None [OF assms(4) [unfolded None]]
      by (auto simp: failTask_def taskFinal_def Let_def split: if_splits)
  next
    case (Some c)
    obtain slot effective sess where c: "c = (slot, effective, sess)" by (metis surj_pair)
    note chosen = selectReadySlot_Some [OF assms(4) [unfolded Some c]]
    note sess = sessions_okD [OF ok(2) chosen(2)]
    obtain r n where b: "beginAttempt J newID task profile effective slot sess messages maxTokens temperature now m' = (r, n)"
      by fastforce
    have "\<exists>db'. reserveAttemptInDB newID task profile effective slot (newAttempt newID task profile effective slot now (Mgr_db m')) now
        (Mgr_db m') = Inr db'"
      by (rule reserve_fresh [OF ok(1) chosen(1) refl refl assms(5)])
    then have "r \<noteq> Inl (BeginReserve e)" for e
      using b by (auto simp: beginAttempt_def Let_def split: prod.splits if_splits)
    then show ?thesis
      using run b chosen sess(2) beginAttempt_all_or_nothing [OF ok(1) sess(1) b] unfolding Some c
      by (auto split: sum.splits begin_error.splits)
  qed
qed

definition sample_queued_manager :: Manager where
  "sample_queued_manager = sample_manager\<lparr>Mgr_db := sample_queued_db\<lparr>Users := []\<rparr>\<rparr>"

theorem startAttempt_progress_witness:
  "\<exists>m2. startAttempt sample_codec (\<lambda>_ _. ''x'') False 0 sample_task sample_profile [] 1 0 5 sample_queued_manager = (Started ''x'', m2) \<and>
     Task_Status (mget zero_Task (Tasks (Mgr_db m2)) (Task_ID sample_task)) = TaskStatusRunning"
proof -
  let ?sel = "selectReadySlot sample_codec (\<lambda>_ _. ''x'') sample_profile (Task_ID sample_task) 5 sample_queued_manager"
  let ?start = "startAttempt sample_codec (\<lambda>_ _. ''x'') False 0 sample_task sample_profile [] 1 0 5 sample_queued_manager"
  have db: "db_ok (Mgr_db sample_queued_manager)" by code_simp
  have sess: "sessions_ok sample_queued_manager"
    by (auto simp: sessions_ok_def sample_queued_manager_def sample_manager_def keyed_def split: if_splits)
  have open_task: "\<not> taskIsCancelled (Mgr_db sample_queued_manager) (Task_ID sample_task)" by code_simp
  have queued: "Task_Status (mget zero_Task (Tasks (Mgr_db (snd ?sel))) (Task_ID sample_task)) = TaskStatusQueued" by code_simp
  have started: "fst ?start = Started ''x''" by code_simp
  have run: "?start = (Started ''x'', snd ?start)" by (metis started prod.collapse)
  show ?thesis
    using startAttempt_progress [OF db sess open_task surjective_pairing queued run] run
    by (simp only: start_round.case) blast
qed

end
