(* ===== verification/Paths.thy ===== *)
theory Paths
  imports Prelude
begin

section \<open>File names and paths (manager_artifact_admin.go, util.go, path/filepath)\<close>

text \<open>
  The functions of \<^verbatim>\<open>path/filepath\<close> that the code uses, for Unix, and the code's own tests and
  transformations of names. \<open>cwd\<close> is the working directory, an absolute path.
\<close>

subsection \<open>path/filepath\<close>

text \<open>The elements of a path, between the slashes.\<close>

fun split_path :: "string \<Rightarrow> string list" where
  "split_path [] = [[]]"
| "split_path (c # cs) =
     (if c = CHR ''/'' then [] # split_path cs
      else case split_path cs of [] \<Rightarrow> [[c]] | e # es \<Rightarrow> (c # e) # es)"

definition clean_step :: "bool \<Rightarrow> string list \<Rightarrow> string \<Rightarrow> string list" where
  "clean_step rooted st e =
     (if e = [] \<or> e = ''.'' then st
      else if e = ''..'' then
        (if st \<noteq> [] \<and> last st \<noteq> ''..'' then butlast st else if rooted then st else st @ [''..''])
      else st @ [e])"

definition path_elems :: "string \<Rightarrow> string list" where
  "path_elems p = foldl (clean_step (HasPrefix p ''/'')) [] (split_path p)"

definition Clean :: "string \<Rightarrow> string" where
  "Clean p =
     (if HasPrefix p ''/'' then CHR ''/'' # Join (path_elems p) ''/''
      else if path_elems p = [] then ''.'' else Join (path_elems p) ''/'')"

definition JoinPath :: "string \<Rightarrow> string \<Rightarrow> string" where
  "JoinPath a b = (if a = [] \<and> b = [] then [] else if a = [] then Clean b else if b = [] then Clean a else Clean (a @ ''/'' @ b))"

definition Abs :: "string \<Rightarrow> string \<Rightarrow> string" where
  "Abs cwd p = (if HasPrefix p ''/'' then Clean p else JoinPath cwd p)"

fun strip_common :: "string list \<Rightarrow> string list \<Rightarrow> string list \<times> string list" where
  "strip_common (x # xs) (y # ys) = (if x = y then strip_common xs ys else (x # xs, y # ys))"
| "strip_common xs ys = (xs, ys)"

text \<open>\<^verbatim>\<open>filepath.Rel\<close> of two absolute paths, which cannot fail.\<close>

definition Rel :: "string \<Rightarrow> string \<Rightarrow> string" where
  "Rel base targ =
     (case strip_common (path_elems base) (path_elems targ) of
        (up, down) \<Rightarrow> (let es = map (\<lambda>_. ''..'') up @ down in if es = [] then ''.'' else Join es ''/''))"

definition dropTrailingSlashes :: "string \<Rightarrow> string" where
  "dropTrailingSlashes s = rev (dropWhile (\<lambda>c. c = CHR ''/'') (rev s))"

definition Base :: "string \<Rightarrow> string" where
  "Base p = (if p = [] then ''.''
     else (let q = dropTrailingSlashes p; b = rev (takeWhile (\<lambda>c. c \<noteq> CHR ''/'') (rev q)) in if b = [] then ''/'' else b))"

definition Dir :: "string \<Rightarrow> string" where
  "Dir p = Clean (rev (dropWhile (\<lambda>c. c \<noteq> CHR ''/'') (rev p)))"

subsection \<open>The code's own functions\<close>

definition pathInsideDir :: "string \<Rightarrow> string \<Rightarrow> string \<Rightarrow> bool" where
  "pathInsideDir cwd path dir \<longleftrightarrow>
     (let rel = Rel (Abs cwd dir) (Abs cwd path) in rel \<noteq> ''.'' \<and> \<not> HasPrefix rel ''../'' \<and> rel \<noteq> ''..'')"

definition SafeJoin :: "string \<Rightarrow> string \<Rightarrow> string \<Rightarrow> string option" where
  "SafeJoin cwd root rel =
     (let rootAbs = Abs cwd root; joinedAbs = Abs cwd (JoinPath rootAbs (Clean rel)) in
      if joinedAbs \<noteq> rootAbs \<and> \<not> HasPrefix joinedAbs (rootAbs @ ''/'') then None else Some joinedAbs)"

text \<open>
  \<^verbatim>\<open>strings.Map\<close> works on the runes of a string. \<open>rune_len\<close> is the number of bytes of the first
  rune, as \<^verbatim>\<open>utf8.DecodeRune\<close> decides it: a byte that starts no valid sequence is a rune by itself.
\<close>

definition continuation :: "nat \<Rightarrow> nat \<Rightarrow> nat list \<Rightarrow> bool" where
  "continuation lo hi bs \<longleftrightarrow> (case bs of [] \<Rightarrow> False | b # rest \<Rightarrow> lo \<le> b \<and> b \<le> hi \<and> list_all (\<lambda>c. 128 \<le> c \<and> c \<le> 191) rest)"

definition rune_len :: "nat list \<Rightarrow> nat" where
  "rune_len bs =
     (case bs of
        [] \<Rightarrow> 0
      | b # rest \<Rightarrow>
          if 194 \<le> b \<and> b \<le> 223 \<and> length rest \<ge> 1 \<and> continuation 128 191 (take 1 rest) then 2
          else if 224 \<le> b \<and> b \<le> 239 \<and> length rest \<ge> 2 \<and>
            continuation (if b = 224 then 160 else 128) (if b = 237 then 159 else 191) (take 2 rest) then 3
          else if 240 \<le> b \<and> b \<le> 244 \<and> length rest \<ge> 3 \<and>
            continuation (if b = 240 then 144 else 128) (if b = 244 then 143 else 191) (take 3 rest) then 4
          else 1)"

definition byte :: "char \<Rightarrow> nat" where
  "byte c = of_char c"

definition safe_char :: "char \<Rightarrow> bool" where
  "safe_char c \<longleftrightarrow> (let n = byte c in 97 \<le> n \<and> n \<le> 122 \<or> 65 \<le> n \<and> n \<le> 90 \<or> 48 \<le> n \<and> n \<le> 57) \<or>
     c = CHR ''.'' \<or> c = CHR ''_'' \<or> c = CHR ''-''"

text \<open>Every rune above ASCII becomes an underscore, as every unsafe ASCII character does.\<close>

definition safeUploadRune :: "char \<Rightarrow> char" where
  "safeUploadRune c = (if safe_char c then c else CHR ''_'')"

function mapSafeRunes :: "string \<Rightarrow> string" where
  "mapSafeRunes [] = []"
| "mapSafeRunes (c # cs) = safeUploadRune c # mapSafeRunes (drop (rune_len (map byte (c # cs)) - 1) cs)"
  by pat_completeness auto
termination
  by (relation "measure length") auto

definition trimSafe :: "string \<Rightarrow> string" where
  "trimSafe s = (let t = (\<lambda>c. c = CHR ''.'' \<or> c = CHR ''_'' \<or> c = CHR ''-'') in rev (dropWhile t (rev (dropWhile t s))))"

definition safeUploadFileName :: "string \<Rightarrow> string" where
  "safeUploadFileName name =
     (let base0 = Base name;
          base = (if base0 = ''.'' \<or> base0 = ''/'' \<or> base0 = [] then ''artifact'' else base0);
          clean = trimSafe (mapSafeRunes base)
      in if clean = [] then ''artifact'' else clean)"

definition uploadArtifactName :: "string \<Rightarrow> string \<Rightarrow> string" where
  "uploadArtifactName explicit filename = (if explicit \<noteq> [] then safeUploadFileName explicit else safeUploadFileName filename)"

definition TrimSHAPrefix :: "string \<Rightarrow> string" where
  "TrimSHAPrefix s = (if HasPrefix s ''sha256:'' then drop 7 s else s)"

definition artifactStorageName :: "string \<Rightarrow> string \<Rightarrow> string" where
  "artifactStorageName sha name = TrimSHAPrefix sha @ ''-'' @ safeUploadFileName name"

definition HasSuffix :: "string \<Rightarrow> string \<Rightarrow> bool" where
  "HasSuffix s suffix \<longleftrightarrow> HasPrefix (rev s) (rev suffix)"

definition inferArtifactKind :: "string \<Rightarrow> string" where
  "inferArtifactKind name =
     (let lower = ToLower name in
      if ContainsSub lower ''mmproj'' then ''model_mmproj''
      else if HasSuffix lower ''.gguf'' then ''model_gguf'' else ''model_support'')"

definition strconvQuote :: "string \<Rightarrow> string" where
  "strconvQuote s = CHR 0x22 # map (\<lambda>c. if c = CHR 0x5C \<or> c = CHR 0x22 then CHR ''_'' else c) s @ [CHR 0x22]"

subsection \<open>Elements of clean paths\<close>

definition plain_elem :: "string \<Rightarrow> bool" where
  "plain_elem e \<longleftrightarrow> e \<noteq> [] \<and> e \<noteq> ''.'' \<and> e \<noteq> ''..'' \<and> CHR ''/'' \<notin> set e"

lemma split_path_nonempty [simp]: "split_path p \<noteq> []"
  by (induction p) (auto split: list.split)

lemma split_path_no_slash: "e \<in> set (split_path p) \<Longrightarrow> CHR ''/'' \<notin> set e"
  by (induction p arbitrary: e) (auto split: list.splits if_splits)

lemma split_path_plain: "CHR ''/'' \<notin> set e \<Longrightarrow> split_path e = [e]"
  by (induction e) auto

lemma split_path_append: "CHR ''/'' \<notin> set e \<Longrightarrow> split_path (e @ CHR ''/'' # p) = e # split_path p"
  by (induction e) auto

lemma split_path_Join:
  "es \<noteq> [] \<Longrightarrow> list_all (\<lambda>e. CHR ''/'' \<notin> set e) es \<Longrightarrow> split_path (Join es ''/'') = es"
  by (induction es "''/'' :: string" rule: Join.induct) (auto simp: split_path_plain split_path_append)

lemma clean_step_rooted:
  "list_all plain_elem st \<Longrightarrow> CHR ''/'' \<notin> set e \<Longrightarrow> list_all plain_elem (clean_step True st e)"
  by (auto simp: clean_step_def plain_elem_def list_all_iff dest: in_set_butlastD)

lemma path_elems_plain:
  assumes "HasPrefix p ''/''"
  shows "list_all plain_elem (path_elems p)"
proof -
  have "list_all plain_elem (foldl (clean_step True) st es)" if "list_all plain_elem st" "\<forall>e \<in> set es. CHR ''/'' \<notin> set e" for st es
    using that by (induction es arbitrary: st) (auto simp: clean_step_rooted)
  then show ?thesis
    using assms split_path_no_slash [of _ p] by (simp add: path_elems_def)
qed

lemma foldl_clean_plain: "list_all plain_elem es \<Longrightarrow> foldl (clean_step r) st es = st @ es"
  by (induction es arbitrary: st) (auto simp: clean_step_def plain_elem_def)

text \<open>Cleaning keeps the elements of a rooted path.\<close>

lemma path_elems_slash:
  assumes "list_all plain_elem es"
  shows "path_elems (CHR ''/'' # Join es ''/'') = es"
proof (cases "es = []")
  case True
  then show ?thesis by (simp add: path_elems_def clean_step_def)
next
  case False
  then have "split_path (Join es ''/'') = es"
    using assms by (intro split_path_Join) (auto simp: plain_elem_def list_all_iff)
  then show ?thesis
    using assms by (simp add: path_elems_def foldl_clean_plain) (simp add: clean_step_def foldl_clean_plain)
qed

lemma path_elems_Clean: "HasPrefix p ''/'' \<Longrightarrow> path_elems (Clean p) = path_elems p"
  using path_elems_slash [OF path_elems_plain, of p] by (simp add: Clean_def)

definition rooted_at :: "string \<Rightarrow> string \<Rightarrow> string" where
  "rooted_at cwd p = (if HasPrefix p ''/'' then p else cwd @ ''/'' @ p)"

lemma HasPrefix_slash: "HasPrefix p ''/'' \<longleftrightarrow> p \<noteq> [] \<and> hd p = CHR ''/''"
  by (cases p) (auto simp: HasPrefix_def)

lemma rooted_at_rooted: "HasPrefix cwd ''/'' \<Longrightarrow> HasPrefix (rooted_at cwd p) ''/''"
  by (auto simp: rooted_at_def HasPrefix_slash)

lemma path_elems_trailing: "path_elems (p @ ''/'') = path_elems p" if "p \<noteq> []"
proof -
  have "split_path (p @ ''/'') = split_path p @ [[]]"
    by (induction p) (auto split: list.split)
  with that show ?thesis
    by (auto simp: path_elems_def HasPrefix_slash clean_step_def)
qed

lemma path_elems_Abs:
  assumes "HasPrefix cwd ''/''"
  shows "path_elems (Abs cwd p) = path_elems (rooted_at cwd p)" and "HasPrefix (Abs cwd p) ''/''"
proof -
  have cwd: "cwd \<noteq> []" using assms by (auto simp: HasPrefix_slash)
  have r: "HasPrefix (cwd @ ''/'' @ p) ''/''" using assms cwd by (simp add: HasPrefix_slash)
  show "path_elems (Abs cwd p) = path_elems (rooted_at cwd p)"
    using assms cwd r path_elems_Clean [of p] path_elems_Clean [of cwd] path_elems_Clean [OF r] path_elems_trailing [OF cwd]
    by (auto simp: Abs_def JoinPath_def rooted_at_def)
  show "HasPrefix (Abs cwd p) ''/''"
    using assms cwd r by (auto simp: Abs_def JoinPath_def Clean_def HasPrefix_slash)
qed

subsection \<open>Relative paths\<close>

lemma strip_common_split:
  "strip_common xs ys = (up, down) \<Longrightarrow> \<exists>pre. xs = pre @ up \<and> ys = pre @ down \<and> (up = [] \<or> down = [] \<or> hd up \<noteq> hd down)"
proof (induction xs ys rule: strip_common.induct)
  case (1 x xs y ys)
  show ?case
  proof (cases "x = y")
    case True
    with 1 obtain pre where "xs = pre @ up" "ys = pre @ down" "up = [] \<or> down = [] \<or> hd up \<noteq> hd down" by auto
    with True show ?thesis by (intro exI [of _ "x # pre"]) auto
  next
    case False
    with 1 show ?thesis by auto
  qed
qed auto

lemma strip_common_prefix: "fst (strip_common xs ys) = [] \<longleftrightarrow> (\<exists>rest. ys = xs @ rest \<and> snd (strip_common xs ys) = rest)"
  by (induction xs ys rule: strip_common.induct) auto

text \<open>The test of the code on the relative path: it stays inside when it starts with a plain element.\<close>

lemma rel_test_inside:
  assumes "list_all plain_elem down" and "down \<noteq> []"
  shows "Join down ''/'' \<noteq> ''.''" "\<not> HasPrefix (Join down ''/'') ''../''" "Join down ''/'' \<noteq> ''..''"
proof -
  obtain e es where d: "down = e # es" using assms(2) by (cases down) auto
  have e: "e \<noteq> []" "e \<noteq> ''.''" "e \<noteq> ''..''" "CHR ''/'' \<notin> set e"
    using assms(1) d by (auto simp: plain_elem_def)
  show "\<not> HasPrefix (Join down ''/'') ''../''"
  proof
    assume h: "HasPrefix (Join down ''/'') ''../''"
    have "takeWhile (\<lambda>c. c \<noteq> CHR ''/'') (Join down ''/'') = e"
      using e(4) by (cases es) (auto simp: d takeWhile_eq_all_conv takeWhile_append)
    moreover obtain r where "Join down ''/'' = ''../'' @ r"
      using h by (metis HasPrefix_def append_take_drop_id)
    ultimately show False using e(3) by simp
  qed
  show "Join down ''/'' \<noteq> ''.''" "Join down ''/'' \<noteq> ''..''"
    using e by (cases es; auto simp: d append_eq_Cons_conv)+
qed

lemma rel_test_outside:
  assumes "up \<noteq> []"
  shows "HasPrefix (Join (map (\<lambda>_. ''..'') up @ down) ''/'') ''../'' \<or> Join (map (\<lambda>_. ''..'') up @ down) ''/'' = ''..''"
proof -
  obtain u us where "up = u # us" using assms by (cases up) auto
  then show ?thesis
    by (cases "map (\<lambda>_. ''..'') us @ down") (auto simp: HasPrefix_def)
qed

text \<open>A file is managed exactly when it lies strictly below the artifact directory. The test
  that the code makes on the text of the relative path decides whether the elements of the
  directory's absolute path are a proper prefix of those of the file's: no dots or
  doubled slashes in either path, and no sibling whose name starts like the directory's,
  get a file outside the directory deleted.\<close>

theorem pathInsideDir_iff:
  assumes "HasPrefix cwd ''/''"
  shows "pathInsideDir cwd path dir \<longleftrightarrow>
    (\<exists>rest. rest \<noteq> [] \<and> path_elems (rooted_at cwd path) = path_elems (rooted_at cwd dir) @ rest)"
proof -
  obtain up down where sc: "strip_common (path_elems (rooted_at cwd dir)) (path_elems (rooted_at cwd path)) = (up, down)"
    by fastforce
  have rel: "Rel (Abs cwd dir) (Abs cwd path) =
      (if map (\<lambda>_. ''..'') up @ down = [] then ''.'' else Join (map (\<lambda>_. ''..'') up @ down) ''/'')"
    by (simp add: Rel_def path_elems_Abs(1) [OF assms] sc Let_def)
  have "list_all plain_elem (path_elems (rooted_at cwd path))"
    by (rule path_elems_plain [OF rooted_at_rooted [OF assms]])
  then have down: "list_all plain_elem down"
    using strip_common_split [OF sc] by auto
  show ?thesis
  proof (cases "up = []")
    case True
    then have "path_elems (rooted_at cwd path) = path_elems (rooted_at cwd dir) @ down"
      using strip_common_split [OF sc] by auto
    then show ?thesis
      using True rel rel_test_inside [OF down] by (auto simp: pathInsideDir_def Let_def)
  next
    case False
    then have "\<nexists>rest. path_elems (rooted_at cwd path) = path_elems (rooted_at cwd dir) @ rest"
      using strip_common_prefix [of "path_elems (rooted_at cwd dir)" "path_elems (rooted_at cwd path)"] sc
        strip_common_split [OF sc] by auto
    moreover have "\<not> pathInsideDir cwd path dir"
      using False rel rel_test_outside [OF False, of down] by (auto simp: pathInsideDir_def Let_def)
    ultimately show ?thesis by blast
  qed
qed

theorem pathInsideDir_iff_witness:
  "pathInsideDir ''/srv'' ''art/x/../m.gguf'' ''./art/'' \<and> \<not> pathInsideDir ''/srv'' ''/srv/artifacts/m.gguf'' ''art''"
proof -
  have c: "HasPrefix ''/srv'' ''/''" by code_simp
  have i: "path_elems (rooted_at ''/srv'' ''art/x/../m.gguf'') = path_elems (rooted_at ''/srv'' ''./art/'') @ [''m.gguf'']" by code_simp
  have "path_elems (rooted_at ''/srv'' ''/srv/artifacts/m.gguf'') = [''srv'', ''artifacts'', ''m.gguf'']"
    "path_elems (rooted_at ''/srv'' ''art'') = [''srv'', ''art'']" by code_simp+
  then show ?thesis
    using i pathInsideDir_iff [OF c, of "''art/x/../m.gguf''" "''./art/''"]
      pathInsideDir_iff [OF c, of "''/srv/artifacts/m.gguf''" "''art''"] by auto
qed

subsection \<open>Uploaded file names\<close>

definition trimmed_char :: "char \<Rightarrow> bool" where
  "trimmed_char c \<longleftrightarrow> c = CHR ''.'' \<or> c = CHR ''_'' \<or> c = CHR ''-''"

lemma trimSafe_eq: "trimSafe s = rev (dropWhile trimmed_char (rev (dropWhile trimmed_char s)))"
proof -
  have "(\<lambda>c. c = CHR ''.'' \<or> c = CHR ''_'' \<or> c = CHR ''-'') = trimmed_char"
    by (simp add: trimmed_char_def fun_eq_iff)
  then show ?thesis by (simp add: trimSafe_def Let_def)
qed

lemma mapSafeRunes_safe: "list_all safe_char (mapSafeRunes s)"
  by (induction s rule: mapSafeRunes.induct) (auto simp: safeUploadRune_def, simp add: safe_char_def)

lemma safe_char_ascii: "safe_char c \<Longrightarrow> byte c < 128 \<and> c \<noteq> CHR ''/''"
  by (auto simp: safe_char_def byte_def Let_def)

lemma rune_len_ascii: "b < 128 \<Longrightarrow> rune_len (b # bs) = 1"
  by (simp add: rune_len_def)

lemma mapSafeRunes_id: "list_all safe_char s \<Longrightarrow> mapSafeRunes s = s"
  by (induction s) (auto simp: safeUploadRune_def rune_len_ascii dest: safe_char_ascii)

lemma set_trimSafe: "set (trimSafe s) \<subseteq> set s"
  using set_dropWhileD [of _ trimmed_char "rev (dropWhile trimmed_char s)"] set_dropWhileD [of _ trimmed_char s]
  by (fastforce simp: trimSafe_eq)

lemma trimSafe_ends: "trimSafe s = [] \<or> \<not> trimmed_char (hd (trimSafe s)) \<and> \<not> trimmed_char (last (trimSafe s))"
proof -
  define t where "t = dropWhile trimmed_char s"
  define u where "u = dropWhile trimmed_char (rev t)"
  obtain w where "rev t = w @ u"
    unfolding u_def by (metis takeWhile_dropWhile_id)
  then have t: "t = rev u @ rev w"
    by (metis rev_append rev_rev_ident)
  show ?thesis
  proof (cases "u = []")
    case False
    then have "hd (rev u) = hd t" "t \<noteq> []" by (simp_all add: t)
    moreover have "\<not> trimmed_char (hd t)" if "t \<noteq> []"
      using that hd_dropWhile [of trimmed_char s] by (simp add: t_def)
    moreover have "\<not> trimmed_char (hd u)"
      using False hd_dropWhile [of trimmed_char "rev t"] by (simp add: u_def)
    ultimately show ?thesis
      by (simp add: trimSafe_eq t_def [symmetric] u_def [symmetric] last_rev)
  qed (simp add: trimSafe_eq t_def [symmetric] u_def [symmetric])
qed

lemma trimSafe_id: "s = [] \<or> \<not> trimmed_char (hd s) \<and> \<not> trimmed_char (last s) \<Longrightarrow> trimSafe s = s"
  by (auto simp: trimSafe_eq dropWhile_fixed hd_rev)

lemma Base_plain: "s \<noteq> [] \<Longrightarrow> CHR ''/'' \<notin> set s \<Longrightarrow> Base s = s"
proof -
  assume "s \<noteq> []" and no: "CHR ''/'' \<notin> set s"
  then have "dropTrailingSlashes s = s"
    unfolding dropTrailingSlashes_def by (subst dropWhile_fixed) (auto simp: hd_rev dest: last_in_set)
  moreover have "takeWhile (\<lambda>c. c \<noteq> CHR ''/'') (rev s) = rev s"
    using no by (auto simp: takeWhile_eq_all_conv)
  ultimately show ?thesis
    using \<open>s \<noteq> []\<close> by (simp only: Base_def Let_def rev_rev_ident if_False)
qed

definition safe_name :: "string \<Rightarrow> bool" where
  "safe_name n \<longleftrightarrow> n \<noteq> [] \<and> list_all safe_char n \<and> \<not> trimmed_char (hd n) \<and> \<not> trimmed_char (last n)"

lemma safeUploadFileName_safe: "safe_name (safeUploadFileName name)"
proof -
  have "safe_name n" if "n = trimSafe (mapSafeRunes b)" "n \<noteq> []" for n b
    using that trimSafe_ends [of "mapSafeRunes b"] set_trimSafe [of "mapSafeRunes b"] mapSafeRunes_safe [of b]
    by (auto simp: safe_name_def list_all_iff)
  moreover have "safe_name ''artifact''" by code_simp
  ultimately show ?thesis
    by (simp add: safeUploadFileName_def Let_def)
qed

lemma safe_name_no_slash: "safe_name n \<Longrightarrow> CHR ''/'' \<notin> set n"
  by (auto simp: safe_name_def list_all_iff dest: safe_char_ascii)

lemma safeUploadFileName_id:
  assumes "safe_name n"
  shows "safeUploadFileName n = n"
proof -
  have "n \<noteq> ''.''" "n \<noteq> ''/''" "n \<noteq> []"
    using assms by (auto simp: safe_name_def trimmed_char_def safe_char_def byte_def)
  moreover have "Base n = n"
    using assms by (intro Base_plain safe_name_no_slash) (auto simp: safe_name_def)
  moreover have "mapSafeRunes n = n" "trimSafe n = n"
    using assms by (auto simp: safe_name_def intro!: mapSafeRunes_id trimSafe_id)
  ultimately show ?thesis
    by (simp add: safeUploadFileName_def)
qed

text \<open>Whatever name a client gives an uploaded file, the name that is used is safe: it is not empty,
  has only letters, digits, dots, underscores and hyphens, starts and ends with a letter or
  a digit, is one plain element of a path, so that the file ends up directly in the
  artifact directory, and making it safe again does not change it. Names are taken as
  bytes and may hold any Unicode text or invalid UTF-8.\<close>

theorem upload_name_safe:
  "let n = safeUploadFileName name in
     n \<noteq> [] \<and> list_all safe_char n \<and> hd n \<notin> {CHR ''.'', CHR ''_'', CHR ''-''} \<and> last n \<notin> {CHR ''.'', CHR ''_'', CHR ''-''} \<and>
     safeUploadFileName n = n \<and> path_elems (dir @ ''/'' @ n) = path_elems (dir @ ''/'') @ [n]"
proof -
  define n where "n = safeUploadFileName name"
  have safe: "safe_name n"
    by (simp add: n_def safeUploadFileName_safe)
  have plain: "plain_elem n"
    using safe safe_name_no_slash [OF safe] by (auto simp: plain_elem_def safe_name_def trimmed_char_def)
  have "split_path (d @ CHR ''/'' # p) = split_path d @ split_path p" for d p
    by (induction d) (auto split: list.split)
  from this [of dir n] this [of dir "[]"] have "path_elems (dir @ ''/'' @ n) = path_elems (dir @ ''/'') @ [n]"
    using plain by (cases dir) (auto simp: path_elems_def HasPrefix_slash split_path_plain plain_elem_def clean_step_def)
  then show ?thesis
    using safe safeUploadFileName_id [OF safe] by (simp add: n_def safe_name_def trimmed_char_def)
qed

end
