(* ===== verification/Admin.thy ===== *)
theory Admin
  imports Manager_Invariants
begin

section \<open>The administrator's configuration (manager_admin.go, manager_profile_delete.go, profile_config.go, manager_worker_updates.go)\<close>

text \<open>
  The operations that change nodes, profiles, policies, bans, worker updates and settings. A
  handler gets the decoded request, or the error of \<^verbatim>\<open>readConfig\<close>, and returns the status
  and code of the reply; the bodies of successful replies only echo stored records. Reading
  requests of other methods is rejected before these functions.
\<close>

subsection \<open>Nodes\<close>

record UpdateNodeRequest =
  UpdateNode_ID :: string
  UpdateNode_OwnerUserID :: string
  UpdateNode_Approved :: "bool option"
  UpdateNode_Mode :: string
  UpdateNode_Tags :: "string list option"
  UpdateNode_State :: string

definition upsertAdminNode :: "id_source \<Rightarrow> UpdateNodeRequest \<Rightarrow> time \<Rightarrow> Database \<Rightarrow> manager_error + Database" where
  "upsertAdminNode newID req now db =
     (let node0 = (case map_of (Nodes db) (UpdateNode_ID req) of
            None \<Rightarrow> zero_Node\<lparr>Node_ID := UpdateNode_ID req, Node_State := NodeStateExpected\<rparr>
          | Some node \<Rightarrow> node);
          node1 = (case UpdateNode_Approved req of None \<Rightarrow> node0 | Some b \<Rightarrow> node0\<lparr>Node_Approved := b\<rparr>)
      in if UpdateNode_OwnerUserID req \<noteq> [] \<and> \<not> mhas (Users db) (UpdateNode_OwnerUserID req)
         then Inl (NotFound ''user'' (UpdateNode_OwnerUserID req))
         else (let node2 = (if UpdateNode_OwnerUserID req \<noteq> [] then node1\<lparr>Node_OwnerUserID := UpdateNode_OwnerUserID req\<rparr> else node1);
                   node3 = (if UpdateNode_Mode req \<noteq> [] then node2\<lparr>Node_Mode := UpdateNode_Mode req\<rparr> else node2);
                   node4 = (case UpdateNode_Tags req of None \<Rightarrow> node3 | Some tags \<Rightarrow> node3\<lparr>Node_Tags := tags\<rparr>);
                   node5 = (if UpdateNode_State req \<noteq> [] then node4\<lparr>Node_State := UpdateNode_State req\<rparr> else node4)
               in Inr (appendAudit newID ''admin.node.updated'' ''admin'' (Node_ID node5) [] now
                    (db\<lparr>Nodes := mput (Node_ID node5) node5 (Nodes db)\<rparr>))))"

definition handleAdminNodeUpdate ::
  "json_codec \<Rightarrow> id_source \<Rightarrow> string + UpdateNodeRequest \<Rightarrow> time \<Rightarrow> Manager \<Rightarrow> reply \<times> Manager" where
  "handleAdminNodeUpdate J newID req now m =
     (case req of
        Inl _ \<Rightarrow> (Reply 400 ''bad_request'', m)
      | Inr req \<Rightarrow>
          if UpdateNode_ID req = [] then (Reply 400 ''bad_request'', m)
          else case upsertAdminNode newID req now (Mgr_db m) of
            Inl _ \<Rightarrow> (Reply 500 ''store_error'', m)
          | Inr db \<Rightarrow> (Reply 200 ''ok'', replanAndDispatch J newID now (m\<lparr>Mgr_db := db\<rparr>)))"

text \<open>An error of a deletion: its code.\<close>

datatype artifactDeleteError = DeleteError string

definition deleteNode :: "id_source \<Rightarrow> string \<Rightarrow> time \<Rightarrow> Database \<Rightarrow> artifactDeleteError + Database" where
  "deleteNode newID nodeID now db =
     (case map_of (Nodes db) nodeID of
        None \<Rightarrow> Inl (DeleteError ''not_found'')
      | Some node \<Rightarrow>
          if Node_State node = NodeStateOnline then Inl (DeleteError ''node_online'')
          else Inr (appendAudit newID ''admin.node.deleted'' ''admin'' nodeID [] now
            (db\<lparr>Nodes := mdel nodeID (Nodes db),
                Slots := mfilter (\<lambda>_ slot. Slot_NodeID slot \<noteq> nodeID) (Slots db),
                Assignments := mfilter (\<lambda>_ assignment. Asg_NodeID assignment \<noteq> nodeID) (Assignments db)\<rparr>)))"

definition writeProfileDeleteError :: "artifactDeleteError \<Rightarrow> reply" where
  "writeProfileDeleteError e =
     (case e of DeleteError code \<Rightarrow>
        Reply (if code = ''not_found'' then 404 else if code = ''profile_in_use'' then 409 else 400) code)"

definition handleAdminNodeDelete :: "json_codec \<Rightarrow> id_source \<Rightarrow> string \<Rightarrow> time \<Rightarrow> Manager \<Rightarrow> reply \<times> Manager" where
  "handleAdminNodeDelete J newID nodeID now m =
     (if nodeID = [] then (Reply 400 ''bad_request'', m)
      else case deleteNode newID nodeID now (Mgr_db m) of
        Inl e \<Rightarrow> (writeProfileDeleteError e, m)
      | Inr db \<Rightarrow> (Reply 200 ''deleted'', replanAndDispatch J newID now (m\<lparr>Mgr_db := db\<rparr>)))"

subsection \<open>Arguments of the runtime\<close>

definition llamaServerArgName :: "string \<Rightarrow> string" where
  "llamaServerArgName arg = takeWhile (\<lambda>c. c \<noteq> CHR ''='') arg"

definition isManagedLlamaServerArg :: "string \<Rightarrow> bool" where
  "isManagedLlamaServerArg arg \<longleftrightarrow>
     arg \<in> set [''--host'', ''--port'', ''--model'', ''-m'', ''--mmproj'', ''--ctx-size'', ''-c'', ''--api-key'',
       ''--api-key-file'', ''--ssl-key-file'', ''--ssl-cert-file'']"

definition validateLlamaServerProfileArgs :: "string list \<Rightarrow> manager_error option" where
  "validateLlamaServerProfileArgs args =
     (case find (\<lambda>arg. isManagedLlamaServerArg (llamaServerArgName arg)) args of
        None \<Rightarrow> None
      | Some arg \<Rightarrow> Some (Invalid (''llama.cpp server arg '' @ llamaServerArgName arg @ '' is managed by COMRAD'')))"

text \<open>The arguments of a profile, and of each of its variants, that a llama.cpp adapter would run.\<close>

definition llamaArgs :: "string \<Rightarrow> RuntimeParameters \<Rightarrow> string list" where
  "llamaArgs adapter runtime = (if isLlamaCppAdapter adapter then Llama_Args (Runtime_LlamaCpp runtime) else [])"

fun firstError :: "'e option list \<Rightarrow> 'e option" where
  "firstError [] = None"
| "firstError (Some e # _) = Some e"
| "firstError (None # es) = firstError es"

definition validateWorkloadProfileRuntime :: "WorkloadProfile \<Rightarrow> manager_error option" where
  "validateWorkloadProfileRuntime profile =
     firstError (validateLlamaServerProfileArgs (llamaArgs (Profile_RuntimeAdapter profile) (Profile_Runtime profile)) #
       map (\<lambda>variant. let normalized = normalizeVariant profile variant in
              validateLlamaServerProfileArgs (llamaArgs (Variant_RuntimeAdapter normalized) (Variant_Runtime normalized)))
         (Profile_RuntimeVariants profile))"

subsection \<open>Profiles\<close>

record CreateProfileRequest =
  CreateProfile_ID :: string
  CreateProfile_ComputeCost :: int
  CreateProfile_Name :: string
  CreateProfile_Alias :: string
  CreateProfile_LogicalModel :: string
  CreateProfile_Kind :: string
  CreateProfile_RuntimeAdapter :: string
  CreateProfile_Artifacts :: "string list"
  CreateProfile_Requirements :: "Requirements option"
  CreateProfile_LLM :: "LLMProfile option"
  CreateProfile_Runtime :: RuntimeParameters
  CreateProfile_RuntimeVariants :: "RuntimeModelVariant list"
  CreateProfile_Warmable :: bool
  CreateProfile_MaxConcurrencyPerSlot :: int

text \<open>\<^verbatim>\<open>strings.NewReplacer(" ", "-", "/", ".", ":", "-").Replace\<close>\<close>

definition replaceProfileID :: "string \<Rightarrow> string" where
  "replaceProfileID s = map (\<lambda>c. if c = CHR '' '' then CHR ''-'' else if c = CHR ''/'' then CHR ''.''
     else if c = CHR '':'' then CHR ''-'' else c) s"

definition profileIDFromRequest :: "CreateProfileRequest \<Rightarrow> string" where
  "profileIDFromRequest req =
     (let base0 = CreateProfile_Name req;
          base1 = (if base0 = [] then CreateProfile_Alias req else base0);
          base2 = (if base1 = [] then CreateProfile_Kind req else base1);
          pid = replaceProfileID base2
      in case CreateProfile_LLM req of
           None \<Rightarrow> pid
         | Some llm \<Rightarrow> if LLM_ContextTokens llm > 0 then pid @ ''/context-'' @ show_int (LLM_ContextTokens llm) else pid)"

definition normalizeProfileRequest :: "CreateProfileRequest \<Rightarrow> CreateProfileRequest" where
  "normalizeProfileRequest req =
     (let req1 = (if CreateProfile_Kind req = [] then req\<lparr>CreateProfile_Kind := ''llm.chat''\<rparr> else req);
          req2 = (if CreateProfile_ID req1 = [] then req1\<lparr>CreateProfile_ID := profileIDFromRequest req1\<rparr> else req1);
          req3 = (case CreateProfile_Requirements req2 of
              None \<Rightarrow> req2
            | Some r \<Rightarrow> if CreateProfile_RuntimeAdapter req2 = []
                then req2\<lparr>CreateProfile_RuntimeAdapter := Req_RuntimeAdapter r\<rparr> else req2)
      in if CreateProfile_MaxConcurrencyPerSlot req3 = 0 then req3\<lparr>CreateProfile_MaxConcurrencyPerSlot := 1\<rparr> else req3)"

definition normalizeProfile :: "WorkloadProfile \<Rightarrow> WorkloadProfile" where
  "normalizeProfile p =
     (let p1 = (if Profile_Version p = 0 then p\<lparr>Profile_Version := 1\<rparr> else p);
          p2 = (if Profile_Name p1 = [] then p1\<lparr>Profile_Name := Profile_ID p1\<rparr> else p1);
          p3 = (if Profile_Alias p2 = [] then p2\<lparr>Profile_Alias := Profile_Name p2\<rparr> else p2);
          p4 = (if Profile_LogicalModel p3 = [] then p3\<lparr>Profile_LogicalModel := ProfileLogicalModel p3\<rparr> else p3)
      in p4\<lparr>Profile_RuntimeVariants := map (normalizeVariant p4) (Profile_RuntimeVariants p4)\<rparr>)"

definition profileFromRequest :: "CreateProfileRequest \<Rightarrow> time \<Rightarrow> WorkloadProfile" where
  "profileFromRequest req0 now =
     (let req = normalizeProfileRequest req0 in
      normalizeProfile (zero_WorkloadProfile\<lparr>Profile_ID := CreateProfile_ID req, Profile_Name := CreateProfile_Name req,
        Profile_Alias := CreateProfile_Alias req, Profile_LogicalModel := CreateProfile_LogicalModel req,
        Profile_Kind := CreateProfile_Kind req, Profile_RuntimeAdapter := CreateProfile_RuntimeAdapter req,
        Profile_Artifacts := CreateProfile_Artifacts req, Profile_Requirements := CreateProfile_Requirements req,
        Profile_LLM := CreateProfile_LLM req, Profile_Runtime := CreateProfile_Runtime req,
        Profile_RuntimeVariants := CreateProfile_RuntimeVariants req, Profile_ComputeCost := CreateProfile_ComputeCost req,
        Profile_Warmable := CreateProfile_Warmable req,
        Profile_MaxConcurrencyPerSlot := CreateProfile_MaxConcurrencyPerSlot req, Profile_CreatedAt := now\<rparr>))"

definition upsertProfile :: "id_source \<Rightarrow> WorkloadProfile \<Rightarrow> time \<Rightarrow> Database \<Rightarrow> manager_error + Database" where
  "upsertProfile newID profile0 now db =
     (if Profile_ComputeCost profile0 < 0 then Inl (Invalid ''computeCost must be non-negative'')
      else case validateWorkloadProfileRuntime profile0 of
        Some e \<Rightarrow> Inl e
      | None \<Rightarrow>
          (case find (\<lambda>aid. \<not> mhas (Artifacts db) aid) (profileArtifactIDs profile0) of
             Some aid \<Rightarrow> Inl (NotFound ''artifact'' aid)
           | None \<Rightarrow>
               (let profile1 = (case map_of (Profiles db) (Profile_ID profile0) of
                      None \<Rightarrow> profile0
                    | Some old \<Rightarrow> profile0\<lparr>Profile_CreatedAt := Profile_CreatedAt old, Profile_Version := Profile_Version old + 1\<rparr>);
                    profile2 = (if Profile_Version profile1 = 0 then profile1\<lparr>Profile_Version := 1\<rparr> else profile1)
                in Inr (appendAudit newID ''profile.upserted'' ''admin'' (Profile_ID profile2) [] now
                     (db\<lparr>Profiles := mput (Profile_ID profile2) profile2 (Profiles db)\<rparr>)))))"

definition storeProfile :: "json_codec \<Rightarrow> id_source \<Rightarrow> WorkloadProfile \<Rightarrow> time \<Rightarrow> Manager \<Rightarrow> reply \<times> Manager" where
  "storeProfile J newID profile now m =
     (case upsertProfile newID profile now (Mgr_db m) of
        Inl _ \<Rightarrow> (Reply 400 ''profile_invalid'', m)
      | Inr db \<Rightarrow> (Reply 201 [], replanAndDispatch J newID now (m\<lparr>Mgr_db := db\<rparr>)))"

definition handleAdminProfileUpsert ::
  "json_codec \<Rightarrow> id_source \<Rightarrow> string + CreateProfileRequest \<Rightarrow> time \<Rightarrow> Manager \<Rightarrow> reply \<times> Manager" where
  "handleAdminProfileUpsert J newID req now m =
     (case req of
        Inl _ \<Rightarrow> (Reply 400 ''bad_request'', m)
      | Inr req \<Rightarrow> storeProfile J newID (profileFromRequest req now) now m)"

definition profileHasLiveWork :: "Database \<Rightarrow> string \<Rightarrow> bool" where
  "profileHasLiveWork db profileID \<longleftrightarrow>
     list_ex (\<lambda>task. Task_ProfileID task = profileID \<and>
        (Task_Status task = TaskStatusQueued \<or> Task_Status task = TaskStatusRunning)) (mvals (Tasks db)) \<or>
     list_ex (\<lambda>attempt. Attempt_ProfileID attempt = profileID \<and> Attempt_Status attempt = TaskStatusRunning) (mvals (Attempts db))"

definition deleteProfile :: "id_source \<Rightarrow> string \<Rightarrow> time \<Rightarrow> Database \<Rightarrow> artifactDeleteError + Database" where
  "deleteProfile newID profileID now db =
     (if \<not> mhas (Profiles db) profileID then Inl (DeleteError ''not_found'')
      else if profileHasLiveWork db profileID then Inl (DeleteError ''profile_in_use'')
      else Inr (appendAudit newID ''profile.deleted'' ''admin'' profileID [] now
        (db\<lparr>Profiles := mdel profileID (Profiles db),
            Policies := mfilter (\<lambda>_ policy. Policy_ProfileID policy \<noteq> profileID) (Policies db),
            Assignments := mfilter (\<lambda>_ assignment. Asg_ProfileID assignment \<noteq> profileID) (Assignments db)\<rparr>)))"

definition handleAdminProfileDelete :: "json_codec \<Rightarrow> id_source \<Rightarrow> string \<Rightarrow> time \<Rightarrow> Manager \<Rightarrow> reply \<times> Manager" where
  "handleAdminProfileDelete J newID profileID now m =
     (if profileID = [] then (Reply 400 ''bad_request'', m)
      else case deleteProfile newID profileID now (Mgr_db m) of
        Inl e \<Rightarrow> (writeProfileDeleteError e, m)
      | Inr db \<Rightarrow> (Reply 200 ''deleted'', replanAndDispatch J newID now (m\<lparr>Mgr_db := db\<rparr>)))"

subsection \<open>Profiles from configuration files\<close>

record ProfileRuntimeConfig =
  RuntimeCfg_Adapter :: string
  RuntimeCfg_ModelArtifacts :: "string list"
  RuntimeCfg_ContextTokens :: int
  RuntimeCfg_LlamaCpp :: LlamaCppParameters

record ProfileRequirementsConfig =
  ReqCfg_Target :: string
  ReqCfg_RAMBytes :: int
  ReqCfg_VRAMBytes :: int
  ReqCfg_UnifiedMemoryBytes :: int
  ReqCfg_DiskBytes :: int
  ReqCfg_RequireTags :: "string list"
  ReqCfg_MinimumWorker :: string

record ProfileRuntimeVariantConfig =
  VariantCfg_ID :: string
  VariantCfg_Target :: string
  VariantCfg_Adapter :: string
  VariantCfg_ModelArtifacts :: "string list"
  VariantCfg_ContextTokens :: int
  VariantCfg_LlamaCpp :: LlamaCppParameters
  VariantCfg_Requirements :: "ProfileRequirementsConfig option"

record ProfileConfig =
  ProfileCfg_ID :: string
  ProfileCfg_Model :: string
  ProfileCfg_Kind :: string
  ProfileCfg_ComputeCost :: int
  ProfileCfg_Runtime :: ProfileRuntimeConfig
  ProfileCfg_Requirements :: ProfileRequirementsConfig
  ProfileCfg_Warmable :: bool
  ProfileCfg_RuntimeVariants :: "ProfileRuntimeVariantConfig list"

definition validateProfileVariants :: "ProfileRuntimeVariantConfig list \<Rightarrow> manager_error option" where
  "validateProfileVariants variants =
     firstError (map (\<lambda>v.
       if VariantCfg_ID v = [] then Some (Required ''variantId'')
       else if VariantCfg_Target v = [] then Some (Required ''target'')
       else if VariantCfg_Adapter v = [] then Some (Required ''adapter'')
       else validateLlamaServerProfileArgs (Llama_Args (VariantCfg_LlamaCpp v))) variants)"

definition validateProfileConfig :: "ProfileConfig \<Rightarrow> manager_error option" where
  "validateProfileConfig cfg =
     (let runtime = ProfileCfg_Runtime cfg; hasVariants = ProfileCfg_RuntimeVariants cfg \<noteq> [] in
      if ProfileCfg_ID cfg = [] then Some (Required ''profileId'')
      else if ProfileCfg_Model cfg = [] then Some (Required ''model'')
      else if ProfileCfg_Kind cfg \<noteq> ''llm.chat'' then Some (Invalid ''kind must be llm.chat'')
      else if RuntimeCfg_Adapter runtime = [] \<and> \<not> hasVariants then Some (Required ''runtime.adapter'')
      else if RuntimeCfg_ModelArtifacts runtime = [] \<and> \<not> hasVariants then Some (Required ''runtime.modelArtifacts'')
      else if RuntimeCfg_ContextTokens runtime \<le> 0 \<and> \<not> hasVariants then Some (Required ''runtime.contextTokens'')
      else if ProfileCfg_ComputeCost cfg < 0 then Some (Invalid ''computeCost must be non-negative'')
      else case validateLlamaServerProfileArgs (Llama_Args (RuntimeCfg_LlamaCpp runtime)) of
        Some e \<Rightarrow> Some e
      | None \<Rightarrow>
          if ReqCfg_Target (ProfileCfg_Requirements cfg) = [] then Some (Required ''requirements.target'')
          else validateProfileVariants (ProfileCfg_RuntimeVariants cfg))"

definition requirementsFromConfig :: "ProfileRequirementsConfig \<Rightarrow> Requirements" where
  "requirementsFromConfig r = zero_Requirements\<lparr>Req_Target := ReqCfg_Target r, Req_RAMBytes := ReqCfg_RAMBytes r,
     Req_VRAMBytes := ReqCfg_VRAMBytes r, Req_UnifiedMemoryBytes := ReqCfg_UnifiedMemoryBytes r, Req_DiskBytes := ReqCfg_DiskBytes r,
     Req_RequireTags := ReqCfg_RequireTags r, Req_MinimumWorker := ReqCfg_MinimumWorker r\<rparr>"

definition variantFromConfig :: "ProfileRuntimeVariantConfig \<Rightarrow> RuntimeModelVariant" where
  "variantFromConfig v = zero_RuntimeModelVariant\<lparr>Variant_ID := VariantCfg_ID v, Variant_Name := [],
     Variant_Target := VariantCfg_Target v, Variant_RuntimeAdapter := VariantCfg_Adapter v,
     Variant_Artifacts := map NormalizeSHA256 (VariantCfg_ModelArtifacts v),
     Variant_Requirements := map_option requirementsFromConfig (VariantCfg_Requirements v),
     Variant_LLM := (if VariantCfg_ContextTokens v > 0
       then Some (zero_LLMProfile\<lparr>LLM_ContextTokens := VariantCfg_ContextTokens v\<rparr>) else None),
     Variant_Runtime := zero_RuntimeParameters\<lparr>Runtime_LlamaCpp := VariantCfg_LlamaCpp v\<rparr>\<rparr>"

definition profileFromConfig :: "ProfileConfig \<Rightarrow> manager_error + WorkloadProfile" where
  "profileFromConfig cfg =
     (case validateProfileConfig cfg of
        Some e \<Rightarrow> Inl e
      | None \<Rightarrow> Inr (zero_WorkloadProfile\<lparr>Profile_ID := ProfileCfg_ID cfg, Profile_Name := ProfileCfg_Model cfg,
          Profile_Alias := ProfileCfg_Model cfg, Profile_LogicalModel := ProfileCfg_Model cfg, Profile_Kind := ProfileCfg_Kind cfg,
          Profile_RuntimeAdapter := RuntimeCfg_Adapter (ProfileCfg_Runtime cfg),
          Profile_Artifacts := map NormalizeSHA256 (RuntimeCfg_ModelArtifacts (ProfileCfg_Runtime cfg)),
          Profile_Requirements := Some (requirementsFromConfig (ProfileCfg_Requirements cfg)),
          Profile_LLM := Some (zero_LLMProfile\<lparr>LLM_ContextTokens := RuntimeCfg_ContextTokens (ProfileCfg_Runtime cfg)\<rparr>),
          Profile_Runtime := zero_RuntimeParameters\<lparr>Runtime_LlamaCpp := RuntimeCfg_LlamaCpp (ProfileCfg_Runtime cfg)\<rparr>,
          Profile_RuntimeVariants := map variantFromConfig (ProfileCfg_RuntimeVariants cfg),
          Profile_ComputeCost := ProfileCfg_ComputeCost cfg, Profile_Warmable := ProfileCfg_Warmable cfg,
          Profile_MaxConcurrencyPerSlot := 1\<rparr>))"

definition handleAdminProfileConfigUpsert ::
  "json_codec \<Rightarrow> id_source \<Rightarrow> string + ProfileConfig \<Rightarrow> time \<Rightarrow> Manager \<Rightarrow> reply \<times> Manager" where
  "handleAdminProfileConfigUpsert J newID req now m =
     (case req of
        Inl _ \<Rightarrow> (Reply 400 ''bad_request'', m)
      | Inr cfg \<Rightarrow>
          (case profileFromConfig cfg of
             Inl _ \<Rightarrow> (Reply 400 ''profile_invalid'', m)
           | Inr profile \<Rightarrow> storeProfile J newID (profile\<lparr>Profile_CreatedAt := now\<rparr>) now m))"

subsection \<open>Policies\<close>

record UpsertPolicyRequest =
  PolicyReq_ID :: string
  PolicyReq_ProfileID :: string
  PolicyReq_CachedCount :: int
  PolicyReq_WarmCount :: int
  PolicyReq_AutoBalance :: bool
  PolicyReq_MinCachedCount :: int
  PolicyReq_MaxCachedCount :: int
  PolicyReq_MinWarmCount :: int
  PolicyReq_MaxWarmCount :: int
  PolicyReq_MaxCachedProfilesPerNode :: int
  PolicyReq_MaxWarmProfilesPerNode :: int
  PolicyReq_Constraints :: PlacementConstraints
  PolicyReq_HardPinnedSlots :: "string list"

definition policyFromRequest :: "UpsertPolicyRequest \<Rightarrow> time \<Rightarrow> PlacementPolicy" where
  "policyFromRequest req now = zero_PlacementPolicy\<lparr>
     Policy_ID := (if PolicyReq_ID req = [] then ''pol_'' @ ReplaceSeparators (PolicyReq_ProfileID req) else PolicyReq_ID req),
     Policy_ProfileID := PolicyReq_ProfileID req, Policy_CachedCount := PolicyReq_CachedCount req,
     Policy_WarmCount := PolicyReq_WarmCount req, Policy_AutoBalance := PolicyReq_AutoBalance req,
     Policy_MinCachedCount := PolicyReq_MinCachedCount req, Policy_MaxCachedCount := PolicyReq_MaxCachedCount req,
     Policy_MinWarmCount := PolicyReq_MinWarmCount req, Policy_MaxWarmCount := PolicyReq_MaxWarmCount req,
     Policy_MaxCachedProfilesPerNode := PolicyReq_MaxCachedProfilesPerNode req,
     Policy_MaxWarmProfilesPerNode := PolicyReq_MaxWarmProfilesPerNode req, Policy_Constraints := PolicyReq_Constraints req,
     Policy_HardPinnedSlots := PolicyReq_HardPinnedSlots req, Policy_CreatedAt := now, Policy_UpdatedAt := now\<rparr>"

definition upsertPolicy :: "id_source \<Rightarrow> PlacementPolicy \<Rightarrow> time \<Rightarrow> Database \<Rightarrow> manager_error + Database" where
  "upsertPolicy newID policy0 now db =
     (if \<not> mhas (Profiles db) (Policy_ProfileID policy0) then Inl (NotFound ''profile'' (Policy_ProfileID policy0))
      else case validatePlacementPolicy policy0 of
        Some _ \<Rightarrow> Inl (Invalid ''placement policy'')
      | None \<Rightarrow>
          (let policy = (case map_of (Policies db) (Policy_ID policy0) of
                 None \<Rightarrow> policy0
               | Some old \<Rightarrow> policy0\<lparr>Policy_CreatedAt := Policy_CreatedAt old\<rparr>)
           in Inr (appendAudit newID ''placement.policy.upserted'' ''admin'' (Policy_ID policy) [] now
                (db\<lparr>Policies := mput (Policy_ID policy) policy (Policies db)\<rparr>))))"

definition handleAdminPolicyUpsert ::
  "json_codec \<Rightarrow> id_source \<Rightarrow> string + UpsertPolicyRequest \<Rightarrow> time \<Rightarrow> Manager \<Rightarrow> reply \<times> Manager" where
  "handleAdminPolicyUpsert J newID req now m =
     (case req of
        Inl _ \<Rightarrow> (Reply 400 ''bad_request'', m)
      | Inr req \<Rightarrow>
          if PolicyReq_ProfileID req = [] then (Reply 400 ''bad_request'', m)
          else case upsertPolicy newID (policyFromRequest req now) now (Mgr_db m) of
            Inl _ \<Rightarrow> (Reply 400 ''policy_invalid'', m)
          | Inr db \<Rightarrow> (Reply 201 [], replanAndDispatch J newID now (m\<lparr>Mgr_db := db\<rparr>)))"

definition handleApplyPlacement :: "json_codec \<Rightarrow> id_source \<Rightarrow> time \<Rightarrow> Manager \<Rightarrow> reply \<times> Manager" where
  "handleApplyPlacement J newID now m = (Reply 200 ''ok'', replanAndDispatch J newID now m)"

subsection \<open>Bans\<close>

record UnbanRequest =
  Unban_NodeID :: string
  Unban_SlotID :: string

definition unbanNode :: "id_source \<Rightarrow> string \<Rightarrow> time \<Rightarrow> Database \<Rightarrow> manager_error option \<times> Database" where
  "unbanNode newID nodeID now db =
     (if nodeID = [] then (None, db)
      else case map_of (Nodes db) nodeID of
        None \<Rightarrow> (Some (NotFound ''node'' nodeID), db)
      | Some node0 \<Rightarrow>
          (let node = node0\<lparr>Node_Quarantined := False, Node_QuarantineReason := [], Node_QuarantineUntil := None\<rparr>
           in (None, appendAudit newID ''quarantine.node_unbanned'' ''admin'' (Node_ID node) [] now
                (db\<lparr>Nodes := mput (Node_ID node) node (Nodes db)\<rparr>))))"

definition unbanSlot :: "id_source \<Rightarrow> string \<Rightarrow> time \<Rightarrow> Database \<Rightarrow> manager_error option \<times> Database" where
  "unbanSlot newID slotID now db =
     (if slotID = [] then (None, db)
      else case map_of (Slots db) slotID of
        None \<Rightarrow> (Some (NotFound ''slot'' slotID), db)
      | Some slot0 \<Rightarrow>
          (let slot1 = slot0\<lparr>Slot_Quarantined := False, Slot_QuarantineReason := [], Slot_QuarantineUntil := None\<rparr>;
               slot = (if Slot_State slot1 = SlotStateReady \<and> Slot_ActiveTaskID slot1 = []
                       then slot1\<lparr>Slot_AcceptsNew := True, Slot_MismatchReason := []\<rparr> else slot1)
           in (None, appendAudit newID ''quarantine.slot_unbanned'' ''admin'' (Slot_ID slot) [] now
                (db\<lparr>Slots := mput (Slot_ID slot) slot (Slots db)\<rparr>))))"

text \<open>The node is unbanned first; when the slot is then missing, that change stays in memory.\<close>

definition unban :: "id_source \<Rightarrow> UnbanRequest \<Rightarrow> time \<Rightarrow> Database \<Rightarrow> manager_error option \<times> Database" where
  "unban newID req now db =
     (case unbanNode newID (Unban_NodeID req) now db of
        (Some e, db1) \<Rightarrow> (Some e, db1)
      | (None, db1) \<Rightarrow> unbanSlot newID (Unban_SlotID req) now db1)"

definition handleAdminUnban :: "json_codec \<Rightarrow> id_source \<Rightarrow> string + UnbanRequest \<Rightarrow> time \<Rightarrow> Manager \<Rightarrow> reply \<times> Manager" where
  "handleAdminUnban J newID req now m =
     (case req of
        Inl _ \<Rightarrow> (Reply 400 ''bad_request'', m)
      | Inr req \<Rightarrow>
          if Unban_NodeID req = [] \<and> Unban_SlotID req = [] then (Reply 400 ''bad_request'', m)
          else case unban newID req now (Mgr_db m) of
            (Some _, db) \<Rightarrow> (Reply 400 ''unban_failed'', m\<lparr>Mgr_db := db\<rparr>)
          | (None, db) \<Rightarrow> (Reply 200 ''ok'', replanAndDispatch J newID now (m\<lparr>Mgr_db := db\<rparr>)))"

subsection \<open>Worker updates\<close>

record ApplyWorkerUpdateRequest =
  ApplyUpdate_Kind :: string
  ApplyUpdate_Version :: string
  ApplyUpdate_ArtifactID :: string
  ApplyUpdate_SHA256 :: string
  ApplyUpdate_Signature :: string
  ApplyUpdate_PublicKey :: string
  ApplyUpdate_TargetNodes :: "string list"

definition newUpdate :: "id_source \<Rightarrow> ApplyWorkerUpdateRequest \<Rightarrow> time \<Rightarrow> Database \<Rightarrow> UpdateRecord" where
  "newUpdate newID req now db = zero_UpdateRecord\<lparr>Update_ID := newID ''upd'' (length (Updates db)),
     Update_Kind := (if ApplyUpdate_Kind req = [] then ''worker'' else ApplyUpdate_Kind req), Update_Version := ApplyUpdate_Version req,
     Update_ArtifactID := ApplyUpdate_ArtifactID req, Update_SHA256 := NormalizeSHA256 (ApplyUpdate_SHA256 req),
     Update_Signature := ApplyUpdate_Signature req, Update_PublicKey := ApplyUpdate_PublicKey req,
     Update_TargetNodes := ApplyUpdate_TargetNodes req, Update_Status := ''pending'', Update_CreatedAt := now\<rparr>"

definition markUpdatePending :: "Node gomap \<Rightarrow> string \<Rightarrow> Node gomap" where
  "markUpdatePending nodes nodeID =
     mput nodeID ((mget zero_Node nodes nodeID)\<lparr>Node_UpdateRequired := True, Node_UpdateStatus := ''pending''\<rparr>) nodes"

definition storeUpdate :: "id_source \<Rightarrow> UpdateRecord \<Rightarrow> time \<Rightarrow> Database \<Rightarrow> manager_error + Database" where
  "storeUpdate newID update now db =
     (case map_of (Artifacts db) (Update_ArtifactID update) of
        None \<Rightarrow> Inl (NotFound ''artifact'' (Update_ArtifactID update))
      | Some artifact \<Rightarrow>
          if NormalizeSHA256 (Artifact_SHA256 artifact) \<noteq> Update_SHA256 update then Inl (Invalid ''artifact sha mismatch'')
          else (let db1 = appendAudit newID ''update.created'' ''admin'' (Update_ID update) [] now
                      (db\<lparr>Updates := mput (Update_ID update) update (Updates db)\<rparr>)
                in Inr (db1\<lparr>Nodes := foldl markUpdatePending (Nodes db1) (Update_TargetNodes update)\<rparr>)))"

definition zero_ArtifactSpec :: ArtifactSpec where
  "zero_ArtifactSpec = \<lparr>Spec_ID = [], Spec_Kind = [], Spec_Name = [], Spec_SHA256 = [], Spec_SizeBytes = 0, Spec_URL = [],
     Spec_Torrent = None, Spec_P2PPeers = []\<rparr>"

definition updateSpec :: "Database \<Rightarrow> UpdateRecord \<Rightarrow> workerSession \<Rightarrow> ArtifactSpec" where
  "updateSpec db update sess =
     (case map_of (Artifacts db) (Update_ArtifactID update) of
        None \<Rightarrow> zero_ArtifactSpec
      | Some art \<Rightarrow> \<lparr>Spec_ID = Artifact_ID art, Spec_Kind = Artifact_Kind art, Spec_Name = Artifact_Name art,
          Spec_SHA256 = Artifact_SHA256 art, Spec_SizeBytes = Artifact_SizeBytes art,
          Spec_URL = TrimRightSlash (Session_baseURL sess) @ ''/api/worker/artifacts/'' @ Artifact_ID art,
          Spec_Torrent = Artifact_Torrent art, Spec_P2PPeers = []\<rparr>)"

definition dispatchUpdate :: "json_codec \<Rightarrow> id_source \<Rightarrow> UpdateRecord \<Rightarrow> Manager \<Rightarrow> Manager" where
  "dispatchUpdate J newID update m =
     (let db = cloneDatabase (Mgr_db m) in
      foldl (\<lambda>m nodeID.
        case sessionFor m nodeID of
          None \<Rightarrow> m
        | Some sess \<Rightarrow> snd (enqueueSession newID (Session_id sess) (zero_Envelope\<lparr>Env_Type := MsgUpdateWorker, Env_NodeID := nodeID,
            Env_Payload := marshalUpdate J \<lparr>UpdateP_Update = update, UpdateP_Artifact = updateSpec db update sess\<rparr>\<rparr>) m))
        m (updateTargets db update))"

definition handleApplyWorkerUpdate ::
  "json_codec \<Rightarrow> id_source \<Rightarrow> string + ApplyWorkerUpdateRequest \<Rightarrow> time \<Rightarrow> Manager \<Rightarrow> reply \<times> Manager" where
  "handleApplyWorkerUpdate J newID req now m =
     (case req of
        Inl _ \<Rightarrow> (Reply 400 ''bad_request'', m)
      | Inr req \<Rightarrow>
          if ApplyUpdate_ArtifactID req = [] \<or> ApplyUpdate_SHA256 req = [] then (Reply 400 ''bad_request'', m)
          else (let update = newUpdate newID req now (Mgr_db m) in
            case storeUpdate newID update now (Mgr_db m) of
              Inl _ \<Rightarrow> (Reply 400 ''update_invalid'', m)
            | Inr db \<Rightarrow> (Reply 201 [], dispatchUpdate J newID update (m\<lparr>Mgr_db := db\<rparr>))))"

subsection \<open>Settings\<close>

definition handleAdminSettings :: "json_codec \<Rightarrow> id_source \<Rightarrow> string + bool option \<Rightarrow> time \<Rightarrow> Manager \<Rightarrow> reply \<times> Manager" where
  "handleAdminSettings J newID req now m =
     (case req of
        Inl _ \<Rightarrow> (Reply 400 ''bad_request'', m)
      | Inr enabled \<Rightarrow>
          (let m1 = update_db (\<lambda>db. appendAudit newID ''admin.settings.updated'' ''admin'' ''settings'' [] now
                 (case enabled of
                    None \<Rightarrow> db
                  | Some b \<Rightarrow> db\<lparr>Settings := (Settings db)\<lparr>Settings_P2PEnabled := b\<rparr>\<rparr>)) m
           in case enabled of
                None \<Rightarrow> (Reply 200 [], m1)
              | Some b \<Rightarrow> (Reply 200 [], replanAndDispatch J newID now (broadcastP2PConfig J newID b m1))))"

end
