(* ===== verification/Artifacts.thy ===== *)
theory Artifacts
  imports Paths Admin
begin

section \<open>Artifacts on the manager (manager_artifact.go, manager_artifact_admin.go, manager_artifact_register_admin.go, artifact_torrent.go)\<close>

text \<open>
  An artifact is a file of the manager's disk with a record in the database, under its
  SHA-256 digest. \<open>files\<close> is the disk: the content of every file by its path. The digest of
  the standard library and the torrent library are parameters: \<open>buildMeta\<close> gives the info hash,
  the magnet link, the length of a piece and the body of the metainfo file. \<open>ioErr\<close> is the
  error that creating, writing or renaming a file meets, if any.
\<close>

type_synonym files = "string gomap"
type_synonym torrent_library = "string \<Rightarrow> string \<Rightarrow> string + string \<times> string \<times> int \<times> string"

definition FileSHA256 :: "(string \<Rightarrow> string) \<Rightarrow> string \<Rightarrow> files \<Rightarrow> string + string \<times> int" where
  "FileSHA256 sha256hex path files =
     (case map_of files path of
        None \<Rightarrow> Inl ''no such file''
      | Some content \<Rightarrow> Inr (''sha256:'' @ sha256hex content, int (length content)))"

definition VerifyFileSHA256 :: "(string \<Rightarrow> string) \<Rightarrow> string \<Rightarrow> string \<Rightarrow> files \<Rightarrow> string option" where
  "VerifyFileSHA256 sha256hex path expected files =
     (case FileSHA256 sha256hex path files of
        Inl e \<Rightarrow> Some e
      | Inr (got, _) \<Rightarrow>
          if NormalizeSHA256 got \<noteq> NormalizeSHA256 expected then Some FailureArtifactDigestMismatch else None)"

subsection \<open>Torrent metadata\<close>

definition safeArtifactFileName :: "string \<Rightarrow> string" where
  "safeArtifactFileName aid = ReplaceSeparators aid"

definition torrentComplete :: "Artifact \<Rightarrow> bool" where
  "torrentComplete artifact \<longleftrightarrow>
     (case Artifact_Torrent artifact of
        None \<Rightarrow> False
      | Some t \<Rightarrow> Torrent_InfoHash t \<noteq> [] \<and> Torrent_MetaInfoBytes t \<noteq> [])"

definition writeArtifactMetaInfoFile ::
  "string option \<Rightarrow> string \<Rightarrow> string \<Rightarrow> string \<Rightarrow> files \<Rightarrow> (string + string) \<times> files" where
  "writeArtifactMetaInfoFile ioErr artifactDir artifactID body files =
     (let root0 = TrimSpace artifactDir;
          root = (if root0 = [] then ''.'' else root0);
          path = JoinPath (JoinPath root ''torrents'') (safeArtifactFileName artifactID @ ''.torrent'')
      in case ioErr of Some e \<Rightarrow> (Inl e, files) | None \<Rightarrow> (Inr path, mput path body files))"

definition ensureArtifactTorrentMetadata ::
  "torrent_library \<Rightarrow> string option \<Rightarrow> Artifact \<Rightarrow> string \<Rightarrow> files \<Rightarrow> (string + Artifact) \<times> files" where
  "ensureArtifactTorrentMetadata buildMeta ioErr artifact artifactDir files =
     (if torrentComplete artifact then (Inr artifact, files)
      else case map_of files (Artifact_Path artifact) of
        None \<Rightarrow> (Inl ''no such file'', files)
      | Some content \<Rightarrow>
          (case buildMeta (safeArtifactFileName (Artifact_ID artifact)) content of
             Inl e \<Rightarrow> (Inl e, files)
           | Inr (infoHash, magnet, pieceLength, body) \<Rightarrow>
               (case writeArtifactMetaInfoFile ioErr artifactDir (Artifact_ID artifact) body files of
                  (Inl e, files1) \<Rightarrow> (Inl e, files1)
                | (Inr path, files1) \<Rightarrow>
                    (Inr (artifact\<lparr>Artifact_Torrent := Some \<lparr>Torrent_InfoHash = ''sha1:'' @ infoHash, Torrent_MagnetURI = magnet,
                       Torrent_PieceLength = pieceLength, Torrent_MetaInfoPath = path, Torrent_MetaInfoBytes = body\<rparr>\<rparr>), files1))))"

definition migrateArtifactTorrentMetadata ::
  "torrent_library \<Rightarrow> string option \<Rightarrow> files \<Rightarrow> Manager \<Rightarrow> files \<times> Manager" where
  "migrateArtifactTorrentMetadata buildMeta ioErr files m =
     (if \<not> Settings_P2PEnabled (Settings (cloneDatabase (Mgr_db m))) then (files, m)
      else (let (files', arts) = foldl (\<lambda>(files, arts) (aid, artifact).
                   if torrentComplete artifact then (files, arts)
                   else case ensureArtifactTorrentMetadata buildMeta ioErr artifact (Cfg_ArtifactDir (Mgr_cfg m)) files of
                     (Inl _, files1) \<Rightarrow> (files1, arts)
                   | (Inr updated, files1) \<Rightarrow> (files1, mput aid updated arts))
                 (files, Artifacts (Mgr_db m)) (Artifacts (Mgr_db m))
            in (files', update_db (\<lambda>db. db\<lparr>Artifacts := arts\<rparr>) m)))"

subsection \<open>Registering a file\<close>

record CreateArtifactRequest =
  CreateArtifact_Kind :: string
  CreateArtifact_Name :: string
  CreateArtifact_Path :: string
  CreateArtifact_SHA256 :: string

definition buildAdminArtifact ::
  "(string \<Rightarrow> string) \<Rightarrow> torrent_library \<Rightarrow> string option \<Rightarrow> string \<Rightarrow> ManagerConfig \<Rightarrow> CreateArtifactRequest \<Rightarrow> time \<Rightarrow> files \<Rightarrow>
   (reply + Artifact) \<times> files" where
  "buildAdminArtifact sha256hex buildMeta ioErr cwd cfg req now files =
     (if CreateArtifact_Path req = [] then (Inl (Reply 400 ''bad_request''), files)
      else case FileSHA256 sha256hex (CreateArtifact_Path req) files of
        Inl _ \<Rightarrow> (Inl (Reply 400 ''artifact_unreadable''), files)
      | Inr (sha, size0) \<Rightarrow>
          if CreateArtifact_SHA256 req \<noteq> [] \<and> NormalizeSHA256 (CreateArtifact_SHA256 req) \<noteq> sha
          then (Inl (Reply 400 FailureArtifactDigestMismatch), files)
          else (case ensureArtifactTorrentMetadata buildMeta ioErr (zero_Artifact\<lparr>
                   Artifact_ID := ''sha256:'' @ TrimSHAPrefix sha,
                   Artifact_Kind := (if CreateArtifact_Kind req = [] then ''model_gguf'' else CreateArtifact_Kind req),
                   Artifact_Name := (if CreateArtifact_Name req = [] then Base (CreateArtifact_Path req) else CreateArtifact_Name req),
                   Artifact_Path := Abs cwd (CreateArtifact_Path req), Artifact_SHA256 := sha, Artifact_SizeBytes := size0,
                   Artifact_CreatedAt := now\<rparr>) (Cfg_ArtifactDir cfg) files of
                  (Inl _, files1) \<Rightarrow> (Inl (Reply 500 ''torrent_metadata_failed''), files1)
                | (Inr artifact, files1) \<Rightarrow> (Inr artifact, files1)))"

definition storeArtifact :: "id_source \<Rightarrow> string \<Rightarrow> Artifact \<Rightarrow> time \<Rightarrow> Database \<Rightarrow> Database" where
  "storeArtifact newID event artifact now db =
     appendAudit newID event ''admin'' (Artifact_ID artifact) [] now
       (db\<lparr>Artifacts := mput (Artifact_ID artifact) artifact (Artifacts db)\<rparr>)"

definition handleAdminArtifactCreate ::
  "(string \<Rightarrow> string) \<Rightarrow> torrent_library \<Rightarrow> string option \<Rightarrow> string \<Rightarrow> id_source \<Rightarrow> string + CreateArtifactRequest \<Rightarrow> time \<Rightarrow>
   files \<Rightarrow> Manager \<Rightarrow> reply \<times> files \<times> Manager" where
  "handleAdminArtifactCreate sha256hex buildMeta ioErr cwd newID req now files m =
     (case req of
        Inl _ \<Rightarrow> (Reply 400 ''bad_request'', files, m)
      | Inr req \<Rightarrow>
          (case buildAdminArtifact sha256hex buildMeta ioErr cwd (Mgr_cfg m) req now files of
             (Inl e, files1) \<Rightarrow> (e, files1, m)
           | (Inr artifact, files1) \<Rightarrow>
               (Reply 201 [], files1, update_db (storeArtifact newID ''artifact.registered'' artifact now) m)))"

subsection \<open>Uploading a file\<close>

text \<open>The body of the upload is copied to a temporary file, which is removed when that fails.\<close>

definition copyUploadToArtifactDir ::
  "id_source \<Rightarrow> string option \<Rightarrow> string \<Rightarrow> string \<Rightarrow> files \<Rightarrow> (string + string) \<times> files" where
  "copyUploadToArtifactDir newID ioErr body dir files =
     (let tmp = JoinPath dir (newID ''upload'' (length files) @ ''.tmp'') in
      case ioErr of
        Some e \<Rightarrow> (Inl e, mdel tmp files)
      | None \<Rightarrow> (Inr tmp, mput tmp body files))"

definition moveUploadIntoPlace :: "string option \<Rightarrow> string \<Rightarrow> string \<Rightarrow> files \<Rightarrow> string option \<times> files" where
  "moveUploadIntoPlace ioErr tmp final files =
     (if mhas files final then (None, mdel tmp files)
      else case ioErr of
        Some e \<Rightarrow> (Some e, files)
      | None \<Rightarrow> (case map_of files tmp of
            None \<Rightarrow> (Some ''no such file'', files)
          | Some content \<Rightarrow> (None, mput final content (mdel tmp files))))"

definition finalizeUploadedArtifact ::
  "(string \<Rightarrow> string) \<Rightarrow> torrent_library \<Rightarrow> string option \<Rightarrow> string \<Rightarrow> string \<Rightarrow> string \<Rightarrow> string \<Rightarrow> string \<Rightarrow> time \<Rightarrow> files \<Rightarrow>
   (string + Artifact) \<times> files" where
  "finalizeUploadedArtifact sha256hex buildMeta ioErr tmp name kind expected artifactDir now files =
     (case FileSHA256 sha256hex tmp files of
        Inl e \<Rightarrow> (Inl e, mdel tmp files)
      | Inr (sha, size0) \<Rightarrow>
          if expected \<noteq> [] \<and> NormalizeSHA256 expected \<noteq> sha then (Inl ''digest mismatch'', mdel tmp files)
          else (let final = JoinPath (Dir tmp) (artifactStorageName sha name) in
            case moveUploadIntoPlace ioErr tmp final files of
              (Some e, files1) \<Rightarrow> (Inl e, files1)
            | (None, files1) \<Rightarrow>
                ensureArtifactTorrentMetadata buildMeta ioErr (zero_Artifact\<lparr>Artifact_ID := ''sha256:'' @ TrimSHAPrefix sha,
                  Artifact_Kind := (if kind = [] then inferArtifactKind name else kind), Artifact_Name := name,
                  Artifact_Path := final, Artifact_SHA256 := sha, Artifact_SizeBytes := size0, Artifact_CreatedAt := now\<rparr>)
                  artifactDir files1))"

text \<open>The fields of the form: the body and the name of the file, and the values of name, kind and sha256.\<close>

record uploadForm =
  Upload_body :: string
  Upload_filename :: string
  Upload_name :: string
  Upload_kind :: string
  Upload_sha256 :: string

definition receiveUploadedArtifact ::
  "(string \<Rightarrow> string) \<Rightarrow> torrent_library \<Rightarrow> string option \<Rightarrow> id_source \<Rightarrow> string \<Rightarrow> string + uploadForm \<Rightarrow> time \<Rightarrow> files \<Rightarrow>
   (string + Artifact) \<times> files" where
  "receiveUploadedArtifact sha256hex buildMeta ioErr newID artifactDir form now files =
     (case form of
        Inl e \<Rightarrow> (Inl e, files)
      | Inr f \<Rightarrow>
          (case copyUploadToArtifactDir newID ioErr (Upload_body f) artifactDir files of
             (Inl e, files1) \<Rightarrow> (Inl e, files1)
           | (Inr tmp, files1) \<Rightarrow>
               finalizeUploadedArtifact sha256hex buildMeta ioErr tmp (uploadArtifactName (Upload_name f) (Upload_filename f))
                 (Upload_kind f) (Upload_sha256 f) artifactDir now files1))"

definition handleAdminArtifactUpload ::
  "(string \<Rightarrow> string) \<Rightarrow> torrent_library \<Rightarrow> string option \<Rightarrow> id_source \<Rightarrow> string + uploadForm \<Rightarrow> time \<Rightarrow> files \<Rightarrow> Manager \<Rightarrow>
   reply \<times> files \<times> Manager" where
  "handleAdminArtifactUpload sha256hex buildMeta ioErr newID form now files m =
     (case receiveUploadedArtifact sha256hex buildMeta ioErr newID (Cfg_ArtifactDir (Mgr_cfg m)) form now files of
        (Inl e, files1) \<Rightarrow> (Reply 400 ''upload_failed'', files1, m)
      | (Inr artifact, files1) \<Rightarrow> (Reply 201 [], files1, update_db (storeArtifact newID ''artifact.uploaded'' artifact now) m))"

subsection \<open>Deleting\<close>

definition artifactDeleteBlocker :: "Database \<Rightarrow> string \<Rightarrow> string option" where
  "artifactDeleteBlocker db aid =
     (case find (\<lambda>profile. Contains (profileArtifactIDs profile) aid) (mvals (Profiles db)) of
        Some profile \<Rightarrow> Some (''artifact is used by profile '' @ Profile_ID profile)
      | None \<Rightarrow>
          (case find (\<lambda>update. Update_ArtifactID update = aid) (mvals (Updates db)) of
             Some update \<Rightarrow> Some (''artifact is used by update '' @ Update_ID update)
           | None \<Rightarrow> None))"

definition deleteArtifactRecord ::
  "id_source \<Rightarrow> string \<Rightarrow> time \<Rightarrow> Database \<Rightarrow> artifactDeleteError + Artifact \<times> Database" where
  "deleteArtifactRecord newID aid now db =
     (case map_of (Artifacts db) aid of
        None \<Rightarrow> Inl (DeleteError ''not_found'')
      | Some found \<Rightarrow>
          if artifactDeleteBlocker db aid \<noteq> None then Inl (DeleteError ''artifact_in_use'')
          else Inr (found, appendAudit newID ''artifact.deleted'' ''admin'' aid [] now (db\<lparr>Artifacts := mdel aid (Artifacts db)\<rparr>)))"

definition writeArtifactDeleteError :: "artifactDeleteError \<Rightarrow> reply" where
  "writeArtifactDeleteError e = (case e of DeleteError code \<Rightarrow> Reply (if code = ''artifact_in_use'' then 409 else 404) code)"

definition removeManagedMetainfoFile :: "string \<Rightarrow> Artifact \<Rightarrow> string \<Rightarrow> files \<Rightarrow> files" where
  "removeManagedMetainfoFile cwd artifact artifactDir files =
     (case Artifact_Torrent artifact of
        None \<Rightarrow> files
      | Some t \<Rightarrow>
          if Torrent_MetaInfoPath t = [] \<or> \<not> pathInsideDir cwd (Torrent_MetaInfoPath t) artifactDir then files
          else mdel (Torrent_MetaInfoPath t) files)"

definition removeManagedArtifactFile :: "string \<Rightarrow> Artifact \<Rightarrow> string \<Rightarrow> files \<Rightarrow> files" where
  "removeManagedArtifactFile cwd artifact artifactDir files =
     (let files1 = removeManagedMetainfoFile cwd artifact artifactDir files in
      if \<not> pathInsideDir cwd (Artifact_Path artifact) artifactDir then files1 else mdel (Artifact_Path artifact) files1)"

definition handleAdminArtifactByID ::
  "string \<Rightarrow> id_source \<Rightarrow> string \<Rightarrow> time \<Rightarrow> files \<Rightarrow> Manager \<Rightarrow> reply \<times> files \<times> Manager" where
  "handleAdminArtifactByID cwd newID aid0 now files m =
     (let aid = TrimSpace aid0 in
      if aid = [] then (Reply 404 ''not_found'', files, m)
      else case deleteArtifactRecord newID aid now (Mgr_db m) of
        Inl e \<Rightarrow> (writeArtifactDeleteError e, files, m)
      | Inr (artifact, db) \<Rightarrow>
          (Reply 200 ''deleted'', removeManagedArtifactFile cwd artifact (Cfg_ArtifactDir (Mgr_cfg m)) files, m\<lparr>Mgr_db := db\<rparr>))"

subsection \<open>Serving a file to a worker\<close>

definition artifactAllowedForNode :: "Database \<Rightarrow> string \<Rightarrow> string \<Rightarrow> bool" where
  "artifactAllowedForNode db nodeID artifactID \<longleftrightarrow>
     list_ex (\<lambda>a. Asg_NodeID a = nodeID \<and> Asg_DesiredCached a \<and>
        Contains (Profile_Artifacts (effectiveProfileForAssignment (mget zero_WorkloadProfile (Profiles db) (Asg_ProfileID a)) a)) artifactID)
       (mvals (Assignments db)) \<or>
     list_ex (\<lambda>update. Update_ArtifactID update = artifactID \<and>
        (Update_TargetNodes update = [] \<or> Contains (Update_TargetNodes update) nodeID)) (mvals (Updates db))"

text \<open>
  A request names the artifact, the worker token, the node and the node's token; the last
  component of the result is the content that is served.
\<close>

definition handleWorkerArtifact ::
  "(string \<Rightarrow> string) \<Rightarrow> id_source \<Rightarrow> string \<Rightarrow> string \<Rightarrow> string \<Rightarrow> string \<Rightarrow> time \<Rightarrow> files \<Rightarrow> Manager \<Rightarrow>
   reply \<times> Manager \<times> string option" where
  "handleWorkerArtifact sha256hex newID workerToken aid0 nodeID nodeToken now files m =
     (if workerToken = [] \<or> workerToken \<noteq> Cfg_WorkerToken (Mgr_cfg m) then (Reply 401 ''unauthorized'', m, None)
      else (let aid = TrimSpace aid0; db = cloneDatabase (Mgr_db m) in
        if aid = [] then (Reply 404 ''not_found'', m, None)
        else case map_of (Artifacts db) aid of
          None \<Rightarrow> (Reply 404 ''not_found'', m, None)
        | Some artifact \<Rightarrow>
            if nodeID = [] then (Reply 403 ''forbidden'', m, None)
            else if \<not> workerNodeTokenAuthorized sha256hex db nodeID nodeToken then (Reply 403 ''forbidden'', m, None)
            else if \<not> artifactAllowedForNode db nodeID aid then (Reply 403 ''forbidden'', m, None)
            else case map_of files (Artifact_Path artifact) of
              None \<Rightarrow> (Reply 404 ''artifact_unreadable'', m, None)
            | Some content \<Rightarrow>
                (Reply 200 [], update_db (appendAudit newID ''artifact.accessed'' ''worker'' (Artifact_ID artifact)
                   [(''nodeId'', AnyString nodeID)] now) m, Some content)))"

end
