(* ===== verification/Messages_Properties.thy ===== *)
theory Messages_Properties
  imports Manager_Invariants
begin

section \<open>Properties of the workers' messages\<close>

text \<open>
  What a message of a worker can reach: a refused message changes nothing, and no message
  touches an attempt of another node. Where the handlers trust the worker too far.
\<close>

subsection \<open>Attempts of other nodes\<close>

definition others_kept :: "string \<Rightarrow> Database \<Rightarrow> Database \<Rightarrow> bool" where
  "others_kept nid db db' \<longleftrightarrow>
     (\<forall>aid a. map_of (Attempts db) aid = Some a \<and> Attempt_NodeID a \<noteq> nid \<longrightarrow> map_of (Attempts db') aid = Some a)"

lemma others_kept_same: "Attempts db' = Attempts db \<Longrightarrow> others_kept nid db db'"
  by (simp add: others_kept_def)

lemma requireWorkerAttempt_own:
  "db_ok db \<Longrightarrow> requireWorkerAttempt db nid aid tid = Inr a \<Longrightarrow> map_of (Attempts db) (Attempt_ID a) = Some b \<Longrightarrow>
   Attempt_NodeID b = nid"
  using requireWorkerAttempt_Inr [of db nid aid tid a] keyed_lookup [OF db_ok_tables(4), of db aid a] by auto

lemma others_kept_attempt:
  assumes "db_ok db"
  shows "attemptStarted nid aid tid db = Inr db' \<Longrightarrow> others_kept nid db db'"
    and "attemptLease nid aid tid now db = Inr db' \<Longrightarrow> others_kept nid db db'"
    and "recordFirstOutput newID nid tp now db = Inr db' \<Longrightarrow> others_kept nid db db'"
    and "attemptFailed newID cfg nid fp now db = Inr (fp', db') \<Longrightarrow> others_kept nid db db'"
    and "computeReport newID cfg nid r now db = Inr (r', db') \<Longrightarrow> others_kept nid db db'"
  by (auto simp: others_kept_def attemptStarted_def attemptLease_def recordFirstOutput_def attemptFailed_def computeReport_def
      acceptReport_def Let_def split_beta split: sum.splits if_splits dest: requireWorkerAttempt_own [OF assms])

lemma others_kept_disconnect:
  assumes "db_ok db"
  shows "others_kept nid db (snd (failRunningAttempts newID cfg sid nid ev now db))"
proof -
  define db1 where "db1 = (if Node_ConnectedSession (mget zero_Node (Nodes db) nid) = sid \<or>
      Node_ConnectedSession (mget zero_Node (Nodes db) nid) = []
    then markDisconnectedNode (recordWorkerFlapEvent (mget zero_Node (Nodes db) nid) ev now cfg) db else db)"
  define running where "running = filter (\<lambda>(_, attempt). runningOn nid attempt) (Attempts db)"
  have att: "Attempts db1 = Attempts db"
    by (simp add: db1_def)
  have dist: "distinct (map fst running)"
    using keyed_distinct [OF db_ok_tables(4) [OF assms]] by (simp add: running_def distinct_map_filter)
  have "map_of running aid = None" if "map_of (Attempts db) aid = Some a" "Attempt_NodeID a \<noteq> nid" for aid a
  proof -
    have "Attempt_NodeID b = nid" if "map_of running aid = Some b" for b
      using map_of_SomeD [OF that] by (simp add: running_def runningOn_def)
    moreover have "b = a" if "map_of running aid = Some b" for b
      using map_of_SomeD [OF that] \<open>map_of (Attempts db) aid = Some a\<close> keyed_distinct [OF db_ok_tables(4) [OF assms]]
      by (auto simp: running_def dest: eq_key_imp_eq_value)
    ultimately show ?thesis
      using that(2) by (metis option.exhaust)
  qed
  then show ?thesis
    by (auto simp: others_kept_def failRunningAttempts_def Let_def db1_def [symmetric] att running_def [symmetric]
        failAll_attempts [OF dist])
qed

lemma attempts_replan [simp]: "Attempts (Mgr_db (replanAndDispatch J newID now m)) = Attempts (Mgr_db m)"
  by (rule attempts_frame.D_replan) simp

lemma others_kept_replan [simp]: "others_kept nid db (Mgr_db (replanAndDispatch J newID now m)) = others_kept nid db (Mgr_db m)"
  by (simp add: others_kept_def)

lemma others_kept_close:
  assumes "db_ok (Mgr_db m)" and "map_of (Mgr_workers m) sid = Some s" and "Session_nodeID s = nid"
  shows "others_kept nid (Mgr_db m) (Mgr_db (close newID sid now m))"
  using others_kept_disconnect [OF assms(1)] assms(2,3)
  by (auto simp: close_def closeWithFlapEvent_def Let_def split_beta intro: others_kept_same)

lemma others_kept_upsert:
  assumes "db_ok (Mgr_db m)" and "sessions_ok m" and "map_of (Mgr_workers m) sid = Some s"
    and "upsertWorkerState J sha newID sid node slots cached warm tok now m = (None, m')"
  shows "\<exists>nid. (Session_nodeID s = [] \<or> nid = Session_nodeID s) \<and> others_kept nid (Mgr_db m) (Mgr_db m')"
proof -
  have s: "sessionOf m sid = s" using assms(3) by (simp add: sessionOf_def mget_SomeD)
  define node' where "node' = normalizeWorkerNode newID node sid cached warm now (Mgr_db m)"
  have free: "Session_nodeID s = [] \<or> Session_nodeID s = Node_ID node'"
    using assms(4) s by (auto simp: upsertWorkerState_def Let_def node'_def split: if_splits)
  then obtain n t db where reg: "registerWorker sha newID (Mgr_cfg m) sid (Session_nodeID s) node' slots tok now (Mgr_db m) = Inr ((n, t), db)"
    using assms(4) s by (auto simp: upsertWorkerState_def Let_def node'_def split: sum.splits)
  have n: "Node_ID n = Node_ID node'" and db: "Attempts db = Attempts (Mgr_db m)" "db_ok db"
    using reg db_ok_registerWorker [OF assms(1) reg] by (auto elim!: registerWorker_Inr)
  define m1 where "m1 = m\<lparr>Mgr_db := db, Mgr_workers := mput sid (s\<lparr>Session_nodeID := Node_ID n\<rparr>) (Mgr_workers m),
    Mgr_sessions := mput (Node_ID n) sid (Mgr_sessions m)\<rparr>"
  define m2 where "m2 = (case map_of (Mgr_sessions m) (Node_ID n) of None \<Rightarrow> m1 | Some os \<Rightarrow> if os \<noteq> sid then close newID os now m1 else m1)"
  have m': "\<exists>m3. m' = replanAndDispatch J newID now m3 \<and> Mgr_db m3 = Mgr_db m2"
    using assms(4) free
    unfolding upsertWorkerState_def Let_def s node'_def [symmetric] reg sum.case prod.case m1_def [symmetric] m2_def [symmetric]
    by (auto simp: sendP2PConfigToSession_def)
  have "others_kept (Node_ID node') (Mgr_db m1) (Mgr_db m2)"
  proof (cases "map_of (Mgr_sessions m) (Node_ID n)")
    case None
    then show ?thesis by (simp add: m2_def others_kept_same)
  next
    case (Some os)
    then obtain o' where "map_of (Mgr_workers m) os = Some o'" "Session_nodeID o' = Node_ID n"
      using assms(2) by (auto simp: sessions_ok_def)
    then show ?thesis
      using Some others_kept_close [of m1 os o' "Node_ID node'" newID now] db(2) n
      by (auto simp: m2_def m1_def others_kept_same)
  qed
  then have "others_kept (Node_ID node') (Mgr_db m) (Mgr_db m2)"
    using db by (simp add: others_kept_def m1_def)
  then show ?thesis
    using m' free by (metis others_kept_replan)
qed

text \<open>Each handler, for a session registered as \<open>nid\<close>.\<close>

lemma handlers_refuse:
  "handleToken newID nid tp now m = (Some e, m') \<Longrightarrow> m' = m"
  "handleAttemptFailed newID nid fp now m = (Some e, m') \<Longrightarrow> m' = m"
  "handleComputeReport J newID nid r now m = (Some e, m') \<Longrightarrow> m' = m"
  "try_db f m = (Some e, m') \<Longrightarrow> m' = m"
  "thenReplan J newID now (try_db f m) = (Some e, m') \<Longrightarrow> m' = m"
  "upsertWorkerState J sha newID sid node slots cached warm tok now m = (Some e, m') \<Longrightarrow> m' = m"
  by (auto simp: handleToken_def handleAttemptFailed_def handleComputeReport_def try_db_def thenReplan_def upsertWorkerState_def Let_def
      split: option.splits sum.splits if_splits prod.splits)

lemma handlers_others:
  assumes "db_ok (Mgr_db m)"
  shows "handleToken newID nid tp now m = (None, m') \<Longrightarrow> others_kept nid (Mgr_db m) (Mgr_db m')"
    and "handleAttemptFailed newID nid fp now m = (None, m') \<Longrightarrow> others_kept nid (Mgr_db m) (Mgr_db m')"
    and "handleComputeReport J newID nid r now m = (None, m') \<Longrightarrow> others_kept nid (Mgr_db m) (Mgr_db m')"
  using others_kept_attempt [OF assms]
  by (auto simp: handleToken_def handleAttemptFailed_def handleComputeReport_def others_kept_same
      split: option.splits sum.splits if_splits)

lemma others_kept_telemetry: "others_kept nid db (recordWorkerUpdateTelemetry nid' uid st detail now db)"
  by (rule others_kept_same) (cases "map_of (Updates db) uid"; simp add: recordWorkerUpdateTelemetry_def Let_def del: if_split)

lemma state_others:
  "handleWorkerHeartbeat sid now m = (None, m') \<Longrightarrow> others_kept nid (Mgr_db m) (Mgr_db m')"
  "handleWorkerSlotState J newID sid msg now m = (None, m') \<Longrightarrow> others_kept nid (Mgr_db m) (Mgr_db m')"
  "handleWorkerArtifactState J newID sid msg now m = (None, m') \<Longrightarrow> others_kept nid (Mgr_db m) (Mgr_db m')"
  "handleWorkerTelemetry J newID sid msg now m = (None, m') \<Longrightarrow> others_kept nid (Mgr_db m) (Mgr_db m')"
proof -
  show "others_kept nid (Mgr_db m) (Mgr_db m')" if "handleWorkerSlotState J newID sid msg now m = (None, m')"
    using that by (auto simp: handleWorkerSlotState_def thenReplan_def try_db_def updateSlotState_def Let_def
        split: sum.splits if_splits intro!: others_kept_same)
  show "others_kept nid (Mgr_db m) (Mgr_db m')" if "handleWorkerArtifactState J newID sid msg now m = (None, m')"
    using that by (auto simp: handleWorkerArtifactState_def thenReplan_def artifactState_def clearCacheIntentRecord_def Let_def
        split: sum.splits intro!: others_kept_same)
  show "others_kept nid (Mgr_db m) (Mgr_db m')" if "handleWorkerTelemetry J newID sid msg now m = (None, m')"
    using that others_kept_telemetry by (auto simp: handleWorkerTelemetry_def Let_def others_kept_def split: sum.splits if_splits)
qed (auto simp: handleWorkerHeartbeat_def workerHeartbeat_def Let_def split: if_splits intro!: others_kept_same)


definition sample_two_workers :: Manager where
  "sample_two_workers = sample_manager\<lparr>Mgr_db := sample_running_db\<lparr>Users := []\<rparr>,
     Mgr_workers := [(''s1'', zero_workerSession\<lparr>Session_id := ''s1'', Session_nodeID := ''n1''\<rparr>),
       (''s2'', zero_workerSession\<lparr>Session_id := ''s2'', Session_nodeID := ''n2''\<rparr>)],
     Mgr_sessions := [(''n1'', ''s1''), (''n2'', ''s2'')]\<rparr>"


subsection \<open>Where the handlers trust the worker\<close>

text \<open>After the first output of an attempt, whoever sends a token for it is heard: the handler looks at
  the stream only, and neither at the attempt's node nor at the database.\<close>

lemma token_injection:
  assumes "streamForAttempt m (Token_AttemptID p) = Some active" and "Active_firstOutput active" and "Token_TaskID p = Active_taskID active"
  shows "handleToken newID nid p now m = (None, publishEvent (Token_AttemptID p) (EventToken p) m)"
  using assms by (simp add: handleToken_def)

text \<open>
  A worker can put a finished task back into the queue: the failure of an attempt is accepted
  when the attempt has been completed, and whether output was sent is taken from the message.
\<close>

lemma finished_task_requeued:
  "let db = sample_running_db\<lparr>Tasks := [(''t1'', sample_task\<lparr>Task_Status := TaskStatusCompleted\<rparr>)],
         Attempts := [(''a1'', sample_attempt\<lparr>Attempt_Status := TaskStatusCompleted, Attempt_FirstOutputSent := True\<rparr>)]\<rparr>;
       payload = \<lparr>Failed_TaskID = ''t1'', Failed_AttemptID = ''a1'', Failed_Phase = [], Failed_FailureReason = ''crash'',
         Failed_CanRetry = True, Failed_FirstOutputSent = False\<rparr>
   in case attemptFailed (\<lambda>_ _. ''x'') zero_ManagerConfig ''n1'' payload 9 db of
        Inl e \<Rightarrow> False
      | Inr (_, db') \<Rightarrow> Task_Status (mget zero_Task (Tasks db') ''t1'') = TaskStatusQueued"
  by code_simp

text \<open>One attempt can be billed twice, by two reports with different identifiers.\<close>

definition sample_completed_report :: "string \<Rightarrow> ComputeReport" where
  "sample_completed_report rid = zero_ComputeReport\<lparr>Report_ID := rid, Report_AttemptID := ''a1'', Report_TaskID := ''t1'',
     Report_Status := TaskStatusCompleted\<rparr>"

lemma attempt_billed_twice:
  "case computeReport (\<lambda>_ _. ''x'') zero_ManagerConfig ''n1'' (sample_completed_report ''r1'') 9 sample_running_db of
     Inl e \<Rightarrow> False
   | Inr (_, db1) \<Rightarrow> (case computeReport (\<lambda>_ _. ''x'') zero_ManagerConfig ''n1'' (sample_completed_report ''r2'') 10 db1 of
       Inl e \<Rightarrow> False
     | Inr (_, db2) \<Rightarrow> User_ComputeBalance (mget zero_User (Users db1) ''client'') = 15 \<and>
         User_ComputeBalance (mget zero_User (Users db2) ''client'') = 10)"
  by code_simp

end
