(* ===== verification/Admin_Properties.thy ===== *)
theory Admin_Properties
  imports Artifacts Messages_Properties
begin

section \<open>Properties of the configuration\<close>

text \<open>
  The references between the tables of the configuration: a stored profile and a worker
  update name registered artifacts, and a policy names a stored profile. Every operation
  keeps them; what each operation of the administrator refuses.
\<close>

definition refs_ok :: "Database \<Rightarrow> bool" where
  "refs_ok db \<longleftrightarrow>
     list_all (\<lambda>p. list_all (mhas (Artifacts db)) (profileArtifactIDs p)) (mvals (Profiles db)) \<and>
     list_all (\<lambda>u. mhas (Artifacts db) (Update_ArtifactID u)) (mvals (Updates db)) \<and>
     list_all (\<lambda>pol. mhas (Profiles db) (Policy_ProfileID pol)) (mvals (Policies db))"

subsection \<open>The tables that the other transactions leave alone\<close>

definition config :: "Database \<Rightarrow> WorkloadProfile gomap \<times> Artifact gomap \<times> UpdateRecord gomap \<times> PlacementPolicy gomap" where
  "config db = (Profiles db, Artifacts db, Updates db, Policies db)"

lemma refs_ok_config: "config db' = config db \<Longrightarrow> refs_ok db' = refs_ok db"
  by (simp add: refs_ok_def config_def)

lemma config_update [simp]:
  "config (db\<lparr>Nodes := ns\<rparr>) = config db" "config (db\<lparr>Slots := ss\<rparr>) = config db" "config (db\<lparr>Tasks := ts\<rparr>) = config db"
  "config (db\<lparr>Attempts := as\<rparr>) = config db" "config (db\<lparr>Assignments := asg\<rparr>) = config db"
  "config (db\<lparr>CacheIntents := ci\<rparr>) = config db" "config (db\<lparr>ArtifactEvictions := ev\<rparr>) = config db"
  "config (db\<lparr>NodeTokenHashes := hs\<rparr>) = config db" "config (db\<lparr>APIKeys := keys\<rparr>) = config db"
  "config (db\<lparr>Settings := st\<rparr>) = config db" "config (db\<lparr>Users := us\<rparr>) = config db"
  "config (db\<lparr>ComputeLedger := es\<rparr>) = config db" "config (db\<lparr>Reports := rs\<rparr>) = config db"
  "config (appendAudit newID t a s md now db) = config db"
  by (simp_all add: config_def)

lemma config_foldl: "(\<And>d x. config (f d x) = config d) \<Longrightarrow> config (foldl f db xs) = config db"
  by (induction xs arbitrary: db) auto

lemma config_recordSlotFailure [simp]: "config (fst (recordSlotFailure newID db s r now t d)) = config db"
  by (simp add: config_def recordSlotFailure_def Let_def)

lemma config_markDisconnectedNode [simp]: "config (markDisconnectedNode n db) = config db"
  by (simp add: markDisconnectedNode_def Let_def)

lemma config_maintenance:
  "config (clearExpiredQuarantines newID now db) = config db"
  "config (Manager_clearExpiredWorkerSuppressions cfg now db) = config db"
  "config (storePlan plan db) = config db"
  "config (upsertArtifactEvictionRecord newID n art r st f now db) = config db"
  "config (markOfflineWorkers cfg nids ev now db) = config db"
  by (auto simp: clearExpiredQuarantines_def Manager_clearExpiredWorkerSuppressions_def clearExpiredWorkerSuppressions_def
      storePlan_def applyPlacementDrainState_def upsertArtifactEvictionRecord_def markOfflineWorkers_def Let_def config_foldl
      split: prod.split)

lemma config_tasks:
  "config (markTaskCancelRequested newID tid reason now db) = config db"
  "config (failTask tid reason now db) = config db"
  "config (markAttemptFailed newID cfg aid phase reason canRetry out now db) = config db"
  "config (failDisconnectedAttempt newID cfg now aid attempt db) = config db"
  "storeNewTask newID task enforce db = Inr db' \<Longrightarrow> config db' = config db"
  "reserveAttemptInDB newID task profile effective slot att now db = Inr db' \<Longrightarrow> config db' = config db"
  by (auto simp: markTaskCancelRequested_def failTask_def markAttemptFailed_def failDisconnectedAttempt_def markDisconnectedTask_def
      markDisconnectedSlot_def storeNewTask_def reserveAttemptInDB_def Let_def split_beta split: option.splits if_splits)

lemma config_upsertWorkerSlots [simp]: "config (upsertWorkerSlots node slots now db) = config db"
  unfolding upsertWorkerSlots_def by (rule config_foldl) (simp add: upsertWorkerSlot_def Let_def)

lemma config_worker:
  "config (snd (failRunningAttempts newID cfg sid nid ev now db)) = config db"
  "registerWorker sha newID cfg sid sn node slots tok now db = Inr (reg, db') \<Longrightarrow> config db' = config db"
  "config (workerHeartbeat nid now db) = config db"
  "updateSlotState nid sp now db = Inr db' \<Longrightarrow> config db' = config db"
  "config (artifactState newID nid ap now db) = config db"
  "recordFirstOutput newID nid tp now db = Inr db' \<Longrightarrow> config db' = config db"
  "attemptStarted nid aid tid db = Inr db' \<Longrightarrow> config db' = config db"
  "attemptLease nid aid tid now db = Inr db' \<Longrightarrow> config db' = config db"
  "recordCacheIntent newID n art act now db = Inr db' \<Longrightarrow> config db' = config db"
proof -
  show "config (snd (failRunningAttempts newID cfg sid nid ev now db)) = config db"
    by (simp add: failRunningAttempts_def Let_def config_foldl config_tasks split_beta)
  show "config db' = config db" if "registerWorker sha newID cfg sid sn node slots tok now db = Inr (reg, db')"
    using that by (auto simp: registerWorker_def authorizeWorkerNode_def Let_def split: sum.splits prod.splits if_splits)
  show "config (artifactState newID nid ap now db) = config db"
    by (simp add: artifactState_def Let_def config_maintenance(4) clearCacheIntentRecord_def del: eviction_sel)
qed (auto simp: workerHeartbeat_def updateSlotState_def recordFirstOutput_def attemptStarted_def attemptLease_def
    recordCacheIntent_def clearCacheIntentRecord_def Let_def split: sum.splits if_splits option.splits)

lemma config_attemptFailed: "attemptFailed newID cfg nid fp now db = Inr (fp', db') \<Longrightarrow> config db' = config db"
  by (auto simp: attemptFailed_def Let_def split_beta split: sum.splits)

lemma config_ledger [simp]: "config (appendLedgerEntry newID now e db) = config db"
  by (simp add: appendLedgerEntry_def applyLedgerBalance_def Let_def)

lemma config_accounting [simp]: "config (fst (applyReportAccounting newID db r now)) = config db"
proof -
  have "config (appendConsumptionLedger newID r' now d) = config d" "config (appendProductionLedger newID r' now d) = config d" for r' d
    by (simp_all add: appendConsumptionLedger_def appendProductionLedger_def Let_def)
  then show ?thesis
    by (simp add: applyReportAccounting_eq)
qed

lemma config_computeReport: "computeReport newID cfg nid r now db = Inr (r', db') \<Longrightarrow> config db' = config db"
  by (auto simp: computeReport_def acceptReport_def Let_def split_beta split: sum.splits if_splits)

lemma set_mvals_mput: "set (mvals (mput k v m)) \<subseteq> insert v (set (mvals m))"
  by (induction m) (auto simp: mput_def mvals_def split: if_splits)

lemma set_mvals_sub: "set (mvals (mdel k m)) \<subseteq> set (mvals m)" "set (mvals (mfilter P m)) \<subseteq> set (mvals m)"
  by (auto simp: set_mvals mdel_def mfilter_def AList.delete_eq)

lemma refs_ok_telemetry: "refs_ok db \<Longrightarrow> refs_ok (recordWorkerUpdateTelemetry nid uid st detail now db)"
proof (cases "map_of (Updates db) uid")
  case None
  then show "refs_ok db \<Longrightarrow> ?thesis" by (simp add: recordWorkerUpdateTelemetry_def)
next
  case (Some u)
  obtain u' ns where r: "recordWorkerUpdateTelemetry nid uid st detail now db = db\<lparr>Updates := mput uid u' (Updates db), Nodes := ns\<rparr>"
      "Update_ArtifactID u' = Update_ArtifactID u"
    using Some by (simp only: recordWorkerUpdateTelemetry_def Let_def option.case) (auto split: if_splits)
  have "u \<in> set (mvals (Updates db))"
    using Some by (auto simp: set_mvals dest: map_of_SomeD)
  then show "refs_ok db \<Longrightarrow> ?thesis"
    using r(2) set_mvals_mput [of uid u' "Updates db"] by (auto simp: r(1) refs_ok_def list_all_iff)
qed

interpretation refs_inv: db_invariant refs_ok
  by unfold_locales (auto simp: refs_ok_telemetry config_maintenance config_tasks config_worker(1,3,5)
      intro: refs_ok_config [THEN iffD2]
      dest: config_tasks(5,6) config_worker(2,4,6-9) config_attemptFailed config_computeReport)

subsection \<open>The administrator's transactions\<close>

lemma mhas_mdel [simp]: "mhas (mdel k m) k' \<longleftrightarrow> k' \<noteq> k \<and> mhas m k'"
  by (auto simp: mhas_def)

lemma db_ok_admin:
  assumes "db_ok db"
  shows "upsertAdminNode newID nreq now db = Inr db' \<Longrightarrow> db_ok db'"
    and "deleteNode newID nid now db = Inr db' \<Longrightarrow> db_ok db'"
    and "upsertProfile newID profile now db = Inr db' \<Longrightarrow> db_ok db'"
    and "deleteProfile newID pid now db = Inr db' \<Longrightarrow> db_ok db'"
    and "upsertPolicy newID policy now db = Inr db' \<Longrightarrow> db_ok db'"
    and "storeUpdate newID update now db = Inr db' \<Longrightarrow> db_ok db'"
    and "deleteArtifactRecord newID aid now db = Inr (art, db') \<Longrightarrow> db_ok db'"
    and "unban newID ureq now db = (e, db') \<Longrightarrow> db_ok db'"
proof -
  show "db_ok db'" if "upsertAdminNode newID nreq now db = Inr db'"
    using that assms unfolding upsertAdminNode_def Let_def
    by (simp split: if_split_asm del: if_split) (auto intro!: db_ok_put(1))
  show "db_ok db'" if "deleteNode newID nid now db = Inr db'"
    using that assms by (auto simp: deleteNode_def db_ok_def tables_ok_def split: option.splits if_splits)
  show "db_ok db'" if "storeUpdate newID update now db = Inr db'"
  proof -
    have "distinct (map fst (foldl markUpdatePending ns nids))" if "distinct (map fst ns)" for ns nids
      using that by (induction nids arbitrary: ns) (auto simp: markUpdatePending_def)
    then show ?thesis
      using that assms by (auto simp: storeUpdate_def Let_def db_ok_tables intro!: db_ok_set split: option.splits if_splits)
  qed
  have "db_ok (snd (unbanNode newID n now d))" "db_ok (snd (unbanSlot newID sl now d))" if "db_ok d" for n sl d
    using that by (auto simp: unbanNode_def unbanSlot_def Let_def intro!: db_ok_put split: option.split)
  then show "db_ok db'" if "unban newID ureq now db = (e, db')"
    using that assms by (auto simp: unban_def split: prod.splits option.splits) (metis snd_conv)+
qed (use assms in \<open>auto simp: upsertProfile_def deleteProfile_def upsertPolicy_def deleteArtifactRecord_def Let_def
    split: option.splits if_splits\<close>)

lemma profileArtifactIDs_update [simp]:
  "profileArtifactIDs (p\<lparr>Profile_Version := v\<rparr>) = profileArtifactIDs p"
  "profileArtifactIDs (p\<lparr>Profile_CreatedAt := t\<rparr>) = profileArtifactIDs p"
  "profileArtifactIDs (p\<lparr>Profile_ComputeCost := c\<rparr>) = profileArtifactIDs p"
proof -
  have "normalizeVariant (p\<lparr>Profile_Version := v\<rparr>) = normalizeVariant p"
    "normalizeVariant (p\<lparr>Profile_CreatedAt := t\<rparr>) = normalizeVariant p"
    "normalizeVariant (p\<lparr>Profile_ComputeCost := c\<rparr>) = normalizeVariant p"
    by (intro ext; cases p; simp only: normalizeVariant_def WorkloadProfile.simps)+
  then show "profileArtifactIDs (p\<lparr>Profile_Version := v\<rparr>) = profileArtifactIDs p"
    "profileArtifactIDs (p\<lparr>Profile_CreatedAt := t\<rparr>) = profileArtifactIDs p"
    "profileArtifactIDs (p\<lparr>Profile_ComputeCost := c\<rparr>) = profileArtifactIDs p"
    by (simp_all add: profileArtifactIDs_def ProfileRuntimeVariants_def)
qed

lemma refs_okD:
  assumes "refs_ok db"
  shows "(k, p) \<in> set (Profiles db) \<Longrightarrow> \<forall>aid \<in> set (profileArtifactIDs p). mhas (Artifacts db) aid"
    and "(k, u) \<in> set (Updates db) \<Longrightarrow> mhas (Artifacts db) (Update_ArtifactID u)"
    and "(k, pol) \<in> set (Policies db) \<Longrightarrow> mhas (Profiles db) (Policy_ProfileID pol)"
  using assms by (force simp: refs_ok_def list_all_iff set_mvals)+

lemma refs_ok_audit [simp]: "refs_ok (appendAudit newID t a s md now db) = refs_ok db"
  by (simp add: refs_ok_def)

lemma refs_ok_putProfile:
  assumes "refs_ok db" "\<forall>aid \<in> set (profileArtifactIDs p). mhas (Artifacts db) aid"
  shows "refs_ok (db\<lparr>Profiles := mput k p (Profiles db)\<rparr>)"
  using assms set_mvals_mput [of k p "Profiles db"] by (auto simp: refs_ok_def list_all_iff)

lemma refs_ok_putPolicy:
  assumes "refs_ok db" "mhas (Profiles db) (Policy_ProfileID p)"
  shows "refs_ok (db\<lparr>Policies := mput k p (Policies db)\<rparr>)"
  using assms set_mvals_mput [of k p "Policies db"] by (auto simp: refs_ok_def list_all_iff)

lemma refs_ok_admin:
  assumes "refs_ok db"
  shows "upsertAdminNode newID nreq now db = Inr db' \<Longrightarrow> refs_ok db'"
    and "deleteNode newID nid now db = Inr db' \<Longrightarrow> refs_ok db'"
    and "unban newID ureq now db = (e, db') \<Longrightarrow> refs_ok db'"
    and "setProfileComputeCost newID creq now db = Inr db' \<Longrightarrow> refs_ok db'"
    and "upsertProfile newID profile now db = Inr db' \<Longrightarrow> refs_ok db'"
    and "deleteProfile newID pid now db = Inr db' \<Longrightarrow> refs_ok db'"
    and "upsertPolicy newID policy now db = Inr db' \<Longrightarrow> refs_ok db'"
    and "storeUpdate newID update now db = Inr db' \<Longrightarrow> refs_ok db'"
    and "deleteArtifactRecord newID aid now db = Inr (art, db') \<Longrightarrow> refs_ok db'"
    and "refs_ok (storeArtifact newID ev artifact now db)"
proof -
  show "refs_ok db'" if "upsertAdminNode newID nreq now db = Inr db'"
    using that assms unfolding upsertAdminNode_def Let_def
    by (simp split: if_split_asm del: if_split) (auto intro: refs_ok_config [THEN iffD2])
  show "refs_ok db'" if "deleteNode newID nid now db = Inr db'"
    using that assms by (auto simp: deleteNode_def split: option.splits if_splits intro: refs_ok_config [THEN iffD2])
  have "config (snd (unbanNode newID n now d)) = config d" "config (snd (unbanSlot newID sl now d)) = config d" for n sl d
    by (simp_all add: unbanNode_def unbanSlot_def Let_def split: option.split)
  then have "config (snd (unban newID ureq now db)) = config db"
    by (simp add: unban_def split: prod.split option.split) (metis snd_conv)
  then show "refs_ok db'" if "unban newID ureq now db = (e, db')"
    using that assms refs_ok_config by (metis snd_conv)
  show "refs_ok db'" if "setProfileComputeCost newID creq now db = Inr db'"
    using that assms refs_okD(1) [OF assms] by (auto simp: setProfileComputeCost_def Let_def split: option.splits if_splits
        intro!: refs_ok_putProfile dest!: map_of_SomeD)
  show "refs_ok db'" if "upsertProfile newID profile now db = Inr db'"
    using that assms by (auto simp: upsertProfile_def Let_def find_None_iff split: option.splits if_splits intro!: refs_ok_putProfile)
  show "refs_ok db'" if "deleteProfile newID pid now db = Inr db'"
  proof -
    have "db' = appendAudit newID ''profile.deleted'' ''admin'' pid [] now (db\<lparr>Profiles := mdel pid (Profiles db),
        Policies := mfilter (\<lambda>_ policy. Policy_ProfileID policy \<noteq> pid) (Policies db),
        Assignments := mfilter (\<lambda>_ assignment. Asg_ProfileID assignment \<noteq> pid) (Assignments db)\<rparr>)"
      using that by (auto simp: deleteProfile_def split: if_splits)
    moreover have "Policy_ProfileID p \<noteq> pid" if "p \<in> set (mvals (mfilter (\<lambda>_ policy. Policy_ProfileID policy \<noteq> pid) (Policies db)))" for p
      using that by (auto simp: set_mvals mfilter_def)
    ultimately show ?thesis
      using assms set_mvals_sub(1) [of pid "Profiles db"] set_mvals_sub(2) [of "\<lambda>_ policy. Policy_ProfileID policy \<noteq> pid" "Policies db"]
      by (auto simp: refs_ok_def list_all_iff)
  qed
  show "refs_ok db'" if "upsertPolicy newID policy now db = Inr db'"
    using that assms by (auto simp: upsertPolicy_def Let_def split: option.splits if_splits intro!: refs_ok_putPolicy)
  show "refs_ok db'" if "storeUpdate newID update now db = Inr db'"
  proof -
    have "mhas (Artifacts db) (Update_ArtifactID update)"
      "config db' = (Profiles db, Artifacts db, mput (Update_ID update) update (Updates db), Policies db)"
      using that by (auto simp: storeUpdate_def config_def Let_def mhas_def split: option.splits if_splits)
    then show ?thesis
      using assms set_mvals_mput [of "Update_ID update" update "Updates db"] by (auto simp: refs_ok_def config_def list_all_iff)
  qed
  show "refs_ok db'" if "deleteArtifactRecord newID aid now db = Inr (art, db')"
    using that assms by (auto simp: deleteArtifactRecord_def artifactDeleteBlocker_def refs_ok_def list_all_iff find_None_iff
        split: option.splits if_splits)
  show "refs_ok (storeArtifact newID ev artifact now db)"
    using assms by (auto simp: storeArtifact_def refs_ok_def list_all_iff)
qed

text \<open>A request to unban that fails on its slot has already unbanned the node in memory.\<close>

lemma failed_unban_keeps_change:
  assumes "Unban_NodeID req \<noteq> []" "map_of (Nodes db) (Unban_NodeID req) = Some node" "Node_ID node = Unban_NodeID req"
    and "Unban_SlotID req \<noteq> []" "map_of (Slots db) (Unban_SlotID req) = None"
  shows "\<exists>db' node'. unban newID req now db = (Some (NotFound ''slot'' (Unban_SlotID req)), db') \<and>
    map_of (Nodes db') (Unban_NodeID req) = Some node' \<and> \<not> Node_Quarantined node'"
  using assms by (simp add: unban_def unbanNode_def unbanSlot_def Let_def)

text \<open>An update that targets an unknown node stores a node with no identity under that name.\<close>

lemma update_stores_blank_node:
  assumes "storeUpdate newID update now db = Inr db'" "Update_TargetNodes update = [n]" "\<not> mhas (Nodes db) n"
  shows "\<exists>node. map_of (Nodes db') n = Some node \<and> Node_ID node = [] \<and> Node_UpdateRequired node"
  using assms by (auto simp: storeUpdate_def markUpdatePending_def mhas_def mget_def Let_def split: option.splits if_splits)

subsection \<open>Deleting an artifact\<close>

definition managed_paths :: "string \<Rightarrow> string \<Rightarrow> Artifact \<Rightarrow> string set" where
  "managed_paths cwd artifactDir art =
     {p. pathInsideDir cwd p artifactDir \<and>
       (p = Artifact_Path art \<or> (\<exists>t. Artifact_Torrent art = Some t \<and> p = Torrent_MetaInfoPath t \<and> p \<noteq> []))}"

lemma removeManagedArtifactFile_paths:
  "map_of (removeManagedArtifactFile cwd art dir files) p = (if p \<in> managed_paths cwd dir art then None else map_of files p)"
  by (auto simp: removeManagedArtifactFile_def removeManagedMetainfoFile_def managed_paths_def Let_def split: option.split)

lemma deleteArtifactRecord_cases:
  obtains (missing) "map_of (Artifacts db) aid = None" "deleteArtifactRecord newID aid now db = Inl (DeleteError ''not_found'')"
    | (used) art where "map_of (Artifacts db) aid = Some art" "artifactDeleteBlocker db aid \<noteq> None"
        "deleteArtifactRecord newID aid now db = Inl (DeleteError ''artifact_in_use'')"
    | (deleted) art where "map_of (Artifacts db) aid = Some art" "artifactDeleteBlocker db aid = None"
        "deleteArtifactRecord newID aid now db =
           Inr (art, appendAudit newID ''artifact.deleted'' ''admin'' aid [] now (db\<lparr>Artifacts := mdel aid (Artifacts db)\<rparr>))"
  by (cases "map_of (Artifacts db) aid"; cases "artifactDeleteBlocker db aid = None") (auto simp: deleteArtifactRecord_def)

definition artifact_in_use :: "Database \<Rightarrow> string \<Rightarrow> bool" where
  "artifact_in_use db aid \<longleftrightarrow>
     (\<exists>k p. (k, p) \<in> set (Profiles db) \<and> aid \<in> set (profileArtifactIDs p)) \<or>
     (\<exists>k u. (k, u) \<in> set (Updates db) \<and> Update_ArtifactID u = aid)"

lemma artifactDeleteBlocker_iff: "artifactDeleteBlocker db aid \<noteq> None \<longleftrightarrow> artifact_in_use db aid"
proof -
  have "artifactDeleteBlocker db aid = None \<longleftrightarrow>
      find (\<lambda>profile. Contains (profileArtifactIDs profile) aid) (mvals (Profiles db)) = None \<and>
      find (\<lambda>update. Update_ArtifactID update = aid) (mvals (Updates db)) = None"
    by (auto simp: artifactDeleteBlocker_def split: option.split)
  also have "\<dots> \<longleftrightarrow> \<not> artifact_in_use db aid"
    by (auto simp: artifact_in_use_def find_None_iff set_mvals Contains_def)
  finally show ?thesis by simp
qed


definition sample_artifact_manager :: Manager where
  "sample_artifact_manager = sample_manager\<lparr>
     Mgr_cfg := (Mgr_cfg sample_manager)\<lparr>Cfg_ArtifactDir := ''/srv/art'', Cfg_WorkerToken := ''wt''\<rparr>,
     Mgr_db := sample_db\<lparr>Artifacts := [(''sha256:aa'', zero_Artifact\<lparr>Artifact_ID := ''sha256:aa'', Artifact_Path := ''/srv/art/aa.gguf''\<rparr>),
        (''sha256:bb'', zero_Artifact\<lparr>Artifact_ID := ''sha256:bb'', Artifact_Path := ''/home/bb.gguf''\<rparr>)],
       NodeTokenHashes := [(''n1'', ''sha256:nt'')],
       Assignments := [(''as'', zero_PlacementAssignment\<lparr>Asg_ID := ''as'', Asg_NodeID := ''n1'', Asg_ProfileID := ''p1'',
          Asg_DesiredCached := True\<rparr>)]\<rparr>\<rparr>"


subsection \<open>Serving an artifact\<close>

lemma list_ex_mvals: "list_ex P (mvals m) \<longleftrightarrow> (\<exists>k v. (k, v) \<in> set m \<and> P v)"
  by (force simp: list_ex_iff set_mvals)

text \<open>C33: The content of a file leaves the manager exactly for a request with the configured
  worker token, the identity and the token of a node, and an artifact that some assignment
  keeps in the cache of this node or some update sends to it; every other request gets an
  error status, no content and changes nothing.\<close>

theorem artifact_served_iff:
  "\<exists>reply m' body. handleWorkerArtifact sha256hex newID workerToken aid nodeID nodeToken now files m = (reply, m', body) \<and>
    (body = Some content \<longleftrightarrow>
       workerToken \<noteq> [] \<and> workerToken = Cfg_WorkerToken (Mgr_cfg m) \<and> TrimSpace aid \<noteq> [] \<and>
       nodeID \<noteq> [] \<and> nodeToken \<noteq> [] \<and> apiTokenHash sha256hex nodeToken = mget [] (NodeTokenHashes (Mgr_db m)) nodeID \<and>
       ((\<exists>k a. (k, a) \<in> set (Assignments (Mgr_db m)) \<and> Asg_NodeID a = nodeID \<and> Asg_DesiredCached a \<and>
           TrimSpace aid \<in> set (Profile_Artifacts (effectiveProfileForAssignment
             (mget zero_WorkloadProfile (Profiles (Mgr_db m)) (Asg_ProfileID a)) a))) \<or>
        (\<exists>k u. (k, u) \<in> set (Updates (Mgr_db m)) \<and> Update_ArtifactID u = TrimSpace aid \<and>
           (Update_TargetNodes u = [] \<or> nodeID \<in> set (Update_TargetNodes u)))) \<and>
       (\<exists>art. map_of (Artifacts (Mgr_db m)) (TrimSpace aid) = Some art \<and> map_of files (Artifact_Path art) = Some content)) \<and>
    (body = None \<longleftrightarrow> reply \<noteq> Reply 200 []) \<and> (body = None \<longrightarrow> m' = m)"
proof -
  have allowed: "artifactAllowedForNode (Mgr_db m) nodeID (TrimSpace aid) \<longleftrightarrow>
      (\<exists>k a. (k, a) \<in> set (Assignments (Mgr_db m)) \<and> Asg_NodeID a = nodeID \<and> Asg_DesiredCached a \<and>
         TrimSpace aid \<in> set (Profile_Artifacts (effectiveProfileForAssignment
           (mget zero_WorkloadProfile (Profiles (Mgr_db m)) (Asg_ProfileID a)) a))) \<or>
      (\<exists>k u. (k, u) \<in> set (Updates (Mgr_db m)) \<and> Update_ArtifactID u = TrimSpace aid \<and>
         (Update_TargetNodes u = [] \<or> nodeID \<in> set (Update_TargetNodes u)))"
    by (simp add: artifactAllowedForNode_def list_ex_mvals Contains_def)
  show ?thesis
    unfolding allowed [symmetric]
    by (auto simp: handleWorkerArtifact_def workerNodeTokenAuthorized_def artifactAllowedForNode_def cloneDatabase_def Let_def
        split: option.splits)
qed

theorem artifact_served_iff_witness:
  "snd (snd (handleWorkerArtifact (\<lambda>s. s) (\<lambda>_ _. ''x'') ''wt'' ''sha256:aa'' ''n1'' ''nt'' 1
     [(''/srv/art/aa.gguf'', ''M'')] sample_artifact_manager)) = Some ''M''"
proof -
  let ?m = "sample_artifact_manager"
  have "Cfg_WorkerToken (Mgr_cfg ?m) = ''wt''" "TrimSpace ''sha256:aa'' = ''sha256:aa''"
    "apiTokenHash (\<lambda>s. s) ''nt'' = mget [] (NodeTokenHashes (Mgr_db ?m)) ''n1''"
    "list_ex (\<lambda>a. Asg_NodeID a = ''n1'' \<and> Asg_DesiredCached a \<and> Contains (Profile_Artifacts (effectiveProfileForAssignment
       (mget zero_WorkloadProfile (Profiles (Mgr_db ?m)) (Asg_ProfileID a)) a)) ''sha256:aa'') (mvals (Assignments (Mgr_db ?m)))"
    "map_of [(''/srv/art/aa.gguf'', ''M'')] (Artifact_Path (the (map_of (Artifacts (Mgr_db ?m)) ''sha256:aa''))) = Some ''M''"
    "map_of (Artifacts (Mgr_db ?m)) ''sha256:aa'' \<noteq> None" by code_simp+
  then show ?thesis
    using artifact_served_iff [of "\<lambda>s. s" "\<lambda>_ _. ''x''" "''wt''" "''sha256:aa''" "''n1''" "''nt''" 1
        "[(''/srv/art/aa.gguf'', ''M'')]" ?m "''M''"]
    by (auto simp: list_ex_mvals Contains_def)
qed

end
