(* ===== verification/Connections.thy ===== *)
theory Connections
  imports Admin_Properties
begin

section \<open>Worker connections (handleWorkerWS, readLoop, writeLoop of manager_ws.go; tokens of manager_state.go)\<close>

text \<open>
  The life of a worker's connection: accepting it, one message read from it, one message
  written to it, and its end. The socket is the parameter of each step: what was read or
  whether the write failed. A request is what the handlers read of \<^verbatim>\<open>http.Request\<close>.
\<close>

record http_request =
  Http_queryToken :: string
  Http_authorization :: string
  Http_host :: string
  Http_tls :: bool
  Http_forwardedProto :: string
  Http_remoteHost :: string

definition bearerToken :: "http_request \<Rightarrow> string" where
  "bearerToken r =
     (let h = Http_authorization r in
      if HasPrefix (ToLower h) ''bearer '' then TrimSpace (drop 7 h) else [])"

definition bearerMatches :: "http_request \<Rightarrow> string \<Rightarrow> bool" where
  "bearerMatches r expected \<longleftrightarrow> bearerToken r = expected"

definition workerAuthorized :: "ManagerConfig \<Rightarrow> http_request \<Rightarrow> bool" where
  "workerAuthorized cfg r \<longleftrightarrow>
     (let token = (if Http_queryToken r = [] then bearerToken r else Http_queryToken r)
      in token \<noteq> [] \<and> token = Cfg_WorkerToken cfg)"

definition baseURL :: "ManagerConfig \<Rightarrow> http_request \<Rightarrow> string" where
  "baseURL cfg r =
     (if Cfg_ExternalURL cfg \<noteq> [] then TrimRightSlash (Cfg_ExternalURL cfg)
      else (if Http_tls r \<or> Http_forwardedProto r = ''https'' then ''https'' else ''http'') @ ''://'' @ Http_host r)"

text \<open>The reply is the status of the handshake and, when it succeeds, the new session.\<close>

definition handleWorkerWS :: "id_source \<Rightarrow> http_request \<Rightarrow> bool \<Rightarrow> Manager \<Rightarrow> (reply + string) \<times> Manager" where
  "handleWorkerWS newID r upgradeOK m =
     (if \<not> workerAuthorized (Mgr_cfg m) r then (Inl (Reply 401 ''unauthorized''), m)
      else if \<not> upgradeOK then (Inl (Reply 400 []), m)
      else (let s = zero_workerSession\<lparr>Session_id := newID ''ses'' (length (Mgr_workers m)),
                  Session_baseURL := baseURL (Mgr_cfg m) r, Session_remoteHost := Http_remoteHost r\<rparr>
            in (Inr (Session_id s), m\<lparr>Mgr_workers := mput (Session_id s) s (Mgr_workers m)\<rparr>)))"

text \<open>
  One round of \<^verbatim>\<open>readLoop\<close>: a message, or \<^verbatim>\<open>None\<close> for an error of the socket. The error of a handler goes
  back to the worker as a message of its own, with the identifier of the request.
\<close>

definition readLoop ::
  "json_codec \<Rightarrow> (string \<Rightarrow> string) \<Rightarrow> id_source \<Rightarrow> (manager_error \<Rightarrow> string) \<Rightarrow> string \<Rightarrow> Envelope option \<Rightarrow> time \<Rightarrow> Manager \<Rightarrow> Manager" where
  "readLoop J sha256hex newID errorPayload sid received now m =
     (case received of
        None \<Rightarrow> close newID sid now m
      | Some msg \<Rightarrow>
          (case handleWorkerEnvelope J sha256hex newID sid msg now m of
             (None, m1) \<Rightarrow> m1
           | (Some e, m1) \<Rightarrow>
               snd (enqueueSession (\<lambda>_ _. Env_ID msg) sid
                 (zero_Envelope\<lparr>Env_ID := Env_ID msg, Env_Type := MsgError, Env_Payload := errorPayload e\<rparr>) m1)))"

text \<open>One round of \<^verbatim>\<open>writeLoop\<close>: the oldest message of the queue is taken and written.\<close>

definition writeLoop :: "id_source \<Rightarrow> string \<Rightarrow> bool \<Rightarrow> time \<Rightarrow> Manager \<Rightarrow> Envelope option \<times> Manager" where
  "writeLoop newID sid writeOK now m =
     (case map_of (Mgr_workers m) sid of
        None \<Rightarrow> (None, m)
      | Some s \<Rightarrow>
          if Session_done s \<and> (Mgr_pickDone m \<or> Session_send s = []) then (None, close newID sid now m)
          else (case Session_send s of
             [] \<Rightarrow> (None, m)
           | msg # rest \<Rightarrow>
               (let m1 = m\<lparr>Mgr_workers := mput sid (s\<lparr>Session_send := rest\<rparr>) (Mgr_workers m)\<rparr>
                in (Some msg, if writeOK then m1 else close newID sid now m1))))"

subsection \<open>Sessions\<close>

lemma sessions_ok_connect:
  assumes "sessions_ok m" and "\<not> mhas (Mgr_workers m) (newID ''ses'' (length (Mgr_workers m)))"
  shows "sessions_ok (snd (handleWorkerWS newID r ok m))"
  using assms by (fastforce simp: handleWorkerWS_def sessions_ok_def mhas_def Let_def intro!: keyed_mput)

lemma sessions_ok_readLoop:
  assumes "sessions_ok m" and "map_of (Mgr_workers m) sid = Some s"
  shows "sessions_ok (readLoop J sha newID ep sid received now m)"
proof (cases received)
  case None
  then show ?thesis using assms(1) by (simp add: readLoop_def close_def sessions_ok_close)
next
  case (Some msg)
  have "sessions_ok (snd (handleWorkerEnvelope J sha newID sid msg now m))" by (rule sessions_ok_envelope [OF assms])
  with Some show ?thesis by (auto simp: readLoop_def split: option.split prod.split intro!: sessions_ok_enqueue)
qed

lemma sessions_ok_writeLoop: "sessions_ok m \<Longrightarrow> sessions_ok (snd (writeLoop newID sid ok now m))"
  by (auto simp: writeLoop_def close_def Let_def split: option.split list.split intro!: sessions_ok_close sessions_ok_worker)

end
