(* ===== verification/Backends.thy ===== *)
theory Backends
  imports Store Paths
begin

section \<open>Where the database is kept (store_backend.go, store_sql.go)\<close>

text \<open>
  The two implementations of \<^verbatim>\<open>storeBackend\<close>: a JSON file that is replaced by renaming, and a table with one
  row. A document on the disk is what \<^verbatim>\<open>json.Unmarshal\<close> makes of it: a database, nothing, or text that is
  not a database. What the operating system and the drivers answer are the outcomes \<open>file_io\<close> and \<open>sql_io\<close>.
  The locale states what the store relies on, and both backends provide it, so that the store of
  \<^verbatim>\<open>Store\<close>, with its abstract disk, is what runs on either of them.
\<close>

datatype document = Saved Database | Blank | Garbage string

definition unmarshalDatabase :: "document \<Rightarrow> string + Database option" where
  "unmarshalDatabase doc = (case doc of Saved db \<Rightarrow> Inr (Some db) | Blank \<Rightarrow> Inr None | Garbage _ \<Rightarrow> Inl ''read database'')"

text \<open>The session of a node has no place in the document, as in a clone.\<close>

definition marshalDatabase :: "Database \<Rightarrow> document" where
  "marshalDatabase db = Saved (cloneDatabase db)"

subsection \<open>The JSON file\<close>

text \<open>A write that fails may leave anything in the temporary file.\<close>

record file_io =
  Io_dir :: "string option"
  Io_read :: "string option"
  Io_marshal :: "string option"
  Io_write :: "(string \<times> document) option"
  Io_rename :: "string option"

type_synonym disk = "document gomap"

definition jsonFileBackend_Load :: "string \<Rightarrow> file_io \<Rightarrow> disk \<Rightarrow> string + Database option" where
  "jsonFileBackend_Load path io disk =
     (case Io_dir io of
        Some e \<Rightarrow> Inl e
      | None \<Rightarrow>
          (case map_of disk path of
             None \<Rightarrow> Inr None
           | Some doc \<Rightarrow> (case Io_read io of Some e \<Rightarrow> Inl e | None \<Rightarrow> unmarshalDatabase doc)))"

definition jsonFileBackend_Save :: "string \<Rightarrow> file_io \<Rightarrow> Database \<Rightarrow> disk \<Rightarrow> string option \<times> disk" where
  "jsonFileBackend_Save path io db disk =
     (case Io_dir io of
        Some e \<Rightarrow> (Some e, disk)
      | None \<Rightarrow> (case Io_marshal io of Some e \<Rightarrow> (Some e, disk) | None \<Rightarrow>
          (let tmp = path @ ''.tmp'' in
           case Io_write io of
             Some (e, left) \<Rightarrow> (Some e, mput tmp left disk)
           | None \<Rightarrow>
               (let disk1 = mput tmp (marshalDatabase db) disk in
                case Io_rename io of
                  Some e \<Rightarrow> (Some e, disk1)
                | None \<Rightarrow> (None, mput path (marshalDatabase db) (mdel tmp disk1))))))"

subsection \<open>The SQL table\<close>

text \<open>A statement that fails leaves the row as it is; \<open>Sql_exec\<close> is also the error of \<^verbatim>\<open>json.Marshal\<close> before it.\<close>

record sql_io =
  Sql_query :: "string option"
  Sql_exec :: "string option"

type_synonym comrad_state = "document option"

definition sqlBackend_Load :: "sql_io \<Rightarrow> comrad_state \<Rightarrow> string + Database option" where
  "sqlBackend_Load io row =
     (case Sql_query io of
        Some e \<Rightarrow> Inl e
      | None \<Rightarrow> (case row of None \<Rightarrow> Inr None | Some doc \<Rightarrow> unmarshalDatabase doc))"

definition sqlBackend_Save :: "sql_io \<Rightarrow> Database \<Rightarrow> comrad_state \<Rightarrow> string option \<times> comrad_state" where
  "sqlBackend_Save io db row = (case Sql_exec io of Some e \<Rightarrow> (Some e, row) | None \<Rightarrow> (None, Some (marshalDatabase db)))"

subsection \<open>The choice of a backend\<close>

record StoreConfig =
  SCfg_Mode :: string
  SCfg_DatabaseURL :: string
  SCfg_SQLitePath :: string

definition sqlitePath :: "string \<Rightarrow> string" where
  "sqlitePath path = (if path = [] then ''data/comrad.sqlite'' else path)"

definition StorageModePostgres :: string where "StorageModePostgres = ''postgres''"
definition StorageModeSQLite :: string where "StorageModeSQLite = ''sqlite''"
definition StorageModeAuto :: string where "StorageModeAuto = ''auto''"

definition normalizeStorageMode :: "string \<Rightarrow> string" where
  "normalizeStorageMode mode =
     (if mode = StorageModePostgres \<or> mode = StorageModeSQLite then mode else StorageModeAuto)"

text \<open>
  \<open>openPostgres\<close> and \<open>openSQLite\<close> are the outcomes of \<^verbatim>\<open>OpenPostgresStore\<close> for a URL that is set and of
  \<^verbatim>\<open>OpenSQLiteStore\<close> for a path: the connection, then \<open>openStoreWithBackend\<close> on what the backend loads.
\<close>

definition openRequiredPostgresStore :: "(string \<Rightarrow> string + Store) \<Rightarrow> string \<Rightarrow> string + Store" where
  "openRequiredPostgresStore openPostgres databaseURL =
     (if databaseURL = [] then Inl ''COMRAD_DATABASE_URL is required when storage mode is postgres'' else openPostgres databaseURL)"

definition openAutoStore ::
  "id_source \<Rightarrow> time \<Rightarrow> string option \<Rightarrow> (string \<Rightarrow> string + Store) \<Rightarrow> (string \<Rightarrow> string + Store) \<Rightarrow> StoreConfig \<Rightarrow> string + Store" where
  "openAutoStore newID now auditErr openPostgres openSQLite cfg =
     (let fallback = (case openSQLite (sqlitePath (SCfg_SQLitePath cfg)) of
            Inl e \<Rightarrow> Inl e
          | Inr s \<Rightarrow>
              if SCfg_DatabaseURL cfg = [] then Inr s
              else Inr (fst (snd (Store_Audit newID ''storage.fallback'' ''system'' ''sqlite'' [(''from'', AnyString StorageModePostgres)] now auditErr s))))
      in if SCfg_DatabaseURL cfg = [] then fallback
         else case openPostgres (SCfg_DatabaseURL cfg) of Inr s \<Rightarrow> Inr s | Inl _ \<Rightarrow> fallback)"

definition OpenConfiguredStore ::
  "id_source \<Rightarrow> time \<Rightarrow> string option \<Rightarrow> (string \<Rightarrow> string + Store) \<Rightarrow> (string \<Rightarrow> string + Store) \<Rightarrow> StoreConfig \<Rightarrow> string + Store" where
  "OpenConfiguredStore newID now auditErr openPostgres openSQLite cfg =
     (let mode = normalizeStorageMode (SCfg_Mode cfg) in
      if mode = StorageModePostgres then openRequiredPostgresStore openPostgres (SCfg_DatabaseURL cfg)
      else if mode = StorageModeSQLite then openSQLite (sqlitePath (SCfg_SQLitePath cfg))
      else openAutoStore newID now auditErr openPostgres openSQLite cfg)"

text \<open>A path that ends in \<^verbatim>\<open>.json\<close> is a JSON file, any other one a SQLite database.\<close>

definition OpenStore :: "(string \<Rightarrow> string + Store) \<Rightarrow> (string \<Rightarrow> string + Store) \<Rightarrow> string \<Rightarrow> string + Store" where
  "OpenStore openJSON openSQLite path =
     (if path = [] then Inl ''store path is required''
      else if HasSuffix (ToLower path) ''.json'' then openJSON path
      else openSQLite path)"

subsection \<open>The contract\<close>

text \<open>
  An update of a store on a backend, and a run of updates, each with what happens to its save. The
  result is what the updates answer, the backend and the database in memory.
\<close>

definition Update_on ::
  "('e \<Rightarrow> Database \<Rightarrow> 's \<Rightarrow> string option \<times> 's) \<Rightarrow> (Database \<Rightarrow> string option \<times> Database) \<Rightarrow> 'e \<Rightarrow> 's \<times> Database \<Rightarrow> string option \<times> 's \<times> Database" where
  "Update_on save fn io st =
     (case st of (s, db) \<Rightarrow>
       (case fn db of
          (Some e, db1) \<Rightarrow> (Some e, s, db1)
        | (None, db1) \<Rightarrow> (case save io db1 s of (err, s1) \<Rightarrow> (err, s1, db1))))"

primrec run_on where
  "run_on save [] st = ([], st)"
| "run_on save (u # us) st =
     (let (err, st1) = Update_on save (fst u) (snd u) st; (errs, st2) = run_on save us st1 in (err # errs, st2))"

text \<open>The same run on the abstract store.\<close>

primrec run_store :: "((Database \<Rightarrow> string option \<times> Database) \<times> string option) list \<Rightarrow> Store \<Rightarrow> string option list \<times> Store" where
  "run_store [] s = ([], s)"
| "run_store (u # us) s =
     (let (err, s1, _) = Update (fst u) (snd u) s; (errs, s2) = run_store us s1 in (err # errs, s2))"

locale store_backend =
  fixes load :: "'s \<Rightarrow> string + Database option"
    and save :: "'e \<Rightarrow> Database \<Rightarrow> 's \<Rightarrow> string option \<times> 's"
  assumes load_saved: "save io db s = (None, s') \<Longrightarrow> load s' = Inr (Some (cloneDatabase db))"
    and load_kept: "save io db s = (Some e, s') \<Longrightarrow> load s' = load s"
begin

lemma update_refines:
  assumes "load s = Inr (Store_disk store)" and "Update_on save fn io (s, Store_db store) = (err, s', db')"
  shows "\<exists>saveErr store' called. Update fn saveErr store = (err, store', called) \<and> Store_db store' = db' \<and> load s' = Inr (Store_disk store')"
proof (cases "fn (Store_db store)")
  case (Pair failed db1)
  show ?thesis
  proof (cases failed)
    case (Some e)
    then have "Update fn None store = (err, store\<lparr>Store_db := db'\<rparr>, False)" "s' = s"
      using assms(2) Pair by (auto simp: Update_on_def Update_def)
    then show ?thesis using assms(1) by (intro exI [of _ None] exI [of _ "store\<lparr>Store_db := db'\<rparr>"] exI [of _ False]) simp
  next
    case None
    obtain saveErr s1 where s1: "save io db1 s = (saveErr, s1)" by fastforce
    define store1 where "store1 = snd (saveLocked saveErr (store\<lparr>Store_db := db1\<rparr>))"
    have "load s1 = Inr (Store_disk store1)"
      using s1 assms(1) load_saved load_kept by (cases saveErr) (auto simp: store1_def saveLocked_def)
    moreover have "Update fn saveErr store = (err, store1, saveErr = None)" "Store_db store1 = db'" "s1 = s'"
      using assms(2) Pair None s1 by (cases saveErr; auto simp: store1_def Update_on_def Update_def saveLocked_def)+
    ultimately show ?thesis by blast
  qed
qed

lemma run_refines:
  assumes "load s = Inr (Store_disk store)" and "run_on save us (s, Store_db store) = (errs, s', db')"
  shows "\<exists>saveErrs store'. length saveErrs = length us \<and> run_store (zip (map fst us) saveErrs) store = (errs, store') \<and>
    Store_db store' = db' \<and> load s' = Inr (Store_disk store')"
  using assms
proof (induction us arbitrary: s store errs)
  case (Cons u us)
  obtain err s1 db1 where u: "Update_on save (fst u) (snd u) (s, Store_db store) = (err, s1, db1)" by (metis prod_cases3)
  obtain saveErr store1 called where st1: "Update (fst u) saveErr store = (err, store1, called)" "Store_db store1 = db1" "load s1 = Inr (Store_disk store1)"
    using update_refines [OF Cons.prems(1) u] by blast
  obtain errs1 where errs1: "run_on save us (s1, Store_db store1) = (errs1, s', db')" "errs = err # errs1"
    using Cons.prems(2) u st1(2) by (auto split: prod.splits)
  from Cons.IH [OF st1(3) errs1(1)] obtain saveErrs store' where
    "length saveErrs = length us" "run_store (zip (map fst us) saveErrs) store1 = (errs1, store')" "Store_db store' = db'" "load s' = Inr (Store_disk store')"
    by blast
  then show ?case
    using st1(1) errs1(2) by (intro exI [of _ "saveErr # saveErrs"] exI [of _ store']) simp
qed simp

end

definition no_io_error :: file_io where
  "no_io_error = \<lparr>Io_dir = None, Io_read = None, Io_marshal = None, Io_write = None, Io_rename = None\<rparr>"

interpretation json_file: store_backend "jsonFileBackend_Load path no_io_error" "jsonFileBackend_Save path" for path
proof
  have tmp: "path @ ''.tmp'' \<noteq> path" by simp
  show "jsonFileBackend_Load path no_io_error disk' = Inr (Some (cloneDatabase db))"
    if "jsonFileBackend_Save path io db disk = (None, disk')" for io db disk disk'
    using that by (auto simp: jsonFileBackend_Save_def jsonFileBackend_Load_def no_io_error_def unmarshalDatabase_def marshalDatabase_def Let_def split: option.splits prod.splits)
  show "jsonFileBackend_Load path no_io_error disk' = jsonFileBackend_Load path no_io_error disk"
    if "jsonFileBackend_Save path io db disk = (Some e, disk')" for io db disk e disk'
    using that tmp by (auto simp: jsonFileBackend_Save_def jsonFileBackend_Load_def no_io_error_def Let_def split: option.splits prod.splits)
qed

interpretation sql_table: store_backend "sqlBackend_Load \<lparr>Sql_query = None, Sql_exec = None\<rparr>" sqlBackend_Save
  by unfold_locales (auto simp: sqlBackend_Save_def sqlBackend_Load_def unmarshalDatabase_def marshalDatabase_def split: option.splits)

text \<open>The interface: a call goes to the backend that the store was opened with.\<close>

datatype storeBackend = JSONFile string disk | SQLTable comrad_state

definition backend_Load :: "storeBackend \<Rightarrow> string + Database option" where
  "backend_Load b =
     (case b of
        JSONFile path disk \<Rightarrow> jsonFileBackend_Load path no_io_error disk
      | SQLTable row \<Rightarrow> sqlBackend_Load \<lparr>Sql_query = None, Sql_exec = None\<rparr> row)"

definition backend_Save :: "file_io \<times> sql_io \<Rightarrow> Database \<Rightarrow> storeBackend \<Rightarrow> string option \<times> storeBackend" where
  "backend_Save io db b =
     (case b of
        JSONFile path disk \<Rightarrow> map_prod id (JSONFile path) (jsonFileBackend_Save path (fst io) db disk)
      | SQLTable row \<Rightarrow> map_prod id SQLTable (sqlBackend_Save (snd io) db row))"

interpretation any_backend: store_backend backend_Load backend_Save
proof
  show "backend_Load b' = Inr (Some (cloneDatabase db))" if "backend_Save io db b = (None, b')" for io db b b'
    using that json_file.load_saved sql_table.load_saved
    by (cases b) (auto simp: backend_Save_def backend_Load_def map_prod_def split: prod.splits)
  show "backend_Load b' = backend_Load b" if "backend_Save io db b = (Some e, b')" for io db b e b'
    using that json_file.load_kept sql_table.load_kept
    by (cases b) (auto simp: backend_Save_def backend_Load_def map_prod_def split: prod.splits)
qed

lemma run_store_saved:
  assumes "run_store us s = (errs, s')" and "errs \<noteq> []" and "last errs = None"
  shows "Store_disk s' = Some (cloneDatabase (Store_db s'))"
  using assms
proof (induction us arbitrary: s errs)
  case (Cons u us)
  obtain err s1 called errs1 where u: "Update (fst u) (snd u) s = (err, s1, called)" and rest: "run_store us s1 = (errs1, s')"
      and errs: "errs = err # errs1"
    using Cons.prems(1) by (auto split: prod.splits)
  show ?case
  proof (cases "errs1 = []")
    case True
    then have "us = []" using rest by (cases us) (auto split: prod.splits)
    then show ?thesis
      using u rest Cons.prems(3) errs True
      by (auto simp: Update_def saveLocked_def split: prod.splits option.splits)
  next
    case False
    then show ?thesis using Cons.IH [OF rest] Cons.prems(3) errs by simp
  qed
qed simp



text \<open>With the automatic mode a store is opened if one of the two backends can be.\<close>

lemma openAutoStore_available:
  assumes "normalizeStorageMode (SCfg_Mode cfg) = StorageModeAuto"
  shows "\<not> isl (OpenConfiguredStore newID now auditErr openPostgres openSQLite cfg) \<longleftrightarrow>
    (SCfg_DatabaseURL cfg \<noteq> [] \<and> \<not> isl (openPostgres (SCfg_DatabaseURL cfg))) \<or> \<not> isl (openSQLite (sqlitePath (SCfg_SQLitePath cfg)))"
  using assms
  by (auto simp: OpenConfiguredStore_def openAutoStore_def StorageModeAuto_def StorageModePostgres_def StorageModeSQLite_def Let_def split: sum.splits)

end
