(* ===== verification/Startup.thy ===== *)
theory Startup
  imports Connections Backends
begin

section \<open>Starting the manager (NewManager of manager.go)\<close>

text \<open>
  The defaults of the configuration, the check of the secrets and the state that a manager
  starts with. \<open>loopback\<close> stands for \<^verbatim>\<open>managerAddrLoopback\<close>, which asks the network library
  whether an address is local, and \<open>dirErr\<close> for the error of creating the artifact directory.
\<close>

definition applyManagerPathDefaults :: "ManagerConfig \<Rightarrow> ManagerConfig" where
  "applyManagerPathDefaults cfg = cfg\<lparr>
     Cfg_Addr := (if Cfg_Addr cfg = [] then ''127.0.0.1:1922'' else Cfg_Addr cfg),
     Cfg_DBPath := (if Cfg_DBPath cfg = [] then ''data/comrad.sqlite'' else Cfg_DBPath cfg),
     Cfg_StorageMode := normalizeStorageMode (Cfg_StorageMode cfg),
     Cfg_ArtifactDir := (if Cfg_ArtifactDir cfg = [] then ''data/artifacts'' else Cfg_ArtifactDir cfg)\<rparr>"

definition seconds :: "int \<Rightarrow> duration" where
  "seconds n = n * 1000000000"

definition applyManagerRuntimeDefaults :: "ManagerConfig \<Rightarrow> ManagerConfig" where
  "applyManagerRuntimeDefaults cfg = cfg\<lparr>
     Cfg_QueueLimit := (if Cfg_QueueLimit cfg \<le> 0 then 32 else Cfg_QueueLimit cfg),
     Cfg_StreamWait := (if Cfg_StreamWait cfg \<le> 0 then seconds 15 else Cfg_StreamWait cfg),
     Cfg_AutoBalanceScaleDownCooldown := (if Cfg_AutoBalanceScaleDownCooldown cfg \<le> 0
        then defaultAutoBalanceScaleDownCooldown else Cfg_AutoBalanceScaleDownCooldown cfg),
     Cfg_QuarantineThreshold := (if Cfg_QuarantineThreshold cfg \<le> 0 then 3 else Cfg_QuarantineThreshold cfg),
     Cfg_QuarantineDuration := (if Cfg_QuarantineDuration cfg \<le> 0 then minutes 5 else Cfg_QuarantineDuration cfg)\<rparr>"

definition applyWorkerHealthDefaults :: "ManagerConfig \<Rightarrow> ManagerConfig" where
  "applyWorkerHealthDefaults cfg = cfg\<lparr>
     Cfg_WorkerHeartbeatTimeout := (if Cfg_WorkerHeartbeatTimeout cfg \<le> 0 then seconds 30 else Cfg_WorkerHeartbeatTimeout cfg),
     Cfg_WorkerFlapThreshold := (if Cfg_WorkerFlapThreshold cfg \<le> 0 then 4 else Cfg_WorkerFlapThreshold cfg),
     Cfg_WorkerFlapWindow := (if Cfg_WorkerFlapWindow cfg \<le> 0 then minutes 5 else Cfg_WorkerFlapWindow cfg),
     Cfg_WorkerFlapCooldown := (if Cfg_WorkerFlapCooldown cfg \<le> 0 then minutes 5 else Cfg_WorkerFlapCooldown cfg)\<rparr>"

definition devAdminToken :: string where "devAdminToken = ''dev-admin-token''"
definition devClientToken :: string where "devClientToken = ''dev-client-key''"
definition devWorkerToken :: string where "devWorkerToken = ''dev-worker-token''"

definition applyDevTokenDefaults :: "ManagerConfig \<Rightarrow> ManagerConfig" where
  "applyDevTokenDefaults cfg = cfg\<lparr>
     Cfg_AdminToken := (if Cfg_AdminToken cfg = [] then devAdminToken else Cfg_AdminToken cfg),
     Cfg_ClientAPIKey := (if Cfg_ClientAPIKey cfg = [] then devClientToken else Cfg_ClientAPIKey cfg),
     Cfg_WorkerToken := (if Cfg_WorkerToken cfg = [] then devWorkerToken else Cfg_WorkerToken cfg)\<rparr>"

definition applyManagerDefaults :: "ManagerConfig \<Rightarrow> ManagerConfig" where
  "applyManagerDefaults cfg =
     (let cfg1 = applyWorkerHealthDefaults (applyManagerRuntimeDefaults (applyManagerPathDefaults cfg))
      in if Cfg_AllowDevTokens cfg1 then applyDevTokenDefaults cfg1 else cfg1)"

definition managerUsesDevTokens :: "ManagerConfig \<Rightarrow> bool" where
  "managerUsesDevTokens cfg \<longleftrightarrow>
     Cfg_AdminToken cfg = devAdminToken \<or> Cfg_ClientAPIKey cfg = devClientToken \<or> Cfg_WorkerToken cfg = devWorkerToken"

definition validateManagerSecrets :: "(string \<Rightarrow> bool) \<Rightarrow> ManagerConfig \<Rightarrow> manager_error option" where
  "validateManagerSecrets loopback cfg =
     (if Cfg_AdminToken cfg = [] then Some (Required ''COMRAD_ADMIN_TOKEN'')
      else if Cfg_ClientAPIKey cfg = [] then Some (Required ''COMRAD_CLIENT_API_KEY'')
      else if Cfg_WorkerToken cfg = [] then Some (Required ''COMRAD_WORKER_TOKEN'')
      else if \<not> managerUsesDevTokens cfg then None
      else if \<not> Cfg_AllowDevTokens cfg then Some (Invalid ''dev tokens require COMRAD_ALLOW_DEV_DEFAULTS=true'')
      else if \<not> loopback (Cfg_Addr cfg) then Some (Invalid ''dev tokens require a loopback Manager address'')
      else None)"

definition NewManager ::
  "(string \<Rightarrow> string) \<Rightarrow> torrent_library \<Rightarrow> id_source \<Rightarrow> (string \<Rightarrow> bool) \<Rightarrow> string option \<Rightarrow> string option \<Rightarrow> string option \<Rightarrow>
   ManagerConfig \<Rightarrow> string + Database option \<Rightarrow> time \<Rightarrow> files \<Rightarrow> manager_error + files \<times> Manager" where
  "NewManager sha256hex buildMeta newID loopback dirErr saveErr ioErr cfg0 loaded now files =
     (let cfg = applyManagerDefaults cfg0 in
      case validateManagerSecrets loopback cfg of
        Some e \<Rightarrow> Inl e
      | None \<Rightarrow>
          (case dirErr of
             Some e \<Rightarrow> Inl (Invalid e)
           | None \<Rightarrow>
               (case openStoreWithBackend newID loaded saveErr now of
                  Inl e \<Rightarrow> Inl (Invalid e)
                | Inr store \<Rightarrow>
                    (let m = \<lparr>Mgr_cfg = cfg, Mgr_db = Store_db store, Mgr_workers = [], Mgr_sessions = [], Mgr_streams = [],
                           Mgr_queue = 0, Mgr_tickets = [], Mgr_pickDone = True\<rparr>
                     in Inr (migrateArtifactTorrentMetadata buildMeta ioErr files
                          (update_db (ensureConfiguredClientKey sha256hex cfg now) m))))))"

subsection \<open>What a manager starts with\<close>

lemma validateManagerSecrets_None:
  "validateManagerSecrets loopback cfg = None \<longleftrightarrow>
    Cfg_AdminToken cfg \<noteq> [] \<and> Cfg_ClientAPIKey cfg \<noteq> [] \<and> Cfg_WorkerToken cfg \<noteq> [] \<and>
    (managerUsesDevTokens cfg \<longrightarrow> Cfg_AllowDevTokens cfg \<and> loopback (Cfg_Addr cfg))"
  by (simp add: validateManagerSecrets_def)

lemma migrated_artifacts:
  obtains arts where "snd (migrateArtifactTorrentMetadata buildMeta ioErr files m) = update_db (\<lambda>db. db\<lparr>Artifacts := arts\<rparr>) m"
    "\<And>aid. mhas (Artifacts (Mgr_db m)) aid \<Longrightarrow> mhas arts aid"
proof -
  let ?f = "\<lambda>(files, arts) (aid, artifact).
       if torrentComplete artifact then (files, arts)
       else case ensureArtifactTorrentMetadata buildMeta ioErr artifact (Cfg_ArtifactDir (Mgr_cfg m)) files of
         (Inl _, files1) \<Rightarrow> (files1, arts)
       | (Inr updated, files1) \<Rightarrow> (files1, mput aid updated arts)"
  have "mhas (snd (foldl ?f (fs, arts) xs)) aid" if "mhas arts aid" for fs arts xs aid
    using that by (induction xs arbitrary: fs arts) (auto split: prod.split sum.split)
  then have kept: "mhas (snd (foldl ?f (files, Artifacts (Mgr_db m)) (Artifacts (Mgr_db m)))) aid" if "mhas (Artifacts (Mgr_db m)) aid" for aid
    using that .
  show ?thesis
  proof (cases "Settings_P2PEnabled (Settings (cloneDatabase (Mgr_db m)))")
    case True
    have "snd (migrateArtifactTorrentMetadata buildMeta ioErr files m) =
        update_db (\<lambda>db. db\<lparr>Artifacts := snd (foldl ?f (files, Artifacts (Mgr_db m)) (Artifacts (Mgr_db m)))\<rparr>) m"
      unfolding migrateArtifactTorrentMetadata_def Let_def by (simp only: True not_True_eq_False if_False split_def snd_conv)
    then show ?thesis using that kept by blast
  next
    case False
    then show ?thesis
      using that [of "Artifacts (Mgr_db m)"] by (simp add: migrateArtifactTorrentMetadata_def update_db_def)
  qed
qed

end
