(* ===== verification/Chat.thy ===== *)
theory Chat
  imports Startup
begin

section \<open>The client interface (manager_client.go, manager_chat.go)\<close>

text \<open>
  A chat request: it is parsed, resolved to a profile, admitted to the queue and stored as a
  task; then attempts are started until one ends the request. The events of an attempt are
  the queue of its stream. A request is answered at once with the whole content
  (\<open>collectChat\<close>) or as a stream of server-sent events (\<open>streamChat\<close>).
\<close>

subsection \<open>Admission\<close>

definition parseChatRequest :: "string + ChatCompletionRequest \<Rightarrow> reply + ChatCompletionRequest \<times> chatOptions" where
  "parseChatRequest body =
     (case body of
        Inl _ \<Rightarrow> Inl (Reply 400 ''bad_request'')
      | Inr req \<Rightarrow>
          if ChatReq_Model req = [] then Inl (Reply 400 ''bad_request'')
          else Inr (req, defaultChatOptions req))"

definition resolve_error_text :: "resolve_error \<Rightarrow> string" where
  "resolve_error_text e = (case e of ModelNotFound \<Rightarrow> ''model_not_found'' | InsufficientContext \<Rightarrow> ''insufficient_context'')"

definition resolveChatProfile :: "Database \<Rightarrow> ChatCompletionRequest \<Rightarrow> int \<Rightarrow> reply + WorkloadProfile" where
  "resolveChatProfile db req minContext =
     (case ResolveLLMProfile db (ChatReq_Model req) minContext of
        Inl e \<Rightarrow> Inl (Reply 400 (resolve_error_text e))
      | Inr profile \<Rightarrow> Inr profile)"

definition createChatTask ::
  "id_source \<Rightarrow> ChatCompletionRequest \<Rightarrow> int \<Rightarrow> WorkloadProfile \<Rightarrow> User \<Rightarrow> time \<Rightarrow> Manager \<Rightarrow> (reply + Task) \<times> Manager" where
  "createChatTask newID req minContext profile user now m =
     (let task = newChatTask newID req profile minContext user now (Mgr_db m) in
      case storeNewTask newID task (Cfg_EnforceBalance (Mgr_cfg m)) (Mgr_db m) of
        Inl InsufficientBalance \<Rightarrow> (Inl (Reply 402 ''insufficient_balance''), m)
      | Inl _ \<Rightarrow> (Inl (Reply 500 ''store_error''), m)
      | Inr db \<Rightarrow> (Inr task, m\<lparr>Mgr_db := db\<rparr>))"

text \<open>
  The part of \<^verbatim>\<open>handleChatCompletions\<close> before the first attempt. A place of the queue is
  taken before the task is stored, and given back when that fails.
\<close>

definition handleChatCompletions ::
  "id_source \<Rightarrow> User \<Rightarrow> string + ChatCompletionRequest \<Rightarrow> time \<Rightarrow> Manager \<Rightarrow>
   (reply + Task \<times> WorkloadProfile \<times> ChatCompletionRequest \<times> chatOptions) \<times> Manager" where
  "handleChatCompletions newID user body now m =
     (case parseChatRequest body of
        Inl e \<Rightarrow> (Inl e, m)
      | Inr (req, opts) \<Rightarrow>
          (case resolveChatProfile (cloneDatabase (Mgr_db m)) req (Opts_minContext opts) of
             Inl e \<Rightarrow> (Inl e, m)
           | Inr profile \<Rightarrow>
               (case acquireQueue m of
                  None \<Rightarrow> (Inl (Reply 503 FailureNoCapacity), m)
                | Some m1 \<Rightarrow>
                    (case createChatTask newID req (Opts_minContext opts) profile user now m1 of
                       (Inl e, m2) \<Rightarrow> (Inl e, releaseQueue m2)
                     | (Inr task, m2) \<Rightarrow> (Inr (task, profile, req, opts), m2)))))"

record model_view =
  Model_id :: string
  Model_alias :: string
  Model_logicalModel :: string
  Model_context :: int
  Model_variants :: "RuntimeModelVariant list"

definition handleModels :: "Database \<Rightarrow> model_view list" where
  "handleModels db0 =
     (let db = cloneDatabase db0 in
      map (\<lambda>profile. \<lparr>Model_id = Profile_ID profile, Model_alias = Profile_Alias profile,
          Model_logicalModel = ProfileLogicalModel profile, Model_context = minimumSufficientContext profile 1,
          Model_variants = ProfileRuntimeVariants profile\<rparr>)
        (filter (\<lambda>profile. \<not> (Profile_Kind profile \<noteq> ''llm.chat'' \<or> minimumSufficientContext profile 1 = 0)) (SortedProfiles db)))"

definition TrimSuffix :: "string \<Rightarrow> string \<Rightarrow> string" where
  "TrimSuffix s suffix = (if HasSuffix s suffix then take (length s - length suffix) s else s)"

text \<open>\<open>path\<close> is the rest of the path after \<^verbatim>\<open>/v1/jobs/\<close>; the task is the body of a successful \<^verbatim>\<open>GET\<close>.\<close>

definition handleJobs ::
  "json_codec \<Rightarrow> id_source \<Rightarrow> User \<Rightarrow> string \<Rightarrow> string \<Rightarrow> time \<Rightarrow> Manager \<Rightarrow> reply \<times> Task option \<times> Manager" where
  "handleJobs J newID user httpMethod path now m =
     (if path = [] then (Reply 404 ''not_found'', None, m)
      else if HasSuffix path ''/cancel'' then
        (let taskID = TrimSuffix (TrimSuffix path ''/cancel'') ''/'' in
         if httpMethod \<noteq> ''POST'' then (Reply 405 [], None, m)
         else case clientTask (cloneDatabase (Mgr_db m)) user taskID of
           None \<Rightarrow> (Reply 404 ''not_found'', None, m)
         | Some _ \<Rightarrow> (Reply 200 ''cancelled'', None, cancelTask J newID taskID FailureCancelledByClient now m))
      else if httpMethod \<noteq> ''GET'' then (Reply 405 [], None, m)
      else case clientTask (cloneDatabase (Mgr_db m)) user path of
        None \<Rightarrow> (Reply 404 ''not_found'', None, m)
      | Some task \<Rightarrow> (Reply 200 [], Some task, m))"

subsection \<open>Errors\<close>

text \<open>
  \<^verbatim>\<open>errorCode\<close>: \<^verbatim>\<open>None\<close> is the panic of \<^verbatim>\<open>strings.Fields(s)[0]\<close> on a text without a word. The
  argument is \<^verbatim>\<open>None\<close> for the nil error.
\<close>

definition errorCode :: "string option \<Rightarrow> string option" where
  "errorCode err =
     (case err of
        None \<Rightarrow> Some ''unknown''
      | Some s \<Rightarrow>
          if s = [] then Some ''unknown''
          else if ContainsSub s FailureNoCapacity then Some FailureNoCapacity
          else (case takeWhile (\<lambda>c. \<not> is_space c) (dropWhile is_space s) of [] \<Rightarrow> None | field \<Rightarrow> Some field))"

definition taskHasFirstOutput :: "Database \<Rightarrow> string \<Rightarrow> bool" where
  "taskHasFirstOutput db taskID \<longleftrightarrow>
     list_ex (\<lambda>attempt. Attempt_TaskID attempt = taskID \<and> Attempt_FirstOutputSent attempt) (mvals (Attempts db))"

subsection \<open>Answers as a whole\<close>

record collectResult =
  Collect_content :: string
  Collect_status :: int
  Collect_err :: "string option"
  Collect_retry :: bool

definition zero_collectResult :: collectResult where
  "zero_collectResult = \<lparr>Collect_content = [], Collect_status = 0, Collect_err = None, Collect_retry = False\<rparr>"

definition collectFailureResult :: "AttemptFailedPayload \<Rightarrow> collectResult" where
  "collectFailureResult failed =
     (if \<not> Failed_FirstOutputSent failed \<and> Failed_CanRetry failed then zero_collectResult\<lparr>Collect_retry := True\<rparr>
      else zero_collectResult\<lparr>Collect_status := 503, Collect_err := Some (Failed_FailureReason failed)\<rparr>)"

definition collectReportResult :: "ComputeReport \<Rightarrow> string \<Rightarrow> collectResult" where
  "collectReportResult report content =
     (if Report_Status report = TaskStatusCompleted
      then zero_collectResult\<lparr>Collect_content := content, Collect_status := 200\<rparr>
      else if Report_Status report = TaskStatusFailed \<and> Report_CanRetry report then zero_collectResult\<lparr>Collect_retry := True\<rparr>
      else zero_collectResult\<lparr>Collect_status := 503, Collect_err := Some (Report_FailureReason report)\<rparr>)"

definition collectErrorResult :: "string \<Rightarrow> bool \<Rightarrow> collectResult" where
  "collectErrorResult err retry =
     (if retry then zero_collectResult\<lparr>Collect_retry := True\<rparr>
      else zero_collectResult\<lparr>Collect_status := 503, Collect_err := Some err\<rparr>)"

definition handleCollectEvent :: "streamEvent \<Rightarrow> string \<Rightarrow> collectResult \<times> string" where
  "handleCollectEvent ev b =
     (case ev of
        EventToken token \<Rightarrow> (zero_collectResult, b @ Token_Token token)
      | EventFailed failed \<Rightarrow> (collectFailureResult failed, b)
      | EventReport report \<Rightarrow> (collectReportResult report b, b)
      | EventError err \<Rightarrow> (collectErrorResult err (b = []), b))"

text \<open>The oldest event of a stream, taken from its channel.\<close>

definition takeEvent :: "string \<Rightarrow> Manager \<Rightarrow> (streamEvent \<times> Manager) option" where
  "takeEvent aid m =
     (case streamForAttempt m aid of
        None \<Rightarrow> None
      | Some active \<Rightarrow>
          (case Active_events active of
             [] \<Rightarrow> None
           | ev # rest \<Rightarrow>
               Some (ev, m\<lparr>Mgr_streams := mput aid (active\<lparr>Active_events := rest\<rparr>) (Mgr_streams m)\<rparr>)))"

text \<open>
  One round of the loop of \<^verbatim>\<open>collectAttempt\<close>: the context is done, or an event is there, or
  the loop waits. A result with status 0 and no retry means that the loop goes on.
\<close>

definition collectAttempt ::
  "json_codec \<Rightarrow> id_source \<Rightarrow> bool \<Rightarrow> Task \<Rightarrow> string \<Rightarrow> string \<Rightarrow> time \<Rightarrow> Manager \<Rightarrow> (collectResult \<times> string) \<times> Manager" where
  "collectAttempt J newID ctxDone task aid b now m =
     (if ctxDone then
        ((zero_collectResult\<lparr>Collect_status := 499, Collect_err := Some ''context canceled''\<rparr>, b),
         cancelTask J newID (Task_ID task) FailureCancelledByClient now (unregisterStream aid m))
      else case takeEvent aid m of
        None \<Rightarrow> ((zero_collectResult, b), m)
      | Some (ev, m1) \<Rightarrow>
          (let (result, b1) = handleCollectEvent ev b
           in ((result, b1),
               if Collect_status result \<noteq> 0 \<or> Collect_retry result then unregisterStream aid m1 else m1)))"

text \<open>
  \<^verbatim>\<open>collectChat\<close> as rounds: it polls for an attempt, collects the events of one, or has
  answered with a status, the content and the error.
\<close>

datatype collect_phase = Polling | Collecting string string | Answered int string "string option"

definition start_error :: "begin_error \<Rightarrow> string" where
  "start_error e = (case e of BeginReserve TaskCancelled \<Rightarrow> FailureCancelledByClient | BeginReserve SlotUnavailable \<Rightarrow> ''slot_unavailable''
     | BeginDisconnected \<Rightarrow> FailureWorkerDisconnected)"

fun collectChat ::
  "json_codec \<Rightarrow> id_source \<Rightarrow> bool \<Rightarrow> time \<Rightarrow> Task \<Rightarrow> WorkloadProfile \<Rightarrow> ChatMessage list \<Rightarrow> int \<Rightarrow> float64 \<Rightarrow> time \<Rightarrow>
   collect_phase \<Rightarrow> Manager \<Rightarrow> collect_phase \<times> Manager" where
  "collectChat J newID ctxDone deadline task profile messages maxTokens temperature now Polling m =
     (case startAttempt J newID ctxDone deadline task profile messages maxTokens temperature now m of
        (Started aid, m1) \<Rightarrow> (Collecting aid [], m1)
      | (PollAgain, m1) \<Rightarrow> (Polling, m1)
      | (StartCancelled, m1) \<Rightarrow>
          (Answered 499 [] (Some (if ctxDone then ''context canceled'' else FailureCancelledByClient)), cancelTask J newID (Task_ID task) FailureCancelledByClient now m1)
      | (StartFailed (BeginReserve TaskCancelled), m1) \<Rightarrow>
          (Answered 499 [] (Some FailureCancelledByClient), cancelTask J newID (Task_ID task) FailureCancelledByClient now m1)
      | (StartFailed e, m1) \<Rightarrow> (Answered 503 [] (Some (start_error e)), m1)
      | (NoCapacity, m1) \<Rightarrow> (Answered 503 [] (Some FailureNoCapacity), m1))"
| "collectChat J newID ctxDone deadline task profile messages maxTokens temperature now (Collecting aid b) m =
     (case collectAttempt J newID ctxDone task aid b now m of
        ((result, b1), m1) \<Rightarrow>
          if Collect_retry result then (Polling, m1)
          else if Collect_status result \<noteq> 0 then (Answered (Collect_status result) (Collect_content result) (Collect_err result), m1)
          else (Collecting aid b1, m1))"
| "collectChat J newID ctxDone deadline task profile messages maxTokens temperature now (Answered s c e) m = (Answered s c e, m)"

text \<open>The reply to a request that is answered as a whole; \<^verbatim>\<open>None\<close> is a panic of \<^verbatim>\<open>errorCode\<close>.\<close>

definition chatReply :: "int \<Rightarrow> string option \<Rightarrow> reply option" where
  "chatReply status err =
     (if err = None then Some (Reply 200 []) else map_option (Reply status) (errorCode err))"

subsection \<open>Answers as a stream\<close>

text \<open>What is written to the client: a chunk with a token, the last chunk, the end mark and errors.\<close>

datatype sse = SSEToken string | SSEStop | SSEDone | SSEError string string

definition writeStreamFailure :: "AttemptFailedPayload \<Rightarrow> sse list \<times> bool \<times> bool" where
  "writeStreamFailure failed =
     (if \<not> Failed_FirstOutputSent failed \<and> Failed_CanRetry failed then ([], False, True)
      else ([SSEError (Failed_FailureReason failed) (Failed_Phase failed)], True, False))"

definition writeStreamReport :: "ComputeReport \<Rightarrow> sse list \<times> bool" where
  "writeStreamReport report =
     (if Report_Status report = TaskStatusCompleted then ([SSEStop, SSEDone], True)
      else ([SSEError (Report_FailureReason report) (Report_Phase report)], True))"

text \<open>The result is what is written, and whether the stream is done or the attempt is retried; \<^verbatim>\<open>None\<close> is a panic.\<close>

definition writeStreamEvent :: "Database \<Rightarrow> Task \<Rightarrow> streamEvent \<Rightarrow> (sse list \<times> bool \<times> bool) option" where
  "writeStreamEvent db task ev =
     (case ev of
        EventToken token \<Rightarrow> Some ([SSEToken (Token_Token token)], False, False)
      | EventFailed failed \<Rightarrow> Some (writeStreamFailure failed)
      | EventReport report \<Rightarrow> (case writeStreamReport report of (out, d) \<Rightarrow> Some (out, d, False))
      | EventError err \<Rightarrow>
          if \<not> taskHasFirstOutput db (Task_ID task) then Some ([], False, True)
          else (case errorCode (Some err) of None \<Rightarrow> None | Some code \<Rightarrow> Some ([SSEError code err], True, False)))"

definition streamAttempt ::
  "json_codec \<Rightarrow> id_source \<Rightarrow> bool \<Rightarrow> Task \<Rightarrow> string \<Rightarrow> time \<Rightarrow> Manager \<Rightarrow> (sse list \<times> bool \<times> bool) \<times> Manager" where
  "streamAttempt J newID ctxDone task aid now m =
     (if ctxDone then
        (([], True, False), unregisterStream aid (cancelTask J newID (Task_ID task) FailureCancelledByClient now m))
      else case takeEvent aid m of
        None \<Rightarrow> (([], False, False), m)
      | Some (ev, m1) \<Rightarrow>
          (case writeStreamEvent (cloneDatabase (Mgr_db m1)) task ev of
             None \<Rightarrow> (([], True, False), unregisterStream aid m1)
           | Some (out, d, retry) \<Rightarrow> ((out, d, retry), if d \<or> retry then unregisterStream aid m1 else m1)))"

datatype stream_phase = StreamPolling | Streaming string | StreamEnded

fun streamChat ::
  "json_codec \<Rightarrow> id_source \<Rightarrow> bool \<Rightarrow> time \<Rightarrow> Task \<Rightarrow> WorkloadProfile \<Rightarrow> ChatMessage list \<Rightarrow> int \<Rightarrow> float64 \<Rightarrow> time \<Rightarrow>
   stream_phase \<times> sse list \<Rightarrow> Manager \<Rightarrow> (stream_phase \<times> sse list) \<times> Manager" where
  "streamChat J newID ctxDone deadline task profile messages maxTokens temperature now (StreamPolling, out) m =
     (case startAttempt J newID ctxDone deadline task profile messages maxTokens temperature now m of
        (Started aid, m1) \<Rightarrow> ((Streaming aid, out), m1)
      | (PollAgain, m1) \<Rightarrow> ((StreamPolling, out), m1)
      | (StartCancelled, m1) \<Rightarrow> ((StreamEnded, out), cancelTask J newID (Task_ID task) FailureCancelledByClient now m1)
      | (StartFailed (BeginReserve TaskCancelled), m1) \<Rightarrow>
          ((StreamEnded, out), cancelTask J newID (Task_ID task) FailureCancelledByClient now m1)
      | (StartFailed e, m1) \<Rightarrow> ((StreamEnded, out @ [SSEError (start_error e) (start_error e)]), m1)
      | (NoCapacity, m1) \<Rightarrow> ((StreamEnded, out @ [SSEError FailureNoCapacity FailureNoCapacity]), m1))"
| "streamChat J newID ctxDone deadline task profile messages maxTokens temperature now (Streaming aid, out) m =
     (case streamAttempt J newID ctxDone task aid now m of
        ((written, d, retry), m1) \<Rightarrow>
          ((if retry then StreamPolling else if d then StreamEnded else Streaming aid, out @ written), m1))"
| "streamChat J newID ctxDone deadline task profile messages maxTokens temperature now (StreamEnded, out) m = ((StreamEnded, out), m)"

end
