(* ===== verification/Bank.thy ===== *)
theory Bank
  imports Chat_Properties
begin

section \<open>The accounts as a bank\<close>

text \<open>
  The abstract specification of the accounts: a balance per user and the set of reports that
  have been paid. It has three operations: open an account, adjust a balance, and settle
  a report, which takes its cost from the client and gives it to the owner of the node. The
  database implements it: \<open>bank_of\<close> is the abstraction, and every transaction of the manager
  is a sequence of operations of the bank.
\<close>

record bank =
  Bank_balance :: "string \<Rightarrow> int option"
  Bank_paid :: "string set"

definition pay :: "string \<Rightarrow> int \<Rightarrow> (string \<Rightarrow> int option) \<Rightarrow> string \<Rightarrow> int option" where
  "pay uid amount bal = (\<lambda>u. if u = uid then map_option (\<lambda>b. wrap64 (b + amount)) (bal u) else bal u)"

inductive bank_step :: "bank \<Rightarrow> bank \<Rightarrow> bool" where
  open_account: "uid \<noteq> [] \<Longrightarrow> Bank_balance b uid = None \<Longrightarrow> bank_step b (b\<lparr>Bank_balance := (Bank_balance b)(uid \<mapsto> 0)\<rparr>)"
| adjust: "Bank_balance b uid \<noteq> None \<Longrightarrow>
    bank_step b (b\<lparr>Bank_balance := pay uid amount (Bank_balance b), Bank_paid := insert [] (Bank_paid b)\<rparr>)"
| settle: "rid \<notin> Bank_paid b \<Longrightarrow> 0 < cost \<Longrightarrow> Bank_balance b client \<noteq> None \<or> Bank_balance b owner \<noteq> None \<Longrightarrow>
    bank_step b (b\<lparr>Bank_balance := pay owner cost (pay client (- cost) (Bank_balance b)), Bank_paid := insert rid (Bank_paid b)\<rparr>)"

inductive_cases bank_stepE: "bank_step b b'"

definition bank_of :: "Database \<Rightarrow> bank" where
  "bank_of db = \<lparr>Bank_balance = (\<lambda>uid. map_option User_ComputeBalance (map_of (Users db) uid)),
     Bank_paid = Ledger_ReportID ` set (ComputeLedger db)\<rparr>"

lemma bank_of_sel [simp]:
  "Bank_balance (bank_of db) uid = map_option User_ComputeBalance (map_of (Users db) uid)"
  "Bank_paid (bank_of db) = Ledger_ReportID ` set (ComputeLedger db)"
  by (simp_all add: bank_of_def)

lemma bank_of_books: "books db' = books db \<Longrightarrow> bank_of db' = bank_of db"
  by (simp add: bank_of_def books_def)

lemma bank_of_same: "Users db' = Users db \<Longrightarrow> ComputeLedger db' = ComputeLedger db \<Longrightarrow> bank_of db' = bank_of db"
  by (simp add: bank_of_def)

subsection \<open>Entries of the ledger\<close>

lemma bank_append:
  assumes "accounts_ok db" and "mhas (Users db) (Ledger_UserID e)"
  shows "bank_of (appendLedgerEntry newID now e db) = (bank_of db)\<lparr>
    Bank_balance := pay (Ledger_UserID e) (ledger_delta e) (Bank_balance (bank_of db)),
    Bank_paid := insert (Ledger_ReportID e) (Bank_paid (bank_of db))\<rparr>"
proof -
  have "map_option User_ComputeBalance (map_of (Users (appendLedgerEntry newID now e db)) uid) =
      pay (Ledger_UserID e) (ledger_delta e) (Bank_balance (bank_of db)) uid" for uid
    using books_balance [OF assms(1)]
    by (cases "map_of (Users db) uid") (auto simp: appendLedgerEntry_effect(1) [OF assms] pay_def wrap64_id)
  moreover have "Ledger_ReportID (stampedEntry newID now n e) = Ledger_ReportID e" for n
    by (simp add: stampedEntry_def)
  ultimately show ?thesis
    by (simp add: bank_of_def appendLedgerEntry_effect(2) [OF assms])
qed

lemma pay_missing: "bal uid = None \<Longrightarrow> pay uid amount bal = bal"
  by (auto simp: pay_def)

lemma pay_None [simp]: "pay u amount bal uid = None \<longleftrightarrow> bal uid = None"
  by (simp add: pay_def)

text \<open>Accounting for a report is one settlement, or nothing.\<close>

lemma bank_report:
  assumes ok: "accounts_ok db"
  shows "bank_step\<^sup>=\<^sup>= (bank_of db) (bank_of (fst (applyReportAccounting newID db report now)))"
proof (cases "Report_Status report = TaskStatusCompleted \<and> 0 < Report_ComputeCost (billedReport db report) \<and>
    \<not> ledgerExistsForReport db (Report_ID report)")
  case False
  then show ?thesis by (auto simp: applyReportAccounting_eq)
next
  case True
  define r where "r = billedReport db report"
  define d1 where "d1 = appendConsumptionLedger newID r now db"
  have rid: "Report_ID r = Report_ID report" "0 < Report_ComputeCost r"
    using True by (simp_all add: r_def)
  have unpaid: "Report_ID r \<notin> Bank_paid (bank_of db)"
    using True by (auto simp: r_def ledgerExistsForReport_def list_ex_iff)
  have d1: "accounts_ok d1"
    unfolding d1_def using appendConsumptionLedger_effect [OF ok] by blast
  have own: "report_owner d1 r = report_owner db r"
    by (simp add: report_owner_def d1_def)
  have users: "map_of (Users d1) u = None \<longleftrightarrow> map_of (Users db) u = None" for u
    using appendConsumptionLedger_effect [OF ok, of newID r now u] by (simp add: d1_def)
  have first: "bank_of d1 = (if mhas (Users db) (Report_UserID r) then (bank_of db)\<lparr>
      Bank_balance := pay (Report_UserID r) (- Report_ComputeCost r) (Bank_balance (bank_of db)),
      Bank_paid := insert (Report_ID r) (Bank_paid (bank_of db))\<rparr> else bank_of db)"
    using bank_append [OF ok, of _ newID now]
    by (cases rule: appendConsumptionLedger_cases [where db = db and newID = newID and r = r and now = now]) (auto simp: d1_def)
  have second: "bank_of (appendProductionLedger newID r now d1) = (if mhas (Users d1) (report_owner d1 r) then (bank_of d1)\<lparr>
      Bank_balance := pay (report_owner d1 r) (Report_ComputeCost r) (Bank_balance (bank_of d1)),
      Bank_paid := insert (Report_ID r) (Bank_paid (bank_of d1))\<rparr> else bank_of d1)"
    using bank_append [OF d1, of _ newID now]
    by (cases rule: appendProductionLedger_cases [OF books_user [OF d1], where newID = newID and r = r and now = now, case_names none entry]) auto
  have result: "fst (applyReportAccounting newID db report now) = appendProductionLedger newID r now d1"
    using True by (simp add: applyReportAccounting_eq r_def d1_def)
  show ?thesis
  proof (cases "mhas (Users db) (Report_UserID r) \<or> mhas (Users db) (report_owner db r)")
    case False
    then show ?thesis
      using users by (simp add: result second first own mhas_def)
  next
    case acc: True
    have "bank_of (appendProductionLedger newID r now d1) = (bank_of db)\<lparr>
        Bank_balance := pay (report_owner db r) (Report_ComputeCost r) (pay (Report_UserID r) (- Report_ComputeCost r) (Bank_balance (bank_of db))),
        Bank_paid := insert (Report_ID r) (Bank_paid (bank_of db))\<rparr>"
      using acc users by (auto simp: second first own mhas_def pay_missing)
    then show ?thesis
      using settle [of "Report_ID r" "bank_of db" "Report_ComputeCost r" "Report_UserID r" "report_owner db r"] unpaid rid(2) acc
      by (simp add: result mhas_def)
  qed
qed

lemma bank_computeReport:
  assumes "db_ok db" and "computeReport newID cfg nid r now db = Inr (r', db')"
  shows "bank_step\<^sup>=\<^sup>= (bank_of db) (bank_of db')"
proof -
  have "\<exists>a r2. db' = db \<or> db' = snd (acceptReport newID cfg a r2 now db)"
    using assms(2) by (auto simp: computeReport_def Let_def split: sum.splits if_splits) (metis snd_conv)
  then obtain a r2 where "db' = db \<or> db' = snd (acceptReport newID cfg a r2 now db)" by blast
  moreover have "bank_of (snd (acceptReport newID cfg a r2 now db)) = bank_of (fst (applyReportAccounting newID db r2 now))"
    by (rule bank_of_same) (simp_all add: acceptReport_tables)
  ultimately show ?thesis
    using bank_report [OF db_ok_tables(6) [OF assms(1)], of newID r2 now] by auto
qed

subsection \<open>Every operation is a run of the bank\<close>

lemmas bank_frame = books_maintenance [THEN bank_of_books] books_tasks(1-4) [THEN bank_of_books]
  books_worker(1,3,5) [THEN bank_of_books] books_telemetry [THEN bank_of_books] books_update(15) [THEN bank_of_books]

lemmas bank_frame_Inr = books_tasks(5,6) [THEN bank_of_books] books_worker(2,4,6-9) [THEN bank_of_books]
  books_attemptFailed [THEN bank_of_books]

interpretation bank_run: db_invariant "\<lambda>db. db_ok db \<and> bank_step\<^sup>*\<^sup>* b (bank_of db)" for b
proof -
  have report: "bank_step\<^sup>*\<^sup>* b (bank_of db')"
    if "bank_step\<^sup>*\<^sup>* b (bank_of db)" "db_ok db" "computeReport newID cfg nid r now db = Inr (r', db')" for newID cfg nid r now r' db db'
    using that(1) bank_computeReport [OF that(2,3)] by auto
  show "db_invariant (\<lambda>db. db_ok db \<and> bank_step\<^sup>*\<^sup>* b (bank_of db))"
    by unfold_locales (auto simp: bank_frame db_ok_clearExpiredQuarantines db_ok_suppressions db_ok_storePlan db_ok_evictionRecord
      db_ok_failRunningAttempts db_ok_markOfflineWorkers db_ok_markTaskCancelRequested db_ok_failTask db_ok_markAttemptFailed
      db_ok_workerHeartbeat db_ok_artifactState db_ok_updateTelemetry
      dest: db_ok_recordCacheIntent db_ok_storeNewTask db_ok_reserve db_ok_registerWorker db_ok_updateSlotState
        db_ok_worker_attempt db_ok_attemptFailed db_ok_computeReport bank_frame_Inr report)
qed

end
