(* ===== verification/Manager_Steps.thy ===== *)
theory Manager_Steps
  imports Bank Transitions
begin

section \<open>The manager as a transition system\<close>

text \<open>
  The operations of the manager in any order and interleaving: each rule is one handler or
  one round of a loop, with the inputs that the environment chooses (requests, messages,
  clocks, fresh identifiers, files). Every handler runs its transactions one at a time under
  the lock of the store; a rule is one run of a handler.
\<close>

subsection \<open>Steps\<close>

inductive manager_step :: "Manager \<Rightarrow> Manager \<Rightarrow> bool" where
  connect_worker: "\<not> mhas (Mgr_workers m) (newID ''ses'' (length (Mgr_workers m))) \<Longrightarrow>
    manager_step m (snd (handleWorkerWS newID r upgradeOK m))"
| read_worker: "mhas (Mgr_workers m) sid \<Longrightarrow> manager_step m (readLoop J sha256hex newID errorPayload sid received now m)"
| write_worker: "manager_step m (snd (writeLoop newID sid writeOK now m))"
| expire_workers: "manager_step m (expireWorkerHeartbeats J newID now m)"
| authenticate: "authenticateClient sha256hex token now (Mgr_db m) = Inr (user, db) \<Longrightarrow> manager_step m (m\<lparr>Mgr_db := db\<rparr>)"
| chat_request: "manager_step m (snd (handleChatCompletions newID user body now m))"
| chat_collect: "mhas (Tasks (Mgr_db m)) (Task_ID task) \<Longrightarrow>
    manager_step m (snd (collectChat J newID ctxDone deadline task profile messages maxTokens temperature now phase m))"
| chat_stream: "mhas (Tasks (Mgr_db m)) (Task_ID task) \<Longrightarrow>
    manager_step m (snd (streamChat J newID ctxDone deadline task profile messages maxTokens temperature now sphase m))"
| chat_done: "manager_step m (releaseQueue m)"
| job: "manager_step m (snd (snd (handleJobs J newID user httpMethod path now m)))"
| state_ticket: "manager_step m (snd (issueAdminStateWSTicket sha256hex newID now m))"
| state_connect: "manager_step m (snd (consumeAdminStateWSTicket sha256hex ticket now m))"
| node_update: "manager_step m (snd (handleAdminNodeUpdate J newID nreq now m))"
| node_delete: "manager_step m (snd (handleAdminNodeDelete J newID nid now m))"
| node_artifact: "manager_step m (snd (handleAdminNodeArtifactAction J newID nid aid action now m))"
| node_artifact_delete: "manager_step m (snd (evictNodeArtifact J newID nid aid now m))"
| admin_state: "manager_step m (maintain newID now m)"
| profile_upsert: "manager_step m (snd (handleAdminProfileUpsert J newID preq now m))"
| profile_config: "manager_step m (snd (handleAdminProfileConfigUpsert J newID pcfg now m))"
| profile_delete: "manager_step m (snd (handleAdminProfileDelete J newID pid now m))"
| profile_cost: "setProfileComputeCost newID creq now (Mgr_db m) = Inr db \<Longrightarrow> manager_step m (m\<lparr>Mgr_db := db\<rparr>)"
| policy_upsert: "manager_step m (snd (handleAdminPolicyUpsert J newID polreq now m))"
| placement_apply: "manager_step m (snd (handleApplyPlacement J newID now m))"
| unban_request: "manager_step m (snd (handleAdminUnban J newID ureq now m))"
| worker_update: "manager_step m (snd (handleApplyWorkerUpdate J newID wreq now m))"
| settings: "manager_step m (snd (handleAdminSettings J newID enabled now m))"
| user_create: "handleAdminUserCreate newID cureq now (Mgr_db m) = Inr db \<Longrightarrow> (\<And>p n. newID p n \<noteq> []) \<Longrightarrow> manager_step m (m\<lparr>Mgr_db := db\<rparr>)"
| user_update: "updateUser newID uureq now (Mgr_db m) = Inr db \<Longrightarrow> manager_step m (m\<lparr>Mgr_db := db\<rparr>)"
| balance_adjust: "handleAdminBalanceAdjustment newID areq now (Mgr_db m) = Inr db \<Longrightarrow> manager_step m (m\<lparr>Mgr_db := db\<rparr>)"
| key_issue: "storeAPIKey newID key (Mgr_db m) = Inr db \<Longrightarrow> manager_step m (m\<lparr>Mgr_db := db\<rparr>)"
| key_revoke: "revokeAPIKey newID kid now (Mgr_db m) = Inr db \<Longrightarrow> manager_step m (m\<lparr>Mgr_db := db\<rparr>)"
| artifact_create: "manager_step m (snd (snd (handleAdminArtifactCreate sha256hex buildMeta ioErr cwd newID careq now files m)))"
| artifact_upload: "manager_step m (snd (snd (handleAdminArtifactUpload sha256hex buildMeta ioErr newID form now files m)))"
| artifact_delete: "manager_step m (snd (snd (handleAdminArtifactByID cwd newID aid now files m)))"
| artifact_fetch: "manager_step m (fst (snd (handleWorkerArtifact sha256hex newID workerToken aid nid nodeToken now files m)))"
| restart: "NewManager sha256hex buildMeta newID loopback dirErr saveErr ioErr cfg (Inr (Some (Mgr_db m))) now files = Inr (files', m') \<Longrightarrow>
    manager_step m m'"

inductive_cases manager_stepE: "manager_step m m'"

text \<open>A manager that starts without a saved database.\<close>

definition manager_init :: "Manager \<Rightarrow> bool" where
  "manager_init m \<longleftrightarrow> (\<exists>sha256hex buildMeta newID loopback dirErr saveErr ioErr cfg now files files'.
     NewManager sha256hex buildMeta newID loopback dirErr saveErr ioErr cfg (Inr None) now files = Inr (files', m))"

subsection \<open>The invariant of the database\<close>

text \<open>The tables, the books, the references, and the run of the bank since its state was \<open>b\<close>.\<close>

definition db_good :: "bank \<Rightarrow> Database \<Rightarrow> bool" where
  "db_good b db \<longleftrightarrow> (db_ok db \<and> bank_step\<^sup>*\<^sup>* b (bank_of db)) \<and> refs_ok db"

lemma db_good_db: "db_good b db \<Longrightarrow> db_ok db"
  by (simp add: db_good_def)

lemma db_good_run:
  assumes "db_good b (Mgr_db m)"
  shows "db_good b (Mgr_db (replanAndDispatch J newID now m))"
    and "db_good b (Mgr_db (expireWorkerHeartbeats J newID now m))"
    and "db_good b (Mgr_db (close newID sid now m))"
    and "db_good b (Mgr_db (cancelTask J newID tid reason now m))"
    and "db_good b (Mgr_db (snd (handleWorkerEnvelope J sha newID sid msg now m)))"
    and "db_good b (Mgr_db (snd (handleAdminNodeArtifactAction J newID nid aid action now m)))"
    and "mhas (Tasks (Mgr_db m)) (Task_ID task) \<Longrightarrow>
      db_good b (Mgr_db (snd (startAttempt J newID done deadline task profile msgs maxT temp now m)))"
    and "storeNewTask newID task enforce (Mgr_db m) = Inr db' \<Longrightarrow> db_good b db'"
    and "db_good b (appendAudit newID t a s md now (Mgr_db m))"
    and "db_good b (Mgr_db (snd (evictNodeArtifact J newID nid aid now m)))"
    and "db_good b (Mgr_db (maintain newID now m))"
proof -
  have b: "db_ok (Mgr_db m) \<and> bank_step\<^sup>*\<^sup>* b (bank_of (Mgr_db m))" and r: "refs_ok (Mgr_db m)"
    using assms by (simp_all add: db_good_def)
  note ind = conjI [OF bank_run.D_replan [OF b] refs_inv.D_replan [OF r]] conjI [OF bank_run.D_expire [OF b] refs_inv.D_expire [OF r]]
    conjI [OF bank_run.D_close [OF b] refs_inv.D_close [OF r]] conjI [OF bank_run.D_cancelTask [OF b] refs_inv.D_cancelTask [OF r]]
    conjI [OF bank_run.D_envelope [OF b] refs_inv.D_envelope [OF r]] conjI [OF bank_run.D_cacheAction [OF b] refs_inv.D_cacheAction [OF r]]
    conjI [OF bank_run.D_start [OF b] refs_inv.D_start [OF r]] conjI [OF bank_run.D_newTask [OF b] refs_inv.D_newTask [OF r]]
    conjI [OF bank_run.D_audit [OF b] refs_inv.D_audit [OF r]]
    conjI [OF bank_run.D_evictNodeArtifact [OF b] refs_inv.D_evictNodeArtifact [OF r]] conjI [OF bank_run.D_maintain [OF b] refs_inv.D_maintain [OF r]]
  show "db_good b (Mgr_db (replanAndDispatch J newID now m))" unfolding db_good_def by (rule ind(1))
  show "db_good b (Mgr_db (expireWorkerHeartbeats J newID now m))" unfolding db_good_def by (rule ind(2))
  show "db_good b (Mgr_db (close newID sid now m))" unfolding db_good_def close_def by (rule ind(3))
  show "db_good b (Mgr_db (cancelTask J newID tid reason now m))" unfolding db_good_def by (rule ind(4))
  show "db_good b (Mgr_db (snd (handleWorkerEnvelope J sha newID sid msg now m)))" unfolding db_good_def by (rule ind(5))
  show "db_good b (Mgr_db (snd (handleAdminNodeArtifactAction J newID nid aid action now m)))" unfolding db_good_def by (rule ind(6))
  show "db_good b (Mgr_db (snd (startAttempt J newID done deadline task profile msgs maxT temp now m)))"
    if "mhas (Tasks (Mgr_db m)) (Task_ID task)"
    unfolding db_good_def by (rule ind(7); rule task_kept.D_select [OF that])
  show "db_good b db'" if "storeNewTask newID task enforce (Mgr_db m) = Inr db'"
    unfolding db_good_def by (rule ind(8) [OF that that])
  show "db_good b (appendAudit newID t a s md now (Mgr_db m))" unfolding db_good_def by (rule ind(9))
  show "db_good b (Mgr_db (snd (evictNodeArtifact J newID nid aid now m)))" unfolding db_good_def by (rule ind(10))
  show "db_good b (Mgr_db (maintain newID now m))" unfolding db_good_def by (rule ind(11))
qed

lemma db_goodI:
  assumes "db_good b db" and "db_ok db'" and "refs_ok db'" and "bank_step\<^sup>=\<^sup>= (bank_of db) (bank_of db')"
  shows "db_good b db'"
  using assms by (auto simp: db_good_def)

lemma db_good_frame:
  assumes "db_good b db" and "db_ok db \<Longrightarrow> db_ok db'" and "refs_ok db \<Longrightarrow> refs_ok db'" and "books db' = books db"
  shows "db_good b db'"
  using assms bank_of_books [OF assms(4)] by (auto simp: db_good_def)

lemma books_admin:
  "upsertAdminNode newID nreq now db = Inr db' \<Longrightarrow> books db' = books db"
  "deleteNode newID nid now db = Inr db' \<Longrightarrow> books db' = books db"
  "upsertProfile newID profile now db = Inr db' \<Longrightarrow> books db' = books db"
  "deleteProfile newID pid now db = Inr db' \<Longrightarrow> books db' = books db"
  "upsertPolicy newID policy now db = Inr db' \<Longrightarrow> books db' = books db"
  "storeUpdate newID update now db = Inr db' \<Longrightarrow> books db' = books db"
  "deleteArtifactRecord newID aid now db = Inr (art, db') \<Longrightarrow> books db' = books db"
  "unban newID ureq now db = (e, db') \<Longrightarrow> books db' = books db"
proof -
  show "books db' = books db" if "upsertAdminNode newID nreq now db = Inr db'"
    using that unfolding upsertAdminNode_def Let_def by (simp split: if_split_asm del: if_split) auto
  have "books (snd (unbanNode newID n now d)) = books d" "books (snd (unbanSlot newID sl now d)) = books d" for n sl d
    by (simp_all add: unbanNode_def unbanSlot_def Let_def split: option.split)
  then have "books (snd (unban newID ureq now db)) = books db"
    by (simp add: unban_def split: prod.split option.split) (metis snd_conv)
  then show "books db' = books db" if "unban newID ureq now db = (e, db')"
    using that by simp
qed (auto simp: deleteNode_def upsertProfile_def deleteProfile_def upsertPolicy_def storeUpdate_def deleteArtifactRecord_def Let_def
    split: option.splits if_splits)

lemma books_keys:
  "setProfileComputeCost newID creq now db = Inr db' \<Longrightarrow> books db' = books db"
  "storeAPIKey newID key db = Inr db' \<Longrightarrow> books db' = books db"
  "revokeAPIKey newID kid now db = Inr db' \<Longrightarrow> books db' = books db"
  "authenticateClient sha token now db = Inr (user, db') \<Longrightarrow> books db' = books db"
  by (auto simp: setProfileComputeCost_def storeAPIKey_def revokeAPIKey_def authenticateClient_def Let_def
      split: option.splits if_splits)

lemma refs_ok_keys:
  "storeAPIKey newID key db = Inr db' \<Longrightarrow> refs_ok db \<Longrightarrow> refs_ok db'"
  "revokeAPIKey newID kid now db = Inr db' \<Longrightarrow> refs_ok db \<Longrightarrow> refs_ok db'"
  "authenticateClient sha token now db = Inr (user, db') \<Longrightarrow> refs_ok db \<Longrightarrow> refs_ok db'"
  "handleAdminUserCreate newID cureq now db = Inr db' \<Longrightarrow> refs_ok db \<Longrightarrow> refs_ok db'"
  "updateUser newID uureq now db = Inr db' \<Longrightarrow> refs_ok db \<Longrightarrow> refs_ok db'"
  "handleAdminBalanceAdjustment newID areq now db = Inr db' \<Longrightarrow> refs_ok db \<Longrightarrow> refs_ok db'"
  by (auto simp: storeAPIKey_def revokeAPIKey_def authenticateClient_def handleAdminUserCreate_def updateUser_def
      handleAdminBalanceAdjustment_def storeAdminAdjustment_def Let_def
      intro: refs_ok_config [THEN iffD2] split: option.splits if_splits sum.splits)

lemma db_good_admin:
  assumes "db_good b db"
  shows "upsertAdminNode newID nreq now db = Inr db' \<Longrightarrow> db_good b db'"
    and "deleteNode newID nid now db = Inr db' \<Longrightarrow> db_good b db'"
    and "upsertProfile newID profile now db = Inr db' \<Longrightarrow> db_good b db'"
    and "deleteProfile newID pid now db = Inr db' \<Longrightarrow> db_good b db'"
    and "upsertPolicy newID policy now db = Inr db' \<Longrightarrow> db_good b db'"
    and "storeUpdate newID update now db = Inr db' \<Longrightarrow> db_good b db'"
    and "deleteArtifactRecord newID aid now db = Inr (art, db') \<Longrightarrow> db_good b db'"
    and "unban newID ureq now db = (e, db') \<Longrightarrow> db_good b db'"
    and "setProfileComputeCost newID creq now db = Inr db' \<Longrightarrow> db_good b db'"
    and "storeAPIKey newID key db = Inr db' \<Longrightarrow> db_good b db'"
    and "revokeAPIKey newID kid now db = Inr db' \<Longrightarrow> db_good b db'"
    and "authenticateClient sha token now db = Inr (user, db') \<Longrightarrow> db_good b db'"
    and "db_good b (storeArtifact newID ev artifact now db)"
proof -
  show "db_good b db'" if t: "setProfileComputeCost newID creq now db = Inr db'"
    by (rule db_good_frame [OF assms db_ok_keys(1) [OF _ t] refs_ok_admin(4) [OF _ t] books_keys(1) [OF t]])
  show "db_good b db'" if t: "storeAPIKey newID key db = Inr db'"
    by (rule db_good_frame [OF assms db_ok_keys(2) [OF _ t] refs_ok_keys(1) [OF t] books_keys(2) [OF t]])
  show "db_good b db'" if t: "revokeAPIKey newID kid now db = Inr db'"
    by (rule db_good_frame [OF assms db_ok_keys(3) [OF _ t] refs_ok_keys(2) [OF t] books_keys(3) [OF t]])
  show "db_good b db'" if t: "authenticateClient sha token now db = Inr (user, db')"
    by (rule db_good_frame [OF assms db_ok_keys(4) [OF _ t] refs_ok_keys(3) [OF t] books_keys(4) [OF t]])
  show "db_good b (storeArtifact newID ev artifact now db)"
    by (rule db_good_frame [OF assms _ refs_ok_admin(10)]) (auto simp: storeArtifact_def)
qed (use db_good_frame [OF assms] in \<open>blast intro: db_ok_admin refs_ok_admin books_admin\<close>)+

text \<open>The three transactions that move money.\<close>

lemma db_good_accounts:
  assumes good: "db_good b db"
  shows "handleAdminUserCreate newID cureq now db = Inr db' \<Longrightarrow> (\<And>p n. newID p n \<noteq> []) \<Longrightarrow> db_good b db'"
    and "updateUser newID uureq now db = Inr db' \<Longrightarrow> db_good b db'"
    and "handleAdminBalanceAdjustment newID areq now db = Inr db' \<Longrightarrow> db_good b db'"
    and "db_good b (ensureConfiguredClientKey sha cfg now db)"
proof -
  have ok: "db_ok db" and refs: "refs_ok db" using good by (simp_all add: db_good_def)
  show "db_good b db'" if t: "handleAdminUserCreate newID cureq now db = Inr db'" and ids: "\<And>p n. newID p n \<noteq> []"
  proof (rule db_goodI [OF good db_ok_userCreate [OF ok t ids] refs_ok_keys(4) [OF t refs]])
    define u where "u = newUser newID cureq now db"
    have "User_ID u \<noteq> []" "User_ComputeBalance u = 0"
      using ids by (simp_all add: u_def newUser_def Let_def)
    moreover have "map_of (Users db) (User_ID u) = None" "Users db' = mput (User_ID u) u (Users db)" "ComputeLedger db' = ComputeLedger db"
      using t by (auto simp: handleAdminUserCreate_def u_def mhas_def Let_def split: if_splits)
    ultimately have u: "User_ID u \<noteq> []" "map_of (Users db) (User_ID u) = None" "User_ComputeBalance u = 0"
        "Users db' = mput (User_ID u) u (Users db)" "ComputeLedger db' = ComputeLedger db" by simp_all
    have "bank_of db' = (bank_of db)\<lparr>Bank_balance := (Bank_balance (bank_of db))(User_ID u \<mapsto> 0)\<rparr>"
      using u(3-5) by (auto simp: bank_of_def)
    then show "bank_step\<^sup>=\<^sup>= (bank_of db) (bank_of db')"
      using open_account [of "User_ID u" "bank_of db"] u(1,2) by simp
  qed
  show "db_good b db'" if t: "updateUser newID uureq now db = Inr db'"
  proof (rule db_goodI [OF good db_ok_updateUser [OF ok t] refs_ok_keys(5) [OF t refs]])
    have "bank_of db' = bank_of db"
      using t keyed_lookup [of User_ID "Users db"] db_ok_tables(6) [OF ok]
      by (auto simp: updateUser_def bank_of_def books_ok_def Let_def fun_eq_iff split: if_splits option.splits)
    then show "bank_step\<^sup>=\<^sup>= (bank_of db) (bank_of db')" by simp
  qed
  show "db_good b db'" if t: "handleAdminBalanceAdjustment newID areq now db = Inr db'"
  proof (rule db_goodI [OF good db_ok_adjustment [OF ok t] refs_ok_keys(6) [OF t refs]])
    obtain e where a: "adminAdjustmentEntry areq now = Inr e" and st: "storeAdminAdjustment newID e now db = Inr db'"
      using t by (auto simp: handleAdminBalanceAdjustment_def split: sum.splits)
    have e: "Ledger_ReportID e = []" "mhas (Users db) (Ledger_UserID e)" "bank_of db' = bank_of (appendLedgerEntry newID now e db)"
      using a st by (auto simp: adminAdjustmentEntry_def storeAdminAdjustment_def intro!: bank_of_same split: if_splits)
    show "bank_step\<^sup>=\<^sup>= (bank_of db) (bank_of db')"
      using adjust [of "bank_of db" "Ledger_UserID e" "ledger_delta e"] e
      by (simp add: bank_append [OF db_ok_tables(6) [OF ok]] mhas_def)
  qed
  show "db_good b (ensureConfiguredClientKey sha cfg now db)"
  proof (rule db_goodI [OF good db_ok_configuredKey [OF ok]])
    show "refs_ok (ensureConfiguredClientKey sha cfg now db)"
      using refs by (auto simp: ensureConfiguredClientKey_def Let_def intro: refs_ok_config [THEN iffD2])
    have "bank_step\<^sup>=\<^sup>= (bank_of db) (bank_of (db\<lparr>Users := mput defaultClientUserID u (Users db)\<rparr>))"
      if "\<not> mhas (Users db) defaultClientUserID" "User_ComputeBalance u = 0" for u
    proof -
      have "bank_of (db\<lparr>Users := mput defaultClientUserID u (Users db)\<rparr>) =
          (bank_of db)\<lparr>Bank_balance := (Bank_balance (bank_of db))(defaultClientUserID \<mapsto> 0)\<rparr>"
        using that(2) by (auto simp: bank_of_def)
      then show ?thesis
        using open_account [of defaultClientUserID "bank_of db"] that(1) by (simp add: mhas_def defaultClientUserID_def)
    qed
    moreover have "bank_of (d\<lparr>APIKeys := ks\<rparr>) = bank_of d" for d ks by (simp add: bank_of_def)
    ultimately show "bank_step\<^sup>=\<^sup>= (bank_of db) (bank_of (ensureConfiguredClientKey sha cfg now db))"
      by (auto simp: ensureConfiguredClientKey_def Let_def)
  qed
qed

subsection \<open>The handlers\<close>

definition manager_good :: "bank \<Rightarrow> Manager \<Rightarrow> bool" where
  "manager_good b m \<longleftrightarrow> db_good b (Mgr_db m) \<and> sessions_ok m"

lemma good_set_db: "manager_good b m \<Longrightarrow> db_good b db \<Longrightarrow> manager_good b (m\<lparr>Mgr_db := db\<rparr>)"
  by (simp add: manager_good_def)

lemma good_replan: "manager_good b m \<Longrightarrow> manager_good b (replanAndDispatch J newID now m)"
  by (simp add: manager_good_def db_good_run(1) sessions_ok_replan)

lemma good_enqueue: "manager_good b m \<Longrightarrow> manager_good b (snd (enqueueSession newID sid msg m))"
  by (simp add: manager_good_def sessions_ok_enqueue)

lemma good_foldl: "manager_good b m \<Longrightarrow> (\<And>n x. manager_good b n \<Longrightarrow> manager_good b (f n x)) \<Longrightarrow> manager_good b (foldl f m xs)"
  by (induction xs arbitrary: m) auto

lemma good_close: "manager_good b m \<Longrightarrow> manager_good b (close newID sid now m)"
  by (simp add: manager_good_def db_good_run(3)) (simp add: close_def sessions_ok_close)

lemma good_cancel: "manager_good b m \<Longrightarrow> manager_good b (cancelTask J newID tid reason now m)"
  by (simp add: manager_good_def db_good_run(4) sessions_ok_cancel)

lemma good_streams: "manager_good b (m\<lparr>Mgr_streams := ss\<rparr>) = manager_good b m" "manager_good b (m\<lparr>Mgr_tickets := ts\<rparr>) = manager_good b m"
  "manager_good b (m\<lparr>Mgr_queue := q\<rparr>) = manager_good b m" "manager_good b (unregisterStream aid m) = manager_good b m"
  by (simp_all add: manager_good_def sessions_ok_def unregisterStream_def)

lemma good_connect:
  "manager_good b m \<Longrightarrow> \<not> mhas (Mgr_workers m) (newID ''ses'' (length (Mgr_workers m))) \<Longrightarrow>
   manager_good b (snd (handleWorkerWS newID r ok m))"
  using sessions_ok_connect [of m newID r ok] by (auto simp: manager_good_def) (auto simp: handleWorkerWS_def Let_def)

lemma good_readLoop:
  assumes "manager_good b m" and "mhas (Mgr_workers m) sid"
  shows "manager_good b (readLoop J sha newID ep sid received now m)"
proof -
  obtain s where "map_of (Mgr_workers m) sid = Some s" using assms(2) by (auto simp: mhas_def)
  then have "manager_good b (snd (handleWorkerEnvelope J sha newID sid msg now m))" for msg
    using assms(1) by (auto simp: manager_good_def db_good_run(5) intro: sessions_ok_envelope)
  then show ?thesis
    using assms(1) by (auto simp: readLoop_def good_close split: option.split prod.split intro!: good_enqueue) (metis snd_conv)+
qed

lemma good_writeLoop:
  assumes "manager_good b m"
  shows "manager_good b (snd (writeLoop newID sid ok now m))"
proof -
  have "manager_good b (m\<lparr>Mgr_workers := mput sid (s\<lparr>Session_send := rest\<rparr>) (Mgr_workers m)\<rparr>)" if "map_of (Mgr_workers m) sid = Some s" for s rest
    using assms that by (auto simp: manager_good_def intro: sessions_ok_worker)
  then show ?thesis
    using assms by (auto simp: writeLoop_def Let_def good_close split: option.split list.split)
qed

lemma good_chat:
  assumes "manager_good b m"
  shows "manager_good b (snd (handleChatCompletions newID user body now m))"
    and "manager_good b (snd (snd (handleJobs J newID user httpMethod path now m)))"
proof -
  show "manager_good b (snd (handleChatCompletions newID user body now m))"
    using assms db_good_run(8)
    by (auto simp: handleChatCompletions_def createChatTask_def acquireQueue_def releaseQueue_def Let_def good_streams
        split: sum.splits option.splits prod.splits if_splits manager_error.splits)
      (fastforce simp: manager_good_def sessions_ok_def)+
  show "manager_good b (snd (snd (handleJobs J newID user httpMethod path now m)))"
    using assms by (simp add: handleJobs_def Let_def good_cancel split: option.split)
qed

lemma good_start:
  assumes "manager_good b m" and "mhas (Tasks (Mgr_db m)) (Task_ID task)"
    and "startAttempt J newID done deadline task profile msgs maxT temp now m = (st, m')"
  shows "manager_good b m'"
  using assms db_good_run(7) [of b m task J newID "done" deadline profile msgs maxT temp now]
    sessions_ok_start [of m J newID "done" deadline task profile msgs maxT temp now]
  by (simp add: manager_good_def)

lemma good_takeEvent: "manager_good b m \<Longrightarrow> takeEvent aid m = Some (ev, m') \<Longrightarrow> manager_good b m'"
  by (auto simp: takeEvent_def good_streams split: option.splits list.splits)

lemma good_answer:
  assumes "manager_good b m" and "mhas (Tasks (Mgr_db m)) (Task_ID task)"
  shows "manager_good b (snd (collectChat J newID ctxDone deadline task profile msgs maxT temp now phase m))"
    and "manager_good b (snd (streamChat J newID ctxDone deadline task profile msgs maxT temp now sphase m))"
proof -
  obtain st m' where st: "startAttempt J newID ctxDone deadline task profile msgs maxT temp now m = (st, m')" by fastforce
  have m': "manager_good b m'" by (rule good_start [OF assms st])
  have "manager_good b (snd (collectAttempt J newID ctxDone task aid buf now m))"
    "manager_good b (snd (streamAttempt J newID ctxDone task aid now m))" for aid buf
    using assms(1)
    by (auto simp: collectAttempt_def streamAttempt_def Let_def split_beta good_streams
        intro!: good_cancel intro: good_takeEvent split: option.split prod.split)
  note attempt = this
  show "manager_good b (snd (collectChat J newID ctxDone deadline task profile msgs maxT temp now phase m))"
  proof (cases phase)
    case Polling
    then show ?thesis
      using st m' by (cases st) (auto intro: good_cancel split: begin_error.split reserve_error.split)
  next
    case (Collecting aid buf)
    then show ?thesis using attempt(1) [of aid buf] by (auto split: prod.split)
  qed (use assms in simp)
  obtain sp out where sp: "sphase = (sp, out)" by fastforce
  show "manager_good b (snd (streamChat J newID ctxDone deadline task profile msgs maxT temp now sphase m))"
  proof (cases sp)
    case StreamPolling
    then show ?thesis
      using sp st m' by (cases st) (auto intro: good_cancel split: begin_error.split reserve_error.split)
  next
    case (Streaming aid)
    then show ?thesis using sp attempt(2) [of aid] by (auto split: prod.split)
  qed (use assms sp in simp)
qed

lemma good_transaction:
  "manager_good b m \<Longrightarrow> (\<And>db. r = Inr db \<Longrightarrow> db_good b db) \<Longrightarrow>
   manager_good b (snd (case r of Inl e \<Rightarrow> (f e, m) | Inr db \<Rightarrow> (ok, replanAndDispatch J newID now (m\<lparr>Mgr_db := db\<rparr>))))"
  by (auto intro!: good_replan good_set_db split: sum.split)

lemma good_storeProfile:
  assumes "manager_good b m"
  shows "manager_good b (snd (storeProfile J newID profile now m))"
  unfolding storeProfile_def using assms
  by (intro good_transaction) (auto simp: manager_good_def intro: db_good_admin(3))

lemma good_admin:
  assumes good: "manager_good b m"
  shows "manager_good b (snd (handleAdminNodeUpdate J newID nreq now m))"
    and "manager_good b (snd (handleAdminNodeDelete J newID nid now m))"
    and "manager_good b (snd (handleAdminProfileUpsert J newID preq now m))"
    and "manager_good b (snd (handleAdminProfileConfigUpsert J newID pcfg now m))"
    and "manager_good b (snd (handleAdminProfileDelete J newID pid now m))"
    and "manager_good b (snd (handleAdminPolicyUpsert J newID polreq now m))"
    and "manager_good b (snd (handleApplyPlacement J newID now m))"
    and "manager_good b (snd (handleAdminUnban J newID ureq now m))"
    and "manager_good b (snd (handleAdminNodeArtifactAction J newID nid aid action now m))"
proof -
  have db: "db_good b (Mgr_db m)" using good by (simp add: manager_good_def)
  show "manager_good b (snd (handleAdminNodeUpdate J newID nreq now m))"
    using good by (auto simp: handleAdminNodeUpdate_def intro!: good_replan good_set_db dest: db_good_admin(1) [OF db] split: sum.split)
  show "manager_good b (snd (handleAdminNodeDelete J newID nid now m))"
    using good by (auto simp: handleAdminNodeDelete_def intro!: good_replan good_set_db dest: db_good_admin(2) [OF db] split: sum.split)
  show "manager_good b (snd (handleAdminProfileUpsert J newID preq now m))"
    using good by (auto simp: handleAdminProfileUpsert_def good_storeProfile split: sum.split)
  show "manager_good b (snd (handleAdminProfileConfigUpsert J newID pcfg now m))"
    using good by (auto simp: handleAdminProfileConfigUpsert_def good_storeProfile split: sum.split)
  show "manager_good b (snd (handleAdminProfileDelete J newID pid now m))"
    using good by (auto simp: handleAdminProfileDelete_def intro!: good_replan good_set_db dest: db_good_admin(4) [OF db] split: sum.split)
  show "manager_good b (snd (handleAdminPolicyUpsert J newID polreq now m))"
    using good by (auto simp: handleAdminPolicyUpsert_def intro!: good_replan good_set_db dest: db_good_admin(5) [OF db] split: sum.split)
  show "manager_good b (snd (handleApplyPlacement J newID now m))"
    using good by (simp add: handleApplyPlacement_def good_replan)
  show "manager_good b (snd (handleAdminUnban J newID ureq now m))"
    using good by (auto simp: handleAdminUnban_def intro!: good_replan good_set_db dest: db_good_admin(8) [OF db]
        split: sum.split option.split prod.split)
  have s: "sessions_ok m" using good by (simp add: manager_good_def)
  have ev: "sessions_ok m2" if "dispatchArtifactEviction J newID nid aid r now (m\<lparr>Mgr_db := d\<rparr>) = (sent, m2)" for r d sent m2
    using sessions_ok_evict [of "m\<lparr>Mgr_db := d\<rparr>" J newID nid aid r now] s that by simp
  have "sessions_ok (snd (handleKeepCacheAction newID nid aid now m))"
    using s by (simp add: handleKeepCacheAction_def split: sum.split)
  moreover have "sessions_ok (snd (handleEvictCacheAction J newID nid aid now m))"
    using s by (auto simp: handleEvictCacheAction_def split: sum.split option.split prod.split bool.split dest: ev)
  moreover have "sessions_ok (snd (handleEvictWhenIdleCacheAction J newID nid aid now m))"
    using s by (auto simp: handleEvictWhenIdleCacheAction_def Let_def split: sum.split option.split prod.split bool.split dest: ev)
  ultimately have "sessions_ok (snd (handleAdminNodeArtifactAction J newID nid aid action now m))"
    using s by (simp add: handleAdminNodeArtifactAction_def Let_def)
  then show "manager_good b (snd (handleAdminNodeArtifactAction J newID nid aid action now m))"
    using db by (simp add: manager_good_def db_good_run(6))
qed

lemma good_evictNodeArtifact:
  assumes "manager_good b m"
  shows "manager_good b (snd (evictNodeArtifact J newID nid aid now m))"
proof -
  have "sessions_ok (snd (evictNodeArtifact J newID nid aid now m))"
    using assms sessions_ok_evict [of m J newID nid aid "''admin_requested''" now]
    by (auto simp: manager_good_def evictNodeArtifact_def split: option.split prod.split bool.split)
  then show ?thesis using assms by (simp add: manager_good_def db_good_run(10))
qed

lemma good_maintain: "manager_good b m \<Longrightarrow> manager_good b (maintain newID now m)"
  using db_good_run(11) [of b m newID now] by (simp add: manager_good_def maintain_def)

lemma good_updates:
  assumes good: "manager_good b m"
  shows "manager_good b (snd (handleApplyWorkerUpdate J newID wreq now m))"
    and "manager_good b (snd (handleAdminSettings J newID enabled now m))"
proof -
  have db: "db_good b (Mgr_db m)" using good by (simp add: manager_good_def)
  have "manager_good b (dispatchUpdate J newID u n)" if "manager_good b n" for u n
    unfolding dispatchUpdate_def Let_def using that by (intro good_foldl) (auto intro: good_enqueue split: option.split)
  then show "manager_good b (snd (handleApplyWorkerUpdate J newID wreq now m))"
    using good by (auto simp: handleApplyWorkerUpdate_def Let_def intro!: good_set_db dest: db_good_admin(6) [OF db] split: sum.split)
  have "manager_good b (broadcastP2PConfig J newID e n)" if "manager_good b n" for e n
    unfolding broadcastP2PConfig_def using that by (intro good_foldl good_enqueue)
  moreover have "db_good b ((Mgr_db m)\<lparr>Settings := st\<rparr>)" for st
    by (rule db_good_frame [OF db]) (auto intro: refs_ok_config [THEN iffD2])
  note saved = this
  have "manager_good b (update_db (appendAudit newID t a s md now) m)"
    "manager_good b (update_db (\<lambda>db. appendAudit newID t a s md now (db\<lparr>Settings := f db\<rparr>)) m)" for t a s md f
    unfolding update_db_def
    using good_set_db [OF good db_good_run(9) [OF db]] good_set_db [OF good db_good_run(9) [of b "m\<lparr>Mgr_db := (Mgr_db m)\<lparr>Settings := f (Mgr_db m)\<rparr>\<rparr>"]] saved
    by simp_all
  ultimately show "manager_good b (snd (handleAdminSettings J newID enabled now m))"
    using good by (auto simp: handleAdminSettings_def Let_def intro!: good_replan split: sum.split option.split)
qed

lemma good_artifacts:
  assumes good: "manager_good b m"
  shows "manager_good b (snd (snd (handleAdminArtifactCreate sha256hex buildMeta ioErr cwd newID careq now files m)))"
    and "manager_good b (snd (snd (handleAdminArtifactUpload sha256hex buildMeta ioErr newID form now files m)))"
    and "manager_good b (snd (snd (handleAdminArtifactByID cwd newID aid now files m)))"
    and "manager_good b (fst (snd (handleWorkerArtifact sha256hex newID workerToken aid nid nodeToken now files m)))"
proof -
  have db: "db_good b (Mgr_db m)" using good by (simp add: manager_good_def)
  have stored: "manager_good b (update_db (storeArtifact newID ev artifact now) m)" for ev artifact
    unfolding update_db_def by (rule good_set_db [OF good db_good_admin(13) [OF db]])
  show "manager_good b (snd (snd (handleAdminArtifactCreate sha256hex buildMeta ioErr cwd newID careq now files m)))"
    using good stored by (auto simp: handleAdminArtifactCreate_def split: sum.split prod.split)
  show "manager_good b (snd (snd (handleAdminArtifactUpload sha256hex buildMeta ioErr newID form now files m)))"
    using good stored by (auto simp: handleAdminArtifactUpload_def split: sum.split prod.split)
  show "manager_good b (snd (snd (handleAdminArtifactByID cwd newID aid now files m)))"
    using good by (auto simp: handleAdminArtifactByID_def Let_def intro!: good_set_db dest: db_good_admin(7) [OF db] split: sum.split prod.split)
  have "manager_good b (update_db (appendAudit newID t a s md now) m)" for t a s md
    unfolding update_db_def by (rule good_set_db [OF good db_good_run(9) [OF db]])
  then show "manager_good b (fst (snd (handleWorkerArtifact sha256hex newID workerToken aid nid nodeToken now files m)))"
    using good by (auto simp: handleWorkerArtifact_def Let_def split: option.split)
qed

subsection \<open>Every step\<close>

lemma good_opened:
  assumes "db_good b db" and "openStoreWithBackend newID (Inr (Some db)) saveErr now = Inr store"
  shows "db_good b (Store_db store)"
proof -
  have "db_good b (db\<lparr>Settings := st, SchemaVersion := v, Migrations := ms\<rparr>)" "db_good b (db\<lparr>SchemaVersion := v, Migrations := ms\<rparr>)" for st v ms
    by (rule db_good_frame [OF assms(1)], auto simp: same_tables_def books_def refs_ok_def intro: db_ok_same [THEN iffD2])+
  note set_fields = this
  have audit: "db_good b (appendAudit newID t a s md now d)" if "db_good b d" for t a s md d
    using db_good_run(9) [of b "undefined\<lparr>Mgr_db := d\<rparr>"] that by simp
  define db1 where "db1 = (if SchemaVersion db < 3 then db\<lparr>Settings := \<lparr>Settings_P2PEnabled = True\<rparr>\<rparr> else db)"
  define db2 where "db2 = appendAudit newID ''migration.applied'' ''system'' ''schema'' [(''version'', AnyInt CurrentSchemaVersion)] now
    (db1\<lparr>SchemaVersion := CurrentSchemaVersion, Migrations := Migrations db1 @ [''schema_'' @ show_int CurrentSchemaVersion]\<rparr>)"
  have "db_good b db2"
    using set_fields by (auto simp: db2_def db1_def intro!: audit)
  moreover have "Store_db store = db \<or> Store_db store = db2"
    using assms(2) unfolding openStoreWithBackend_def migrateLocked_def saveLocked_def auditLocked_def
    by (cases saveErr) (auto simp flip: db1_def simp: db2_def Let_def split: if_split_asm)
  ultimately show ?thesis
    using assms(1) by auto
qed

text \<open>The state that \<^verbatim>\<open>NewManager\<close> gives to the migration of the artifacts.\<close>

definition booted :: "(string \<Rightarrow> string) \<Rightarrow> ManagerConfig \<Rightarrow> time \<Rightarrow> Database \<Rightarrow> Manager" where
  "booted sha256hex cfg now db = update_db (ensureConfiguredClientKey sha256hex cfg now)
     \<lparr>Mgr_cfg = cfg, Mgr_db = db, Mgr_workers = [], Mgr_sessions = [], Mgr_streams = [],
      Mgr_queue = 0, Mgr_tickets = [], Mgr_pickDone = True\<rparr>"

lemma NewManager_Inr:
  assumes "NewManager sha256hex buildMeta newID loopback dirErr saveErr ioErr cfg loaded now files = Inr (files', m')"
  obtains store where "openStoreWithBackend newID loaded saveErr now = Inr store"
    "m' = snd (migrateArtifactTorrentMetadata buildMeta ioErr files (booted sha256hex (applyManagerDefaults cfg) now (Store_db store)))"
    "validateManagerSecrets loopback (applyManagerDefaults cfg) = None"
  using assms that by (fastforce simp: NewManager_def booted_def Let_def split: option.splits sum.splits)

lemma good_booted:
  assumes "db_good b db"
  shows "manager_good b (snd (migrateArtifactTorrentMetadata buildMeta ioErr files (booted sha256hex cfg now db)))"
proof -
  obtain arts where arts: "snd (migrateArtifactTorrentMetadata buildMeta ioErr files (booted sha256hex cfg now db)) =
      update_db (\<lambda>db. db\<lparr>Artifacts := arts\<rparr>) (booted sha256hex cfg now db)"
    "\<And>aid. mhas (Artifacts (Mgr_db (booted sha256hex cfg now db))) aid \<Longrightarrow> mhas arts aid"
    by (rule migrated_artifacts [of buildMeta ioErr files "booted sha256hex cfg now db"]) blast
  have "db_good b (Mgr_db (booted sha256hex cfg now db))"
    using db_good_accounts(4) [OF assms] by (simp add: booted_def update_db_def)
  then have "db_good b ((Mgr_db (booted sha256hex cfg now db))\<lparr>Artifacts := arts\<rparr>)"
    by (rule db_good_frame) (use arts(2) in \<open>auto simp: refs_ok_def list_all_iff\<close>)
  moreover have "sessions_ok (booted sha256hex cfg now db)"
    by (simp add: booted_def sessions_ok_def keyed_def)
  ultimately show ?thesis
    by (simp add: arts(1) manager_good_def update_db_def)
qed

lemma good_restart:
  assumes "db_good b db" and "NewManager sha256hex buildMeta newID loopback dirErr saveErr ioErr cfg (Inr (Some db)) now files = Inr (files', m')"
  shows "manager_good b m'"
  using NewManager_Inr [OF assms(2)] good_booted good_opened [OF assms(1)] by metis

lemma good_db: "manager_good b m \<Longrightarrow> db_good b (Mgr_db m)"
  by (simp add: manager_good_def)

lemma step_good: "manager_step m m' \<Longrightarrow> manager_good b m \<Longrightarrow> manager_good b m'"
proof (induction rule: manager_step.induct)
  case (expire_workers m J newID now)
  then show ?case by (simp add: manager_good_def db_good_run(2) sessions_ok_expire)
next
  case (restart sha256hex buildMeta newID loopback dirErr saveErr ioErr cfg m now files files' m')
  then show ?case using good_restart good_db by blast
next
  case (user_create newID cureq now m db)
  then show ?case using db_good_accounts(1) [of b "Mgr_db m"] by (auto simp: manager_good_def)
qed (auto simp: good_streams releaseQueue_def issueAdminStateWSTicket_def consumeAdminStateWSTicket_def
    purgeExpiredAdminStateWSTicketsLocked_def Let_def
    intro: good_connect good_readLoop good_writeLoop good_chat good_answer good_admin good_evictNodeArtifact good_maintain good_updates good_artifacts
    split: option.split intro!: good_set_db
    intro: db_good_admin(9-12) [OF good_db] db_good_accounts(2,3) [OF good_db])

subsection \<open>Reachable states\<close>

definition manager_ok :: "Manager \<Rightarrow> bool" where
  "manager_ok m \<longleftrightarrow> db_ok (Mgr_db m) \<and> refs_ok (Mgr_db m) \<and> sessions_ok m"

lemma init_ok:
  assumes "manager_init m"
  shows "manager_ok m"
proof -
  obtain sha256hex buildMeta newID loopback dirErr saveErr ioErr cfg now files files' where
    "NewManager sha256hex buildMeta newID loopback dirErr saveErr ioErr cfg (Inr None) now files = Inr (files', m)"
    using assms by (auto simp: manager_init_def)
  then obtain store where store: "openStoreWithBackend newID (Inr None) saveErr now = Inr store"
    "m = snd (migrateArtifactTorrentMetadata buildMeta ioErr files (booted sha256hex (applyManagerDefaults cfg) now (Store_db store)))"
    by (rule NewManager_Inr)
  have "db_ok emptyDatabase" "refs_ok emptyDatabase" by code_simp+
  moreover have "Store_db store = appendAudit newID ''migration.applied'' ''system'' ''schema'' [(''version'', AnyInt CurrentSchemaVersion)] now emptyDatabase"
    using store(1) by (auto simp: openStoreWithBackend_def saveLocked_def auditLocked_def split: option.splits)
  ultimately have "db_good (bank_of (Store_db store)) (Store_db store)"
    by (auto simp: db_good_def)
  then have "manager_good (bank_of (Store_db store)) m"
    unfolding store(2) by (rule good_booted)
  then show ?thesis
    by (simp add: manager_ok_def manager_good_def db_good_def)
qed

interpretation mgr: simulation manager_init manager_step manager_ok "\<lambda>m. bank_of (Mgr_db m)" bank_step
proof
  show "manager_ok m" if "manager_init m" for m
    using that by (rule init_ok)
  show "manager_ok m'" if "manager_ok m" "manager_step m m'" for m m'
    using step_good [OF that(2), of "bank_of (Mgr_db m)"] that(1) by (simp add: manager_ok_def manager_good_def db_good_def)
  show "bank_step\<^sup>*\<^sup>* (bank_of (Mgr_db m)) (bank_of (Mgr_db m'))" if "manager_ok m" "manager_step m m'" for m m'
    using step_good [OF that(2), of "bank_of (Mgr_db m)"] that(1) by (simp add: manager_ok_def manager_good_def db_good_def)
qed

text \<open>A run for the witnesses: a manager starts, and the administrator gives its client a balance.\<close>

definition sample_boot :: "manager_error + files \<times> Manager" where
  "sample_boot = NewManager (\<lambda>s. s) (\<lambda>_ _. Inl ''none'') (\<lambda>_ _. ''x'') (\<lambda>_. True) None None None
     (zero_ManagerConfig\<lparr>Cfg_AdminToken := ''at'', Cfg_ClientAPIKey := ''ck'', Cfg_WorkerToken := ''wt''\<rparr>) (Inr None) 1 []"

definition sample_started :: Manager where
  "sample_started = snd (projr sample_boot)"

definition sample_adjusted :: "manager_error + Database" where
  "sample_adjusted = handleAdminBalanceAdjustment (\<lambda>_ _. ''x'')
     \<lparr>Adjust_UserID = defaultClientUserID, Adjust_Amount = 10, Adjust_Reason = []\<rparr> 2 (Mgr_db sample_started)"

lemma sample_run:
  "manager_init sample_started" "manager_step sample_started (sample_started\<lparr>Mgr_db := projr sample_adjusted\<rparr>)"
proof -
  have "\<not> isl sample_boot"
    by (simp add: sample_boot_def NewManager_def validateManagerSecrets_def applyManagerDefaults_def applyManagerPathDefaults_def
        applyManagerRuntimeDefaults_def applyWorkerHealthDefaults_def managerUsesDevTokens_def devAdminToken_def devClientToken_def
        devWorkerToken_def openStoreWithBackend_def saveLocked_def auditLocked_def Let_def)
  then have "sample_boot = Inr (fst (projr sample_boot), sample_started)"
    by (cases sample_boot) (auto simp: sample_started_def)
  then show "manager_init sample_started"
    unfolding manager_init_def sample_boot_def by blast
  have "\<not> isl sample_adjusted" by code_simp
  then have "sample_adjusted = Inr (projr sample_adjusted)" by (cases sample_adjusted) auto
  then show "manager_step sample_started (sample_started\<lparr>Mgr_db := projr sample_adjusted\<rparr>)"
    unfolding sample_adjusted_def by (rule balance_adjust)
qed

lemma sample_account: "mhas (Users (projr sample_adjusted)) defaultClientUserID"
  by code_simp

text \<open>A second run: a worker connects to the manager and says hello.\<close>

definition hello_codec :: json_codec where
  "hello_codec = sample_codec\<lparr>unmarshalHello := \<lambda>_. Inr \<lparr>Hello_NodeToken = [], Hello_Node = zero_Node\<lparr>Node_ID := ''n1''\<rparr>, Hello_Slots = []\<rparr>\<rparr>"

definition sample_connected :: Manager where
  "sample_connected = snd (handleWorkerWS (\<lambda>_ _. ''x'') 
     \<lparr>Http_queryToken = [], Http_authorization = ''Bearer wt'', Http_host = [], Http_tls = False, Http_forwardedProto = [], Http_remoteHost = []\<rparr>
     True sample_started)"

definition sample_registered :: Manager where
  "sample_registered = readLoop hello_codec (\<lambda>s. s) (\<lambda>_ _. ''x'') (\<lambda>_. []) ''x''
     (Some (zero_Envelope\<lparr>Env_Type := MsgHello, Env_ID := ''m1'', Env_NodeID := ''n1''\<rparr>)) 3 sample_connected"

lemma sessions_replan: "Mgr_sessions (replanAndDispatch J newID now m) = Mgr_sessions m"
proof -
  have f: "Mgr_sessions (foldl f n xs) = Mgr_sessions n" if "\<And>n x. Mgr_sessions (f n x) = Mgr_sessions n"
    for f :: "Manager \<Rightarrow> 'x \<Rightarrow> Manager" and n xs
    using that by (induction xs arbitrary: n) auto
  show ?thesis
    unfolding replanAndDispatch_def Let_def dispatchStaleArtifactEvictions_def
    by (subst f; (subst f)?)
      (auto simp: maintain_def dispatchAssignment_def dispatchArtifactEviction_def recordArtifactEviction_def Let_def split_beta split: option.split)
qed

lemma registered_served:
  assumes "Mgr_sessions m = []" and "Session_nodeID (sessionOf m sid) = []"
    and "registerWorker sha newID (Mgr_cfg m) sid [] (normalizeWorkerNode newID node sid cached warm now (Mgr_db m)) slots tok now (Mgr_db m) = Inr ((n, t), db)"
  shows "mhas (Mgr_sessions (snd (upsertWorkerState J sha newID sid node slots cached warm tok now m))) (Node_ID n)"
  using assms by (simp add: upsertWorkerState_def Let_def sessions_replan sendP2PConfigToSession_def mhas_def)

lemma sample_registration: "manager_step\<^sup>*\<^sup>* sample_started sample_registered" "mhas (Mgr_sessions sample_registered) ''n1''"
proof -
  have "\<not> mhas (Mgr_workers sample_started) ''x''" by code_simp
  then have "manager_step sample_started sample_connected"
    unfolding sample_connected_def by (rule connect_worker)
  moreover have "mhas (Mgr_workers sample_connected) ''x''" by code_simp
  then have "manager_step sample_connected sample_registered"
    unfolding sample_registered_def by (rule read_worker)
  ultimately show "manager_step\<^sup>*\<^sup>* sample_started sample_registered" by simp
  let ?r = "registerWorker (\<lambda>s. s) (\<lambda>_ _. ''x'') (Mgr_cfg sample_connected) ''x'' []
    (normalizeWorkerNode (\<lambda>_ _. ''x'') (zero_Node\<lparr>Node_ID := ''n1''\<rparr>) ''x'' None None 3 (Mgr_db sample_connected)) [] [] 3 (Mgr_db sample_connected)"
  have "\<not> isl ?r" by code_simp
  moreover have "Node_ID (fst (fst (projr ?r))) = ''n1''" by code_simp
  ultimately obtain n t db where "?r = Inr ((n, t), db)" "Node_ID n = ''n1''"
    by (cases ?r) auto
  moreover have "Mgr_sessions sample_connected = []" "Session_nodeID (sessionOf sample_connected ''x'') = []" by code_simp+
  ultimately have "mhas (Mgr_sessions (snd (upsertWorkerState hello_codec (\<lambda>s. s) (\<lambda>_ _. ''x'') ''x'' (zero_Node\<lparr>Node_ID := ''n1''\<rparr>) [] None None [] 3 sample_connected))) ''n1''"
    by (metis registered_served)
  then show "mhas (Mgr_sessions sample_registered) ''n1''"
    by (simp add: sample_registered_def readLoop_def handleWorkerEnvelope_def handleWorkerHello_def hello_codec_def
        validateWorkerEnvelopeSession_def split: prod.split option.split) auto
qed

end
