(* ===== verification/Worker_Core.thy ===== *)
theory Worker_Core
  imports Startup
begin

section \<open>The worker: state and messages (worker.go, worker_task.go, worker_p2p.go)\<close>

text \<open>
  The process that runs on a node: its configuration, its state and the messages that it sends
  to the manager. The state is the struct \<^verbatim>\<open>Worker\<close>; a runtime process is an object of its own
  (\<open>Worker_procs\<close>), which \<^verbatim>\<open>runtimes\<close> refers to by its address, so that a process that has been
  replaced is still there. A cancel function is the flag of its context. \<open>Worker_files\<close> is the
  disk of the node, \<open>Worker_go\<close> are the goroutines that it has started, \<open>Worker_downloadTokens\<close> is the number of tokens in the channel that limits
  downloads, and \<open>Worker_send\<close> the channel of outgoing messages, the oldest first.

  \<open>worker_env\<close> is what a call meets: the clock, fresh identifiers, the digest, the JSON library,
  the operating system, the torrent library, the error of writing the state file, if any, and the
  text of a duration.
\<close>

subsection \<open>Configuration and state\<close>

record WorkerConfig =
  WCfg_ManagerURL :: string
  WCfg_Token :: string
  WCfg_NodeID :: string
  WCfg_Name :: string
  WCfg_StatePath :: string
  WCfg_CacheDir :: string
  WCfg_LlamaServerPath :: string
  WCfg_RuntimeStartWait :: duration
  WCfg_SlotCount :: int
  WCfg_MaxConcurrentDownloads :: int
  WCfg_RAMBytes :: int
  WCfg_VRAMBytes :: int
  WCfg_UnifiedBytes :: int
  WCfg_DiskBytes :: int
  WCfg_P2PPort :: int
  WCfg_P2PMaxUploads :: int
  WCfg_P2PDownloadTimeout :: duration
  WCfg_DisableP2P :: bool
  WCfg_EnableSelfUpdate :: bool

record cachedArtifactState =
  CachedSt_Path :: string
  CachedSt_Torrent :: "ArtifactTorrent option"

definition zero_cachedArtifactState :: cachedArtifactState where
  "zero_cachedArtifactState = \<lparr>CachedSt_Path = [], CachedSt_Torrent = None\<rparr>"

record workerStateFile =
  WState_NodeID :: string
  WState_NodeToken :: string
  WState_Cache :: "string gomap"
  WState_CachedArtifacts :: "cachedArtifactState gomap"
  WState_WarmProfile :: "string list"

record llamaServerProcess =
  Proc_baseURL :: string
  Proc_profileKey :: string
  Proc_stderr :: string
  Proc_done :: bool
  Proc_waitErr :: "string option"

text \<open>The torrent client of a worker. A torrent is the handle that the library gave for it.\<close>

record anacrolixWorkerP2P =
  Anacrolix_client :: bool
  Anacrolix_status :: WorkerP2PStatus
  Anacrolix_torrents :: "string gomap"
  Anacrolix_downloading :: "bool gomap"

text \<open>
  The goroutines that the worker has started and that have not ended: the run of an assignment, of
  a task (from its admission, and from its first token on), of an update, the watch of a process,
  and the recovery of a slot.
\<close>

datatype goroutine =
    GoAssignment AssignmentPayload
  | GoExecute ExecuteTaskPayload
  | GoStream ExecuteTaskPayload time
  | GoUpdate UpdatePayload
  | GoWatch string WorkloadProfile string
  | GoRecover string WorkloadProfile string

record Worker =
  Worker_cfg :: WorkerConfig
  Worker_node :: Node
  Worker_nodeToken :: string
  Worker_slots :: "Slot gomap"
  Worker_assigns :: "AssignmentPayload gomap"
  Worker_cache :: "string gomap"
  Worker_cacheState :: "cachedArtifactState gomap"
  Worker_warm :: "WorkloadProfile gomap"
  Worker_activeAssignments :: "bool gomap"
  Worker_assignmentFailures :: "time gomap"
  Worker_processed :: "time gomap"
  Worker_active :: "bool gomap"
  Worker_runtimes :: "string gomap"
  Worker_procs :: "llamaServerProcess gomap"
  Worker_runtimeRestarts :: "int gomap"
  Worker_downloadTokens :: nat
  Worker_downloadPressure :: DownloadPressure
  Worker_p2p :: "anacrolixWorkerP2P option"
  Worker_send :: "Envelope list"
  Worker_connected :: bool
  Worker_lastError :: string
  Worker_startedAt :: time
  Worker_paused :: bool
  Worker_files :: files
  Worker_go :: "goroutine list"

text \<open>The JSON library on the payloads of the worker and on its state file.\<close>

record worker_codec =
  unmarshalAck :: "string \<Rightarrow> string + WorkerRegistrationAck"
  unmarshalAssignment :: "string \<Rightarrow> string + AssignmentPayload"
  unmarshalExecute :: "string \<Rightarrow> string + ExecuteTaskPayload"
  unmarshalCancel :: "string \<Rightarrow> string + CancelTaskPayload"
  unmarshalEvict :: "string \<Rightarrow> string + EvictArtifactPayload"
  unmarshalP2PConfig :: "string \<Rightarrow> string + P2PConfigPayload"
  unmarshalUpdate :: "string \<Rightarrow> string + UpdatePayload"
  marshalHello :: "HelloPayload \<Rightarrow> string"
  marshalFullState :: "FullStatePayload \<Rightarrow> string"
  marshalSlotState :: "SlotStatePayload \<Rightarrow> string"
  marshalArtifactState :: "ArtifactStatePayload \<Rightarrow> string"
  marshalToken :: "TokenPayload \<Rightarrow> string"
  marshalAttemptFailed :: "AttemptFailedPayload \<Rightarrow> string"
  marshalReport :: "ComputeReport \<Rightarrow> string"
  marshalStrings :: "string gomap \<Rightarrow> string"
  marshalState :: "workerStateFile \<Rightarrow> string"
  unmarshalState :: "string \<Rightarrow> workerStateFile"

text \<open>
  The operating system: \<open>OS_isExec\<close> tells a regular file with an execute bit, \<open>OS_executable\<close> is
  \<^verbatim>\<open>os.Executable\<close>.
\<close>

record platform =
  OS_GOOS :: string
  OS_GOARCH :: string
  OS_hostname :: string
  OS_executable :: "string option"
  OS_isExec :: "string \<Rightarrow> bool"

text \<open>The torrent library: a client, the metainfo of a torrent, its handle, completeness and peers.\<close>

record torrent_client =
  Tor_newClient :: "WorkerConfig \<Rightarrow> string option"
  Tor_load :: "string \<Rightarrow> string + string"
  Tor_add :: "string \<Rightarrow> string + string"
  Tor_complete :: "string \<Rightarrow> bool"
  Tor_peers :: "string \<Rightarrow> int"

record worker_env =
  E_now :: time
  E_newID :: id_source
  E_sha256hex :: "string \<Rightarrow> string"
  E_codec :: worker_codec
  E_platform :: platform
  E_torrent :: torrent_client
  E_saveErr :: "string option"
  E_showDuration :: "duration \<Rightarrow> string"

subsection \<open>Defaults\<close>

definition defaultWorkerP2PPort :: int where
  "defaultWorkerP2PPort = 6881"

definition defaultWorkerP2PMaxUploads :: int where
  "defaultWorkerP2PMaxUploads = 8"

definition defaultWorkerP2PDownloadTimeout :: duration where
  "defaultWorkerP2PDownloadTimeout = minutes 2"

definition applyWorkerConnectionDefaults :: "WorkerConfig \<Rightarrow> WorkerConfig" where
  "applyWorkerConnectionDefaults cfg =
     (let cfg = (if WCfg_ManagerURL cfg = [] then cfg\<lparr>WCfg_ManagerURL := ''http://127.0.0.1:1922''\<rparr> else cfg);
          cfg = (if WCfg_Token cfg = [] then cfg\<lparr>WCfg_Token := ''dev-worker-token''\<rparr> else cfg);
          cfg = (if WCfg_StatePath cfg = [] then cfg\<lparr>WCfg_StatePath := ''data/worker-state.json''\<rparr> else cfg)
      in if WCfg_CacheDir cfg = [] then cfg\<lparr>WCfg_CacheDir := ''data/worker-cache''\<rparr> else cfg)"

definition applyWorkerCapacityDefaults :: "WorkerConfig \<Rightarrow> WorkerConfig" where
  "applyWorkerCapacityDefaults cfg =
     (let cfg = (if WCfg_SlotCount cfg \<le> 0 then cfg\<lparr>WCfg_SlotCount := 1\<rparr> else cfg);
          cfg = (if WCfg_MaxConcurrentDownloads cfg \<le> 0 then cfg\<lparr>WCfg_MaxConcurrentDownloads := 1\<rparr> else cfg);
          cfg = (if WCfg_RAMBytes cfg \<le> 0 then cfg\<lparr>WCfg_RAMBytes := 8 * 2 ^ 30\<rparr> else cfg);
          cfg = (if WCfg_UnifiedBytes cfg \<le> 0 then cfg\<lparr>WCfg_UnifiedBytes := WCfg_RAMBytes cfg\<rparr> else cfg)
      in if WCfg_DiskBytes cfg \<le> 0 then cfg\<lparr>WCfg_DiskBytes := 20 * 2 ^ 30\<rparr> else cfg)"

definition applyWorkerP2PDefaults :: "WorkerConfig \<Rightarrow> WorkerConfig" where
  "applyWorkerP2PDefaults cfg =
     (let cfg = (if WCfg_P2PPort cfg \<le> 0 then cfg\<lparr>WCfg_P2PPort := defaultWorkerP2PPort\<rparr> else cfg);
          cfg = (if WCfg_P2PMaxUploads cfg \<le> 0 then cfg\<lparr>WCfg_P2PMaxUploads := defaultWorkerP2PMaxUploads\<rparr> else cfg)
      in if WCfg_P2PDownloadTimeout cfg \<le> 0 then cfg\<lparr>WCfg_P2PDownloadTimeout := defaultWorkerP2PDownloadTimeout\<rparr> else cfg)"

definition applyWorkerDefaults :: "WorkerConfig \<Rightarrow> WorkerConfig" where
  "applyWorkerDefaults cfg =
     (let cfg = applyWorkerP2PDefaults (applyWorkerCapacityDefaults (applyWorkerConnectionDefaults cfg))
      in if WCfg_RuntimeStartWait cfg \<le> 0 then cfg\<lparr>WCfg_RuntimeStartWait := seconds 60\<rparr> else cfg)"

subsection \<open>The node and its slots\<close>

definition executableFilePath :: "platform \<Rightarrow> string \<Rightarrow> string" where
  "executableFilePath os path = (if OS_isExec os path then path else [])"

definition llamaServerExecutablePath :: "platform \<Rightarrow> WorkerConfig \<Rightarrow> string" where
  "llamaServerExecutablePath os cfg =
     (if WCfg_LlamaServerPath cfg \<noteq> [] then executableFilePath os (WCfg_LlamaServerPath cfg)
      else case OS_executable os of
        None \<Rightarrow> []
      | Some exe \<Rightarrow> executableFilePath os (JoinPath (Dir exe) ''llama-server''))"

definition workerRuntimeTarget :: "platform \<Rightarrow> WorkerConfig \<Rightarrow> string \<times> string list" where
  "workerRuntimeTarget os cfg =
     (if OS_GOOS os = ''darwin'' \<and> OS_GOARCH os = ''arm64''
      then (TargetDarwinArm64Metal, if llamaServerExecutablePath os cfg \<noteq> [] then [''llama.cpp-metal''] else [])
      else (OS_GOOS os @ ''-'' @ OS_GOARCH os, []))"

definition workerNodeName :: "platform \<Rightarrow> WorkerConfig \<Rightarrow> string" where
  "workerNodeName os cfg =
     (if WCfg_Name cfg \<noteq> [] then WCfg_Name cfg else if OS_hostname os \<noteq> [] then OS_hostname os else WCfg_NodeID cfg)"

definition workerBudget :: "WorkerConfig \<Rightarrow> int \<Rightarrow> ResourceBudget" where
  "workerBudget cfg slotCount = \<lparr>Budget_RAMBytes = WCfg_RAMBytes cfg, Budget_VRAMBytes = WCfg_VRAMBytes cfg,
     Budget_UnifiedMemoryBytes = WCfg_UnifiedBytes cfg, Budget_DiskBytes = WCfg_DiskBytes cfg, Budget_SlotCount = slotCount\<rparr>"

text \<open>\<^verbatim>\<open>Version\<close> of types.go, which a build may set.\<close>

definition Version :: string where
  "Version = ''dev''"

definition newWorkerNode :: "platform \<Rightarrow> WorkerConfig \<Rightarrow> string \<Rightarrow> string list \<Rightarrow> Node" where
  "newWorkerNode os cfg target adapters = zero_Node\<lparr>Node_ID := WCfg_NodeID cfg, Node_Name := workerNodeName os cfg,
     Node_OS := OS_GOOS os, Node_Arch := OS_GOARCH os, Node_Target := target, Node_Mode := ''reserved_always'',
     Node_Tags := [''local'', OS_GOOS os, OS_GOARCH os], Node_State := NodeStateRegistered, Node_Version := Version,
     Node_RuntimeAdapters := adapters, Node_Budgets := workerBudget cfg (WCfg_SlotCount cfg),
     Node_DownloadPressure := zero_DownloadPressure\<lparr>Pressure_MaxConcurrent := WCfg_MaxConcurrentDownloads cfg\<rparr>,
     Node_Approved := True\<rparr>"

definition firstRuntimeAdapter :: "string list \<Rightarrow> string" where
  "firstRuntimeAdapter adapters = (case adapters of [] \<Rightarrow> [] | a # _ \<Rightarrow> a)"

definition newWorkerSlots :: "WorkerConfig \<Rightarrow> string \<Rightarrow> string list \<Rightarrow> Slot gomap" where
  "newWorkerSlots cfg target adapters =
     foldl (\<lambda>slots i. let sid = WCfg_NodeID cfg @ ''/metal'' @ show_nat i in
         mput sid (zero_Slot\<lparr>Slot_ID := sid, Slot_NodeID := WCfg_NodeID cfg, Slot_Target := target,
           Slot_RuntimeAdapter := firstRuntimeAdapter adapters, Slot_Resources := workerBudget cfg 1,
           Slot_State := SlotStateIdle, Slot_AcceptsNew := False\<rparr>) slots)
       [] [0..<nat (WCfg_SlotCount cfg)]"

subsection \<open>Messages\<close>

definition workerSendCapacity :: nat where
  "workerSendCapacity = 256"

text \<open>A message that finds the channel full is dropped; no caller looks at the result.\<close>

definition worker_enqueue :: "Envelope \<Rightarrow> Worker \<Rightarrow> bool \<times> Worker" where
  "worker_enqueue msg w =
     (if length (Worker_send w) < workerSendCapacity then (True, w\<lparr>Worker_send := Worker_send w @ [msg]\<rparr>) else (False, w))"

text \<open>\<^verbatim>\<open>w.enqueue(Envelope{ID: NewID("msg"), Type: ..., NodeID: w.node.ID, ...})\<close>\<close>

definition worker_message :: "worker_env \<Rightarrow> string \<Rightarrow> string \<Rightarrow> string \<Rightarrow> string \<Rightarrow> Worker \<Rightarrow> Worker" where
  "worker_message E type taskID attempt payload w =
     snd (worker_enqueue \<lparr>Env_ID = E_newID E ''msg'' (length (Worker_send w)), Env_Type = type,
       Env_NodeID = Node_ID (Worker_node w), Env_TaskID = taskID, Env_Attempt = attempt, Env_Payload = payload\<rparr> w)"

definition applyPauseFilter :: "Worker \<Rightarrow> Slot list \<Rightarrow> Slot list" where
  "applyPauseFilter w slots =
     (if \<not> Worker_paused w then slots
      else map (\<lambda>s. if Slot_State s = SlotStateReady then s\<lparr>Slot_State := SlotStateIdle, Slot_AcceptsNew := False\<rparr> else s) slots)"

definition sendArtifactState :: "worker_env \<Rightarrow> ArtifactSpec \<Rightarrow> string \<Rightarrow> string \<Rightarrow> Worker \<Rightarrow> Worker" where
  "sendArtifactState E artifact state errText w =
     worker_message E MsgArtifactState [] [] (marshalArtifactState (E_codec E)
       \<lparr>ArtSt_ArtifactID = Spec_ID artifact, ArtSt_State = state, ArtSt_SHA256 = Spec_SHA256 artifact, ArtSt_Error = errText\<rparr>) w"

subsection \<open>States of slots\<close>

definition assignmentKey :: "WorkloadProfile \<Rightarrow> string" where
  "assignmentKey profile =
     (if Profile_RuntimeVariantID profile = [] then Profile_ID profile
      else Profile_ID profile @ ''@'' @ Profile_RuntimeVariantID profile)"

definition getSlot :: "Worker \<Rightarrow> string \<Rightarrow> Slot option" where
  "getSlot w slotID = map_of (Worker_slots w) slotID"

definition warmProfileForSlot :: "Worker \<Rightarrow> string \<Rightarrow> string \<Rightarrow> WorkloadProfile" where
  "warmProfileForSlot w slotID profileID =
     (let slot = mget zero_Slot (Worker_slots w) slotID;
          matches = (\<lambda>p. Profile_ID p = profileID \<and>
            (Slot_RuntimeVariantID slot = [] \<or> Profile_RuntimeVariantID p = Slot_RuntimeVariantID slot))
      in case find matches (map Assign_Profile (mvals (Worker_assigns w))) of
           Some p \<Rightarrow> p
         | None \<Rightarrow>
             (case find matches (mvals (Worker_warm w)) of
                Some p \<Rightarrow> p
              | None \<Rightarrow> zero_WorkloadProfile\<lparr>Profile_ID := profileID, Profile_LogicalModel := profileID\<rparr>))"

text \<open>What a slot that serves a profile shows of it.\<close>

definition slotOfProfile :: "WorkloadProfile \<Rightarrow> string \<Rightarrow> Slot \<Rightarrow> Slot" where
  "slotOfProfile profile profileID slot = slot\<lparr>Slot_ProfileID := profileID, Slot_ProfileVersion := profileVersion profile,
     Slot_LogicalModel := ProfileLogicalModel profile, Slot_RuntimeVariantID := Profile_RuntimeVariantID profile,
     Slot_ModelArtifactID := ConcreteModelArtifactID profile, Slot_ModelSHA256 := ConcreteModelSHA256 profile\<rparr>"

definition slotMessage :: "Slot \<Rightarrow> string \<Rightarrow> string \<Rightarrow> string \<Rightarrow> string \<Rightarrow> string \<Rightarrow> SlotStatePayload" where
  "slotMessage slot slotID state profileID active reason = \<lparr>SlotSt_SlotID = slotID, SlotSt_State = state,
     SlotSt_ProfileID = profileID, SlotSt_ProfileVersion = Slot_ProfileVersion slot, SlotSt_LogicalModel = Slot_LogicalModel slot,
     SlotSt_RuntimeVariantID = Slot_RuntimeVariantID slot, SlotSt_ModelArtifactID = Slot_ModelArtifactID slot,
     SlotSt_ModelSHA256 = Slot_ModelSHA256 slot, SlotSt_ActiveTaskID = active, SlotSt_MismatchReason = reason\<rparr>"

definition setSlotServing :: "worker_env \<Rightarrow> string \<Rightarrow> string \<Rightarrow> string \<Rightarrow> Worker \<Rightarrow> Worker" where
  "setSlotServing E slotID profileID taskID w =
     (let profile = warmProfileForSlot w slotID profileID;
          slot = (slotOfProfile profile profileID (mget zero_Slot (Worker_slots w) slotID))
            \<lparr>Slot_State := SlotStateServing, Slot_ActiveTaskID := taskID, Slot_AcceptsNew := False\<rparr>
      in worker_message E MsgSlotState [] [] (marshalSlotState (E_codec E)
           (slotMessage slot slotID (Slot_State slot) profileID taskID []))
           (w\<lparr>Worker_slots := mput slotID slot (Worker_slots w)\<rparr>))"

definition setSlotState :: "worker_env \<Rightarrow> string \<Rightarrow> string \<Rightarrow> string \<Rightarrow> string \<Rightarrow> Worker \<Rightarrow> Worker" where
  "setSlotState E slotID state profileID reason w =
     (let profile = warmProfileForSlot w slotID profileID;
          slot = (slotOfProfile profile profileID (mget zero_Slot (Worker_slots w) slotID))
            \<lparr>Slot_State := state, Slot_ActiveTaskID := [], Slot_MismatchReason := reason, Slot_AcceptsNew := state = SlotStateReady\<rparr>;
          reported = (if Worker_paused w \<and> state = SlotStateReady then SlotStateIdle else state)
      in worker_message E MsgSlotState [] [] (marshalSlotState (E_codec E)
           (slotMessage slot slotID reported profileID [] reason))
           (w\<lparr>Worker_slots := mput slotID slot (Worker_slots w)\<rparr>))"

text \<open>The first slot that the range loop meets, whichever it is.\<close>

definition setAnySlotState :: "worker_env \<Rightarrow> string \<Rightarrow> string \<Rightarrow> string \<Rightarrow> Worker \<Rightarrow> Worker" where
  "setAnySlotState E state profileID reason w =
     (case mvals (Worker_slots w) of
        [] \<Rightarrow> w
      | slot # _ \<Rightarrow> if Slot_ID slot \<noteq> [] then setSlotState E (Slot_ID slot) state profileID reason w else w)"

definition sendSlotState :: "worker_env \<Rightarrow> Slot \<Rightarrow> Worker \<Rightarrow> Worker" where
  "sendSlotState E slot w =
     (let state = (if Worker_paused w \<and> Slot_State slot = SlotStateReady then SlotStateIdle else Slot_State slot)
      in worker_message E MsgSlotState [] [] (marshalSlotState (E_codec E)
           (zero_SlotStatePayload\<lparr>SlotSt_SlotID := Slot_ID slot, SlotSt_State := state, SlotSt_ProfileID := Slot_ProfileID slot,
             SlotSt_ActiveTaskID := Slot_ActiveTaskID slot, SlotSt_MismatchReason := Slot_MismatchReason slot\<rparr>)) w)"

definition setPaused :: "worker_env \<Rightarrow> bool \<Rightarrow> Worker \<Rightarrow> Worker" where
  "setPaused E paused w =
     (if Worker_paused w = paused then w
      else foldl (\<lambda>w slot. if Slot_State slot = SlotStateReady then sendSlotState E slot w else w)
        (w\<lparr>Worker_paused := paused\<rparr>) (mvals (Worker_slots w)))"

end
