(* ===== verification/Worker_P2P.thy ===== *)
theory Worker_P2P
  imports Worker_Core
begin

section \<open>Peer-to-peer delivery and the saved state (worker_p2p.go, worker.go, worker_update.go)\<close>

text \<open>
  The worker's torrent client, the file in which it keeps its node identifier, its token and
  its cache, and the start of a worker. The torrent library is a parameter. A download waits
  for the library: the rounds of the wait are the ticks of its timer, with the numbers of peers
  seen, and the event that ends it (the torrent is complete, or the context is done, which its
  timeout makes sure of).
\<close>

definition defaultWorkerP2PNoPeerWait :: duration where
  "defaultWorkerP2PNoPeerWait = seconds 2"

definition artifactDeliveryTorrent :: string where
  "artifactDeliveryTorrent = ''torrent''"

definition artifactDeliveryHTTPFallback :: string where
  "artifactDeliveryHTTPFallback = ''http_fallback''"

definition artifactDeliveryHTTPOnly :: string where
  "artifactDeliveryHTTPOnly = ''http_only''"

definition p2pFailureUnavailable :: string where
  "p2pFailureUnavailable = ''runtime_unavailable''"

definition p2pFailureNoPeers :: string where
  "p2pFailureNoPeers = ''no_peers''"

definition p2pFailureTimeout :: string where
  "p2pFailureTimeout = ''timeout''"

definition p2pFailureDownload :: string where
  "p2pFailureDownload = ''download_failed''"

record p2pDownloadError =
  DownloadErr_reason :: string
  DownloadErr_err :: "string option"

definition p2pDownloadError_Error :: "p2pDownloadError \<Rightarrow> string" where
  "p2pDownloadError_Error e =
     (case DownloadErr_err e of None \<Rightarrow> DownloadErr_reason e | Some t \<Rightarrow> DownloadErr_reason e @ '': '' @ t)"

subsection \<open>The torrent client\<close>

definition recordP2PFailure :: "time \<Rightarrow> string \<Rightarrow> string option \<Rightarrow> WorkerP2PStatus \<Rightarrow> WorkerP2PStatus" where
  "recordP2PFailure now reason err status = status\<lparr>P2P_LastFailureAt := Some now,
     P2P_LastFailure := (case err of None \<Rightarrow> reason | Some e \<Rightarrow> if reason = [] then e else reason @ '': '' @ e)\<rparr>"

definition newAnacrolixWorkerP2P :: "worker_env \<Rightarrow> WorkerConfig \<Rightarrow> anacrolixWorkerP2P" where
  "newAnacrolixWorkerP2P E cfg =
     (let status = zero_WorkerP2PStatus\<lparr>P2P_Port := WCfg_P2PPort cfg, P2P_MaxUploads := WCfg_P2PMaxUploads cfg,
            P2P_DownloadTimeoutSeconds := WCfg_P2PDownloadTimeout cfg div 1000000000\<rparr>
      in case Tor_newClient (E_torrent E) cfg of
           Some e \<Rightarrow> \<lparr>Anacrolix_client = False,
             Anacrolix_status = status\<lparr>P2P_LastFailure := e, P2P_LastFailureAt := Some (E_now E)\<rparr>,
             Anacrolix_torrents = [], Anacrolix_downloading = []\<rparr>
         | None \<Rightarrow> \<lparr>Anacrolix_client = True, Anacrolix_status = status\<lparr>P2P_Available := True\<rparr>,
             Anacrolix_torrents = [], Anacrolix_downloading = []\<rparr>)"

definition Available :: "anacrolixWorkerP2P \<Rightarrow> bool" where
  "Available p \<longleftrightarrow> Anacrolix_client p \<and> P2P_Available (Anacrolix_status p)"

definition P2P_Snapshot :: "worker_env \<Rightarrow> anacrolixWorkerP2P \<Rightarrow> WorkerP2PStatus" where
  "P2P_Snapshot E p = (Anacrolix_status p)\<lparr>
     P2P_SeedingCount := int (length (filter (Tor_complete (E_torrent E)) (mvals (Anacrolix_torrents p)))),
     P2P_DownloadingCount := int (length (Anacrolix_downloading p)),
     P2P_PeerCount := sum_list (map (Tor_peers (E_torrent E)) (mvals (Anacrolix_torrents p)))\<rparr>"

definition p2p_recordFailure :: "time \<Rightarrow> string \<Rightarrow> string option \<Rightarrow> anacrolixWorkerP2P \<Rightarrow> anacrolixWorkerP2P" where
  "p2p_recordFailure now reason err p = p\<lparr>Anacrolix_status := recordP2PFailure now reason err (Anacrolix_status p)\<rparr>"

definition RecordFallback :: "time \<Rightarrow> string \<Rightarrow> string option \<Rightarrow> anacrolixWorkerP2P \<Rightarrow> anacrolixWorkerP2P" where
  "RecordFallback now reason err p = p\<lparr>Anacrolix_status := recordP2PFailure now reason err
     ((Anacrolix_status p)\<lparr>P2P_FallbackCount := P2P_FallbackCount (Anacrolix_status p) + 1\<rparr>)\<rparr>"

definition dropTorrent :: "string \<Rightarrow> anacrolixWorkerP2P \<Rightarrow> anacrolixWorkerP2P" where
  "dropTorrent artifactID p = p\<lparr>Anacrolix_torrents := mdel artifactID (Anacrolix_torrents p),
     Anacrolix_downloading := mdel artifactID (Anacrolix_downloading p)\<rparr>"

definition StopSeeding :: "string \<Rightarrow> anacrolixWorkerP2P \<Rightarrow> anacrolixWorkerP2P" where
  "StopSeeding artifactID p = dropTorrent artifactID p"

definition setDownloading :: "string \<Rightarrow> bool \<Rightarrow> anacrolixWorkerP2P \<Rightarrow> anacrolixWorkerP2P" where
  "setDownloading artifactID active p =
     p\<lparr>Anacrolix_downloading := (if active then mput artifactID True else mdel artifactID) (Anacrolix_downloading p)\<rparr>"

definition P2P_Close :: "anacrolixWorkerP2P \<Rightarrow> anacrolixWorkerP2P" where
  "P2P_Close p = p\<lparr>Anacrolix_client := False, Anacrolix_torrents := [], Anacrolix_downloading := []\<rparr>"

definition loadTorrentMetaInfo :: "worker_env \<Rightarrow> ArtifactSpec \<Rightarrow> string + string" where
  "loadTorrentMetaInfo E artifact =
     (case Spec_Torrent artifact of
        None \<Rightarrow> Inl ''artifact torrent metadata is missing''
      | Some t \<Rightarrow>
          if Torrent_MetaInfoBytes t = [] then Inl ''artifact torrent metadata is missing''
          else Tor_load (E_torrent E) (Torrent_MetaInfoBytes t))"

definition ensureTorrent :: "worker_env \<Rightarrow> ArtifactSpec \<Rightarrow> anacrolixWorkerP2P \<Rightarrow> (string + string) \<times> anacrolixWorkerP2P" where
  "ensureTorrent E artifact p =
     (case map_of (Anacrolix_torrents p) (Spec_ID artifact) of
        Some tor \<Rightarrow> (Inr tor, p)
      | None \<Rightarrow>
          if \<not> Anacrolix_client p then (Inl ''torrent client is not available'', p)
          else (case loadTorrentMetaInfo E artifact of
                  Inl e \<Rightarrow> (Inl e, p)
                | Inr mi \<Rightarrow>
                    (case Tor_add (E_torrent E) mi of
                       Inl e \<Rightarrow> (Inl e, p)
                     | Inr tor \<Rightarrow> (Inr tor, p\<lparr>Anacrolix_torrents := mput (Spec_ID artifact) tor (Anacrolix_torrents p)\<rparr>))))"

definition Seed :: "worker_env \<Rightarrow> ArtifactSpec \<Rightarrow> anacrolixWorkerP2P \<Rightarrow> string option \<times> anacrolixWorkerP2P" where
  "Seed E artifact p =
     (if \<not> Available p \<or> Spec_Torrent artifact = None then (None, p)
      else case ensureTorrent E artifact p of
        (Inl e, p1) \<Rightarrow> (Some e, p2p_recordFailure (E_now E) p2pFailureDownload (Some e) p1)
      | (Inr _, p1) \<Rightarrow> (None, p1))"

definition ensureDownloadTorrent ::
  "worker_env \<Rightarrow> ArtifactSpec \<Rightarrow> anacrolixWorkerP2P \<Rightarrow> (p2pDownloadError + string) \<times> anacrolixWorkerP2P" where
  "ensureDownloadTorrent E artifact p =
     (case ensureTorrent E artifact p of
        (Inl e, p1) \<Rightarrow> (Inl \<lparr>DownloadErr_reason = p2pFailureDownload, DownloadErr_err = Some e\<rparr>,
          p2p_recordFailure (E_now E) p2pFailureDownload (Some e) p1)
      | (Inr tor, p1) \<Rightarrow> (Inr tor, p1))"

subsection \<open>Waiting for a torrent\<close>

record torrent_tick =
  Tick_now :: time
  Tick_peers :: int

datatype torrent_end = TorrentComplete | TorrentContextDone time string int

fun waitForTorrentCompletion ::
  "string \<Rightarrow> time \<Rightarrow> bool \<Rightarrow> torrent_tick list \<Rightarrow> torrent_end \<Rightarrow> anacrolixWorkerP2P \<Rightarrow> p2pDownloadError option \<times> anacrolixWorkerP2P" where
  "waitForTorrentCompletion artifactID noPeerDeadline sawPeers [] TorrentComplete p = (None, p)"
| "waitForTorrentCompletion artifactID noPeerDeadline sawPeers [] (TorrentContextDone now err peers) p =
     (let reason = (if \<not> sawPeers \<and> peers = 0 then p2pFailureNoPeers else p2pFailureTimeout)
      in (Some \<lparr>DownloadErr_reason = reason, DownloadErr_err = Some err\<rparr>,
          dropTorrent artifactID (p2p_recordFailure now reason (Some err) p)))"
| "waitForTorrentCompletion artifactID noPeerDeadline sawPeers (tick # ticks) e p =
     (if Tick_peers tick > 0 then waitForTorrentCompletion artifactID noPeerDeadline True ticks e p
      else if \<not> sawPeers \<and> noPeerDeadline < Tick_now tick
      then (let err = ''torrent has no peers'' in
            (Some \<lparr>DownloadErr_reason = p2pFailureNoPeers, DownloadErr_err = Some err\<rparr>,
             dropTorrent artifactID (p2p_recordFailure (Tick_now tick) p2pFailureNoPeers (Some err) p)))
      else waitForTorrentCompletion artifactID noPeerDeadline sawPeers ticks e p)"

text \<open>A run of the library: the error of the wait for the info, if any, the rounds, and what it leaves on the disk.\<close>

record torrent_run =
  Run_infoErr :: "string option"
  Run_started :: time
  Run_ticks :: "torrent_tick list"
  Run_end :: torrent_end
  Run_files :: "files \<Rightarrow> files"

definition P2P_Download ::
  "worker_env \<Rightarrow> torrent_run \<Rightarrow> ArtifactSpec \<Rightarrow> anacrolixWorkerP2P \<Rightarrow> p2pDownloadError option \<times> anacrolixWorkerP2P" where
  "P2P_Download E run artifact p =
     (if \<not> Available p
      then (Some \<lparr>DownloadErr_reason = p2pFailureUnavailable, DownloadErr_err = Some ''torrent runtime unavailable''\<rparr>, p)
      else case ensureDownloadTorrent E artifact p of
        (Inl e, p1) \<Rightarrow> (Some e, p1)
      | (Inr tor, p1) \<Rightarrow>
          (case Run_infoErr run of
             Some e \<Rightarrow> (Some \<lparr>DownloadErr_reason = p2pFailureTimeout, DownloadErr_err = Some e\<rparr>, dropTorrent (Spec_ID artifact) p1)
           | None \<Rightarrow>
               (case waitForTorrentCompletion (Spec_ID artifact) (Run_started run + defaultWorkerP2PNoPeerWait) False
                       (Run_ticks run) (Run_end run) (setDownloading (Spec_ID artifact) True p1) of
                  (result, p2) \<Rightarrow> (result, setDownloading (Spec_ID artifact) False p2))))"

subsection \<open>The client of a worker\<close>

definition refreshP2PState :: "worker_env \<Rightarrow> Worker \<Rightarrow> Worker" where
  "refreshP2PState E w =
     (case Worker_p2p w of
        None \<Rightarrow> w
      | Some p \<Rightarrow> w\<lparr>Worker_node := (Worker_node w)\<lparr>Node_P2P := Some (P2P_Snapshot E p)\<rparr>\<rparr>)"

definition withP2P :: "(anacrolixWorkerP2P \<Rightarrow> anacrolixWorkerP2P) \<Rightarrow> Worker \<Rightarrow> Worker" where
  "withP2P f w = w\<lparr>Worker_p2p := map_option f (Worker_p2p w)\<rparr>"

definition seedCachedArtifact :: "worker_env \<Rightarrow> ArtifactSpec \<Rightarrow> string \<Rightarrow> Worker \<Rightarrow> string option \<times> Worker" where
  "seedCachedArtifact E artifact path w =
     (case Worker_p2p w of
        None \<Rightarrow> (None, w)
      | Some p \<Rightarrow>
          if \<not> Available p \<or> Spec_Torrent artifact = None \<or> path = [] then (None, w)
          else (case Seed E artifact p of
                  (err, p1) \<Rightarrow> (err, refreshP2PState E (w\<lparr>Worker_p2p := Some p1\<rparr>))))"

text \<open>The specification under which an entry of the saved cache is seeded again.\<close>

definition cachedSpec :: "string \<Rightarrow> cachedArtifactState \<Rightarrow> ArtifactSpec" where
  "cachedSpec artifactID entry = \<lparr>Spec_ID = artifactID, Spec_Kind = [], Spec_Name = [], Spec_SHA256 = artifactID,
     Spec_SizeBytes = 0, Spec_URL = [], Spec_Torrent = CachedSt_Torrent entry, Spec_P2PPeers = []\<rparr>"

text \<open>A round of the loop over the saved entries.\<close>

fun restoreCached :: "worker_env \<Rightarrow> Worker \<Rightarrow> string \<times> cachedArtifactState \<Rightarrow> Worker" where
  "restoreCached E w (artifactID, entry) =
     (if CachedSt_Path entry = [] then w
      else (let w = w\<lparr>Worker_cache := mput artifactID (CachedSt_Path entry) (Worker_cache w)\<rparr> in
        if CachedSt_Torrent entry \<noteq> None then snd (seedCachedArtifact E (cachedSpec artifactID entry) (CachedSt_Path entry) w) else w))"

definition initP2P :: "worker_env \<Rightarrow> Worker \<Rightarrow> Worker" where
  "initP2P E w =
     (if WCfg_DisableP2P (Worker_cfg w) then w
      else (let p = newAnacrolixWorkerP2P E (Worker_cfg w);
                w1 = w\<lparr>Worker_p2p := Some p, Worker_node := (Worker_node w)\<lparr>Node_P2P := Some (Anacrolix_status p)\<rparr>\<rparr>
            in refreshP2PState E (foldl (restoreCached E) w1 (Worker_cacheState w1))))"

definition reseedCachedArtifacts :: "worker_env \<Rightarrow> Worker \<Rightarrow> Worker" where
  "reseedCachedArtifacts E w =
     foldl (\<lambda>w (artifactID, entry). if CachedSt_Path entry = [] \<or> CachedSt_Torrent entry = None then w
         else snd (seedCachedArtifact E (cachedSpec artifactID entry) (CachedSt_Path entry) w)) w (Worker_cacheState w)"

definition applyP2PConfig :: "worker_env \<Rightarrow> bool \<Rightarrow> Worker \<Rightarrow> Worker" where
  "applyP2PConfig E enabled w =
     (if WCfg_DisableP2P (Worker_cfg w) then w
      else if \<not> enabled then w\<lparr>Worker_p2p := None, Worker_node := (Worker_node w)\<lparr>Node_P2P := None\<rparr>\<rparr>
      else if Worker_p2p w \<noteq> None then w
      else (let p = newAnacrolixWorkerP2P E (Worker_cfg w);
                w1 = w\<lparr>Worker_p2p := Some p, Worker_node := (Worker_node w)\<lparr>Node_P2P := Some (Anacrolix_status p)\<rparr>\<rparr>
            in refreshP2PState E (reseedCachedArtifacts E w1)))"

definition closeP2P :: "Worker \<Rightarrow> Worker" where
  "closeP2P w = withP2P P2P_Close w"

subsection \<open>The state file\<close>

definition workerState :: "Worker \<Rightarrow> workerStateFile" where
  "workerState w = \<lparr>WState_NodeID = Node_ID (Worker_node w), WState_NodeToken = Worker_nodeToken w,
     WState_Cache = Worker_cache w,
     WState_CachedArtifacts = map (\<lambda>(k, v). (k, \<lparr>CachedSt_Path = v,
       CachedSt_Torrent = CachedSt_Torrent (mget zero_cachedArtifactState (Worker_cacheState w) k)\<rparr>)) (Worker_cache w),
     WState_WarmProfile = map fst (Worker_warm w)\<rparr>"

definition saveState :: "worker_env \<Rightarrow> Worker \<Rightarrow> string option \<times> Worker" where
  "saveState E w =
     (case E_saveErr E of
        Some e \<Rightarrow> (Some e, w)
      | None \<Rightarrow> (None, w\<lparr>Worker_files := mput (WCfg_StatePath (Worker_cfg w)) (marshalState (E_codec E) (workerState w))
          (Worker_files w)\<rparr>))"

definition loadWorkerState :: "worker_env \<Rightarrow> string \<Rightarrow> files \<Rightarrow> workerStateFile" where
  "loadWorkerState E path files =
     (let state = (case map_of files path of
            None \<Rightarrow> \<lparr>WState_NodeID = [], WState_NodeToken = [], WState_Cache = [], WState_CachedArtifacts = [], WState_WarmProfile = []\<rparr>
          | Some b \<Rightarrow> if b = [] then \<lparr>WState_NodeID = [], WState_NodeToken = [], WState_Cache = [], WState_CachedArtifacts = [],
              WState_WarmProfile = []\<rparr> else unmarshalState (E_codec E) b);
          state = (if WState_CachedArtifacts state = [] \<and> WState_Cache state \<noteq> []
            then state\<lparr>WState_CachedArtifacts := map (\<lambda>(k, v). (k, \<lparr>CachedSt_Path = v, CachedSt_Torrent = None\<rparr>)) (WState_Cache state)\<rparr>
            else state)
      in if WState_Cache state = [] \<and> WState_CachedArtifacts state \<noteq> []
         then state\<lparr>WState_Cache := map (\<lambda>(k, entry). (k, CachedSt_Path entry)) (WState_CachedArtifacts state)\<rparr>
         else state)"

definition workerNodeID :: "worker_env \<Rightarrow> string \<Rightarrow> string \<Rightarrow> string" where
  "workerNodeID E configID stateID =
     (if configID \<noteq> [] then configID else if stateID \<noteq> [] then stateID else E_newID E ''node'' 0)"

text \<open>\<open>dirErr\<close> is the error of creating the directories, if any.\<close>

definition NewWorker :: "worker_env \<Rightarrow> string option \<Rightarrow> WorkerConfig \<Rightarrow> files \<Rightarrow> string + Worker" where
  "NewWorker E dirErr cfg0 files =
     (case dirErr of
        Some e \<Rightarrow> Inl e
      | None \<Rightarrow>
          (let cfg1 = applyWorkerDefaults cfg0;
               state = loadWorkerState E (WCfg_StatePath cfg1) files;
               cfg = cfg1\<lparr>WCfg_NodeID := workerNodeID E (WCfg_NodeID cfg1) (WState_NodeID state)\<rparr>;
               (target, adapters) = workerRuntimeTarget (E_platform E) cfg;
               w = \<lparr>Worker_cfg = cfg, Worker_node = newWorkerNode (E_platform E) cfg target adapters,
                    Worker_nodeToken = WState_NodeToken state, Worker_slots = newWorkerSlots cfg target adapters,
                    Worker_assigns = [], Worker_cache = WState_Cache state, Worker_cacheState = WState_CachedArtifacts state,
                    Worker_warm = [], Worker_activeAssignments = [], Worker_assignmentFailures = [], Worker_processed = [],
                    Worker_active = [], Worker_runtimes = [], Worker_procs = [], Worker_runtimeRestarts = [],
                    Worker_downloadTokens = 0,
                    Worker_downloadPressure = zero_DownloadPressure\<lparr>Pressure_MaxConcurrent := WCfg_MaxConcurrentDownloads cfg\<rparr>,
                    Worker_p2p = None, Worker_send = [], Worker_connected = False, Worker_lastError = [],
                    Worker_startedAt = E_now E, Worker_paused = False, Worker_files = files, Worker_go = []\<rparr>
           in case saveState E (initP2P E w) of (Some e, _) \<Rightarrow> Inl e | (None, w1) \<Rightarrow> Inr w1))"

subsection \<open>Registration messages\<close>

definition sendHello :: "worker_env \<Rightarrow> Worker \<Rightarrow> Worker" where
  "sendHello E w0 =
     (let w = refreshP2PState E w0 in
      worker_message E MsgHello [] [] (marshalHello (E_codec E) \<lparr>Hello_NodeToken = Worker_nodeToken w, Hello_Node = Worker_node w,
        Hello_Slots = applyPauseFilter w (mvals (Worker_slots w))\<rparr>) w)"

definition sendFullState :: "worker_env \<Rightarrow> Worker \<Rightarrow> Worker" where
  "sendFullState E w0 =
     (let w = refreshP2PState E w0 in
      worker_message E MsgFullState [] [] (marshalFullState (E_codec E) \<lparr>Full_NodeToken = Worker_nodeToken w, Full_Node = Worker_node w,
        Full_Slots = applyPauseFilter w (mvals (Worker_slots w)), Full_Cached = Some (map fst (Worker_cache w)),
        Full_WarmProfiles = Some (map fst (Worker_warm w)), Full_Assignments = [], Full_ProcessedIDs = map fst (Worker_processed w)\<rparr>) w)"

end
