(* ===== verification/Worker_Cache.thy ===== *)
theory Worker_Cache
  imports Worker_P2P
begin

section \<open>The worker's cache (worker_artifact.go, worker_download.go, worker_cache_evict.go, worker_status.go)\<close>

text \<open>
  Downloading artifacts, checking their digests, and evicting them. \<open>artifact_source\<close> is what a
  download meets: the answer to the HTTP request, the run of the torrent library, and the errors
  of creating, closing and renaming the file, if any. The environment also decides the
  \<^verbatim>\<open>select\<close> of a download that waits for its turn: \<open>Some e\<close> when its context is done first.
\<close>

subsection \<open>Limiting downloads\<close>

definition initDownloadPressureLocked :: "Worker \<Rightarrow> Worker" where
  "initDownloadPressureLocked w =
     (let w = (if WCfg_MaxConcurrentDownloads (Worker_cfg w) \<le> 0
               then w\<lparr>Worker_cfg := (Worker_cfg w)\<lparr>WCfg_MaxConcurrentDownloads := 1\<rparr>\<rparr> else w);
          pressure = (Worker_downloadPressure w)\<lparr>Pressure_MaxConcurrent := WCfg_MaxConcurrentDownloads (Worker_cfg w)\<rparr>
      in w\<lparr>Worker_downloadPressure := pressure, Worker_node := (Worker_node w)\<lparr>Node_DownloadPressure := pressure\<rparr>\<rparr>)"

definition updateDownloadPressure :: "worker_env \<Rightarrow> int \<Rightarrow> int \<Rightarrow> Worker \<Rightarrow> Worker" where
  "updateDownloadPressure E queuedDelta activeDelta w0 =
     (let w = initDownloadPressureLocked w0;
          p = Worker_downloadPressure w;
          pressure = p\<lparr>Pressure_Queued := max 0 (Pressure_Queued p + queuedDelta), Pressure_Active := max 0 (Pressure_Active p + activeDelta)\<rparr>
      in sendFullState E (w\<lparr>Worker_downloadPressure := pressure, Worker_node := (Worker_node w)\<lparr>Node_DownloadPressure := pressure\<rparr>\<rparr>))"

text \<open>
  \<^verbatim>\<open>acquireDownloadSlot\<close> in its three parts: entering the queue, the two branches of the \<^verbatim>\<open>select\<close>, and
  the function that it returns.
\<close>

definition queueDownload :: "worker_env \<Rightarrow> Worker \<Rightarrow> Worker" where
  "queueDownload E w = updateDownloadPressure E 1 0 (initDownloadPressureLocked w)"

definition startDownload :: "worker_env \<Rightarrow> Worker \<Rightarrow> Worker" where
  "startDownload E w = updateDownloadPressure E (-1) 1 (w\<lparr>Worker_downloadTokens := Worker_downloadTokens w + 1\<rparr>)"

definition abandonDownload :: "worker_env \<Rightarrow> Worker \<Rightarrow> Worker" where
  "abandonDownload E w = updateDownloadPressure E (-1) 0 w"

definition releaseDownload :: "worker_env \<Rightarrow> Worker \<Rightarrow> Worker" where
  "releaseDownload E w = updateDownloadPressure E 0 (-1) (w\<lparr>Worker_downloadTokens := Worker_downloadTokens w - 1\<rparr>)"

definition acquireDownloadSlot :: "worker_env \<Rightarrow> string option \<Rightarrow> Worker \<Rightarrow> string option \<times> Worker" where
  "acquireDownloadSlot E ctxErr w =
     (let w1 = queueDownload E w in
      case ctxErr of None \<Rightarrow> (None, startDownload E w1) | Some e \<Rightarrow> (Some e, abandonDownload E w1))"

subsection \<open>Fetching an artifact\<close>

record artifact_request =
  Request_URL :: string
  Request_Bearer :: string
  Request_NodeID :: string
  Request_NodeToken :: string

text \<open>A reply is its status code, its status line, its body and the error of reading the body, if any.\<close>

datatype http_response =
    HttpBadURL string
  | HttpFailed string
  | HttpReply int string string "string option"

record artifact_source =
  Source_http :: "artifact_request \<Rightarrow> http_response"
  Source_torrent :: torrent_run
  Source_createErr :: "string option"
  Source_closeErr :: "string option"
  Source_renameErr :: "string option"
  Source_ctxErr :: "string option"

definition artifactRequest :: "Worker \<Rightarrow> ArtifactSpec \<Rightarrow> artifact_request" where
  "artifactRequest w artifact = \<lparr>Request_URL = Spec_URL artifact, Request_Bearer = WCfg_Token (Worker_cfg w),
     Request_NodeID = Node_ID (Worker_node w), Request_NodeToken = Worker_nodeToken w\<rparr>"

definition validArtifactResponse :: "int \<Rightarrow> string \<Rightarrow> string \<Rightarrow> string option" where
  "validArtifactResponse code status body =
     (if code \<noteq> 200 \<and> code \<noteq> 206
      then Some (''artifact download failed: '' @ status @ '' '' @ take 4096 body) else None)"

definition removeFile :: "string \<Rightarrow> Worker \<Rightarrow> Worker" where
  "removeFile path w = w\<lparr>Worker_files := mdel path (Worker_files w)\<rparr>"

definition writeArtifactFile ::
  "worker_env \<Rightarrow> artifact_source \<Rightarrow> string \<Rightarrow> string option \<Rightarrow> string \<Rightarrow> ArtifactSpec \<Rightarrow> Worker \<Rightarrow> string option \<times> Worker" where
  "writeArtifactFile E S body copyErr target artifact w =
     (let tmp = target @ ''.tmp'' in
      case Source_createErr S of
        Some e \<Rightarrow> (Some e, w)
      | None \<Rightarrow>
          (let w1 = w\<lparr>Worker_files := mput tmp body (Worker_files w)\<rparr> in
           case copyErr of
             Some e \<Rightarrow> (Some e, sendArtifactState E artifact ''download_failed'' e (removeFile tmp w1))
           | None \<Rightarrow>
               (case Source_closeErr S of
                  Some e \<Rightarrow> (Some e, removeFile tmp w1)
                | None \<Rightarrow>
                    (case VerifyFileSHA256 (E_sha256hex E) tmp (Spec_SHA256 artifact) (Worker_files w1) of
                       Some e \<Rightarrow> (Some e, sendArtifactState E artifact ''digest_mismatch'' e (removeFile tmp w1))
                     | None \<Rightarrow>
                         (case Source_renameErr S of
                            Some e \<Rightarrow> (Some e, w1)
                          | None \<Rightarrow> (None, w1\<lparr>Worker_files := mput target body (mdel tmp (Worker_files w1))\<rparr>))))))"

definition cacheArtifact :: "ArtifactSpec \<Rightarrow> string \<Rightarrow> Worker \<Rightarrow> Worker" where
  "cacheArtifact artifact target w = w\<lparr>Worker_cache := mput (Spec_ID artifact) target (Worker_cache w),
     Worker_cacheState := mput (Spec_ID artifact) \<lparr>CachedSt_Path = target, CachedSt_Torrent = Spec_Torrent artifact\<rparr> (Worker_cacheState w)\<rparr>"

definition downloadArtifactWithHTTP ::
  "worker_env \<Rightarrow> artifact_source \<Rightarrow> ArtifactSpec \<Rightarrow> string \<Rightarrow> Worker \<Rightarrow> (string + string) \<times> Worker" where
  "downloadArtifactWithHTTP E S artifact target w =
     (case Source_http S (artifactRequest w artifact) of
        HttpBadURL e \<Rightarrow> (Inl e, w)
      | HttpFailed e \<Rightarrow> (Inl e, sendArtifactState E artifact ''download_failed'' e w)
      | HttpReply code status body copyErr \<Rightarrow>
          (case validArtifactResponse code status body of
             Some e \<Rightarrow> (Inl e, sendArtifactState E artifact ''download_failed'' e w)
           | None \<Rightarrow>
               (case writeArtifactFile E S body copyErr target artifact w of
                  (Some e, w1) \<Rightarrow> (Inl e, w1)
                | (None, w1) \<Rightarrow>
                    (case seedCachedArtifact E artifact target (cacheArtifact artifact target w1) of
                       (Some e, w2) \<Rightarrow> (Inl e, w2)
                     | (None, w2) \<Rightarrow>
                         (case saveState E (refreshP2PState E (sendArtifactState E artifact ''verified'' [] w2)) of
                            (Some e, w3) \<Rightarrow> (Inl e, w3)
                          | (None, w3) \<Rightarrow>
                              (Inr (if Spec_Torrent artifact \<noteq> None then artifactDeliveryHTTPFallback else artifactDeliveryHTTPOnly), w3))))))"

text \<open>The result is the method and the error: \<open>([], None)\<close> when there is no torrent to try.\<close>

definition downloadArtifactWithTorrent ::
  "worker_env \<Rightarrow> artifact_source \<Rightarrow> ArtifactSpec \<Rightarrow> string \<Rightarrow> Worker \<Rightarrow> (string \<times> string option) \<times> Worker" where
  "downloadArtifactWithTorrent E S artifact target w =
     (case Worker_p2p w of
        None \<Rightarrow> (([], None), w)
      | Some p \<Rightarrow>
          if Spec_Torrent artifact = None then (([], None), w)
          else (case P2P_Download E (Source_torrent S) artifact p of
             (Some e, p1) \<Rightarrow>
               ((artifactDeliveryHTTPFallback, Some (p2pDownloadError_Error e)),
                refreshP2PState E (w\<lparr>Worker_p2p := Some (RecordFallback (E_now E) (DownloadErr_reason e) (Some (p2pDownloadError_Error e)) p1),
                  Worker_files := Run_files (Source_torrent S) (Worker_files w)\<rparr>))
           | (None, p1) \<Rightarrow>
               (let w1 = w\<lparr>Worker_p2p := Some p1, Worker_files := Run_files (Source_torrent S) (Worker_files w)\<rparr> in
                case VerifyFileSHA256 (E_sha256hex E) target (Spec_SHA256 artifact) (Worker_files w1) of
                  Some e \<Rightarrow>
                    ((artifactDeliveryHTTPFallback, Some e),
                     refreshP2PState E (withP2P (\<lambda>p. RecordFallback (E_now E) FailureArtifactDigestMismatch (Some e) (StopSeeding (Spec_ID artifact) p))
                       (removeFile target w1)))
                | None \<Rightarrow>
                    (case saveState E (refreshP2PState E (sendArtifactState E artifact ''verified'' [] (cacheArtifact artifact target w1))) of
                       (Some e, w2) \<Rightarrow> (([], Some e), w2)
                     | (None, w2) \<Rightarrow> ((artifactDeliveryTorrent, None), w2)))))"

definition downloadArtifact :: "worker_env \<Rightarrow> artifact_source \<Rightarrow> ArtifactSpec \<Rightarrow> Worker \<Rightarrow> (string + string) \<times> Worker" where
  "downloadArtifact E S artifact w =
     (let target = JoinPath (WCfg_CacheDir (Worker_cfg w)) (safeArtifactFileName (Spec_ID artifact)) in
      case downloadArtifactWithTorrent E S artifact target w of
        ((method, None), w1) \<Rightarrow> if method \<noteq> [] then (Inr method, w1) else downloadArtifactWithHTTP E S artifact target w1
      | ((method, Some e), w1) \<Rightarrow> downloadArtifactWithHTTP E S artifact target w1)"

definition artifactAlreadyCached :: "worker_env \<Rightarrow> ArtifactSpec \<Rightarrow> Worker \<Rightarrow> bool \<times> Worker" where
  "artifactAlreadyCached E artifact w =
     (let existing = mget [] (Worker_cache w) (Spec_ID artifact) in
      if existing = [] then (False, w)
      else case VerifyFileSHA256 (E_sha256hex E) existing (Spec_SHA256 artifact) (Worker_files w) of
        None \<Rightarrow>
          (True, sendArtifactState E artifact ''verified'' [] (snd (seedCachedArtifact E artifact existing
             (w\<lparr>Worker_cacheState := mput (Spec_ID artifact) \<lparr>CachedSt_Path = existing, CachedSt_Torrent = Spec_Torrent artifact\<rparr>
                (Worker_cacheState w)\<rparr>))))
      | Some _ \<Rightarrow>
          (let w1 = removeFile existing (refreshP2PState E (withP2P (StopSeeding (Spec_ID artifact)) w)) in
           (False, w1\<lparr>Worker_cache := mdel (Spec_ID artifact) (Worker_cache w1),
              Worker_cacheState := mdel (Spec_ID artifact) (Worker_cacheState w1)\<rparr>)))"

text \<open>\<open>onStart\<close> runs when the download starts. The result is the method of delivery, or an error.\<close>

definition ensureArtifactDetailed ::
  "worker_env \<Rightarrow> artifact_source \<Rightarrow> ArtifactSpec \<Rightarrow> (Worker \<Rightarrow> Worker) \<Rightarrow> Worker \<Rightarrow> (string + string) \<times> Worker" where
  "ensureArtifactDetailed E S artifact onStart w =
     (if Spec_ID artifact = [] \<or> Spec_URL artifact = [] then (Inl ''artifact spec missing id or url'', w)
      else case artifactAlreadyCached E artifact w of
        (True, w1) \<Rightarrow> (Inr [], w1)
      | (False, w1) \<Rightarrow>
          (case acquireDownloadSlot E (Source_ctxErr S) (sendArtifactState E artifact ''download_queued'' [] w1) of
             (Some e, w2) \<Rightarrow> (Inl e, sendArtifactState E artifact ''download_failed'' e w2)
           | (None, w2) \<Rightarrow>
               (case artifactAlreadyCached E artifact w2 of
                  (True, w3) \<Rightarrow> (Inr [], releaseDownload E w3)
                | (False, w3) \<Rightarrow>
                    (case downloadArtifact E S artifact (onStart (sendArtifactState E artifact ''downloading'' [] w3)) of
                       (r, w4) \<Rightarrow> (r, releaseDownload E w4)))))"

definition ensureArtifact :: "worker_env \<Rightarrow> artifact_source \<Rightarrow> ArtifactSpec \<Rightarrow> Worker \<Rightarrow> string option \<times> Worker" where
  "ensureArtifact E S artifact w =
     (case ensureArtifactDetailed E S artifact id w of (Inl e, w1) \<Rightarrow> (Some e, w1) | (Inr _, w1) \<Rightarrow> (None, w1))"

definition ensureArtifactWithStart ::
  "worker_env \<Rightarrow> artifact_source \<Rightarrow> ArtifactSpec \<Rightarrow> (Worker \<Rightarrow> Worker) \<Rightarrow> Worker \<Rightarrow> string option \<times> Worker" where
  "ensureArtifactWithStart E S artifact onStart w =
     (case ensureArtifactDetailed E S artifact onStart w of (Inl e, w1) \<Rightarrow> (Some e, w1) | (Inr _, w1) \<Rightarrow> (None, w1))"

fun verifyArtifacts :: "worker_env \<Rightarrow> ArtifactSpec list \<Rightarrow> Worker \<Rightarrow> string option" where
  "verifyArtifacts E [] w = None"
| "verifyArtifacts E (artifact # artifacts) w =
     (let path = mget [] (Worker_cache w) (Spec_ID artifact) in
      if path = [] then Some (''artifact '' @ Spec_ID artifact @ '' not cached'')
      else case VerifyFileSHA256 (E_sha256hex E) path (Spec_SHA256 artifact) (Worker_files w) of
        Some e \<Rightarrow> Some e
      | None \<Rightarrow> verifyArtifacts E artifacts w)"

definition zero_AssignmentPayload :: AssignmentPayload where
  "zero_AssignmentPayload = \<lparr>Assign_Profile = zero_WorkloadProfile, Assign_Artifacts = [], Assign_SlotID = [], Assign_Cached = False, Assign_Warm = False\<rparr>"

definition verifyProfileArtifacts :: "worker_env \<Rightarrow> WorkloadProfile \<Rightarrow> Worker \<Rightarrow> string option" where
  "verifyProfileArtifacts E profile w =
     (let assignment = mget zero_AssignmentPayload (Worker_assigns w) (assignmentKey profile) in
      if Assign_Artifacts assignment = [] then Some ''profile has no assigned artifacts''
      else verifyArtifacts E (Assign_Artifacts assignment) w)"

subsection \<open>Eviction\<close>

definition profileUsesArtifact :: "WorkloadProfile \<Rightarrow> string \<Rightarrow> bool" where
  "profileUsesArtifact profile artifactID \<longleftrightarrow> list_ex (\<lambda>i. NormalizeSHA256 i = artifactID) (profileArtifactIDs profile)"

definition assignmentUsesArtifact :: "AssignmentPayload \<Rightarrow> string \<Rightarrow> bool" where
  "assignmentUsesArtifact assignment artifactID \<longleftrightarrow>
     profileUsesArtifact (Assign_Profile assignment) artifactID \<or>
     list_ex (\<lambda>artifact. NormalizeSHA256 (Spec_ID artifact) = artifactID) (Assign_Artifacts assignment)"

definition slotUsesArtifactLocked :: "Worker \<Rightarrow> Slot \<Rightarrow> string \<Rightarrow> bool" where
  "slotUsesArtifactLocked w slot artifactID \<longleftrightarrow>
     NormalizeSHA256 (Slot_ModelArtifactID slot) = artifactID \<or> NormalizeSHA256 (Slot_ModelSHA256 slot) = artifactID \<or>
     list_ex (\<lambda>a. Profile_ID (Assign_Profile a) = Slot_ProfileID slot \<and> assignmentUsesArtifact a artifactID) (mvals (Worker_assigns w)) \<or>
     list_ex (\<lambda>p. Profile_ID p = Slot_ProfileID slot \<and> profileUsesArtifact p artifactID) (mvals (Worker_warm w))"

record artifactEvictionPlan =
  EvictPlan_path :: string
  EvictPlan_procs :: "string list"
  EvictPlan_slotIDs :: "string list"
  EvictPlan_profiles :: "string list"

definition planArtifactEviction :: "string \<Rightarrow> Worker \<Rightarrow> string + artifactEvictionPlan" where
  "planArtifactEviction artifactID w =
     (let users = filter (\<lambda>(_, slot). slotUsesArtifactLocked w slot artifactID) (Worker_slots w) in
      case find (\<lambda>(_, slot). Slot_State slot = SlotStateServing \<or> Slot_ActiveTaskID slot \<noteq> []) users of
        Some (slotID, _) \<Rightarrow> Inl (''artifact_in_use: '' @ artifactID @ '' is serving on '' @ slotID)
      | None \<Rightarrow>
          (let keys = map fst (filter (\<lambda>(_, a). assignmentUsesArtifact a artifactID) (Worker_assigns w)) in
           Inr \<lparr>EvictPlan_path = mget [] (Worker_cache w) artifactID,
                EvictPlan_procs = List.map_filter (\<lambda>(slotID, _). map_of (Worker_runtimes w) slotID) users,
                EvictPlan_slotIDs = map fst users,
                EvictPlan_profiles = keys @ map fst (filter (\<lambda>(key, p). profileUsesArtifact p artifactID \<and> \<not> Contains keys key) (Worker_warm w))\<rparr>))"

definition clearEvictedSlot :: "Slot \<Rightarrow> Slot" where
  "clearEvictedSlot slot = slot\<lparr>Slot_State := SlotStateIdle, Slot_ProfileID := [], Slot_ProfileVersion := 0, Slot_LogicalModel := [],
     Slot_RuntimeVariantID := [], Slot_ModelArtifactID := [], Slot_ModelSHA256 := [], Slot_ActiveTaskID := [], Slot_AcceptsNew := False,
     Slot_MismatchReason := ''artifact_evicted'', Slot_LastReady := 0\<rparr>"

text \<open>A round of the loop over the slots of the plan.\<close>

fun evictSlot :: "Slot list \<times> Worker \<Rightarrow> string \<Rightarrow> Slot list \<times> Worker" where
  "evictSlot (updates, w) slotID =
     (let slot = clearEvictedSlot (mget zero_Slot (Worker_slots w) slotID) in
      (updates @ [slot], w\<lparr>Worker_runtimes := mdel slotID (Worker_runtimes w),
         Worker_runtimeRestarts := mdel slotID (Worker_runtimeRestarts w), Worker_slots := mput slotID slot (Worker_slots w)\<rparr>))"

definition applyArtifactEviction :: "string \<Rightarrow> artifactEvictionPlan \<Rightarrow> Worker \<Rightarrow> Slot list \<times> Worker" where
  "applyArtifactEviction artifactID plan w =
     foldl evictSlot ([], w\<lparr>Worker_cache := mdel artifactID (Worker_cache w), Worker_cacheState := mdel artifactID (Worker_cacheState w),
         Worker_assigns := foldl (\<lambda>m k. mdel k m) (Worker_assigns w) (EvictPlan_profiles plan),
         Worker_warm := foldl (\<lambda>m k. mdel k m) (Worker_warm w) (EvictPlan_profiles plan)\<rparr>)
       (EvictPlan_slotIDs plan)"

text \<open>\<^verbatim>\<open>proc.stop()\<close>: the process is interrupted, and killed when it does not end within a second.\<close>

definition stopProc :: "string \<Rightarrow> Worker \<Rightarrow> Worker" where
  "stopProc pid w =
     (case map_of (Worker_procs w) pid of
        None \<Rightarrow> w
      | Some p \<Rightarrow> w\<lparr>Worker_procs := mput pid (p\<lparr>Proc_done := True\<rparr>) (Worker_procs w)\<rparr>)"

definition evictedSpec :: "string \<Rightarrow> ArtifactSpec" where
  "evictedSpec artifactID = \<lparr>Spec_ID = artifactID, Spec_Kind = [], Spec_Name = [], Spec_SHA256 = [], Spec_SizeBytes = 0, Spec_URL = [],
     Spec_Torrent = None, Spec_P2PPeers = []\<rparr>"

text \<open>\<open>removeErr\<close> is an error of removing the file other than that it is not there.\<close>

definition evictArtifact :: "worker_env \<Rightarrow> string option \<Rightarrow> EvictArtifactPayload \<Rightarrow> Worker \<Rightarrow> string option \<times> Worker" where
  "evictArtifact E removeErr payload w =
     (let artifactID = NormalizeSHA256 (EvictP_ArtifactID payload);
          failed = (\<lambda>e w. (Some e, sendArtifactState E (evictedSpec artifactID) ''evict_failed'' e w))
      in if artifactID = [] then (Some ''artifactId is required'', w)
         else case planArtifactEviction artifactID w of
           Inl e \<Rightarrow> failed e w
         | Inr plan \<Rightarrow>
             (let w1 = foldl (\<lambda>w pid. stopProc pid w) w (EvictPlan_procs plan);
                  w2 = refreshP2PState E (withP2P (StopSeeding artifactID) w1)
              in if EvictPlan_path plan \<noteq> [] \<and> removeErr \<noteq> None then failed (the removeErr) w2
                 else (let w3 = (if EvictPlan_path plan \<noteq> [] then removeFile (EvictPlan_path plan) w2 else w2);
                           (updates, w4) = applyArtifactEviction artifactID plan w3
                       in case saveState E w4 of
                            (Some e, w5) \<Rightarrow> failed e w5
                          | (None, w5) \<Rightarrow>
                              (None, sendArtifactState E (evictedSpec artifactID) ''evicted'' []
                                 (foldl (\<lambda>w slot. sendSlotState E slot w) w5 updates)))))"

text \<open>\<^verbatim>\<open>DELETE /cache\<close> of the local status server. The second removal ignores its error.\<close>

definition cacheDelete :: "worker_env \<Rightarrow> string option \<Rightarrow> string \<Rightarrow> Worker \<Rightarrow> int \<times> Worker" where
  "cacheDelete E removeErr artifactID w =
     (if artifactID = [] then (400, w)
      else case evictArtifact E removeErr \<lparr>EvictP_ArtifactID = artifactID, EvictP_Reason = []\<rparr> w of
        (Some _, w1) \<Rightarrow> (400, w1)
      | (None, w1) \<Rightarrow>
          (let hash = TrimSHAPrefix (NormalizeSHA256 artifactID) in
           (200, if hash \<noteq> [] then removeFile (JoinPath (WCfg_CacheDir (Worker_cfg w1)) (''sha256_'' @ hash)) w1 else w1)))"

end
