(* ===== verification/Worker_Runtime.thy ===== *)
theory Worker_Runtime
  imports Worker_Cache
begin

section \<open>The runtime process of a slot (worker_runtime.go, worker_runtime_artifacts.go)\<close>

text \<open>
  Starting, watching, restarting and stopping the llama-server of a slot. \<open>launch\<close> is what one try
  meets: the free port, the error of starting the process, its address, what it writes to its
  error output, the health probes that fail or succeed between the ticks of the timer, and the
  event that ends the wait when no probe succeeds.
\<close>

definition maxRuntimeRestartAttempts :: int where
  "maxRuntimeRestartAttempts = 3"

record modelSupportArtifact =
  Support_Kind :: string
  Support_Name :: string
  Support_Path :: string

subsection \<open>Files of the model\<close>

definition isMMProjArtifact :: "ArtifactSpec \<Rightarrow> bool" where
  "isMMProjArtifact artifact \<longleftrightarrow> ContainsSub (ToLower (Spec_Kind artifact @ '' '' @ Spec_Name artifact)) ''mmproj''"

definition isPrimaryModelArtifact :: "ArtifactSpec \<Rightarrow> bool" where
  "isPrimaryModelArtifact artifact \<longleftrightarrow>
     ToLower (Spec_Kind artifact) = ''model_gguf'' \<or>
     HasSuffix (ToLower (Spec_Name artifact)) ''.gguf'' \<and> \<not> isMMProjArtifact artifact"

definition isModelSupportArtifact :: "ArtifactSpec \<Rightarrow> bool" where
  "isModelSupportArtifact artifact \<longleftrightarrow> HasPrefix (ToLower (Spec_Kind artifact)) ''model_'' \<or> isMMProjArtifact artifact"

fun modelArtifacts_loop ::
  "string gomap \<Rightarrow> ArtifactSpec list \<Rightarrow> string \<Rightarrow> modelSupportArtifact list \<Rightarrow> string \<times> modelSupportArtifact list" where
  "modelArtifacts_loop cache [] modelPath support = (modelPath, support)"
| "modelArtifacts_loop cache (artifact # artifacts) modelPath support =
     (let path = mget [] cache (Spec_ID artifact) in
      if path = [] then modelArtifacts_loop cache artifacts modelPath support
      else if modelPath = [] \<and> isPrimaryModelArtifact artifact then modelArtifacts_loop cache artifacts path support
      else if isModelSupportArtifact artifact
      then modelArtifacts_loop cache artifacts modelPath
        (support @ [\<lparr>Support_Kind = Spec_Kind artifact, Support_Name = Spec_Name artifact, Support_Path = path\<rparr>])
      else modelArtifacts_loop cache artifacts modelPath support)"

definition llamaModelArtifacts :: "WorkloadProfile \<Rightarrow> Worker \<Rightarrow> string \<times> modelSupportArtifact list" where
  "llamaModelArtifacts profile w = modelArtifacts_loop (Worker_cache w)
     (Assign_Artifacts (mget zero_AssignmentPayload (Worker_assigns w) (assignmentKey profile))) [] []"

definition firstMMProjPath :: "modelSupportArtifact list \<Rightarrow> string" where
  "firstMMProjPath support =
     (case find (\<lambda>a. ContainsSub (ToLower (Support_Kind a @ '' '' @ Support_Name a)) ''mmproj'') support of
        None \<Rightarrow> [] | Some a \<Rightarrow> Support_Path a)"

definition hasRuntimeArg :: "string list \<Rightarrow> string \<Rightarrow> bool" where
  "hasRuntimeArg args flag \<longleftrightarrow> list_ex (\<lambda>arg. arg = flag \<or> HasPrefix arg (flag @ ''='')) args"

definition llamaServerArgs :: "WorkloadProfile \<Rightarrow> string \<Rightarrow> modelSupportArtifact list \<Rightarrow> int \<Rightarrow> manager_error + string list" where
  "llamaServerArgs profile modelPath support port =
     (let args = [''--host'', ''127.0.0.1'', ''--port'', show_int port, ''--model'', modelPath];
          args = (case Profile_LLM profile of
                    None \<Rightarrow> args
                  | Some llm \<Rightarrow> if LLM_ContextTokens llm > 0 then args @ [''--ctx-size'', show_int (LLM_ContextTokens llm)] else args);
          profileArgs = Llama_Args (Runtime_LlamaCpp (Profile_Runtime profile))
      in case validateLlamaServerProfileArgs profileArgs of
           Some e \<Rightarrow> Inl e
         | None \<Rightarrow>
             (let path = firstMMProjPath support;
                  args = (if path \<noteq> [] \<and> \<not> hasRuntimeArg profileArgs ''--mmproj'' then args @ [''--mmproj'', path] else args)
              in Inr (args @ profileArgs)))"

subsection \<open>Starting a process\<close>

datatype ready_end = ProcessExited "string option" | StartDeadline | StartCancelled string

record launch =
  Launch_port :: "string + int"
  Launch_startErr :: "string option"
  Launch_pid :: string
  Launch_stderr :: string
  Launch_probes :: "bool list"
  Launch_end :: ready_end

text \<open>
  The rounds of \<^verbatim>\<open>waitForLlamaServerReady\<close>: a probe that fails is followed by a tick of the timer, and
  in the last round by the event that ends the wait.
\<close>

fun waitForLlamaServerReady :: "worker_env \<Rightarrow> duration \<Rightarrow> string \<Rightarrow> bool list \<Rightarrow> ready_end \<Rightarrow> string option" where
  "waitForLlamaServerReady E timeout stderr (probe # probes) e =
     (if probe then None else waitForLlamaServerReady E timeout stderr probes e)"
| "waitForLlamaServerReady E timeout stderr [] (ProcessExited err) =
     Some (''llama-server exited before ready: '' @ (case err of None \<Rightarrow> ''process exited'' | Some t \<Rightarrow> t) @ '': '' @ TrimSpace stderr)"
| "waitForLlamaServerReady E timeout stderr [] StartDeadline =
     Some (''llama-server did not become ready within '' @ E_showDuration E timeout @ '': '' @ TrimSpace stderr)"
| "waitForLlamaServerReady E timeout stderr [] (StartCancelled err) = Some err"

definition llamaPortConflict :: "string \<Rightarrow> string \<Rightarrow> bool" where
  "llamaPortConflict err stderr \<longleftrightarrow>
     (let text = ToLower (err @ '' '' @ stderr) in ContainsSub text ''address already in use'' \<or> ContainsSub text ''bind: address'')"

text \<open>\<^verbatim>\<open>cappedBuffer\<close>: what is kept of the error output of a process.\<close>

definition cappedWrite :: "int \<Rightarrow> string \<Rightarrow> string \<Rightarrow> string" where
  "cappedWrite limit b p =
     (if limit \<le> 0 \<or> int (length b) < limit
      then b @ take (if limit > 0 \<and> int (length b + length p) > limit then nat (limit - int (length b)) else length p) p else b)"

definition startLlamaServerProcess :: "launch \<Rightarrow> int \<Rightarrow> string \<Rightarrow> Worker \<Rightarrow> (string + string) \<times> Worker" where
  "startLlamaServerProcess l port profileKey w =
     (case Launch_startErr l of
        Some e \<Rightarrow> (Inl (''llama-server failed to start: '' @ e), w)
      | None \<Rightarrow> (Inr (Launch_pid l), w\<lparr>Worker_procs := mput (Launch_pid l)
          \<lparr>Proc_baseURL = ''http://127.0.0.1:'' @ show_int port, Proc_profileKey = profileKey,
           Proc_stderr = cappedWrite (64 * 1024) [] (Launch_stderr l), Proc_done = False, Proc_waitErr = None\<rparr> (Worker_procs w)\<rparr>))"

definition runtimeCommandInputs ::
  "worker_env \<Rightarrow> WorkloadProfile \<Rightarrow> Worker \<Rightarrow> string + string \<times> string \<times> modelSupportArtifact list" where
  "runtimeCommandInputs E profile w =
     (if \<not> isLlamaCppAdapter (Profile_RuntimeAdapter profile)
      then Inl (''unsupported runtime adapter '' @ [CHR 0x22] @ Profile_RuntimeAdapter profile @ [CHR 0x22])
      else (let runtimePath = llamaServerExecutablePath (E_platform E) (Worker_cfg w) in
        if runtimePath = [] then Inl ''llama-server executable is not installed on this Worker''
        else (case llamaModelArtifacts profile w of
                (modelPath, support) \<Rightarrow>
                  if modelPath = [] then Inl ''llama.cpp model artifact is required'' else Inr (runtimePath, modelPath, support))))"

text \<open>The text of the error of a managed argument.\<close>

definition argErrorText :: "manager_error \<Rightarrow> string" where
  "argErrorText e = (case e of Invalid t \<Rightarrow> t | _ \<Rightarrow> [])"

fun startLlamaServer_loop ::
  "worker_env \<Rightarrow> WorkloadProfile \<Rightarrow> string \<Rightarrow> modelSupportArtifact list \<Rightarrow> launch list \<Rightarrow> string option \<Rightarrow> Worker \<Rightarrow> (string + string) \<times> Worker" where
  "startLlamaServer_loop E profile modelPath support [] lastErr w =
     (Inl (case lastErr of Some e \<Rightarrow> e | None \<Rightarrow> ''llama-server did not start''), w)"
| "startLlamaServer_loop E profile modelPath support (l # ls) lastErr w =
     (case Launch_port l of
        Inl e \<Rightarrow> (Inl e, w)
      | Inr port \<Rightarrow>
          (case llamaServerArgs profile modelPath support port of
             Inl e \<Rightarrow> (Inl (argErrorText e), w)
           | Inr args \<Rightarrow>
               (case startLlamaServerProcess l port (assignmentKey profile) w of
                  (Inl e, w1) \<Rightarrow> (Inl e, w1)
                | (Inr pid, w1) \<Rightarrow>
                    (let stderr = Proc_stderr (the (map_of (Worker_procs w1) pid)) in
                     case waitForLlamaServerReady E (WCfg_RuntimeStartWait (Worker_cfg w1)) stderr (Launch_probes l) (Launch_end l) of
                       None \<Rightarrow> (Inr pid, w1)
                     | Some e \<Rightarrow>
                         (let w2 = stopProc pid w1 in
                          if llamaPortConflict e stderr then startLlamaServer_loop E profile modelPath support ls (Some e) w2
                          else (Inl e, w2))))))"

text \<open>\<open>L i\<close> is what the i-th try meets; there are three.\<close>

definition startLlamaServer :: "worker_env \<Rightarrow> (nat \<Rightarrow> launch) \<Rightarrow> WorkloadProfile \<Rightarrow> Worker \<Rightarrow> (string + string) \<times> Worker" where
  "startLlamaServer E L profile w =
     (case runtimeCommandInputs E profile w of
        Inl e \<Rightarrow> (Inl e, w)
      | Inr (runtimePath, modelPath, support) \<Rightarrow> startLlamaServer_loop E profile modelPath support (map L [0..<3]) None w)"

subsection \<open>The processes of the slots\<close>

definition procAlive :: "Worker \<Rightarrow> string \<Rightarrow> bool" where
  "procAlive w pid \<longleftrightarrow> (case map_of (Worker_procs w) pid of None \<Rightarrow> False | Some p \<Rightarrow> \<not> Proc_done p)"

definition procServes :: "Worker \<Rightarrow> string \<Rightarrow> string \<Rightarrow> bool" where
  "procServes w pid profileKey \<longleftrightarrow>
     (case map_of (Worker_procs w) pid of None \<Rightarrow> False | Some p \<Rightarrow> Proc_profileKey p = profileKey \<and> \<not> Proc_done p)"

definition runtimeServerReady :: "string \<Rightarrow> string \<Rightarrow> Worker \<Rightarrow> bool" where
  "runtimeServerReady slotID profileKey w \<longleftrightarrow>
     (case map_of (Worker_runtimes w) slotID of None \<Rightarrow> False | Some pid \<Rightarrow> procServes w pid profileKey)"

text \<open>\<open>healthy\<close> is the answer of the process to the health request.\<close>

definition runtimeServerHealthy :: "bool \<Rightarrow> string \<Rightarrow> string \<Rightarrow> Worker \<Rightarrow> bool" where
  "runtimeServerHealthy healthy slotID profileKey w \<longleftrightarrow> runtimeServerReady slotID profileKey w \<and> healthy"

definition stopRuntimeServer :: "string \<Rightarrow> Worker \<Rightarrow> Worker" where
  "stopRuntimeServer slotID w =
     (let w1 = w\<lparr>Worker_runtimes := mdel slotID (Worker_runtimes w)\<rparr> in
      case map_of (Worker_runtimes w) slotID of None \<Rightarrow> w1 | Some pid \<Rightarrow> stopProc pid w1)"

definition stopAllRuntimeServers :: "Worker \<Rightarrow> Worker" where
  "stopAllRuntimeServers w = foldl (\<lambda>w pid. stopProc pid w) (w\<lparr>Worker_runtimes := []\<rparr>) (mvals (Worker_runtimes w))"

definition spawn :: "goroutine \<Rightarrow> Worker \<Rightarrow> Worker" where
  "spawn g w = w\<lparr>Worker_go := Worker_go w @ [g]\<rparr>"

text \<open>The end of \<^verbatim>\<open>startRuntimeServerForSlot\<close>, under the lock.\<close>

definition registerRuntime :: "string \<Rightarrow> WorkloadProfile \<Rightarrow> bool \<Rightarrow> string \<Rightarrow> Worker \<Rightarrow> Worker" where
  "registerRuntime slotID profile resetRestarts pid w =
     spawn (GoWatch slotID profile pid) (w\<lparr>Worker_runtimes := mput slotID pid (Worker_runtimes w),
       Worker_warm := mput (assignmentKey profile) profile (Worker_warm w),
       Worker_runtimeRestarts := (if resetRestarts then mput slotID 0 else id) (Worker_runtimeRestarts w)\<rparr>)"

definition startRuntimeServerForSlot ::
  "worker_env \<Rightarrow> (nat \<Rightarrow> launch) \<Rightarrow> string \<Rightarrow> WorkloadProfile \<Rightarrow> bool \<Rightarrow> Worker \<Rightarrow> string option \<times> Worker" where
  "startRuntimeServerForSlot E L slotID profile resetRestarts w =
     (case startLlamaServer E L profile (stopRuntimeServer slotID w) of
        (Inl e, w1) \<Rightarrow> (Some e, w1)
      | (Inr pid, w1) \<Rightarrow> (None, registerRuntime slotID profile resetRestarts pid w1))"

definition ensureRuntimeServer ::
  "worker_env \<Rightarrow> (nat \<Rightarrow> launch) \<Rightarrow> string \<Rightarrow> WorkloadProfile \<Rightarrow> Worker \<Rightarrow> string option \<times> Worker" where
  "ensureRuntimeServer E L slotID profile w =
     (if runtimeServerReady slotID (assignmentKey profile) w then (None, w)
      else startRuntimeServerForSlot E L slotID profile True w)"

definition restartRuntimeServer ::
  "worker_env \<Rightarrow> (nat \<Rightarrow> launch) \<Rightarrow> string \<Rightarrow> WorkloadProfile \<Rightarrow> Worker \<Rightarrow> string option \<times> Worker" where
  "restartRuntimeServer E L slotID profile w = startRuntimeServerForSlot E L slotID profile False w"

definition failureText :: "llamaServerProcess \<Rightarrow> string" where
  "failureText p =
     Join ((case Proc_waitErr p of None \<Rightarrow> [] | Some e \<Rightarrow> [e]) @ (let s = TrimSpace (Proc_stderr p) in if s \<noteq> [] then [s] else [])) '': ''"

definition claimExitedRuntime :: "string \<Rightarrow> string \<Rightarrow> Worker \<Rightarrow> bool \<times> Worker" where
  "claimExitedRuntime slotID pid w =
     (if map_of (Worker_runtimes w) slotID \<noteq> Some pid then (False, w)
      else if Slot_State (mget zero_Slot (Worker_slots w) slotID) = SlotStateServing then (False, w)
      else (True, w\<lparr>Worker_runtimes := mdel slotID (Worker_runtimes w)\<rparr>))"

definition reserveRuntimeRestart :: "string \<Rightarrow> Worker \<Rightarrow> bool \<times> Worker" where
  "reserveRuntimeRestart slotID w =
     (let n = mget 0 (Worker_runtimeRestarts w) slotID in
      if n \<ge> maxRuntimeRestartAttempts then (False, w)
      else (True, w\<lparr>Worker_runtimeRestarts := mput slotID (n + 1) (Worker_runtimeRestarts w)\<rparr>))"

text \<open>The restart that a watch and a recovery share.\<close>

definition restartSlot :: "worker_env \<Rightarrow> (nat \<Rightarrow> launch) \<Rightarrow> string \<Rightarrow> WorkloadProfile \<Rightarrow> string \<Rightarrow> Worker \<Rightarrow> Worker" where
  "restartSlot E L slotID profile reason w =
     (case restartRuntimeServer E L slotID profile (setSlotState E slotID SlotStateWarming (Profile_ID profile) reason w) of
        (Some e, w1) \<Rightarrow> setSlotState E slotID SlotStateError (Profile_ID profile) e w1
      | (None, w1) \<Rightarrow> setSlotState E slotID SlotStateReady (Profile_ID profile) [] w1)"

text \<open>What \<^verbatim>\<open>watchRuntimeServer\<close> does once the process has exited.\<close>

definition watchRuntimeServer :: "worker_env \<Rightarrow> (nat \<Rightarrow> launch) \<Rightarrow> string \<Rightarrow> WorkloadProfile \<Rightarrow> string \<Rightarrow> Worker \<Rightarrow> Worker" where
  "watchRuntimeServer E L slotID profile pid w =
     (case claimExitedRuntime slotID pid w of
        (False, w1) \<Rightarrow> w1
      | (True, w1) \<Rightarrow>
          (case reserveRuntimeRestart slotID w1 of
             (False, w2) \<Rightarrow>
               setSlotState E slotID SlotStateError (Profile_ID profile)
                 (''llama-server exited too often: '' @ (case map_of (Worker_procs w2) pid of None \<Rightarrow> [] | Some p \<Rightarrow> failureText p)) w2
           | (True, w2) \<Rightarrow> restartSlot E L slotID profile ''llama-server exited; restarting'' w2))"

definition recoverRuntimeSlot ::
  "worker_env \<Rightarrow> (nat \<Rightarrow> launch) \<Rightarrow> bool \<Rightarrow> string \<Rightarrow> WorkloadProfile \<Rightarrow> string \<Rightarrow> Worker \<Rightarrow> Worker" where
  "recoverRuntimeSlot E L healthy slotID profile reason w =
     (if runtimeServerHealthy healthy slotID (assignmentKey profile) w then setSlotState E slotID SlotStateReady (Profile_ID profile) [] w
      else case reserveRuntimeRestart slotID w of
        (False, w1) \<Rightarrow>
          setSlotState E slotID SlotStateError (Profile_ID profile) ''llama-server restart limit reached'' (stopRuntimeServer slotID w1)
      | (True, w1) \<Rightarrow> restartSlot E L slotID profile reason w1)"

end
