(* ===== verification/Floats.thy ===== *)
theory Floats
  imports Prelude
begin

section \<open>The arithmetic of float64\<close>

text \<open>
  The conversions and divisions of \<^verbatim>\<open>float64\<close> that the worker's metrics use, on the bit patterns, in
  the range of normal numbers: a ratio is rounded to 53 bits, ties to the even mantissa. A number
  outside the range of \<^verbatim>\<open>int64\<close> converts to the smallest one, as on amd64.
\<close>

function bitlen :: "int \<Rightarrow> int" where
  "bitlen n = (if n \<le> 0 then 0 else bitlen (n div 2) + 1)"
  by pat_completeness auto
termination
  by (relation "measure nat") auto

declare bitlen.simps [simp del]

text \<open>The mantissa and the exponent of the ratio of two positive numbers.\<close>

definition f64_normalize :: "int \<Rightarrow> int \<Rightarrow> int \<times> int" where
  "f64_normalize p q =
     (let e0 = bitlen p - bitlen q;
          e = (if (if e0 \<ge> 0 then q * 2 ^ nat e0 \<le> p else q \<le> p * 2 ^ nat (- e0)) then e0 else e0 - 1);
          k = 52 - e;
          num = (if k \<ge> 0 then p * 2 ^ nat k else p);
          den = (if k \<ge> 0 then q else q * 2 ^ nat (- k));
          m = num div den; r = num mod den;
          m' = (if den < 2 * r \<or> den = 2 * r \<and> odd m then m + 1 else m)
      in if m' = 2 ^ 53 then (2 ^ 52, e + 1) else (m', e))"

definition f64_of_ratio :: "bool \<Rightarrow> int \<Rightarrow> int \<Rightarrow> float64" where
  "f64_of_ratio negative p q =
     (if p = 0 then 0
      else case f64_normalize p q of
        (m, e) \<Rightarrow> word_of_int ((if negative then 2 ^ 63 else 0) + (e + 1023) * 2 ^ 52 + (m - 2 ^ 52)))"

definition f64_negative :: "float64 \<Rightarrow> bool" where
  "f64_negative x \<longleftrightarrow> 2 ^ 63 \<le> uint x"

definition f64_ratio :: "float64 \<Rightarrow> int \<times> int" where
  "f64_ratio x =
     (let b = uint x mod 2 ^ 63; ex = b div 2 ^ 52; fr = b mod 2 ^ 52;
          m = (if ex = 0 then fr else fr + 2 ^ 52); e = max 1 ex - 1075
      in if e \<ge> 0 then (m * 2 ^ nat e, 1) else (m, 2 ^ nat (- e)))"

definition f64_of_int :: "int \<Rightarrow> float64" where
  "f64_of_int i = f64_of_ratio (i < 0) \<bar>i\<bar> 1"

definition f64_div :: "float64 \<Rightarrow> float64 \<Rightarrow> float64" where
  "f64_div a b =
     (case (f64_ratio a, f64_ratio b) of
        ((p, q), (r, s)) \<Rightarrow> f64_of_ratio (f64_negative a \<noteq> f64_negative b) (p * s) (q * r))"

text \<open>\<^verbatim>\<open>int64(math.Round(x))\<close>: halves are rounded away from zero.\<close>

definition f64_round :: "float64 \<Rightarrow> int" where
  "f64_round x =
     (case f64_ratio x of
        (p, q) \<Rightarrow> (let n = (2 * p + q) div (2 * q); i = (if f64_negative x then - n else n)
                   in if in64 i then i else - (2 ^ 63)))"

end
