(* ===== verification/Worker_Tasks.thy ===== *)
theory Worker_Tasks
  imports Worker_Runtime Floats
begin

section \<open>Running a task (worker_task.go, worker_runtime_stream.go)\<close>

text \<open>
  The stream of the runtime, the metrics of an attempt and the run of a task. \<^verbatim>\<open>executeTask\<close> is
  modelled in two parts, \<open>beginTask\<close> up to the message that the attempt has started, and \<open>finishTask\<close>
  from the request to the runtime on; \<open>executeTask\<close> is the two together. \<open>execution\<close> is what the second
  part meets: the answer of the runtime, when its tokens arrive, and whether the context is
  cancelled at a token and at the end.
\<close>

subsection \<open>Metrics\<close>

record runtimeStreamStats =
  Stats_FirstTokenAt :: "time option"
  Stats_PromptTokens :: int
  Stats_CompletionTokens :: int
  Stats_GenerationMS :: int
  Stats_TokensPerSecond :: float64
  Stats_HasPromptTokens :: bool
  Stats_HasGeneration :: bool
  Stats_HasTokensPerSec :: bool

definition zero_runtimeStreamStats :: runtimeStreamStats where
  "zero_runtimeStreamStats = \<lparr>Stats_FirstTokenAt = None, Stats_PromptTokens = 0, Stats_CompletionTokens = 0, Stats_GenerationMS = 0,
     Stats_TokensPerSecond = 0, Stats_HasPromptTokens = False, Stats_HasGeneration = False, Stats_HasTokensPerSec = False\<rparr>"

text \<open>\<^verbatim>\<open>len(strings.Fields(s))\<close>: the number of words between white space.\<close>

fun countFields :: "bool \<Rightarrow> string \<Rightarrow> int" where
  "countFields inWord [] = 0"
| "countFields inWord (c # cs) =
     (if is_space c then countFields False cs else (if inWord then 0 else 1) + countFields True cs)"

definition countCompletionTokens :: "string \<Rightarrow> int" where
  "countCompletionTokens s = (let n = countFields False s in if n = 0 \<and> s \<noteq> [] then 1 else n)"

definition promptTokens :: "ChatMessage list \<Rightarrow> int" where
  "promptTokens messages = sum_list (map (\<lambda>m. countFields False (Chat_Content m)) messages)"

definition tokensPerSecond :: "int \<Rightarrow> int \<Rightarrow> float64" where
  "tokensPerSecond tokens ms = f64_div (f64_of_int tokens) (f64_div (f64_of_int ms) (f64_of_int 1000))"

definition completeRuntimeStats :: "runtimeStreamStats \<Rightarrow> ChatMessage list \<Rightarrow> time option \<Rightarrow> runtimeStreamStats" where
  "completeRuntimeStats stats messages firstTokenAt =
     (let stats = (if firstTokenAt \<noteq> None then stats\<lparr>Stats_FirstTokenAt := firstTokenAt\<rparr> else stats)
      in if \<not> Stats_HasPromptTokens stats then stats\<lparr>Stats_PromptTokens := promptTokens messages\<rparr> else stats)"

definition fallbackRuntimeStats :: "int \<Rightarrow> ChatMessage list \<Rightarrow> time option \<Rightarrow> runtimeStreamStats" where
  "fallbackRuntimeStats completionTokens messages firstTokenAt = zero_runtimeStreamStats\<lparr>Stats_FirstTokenAt := firstTokenAt,
     Stats_PromptTokens := promptTokens messages, Stats_CompletionTokens := completionTokens\<rparr>"

definition milliseconds :: "duration \<Rightarrow> int" where
  "milliseconds d = d sdiv 1000000"

definition reportGenerationMS :: "runtimeStreamStats \<Rightarrow> time \<Rightarrow> int \<Rightarrow> int" where
  "reportGenerationMS stats now totalMS =
     (if Stats_HasGeneration stats then Stats_GenerationMS stats
      else case Stats_FirstTokenAt stats of
        None \<Rightarrow> totalMS
      | Some t \<Rightarrow> (let ms = milliseconds (now - t) in if ms < 0 then 0 else ms))"

definition reportTokensPerSecond :: "runtimeStreamStats \<Rightarrow> int \<Rightarrow> float64" where
  "reportTokensPerSecond stats generationMS =
     (if Stats_HasTokensPerSec stats then Stats_TokensPerSecond stats
      else if generationMS \<le> 0 then 0 else tokensPerSecond (Stats_CompletionTokens stats) generationMS)"

definition reportTTFT :: "time \<Rightarrow> time option \<Rightarrow> int" where
  "reportTTFT start firstTokenAt =
     (case firstTokenAt of None \<Rightarrow> 0 | Some t \<Rightarrow> (let ms = milliseconds (t - start) in if ms < 0 then 0 else ms))"

subsection \<open>The stream of the runtime\<close>

record llamaChatRequest =
  LlamaChat_Model :: string
  LlamaChat_Messages :: "ChatMessage list"
  LlamaChat_MaxTokens :: int
  LlamaChat_Temperature :: float64
  LlamaChat_Stream :: bool

record llamaUsage =
  Usage_PromptTokens :: "int option"
  Usage_CompletionTokens :: "int option"

record llamaTimings =
  Timings_PromptN :: "int option"
  Timings_PredictedN :: "int option"
  Timings_PredictedMS :: "float64 option"
  Timings_PredictedPerSecond :: "float64 option"

text \<open>The contents of the choices of a chunk; their finish reason is decoded and not used.\<close>

record llamaStreamChunk =
  Chunk_Choices :: "string list"
  Chunk_Usage :: "llamaUsage option"
  Chunk_Timings :: "llamaTimings option"

definition applyLlamaUsage :: "llamaUsage \<Rightarrow> runtimeStreamStats \<Rightarrow> runtimeStreamStats" where
  "applyLlamaUsage u stats =
     (let stats = (case Usage_PromptTokens u of None \<Rightarrow> stats | Some n \<Rightarrow> stats\<lparr>Stats_PromptTokens := n, Stats_HasPromptTokens := True\<rparr>)
      in case Usage_CompletionTokens u of None \<Rightarrow> stats | Some n \<Rightarrow> stats\<lparr>Stats_CompletionTokens := n\<rparr>)"

definition applyLlamaTimings :: "llamaTimings \<Rightarrow> runtimeStreamStats \<Rightarrow> runtimeStreamStats" where
  "applyLlamaTimings t stats =
     (let stats = (case Timings_PromptN t of None \<Rightarrow> stats | Some n \<Rightarrow> stats\<lparr>Stats_PromptTokens := n, Stats_HasPromptTokens := True\<rparr>);
          stats = (case Timings_PredictedN t of None \<Rightarrow> stats | Some n \<Rightarrow> stats\<lparr>Stats_CompletionTokens := n\<rparr>);
          stats = (case Timings_PredictedMS t of None \<Rightarrow> stats
                   | Some ms \<Rightarrow> stats\<lparr>Stats_GenerationMS := f64_round ms, Stats_HasGeneration := True\<rparr>);
          stats = (case Timings_PredictedPerSecond t of None \<Rightarrow> stats
                   | Some r \<Rightarrow> stats\<lparr>Stats_TokensPerSecond := r, Stats_HasTokensPerSec := True\<rparr>)
      in if \<not> Stats_HasTokensPerSec stats \<and> Stats_HasGeneration stats \<and> Stats_GenerationMS stats > 0
         then stats\<lparr>Stats_TokensPerSecond := tokensPerSecond (Stats_CompletionTokens stats) (Stats_GenerationMS stats),
           Stats_HasTokensPerSec := True\<rparr>
         else stats)"

definition applyLlamaStreamMetrics :: "llamaStreamChunk \<Rightarrow> runtimeStreamStats \<Rightarrow> runtimeStreamStats" where
  "applyLlamaStreamMetrics chunk stats =
     (let stats = (case Chunk_Usage chunk of None \<Rightarrow> stats | Some u \<Rightarrow> applyLlamaUsage u stats)
      in case Chunk_Timings chunk of None \<Rightarrow> stats | Some t \<Rightarrow> applyLlamaTimings t stats)"

text \<open>\<open>emit\<close> works on a state of its own and may fail.\<close>

fun emitChoices ::
  "(string \<Rightarrow> 's \<Rightarrow> string option \<times> 's) \<Rightarrow> time \<Rightarrow> string list \<Rightarrow> runtimeStreamStats \<Rightarrow> 's \<Rightarrow> string option \<times> runtimeStreamStats \<times> 's" where
  "emitChoices emit now [] stats s = (None, stats, s)"
| "emitChoices emit now (content # rest) stats s =
     (if content = [] then emitChoices emit now rest stats s
      else (let stats = (if Stats_FirstTokenAt stats = None then stats\<lparr>Stats_FirstTokenAt := Some now\<rparr> else stats);
                stats = stats\<lparr>Stats_CompletionTokens := wrap64 (Stats_CompletionTokens stats + countCompletionTokens content)\<rparr>
            in case emit content s of
                 (Some e, s1) \<Rightarrow> (Some e, stats, s1)
               | (None, s1) \<Rightarrow> emitChoices emit now rest stats s1))"

definition emitLlamaStreamPayload ::
  "(string \<Rightarrow> string + llamaStreamChunk) \<Rightarrow> (string \<Rightarrow> 's \<Rightarrow> string option \<times> 's) \<Rightarrow> time \<Rightarrow> string \<Rightarrow> runtimeStreamStats \<Rightarrow> 's \<Rightarrow>
   string option \<times> runtimeStreamStats \<times> 's" where
  "emitLlamaStreamPayload decode emit now payload stats s =
     (case decode payload of
        Inl e \<Rightarrow> (Some e, stats, s)
      | Inr chunk \<Rightarrow>
          (case emitChoices emit now (Chunk_Choices chunk) stats s of
             (Some e, stats1, s1) \<Rightarrow> (Some e, stats1, s1)
           | (None, stats1, s1) \<Rightarrow> (None, applyLlamaStreamMetrics chunk stats1, s1)))"

text \<open>The lines of the body and the error that ends it, if any.\<close>

fun readLlamaServerStream ::
  "(string \<Rightarrow> string + llamaStreamChunk) \<Rightarrow> (string \<Rightarrow> 's \<Rightarrow> string option \<times> 's) \<Rightarrow> time \<Rightarrow> string list \<Rightarrow> string option \<Rightarrow>
   runtimeStreamStats \<Rightarrow> 's \<Rightarrow> string option \<times> runtimeStreamStats \<times> 's" where
  "readLlamaServerStream decode emit now [] scanErr stats s =
     (case scanErr of Some e \<Rightarrow> (Some e, stats, s) | None \<Rightarrow> (Some ''llama-server stream ended before done'', stats, s))"
| "readLlamaServerStream decode emit now (text # rest) scanErr stats s =
     (let line = TrimSpace text in
      if \<not> HasPrefix line ''data:'' then readLlamaServerStream decode emit now rest scanErr stats s
      else (let payload = TrimSpace (drop 5 line) in
        if payload = ''[DONE]'' then (None, stats, s)
        else (case emitLlamaStreamPayload decode emit now payload stats s of
                (Some e, stats1, s1) \<Rightarrow> (Some e, stats1, s1)
              | (None, stats1, s1) \<Rightarrow> readLlamaServerStream decode emit now rest scanErr stats1 s1)))"

datatype stream_response = StreamRequestError string | StreamReply int string "string list" "string option"

record execution =
  Exe_decode :: "string \<Rightarrow> string + llamaStreamChunk"
  Exe_reply :: "llamaChatRequest \<Rightarrow> stream_response"
  Exe_tokenTime :: "nat \<Rightarrow> time"
  Exe_cancelledAt :: "nat \<Rightarrow> bool"
  Exe_cancelled :: bool

definition runtimeServerForPayload :: "ExecuteTaskPayload \<Rightarrow> Worker \<Rightarrow> string + string" where
  "runtimeServerForPayload payload w =
     (case map_of (Worker_runtimes w) (Exec_SlotID payload) of
        None \<Rightarrow> Inl ''llama-server is not ready for this slot''
      | Some pid \<Rightarrow>
          if procServes w pid (assignmentKey (Exec_Profile payload)) then Inr pid
          else Inl ''llama-server is not ready for this slot'')"

definition streamRuntimeTokens ::
  "execution \<Rightarrow> time \<Rightarrow> ExecuteTaskPayload \<Rightarrow> (string \<Rightarrow> 's \<Rightarrow> string option \<times> 's) \<Rightarrow> Worker \<Rightarrow> 's \<Rightarrow>
   string option \<times> runtimeStreamStats \<times> 's" where
  "streamRuntimeTokens X now payload emit w s =
     (case runtimeServerForPayload payload w of
        Inl e \<Rightarrow> (Some e, zero_runtimeStreamStats, s)
      | Inr pid \<Rightarrow>
          (case Exe_reply X \<lparr>LlamaChat_Model = ProfileLogicalModel (Exec_Profile payload), LlamaChat_Messages = Exec_Messages payload,
                  LlamaChat_MaxTokens = Exec_MaxTokens payload, LlamaChat_Temperature = Exec_Temperature payload, LlamaChat_Stream = True\<rparr> of
             StreamRequestError e \<Rightarrow> (Some e, zero_runtimeStreamStats, s)
           | StreamReply code detail lines scanErr \<Rightarrow>
               if code < 200 \<or> code \<ge> 300
               then (Some (''llama-server chat failed: status '' @ show_int code @ '': '' @ TrimSpace (take 4096 detail)), zero_runtimeStreamStats, s)
               else readLlamaServerStream (Exe_decode X) emit now lines scanErr zero_runtimeStreamStats s))"

subsection \<open>Reports\<close>

definition computeReportFor ::
  "worker_env \<Rightarrow> ExecuteTaskPayload \<Rightarrow> time \<Rightarrow> string \<Rightarrow> string \<Rightarrow> string \<Rightarrow> bool \<Rightarrow> runtimeStreamStats \<Rightarrow> Worker \<Rightarrow> ComputeReport" where
  "computeReportFor E payload start phase reason status canRetry stats w =
     (let now = E_now E;
          totalMS = milliseconds (now - start);
          generationMS = reportGenerationMS stats now totalMS;
          profile = Exec_Profile payload
      in zero_ComputeReport\<lparr>Report_ID := E_newID E ''rep'' (length (Worker_send w)), Report_TaskID := Exec_TaskID payload,
           Report_AttemptID := Exec_AttemptID payload, Report_NodeID := Node_ID (Worker_node w), Report_SlotID := Exec_SlotID payload,
           Report_ProfileID := Profile_ID profile, Report_LogicalModel := ProfileLogicalModel profile,
           Report_RuntimeVariantID := Profile_RuntimeVariantID profile, Report_RuntimeAdapter := Profile_RuntimeAdapter profile,
           Report_Status := status, Report_Phase := phase, Report_FailureReason := reason, Report_CanRetry := canRetry,
           Report_Cancelled := status = TaskStatusCancelled,
           Report_Timing := \<lparr>Timing_TimeToFirstTokenMS = reportTTFT start (Stats_FirstTokenAt stats),
             Timing_GenerationMS = generationMS, Timing_TotalAttemptMS = totalMS\<rparr>,
           Report_LLM := \<lparr>Metrics_PromptTokens = Stats_PromptTokens stats, Metrics_CompletionTokens = Stats_CompletionTokens stats,
             Metrics_TotalTokens = wrap64 (Stats_PromptTokens stats + Stats_CompletionTokens stats),
             Metrics_TokensPerSecond = reportTokensPerSecond stats generationMS,
             Metrics_ContextTokens = (case Profile_LLM profile of None \<Rightarrow> 0 | Some llm \<Rightarrow> LLM_ContextTokens llm)\<rparr>,
           Report_Resources := zero_ResourceMetrics\<lparr>Usage_PeakRAMBytes := WCfg_RAMBytes (Worker_cfg w),
             Usage_PeakVRAMBytes := WCfg_VRAMBytes (Worker_cfg w), Usage_PeakUnifiedMemoryBytes := WCfg_UnifiedBytes (Worker_cfg w)\<rparr>,
           Report_CreatedAt := now\<rparr>)"

definition sendReport ::
  "worker_env \<Rightarrow> ExecuteTaskPayload \<Rightarrow> time \<Rightarrow> string \<Rightarrow> string \<Rightarrow> string \<Rightarrow> bool \<Rightarrow> runtimeStreamStats \<Rightarrow> Worker \<Rightarrow> Worker" where
  "sendReport E payload start phase reason status canRetry stats w =
     worker_message E MsgComputeReport (Exec_TaskID payload) (Exec_AttemptID payload)
       (marshalReport (E_codec E) (computeReportFor E payload start phase reason status canRetry stats w)) w"

definition failExecution ::
  "worker_env \<Rightarrow> ExecuteTaskPayload \<Rightarrow> time \<Rightarrow> string \<Rightarrow> string \<Rightarrow> bool \<Rightarrow> bool \<Rightarrow> int \<Rightarrow> time option \<Rightarrow> Worker \<Rightarrow> Worker" where
  "failExecution E payload start phase reason canRetry first completionTokens firstTokenAt w =
     sendReport E payload start phase reason TaskStatusFailed canRetry
       (fallbackRuntimeStats completionTokens (Exec_Messages payload) firstTokenAt)
       (worker_message E MsgAttemptFailed (Exec_TaskID payload) (Exec_AttemptID payload)
         (marshalAttemptFailed (E_codec E) \<lparr>Failed_TaskID = Exec_TaskID payload, Failed_AttemptID = Exec_AttemptID payload,
            Failed_Phase = phase, Failed_FailureReason = reason, Failed_CanRetry = canRetry, Failed_FirstOutputSent = first\<rparr>) w)"

definition sendTaskToken :: "worker_env \<Rightarrow> ExecuteTaskPayload \<Rightarrow> string \<Rightarrow> int \<Rightarrow> Worker \<Rightarrow> Worker" where
  "sendTaskToken E payload token index w =
     worker_message E MsgToken (Exec_TaskID payload) (Exec_AttemptID payload)
       (marshalToken (E_codec E) (zero_TokenPayload\<lparr>Token_TaskID := Exec_TaskID payload, Token_AttemptID := Exec_AttemptID payload,
          Token_Token := token, Token_Index := index\<rparr>)) w"

text \<open>A tick of \<^verbatim>\<open>renewLease\<close>.\<close>

definition renewLease :: "worker_env \<Rightarrow> string \<Rightarrow> string \<Rightarrow> Worker \<Rightarrow> Worker" where
  "renewLease E taskID attemptID w = worker_message E MsgAttemptLease taskID attemptID [] w"

subsection \<open>Admission\<close>

text \<open>The slot that a range loop over the slots meets first decides, whether it fits or not.\<close>

definition localFit :: "WorkloadProfile \<Rightarrow> string \<Rightarrow> Worker \<Rightarrow> string \<times> FitResult" where
  "localFit profile preferredSlot w =
     (if preferredSlot \<noteq> []
      then (let slot = mget zero_Slot (Worker_slots w) preferredSlot in (Slot_ID slot, FitProfileToSlot profile (Worker_node w) slot))
      else case mvals (Worker_slots w) of
        [] \<Rightarrow> ([], zero_FitResult\<lparr>Fit_ProfileID := Profile_ID profile, Fit_Fits := False, Fit_Reasons := [''no_slots'']\<rparr>)
      | slot # _ \<Rightarrow> (Slot_ID slot, FitProfileToSlot profile (Worker_node w) slot))"

record taskAdmissionFailure =
  Admission_phase :: string
  Admission_reason :: string

definition admitTask :: "worker_env \<Rightarrow> ExecuteTaskPayload \<Rightarrow> Worker \<Rightarrow> taskAdmissionFailure option" where
  "admitTask E payload w =
     (case getSlot w (Exec_SlotID payload) of
        None \<Rightarrow> Some \<lparr>Admission_phase = ''admission'', Admission_reason = FailureAdmissionCheckFailed\<rparr>
      | Some slot \<Rightarrow>
          if Slot_ActiveTaskID slot \<noteq> [] \<or> Slot_State slot \<noteq> SlotStateReady \<or>
             \<not> slotProfileCurrent slot (Profile_ID (Exec_Profile payload)) (Exec_Profile payload)
          then Some \<lparr>Admission_phase = ''admission'', Admission_reason = FailureAdmissionCheckFailed\<rparr>
          else (let fit = snd (localFit (Exec_Profile payload) (Exec_SlotID payload) w) in
            if \<not> Fit_Fits fit then Some \<lparr>Admission_phase = ''admission'', Admission_reason = Join (Fit_Reasons fit) '',''\<rparr>
            else if verifyProfileArtifacts E (Exec_Profile payload) w \<noteq> None
            then Some \<lparr>Admission_phase = ''artifact_verification'', Admission_reason = FailureArtifactDigestMismatch\<rparr>
            else None))"

subsection \<open>The run of a task\<close>

definition registerActiveAttempt :: "string \<Rightarrow> Worker \<Rightarrow> bool \<times> Worker" where
  "registerActiveAttempt attemptID w =
     (if mhas (Worker_active w) attemptID then (False, w)
      else (True, w\<lparr>Worker_active := mput attemptID False (Worker_active w)\<rparr>))"

definition unregisterActiveAttempt :: "string \<Rightarrow> Worker \<Rightarrow> Worker" where
  "unregisterActiveAttempt attemptID w = w\<lparr>Worker_active := mdel attemptID (Worker_active w)\<rparr>"

definition worker_cancelAttempt :: "string \<Rightarrow> Worker \<Rightarrow> Worker" where
  "worker_cancelAttempt attemptID w =
     (if mhas (Worker_active w) attemptID then w\<lparr>Worker_active := mput attemptID True (Worker_active w)\<rparr> else w)"

definition beginTask :: "worker_env \<Rightarrow> ExecuteTaskPayload \<Rightarrow> Worker \<Rightarrow> Worker" where
  "beginTask E payload w =
     (case registerActiveAttempt (Exec_AttemptID payload) w of
        (False, w1) \<Rightarrow> w1
      | (True, w1) \<Rightarrow>
          (case admitTask E payload w1 of
             Some failure \<Rightarrow>
               unregisterActiveAttempt (Exec_AttemptID payload)
                 (failExecution E payload (E_now E) (Admission_phase failure) (Admission_reason failure) True False 0 None w1)
           | None \<Rightarrow>
               spawn (GoStream payload (E_now E)) (worker_message E MsgAttemptStarted (Exec_TaskID payload) (Exec_AttemptID payload) []
                 (setSlotServing E (Exec_SlotID payload) (Profile_ID (Exec_Profile payload)) (Exec_TaskID payload) w1))))"

record emission =
  Emit_worker :: Worker
  Emit_firstAt :: "time option"
  Emit_sent :: nat

definition contextCanceled :: string where
  "contextCanceled = ''context canceled''"

definition emitToken :: "worker_env \<Rightarrow> execution \<Rightarrow> ExecuteTaskPayload \<Rightarrow> string \<Rightarrow> emission \<Rightarrow> string option \<times> emission" where
  "emitToken E X payload token s =
     (if mget False (Worker_active (Emit_worker s)) (Exec_AttemptID payload) \<or> Exe_cancelledAt X (Emit_sent s)
      then (Some contextCanceled, s)
      else (None, s\<lparr>Emit_firstAt := (if Emit_firstAt s = None then Some (Exe_tokenTime X (Emit_sent s)) else Emit_firstAt s),
         Emit_worker := sendTaskToken E payload token (int (Emit_sent s)) (Emit_worker s), Emit_sent := Emit_sent s + 1\<rparr>))"

definition finishTask :: "worker_env \<Rightarrow> execution \<Rightarrow> ExecuteTaskPayload \<Rightarrow> time \<Rightarrow> Worker \<Rightarrow> Worker" where
  "finishTask E X payload start w =
     (case streamRuntimeTokens X (E_now E) payload (emitToken E X payload) w \<lparr>Emit_worker = w, Emit_firstAt = None, Emit_sent = 0\<rparr> of
        (runtimeErr, stats, s) \<Rightarrow>
          (let first = Emit_firstAt s \<noteq> None; w1 = Emit_worker s; attempt = Exec_AttemptID payload in
           unregisterActiveAttempt attempt
             (case runtimeErr of
                Some e \<Rightarrow>
                  (let w2 = spawn (GoRecover (Exec_SlotID payload) (Exec_Profile payload) e) w1 in
                   if mget False (Worker_active w2) attempt \<or> Exe_cancelled X
                   then sendReport E payload start ''execution'' FailureCancelledByClient TaskStatusCancelled False
                     (fallbackRuntimeStats (int (Emit_sent s)) (Exec_Messages payload) (Emit_firstAt s)) w2
                   else failExecution E payload start ''runtime'' FailureRuntimeError (\<not> first) first (int (Emit_sent s)) (Emit_firstAt s) w2)
              | None \<Rightarrow>
                  sendReport E payload start ''completed'' [] TaskStatusCompleted False
                    (completeRuntimeStats stats (Exec_Messages payload) (Emit_firstAt s))
                    (setSlotState E (Exec_SlotID payload) SlotStateReady (Profile_ID (Exec_Profile payload)) [] w1))))"

end
