(* ===== verification/Worker_Handlers.thy ===== *)
theory Worker_Handlers
  imports Worker_Tasks
begin

section \<open>Messages of the manager (worker_assignment.go, worker_inbound.go, worker_update.go, worker.go)\<close>

text \<open>
  What the worker does with the messages of the manager: assignments, tasks, cancellations,
  evictions and updates, and its connection. A handler that starts a goroutine puts it into
  \<open>Worker_go\<close>; the operations named after a \<open>Go\<close> constructor are its body.
\<close>

subsection \<open>Assignments\<close>

definition assignmentFailureCooldown :: duration where
  "assignmentFailureCooldown = minutes 5"

definition validateAssignmentPayload :: "AssignmentPayload \<Rightarrow> string option" where
  "validateAssignmentPayload payload =
     (if Profile_ID (Assign_Profile payload) = [] then Some ''assignment missing profile'' else None)"

definition recordAssignmentFailure :: "worker_env \<Rightarrow> string \<Rightarrow> Worker \<Rightarrow> Worker" where
  "recordAssignmentFailure E key w = w\<lparr>Worker_assignmentFailures := mput key (E_now E) (Worker_assignmentFailures w)\<rparr>"

definition assignmentInCooldown :: "worker_env \<Rightarrow> string \<Rightarrow> Worker \<Rightarrow> bool" where
  "assignmentInCooldown E key w \<longleftrightarrow>
     (case map_of (Worker_assignmentFailures w) key of None \<Rightarrow> False | Some t \<Rightarrow> E_now E - t < assignmentFailureCooldown)"

definition beginAssignment :: "AssignmentPayload \<Rightarrow> Worker \<Rightarrow> bool \<times> Worker" where
  "beginAssignment payload w =
     (let key = assignmentKey (Assign_Profile payload) in
      if mget False (Worker_activeAssignments w) key then (False, w)
      else (True, w\<lparr>Worker_assigns := mput key payload (Worker_assigns w),
              Worker_activeAssignments := mput key True (Worker_activeAssignments w)\<rparr>))"

definition finishAssignment :: "AssignmentPayload \<Rightarrow> Worker \<Rightarrow> Worker" where
  "finishAssignment payload w =
     w\<lparr>Worker_activeAssignments := mdel (assignmentKey (Assign_Profile payload)) (Worker_activeAssignments w)\<rparr>"

definition workerHasArtifacts :: "string gomap \<Rightarrow> ArtifactSpec list \<Rightarrow> bool" where
  "workerHasArtifacts cache artifacts \<longleftrightarrow> list_all (\<lambda>a. mget [] cache (Spec_ID a) \<noteq> []) artifacts \<and> artifacts \<noteq> []"

definition artifactsCached :: "ArtifactSpec list \<Rightarrow> Worker \<Rightarrow> bool" where
  "artifactsCached artifacts w \<longleftrightarrow> workerHasArtifacts (Worker_cache w) artifacts"

fun satisfied_loop :: "AssignmentPayload \<Rightarrow> Worker \<Rightarrow> Slot list \<Rightarrow> bool" where
  "satisfied_loop payload w [] = False"
| "satisfied_loop payload w (slot # slots) =
     (if \<not> slotProfileCurrent slot (Profile_ID (Assign_Profile payload)) (Assign_Profile payload) then satisfied_loop payload w slots
      else if Slot_State slot = SlotStateReady \<or> Slot_State slot = SlotStateServing
      then runtimeServerReady (Slot_ID slot) (assignmentKey (Assign_Profile payload)) w
      else if Contains [SlotStateDownloadQueued, SlotStateDownloading, SlotStateCached, SlotStateLoading, SlotStateWarming] (Slot_State slot)
      then True
      else satisfied_loop payload w slots)"

definition assignmentAlreadySatisfied :: "worker_env \<Rightarrow> AssignmentPayload \<Rightarrow> Worker \<Rightarrow> bool" where
  "assignmentAlreadySatisfied E payload w =
     (let key = assignmentKey (Assign_Profile payload) in
      if assignmentInCooldown E key w then True
      else if mget False (Worker_activeAssignments w) key then True
      else if Assign_Cached payload \<and> \<not> Assign_Warm payload then workerHasArtifacts (Worker_cache w) (Assign_Artifacts payload)
      else satisfied_loop payload w (mvals (Worker_slots w)))"

text \<open>\<open>S\<close> and \<open>L\<close> are what the downloads and the launches of the assignment meet.\<close>

fun ensureArtifacts_loop ::
  "worker_env \<Rightarrow> (string \<Rightarrow> artifact_source) \<Rightarrow> (Worker \<Rightarrow> Worker) \<Rightarrow> ArtifactSpec list \<Rightarrow> Worker \<Rightarrow> string option \<times> Worker" where
  "ensureArtifacts_loop E S onStart [] w = (None, w)"
| "ensureArtifacts_loop E S onStart (artifact # artifacts) w =
     (case ensureArtifactWithStart E (S (Spec_ID artifact)) artifact onStart w of
        (Some e, w1) \<Rightarrow> (Some e, w1)
      | (None, w1) \<Rightarrow> ensureArtifacts_loop E S onStart artifacts w1)"

definition ensureCachedAssignment ::
  "worker_env \<Rightarrow> (string \<Rightarrow> artifact_source) \<Rightarrow> AssignmentPayload \<Rightarrow> Worker \<Rightarrow> string option \<times> Worker" where
  "ensureCachedAssignment E S payload w =
     (case ensureArtifacts_loop E S id (Assign_Artifacts payload) w of
        (Some e, w1) \<Rightarrow> (Some e, w1)
      | (None, w1) \<Rightarrow> (None, snd (saveState E w1)))"

definition ensureSlotCached ::
  "worker_env \<Rightarrow> (string \<Rightarrow> artifact_source) \<Rightarrow> string \<Rightarrow> AssignmentPayload \<Rightarrow> Worker \<Rightarrow> string option \<times> Worker" where
  "ensureSlotCached E S slotID payload w =
     (let pid = Profile_ID (Assign_Profile payload) in
      if \<not> Assign_Cached payload then (None, w)
      else (let w1 = (if \<not> artifactsCached (Assign_Artifacts payload) w then setSlotState E slotID SlotStateDownloadQueued pid [] w else w) in
        case ensureArtifacts_loop E S (setSlotState E slotID SlotStateDownloading pid []) (Assign_Artifacts payload) w1 of
          (Some e, w2) \<Rightarrow> (Some e, setSlotState E slotID SlotStateError pid e w2)
        | (None, w2) \<Rightarrow> (None, setSlotState E slotID SlotStateCached pid [] w2)))"

definition ensureSlotWarm ::
  "worker_env \<Rightarrow> (nat \<Rightarrow> launch) \<Rightarrow> string \<Rightarrow> AssignmentPayload \<Rightarrow> Worker \<Rightarrow> string option \<times> Worker" where
  "ensureSlotWarm E L slotID payload w =
     (let pid = Profile_ID (Assign_Profile payload) in
      if \<not> Assign_Warm payload then (None, w)
      else (let w1 = setSlotState E slotID SlotStateLoading pid [] w in
        case verifyProfileArtifacts E (Assign_Profile payload) w1 of
          Some e \<Rightarrow> (Some e, setSlotState E slotID SlotStateError pid e w1)
        | None \<Rightarrow>
            (case ensureRuntimeServer E L slotID (Assign_Profile payload) (setSlotState E slotID SlotStateWarming pid [] w1) of
               (Some e, w2) \<Rightarrow> (Some e, setSlotState E slotID SlotStateError pid e w2)
             | (None, w2) \<Rightarrow> (None, setSlotState E slotID SlotStateReady pid [] w2))))"

definition runAssignment ::
  "worker_env \<Rightarrow> (string \<Rightarrow> artifact_source) \<Rightarrow> (nat \<Rightarrow> launch) \<Rightarrow> AssignmentPayload \<Rightarrow> Worker \<Rightarrow> string option \<times> Worker" where
  "runAssignment E S L payload w =
     (if Assign_Cached payload \<and> \<not> Assign_Warm payload then ensureCachedAssignment E S payload w
      else case localFit (Assign_Profile payload) (Assign_SlotID payload) w of
        (slotID, fit) \<Rightarrow>
          if \<not> Fit_Fits fit
          then (Some (''assignment rejected: '' @ Join (Fit_Reasons fit) '',''),
                setAnySlotState E SlotStateIdle (Profile_ID (Assign_Profile payload)) (Join (Fit_Reasons fit) '','') w)
          else (case ensureSlotCached E S slotID payload w of
                  (Some e, w1) \<Rightarrow> (Some e, w1)
                | (None, w1) \<Rightarrow>
                    (case ensureSlotWarm E L slotID payload w1 of
                       (Some e, w2) \<Rightarrow> (Some e, w2)
                     | (None, w2) \<Rightarrow> (None, snd (saveState E w2)))))"

text \<open>The goroutine of \<^verbatim>\<open>queueAssignment\<close>.\<close>

definition goAssignment ::
  "worker_env \<Rightarrow> (string \<Rightarrow> artifact_source) \<Rightarrow> (nat \<Rightarrow> launch) \<Rightarrow> AssignmentPayload \<Rightarrow> Worker \<Rightarrow> Worker" where
  "goAssignment E S L payload w =
     finishAssignment payload
       (case runAssignment E S L payload w of
          (None, w1) \<Rightarrow> w1
        | (Some _, w1) \<Rightarrow> recordAssignmentFailure E (assignmentKey (Assign_Profile payload)) w1)"

definition queueAssignment :: "worker_env \<Rightarrow> AssignmentPayload \<Rightarrow> Worker \<Rightarrow> string option \<times> Worker" where
  "queueAssignment E payload w =
     (case validateAssignmentPayload payload of
        Some e \<Rightarrow> (Some e, w)
      | None \<Rightarrow>
          if assignmentAlreadySatisfied E payload w then (None, w)
          else (case beginAssignment payload w of
                  (False, w1) \<Rightarrow> (None, w1)
                | (True, w1) \<Rightarrow> (None, spawn (GoAssignment payload) w1)))"

definition handleAssignment ::
  "worker_env \<Rightarrow> (string \<Rightarrow> artifact_source) \<Rightarrow> (nat \<Rightarrow> launch) \<Rightarrow> AssignmentPayload \<Rightarrow> Worker \<Rightarrow> string option \<times> Worker" where
  "handleAssignment E S L payload w =
     (case validateAssignmentPayload payload of
        Some e \<Rightarrow> (Some e, w)
      | None \<Rightarrow>
          if assignmentAlreadySatisfied E payload w then (None, w)
          else (case beginAssignment payload w of
                  (False, w1) \<Rightarrow> (None, w1)
                | (True, w1) \<Rightarrow> (case runAssignment E S L payload w1 of (e, w2) \<Rightarrow> (e, finishAssignment payload w2))))"

subsection \<open>Updates\<close>

text \<open>
  The standard library on signatures: \<^verbatim>\<open>base64.StdEncoding.DecodeString\<close> and \<^verbatim>\<open>ed25519.Verify\<close>, which panics
  for a public key that is not 32 bytes long.
\<close>

record signatures =
  Sig_decode :: "string \<Rightarrow> string + string"
  Sig_verify :: "string \<Rightarrow> string \<Rightarrow> string \<Rightarrow> bool"

text \<open>The outer \<open>None\<close> is a panic, which ends the process.\<close>

definition verifySignature :: "signatures \<Rightarrow> string \<Rightarrow> UpdateRecord \<Rightarrow> files \<Rightarrow> string option option" where
  "verifySignature V path update files =
     (if Update_Signature update = [] \<and> Update_PublicKey update = [] then Some None
      else if Update_Signature update = [] \<or> Update_PublicKey update = [] then Some (Some ''signature and publicKey must be provided together'')
      else case Sig_decode V (Update_PublicKey update) of
        Inl e \<Rightarrow> Some (Some e)
      | Inr pub \<Rightarrow>
          (case Sig_decode V (Update_Signature update) of
             Inl e \<Rightarrow> Some (Some e)
           | Inr sig \<Rightarrow>
               (case map_of files path of
                  None \<Rightarrow> Some (Some ''no such file'')
                | Some b \<Rightarrow>
                    if length pub \<noteq> 32 then None
                    else if \<not> Sig_verify V pub b sig then Some (Some ''update signature verification failed'') else Some None)))"

definition sendUpdateTelemetry :: "worker_env \<Rightarrow> string \<Rightarrow> string \<Rightarrow> string \<Rightarrow> Worker \<Rightarrow> Worker" where
  "sendUpdateTelemetry E updateID status detail w =
     worker_message E MsgTelemetry [] [] (marshalStrings (E_codec E)
       [(''updateId'', updateID), (''status'', status), (''detail'', detail)]) w"

text \<open>The errors of replacing the executable: of writing the copy, of the second renaming, and of starting it.\<close>

record install_errors =
  Install_copyErr :: "string option"
  Install_renameErr :: "string option"
  Install_startErr :: "string option"

definition renameFile :: "string \<Rightarrow> string \<Rightarrow> files \<Rightarrow> files" where
  "renameFile a b files = (case map_of files a of None \<Rightarrow> files | Some c \<Rightarrow> mput b c (mdel a files))"

text \<open>\<open>None\<close>: the new executable runs and this process exits.\<close>

definition installAndRestart :: "worker_env \<Rightarrow> install_errors \<Rightarrow> string \<Rightarrow> files \<Rightarrow> string option \<times> files" where
  "installAndRestart E I path files =
     (case OS_executable (E_platform E) of
        None \<Rightarrow> (Some ''executable unknown'', files)
      | Some exe \<Rightarrow>
          (case map_of files path of
             None \<Rightarrow> (Some ''no such file'', files)
           | Some content \<Rightarrow>
               (case Install_copyErr I of
                  Some e \<Rightarrow> (Some e, files)
                | None \<Rightarrow>
                    (let next = exe @ ''.next''; backup = exe @ ''.old'';
                         files1 = renameFile exe backup (mdel backup (mput next content files))
                     in case Install_renameErr I of
                          Some e \<Rightarrow> (Some e, renameFile backup exe files1)
                        | None \<Rightarrow> (Install_startErr I, renameFile next exe files1)))))"

datatype update_end = UpdateDone Worker | UpdatePanic | UpdateExit files

text \<open>What \<^verbatim>\<open>handleUpdate\<close> does once no attempt is active.\<close>

definition handleUpdate ::
  "worker_env \<Rightarrow> artifact_source \<Rightarrow> signatures \<Rightarrow> install_errors \<Rightarrow> UpdatePayload \<Rightarrow> Worker \<Rightarrow> update_end" where
  "handleUpdate E S V I payload w =
     (let spec0 = UpdateP_Artifact payload; update = UpdateP_Update payload;
          spec = (if Spec_Kind spec0 = [] then spec0\<lparr>Spec_Kind := ''worker_update''\<rparr> else spec0);
          failed = (\<lambda>e w. UpdateDone (sendUpdateTelemetry E (Update_ID update) ''update_failed'' e w))
      in if Spec_ID spec0 = [] \<or> Spec_URL spec0 = [] then UpdateDone w
         else case ensureArtifactDetailed E S spec id w of
           (Inl e, w1) \<Rightarrow> failed e w1
         | (Inr method, w1) \<Rightarrow>
             (let w2 = sendUpdateTelemetry E (Update_ID update) ''update_downloaded'' method w1;
                  path = mget [] (Worker_cache w2) (Update_ArtifactID update)
              in case verifySignature V path update (Worker_files w2) of
                   None \<Rightarrow> UpdatePanic
                 | Some (Some e) \<Rightarrow> failed e w2
                 | Some None \<Rightarrow>
                     if \<not> WCfg_EnableSelfUpdate (Worker_cfg w2)
                     then UpdateDone (sendUpdateTelemetry E (Update_ID update) ''update_verified''
                       ''self update disabled; verified package is cached'' w2)
                     else (case installAndRestart E I path (Worker_files w2) of
                             (None, files) \<Rightarrow> UpdateExit files
                           | (Some e, files) \<Rightarrow> failed e (w2\<lparr>Worker_files := files\<rparr>))))"

subsection \<open>Inbound messages\<close>

definition ackMessage :: "Envelope \<Rightarrow> string \<Rightarrow> string \<Rightarrow> Worker \<Rightarrow> Worker" where
  "ackMessage msg taskID attempt w = snd (worker_enqueue \<lparr>Env_ID = Env_ID msg, Env_Type = MsgAck, Env_NodeID = Node_ID (Worker_node w),
     Env_TaskID = taskID, Env_Attempt = attempt, Env_Payload = []\<rparr> w)"

definition workerAck :: "worker_env \<Rightarrow> Envelope \<Rightarrow> Worker \<Rightarrow> string option \<times> Worker" where
  "workerAck E msg w =
     (if Env_Payload msg = [] then (None, w)
      else case unmarshalAck (E_codec E) (Env_Payload msg) of
        Inl e \<Rightarrow> (Some e, w)
      | Inr ack \<Rightarrow> if Ack_NodeToken ack = [] then (None, w) else saveState E (w\<lparr>Worker_nodeToken := Ack_NodeToken ack\<rparr>))"

definition workerAssignProfile :: "worker_env \<Rightarrow> Envelope \<Rightarrow> Worker \<Rightarrow> string option \<times> Worker" where
  "workerAssignProfile E msg w =
     (case unmarshalAssignment (E_codec E) (Env_Payload msg) of
        Inl e \<Rightarrow> (Some e, w)
      | Inr payload \<Rightarrow>
          (case queueAssignment E payload w of (Some e, w1) \<Rightarrow> (Some e, w1) | (None, w1) \<Rightarrow> (None, ackMessage msg [] [] w1)))"

definition workerExecuteTask :: "worker_env \<Rightarrow> Envelope \<Rightarrow> Worker \<Rightarrow> string option \<times> Worker" where
  "workerExecuteTask E msg w =
     (case unmarshalExecute (E_codec E) (Env_Payload msg) of
        Inl e \<Rightarrow> (Some e, w)
      | Inr payload \<Rightarrow> (None, ackMessage msg (Exec_TaskID payload) (Exec_AttemptID payload) (spawn (GoExecute payload) w)))"

definition workerCancelTask :: "worker_env \<Rightarrow> Envelope \<Rightarrow> Worker \<Rightarrow> string option \<times> Worker" where
  "workerCancelTask E msg w =
     (case unmarshalCancel (E_codec E) (Env_Payload msg) of
        Inl e \<Rightarrow> (Some e, w)
      | Inr payload \<Rightarrow>
          (None, ackMessage msg (Cancel_TaskID payload) (Cancel_AttemptID payload) (worker_cancelAttempt (Cancel_AttemptID payload) w)))"

definition workerEvictArtifact :: "worker_env \<Rightarrow> string option \<Rightarrow> Envelope \<Rightarrow> Worker \<Rightarrow> string option \<times> Worker" where
  "workerEvictArtifact E removeErr msg w =
     (case unmarshalEvict (E_codec E) (Env_Payload msg) of
        Inl e \<Rightarrow> (Some e, w)
      | Inr payload \<Rightarrow>
          (case evictArtifact E removeErr payload w of (Some e, w1) \<Rightarrow> (Some e, w1) | (None, w1) \<Rightarrow> (None, ackMessage msg [] [] w1)))"

definition workerP2PConfig :: "worker_env \<Rightarrow> Envelope \<Rightarrow> Worker \<Rightarrow> string option \<times> Worker" where
  "workerP2PConfig E msg w =
     (case unmarshalP2PConfig (E_codec E) (Env_Payload msg) of
        Inl e \<Rightarrow> (Some e, w)
      | Inr payload \<Rightarrow> (None, ackMessage msg [] [] (applyP2PConfig E (P2PConfig_Enabled payload) w)))"

definition workerUpdate :: "worker_env \<Rightarrow> Envelope \<Rightarrow> Worker \<Rightarrow> string option \<times> Worker" where
  "workerUpdate E msg w =
     (case unmarshalUpdate (E_codec E) (Env_Payload msg) of
        Inl e \<Rightarrow> (Some e, w)
      | Inr payload \<Rightarrow> (None, ackMessage msg [] [] (spawn (GoUpdate payload) w)))"

definition worker_seen :: "worker_env \<Rightarrow> string \<Rightarrow> Worker \<Rightarrow> bool \<times> Worker" where
  "worker_seen E mid w =
     (if mhas (Worker_processed w) mid then (True, w)
      else (let processed = mput mid (E_now E) (Worker_processed w) in
        (False, w\<lparr>Worker_processed := (if int (length processed) > 2048
           then mfilter (\<lambda>_ t. \<not> t < E_now E - minutes 30) processed else processed)\<rparr>)))"

definition handleEnvelope :: "worker_env \<Rightarrow> string option \<Rightarrow> Envelope \<Rightarrow> Worker \<Rightarrow> string option \<times> Worker" where
  "handleEnvelope E removeErr msg w0 =
     (case (if Env_ID msg \<noteq> [] then worker_seen E (Env_ID msg) w0 else (False, w0)) of
        (True, w) \<Rightarrow> (None, ackMessage msg [] [] w)
      | (False, w) \<Rightarrow>
          (let t = Env_Type msg in
           if t = MsgAck then workerAck E msg w
           else if t = MsgAssignProfile then workerAssignProfile E msg w
           else if t = MsgExecuteTask then workerExecuteTask E msg w
           else if t = MsgCancelTask then workerCancelTask E msg w
           else if t = MsgEvictArtifact then workerEvictArtifact E removeErr msg w
           else if t = MsgP2PConfig then workerP2PConfig E msg w
           else if t = MsgUpdateWorker then workerUpdate E msg w
           else (Some (''unsupported message '' @ t), w)))"

subsection \<open>The connection\<close>

text \<open>The URL of the manager, as \<^verbatim>\<open>net/url\<close> parses it.\<close>

record url =
  URL_Scheme :: string
  URL_Host :: string
  URL_Path :: string
  URL_RawQuery :: string
  URL_Fragment :: string

definition workerWSURL :: "url \<Rightarrow> string + url" where
  "workerWSURL u =
     (let scheme = URL_Scheme u;
          ws = (if scheme = ''http'' then Some ''ws'' else if scheme = ''https'' then Some ''wss''
                else if scheme = ''ws'' \<or> scheme = ''wss'' then Some scheme else None)
      in case ws of
           None \<Rightarrow> Inl (''unsupported manager URL scheme '' @ scheme)
         | Some s \<Rightarrow> Inr (u\<lparr>URL_Scheme := s, URL_Path := dropTrailingSlashes (URL_Path u) @ ''/api/worker/ws'', URL_RawQuery := [], URL_Fragment := []\<rparr>))"

definition workerWSHeaders :: "string \<Rightarrow> string option" where
  "workerWSHeaders token = (if token \<noteq> [] then Some (''Bearer '' @ token) else None)"

text \<open>A round of \<^verbatim>\<open>readLoop\<close> that reads a message.\<close>

definition worker_readLoop :: "worker_env \<Rightarrow> string option \<Rightarrow> Envelope \<Rightarrow> Worker \<Rightarrow> Worker" where
  "worker_readLoop E removeErr msg w =
     (case handleEnvelope E removeErr msg w of
        (None, w1) \<Rightarrow> w1
      | (Some e, w1) \<Rightarrow>
          snd (worker_enqueue \<lparr>Env_ID = Env_ID msg, Env_Type = MsgError, Env_NodeID = Node_ID (Worker_node w1), Env_TaskID = [],
            Env_Attempt = [], Env_Payload = marshalStrings (E_codec E) [(''error'', e)]\<rparr> w1))"

text \<open>A round of \<^verbatim>\<open>writeLoop\<close>: the oldest message is taken and written.\<close>

definition worker_writeLoop :: "Worker \<Rightarrow> Envelope option \<times> Worker" where
  "worker_writeLoop w = (case Worker_send w of [] \<Rightarrow> (None, w) | msg # rest \<Rightarrow> (Some msg, w\<lparr>Worker_send := rest\<rparr>))"

text \<open>The start of \<^verbatim>\<open>connectAndServe\<close>, a tick of its timer, and its end.\<close>

definition connect :: "worker_env \<Rightarrow> string option \<Rightarrow> Worker \<Rightarrow> Worker" where
  "connect E dialErr w =
     (case dialErr of
        Some e \<Rightarrow> w\<lparr>Worker_lastError := e\<rparr>
      | None \<Rightarrow> sendFullState E (sendHello E (w\<lparr>Worker_send := [], Worker_connected := True, Worker_lastError := []\<rparr>)))"

definition heartbeat :: "worker_env \<Rightarrow> Worker \<Rightarrow> Worker" where
  "heartbeat E w = worker_message E MsgHeartbeat [] [] [] w"

definition disconnect :: "string option \<Rightarrow> Worker \<Rightarrow> Worker" where
  "disconnect err w = (let w = w\<lparr>Worker_connected := False\<rparr> in case err of None \<Rightarrow> w | Some e \<Rightarrow> w\<lparr>Worker_lastError := e\<rparr>)"

text \<open>The pauses of \<^verbatim>\<open>Run\<close> between its connections.\<close>

definition nextBackoff :: "duration \<Rightarrow> duration" where
  "nextBackoff backoff = (if backoff < seconds 10 then backoff * 2 else backoff)"

subsection \<open>The local status server\<close>

record SlotStatus =
  SlotStatus_ID :: string
  SlotStatus_State :: string

record WorkerStatusSnapshot =
  Snap_Connected :: bool
  Snap_NodeID :: string
  Snap_NodeName :: string
  Snap_Version :: string
  Snap_Target :: string
  Snap_RuntimeAdapters :: "string list"
  Snap_Slots :: "SlotStatus list"
  Snap_CachedCount :: int
  Snap_WarmCount :: int
  Snap_WarmProfiles :: "string list"
  Snap_P2P :: "WorkerP2PStatus option"
  Snap_ManagerURL :: string
  Snap_LastError :: string
  Snap_Paused :: bool
  Snap_StartedAt :: time
  Snap_UpdatedAt :: time

definition StatusSnapshot :: "worker_env \<Rightarrow> Worker \<Rightarrow> WorkerStatusSnapshot \<times> Worker" where
  "StatusSnapshot E w0 =
     (let w = refreshP2PState E w0; node = Worker_node w in
      (\<lparr>Snap_Connected = Worker_connected w, Snap_NodeID = Node_ID node, Snap_NodeName = Node_Name node, Snap_Version = Node_Version node,
        Snap_Target = Node_Target node, Snap_RuntimeAdapters = Node_RuntimeAdapters node,
        Snap_Slots = map (\<lambda>s. \<lparr>SlotStatus_ID = Slot_ID s, SlotStatus_State = Slot_State s\<rparr>) (mvals (Worker_slots w)),
        Snap_CachedCount = int (length (Worker_cache w)), Snap_WarmCount = int (length (Worker_warm w)),
        Snap_WarmProfiles = map fst (Worker_warm w), Snap_P2P = Node_P2P node, Snap_ManagerURL = WCfg_ManagerURL (Worker_cfg w),
        Snap_LastError = Worker_lastError w, Snap_Paused = Worker_paused w, Snap_StartedAt = Worker_startedAt w, Snap_UpdatedAt = E_now E\<rparr>, w))"

record CachedArtifactInfo =
  CachedInfo_ID :: string
  CachedInfo_SizeBytes :: int
  CachedInfo_Profiles :: "string list"

definition fileSize :: "string \<Rightarrow> files \<Rightarrow> int" where
  "fileSize path files = (case map_of files path of None \<Rightarrow> 0 | Some c \<Rightarrow> int (length c))"

definition cacheUsers :: "string \<Rightarrow> Worker \<Rightarrow> string list" where
  "cacheUsers artifactID w =
     foldl (\<lambda>ps a. let pid = Profile_ID (Assign_Profile a) in
         if assignmentUsesArtifact a artifactID \<and> \<not> Contains ps pid then ps @ [pid] else ps)
       (map fst (filter (\<lambda>(_, p). profileUsesArtifact p artifactID) (Worker_warm w))) (mvals (Worker_assigns w))"

text \<open>The files of the cache directory, with those that the cache does not know.\<close>

definition cacheList :: "Worker \<Rightarrow> CachedArtifactInfo list" where
  "cacheList w =
     (let dir = Clean (WCfg_CacheDir (Worker_cfg w));
          known = map (\<lambda>(aid, path). \<lparr>CachedInfo_ID = aid, CachedInfo_SizeBytes = fileSize path (Worker_files w),
            CachedInfo_Profiles = cacheUsers aid w\<rparr>) (Worker_cache w);
          names = map (\<lambda>(path, _). (path, Base path)) (filter (\<lambda>(path, _). Dir path = dir) (Worker_files w));
          orphans = filter (\<lambda>(path, name). \<not> HasSuffix name ''.tmp'' \<and> HasPrefix name ''sha256_'') names;
          unknown = filter (\<lambda>i. \<not> mhas (Worker_cache w) (CachedInfo_ID i)) (map (\<lambda>(path, name).
            \<lparr>CachedInfo_ID = NormalizeSHA256 (drop 7 name), CachedInfo_SizeBytes = fileSize path (Worker_files w), CachedInfo_Profiles = []\<rparr>) orphans)
      in sort_by (\<lambda>a b. CachedInfo_ID a < CachedInfo_ID b) (known @ unknown))"

text \<open>The address of the status server: only the loopback interface is allowed.\<close>

definition statusHostAllowed :: "string \<Rightarrow> bool" where
  "statusHostAllowed host \<longleftrightarrow> host = ''127.0.0.1'' \<or> host = ''::1''"

definition statusRequest :: "worker_env \<Rightarrow> string option \<Rightarrow> string \<Rightarrow> string \<Rightarrow> string \<Rightarrow> Worker \<Rightarrow> int \<times> Worker" where
  "statusRequest E removeErr httpMethod path artifactID w =
     (if path = ''/status'' then (200, snd (StatusSnapshot E w))
      else if path = ''/healthz'' then (200, w)
      else if path = ''/pause'' then if httpMethod \<noteq> ''POST'' then (405, w) else (200, setPaused E True w)
      else if path = ''/resume'' then if httpMethod \<noteq> ''POST'' then (405, w) else (200, setPaused E False w)
      else if path = ''/cache'' then
        (if httpMethod = ''GET'' then (200, w)
         else if httpMethod = ''DELETE'' then cacheDelete E removeErr artifactID w else (405, w))
      else (404, w))"

end
