(* ===== verification/Worker_Frame.thy ===== *)
theory Worker_Frame
  imports Worker_Handlers
begin

section \<open>What the worker's operations leave alone\<close>

text \<open>
  One frame lemma per elementary operation of the worker: the fields that it does not touch.
  They are rewrite rules, so that the proofs about the handlers see through messages, refreshed
  states and saved files.
\<close>

lemma worker_enqueue_frame [simp]:
  "Worker_cfg (snd (worker_enqueue msg w)) = Worker_cfg w"
  "Worker_node (snd (worker_enqueue msg w)) = Worker_node w"
  "Worker_nodeToken (snd (worker_enqueue msg w)) = Worker_nodeToken w"
  "Worker_slots (snd (worker_enqueue msg w)) = Worker_slots w"
  "Worker_assigns (snd (worker_enqueue msg w)) = Worker_assigns w"
  "Worker_cache (snd (worker_enqueue msg w)) = Worker_cache w"
  "Worker_cacheState (snd (worker_enqueue msg w)) = Worker_cacheState w"
  "Worker_warm (snd (worker_enqueue msg w)) = Worker_warm w"
  "Worker_activeAssignments (snd (worker_enqueue msg w)) = Worker_activeAssignments w"
  "Worker_assignmentFailures (snd (worker_enqueue msg w)) = Worker_assignmentFailures w"
  "Worker_processed (snd (worker_enqueue msg w)) = Worker_processed w"
  "Worker_active (snd (worker_enqueue msg w)) = Worker_active w"
  "Worker_runtimes (snd (worker_enqueue msg w)) = Worker_runtimes w"
  "Worker_procs (snd (worker_enqueue msg w)) = Worker_procs w"
  "Worker_runtimeRestarts (snd (worker_enqueue msg w)) = Worker_runtimeRestarts w"
  "Worker_downloadTokens (snd (worker_enqueue msg w)) = Worker_downloadTokens w"
  "Worker_downloadPressure (snd (worker_enqueue msg w)) = Worker_downloadPressure w"
  "Worker_p2p (snd (worker_enqueue msg w)) = Worker_p2p w"
  "Worker_connected (snd (worker_enqueue msg w)) = Worker_connected w"
  "Worker_lastError (snd (worker_enqueue msg w)) = Worker_lastError w"
  "Worker_startedAt (snd (worker_enqueue msg w)) = Worker_startedAt w"
  "Worker_paused (snd (worker_enqueue msg w)) = Worker_paused w"
  "Worker_files (snd (worker_enqueue msg w)) = Worker_files w"
  "Worker_go (snd (worker_enqueue msg w)) = Worker_go w"
  by (simp_all add: worker_enqueue_def)

lemma worker_message_frame [simp]:
  "Worker_cfg (worker_message E t task attempt payload w) = Worker_cfg w"
  "Worker_node (worker_message E t task attempt payload w) = Worker_node w"
  "Worker_nodeToken (worker_message E t task attempt payload w) = Worker_nodeToken w"
  "Worker_slots (worker_message E t task attempt payload w) = Worker_slots w"
  "Worker_assigns (worker_message E t task attempt payload w) = Worker_assigns w"
  "Worker_cache (worker_message E t task attempt payload w) = Worker_cache w"
  "Worker_cacheState (worker_message E t task attempt payload w) = Worker_cacheState w"
  "Worker_warm (worker_message E t task attempt payload w) = Worker_warm w"
  "Worker_activeAssignments (worker_message E t task attempt payload w) = Worker_activeAssignments w"
  "Worker_assignmentFailures (worker_message E t task attempt payload w) = Worker_assignmentFailures w"
  "Worker_processed (worker_message E t task attempt payload w) = Worker_processed w"
  "Worker_active (worker_message E t task attempt payload w) = Worker_active w"
  "Worker_runtimes (worker_message E t task attempt payload w) = Worker_runtimes w"
  "Worker_procs (worker_message E t task attempt payload w) = Worker_procs w"
  "Worker_runtimeRestarts (worker_message E t task attempt payload w) = Worker_runtimeRestarts w"
  "Worker_downloadTokens (worker_message E t task attempt payload w) = Worker_downloadTokens w"
  "Worker_downloadPressure (worker_message E t task attempt payload w) = Worker_downloadPressure w"
  "Worker_p2p (worker_message E t task attempt payload w) = Worker_p2p w"
  "Worker_connected (worker_message E t task attempt payload w) = Worker_connected w"
  "Worker_lastError (worker_message E t task attempt payload w) = Worker_lastError w"
  "Worker_startedAt (worker_message E t task attempt payload w) = Worker_startedAt w"
  "Worker_paused (worker_message E t task attempt payload w) = Worker_paused w"
  "Worker_files (worker_message E t task attempt payload w) = Worker_files w"
  "Worker_go (worker_message E t task attempt payload w) = Worker_go w"
  by (simp_all add: worker_message_def)

lemma ackMessage_frame [simp]:
  "Worker_cfg (ackMessage msg task attempt w) = Worker_cfg w"
  "Worker_node (ackMessage msg task attempt w) = Worker_node w"
  "Worker_nodeToken (ackMessage msg task attempt w) = Worker_nodeToken w"
  "Worker_slots (ackMessage msg task attempt w) = Worker_slots w"
  "Worker_assigns (ackMessage msg task attempt w) = Worker_assigns w"
  "Worker_cache (ackMessage msg task attempt w) = Worker_cache w"
  "Worker_cacheState (ackMessage msg task attempt w) = Worker_cacheState w"
  "Worker_warm (ackMessage msg task attempt w) = Worker_warm w"
  "Worker_activeAssignments (ackMessage msg task attempt w) = Worker_activeAssignments w"
  "Worker_assignmentFailures (ackMessage msg task attempt w) = Worker_assignmentFailures w"
  "Worker_processed (ackMessage msg task attempt w) = Worker_processed w"
  "Worker_active (ackMessage msg task attempt w) = Worker_active w"
  "Worker_runtimes (ackMessage msg task attempt w) = Worker_runtimes w"
  "Worker_procs (ackMessage msg task attempt w) = Worker_procs w"
  "Worker_runtimeRestarts (ackMessage msg task attempt w) = Worker_runtimeRestarts w"
  "Worker_downloadTokens (ackMessage msg task attempt w) = Worker_downloadTokens w"
  "Worker_downloadPressure (ackMessage msg task attempt w) = Worker_downloadPressure w"
  "Worker_p2p (ackMessage msg task attempt w) = Worker_p2p w"
  "Worker_connected (ackMessage msg task attempt w) = Worker_connected w"
  "Worker_lastError (ackMessage msg task attempt w) = Worker_lastError w"
  "Worker_startedAt (ackMessage msg task attempt w) = Worker_startedAt w"
  "Worker_paused (ackMessage msg task attempt w) = Worker_paused w"
  "Worker_files (ackMessage msg task attempt w) = Worker_files w"
  "Worker_go (ackMessage msg task attempt w) = Worker_go w"
  by (simp_all add: ackMessage_def)

lemma sendArtifactState_frame [simp]:
  "Worker_cfg (sendArtifactState E artifact st err w) = Worker_cfg w"
  "Worker_node (sendArtifactState E artifact st err w) = Worker_node w"
  "Worker_nodeToken (sendArtifactState E artifact st err w) = Worker_nodeToken w"
  "Worker_slots (sendArtifactState E artifact st err w) = Worker_slots w"
  "Worker_assigns (sendArtifactState E artifact st err w) = Worker_assigns w"
  "Worker_cache (sendArtifactState E artifact st err w) = Worker_cache w"
  "Worker_cacheState (sendArtifactState E artifact st err w) = Worker_cacheState w"
  "Worker_warm (sendArtifactState E artifact st err w) = Worker_warm w"
  "Worker_activeAssignments (sendArtifactState E artifact st err w) = Worker_activeAssignments w"
  "Worker_assignmentFailures (sendArtifactState E artifact st err w) = Worker_assignmentFailures w"
  "Worker_processed (sendArtifactState E artifact st err w) = Worker_processed w"
  "Worker_active (sendArtifactState E artifact st err w) = Worker_active w"
  "Worker_runtimes (sendArtifactState E artifact st err w) = Worker_runtimes w"
  "Worker_procs (sendArtifactState E artifact st err w) = Worker_procs w"
  "Worker_runtimeRestarts (sendArtifactState E artifact st err w) = Worker_runtimeRestarts w"
  "Worker_downloadTokens (sendArtifactState E artifact st err w) = Worker_downloadTokens w"
  "Worker_downloadPressure (sendArtifactState E artifact st err w) = Worker_downloadPressure w"
  "Worker_p2p (sendArtifactState E artifact st err w) = Worker_p2p w"
  "Worker_connected (sendArtifactState E artifact st err w) = Worker_connected w"
  "Worker_lastError (sendArtifactState E artifact st err w) = Worker_lastError w"
  "Worker_startedAt (sendArtifactState E artifact st err w) = Worker_startedAt w"
  "Worker_paused (sendArtifactState E artifact st err w) = Worker_paused w"
  "Worker_files (sendArtifactState E artifact st err w) = Worker_files w"
  "Worker_go (sendArtifactState E artifact st err w) = Worker_go w"
  by (simp_all add: sendArtifactState_def)

lemma sendSlotState_frame [simp]:
  "Worker_cfg (sendSlotState E slot w) = Worker_cfg w"
  "Worker_node (sendSlotState E slot w) = Worker_node w"
  "Worker_nodeToken (sendSlotState E slot w) = Worker_nodeToken w"
  "Worker_slots (sendSlotState E slot w) = Worker_slots w"
  "Worker_assigns (sendSlotState E slot w) = Worker_assigns w"
  "Worker_cache (sendSlotState E slot w) = Worker_cache w"
  "Worker_cacheState (sendSlotState E slot w) = Worker_cacheState w"
  "Worker_warm (sendSlotState E slot w) = Worker_warm w"
  "Worker_activeAssignments (sendSlotState E slot w) = Worker_activeAssignments w"
  "Worker_assignmentFailures (sendSlotState E slot w) = Worker_assignmentFailures w"
  "Worker_processed (sendSlotState E slot w) = Worker_processed w"
  "Worker_active (sendSlotState E slot w) = Worker_active w"
  "Worker_runtimes (sendSlotState E slot w) = Worker_runtimes w"
  "Worker_procs (sendSlotState E slot w) = Worker_procs w"
  "Worker_runtimeRestarts (sendSlotState E slot w) = Worker_runtimeRestarts w"
  "Worker_downloadTokens (sendSlotState E slot w) = Worker_downloadTokens w"
  "Worker_downloadPressure (sendSlotState E slot w) = Worker_downloadPressure w"
  "Worker_p2p (sendSlotState E slot w) = Worker_p2p w"
  "Worker_connected (sendSlotState E slot w) = Worker_connected w"
  "Worker_lastError (sendSlotState E slot w) = Worker_lastError w"
  "Worker_startedAt (sendSlotState E slot w) = Worker_startedAt w"
  "Worker_paused (sendSlotState E slot w) = Worker_paused w"
  "Worker_files (sendSlotState E slot w) = Worker_files w"
  "Worker_go (sendSlotState E slot w) = Worker_go w"
  by (simp_all add: sendSlotState_def Let_def)

lemma sendReport_frame [simp]:
  "Worker_cfg (sendReport E payload start phase reason status canRetry stats w) = Worker_cfg w"
  "Worker_node (sendReport E payload start phase reason status canRetry stats w) = Worker_node w"
  "Worker_nodeToken (sendReport E payload start phase reason status canRetry stats w) = Worker_nodeToken w"
  "Worker_slots (sendReport E payload start phase reason status canRetry stats w) = Worker_slots w"
  "Worker_assigns (sendReport E payload start phase reason status canRetry stats w) = Worker_assigns w"
  "Worker_cache (sendReport E payload start phase reason status canRetry stats w) = Worker_cache w"
  "Worker_cacheState (sendReport E payload start phase reason status canRetry stats w) = Worker_cacheState w"
  "Worker_warm (sendReport E payload start phase reason status canRetry stats w) = Worker_warm w"
  "Worker_activeAssignments (sendReport E payload start phase reason status canRetry stats w) = Worker_activeAssignments w"
  "Worker_assignmentFailures (sendReport E payload start phase reason status canRetry stats w) = Worker_assignmentFailures w"
  "Worker_processed (sendReport E payload start phase reason status canRetry stats w) = Worker_processed w"
  "Worker_active (sendReport E payload start phase reason status canRetry stats w) = Worker_active w"
  "Worker_runtimes (sendReport E payload start phase reason status canRetry stats w) = Worker_runtimes w"
  "Worker_procs (sendReport E payload start phase reason status canRetry stats w) = Worker_procs w"
  "Worker_runtimeRestarts (sendReport E payload start phase reason status canRetry stats w) = Worker_runtimeRestarts w"
  "Worker_downloadTokens (sendReport E payload start phase reason status canRetry stats w) = Worker_downloadTokens w"
  "Worker_downloadPressure (sendReport E payload start phase reason status canRetry stats w) = Worker_downloadPressure w"
  "Worker_p2p (sendReport E payload start phase reason status canRetry stats w) = Worker_p2p w"
  "Worker_connected (sendReport E payload start phase reason status canRetry stats w) = Worker_connected w"
  "Worker_lastError (sendReport E payload start phase reason status canRetry stats w) = Worker_lastError w"
  "Worker_startedAt (sendReport E payload start phase reason status canRetry stats w) = Worker_startedAt w"
  "Worker_paused (sendReport E payload start phase reason status canRetry stats w) = Worker_paused w"
  "Worker_files (sendReport E payload start phase reason status canRetry stats w) = Worker_files w"
  "Worker_go (sendReport E payload start phase reason status canRetry stats w) = Worker_go w"
  by (simp_all add: sendReport_def)

lemma failExecution_frame [simp]:
  "Worker_cfg (failExecution E payload start phase reason canRetry first n firstAt w) = Worker_cfg w"
  "Worker_node (failExecution E payload start phase reason canRetry first n firstAt w) = Worker_node w"
  "Worker_nodeToken (failExecution E payload start phase reason canRetry first n firstAt w) = Worker_nodeToken w"
  "Worker_slots (failExecution E payload start phase reason canRetry first n firstAt w) = Worker_slots w"
  "Worker_assigns (failExecution E payload start phase reason canRetry first n firstAt w) = Worker_assigns w"
  "Worker_cache (failExecution E payload start phase reason canRetry first n firstAt w) = Worker_cache w"
  "Worker_cacheState (failExecution E payload start phase reason canRetry first n firstAt w) = Worker_cacheState w"
  "Worker_warm (failExecution E payload start phase reason canRetry first n firstAt w) = Worker_warm w"
  "Worker_activeAssignments (failExecution E payload start phase reason canRetry first n firstAt w) = Worker_activeAssignments w"
  "Worker_assignmentFailures (failExecution E payload start phase reason canRetry first n firstAt w) = Worker_assignmentFailures w"
  "Worker_processed (failExecution E payload start phase reason canRetry first n firstAt w) = Worker_processed w"
  "Worker_active (failExecution E payload start phase reason canRetry first n firstAt w) = Worker_active w"
  "Worker_runtimes (failExecution E payload start phase reason canRetry first n firstAt w) = Worker_runtimes w"
  "Worker_procs (failExecution E payload start phase reason canRetry first n firstAt w) = Worker_procs w"
  "Worker_runtimeRestarts (failExecution E payload start phase reason canRetry first n firstAt w) = Worker_runtimeRestarts w"
  "Worker_downloadTokens (failExecution E payload start phase reason canRetry first n firstAt w) = Worker_downloadTokens w"
  "Worker_downloadPressure (failExecution E payload start phase reason canRetry first n firstAt w) = Worker_downloadPressure w"
  "Worker_p2p (failExecution E payload start phase reason canRetry first n firstAt w) = Worker_p2p w"
  "Worker_connected (failExecution E payload start phase reason canRetry first n firstAt w) = Worker_connected w"
  "Worker_lastError (failExecution E payload start phase reason canRetry first n firstAt w) = Worker_lastError w"
  "Worker_startedAt (failExecution E payload start phase reason canRetry first n firstAt w) = Worker_startedAt w"
  "Worker_paused (failExecution E payload start phase reason canRetry first n firstAt w) = Worker_paused w"
  "Worker_files (failExecution E payload start phase reason canRetry first n firstAt w) = Worker_files w"
  "Worker_go (failExecution E payload start phase reason canRetry first n firstAt w) = Worker_go w"
  by (simp_all add: failExecution_def)

lemma sendTaskToken_frame [simp]:
  "Worker_cfg (sendTaskToken E payload tok i w) = Worker_cfg w"
  "Worker_node (sendTaskToken E payload tok i w) = Worker_node w"
  "Worker_nodeToken (sendTaskToken E payload tok i w) = Worker_nodeToken w"
  "Worker_slots (sendTaskToken E payload tok i w) = Worker_slots w"
  "Worker_assigns (sendTaskToken E payload tok i w) = Worker_assigns w"
  "Worker_cache (sendTaskToken E payload tok i w) = Worker_cache w"
  "Worker_cacheState (sendTaskToken E payload tok i w) = Worker_cacheState w"
  "Worker_warm (sendTaskToken E payload tok i w) = Worker_warm w"
  "Worker_activeAssignments (sendTaskToken E payload tok i w) = Worker_activeAssignments w"
  "Worker_assignmentFailures (sendTaskToken E payload tok i w) = Worker_assignmentFailures w"
  "Worker_processed (sendTaskToken E payload tok i w) = Worker_processed w"
  "Worker_active (sendTaskToken E payload tok i w) = Worker_active w"
  "Worker_runtimes (sendTaskToken E payload tok i w) = Worker_runtimes w"
  "Worker_procs (sendTaskToken E payload tok i w) = Worker_procs w"
  "Worker_runtimeRestarts (sendTaskToken E payload tok i w) = Worker_runtimeRestarts w"
  "Worker_downloadTokens (sendTaskToken E payload tok i w) = Worker_downloadTokens w"
  "Worker_downloadPressure (sendTaskToken E payload tok i w) = Worker_downloadPressure w"
  "Worker_p2p (sendTaskToken E payload tok i w) = Worker_p2p w"
  "Worker_connected (sendTaskToken E payload tok i w) = Worker_connected w"
  "Worker_lastError (sendTaskToken E payload tok i w) = Worker_lastError w"
  "Worker_startedAt (sendTaskToken E payload tok i w) = Worker_startedAt w"
  "Worker_paused (sendTaskToken E payload tok i w) = Worker_paused w"
  "Worker_files (sendTaskToken E payload tok i w) = Worker_files w"
  "Worker_go (sendTaskToken E payload tok i w) = Worker_go w"
  by (simp_all add: sendTaskToken_def)

lemma renewLease_frame [simp]:
  "Worker_cfg (renewLease E task attempt w) = Worker_cfg w"
  "Worker_node (renewLease E task attempt w) = Worker_node w"
  "Worker_nodeToken (renewLease E task attempt w) = Worker_nodeToken w"
  "Worker_slots (renewLease E task attempt w) = Worker_slots w"
  "Worker_assigns (renewLease E task attempt w) = Worker_assigns w"
  "Worker_cache (renewLease E task attempt w) = Worker_cache w"
  "Worker_cacheState (renewLease E task attempt w) = Worker_cacheState w"
  "Worker_warm (renewLease E task attempt w) = Worker_warm w"
  "Worker_activeAssignments (renewLease E task attempt w) = Worker_activeAssignments w"
  "Worker_assignmentFailures (renewLease E task attempt w) = Worker_assignmentFailures w"
  "Worker_processed (renewLease E task attempt w) = Worker_processed w"
  "Worker_active (renewLease E task attempt w) = Worker_active w"
  "Worker_runtimes (renewLease E task attempt w) = Worker_runtimes w"
  "Worker_procs (renewLease E task attempt w) = Worker_procs w"
  "Worker_runtimeRestarts (renewLease E task attempt w) = Worker_runtimeRestarts w"
  "Worker_downloadTokens (renewLease E task attempt w) = Worker_downloadTokens w"
  "Worker_downloadPressure (renewLease E task attempt w) = Worker_downloadPressure w"
  "Worker_p2p (renewLease E task attempt w) = Worker_p2p w"
  "Worker_connected (renewLease E task attempt w) = Worker_connected w"
  "Worker_lastError (renewLease E task attempt w) = Worker_lastError w"
  "Worker_startedAt (renewLease E task attempt w) = Worker_startedAt w"
  "Worker_paused (renewLease E task attempt w) = Worker_paused w"
  "Worker_files (renewLease E task attempt w) = Worker_files w"
  "Worker_go (renewLease E task attempt w) = Worker_go w"
  by (simp_all add: renewLease_def)

lemma heartbeat_frame [simp]:
  "Worker_cfg (heartbeat E w) = Worker_cfg w"
  "Worker_node (heartbeat E w) = Worker_node w"
  "Worker_nodeToken (heartbeat E w) = Worker_nodeToken w"
  "Worker_slots (heartbeat E w) = Worker_slots w"
  "Worker_assigns (heartbeat E w) = Worker_assigns w"
  "Worker_cache (heartbeat E w) = Worker_cache w"
  "Worker_cacheState (heartbeat E w) = Worker_cacheState w"
  "Worker_warm (heartbeat E w) = Worker_warm w"
  "Worker_activeAssignments (heartbeat E w) = Worker_activeAssignments w"
  "Worker_assignmentFailures (heartbeat E w) = Worker_assignmentFailures w"
  "Worker_processed (heartbeat E w) = Worker_processed w"
  "Worker_active (heartbeat E w) = Worker_active w"
  "Worker_runtimes (heartbeat E w) = Worker_runtimes w"
  "Worker_procs (heartbeat E w) = Worker_procs w"
  "Worker_runtimeRestarts (heartbeat E w) = Worker_runtimeRestarts w"
  "Worker_downloadTokens (heartbeat E w) = Worker_downloadTokens w"
  "Worker_downloadPressure (heartbeat E w) = Worker_downloadPressure w"
  "Worker_p2p (heartbeat E w) = Worker_p2p w"
  "Worker_connected (heartbeat E w) = Worker_connected w"
  "Worker_lastError (heartbeat E w) = Worker_lastError w"
  "Worker_startedAt (heartbeat E w) = Worker_startedAt w"
  "Worker_paused (heartbeat E w) = Worker_paused w"
  "Worker_files (heartbeat E w) = Worker_files w"
  "Worker_go (heartbeat E w) = Worker_go w"
  by (simp_all add: heartbeat_def)

lemma sendUpdateTelemetry_frame [simp]:
  "Worker_cfg (sendUpdateTelemetry E uid status detail w) = Worker_cfg w"
  "Worker_node (sendUpdateTelemetry E uid status detail w) = Worker_node w"
  "Worker_nodeToken (sendUpdateTelemetry E uid status detail w) = Worker_nodeToken w"
  "Worker_slots (sendUpdateTelemetry E uid status detail w) = Worker_slots w"
  "Worker_assigns (sendUpdateTelemetry E uid status detail w) = Worker_assigns w"
  "Worker_cache (sendUpdateTelemetry E uid status detail w) = Worker_cache w"
  "Worker_cacheState (sendUpdateTelemetry E uid status detail w) = Worker_cacheState w"
  "Worker_warm (sendUpdateTelemetry E uid status detail w) = Worker_warm w"
  "Worker_activeAssignments (sendUpdateTelemetry E uid status detail w) = Worker_activeAssignments w"
  "Worker_assignmentFailures (sendUpdateTelemetry E uid status detail w) = Worker_assignmentFailures w"
  "Worker_processed (sendUpdateTelemetry E uid status detail w) = Worker_processed w"
  "Worker_active (sendUpdateTelemetry E uid status detail w) = Worker_active w"
  "Worker_runtimes (sendUpdateTelemetry E uid status detail w) = Worker_runtimes w"
  "Worker_procs (sendUpdateTelemetry E uid status detail w) = Worker_procs w"
  "Worker_runtimeRestarts (sendUpdateTelemetry E uid status detail w) = Worker_runtimeRestarts w"
  "Worker_downloadTokens (sendUpdateTelemetry E uid status detail w) = Worker_downloadTokens w"
  "Worker_downloadPressure (sendUpdateTelemetry E uid status detail w) = Worker_downloadPressure w"
  "Worker_p2p (sendUpdateTelemetry E uid status detail w) = Worker_p2p w"
  "Worker_connected (sendUpdateTelemetry E uid status detail w) = Worker_connected w"
  "Worker_lastError (sendUpdateTelemetry E uid status detail w) = Worker_lastError w"
  "Worker_startedAt (sendUpdateTelemetry E uid status detail w) = Worker_startedAt w"
  "Worker_paused (sendUpdateTelemetry E uid status detail w) = Worker_paused w"
  "Worker_files (sendUpdateTelemetry E uid status detail w) = Worker_files w"
  "Worker_go (sendUpdateTelemetry E uid status detail w) = Worker_go w"
  by (simp_all add: sendUpdateTelemetry_def)

lemma refreshP2PState_frame [simp]:
  "Worker_cfg (refreshP2PState E w) = Worker_cfg w"
  "Worker_nodeToken (refreshP2PState E w) = Worker_nodeToken w"
  "Worker_slots (refreshP2PState E w) = Worker_slots w"
  "Worker_assigns (refreshP2PState E w) = Worker_assigns w"
  "Worker_cache (refreshP2PState E w) = Worker_cache w"
  "Worker_cacheState (refreshP2PState E w) = Worker_cacheState w"
  "Worker_warm (refreshP2PState E w) = Worker_warm w"
  "Worker_activeAssignments (refreshP2PState E w) = Worker_activeAssignments w"
  "Worker_assignmentFailures (refreshP2PState E w) = Worker_assignmentFailures w"
  "Worker_processed (refreshP2PState E w) = Worker_processed w"
  "Worker_active (refreshP2PState E w) = Worker_active w"
  "Worker_runtimes (refreshP2PState E w) = Worker_runtimes w"
  "Worker_procs (refreshP2PState E w) = Worker_procs w"
  "Worker_runtimeRestarts (refreshP2PState E w) = Worker_runtimeRestarts w"
  "Worker_downloadTokens (refreshP2PState E w) = Worker_downloadTokens w"
  "Worker_downloadPressure (refreshP2PState E w) = Worker_downloadPressure w"
  "Worker_p2p (refreshP2PState E w) = Worker_p2p w"
  "Worker_send (refreshP2PState E w) = Worker_send w"
  "Worker_connected (refreshP2PState E w) = Worker_connected w"
  "Worker_lastError (refreshP2PState E w) = Worker_lastError w"
  "Worker_startedAt (refreshP2PState E w) = Worker_startedAt w"
  "Worker_paused (refreshP2PState E w) = Worker_paused w"
  "Worker_files (refreshP2PState E w) = Worker_files w"
  "Worker_go (refreshP2PState E w) = Worker_go w"
  by (simp_all add: refreshP2PState_def split: option.split)

lemma sendHello_frame [simp]:
  "Worker_cfg (sendHello E w) = Worker_cfg w"
  "Worker_nodeToken (sendHello E w) = Worker_nodeToken w"
  "Worker_slots (sendHello E w) = Worker_slots w"
  "Worker_assigns (sendHello E w) = Worker_assigns w"
  "Worker_cache (sendHello E w) = Worker_cache w"
  "Worker_cacheState (sendHello E w) = Worker_cacheState w"
  "Worker_warm (sendHello E w) = Worker_warm w"
  "Worker_activeAssignments (sendHello E w) = Worker_activeAssignments w"
  "Worker_assignmentFailures (sendHello E w) = Worker_assignmentFailures w"
  "Worker_processed (sendHello E w) = Worker_processed w"
  "Worker_active (sendHello E w) = Worker_active w"
  "Worker_runtimes (sendHello E w) = Worker_runtimes w"
  "Worker_procs (sendHello E w) = Worker_procs w"
  "Worker_runtimeRestarts (sendHello E w) = Worker_runtimeRestarts w"
  "Worker_downloadTokens (sendHello E w) = Worker_downloadTokens w"
  "Worker_downloadPressure (sendHello E w) = Worker_downloadPressure w"
  "Worker_p2p (sendHello E w) = Worker_p2p w"
  "Worker_connected (sendHello E w) = Worker_connected w"
  "Worker_lastError (sendHello E w) = Worker_lastError w"
  "Worker_startedAt (sendHello E w) = Worker_startedAt w"
  "Worker_paused (sendHello E w) = Worker_paused w"
  "Worker_files (sendHello E w) = Worker_files w"
  "Worker_go (sendHello E w) = Worker_go w"
  by (simp_all add: sendHello_def Let_def)

lemma sendFullState_frame [simp]:
  "Worker_cfg (sendFullState E w) = Worker_cfg w"
  "Worker_nodeToken (sendFullState E w) = Worker_nodeToken w"
  "Worker_slots (sendFullState E w) = Worker_slots w"
  "Worker_assigns (sendFullState E w) = Worker_assigns w"
  "Worker_cache (sendFullState E w) = Worker_cache w"
  "Worker_cacheState (sendFullState E w) = Worker_cacheState w"
  "Worker_warm (sendFullState E w) = Worker_warm w"
  "Worker_activeAssignments (sendFullState E w) = Worker_activeAssignments w"
  "Worker_assignmentFailures (sendFullState E w) = Worker_assignmentFailures w"
  "Worker_processed (sendFullState E w) = Worker_processed w"
  "Worker_active (sendFullState E w) = Worker_active w"
  "Worker_runtimes (sendFullState E w) = Worker_runtimes w"
  "Worker_procs (sendFullState E w) = Worker_procs w"
  "Worker_runtimeRestarts (sendFullState E w) = Worker_runtimeRestarts w"
  "Worker_downloadTokens (sendFullState E w) = Worker_downloadTokens w"
  "Worker_downloadPressure (sendFullState E w) = Worker_downloadPressure w"
  "Worker_p2p (sendFullState E w) = Worker_p2p w"
  "Worker_connected (sendFullState E w) = Worker_connected w"
  "Worker_lastError (sendFullState E w) = Worker_lastError w"
  "Worker_startedAt (sendFullState E w) = Worker_startedAt w"
  "Worker_paused (sendFullState E w) = Worker_paused w"
  "Worker_files (sendFullState E w) = Worker_files w"
  "Worker_go (sendFullState E w) = Worker_go w"
  by (simp_all add: sendFullState_def Let_def)

lemma withP2P_frame [simp]:
  "Worker_cfg (withP2P f w) = Worker_cfg w"
  "Worker_node (withP2P f w) = Worker_node w"
  "Worker_nodeToken (withP2P f w) = Worker_nodeToken w"
  "Worker_slots (withP2P f w) = Worker_slots w"
  "Worker_assigns (withP2P f w) = Worker_assigns w"
  "Worker_cache (withP2P f w) = Worker_cache w"
  "Worker_cacheState (withP2P f w) = Worker_cacheState w"
  "Worker_warm (withP2P f w) = Worker_warm w"
  "Worker_activeAssignments (withP2P f w) = Worker_activeAssignments w"
  "Worker_assignmentFailures (withP2P f w) = Worker_assignmentFailures w"
  "Worker_processed (withP2P f w) = Worker_processed w"
  "Worker_active (withP2P f w) = Worker_active w"
  "Worker_runtimes (withP2P f w) = Worker_runtimes w"
  "Worker_procs (withP2P f w) = Worker_procs w"
  "Worker_runtimeRestarts (withP2P f w) = Worker_runtimeRestarts w"
  "Worker_downloadTokens (withP2P f w) = Worker_downloadTokens w"
  "Worker_downloadPressure (withP2P f w) = Worker_downloadPressure w"
  "Worker_send (withP2P f w) = Worker_send w"
  "Worker_connected (withP2P f w) = Worker_connected w"
  "Worker_lastError (withP2P f w) = Worker_lastError w"
  "Worker_startedAt (withP2P f w) = Worker_startedAt w"
  "Worker_paused (withP2P f w) = Worker_paused w"
  "Worker_files (withP2P f w) = Worker_files w"
  "Worker_go (withP2P f w) = Worker_go w"
  by (simp_all add: withP2P_def)

lemma seedCachedArtifact_frame [simp]:
  "Worker_cfg (snd (seedCachedArtifact E artifact path w)) = Worker_cfg w"
  "Worker_nodeToken (snd (seedCachedArtifact E artifact path w)) = Worker_nodeToken w"
  "Worker_slots (snd (seedCachedArtifact E artifact path w)) = Worker_slots w"
  "Worker_assigns (snd (seedCachedArtifact E artifact path w)) = Worker_assigns w"
  "Worker_cache (snd (seedCachedArtifact E artifact path w)) = Worker_cache w"
  "Worker_cacheState (snd (seedCachedArtifact E artifact path w)) = Worker_cacheState w"
  "Worker_warm (snd (seedCachedArtifact E artifact path w)) = Worker_warm w"
  "Worker_activeAssignments (snd (seedCachedArtifact E artifact path w)) = Worker_activeAssignments w"
  "Worker_assignmentFailures (snd (seedCachedArtifact E artifact path w)) = Worker_assignmentFailures w"
  "Worker_processed (snd (seedCachedArtifact E artifact path w)) = Worker_processed w"
  "Worker_active (snd (seedCachedArtifact E artifact path w)) = Worker_active w"
  "Worker_runtimes (snd (seedCachedArtifact E artifact path w)) = Worker_runtimes w"
  "Worker_procs (snd (seedCachedArtifact E artifact path w)) = Worker_procs w"
  "Worker_runtimeRestarts (snd (seedCachedArtifact E artifact path w)) = Worker_runtimeRestarts w"
  "Worker_downloadTokens (snd (seedCachedArtifact E artifact path w)) = Worker_downloadTokens w"
  "Worker_downloadPressure (snd (seedCachedArtifact E artifact path w)) = Worker_downloadPressure w"
  "Worker_send (snd (seedCachedArtifact E artifact path w)) = Worker_send w"
  "Worker_connected (snd (seedCachedArtifact E artifact path w)) = Worker_connected w"
  "Worker_lastError (snd (seedCachedArtifact E artifact path w)) = Worker_lastError w"
  "Worker_startedAt (snd (seedCachedArtifact E artifact path w)) = Worker_startedAt w"
  "Worker_paused (snd (seedCachedArtifact E artifact path w)) = Worker_paused w"
  "Worker_files (snd (seedCachedArtifact E artifact path w)) = Worker_files w"
  "Worker_go (snd (seedCachedArtifact E artifact path w)) = Worker_go w"
  by (simp_all add: seedCachedArtifact_def split: option.split prod.split)

lemma setSlotState_frame [simp]:
  "Worker_cfg (setSlotState E sid st pid reason w) = Worker_cfg w"
  "Worker_node (setSlotState E sid st pid reason w) = Worker_node w"
  "Worker_nodeToken (setSlotState E sid st pid reason w) = Worker_nodeToken w"
  "Worker_assigns (setSlotState E sid st pid reason w) = Worker_assigns w"
  "Worker_cache (setSlotState E sid st pid reason w) = Worker_cache w"
  "Worker_cacheState (setSlotState E sid st pid reason w) = Worker_cacheState w"
  "Worker_warm (setSlotState E sid st pid reason w) = Worker_warm w"
  "Worker_activeAssignments (setSlotState E sid st pid reason w) = Worker_activeAssignments w"
  "Worker_assignmentFailures (setSlotState E sid st pid reason w) = Worker_assignmentFailures w"
  "Worker_processed (setSlotState E sid st pid reason w) = Worker_processed w"
  "Worker_active (setSlotState E sid st pid reason w) = Worker_active w"
  "Worker_runtimes (setSlotState E sid st pid reason w) = Worker_runtimes w"
  "Worker_procs (setSlotState E sid st pid reason w) = Worker_procs w"
  "Worker_runtimeRestarts (setSlotState E sid st pid reason w) = Worker_runtimeRestarts w"
  "Worker_downloadTokens (setSlotState E sid st pid reason w) = Worker_downloadTokens w"
  "Worker_downloadPressure (setSlotState E sid st pid reason w) = Worker_downloadPressure w"
  "Worker_p2p (setSlotState E sid st pid reason w) = Worker_p2p w"
  "Worker_connected (setSlotState E sid st pid reason w) = Worker_connected w"
  "Worker_lastError (setSlotState E sid st pid reason w) = Worker_lastError w"
  "Worker_startedAt (setSlotState E sid st pid reason w) = Worker_startedAt w"
  "Worker_paused (setSlotState E sid st pid reason w) = Worker_paused w"
  "Worker_files (setSlotState E sid st pid reason w) = Worker_files w"
  "Worker_go (setSlotState E sid st pid reason w) = Worker_go w"
  by (simp_all add: setSlotState_def Let_def)

lemma setSlotServing_frame [simp]:
  "Worker_cfg (setSlotServing E sid pid task w) = Worker_cfg w"
  "Worker_node (setSlotServing E sid pid task w) = Worker_node w"
  "Worker_nodeToken (setSlotServing E sid pid task w) = Worker_nodeToken w"
  "Worker_assigns (setSlotServing E sid pid task w) = Worker_assigns w"
  "Worker_cache (setSlotServing E sid pid task w) = Worker_cache w"
  "Worker_cacheState (setSlotServing E sid pid task w) = Worker_cacheState w"
  "Worker_warm (setSlotServing E sid pid task w) = Worker_warm w"
  "Worker_activeAssignments (setSlotServing E sid pid task w) = Worker_activeAssignments w"
  "Worker_assignmentFailures (setSlotServing E sid pid task w) = Worker_assignmentFailures w"
  "Worker_processed (setSlotServing E sid pid task w) = Worker_processed w"
  "Worker_active (setSlotServing E sid pid task w) = Worker_active w"
  "Worker_runtimes (setSlotServing E sid pid task w) = Worker_runtimes w"
  "Worker_procs (setSlotServing E sid pid task w) = Worker_procs w"
  "Worker_runtimeRestarts (setSlotServing E sid pid task w) = Worker_runtimeRestarts w"
  "Worker_downloadTokens (setSlotServing E sid pid task w) = Worker_downloadTokens w"
  "Worker_downloadPressure (setSlotServing E sid pid task w) = Worker_downloadPressure w"
  "Worker_p2p (setSlotServing E sid pid task w) = Worker_p2p w"
  "Worker_connected (setSlotServing E sid pid task w) = Worker_connected w"
  "Worker_lastError (setSlotServing E sid pid task w) = Worker_lastError w"
  "Worker_startedAt (setSlotServing E sid pid task w) = Worker_startedAt w"
  "Worker_paused (setSlotServing E sid pid task w) = Worker_paused w"
  "Worker_files (setSlotServing E sid pid task w) = Worker_files w"
  "Worker_go (setSlotServing E sid pid task w) = Worker_go w"
  by (simp_all add: setSlotServing_def Let_def)

lemma setAnySlotState_frame [simp]:
  "Worker_cfg (setAnySlotState E st pid reason w) = Worker_cfg w"
  "Worker_node (setAnySlotState E st pid reason w) = Worker_node w"
  "Worker_nodeToken (setAnySlotState E st pid reason w) = Worker_nodeToken w"
  "Worker_assigns (setAnySlotState E st pid reason w) = Worker_assigns w"
  "Worker_cache (setAnySlotState E st pid reason w) = Worker_cache w"
  "Worker_cacheState (setAnySlotState E st pid reason w) = Worker_cacheState w"
  "Worker_warm (setAnySlotState E st pid reason w) = Worker_warm w"
  "Worker_activeAssignments (setAnySlotState E st pid reason w) = Worker_activeAssignments w"
  "Worker_assignmentFailures (setAnySlotState E st pid reason w) = Worker_assignmentFailures w"
  "Worker_processed (setAnySlotState E st pid reason w) = Worker_processed w"
  "Worker_active (setAnySlotState E st pid reason w) = Worker_active w"
  "Worker_runtimes (setAnySlotState E st pid reason w) = Worker_runtimes w"
  "Worker_procs (setAnySlotState E st pid reason w) = Worker_procs w"
  "Worker_runtimeRestarts (setAnySlotState E st pid reason w) = Worker_runtimeRestarts w"
  "Worker_downloadTokens (setAnySlotState E st pid reason w) = Worker_downloadTokens w"
  "Worker_downloadPressure (setAnySlotState E st pid reason w) = Worker_downloadPressure w"
  "Worker_p2p (setAnySlotState E st pid reason w) = Worker_p2p w"
  "Worker_connected (setAnySlotState E st pid reason w) = Worker_connected w"
  "Worker_lastError (setAnySlotState E st pid reason w) = Worker_lastError w"
  "Worker_startedAt (setAnySlotState E st pid reason w) = Worker_startedAt w"
  "Worker_paused (setAnySlotState E st pid reason w) = Worker_paused w"
  "Worker_files (setAnySlotState E st pid reason w) = Worker_files w"
  "Worker_go (setAnySlotState E st pid reason w) = Worker_go w"
  by (simp_all add: setAnySlotState_def split: list.split)

lemma removeFile_frame [simp]:
  "Worker_cfg (removeFile path w) = Worker_cfg w"
  "Worker_node (removeFile path w) = Worker_node w"
  "Worker_nodeToken (removeFile path w) = Worker_nodeToken w"
  "Worker_slots (removeFile path w) = Worker_slots w"
  "Worker_assigns (removeFile path w) = Worker_assigns w"
  "Worker_cache (removeFile path w) = Worker_cache w"
  "Worker_cacheState (removeFile path w) = Worker_cacheState w"
  "Worker_warm (removeFile path w) = Worker_warm w"
  "Worker_activeAssignments (removeFile path w) = Worker_activeAssignments w"
  "Worker_assignmentFailures (removeFile path w) = Worker_assignmentFailures w"
  "Worker_processed (removeFile path w) = Worker_processed w"
  "Worker_active (removeFile path w) = Worker_active w"
  "Worker_runtimes (removeFile path w) = Worker_runtimes w"
  "Worker_procs (removeFile path w) = Worker_procs w"
  "Worker_runtimeRestarts (removeFile path w) = Worker_runtimeRestarts w"
  "Worker_downloadTokens (removeFile path w) = Worker_downloadTokens w"
  "Worker_downloadPressure (removeFile path w) = Worker_downloadPressure w"
  "Worker_p2p (removeFile path w) = Worker_p2p w"
  "Worker_send (removeFile path w) = Worker_send w"
  "Worker_connected (removeFile path w) = Worker_connected w"
  "Worker_lastError (removeFile path w) = Worker_lastError w"
  "Worker_startedAt (removeFile path w) = Worker_startedAt w"
  "Worker_paused (removeFile path w) = Worker_paused w"
  "Worker_go (removeFile path w) = Worker_go w"
  by (simp_all add: removeFile_def)

lemma saveState_frame [simp]:
  "Worker_cfg (snd (saveState E w)) = Worker_cfg w"
  "Worker_node (snd (saveState E w)) = Worker_node w"
  "Worker_nodeToken (snd (saveState E w)) = Worker_nodeToken w"
  "Worker_slots (snd (saveState E w)) = Worker_slots w"
  "Worker_assigns (snd (saveState E w)) = Worker_assigns w"
  "Worker_cache (snd (saveState E w)) = Worker_cache w"
  "Worker_cacheState (snd (saveState E w)) = Worker_cacheState w"
  "Worker_warm (snd (saveState E w)) = Worker_warm w"
  "Worker_activeAssignments (snd (saveState E w)) = Worker_activeAssignments w"
  "Worker_assignmentFailures (snd (saveState E w)) = Worker_assignmentFailures w"
  "Worker_processed (snd (saveState E w)) = Worker_processed w"
  "Worker_active (snd (saveState E w)) = Worker_active w"
  "Worker_runtimes (snd (saveState E w)) = Worker_runtimes w"
  "Worker_procs (snd (saveState E w)) = Worker_procs w"
  "Worker_runtimeRestarts (snd (saveState E w)) = Worker_runtimeRestarts w"
  "Worker_downloadTokens (snd (saveState E w)) = Worker_downloadTokens w"
  "Worker_downloadPressure (snd (saveState E w)) = Worker_downloadPressure w"
  "Worker_p2p (snd (saveState E w)) = Worker_p2p w"
  "Worker_send (snd (saveState E w)) = Worker_send w"
  "Worker_connected (snd (saveState E w)) = Worker_connected w"
  "Worker_lastError (snd (saveState E w)) = Worker_lastError w"
  "Worker_startedAt (snd (saveState E w)) = Worker_startedAt w"
  "Worker_paused (snd (saveState E w)) = Worker_paused w"
  "Worker_go (snd (saveState E w)) = Worker_go w"
  by (simp_all add: saveState_def split: option.split)

lemma stopProc_frame [simp]:
  "Worker_cfg (stopProc pid w) = Worker_cfg w"
  "Worker_node (stopProc pid w) = Worker_node w"
  "Worker_nodeToken (stopProc pid w) = Worker_nodeToken w"
  "Worker_slots (stopProc pid w) = Worker_slots w"
  "Worker_assigns (stopProc pid w) = Worker_assigns w"
  "Worker_cache (stopProc pid w) = Worker_cache w"
  "Worker_cacheState (stopProc pid w) = Worker_cacheState w"
  "Worker_warm (stopProc pid w) = Worker_warm w"
  "Worker_activeAssignments (stopProc pid w) = Worker_activeAssignments w"
  "Worker_assignmentFailures (stopProc pid w) = Worker_assignmentFailures w"
  "Worker_processed (stopProc pid w) = Worker_processed w"
  "Worker_active (stopProc pid w) = Worker_active w"
  "Worker_runtimes (stopProc pid w) = Worker_runtimes w"
  "Worker_runtimeRestarts (stopProc pid w) = Worker_runtimeRestarts w"
  "Worker_downloadTokens (stopProc pid w) = Worker_downloadTokens w"
  "Worker_downloadPressure (stopProc pid w) = Worker_downloadPressure w"
  "Worker_p2p (stopProc pid w) = Worker_p2p w"
  "Worker_send (stopProc pid w) = Worker_send w"
  "Worker_connected (stopProc pid w) = Worker_connected w"
  "Worker_lastError (stopProc pid w) = Worker_lastError w"
  "Worker_startedAt (stopProc pid w) = Worker_startedAt w"
  "Worker_paused (stopProc pid w) = Worker_paused w"
  "Worker_files (stopProc pid w) = Worker_files w"
  "Worker_go (stopProc pid w) = Worker_go w"
  by (simp_all add: stopProc_def split: option.split)

lemma initDownloadPressureLocked_frame [simp]:
  "Worker_nodeToken (initDownloadPressureLocked w) = Worker_nodeToken w"
  "Worker_slots (initDownloadPressureLocked w) = Worker_slots w"
  "Worker_assigns (initDownloadPressureLocked w) = Worker_assigns w"
  "Worker_cache (initDownloadPressureLocked w) = Worker_cache w"
  "Worker_cacheState (initDownloadPressureLocked w) = Worker_cacheState w"
  "Worker_warm (initDownloadPressureLocked w) = Worker_warm w"
  "Worker_activeAssignments (initDownloadPressureLocked w) = Worker_activeAssignments w"
  "Worker_assignmentFailures (initDownloadPressureLocked w) = Worker_assignmentFailures w"
  "Worker_processed (initDownloadPressureLocked w) = Worker_processed w"
  "Worker_active (initDownloadPressureLocked w) = Worker_active w"
  "Worker_runtimes (initDownloadPressureLocked w) = Worker_runtimes w"
  "Worker_procs (initDownloadPressureLocked w) = Worker_procs w"
  "Worker_runtimeRestarts (initDownloadPressureLocked w) = Worker_runtimeRestarts w"
  "Worker_downloadTokens (initDownloadPressureLocked w) = Worker_downloadTokens w"
  "Worker_p2p (initDownloadPressureLocked w) = Worker_p2p w"
  "Worker_send (initDownloadPressureLocked w) = Worker_send w"
  "Worker_connected (initDownloadPressureLocked w) = Worker_connected w"
  "Worker_lastError (initDownloadPressureLocked w) = Worker_lastError w"
  "Worker_startedAt (initDownloadPressureLocked w) = Worker_startedAt w"
  "Worker_paused (initDownloadPressureLocked w) = Worker_paused w"
  "Worker_files (initDownloadPressureLocked w) = Worker_files w"
  "Worker_go (initDownloadPressureLocked w) = Worker_go w"
  by (simp_all add: initDownloadPressureLocked_def Let_def)

lemma updateDownloadPressure_frame [simp]:
  "Worker_nodeToken (updateDownloadPressure E q a w) = Worker_nodeToken w"
  "Worker_slots (updateDownloadPressure E q a w) = Worker_slots w"
  "Worker_assigns (updateDownloadPressure E q a w) = Worker_assigns w"
  "Worker_cache (updateDownloadPressure E q a w) = Worker_cache w"
  "Worker_cacheState (updateDownloadPressure E q a w) = Worker_cacheState w"
  "Worker_warm (updateDownloadPressure E q a w) = Worker_warm w"
  "Worker_activeAssignments (updateDownloadPressure E q a w) = Worker_activeAssignments w"
  "Worker_assignmentFailures (updateDownloadPressure E q a w) = Worker_assignmentFailures w"
  "Worker_processed (updateDownloadPressure E q a w) = Worker_processed w"
  "Worker_active (updateDownloadPressure E q a w) = Worker_active w"
  "Worker_runtimes (updateDownloadPressure E q a w) = Worker_runtimes w"
  "Worker_procs (updateDownloadPressure E q a w) = Worker_procs w"
  "Worker_runtimeRestarts (updateDownloadPressure E q a w) = Worker_runtimeRestarts w"
  "Worker_downloadTokens (updateDownloadPressure E q a w) = Worker_downloadTokens w"
  "Worker_p2p (updateDownloadPressure E q a w) = Worker_p2p w"
  "Worker_connected (updateDownloadPressure E q a w) = Worker_connected w"
  "Worker_lastError (updateDownloadPressure E q a w) = Worker_lastError w"
  "Worker_startedAt (updateDownloadPressure E q a w) = Worker_startedAt w"
  "Worker_paused (updateDownloadPressure E q a w) = Worker_paused w"
  "Worker_files (updateDownloadPressure E q a w) = Worker_files w"
  "Worker_go (updateDownloadPressure E q a w) = Worker_go w"
  by (simp_all add: updateDownloadPressure_def Let_def)

lemma queueDownload_frame [simp]:
  "Worker_nodeToken (queueDownload E w) = Worker_nodeToken w"
  "Worker_slots (queueDownload E w) = Worker_slots w"
  "Worker_assigns (queueDownload E w) = Worker_assigns w"
  "Worker_cache (queueDownload E w) = Worker_cache w"
  "Worker_cacheState (queueDownload E w) = Worker_cacheState w"
  "Worker_warm (queueDownload E w) = Worker_warm w"
  "Worker_activeAssignments (queueDownload E w) = Worker_activeAssignments w"
  "Worker_assignmentFailures (queueDownload E w) = Worker_assignmentFailures w"
  "Worker_processed (queueDownload E w) = Worker_processed w"
  "Worker_active (queueDownload E w) = Worker_active w"
  "Worker_runtimes (queueDownload E w) = Worker_runtimes w"
  "Worker_procs (queueDownload E w) = Worker_procs w"
  "Worker_runtimeRestarts (queueDownload E w) = Worker_runtimeRestarts w"
  "Worker_downloadTokens (queueDownload E w) = Worker_downloadTokens w"
  "Worker_p2p (queueDownload E w) = Worker_p2p w"
  "Worker_connected (queueDownload E w) = Worker_connected w"
  "Worker_lastError (queueDownload E w) = Worker_lastError w"
  "Worker_startedAt (queueDownload E w) = Worker_startedAt w"
  "Worker_paused (queueDownload E w) = Worker_paused w"
  "Worker_files (queueDownload E w) = Worker_files w"
  "Worker_go (queueDownload E w) = Worker_go w"
  by (simp_all add: queueDownload_def)

lemma startDownload_frame [simp]:
  "Worker_nodeToken (startDownload E w) = Worker_nodeToken w"
  "Worker_slots (startDownload E w) = Worker_slots w"
  "Worker_assigns (startDownload E w) = Worker_assigns w"
  "Worker_cache (startDownload E w) = Worker_cache w"
  "Worker_cacheState (startDownload E w) = Worker_cacheState w"
  "Worker_warm (startDownload E w) = Worker_warm w"
  "Worker_activeAssignments (startDownload E w) = Worker_activeAssignments w"
  "Worker_assignmentFailures (startDownload E w) = Worker_assignmentFailures w"
  "Worker_processed (startDownload E w) = Worker_processed w"
  "Worker_active (startDownload E w) = Worker_active w"
  "Worker_runtimes (startDownload E w) = Worker_runtimes w"
  "Worker_procs (startDownload E w) = Worker_procs w"
  "Worker_runtimeRestarts (startDownload E w) = Worker_runtimeRestarts w"
  "Worker_p2p (startDownload E w) = Worker_p2p w"
  "Worker_connected (startDownload E w) = Worker_connected w"
  "Worker_lastError (startDownload E w) = Worker_lastError w"
  "Worker_startedAt (startDownload E w) = Worker_startedAt w"
  "Worker_paused (startDownload E w) = Worker_paused w"
  "Worker_files (startDownload E w) = Worker_files w"
  "Worker_go (startDownload E w) = Worker_go w"
  by (simp_all add: startDownload_def)

lemma abandonDownload_frame [simp]:
  "Worker_nodeToken (abandonDownload E w) = Worker_nodeToken w"
  "Worker_slots (abandonDownload E w) = Worker_slots w"
  "Worker_assigns (abandonDownload E w) = Worker_assigns w"
  "Worker_cache (abandonDownload E w) = Worker_cache w"
  "Worker_cacheState (abandonDownload E w) = Worker_cacheState w"
  "Worker_warm (abandonDownload E w) = Worker_warm w"
  "Worker_activeAssignments (abandonDownload E w) = Worker_activeAssignments w"
  "Worker_assignmentFailures (abandonDownload E w) = Worker_assignmentFailures w"
  "Worker_processed (abandonDownload E w) = Worker_processed w"
  "Worker_active (abandonDownload E w) = Worker_active w"
  "Worker_runtimes (abandonDownload E w) = Worker_runtimes w"
  "Worker_procs (abandonDownload E w) = Worker_procs w"
  "Worker_runtimeRestarts (abandonDownload E w) = Worker_runtimeRestarts w"
  "Worker_downloadTokens (abandonDownload E w) = Worker_downloadTokens w"
  "Worker_p2p (abandonDownload E w) = Worker_p2p w"
  "Worker_connected (abandonDownload E w) = Worker_connected w"
  "Worker_lastError (abandonDownload E w) = Worker_lastError w"
  "Worker_startedAt (abandonDownload E w) = Worker_startedAt w"
  "Worker_paused (abandonDownload E w) = Worker_paused w"
  "Worker_files (abandonDownload E w) = Worker_files w"
  "Worker_go (abandonDownload E w) = Worker_go w"
  by (simp_all add: abandonDownload_def)

lemma releaseDownload_frame [simp]:
  "Worker_nodeToken (releaseDownload E w) = Worker_nodeToken w"
  "Worker_slots (releaseDownload E w) = Worker_slots w"
  "Worker_assigns (releaseDownload E w) = Worker_assigns w"
  "Worker_cache (releaseDownload E w) = Worker_cache w"
  "Worker_cacheState (releaseDownload E w) = Worker_cacheState w"
  "Worker_warm (releaseDownload E w) = Worker_warm w"
  "Worker_activeAssignments (releaseDownload E w) = Worker_activeAssignments w"
  "Worker_assignmentFailures (releaseDownload E w) = Worker_assignmentFailures w"
  "Worker_processed (releaseDownload E w) = Worker_processed w"
  "Worker_active (releaseDownload E w) = Worker_active w"
  "Worker_runtimes (releaseDownload E w) = Worker_runtimes w"
  "Worker_procs (releaseDownload E w) = Worker_procs w"
  "Worker_runtimeRestarts (releaseDownload E w) = Worker_runtimeRestarts w"
  "Worker_p2p (releaseDownload E w) = Worker_p2p w"
  "Worker_connected (releaseDownload E w) = Worker_connected w"
  "Worker_lastError (releaseDownload E w) = Worker_lastError w"
  "Worker_startedAt (releaseDownload E w) = Worker_startedAt w"
  "Worker_paused (releaseDownload E w) = Worker_paused w"
  "Worker_files (releaseDownload E w) = Worker_files w"
  "Worker_go (releaseDownload E w) = Worker_go w"
  by (simp_all add: releaseDownload_def)

lemma acquireDownloadSlot_frame [simp]:
  "Worker_nodeToken (snd (acquireDownloadSlot E err w)) = Worker_nodeToken w"
  "Worker_slots (snd (acquireDownloadSlot E err w)) = Worker_slots w"
  "Worker_assigns (snd (acquireDownloadSlot E err w)) = Worker_assigns w"
  "Worker_cache (snd (acquireDownloadSlot E err w)) = Worker_cache w"
  "Worker_cacheState (snd (acquireDownloadSlot E err w)) = Worker_cacheState w"
  "Worker_warm (snd (acquireDownloadSlot E err w)) = Worker_warm w"
  "Worker_activeAssignments (snd (acquireDownloadSlot E err w)) = Worker_activeAssignments w"
  "Worker_assignmentFailures (snd (acquireDownloadSlot E err w)) = Worker_assignmentFailures w"
  "Worker_processed (snd (acquireDownloadSlot E err w)) = Worker_processed w"
  "Worker_active (snd (acquireDownloadSlot E err w)) = Worker_active w"
  "Worker_runtimes (snd (acquireDownloadSlot E err w)) = Worker_runtimes w"
  "Worker_procs (snd (acquireDownloadSlot E err w)) = Worker_procs w"
  "Worker_runtimeRestarts (snd (acquireDownloadSlot E err w)) = Worker_runtimeRestarts w"
  "Worker_p2p (snd (acquireDownloadSlot E err w)) = Worker_p2p w"
  "Worker_connected (snd (acquireDownloadSlot E err w)) = Worker_connected w"
  "Worker_lastError (snd (acquireDownloadSlot E err w)) = Worker_lastError w"
  "Worker_startedAt (snd (acquireDownloadSlot E err w)) = Worker_startedAt w"
  "Worker_paused (snd (acquireDownloadSlot E err w)) = Worker_paused w"
  "Worker_files (snd (acquireDownloadSlot E err w)) = Worker_files w"
  "Worker_go (snd (acquireDownloadSlot E err w)) = Worker_go w"
  by (simp_all add: acquireDownloadSlot_def Let_def split: option.split)

lemma cacheArtifact_frame [simp]:
  "Worker_cfg (cacheArtifact artifact path w) = Worker_cfg w"
  "Worker_node (cacheArtifact artifact path w) = Worker_node w"
  "Worker_nodeToken (cacheArtifact artifact path w) = Worker_nodeToken w"
  "Worker_slots (cacheArtifact artifact path w) = Worker_slots w"
  "Worker_assigns (cacheArtifact artifact path w) = Worker_assigns w"
  "Worker_warm (cacheArtifact artifact path w) = Worker_warm w"
  "Worker_activeAssignments (cacheArtifact artifact path w) = Worker_activeAssignments w"
  "Worker_assignmentFailures (cacheArtifact artifact path w) = Worker_assignmentFailures w"
  "Worker_processed (cacheArtifact artifact path w) = Worker_processed w"
  "Worker_active (cacheArtifact artifact path w) = Worker_active w"
  "Worker_runtimes (cacheArtifact artifact path w) = Worker_runtimes w"
  "Worker_procs (cacheArtifact artifact path w) = Worker_procs w"
  "Worker_runtimeRestarts (cacheArtifact artifact path w) = Worker_runtimeRestarts w"
  "Worker_downloadTokens (cacheArtifact artifact path w) = Worker_downloadTokens w"
  "Worker_downloadPressure (cacheArtifact artifact path w) = Worker_downloadPressure w"
  "Worker_p2p (cacheArtifact artifact path w) = Worker_p2p w"
  "Worker_send (cacheArtifact artifact path w) = Worker_send w"
  "Worker_connected (cacheArtifact artifact path w) = Worker_connected w"
  "Worker_lastError (cacheArtifact artifact path w) = Worker_lastError w"
  "Worker_startedAt (cacheArtifact artifact path w) = Worker_startedAt w"
  "Worker_paused (cacheArtifact artifact path w) = Worker_paused w"
  "Worker_files (cacheArtifact artifact path w) = Worker_files w"
  "Worker_go (cacheArtifact artifact path w) = Worker_go w"
  by (simp_all add: cacheArtifact_def)

lemma spawn_frame [simp]:
  "Worker_cfg (spawn g w) = Worker_cfg w"
  "Worker_node (spawn g w) = Worker_node w"
  "Worker_nodeToken (spawn g w) = Worker_nodeToken w"
  "Worker_slots (spawn g w) = Worker_slots w"
  "Worker_assigns (spawn g w) = Worker_assigns w"
  "Worker_cache (spawn g w) = Worker_cache w"
  "Worker_cacheState (spawn g w) = Worker_cacheState w"
  "Worker_warm (spawn g w) = Worker_warm w"
  "Worker_activeAssignments (spawn g w) = Worker_activeAssignments w"
  "Worker_assignmentFailures (spawn g w) = Worker_assignmentFailures w"
  "Worker_processed (spawn g w) = Worker_processed w"
  "Worker_active (spawn g w) = Worker_active w"
  "Worker_runtimes (spawn g w) = Worker_runtimes w"
  "Worker_procs (spawn g w) = Worker_procs w"
  "Worker_runtimeRestarts (spawn g w) = Worker_runtimeRestarts w"
  "Worker_downloadTokens (spawn g w) = Worker_downloadTokens w"
  "Worker_downloadPressure (spawn g w) = Worker_downloadPressure w"
  "Worker_p2p (spawn g w) = Worker_p2p w"
  "Worker_send (spawn g w) = Worker_send w"
  "Worker_connected (spawn g w) = Worker_connected w"
  "Worker_lastError (spawn g w) = Worker_lastError w"
  "Worker_startedAt (spawn g w) = Worker_startedAt w"
  "Worker_paused (spawn g w) = Worker_paused w"
  "Worker_files (spawn g w) = Worker_files w"
  by (simp_all add: spawn_def)

subsection \<open>A worker for the witnesses\<close>

definition sample_worker_codec :: worker_codec where
  "sample_worker_codec = \<lparr>unmarshalAck = (\<lambda>_. Inl ''syntax''), unmarshalAssignment = (\<lambda>_. Inl ''syntax''), unmarshalExecute = (\<lambda>_. Inl ''syntax''),
     unmarshalCancel = (\<lambda>_. Inl ''syntax''), unmarshalEvict = (\<lambda>_. Inl ''syntax''), unmarshalP2PConfig = (\<lambda>_. Inl ''syntax''),
     unmarshalUpdate = (\<lambda>_. Inl ''syntax''), marshalHello = (\<lambda>_. ''{}''), marshalFullState = (\<lambda>_. ''{}''), marshalSlotState = (\<lambda>_. ''{}''),
     marshalArtifactState = (\<lambda>_. ''{}''), marshalToken = (\<lambda>_. ''{}''), marshalAttemptFailed = (\<lambda>_. ''{}''), marshalReport = (\<lambda>_. ''{}''),
     marshalStrings = (\<lambda>_. ''{}''), marshalState = (\<lambda>_. ''{}''),
     unmarshalState = (\<lambda>_. \<lparr>WState_NodeID = [], WState_NodeToken = [], WState_Cache = [], WState_CachedArtifacts = [], WState_WarmProfile = []\<rparr>)\<rparr>"

definition sample_env :: worker_env where
  "sample_env = \<lparr>E_now = 5, E_newID = (\<lambda>_ _. ''x''), E_sha256hex = (\<lambda>s. s), E_codec = sample_worker_codec,
     E_platform = \<lparr>OS_GOOS = ''darwin'', OS_GOARCH = ''arm64'', OS_hostname = ''mac'', OS_executable = Some ''/opt/worker'', OS_isExec = (\<lambda>_. True)\<rparr>,
     E_torrent = \<lparr>Tor_newClient = (\<lambda>_. None), Tor_load = (\<lambda>_. Inl ''none''), Tor_add = (\<lambda>_. Inl ''none''), Tor_complete = (\<lambda>_. False), Tor_peers = (\<lambda>_. 0)\<rparr>,
     E_saveErr = None, E_showDuration = (\<lambda>_. [])\<rparr>"

definition sample_worker_cfg :: WorkerConfig where
  "sample_worker_cfg = \<lparr>WCfg_ManagerURL = [], WCfg_Token = [], WCfg_NodeID = ''n1'', WCfg_Name = [], WCfg_StatePath = ''/w/state.json'',
     WCfg_CacheDir = ''/w/cache'', WCfg_LlamaServerPath = [], WCfg_RuntimeStartWait = 0, WCfg_SlotCount = 1, WCfg_MaxConcurrentDownloads = 1,
     WCfg_RAMBytes = 0, WCfg_VRAMBytes = 0, WCfg_UnifiedBytes = 0, WCfg_DiskBytes = 0, WCfg_P2PPort = 0, WCfg_P2PMaxUploads = 0,
     WCfg_P2PDownloadTimeout = 0, WCfg_DisableP2P = True, WCfg_EnableSelfUpdate = False\<rparr>"

definition sample_worker :: Worker where
  "sample_worker = \<lparr>Worker_cfg = sample_worker_cfg, Worker_node = zero_Node\<lparr>Node_ID := ''n1''\<rparr>, Worker_nodeToken = ''tok'',
     Worker_slots = [(''n1/metal0'', zero_Slot\<lparr>Slot_ID := ''n1/metal0'', Slot_State := SlotStateIdle\<rparr>)], Worker_assigns = [], Worker_cache = [],
     Worker_cacheState = [], Worker_warm = [], Worker_activeAssignments = [], Worker_assignmentFailures = [], Worker_processed = [],
     Worker_active = [], Worker_runtimes = [], Worker_procs = [], Worker_runtimeRestarts = [], Worker_downloadTokens = 0,
     Worker_downloadPressure = zero_DownloadPressure\<lparr>Pressure_MaxConcurrent := 1\<rparr>, Worker_p2p = None, Worker_send = [], Worker_connected = True,
     Worker_lastError = [], Worker_startedAt = 0, Worker_paused = False, Worker_files = [], Worker_go = []\<rparr>"

definition sample_spec :: ArtifactSpec where
  "sample_spec = \<lparr>Spec_ID = ''sha256:aa'', Spec_Kind = ''model_gguf'', Spec_Name = ''m.gguf'', Spec_SHA256 = ''sha256:aa'', Spec_SizeBytes = 2,
     Spec_URL = ''u'', Spec_Torrent = None, Spec_P2PPeers = []\<rparr>"

definition sample_source :: artifact_source where
  "sample_source = \<lparr>Source_http = (\<lambda>_. HttpReply 200 ''OK'' ''aa'' None), Source_torrent = \<lparr>Run_infoErr = None, Run_started = 0, Run_ticks = [],
     Run_end = TorrentComplete, Run_files = id\<rparr>, Source_createErr = None, Source_closeErr = None, Source_renameErr = None, Source_ctxErr = None\<rparr>"

end
