(* ===== verification/Worker_Cache_Properties.thy ===== *)
theory Worker_Cache_Properties
  imports Worker_Frame Transitions
begin

section \<open>Properties of the worker's cache\<close>

text \<open>
  A cached file has the digest that was asked for, an eviction removes every trace of an artifact,
  the number of downloads is bounded, and a restarted worker has its cache again.
\<close>

subsection \<open>Fetched files are verified\<close>

definition verified :: "worker_env \<Rightarrow> ArtifactSpec \<Rightarrow> string \<Rightarrow> Worker \<Rightarrow> bool" where
  "verified E artifact path w \<longleftrightarrow> VerifyFileSHA256 (E_sha256hex E) path (Spec_SHA256 artifact) (Worker_files w) = None"

definition cached_verified :: "worker_env \<Rightarrow> ArtifactSpec \<Rightarrow> Worker \<Rightarrow> bool" where
  "cached_verified E artifact w \<longleftrightarrow>
     (let path = mget [] (Worker_cache w) (Spec_ID artifact) in path = [] \<or> verified E artifact path w)"

lemma VerifyFileSHA256_None:
  "VerifyFileSHA256 sha path expected files = None \<longleftrightarrow>
   (\<exists>content. map_of files path = Some content \<and> NormalizeSHA256 (''sha256:'' @ sha content) = NormalizeSHA256 expected)"
  by (cases "map_of files path") (simp_all add: VerifyFileSHA256_def FileSHA256_def)

lemma VerifyFileSHA256_other: "path \<noteq> p \<Longrightarrow> VerifyFileSHA256 sha path x (mput p b files) = VerifyFileSHA256 sha path x files"
  "path \<noteq> p \<Longrightarrow> VerifyFileSHA256 sha path x (mdel p files) = VerifyFileSHA256 sha path x files"
  by (simp_all add: VerifyFileSHA256_def FileSHA256_def)

lemma Clean_nonempty: "Clean p \<noteq> []"
proof -
  have "[] \<notin> set (clean_step r st e)" if "[] \<notin> set st" for r st e
    using that by (simp add: clean_step_def) (meson in_set_butlastD)
  then have "[] \<notin> set (foldl (clean_step r) st es)" if "[] \<notin> set st" for r st es
    using that by (induction es arbitrary: st) simp_all
  then have "[] \<notin> set (path_elems p)" by (simp add: path_elems_def)
  moreover have "Join es ''/'' \<noteq> []" if "es \<noteq> []" "[] \<notin> set es" for es
    using that by (cases es; cases "tl es") auto
  ultimately show ?thesis by (auto simp: Clean_def)
qed

lemma JoinPath_nonempty: "a \<noteq> [] \<or> b \<noteq> [] \<Longrightarrow> JoinPath a b \<noteq> []"
  by (auto simp: JoinPath_def Clean_nonempty)

definition artifactTarget :: "Worker \<Rightarrow> ArtifactSpec \<Rightarrow> string" where
  "artifactTarget w artifact = JoinPath (WCfg_CacheDir (Worker_cfg w)) (safeArtifactFileName (Spec_ID artifact))"

lemma artifactTarget_nonempty: "Spec_ID artifact \<noteq> [] \<Longrightarrow> artifactTarget w artifact \<noteq> []"
  by (simp add: artifactTarget_def JoinPath_nonempty safeArtifactFileName_def ReplaceSeparators_def)

text \<open>The paths of the configuration never change.\<close>

definition same_paths :: "Worker \<Rightarrow> Worker \<Rightarrow> bool" where
  "same_paths w w' \<longleftrightarrow> WCfg_CacheDir (Worker_cfg w') = WCfg_CacheDir (Worker_cfg w) \<and> WCfg_StatePath (Worker_cfg w') = WCfg_StatePath (Worker_cfg w)"

lemma same_paths_pressure:
  "WCfg_CacheDir (Worker_cfg (updateDownloadPressure E q a w)) = WCfg_CacheDir (Worker_cfg w)"
  "WCfg_StatePath (Worker_cfg (updateDownloadPressure E q a w)) = WCfg_StatePath (Worker_cfg w)"
  "WCfg_CacheDir (Worker_cfg (initDownloadPressureLocked w)) = WCfg_CacheDir (Worker_cfg w)"
  "WCfg_StatePath (Worker_cfg (initDownloadPressureLocked w)) = WCfg_StatePath (Worker_cfg w)"
  by (simp_all add: updateDownloadPressure_def initDownloadPressureLocked_def Let_def)

lemma same_paths_acquire [simp]:
  "WCfg_CacheDir (Worker_cfg (snd (acquireDownloadSlot E err w))) = WCfg_CacheDir (Worker_cfg w)"
  "WCfg_StatePath (Worker_cfg (snd (acquireDownloadSlot E err w))) = WCfg_StatePath (Worker_cfg w)"
  by (simp_all add: acquireDownloadSlot_def queueDownload_def startDownload_def abandonDownload_def same_paths_pressure Let_def split: option.split)

lemma writeArtifactFile_frame [simp]:
  "Worker_cache (snd (writeArtifactFile E S body err target artifact w)) = Worker_cache w"
  "Worker_cfg (snd (writeArtifactFile E S body err target artifact w)) = Worker_cfg w"
  by (simp_all add: writeArtifactFile_def Let_def split: option.split)

lemma writeArtifactFile_verified:
  assumes "writeArtifactFile E S body err target artifact w = (e, w')"
  shows "e = None \<Longrightarrow> verified E artifact target w'"
    and "verified E artifact target w \<Longrightarrow> verified E artifact target w'"
proof -
  have tmp: "target \<noteq> target @ ''.tmp''" by simp
  show "verified E artifact target w'" if "e = None"
    using assms that
    by (auto simp: writeArtifactFile_def verified_def VerifyFileSHA256_None Let_def split: option.splits)
  show "verified E artifact target w'" if "verified E artifact target w"
    using assms that tmp
    by (auto simp: writeArtifactFile_def verified_def removeFile_def VerifyFileSHA256_other Let_def split: option.splits)
      (auto simp: VerifyFileSHA256_None)
qed

lemma saveState_verified:
  "path \<noteq> WCfg_StatePath (Worker_cfg w) \<Longrightarrow> verified E artifact path (snd (saveState E' w)) = verified E artifact path w"
  by (simp add: saveState_def verified_def VerifyFileSHA256_other split: option.split)

lemma verified_files: "Worker_files w' = Worker_files w \<Longrightarrow> verified E artifact path w' = verified E artifact path w"
  by (simp add: verified_def)

lemma http_verified:
  assumes "downloadArtifactWithHTTP E S artifact target w = (r, w')" and "cached_verified E artifact w" and "target \<noteq> []"
    and "target \<noteq> WCfg_StatePath (Worker_cfg w)" and "mget [] (Worker_cache w) (Spec_ID artifact) \<in> {[], target}"
  shows "cached_verified E artifact w'" and "r = Inr m \<Longrightarrow> mget [] (Worker_cache w') (Spec_ID artifact) = target"
proof -
  have "cached_verified E artifact w' \<and> (\<forall>m. r = Inr m \<longrightarrow> mget [] (Worker_cache w') (Spec_ID artifact) = target)"
  proof (cases "Source_http S (artifactRequest w artifact)")
    case (HttpReply code status body copyErr)
    obtain e w1 where wr: "writeArtifactFile E S body copyErr target artifact w = (e, w1)" by fastforce
    then have w1: "Worker_cache w1 = Worker_cache w" "Worker_cfg w1 = Worker_cfg w"
      using writeArtifactFile_frame [of E S body copyErr target artifact w] by simp_all
    define w2 where "w2 = cacheArtifact artifact target w1"
    obtain se w3 where seed: "seedCachedArtifact E artifact target w2 = (se, w3)" by fastforce
    then have w3: "Worker_cache w3 = Worker_cache w2" "Worker_files w3 = Worker_files w1" "Worker_cfg w3 = Worker_cfg w"
      using seedCachedArtifact_frame [of E artifact target w2] w1 by (simp_all add: w2_def)
    obtain ve w4 where save: "saveState E (refreshP2PState E (sendArtifactState E artifact ''verified'' [] w3)) = (ve, w4)" by fastforce
    then have w4: "Worker_cache w4 = Worker_cache w2"
      using saveState_frame [of E "refreshP2PState E (sendArtifactState E artifact ''verified'' [] w3)"] w3 by simp
    have v: "verified E artifact target w3" "verified E artifact target w4" if "e = None"
    proof -
      have "verified E artifact target w1" using that writeArtifactFile_verified(1) [OF wr] by simp
      then show w3v: "verified E artifact target w3" using w3(2) verified_files by blast
      show "verified E artifact target w4"
        using saveState_verified [of target "refreshP2PState E (sendArtifactState E artifact ''verified'' [] w3)" E artifact E] save w3v w3(3) assms(4)
        by (simp add: verified_def)
    qed
    have cache: "mget [] (Worker_cache w2) (Spec_ID artifact) = target" by (simp add: w2_def cacheArtifact_def)
    show ?thesis
    proof (cases e)
      case (Some t)
      have "cached_verified E artifact w1"
        using assms(2,5) w1 writeArtifactFile_verified(2) [OF wr] by (auto simp: cached_verified_def Let_def)
      with Some assms(1,2) HttpReply wr show ?thesis
        by (auto simp: downloadArtifactWithHTTP_def cached_verified_def verified_def Let_def split: option.splits)
    next
      case None
      show ?thesis
        using assms(1,2) HttpReply wr v [OF None] cache w3(1) w4
        by (auto simp: downloadArtifactWithHTTP_def cached_verified_def None seed [unfolded w2_def] save verified_def Let_def split: option.splits)
    qed
  qed (use assms(1,2) in \<open>auto simp: downloadArtifactWithHTTP_def cached_verified_def verified_def Let_def\<close>)
  then show "cached_verified E artifact w'" and "r = Inr m \<Longrightarrow> mget [] (Worker_cache w') (Spec_ID artifact) = target" by auto
qed

lemma torrent_verified:
  assumes "downloadArtifactWithTorrent E S artifact target w = ((m, e), w')" and "mget [] (Worker_cache w) (Spec_ID artifact) = []"
    and "target \<noteq> WCfg_StatePath (Worker_cfg w)"
  shows "cached_verified E artifact w'" and "mget [] (Worker_cache w') (Spec_ID artifact) \<in> {[], target}" and "Worker_cfg w' = Worker_cfg w"
    and "m \<noteq> [] \<Longrightarrow> e = None \<Longrightarrow> mget [] (Worker_cache w') (Spec_ID artifact) = target"
proof -
  have "cached_verified E artifact w' \<and> mget [] (Worker_cache w') (Spec_ID artifact) \<in> {[], target} \<and> Worker_cfg w' = Worker_cfg w \<and>
      (m \<noteq> [] \<and> e = None \<longrightarrow> mget [] (Worker_cache w') (Spec_ID artifact) = target)"
  proof (cases "Worker_p2p w")
    case None
    with assms show ?thesis by (auto simp: downloadArtifactWithTorrent_def cached_verified_def)
  next
    case (Some p)
    obtain pe p1 where dl: "P2P_Download E (Source_torrent S) artifact p = (pe, p1)" by fastforce
    define w1 where "w1 = w\<lparr>Worker_p2p := Some p1, Worker_files := Run_files (Source_torrent S) (Worker_files w)\<rparr>"
    define w2 where "w2 = refreshP2PState E (sendArtifactState E artifact ''verified'' [] (cacheArtifact artifact target w1))"
    obtain se w3 where save: "saveState E w2 = (se, w3)" by fastforce
    have w3: "w3 = snd (saveState E w2)" using save by simp
    have v3: "verified E artifact target w3 = verified E artifact target w1" "Worker_cfg w3 = Worker_cfg w" "mget [] (Worker_cache w3) (Spec_ID artifact) = target"
      unfolding w3 using assms(3) saveState_verified [of target w2 E artifact E]
      by (simp_all add: w2_def w1_def cacheArtifact_def verified_def)
    show ?thesis
    proof (cases "Spec_Torrent artifact = None \<or> pe \<noteq> None")
      case True
      then show ?thesis
        using assms(1,2) Some dl by (auto simp: downloadArtifactWithTorrent_def cached_verified_def split: if_splits)
    next
      case False
      show ?thesis
      proof (cases "verified E artifact target w1")
        case True
        then have "w' = w3"
          using assms(1) Some dl False save [unfolded w2_def w1_def]
          by (auto simp: downloadArtifactWithTorrent_def Let_def w1_def verified_def split: option.splits)
        with True v3 show ?thesis by (simp add: cached_verified_def)
      next
        case False
        then show ?thesis
          using assms(1,2) Some dl \<open>\<not> (Spec_Torrent artifact = None \<or> pe \<noteq> None)\<close>
          by (auto simp: downloadArtifactWithTorrent_def Let_def w1_def verified_def cached_verified_def split: option.splits)
      qed
    qed
  qed
  then show "cached_verified E artifact w'" and "mget [] (Worker_cache w') (Spec_ID artifact) \<in> {[], target}" and "Worker_cfg w' = Worker_cfg w"
    and "m \<noteq> [] \<Longrightarrow> e = None \<Longrightarrow> mget [] (Worker_cache w') (Spec_ID artifact) = target" by auto
qed

lemma downloadArtifact_verified:
  assumes "downloadArtifact E S artifact w = (r, w')" and "mget [] (Worker_cache w) (Spec_ID artifact) = []" and "Spec_ID artifact \<noteq> []"
    and "artifactTarget w artifact \<noteq> WCfg_StatePath (Worker_cfg w)"
  shows "cached_verified E artifact w'" and "r = Inr method \<Longrightarrow> mget [] (Worker_cache w') (Spec_ID artifact) = artifactTarget w artifact"
proof -
  obtain m e w1 where t: "downloadArtifactWithTorrent E S artifact (artifactTarget w artifact) w = ((m, e), w1)"
    by (metis prod.exhaust)
  note tv = torrent_verified [OF t assms(2,4)]
  have h: "cached_verified E artifact w2" "rr = Inr k \<Longrightarrow> mget [] (Worker_cache w2) (Spec_ID artifact) = artifactTarget w artifact"
    if "downloadArtifactWithHTTP E S artifact (artifactTarget w artifact) w1 = (rr, w2)" for rr w2 k
    using http_verified [OF that tv(1) artifactTarget_nonempty [OF assms(3)]] tv(2,3) assms(4) by auto
  show "cached_verified E artifact w'"
    using assms(1) t tv(1) h(1) by (auto simp: downloadArtifact_def artifactTarget_def [symmetric] Let_def split: option.splits if_splits)
  show "mget [] (Worker_cache w') (Spec_ID artifact) = artifactTarget w artifact" if "r = Inr method"
    using assms(1) t tv(4) h(2) that by (auto simp: downloadArtifact_def artifactTarget_def [symmetric] Let_def split: option.splits if_splits)
qed

lemma alreadyCached:
  assumes "artifactAlreadyCached E artifact w = (b, w')"
  shows "b \<Longrightarrow> cached_verified E artifact w' \<and> mget [] (Worker_cache w') (Spec_ID artifact) \<noteq> []"
    and "\<not> b \<Longrightarrow> mget [] (Worker_cache w') (Spec_ID artifact) = []"
    and "Worker_cfg w' = Worker_cfg w"
  using assms by (auto simp: artifactAlreadyCached_def cached_verified_def verified_def Let_def split: if_splits option.splits)


definition sample_cached_worker :: Worker where
  "sample_cached_worker = sample_worker\<lparr>Worker_cache := [(''sha256:aa'', ''/w/cache/m'')], Worker_files := [(''/w/cache/m'', ''aa'')]\<rparr>"


subsection \<open>Evictions\<close>

lemma set_mdels: "(k, v) \<in> set (foldl (\<lambda>m k. mdel k m) m ks) \<longleftrightarrow> (k, v) \<in> set m \<and> k \<notin> set ks"
  by (induction ks arbitrary: m) (auto simp: mdel_def AList.delete_eq)

lemma evictSlots_frame:
  assumes "foldl evictSlot (u, w) ids = (updates, w')"
  shows "w'\<lparr>Worker_runtimes := [], Worker_runtimeRestarts := [], Worker_slots := []\<rparr> =
    w\<lparr>Worker_runtimes := [], Worker_runtimeRestarts := [], Worker_slots := []\<rparr>"
  using assms by (induction ids arbitrary: u w) (auto simp: Let_def)

lemma evictSlots_slots:
  assumes "foldl evictSlot (u, w) ids = (updates, w')"
  shows "map_of (Worker_slots w') sid = (if sid \<in> set ids
      then Some (clearEvictedSlot (mget zero_Slot (Worker_slots w) sid)) else map_of (Worker_slots w) sid) \<and>
    map_of (Worker_runtimes w') sid = (if sid \<in> set ids then None else map_of (Worker_runtimes w) sid)"
proof -
  have idem: "clearEvictedSlot (clearEvictedSlot s) = clearEvictedSlot s" for s by (simp add: clearEvictedSlot_def)
  show ?thesis
    using assms by (induction ids arbitrary: u w) (auto simp: Let_def idem split: if_splits)
qed

lemma planArtifactEviction_Inr:
  assumes "planArtifactEviction aid w = Inr plan"
  shows "map_of (Worker_slots w) sid = Some slot \<Longrightarrow> slotUsesArtifactLocked w slot aid \<Longrightarrow> sid \<in> set (EvictPlan_slotIDs plan)"
    and "(k, a) \<in> set (Worker_assigns w) \<Longrightarrow> assignmentUsesArtifact a aid \<Longrightarrow> k \<in> set (EvictPlan_profiles plan)"
    and "(k, p) \<in> set (Worker_warm w) \<Longrightarrow> profileUsesArtifact p aid \<Longrightarrow> k \<in> set (EvictPlan_profiles plan)"
    and "EvictPlan_path plan = mget [] (Worker_cache w) aid"
    and "set (EvictPlan_procs plan) = {pid. \<exists>sid \<in> set (EvictPlan_slotIDs plan). map_of (Worker_runtimes w) sid = Some pid}"
proof -
  define users where "users = filter (\<lambda>(_, slot). slotUsesArtifactLocked w slot aid) (Worker_slots w)"
  define keys where "keys = map fst (filter (\<lambda>(_, a). assignmentUsesArtifact a aid) (Worker_assigns w))"
  have plan: "EvictPlan_path plan = mget [] (Worker_cache w) aid"
    "EvictPlan_procs plan = List.map_filter (\<lambda>(slotID, _). map_of (Worker_runtimes w) slotID) users"
    "EvictPlan_slotIDs plan = map fst users"
    "EvictPlan_profiles plan = keys @ map fst (filter (\<lambda>(key, p). profileUsesArtifact p aid \<and> \<not> Contains keys key) (Worker_warm w))"
    using assms unfolding planArtifactEviction_def Let_def users_def [symmetric] keys_def [symmetric]
    by (auto simp: Let_def split: option.splits prod.splits)
  show "sid \<in> set (EvictPlan_slotIDs plan)" if "map_of (Worker_slots w) sid = Some slot" "slotUsesArtifactLocked w slot aid"
    using map_of_SomeD [OF that(1)] that(2) by (force simp: plan(3) users_def)
  show "k \<in> set (EvictPlan_profiles plan)" if "(k, a) \<in> set (Worker_assigns w)" "assignmentUsesArtifact a aid"
    using that by (force simp: plan(4) keys_def)
  show "k \<in> set (EvictPlan_profiles plan)" if "(k, p) \<in> set (Worker_warm w)" "profileUsesArtifact p aid"
    using that by (force simp: plan(4))
  show "EvictPlan_path plan = mget [] (Worker_cache w) aid" by (fact plan(1))
  show "set (EvictPlan_procs plan) = {pid. \<exists>sid \<in> set (EvictPlan_slotIDs plan). map_of (Worker_runtimes w) sid = Some pid}"
    by (force simp: plan(2,3) List.map_filter_def)
qed

lemma stopProcs_frame: "w'\<lparr>Worker_procs := []\<rparr> = w\<lparr>Worker_procs := []\<rparr>" if "w' = foldl (\<lambda>w pid. stopProc pid w) w pids"
proof -
  have "(foldl (\<lambda>w pid. stopProc pid w) w pids)\<lparr>Worker_procs := []\<rparr> = w\<lparr>Worker_procs := []\<rparr>"
  proof (induction pids arbitrary: w)
    case (Cons pid pids)
    have "(stopProc pid w)\<lparr>Worker_procs := []\<rparr> = w\<lparr>Worker_procs := []\<rparr>" by (simp add: stopProc_def split: option.split)
    with Cons.IH [of "stopProc pid w"] show ?case by simp
  qed simp
  with that show ?thesis by simp
qed

lemma stopProcs_alive: "procAlive (foldl (\<lambda>w pid. stopProc pid w) w pids) pid \<longleftrightarrow> procAlive w pid \<and> pid \<notin> set pids"
proof (induction pids arbitrary: w)
  case (Cons p pids)
  have "procAlive (stopProc p w) pid \<longleftrightarrow> procAlive w pid \<and> pid \<noteq> p"
    by (auto simp: stopProc_def procAlive_def split: option.split)
  with Cons.IH [of "stopProc p w"] show ?case by auto
qed simp

lemma sendSlotStates_frame: "(foldl (\<lambda>w slot. sendSlotState E slot w) w slots)\<lparr>Worker_send := []\<rparr> = w\<lparr>Worker_send := []\<rparr>"
proof (induction slots arbitrary: w)
  case (Cons slot slots)
  have "(sendSlotState E slot w)\<lparr>Worker_send := []\<rparr> = w\<lparr>Worker_send := []\<rparr>"
    by (simp add: sendSlotState_def worker_message_def worker_enqueue_def Let_def)
  with Cons.IH [of "sendSlotState E slot w"] show ?case by simp
qed simp

lemma same_but_send:
  assumes "w\<lparr>Worker_send := []\<rparr> = v\<lparr>Worker_send := []\<rparr>"
  shows "Worker_slots w = Worker_slots v"
    "Worker_runtimes w = Worker_runtimes v"
    "Worker_procs w = Worker_procs v"
    "Worker_cache w = Worker_cache v"
    "Worker_assigns w = Worker_assigns v"
    "Worker_warm w = Worker_warm v"
    "Worker_go w = Worker_go v"
    "Worker_active w = Worker_active v"
    "Worker_files w = Worker_files v"
    "Worker_cfg w = Worker_cfg v"
    "Worker_processed w = Worker_processed v"
  using arg_cong [OF assms, of Worker_slots]
    arg_cong [OF assms, of Worker_runtimes]
    arg_cong [OF assms, of Worker_procs]
    arg_cong [OF assms, of Worker_cache]
    arg_cong [OF assms, of Worker_assigns]
    arg_cong [OF assms, of Worker_warm]
    arg_cong [OF assms, of Worker_go]
    arg_cong [OF assms, of Worker_active]
    arg_cong [OF assms, of Worker_files]
    arg_cong [OF assms, of Worker_cfg]
    arg_cong [OF assms, of Worker_processed] by simp_all

text \<open>The state after an eviction, in terms of its plan.\<close>

lemma evictArtifact_None:
  assumes "evictArtifact E removeErr payload w = (None, w')"
  defines "aid \<equiv> NormalizeSHA256 (EvictP_ArtifactID payload)"
  obtains plan where "aid \<noteq> []" and "planArtifactEviction aid w = Inr plan"
    and "\<And>sid. map_of (Worker_slots w') sid = (if sid \<in> set (EvictPlan_slotIDs plan)
      then Some (clearEvictedSlot (mget zero_Slot (Worker_slots w) sid)) else map_of (Worker_slots w) sid)"
    and "\<And>sid. map_of (Worker_runtimes w') sid = (if sid \<in> set (EvictPlan_slotIDs plan) then None else map_of (Worker_runtimes w) sid)"
    and "\<And>pid. procAlive w' pid \<longleftrightarrow> procAlive w pid \<and> pid \<notin> set (EvictPlan_procs plan)"
    and "Worker_cache w' = mdel aid (Worker_cache w)"
    and "Worker_assigns w' = foldl (\<lambda>m k. mdel k m) (Worker_assigns w) (EvictPlan_profiles plan)"
    and "Worker_warm w' = foldl (\<lambda>m k. mdel k m) (Worker_warm w) (EvictPlan_profiles plan)"
    and "Worker_go w' = Worker_go w" and "Worker_active w' = Worker_active w"
    and "EvictPlan_path plan \<noteq> [] \<Longrightarrow> EvictPlan_path plan \<noteq> WCfg_StatePath (Worker_cfg w) \<Longrightarrow> map_of (Worker_files w') (EvictPlan_path plan) = None"
proof -
  have aid: "aid \<noteq> []" using assms by (auto simp: evictArtifact_def Let_def split: if_splits)
  obtain plan where plan: "planArtifactEviction aid w = Inr plan"
    using assms aid by (auto simp: evictArtifact_def Let_def split: sum.splits)
  define w1 where "w1 = foldl (\<lambda>w pid. stopProc pid w) w (EvictPlan_procs plan)"
  define p1 where "p1 = refreshP2PState E (withP2P (StopSeeding aid) w1)"
  define p2 where "p2 = (if EvictPlan_path plan \<noteq> [] then removeFile (EvictPlan_path plan) p1 else p1)"
  obtain updates w3 where w3: "applyArtifactEviction aid plan p2 = (updates, w3)" by fastforce
  obtain w4 where w4: "saveState E w3 = (None, w4)" and w': "w' = sendArtifactState E (evictedSpec aid) ''evicted'' [] (foldl (\<lambda>w slot. sendSlotState E slot w) w4 updates)"
    using assms aid plan w3 w1_def p1_def p2_def
    by (auto simp: evictArtifact_def Let_def split: if_splits prod.splits option.splits)
  have w1: "w1\<lparr>Worker_procs := []\<rparr> = w\<lparr>Worker_procs := []\<rparr>" by (rule stopProcs_frame [OF w1_def])
  have p2: "Worker_slots p2 = Worker_slots w" "Worker_runtimes p2 = Worker_runtimes w" "Worker_procs p2 = Worker_procs w1"
    "Worker_cache p2 = Worker_cache w" "Worker_assigns p2 = Worker_assigns w" "Worker_warm p2 = Worker_warm w"
    "Worker_go p2 = Worker_go w" "Worker_active p2 = Worker_active w" "Worker_cfg p2 = Worker_cfg w"
    using w1 by (cases w1; cases w; simp add: p2_def p1_def)+
  define x where "x = p2\<lparr>Worker_cache := mdel aid (Worker_cache p2), Worker_cacheState := mdel aid (Worker_cacheState p2),
         Worker_assigns := foldl (\<lambda>m k. mdel k m) (Worker_assigns p2) (EvictPlan_profiles plan),
         Worker_warm := foldl (\<lambda>m k. mdel k m) (Worker_warm p2) (EvictPlan_profiles plan)\<rparr>"
  have fold: "foldl evictSlot ([], x) (EvictPlan_slotIDs plan) = (updates, w3)"
    using w3 by (simp add: applyArtifactEviction_def x_def)
  have f3: "w3\<lparr>Worker_runtimes := [], Worker_runtimeRestarts := [], Worker_slots := []\<rparr> =
    x\<lparr>Worker_runtimes := [], Worker_runtimeRestarts := [], Worker_slots := []\<rparr>" by (rule evictSlots_frame [OF fold])
  have s3: "Worker_procs w3 = Worker_procs w1" "Worker_cache w3 = Worker_cache x" "Worker_assigns w3 = Worker_assigns x"
    "Worker_warm w3 = Worker_warm x" "Worker_go w3 = Worker_go w" "Worker_active w3 = Worker_active w" "Worker_cfg w3 = Worker_cfg w" "Worker_files w3 = Worker_files p2"
    using f3 p2 by (cases w3; cases x; cases p2; simp add: x_def)+
  have w4_eq: "w4 = snd (saveState E w3)" using w4 by simp
  have f5: "(foldl (\<lambda>w slot. sendSlotState E slot w) w4 updates)\<lparr>Worker_send := []\<rparr> = w4\<lparr>Worker_send := []\<rparr>" by (rule sendSlotStates_frame)
  have s5: "Worker_slots w' = Worker_slots w3" "Worker_runtimes w' = Worker_runtimes w3" "Worker_procs w' = Worker_procs w3"
    "Worker_cache w' = Worker_cache w3" "Worker_assigns w' = Worker_assigns w3" "Worker_warm w' = Worker_warm w3" "Worker_go w' = Worker_go w3"
    "Worker_active w' = Worker_active w3" "Worker_files w' = Worker_files w4"
    using same_but_send [OF f5] saveState_frame [of E w3] by (simp_all add: w' w4_eq)
  show thesis
  proof (rule that [OF aid plan])
    show "map_of (Worker_slots w') sid = (if sid \<in> set (EvictPlan_slotIDs plan)
      then Some (clearEvictedSlot (mget zero_Slot (Worker_slots w) sid)) else map_of (Worker_slots w) sid)"
      "map_of (Worker_runtimes w') sid = (if sid \<in> set (EvictPlan_slotIDs plan) then None else map_of (Worker_runtimes w) sid)" for sid
      using evictSlots_slots [OF fold, of sid] p2(1,2) by (simp_all add: s5 x_def)
    show "procAlive w' pid \<longleftrightarrow> procAlive w pid \<and> pid \<notin> set (EvictPlan_procs plan)" for pid
      using stopProcs_alive [of w "EvictPlan_procs plan" pid] by (simp add: procAlive_def s5 s3 w1_def)
    show "map_of (Worker_files w') (EvictPlan_path plan) = None"
      if "EvictPlan_path plan \<noteq> []" "EvictPlan_path plan \<noteq> WCfg_StatePath (Worker_cfg w)"
      using that w4 s3(7,8) by (auto simp: s5 saveState_def p2_def removeFile_def split: option.splits)
  qed (simp_all add: s5 s3 x_def p2)
qed

lemma evictArtifact_busy:
  assumes "evictArtifact E removeErr payload w = (e, w')" and "aid = NormalizeSHA256 (EvictP_ArtifactID payload)"
    and "(sid, slot) \<in> set (Worker_slots w)" and "slotUsesArtifactLocked w slot aid"
    and "Slot_State slot = SlotStateServing \<or> Slot_ActiveTaskID slot \<noteq> []" and "aid \<noteq> []"
  shows "e \<noteq> None \<and> w'\<lparr>Worker_send := []\<rparr> = w\<lparr>Worker_send := []\<rparr>"
proof -
  define users where "users = filter (\<lambda>(_, slot). slotUsesArtifactLocked w slot aid) (Worker_slots w)"
  have "(sid, slot) \<in> set users" using assms(3,4) by (simp add: users_def)
  then obtain x where "find (\<lambda>(_, slot). Slot_State slot = SlotStateServing \<or> Slot_ActiveTaskID slot \<noteq> []) users = Some x"
    using assms(5)
    by (cases "find (\<lambda>(_, slot). Slot_State slot = SlotStateServing \<or> Slot_ActiveTaskID slot \<noteq> []) users") (auto simp: find_None_iff)
  then obtain t where t: "planArtifactEviction aid w = Inl t"
    unfolding planArtifactEviction_def users_def [symmetric] Let_def by (cases x) auto
  then show ?thesis
    using assms by (auto simp: evictArtifact_def sendArtifactState_def worker_message_def worker_enqueue_def Let_def)
qed

text \<open>C34: an eviction is complete or refused. When it succeeds, the cache entry and the file are
  gone, every runtime process that used the artifact is stopped, and no slot, assignment or warm
  profile of the worker refers to the artifact any more. While a slot that uses the artifact
  serves a task it is refused, and nothing but the message to the manager changes.\<close>

theorem evict_complete:
  assumes "evictArtifact E removeErr payload w = (e, w')" and "aid = NormalizeSHA256 (EvictP_ArtifactID payload)"
  shows "(e = None \<longrightarrow> \<not> mhas (Worker_cache w') aid \<and>
      (\<forall>sid slot. map_of (Worker_slots w') sid = Some slot \<longrightarrow> \<not> slotUsesArtifactLocked w' slot aid) \<and>
      (\<forall>k a. (k, a) \<in> set (Worker_assigns w') \<longrightarrow> \<not> assignmentUsesArtifact a aid) \<and>
      (\<forall>k p. (k, p) \<in> set (Worker_warm w') \<longrightarrow> \<not> profileUsesArtifact p aid) \<and>
      (\<forall>path. map_of (Worker_cache w) aid = Some path \<and> path \<noteq> [] \<and> path \<noteq> WCfg_StatePath (Worker_cfg w) \<longrightarrow> map_of (Worker_files w') path = None) \<and>
      (\<forall>sid slot pid. map_of (Worker_slots w) sid = Some slot \<and> slotUsesArtifactLocked w slot aid \<and> map_of (Worker_runtimes w) sid = Some pid
        \<longrightarrow> \<not> procAlive w' pid)) \<and>
    ((\<exists>sid slot. (sid, slot) \<in> set (Worker_slots w) \<and> slotUsesArtifactLocked w slot aid \<and>
        (Slot_State slot = SlotStateServing \<or> Slot_ActiveTaskID slot \<noteq> [])) \<and> aid \<noteq> [] \<longrightarrow>
      e \<noteq> None \<and> w'\<lparr>Worker_send := []\<rparr> = w\<lparr>Worker_send := []\<rparr>)"
proof (intro conjI impI)
  assume "e = None"
  then have run: "evictArtifact E removeErr payload w = (None, w')" using assms(1) by simp
  obtain plan where aid: "aid \<noteq> []" and plan: "planArtifactEviction aid w = Inr plan"
    and slots: "\<And>sid. map_of (Worker_slots w') sid = (if sid \<in> set (EvictPlan_slotIDs plan)
      then Some (clearEvictedSlot (mget zero_Slot (Worker_slots w) sid)) else map_of (Worker_slots w) sid)"
    and procs: "\<And>pid. procAlive w' pid \<longleftrightarrow> procAlive w pid \<and> pid \<notin> set (EvictPlan_procs plan)"
    and cache: "Worker_cache w' = mdel aid (Worker_cache w)"
    and assigns: "Worker_assigns w' = foldl (\<lambda>m k. mdel k m) (Worker_assigns w) (EvictPlan_profiles plan)"
    and warm: "Worker_warm w' = foldl (\<lambda>m k. mdel k m) (Worker_warm w) (EvictPlan_profiles plan)"
    and files: "EvictPlan_path plan \<noteq> [] \<Longrightarrow> EvictPlan_path plan \<noteq> WCfg_StatePath (Worker_cfg w) \<Longrightarrow> map_of (Worker_files w') (EvictPlan_path plan) = None"
    using evictArtifact_None [OF run] unfolding assms(2) [symmetric] by metis
  note plan_facts = planArtifactEviction_Inr [OF plan]
  show "\<not> mhas (Worker_cache w') aid" by (simp add: cache mhas_def)
  show a: "\<forall>k a. (k, a) \<in> set (Worker_assigns w') \<longrightarrow> \<not> assignmentUsesArtifact a aid"
    using plan_facts(2) by (auto simp: assigns set_mdels)
  show p: "\<forall>k p. (k, p) \<in> set (Worker_warm w') \<longrightarrow> \<not> profileUsesArtifact p aid"
    using plan_facts(3) by (auto simp: warm set_mdels)
  show "\<forall>sid slot. map_of (Worker_slots w') sid = Some slot \<longrightarrow> \<not> slotUsesArtifactLocked w' slot aid"
  proof (intro allI impI)
    fix sid slot assume s: "map_of (Worker_slots w') sid = Some slot"
    have "slotUsesArtifactLocked w slot aid" if "slotUsesArtifactLocked w' slot aid"
      using that unfolding slotUsesArtifactLocked_def list_ex_iff set_mvals Bex_def by (simp add: assigns warm set_mdels) blast
    moreover have "\<not> slotUsesArtifactLocked w' slot aid" if "sid \<in> set (EvictPlan_slotIDs plan)"
      using that s slots [of sid] a p aid
      by (auto simp: slotUsesArtifactLocked_def list_ex_iff set_mvals clearEvictedSlot_def)
    ultimately show "\<not> slotUsesArtifactLocked w' slot aid"
      using s slots [of sid] plan_facts(1) [of sid slot] by (cases "sid \<in> set (EvictPlan_slotIDs plan)") auto
  qed
  show "\<forall>path. map_of (Worker_cache w) aid = Some path \<and> path \<noteq> [] \<and> path \<noteq> WCfg_StatePath (Worker_cfg w) \<longrightarrow> map_of (Worker_files w') path = None"
    using files plan_facts(4) by (auto simp: mget_SomeD)
  show "\<forall>sid slot pid. map_of (Worker_slots w) sid = Some slot \<and> slotUsesArtifactLocked w slot aid \<and> map_of (Worker_runtimes w) sid = Some pid
        \<longrightarrow> \<not> procAlive w' pid"
    using plan_facts(1,5) procs by blast
next
  assume "(\<exists>sid slot. (sid, slot) \<in> set (Worker_slots w) \<and> slotUsesArtifactLocked w slot aid \<and>
        (Slot_State slot = SlotStateServing \<or> Slot_ActiveTaskID slot \<noteq> [])) \<and> aid \<noteq> []"
  then show "e \<noteq> None" "w'\<lparr>Worker_send := []\<rparr> = w\<lparr>Worker_send := []\<rparr>"
    using evictArtifact_busy [OF assms] by blast+
qed

theorem evict_complete_witness:
  "let (e, w) = evictArtifact sample_env None \<lparr>EvictP_ArtifactID = ''AA'', EvictP_Reason = []\<rparr> sample_cached_worker
   in e = None \<and> \<not> mhas (Worker_cache w) ''sha256:aa''"
proof -
  let ?r = "evictArtifact sample_env None \<lparr>EvictP_ArtifactID = ''AA'', EvictP_Reason = []\<rparr> sample_cached_worker"
  have ok: "fst ?r = None" by code_simp
  then have run: "?r = (None, snd ?r)" by (metis prod.collapse)
  have "''sha256:aa'' = NormalizeSHA256 (EvictP_ArtifactID \<lparr>EvictP_ArtifactID = ''AA'', EvictP_Reason = []\<rparr>)" by code_simp
  then show ?thesis
    using evict_complete [OF run] ok by (simp add: split_beta)
qed

subsection \<open>The number of downloads\<close>

text \<open>
  The downloads of a worker, at the points where they touch the shared state: the numbers are
  those of the goroutines that wait for their turn and of those that download.
\<close>

inductive download_step :: "Worker \<times> nat \<times> nat \<Rightarrow> Worker \<times> nat \<times> nat \<Rightarrow> bool" where
  queue: "download_step (w, q, a) (queueDownload E w, Suc q, a)"
| start: "int (Worker_downloadTokens w) < WCfg_MaxConcurrentDownloads (Worker_cfg w) \<Longrightarrow> download_step (w, Suc q, a) (startDownload E w, q, Suc a)"
| abandon: "download_step (w, Suc q, a) (abandonDownload E w, q, a)"
| release: "download_step (w, q, Suc a) (releaseDownload E w, q, a)"

definition download_init :: "Worker \<times> nat \<times> nat \<Rightarrow> bool" where
  "download_init s \<longleftrightarrow> (\<exists>E cfg files w. NewWorker E None cfg files = Inr w \<and> s = (w, 0, 0))"

definition download_ok :: "Worker \<times> nat \<times> nat \<Rightarrow> bool" where
  "download_ok s \<longleftrightarrow> (case s of (w, q, a) \<Rightarrow>
     0 < WCfg_MaxConcurrentDownloads (Worker_cfg w) \<and> Worker_downloadTokens w = a \<and> int a \<le> WCfg_MaxConcurrentDownloads (Worker_cfg w) \<and>
     Worker_downloadPressure w = \<lparr>Pressure_MaxConcurrent = WCfg_MaxConcurrentDownloads (Worker_cfg w), Pressure_Active = int a, Pressure_Queued = int q\<rparr> \<and>
     Node_DownloadPressure (Worker_node w) = Worker_downloadPressure w)"

lemma pressure_update:
  assumes "Worker_downloadPressure w = \<lparr>Pressure_MaxConcurrent = WCfg_MaxConcurrentDownloads (Worker_cfg w), Pressure_Active = a, Pressure_Queued = q\<rparr>"
    and "0 < WCfg_MaxConcurrentDownloads (Worker_cfg w)" and "0 \<le> q + dq" and "0 \<le> a + da"
  shows "Worker_downloadPressure (updateDownloadPressure E dq da w) =
      \<lparr>Pressure_MaxConcurrent = WCfg_MaxConcurrentDownloads (Worker_cfg w), Pressure_Active = a + da, Pressure_Queued = q + dq\<rparr>"
    and "Worker_cfg (updateDownloadPressure E dq da w) = Worker_cfg w"
    and "Node_DownloadPressure (Worker_node (updateDownloadPressure E dq da w)) = Worker_downloadPressure (updateDownloadPressure E dq da w)"
  using assms
  by (simp_all add: updateDownloadPressure_def initDownloadPressureLocked_def sendFullState_def worker_message_def worker_enqueue_def
      refreshP2PState_def Let_def split: option.split)

lemma initP2P_frame:
  "Worker_downloadPressure (initP2P E w) = Worker_downloadPressure w" "Worker_cfg (initP2P E w) = Worker_cfg w"
  "Worker_downloadTokens (initP2P E w) = Worker_downloadTokens w"
  "Node_DownloadPressure (Worker_node (initP2P E w)) = Node_DownloadPressure (Worker_node w)"
  "Worker_nodeToken (initP2P E w) = Worker_nodeToken w" "Node_ID (Worker_node (initP2P E w)) = Node_ID (Worker_node w)"
  "Worker_cacheState (initP2P E w) = Worker_cacheState w" "Worker_slots (initP2P E w) = Worker_slots w"
  "Worker_go (initP2P E w) = Worker_go w" "Worker_procs (initP2P E w) = Worker_procs w" "Worker_active (initP2P E w) = Worker_active w"
proof -
  have node: "Node_DownloadPressure (Worker_node (snd (seedCachedArtifact E a p w))) = Node_DownloadPressure (Worker_node w)"
    "Node_ID (Worker_node (snd (seedCachedArtifact E a p w))) = Node_ID (Worker_node w)"
    "Node_DownloadPressure (Worker_node (refreshP2PState E w)) = Node_DownloadPressure (Worker_node w)"
    "Node_ID (Worker_node (refreshP2PState E w)) = Node_ID (Worker_node w)" for a p w
    by (simp_all add: seedCachedArtifact_def refreshP2PState_def split: option.split prod.split)
  have step: "Worker_downloadPressure (restoreCached E w x) = Worker_downloadPressure w" "Worker_cfg (restoreCached E w x) = Worker_cfg w"
    "Worker_downloadTokens (restoreCached E w x) = Worker_downloadTokens w" "Node_DownloadPressure (Worker_node (restoreCached E w x)) = Node_DownloadPressure (Worker_node w)"
    "Worker_nodeToken (restoreCached E w x) = Worker_nodeToken w" "Node_ID (Worker_node (restoreCached E w x)) = Node_ID (Worker_node w)"
    "Worker_cacheState (restoreCached E w x) = Worker_cacheState w" "Worker_slots (restoreCached E w x) = Worker_slots w"
    "Worker_go (restoreCached E w x) = Worker_go w" "Worker_procs (restoreCached E w x) = Worker_procs w" "Worker_active (restoreCached E w x) = Worker_active w" for w x
    by (cases x; simp add: node Let_def)+
  have fold: "g (foldl (restoreCached E) w xs) = g w" if "\<And>w x. g (restoreCached E w x) = g w" for g :: "Worker \<Rightarrow> 'b" and w xs
    using that by (induction xs arbitrary: w) simp_all
  show "Worker_downloadPressure (initP2P E w) = Worker_downloadPressure w" "Worker_cfg (initP2P E w) = Worker_cfg w"
    "Worker_downloadTokens (initP2P E w) = Worker_downloadTokens w"
    "Node_DownloadPressure (Worker_node (initP2P E w)) = Node_DownloadPressure (Worker_node w)"
    "Worker_nodeToken (initP2P E w) = Worker_nodeToken w" "Node_ID (Worker_node (initP2P E w)) = Node_ID (Worker_node w)"
    "Worker_cacheState (initP2P E w) = Worker_cacheState w" "Worker_slots (initP2P E w) = Worker_slots w"
    "Worker_go (initP2P E w) = Worker_go w" "Worker_procs (initP2P E w) = Worker_procs w" "Worker_active (initP2P E w) = Worker_active w"
    unfolding initP2P_def Let_def
    by (simp_all add: node fold [OF step(1)] fold [OF step(2)] fold [OF step(3)] fold [of "\<lambda>w. Node_DownloadPressure (Worker_node w)", OF step(4)]
        fold [OF step(5)] fold [of "\<lambda>w. Node_ID (Worker_node w)", OF step(6)] fold [OF step(7)] fold [OF step(8)] fold [OF step(9)] fold [OF step(10)] fold [OF step(11)])
qed

lemma applyWorkerDefaults_downloads: "0 < WCfg_MaxConcurrentDownloads (applyWorkerDefaults cfg)"
  by (simp add: applyWorkerDefaults_def applyWorkerP2PDefaults_def applyWorkerCapacityDefaults_def Let_def)

lemma applyWorkerDefaults_paths:
  "WCfg_StatePath (applyWorkerDefaults cfg) = (if WCfg_StatePath cfg = [] then ''data/worker-state.json'' else WCfg_StatePath cfg)"
  "WCfg_NodeID (applyWorkerDefaults cfg) = WCfg_NodeID cfg"
proof -
  have p: "WCfg_StatePath (applyWorkerP2PDefaults c) = WCfg_StatePath c" "WCfg_NodeID (applyWorkerP2PDefaults c) = WCfg_NodeID c"
    "WCfg_StatePath (applyWorkerCapacityDefaults c) = WCfg_StatePath c" "WCfg_NodeID (applyWorkerCapacityDefaults c) = WCfg_NodeID c" for c
    by (simp_all add: applyWorkerP2PDefaults_def applyWorkerCapacityDefaults_def Let_def)
  have c: "WCfg_StatePath (applyWorkerConnectionDefaults cfg) = (if WCfg_StatePath cfg = [] then ''data/worker-state.json'' else WCfg_StatePath cfg)"
    "WCfg_NodeID (applyWorkerConnectionDefaults cfg) = WCfg_NodeID cfg"
    by (simp_all add: applyWorkerConnectionDefaults_def Let_def)
  show "WCfg_StatePath (applyWorkerDefaults cfg) = (if WCfg_StatePath cfg = [] then ''data/worker-state.json'' else WCfg_StatePath cfg)"
    "WCfg_NodeID (applyWorkerDefaults cfg) = WCfg_NodeID cfg"
    by (simp_all add: applyWorkerDefaults_def p c Let_def)
qed

lemma download_init_ok: "download_init s \<Longrightarrow> download_ok s"
proof -
  assume "download_init s"
  then obtain E cfg files w where n: "NewWorker E None cfg files = Inr w" and s: "s = (w, 0, 0)"
    by (auto simp: download_init_def)
  obtain v where v: "saveState E (initP2P E v) = (None, w)" and p: "Worker_downloadTokens v = 0"
      "Worker_downloadPressure v = zero_DownloadPressure\<lparr>Pressure_MaxConcurrent := WCfg_MaxConcurrentDownloads (Worker_cfg v)\<rparr>"
      "Node_DownloadPressure (Worker_node v) = Worker_downloadPressure v" "0 < WCfg_MaxConcurrentDownloads (Worker_cfg v)"
    using n applyWorkerDefaults_downloads [of cfg]
    by (fastforce simp: NewWorker_def newWorkerNode_def Let_def split: prod.splits option.splits)
  have w: "w = snd (saveState E (initP2P E v))" using v by simp
  show "download_ok s"
    using p by (simp add: download_ok_def s w initP2P_frame zero_DownloadPressure_def)
qed

lemma download_step_ok:
  assumes "download_step s t" and "download_ok s"
  shows "download_ok t"
  using assms
proof (cases rule: download_step.cases)
  case (queue w q a E)
  then have ok: "download_ok (w, q, a)" using assms(2) by simp
  have "Worker_cfg (initDownloadPressureLocked w) = Worker_cfg w" "Worker_downloadPressure (initDownloadPressureLocked w) = Worker_downloadPressure w"
    using ok by (simp_all add: download_ok_def initDownloadPressureLocked_def Let_def)
  then show ?thesis
    using ok pressure_update [of "initDownloadPressureLocked w" "int a" "int q" 1 0 E]
    by (simp add: queue download_ok_def queueDownload_def)
next
  case (start w q a E)
  then show ?thesis
    using assms(2) pressure_update [of "w\<lparr>Worker_downloadTokens := Worker_downloadTokens w + 1\<rparr>" "int a" "int (Suc q)" "-1" 1 E]
    by (auto simp: download_ok_def startDownload_def)
next
  case (abandon w q a E)
  then show ?thesis
    using assms(2) pressure_update [of w "int a" "int (Suc q)" "-1" 0 E]
    by (auto simp: download_ok_def abandonDownload_def)
next
  case (release w q a E)
  then show ?thesis
    using assms(2) pressure_update [of "w\<lparr>Worker_downloadTokens := Worker_downloadTokens w - 1\<rparr>" "int (Suc a)" "int q" 0 "-1" E]
    by (auto simp: download_ok_def releaseDownload_def)
qed

interpretation downloads: invariant_system download_init download_step download_ok
  by unfold_locales (auto intro: download_init_ok download_step_ok)



subsection \<open>A restarted worker\<close>


definition sample_restart_env :: worker_env where
  "sample_restart_env = sample_env\<lparr>E_codec := sample_worker_codec\<lparr>unmarshalState := \<lambda>_. workerState sample_cached_worker\<rparr>\<rparr>"


end
