(* ===== verification/Worker_Steps.thy ===== *)
theory Worker_Steps
  imports Worker_Cache_Properties
begin

section \<open>The worker as a transition system\<close>

text \<open>
  A worker receives messages, writes its own, serves its local status server and runs its
  goroutines, in any order. A step is one handler, or one goroutine from where it was started to
  its end; a task is two steps, so that other steps happen while it streams. A runtime process may
  exit at any time.
\<close>

subsection \<open>Steps\<close>

definition unspawn :: "goroutine \<Rightarrow> Worker \<Rightarrow> Worker" where
  "unspawn g w = w\<lparr>Worker_go := remove1 g (Worker_go w)\<rparr>"

definition exitProc :: "string \<Rightarrow> string option \<Rightarrow> Worker \<Rightarrow> Worker" where
  "exitProc pid err w =
     (case map_of (Worker_procs w) pid of
        None \<Rightarrow> w
      | Some p \<Rightarrow> w\<lparr>Worker_procs := mput pid (p\<lparr>Proc_done := True, Proc_waitErr := err\<rparr>) (Worker_procs w)\<rparr>)"

inductive worker_step :: "Worker \<Rightarrow> Worker \<Rightarrow> bool" where
  receive: "worker_step w (worker_readLoop E removeErr msg w)"
| written: "worker_step w (snd (worker_writeLoop w))"
| connected: "worker_step w (connect E dialErr w)"
| disconnected: "worker_step w (disconnect err w)"
| beat: "worker_step w (heartbeat E w)"
| lease: "mhas (Worker_active w) attempt \<Longrightarrow> worker_step w (renewLease E task attempt w)"
| status: "worker_step w (snd (statusRequest E removeErr httpMethod path artifactID w))"
| exits: "worker_step w (exitProc pid err w)"
| assignment: "GoAssignment payload \<in> set (Worker_go w) \<Longrightarrow>
    worker_step w (goAssignment E S L payload (unspawn (GoAssignment payload) w))"
| execute: "GoExecute task \<in> set (Worker_go w) \<Longrightarrow> worker_step w (beginTask E task (unspawn (GoExecute task) w))"
| stream: "GoStream task start \<in> set (Worker_go w) \<Longrightarrow>
    worker_step w (finishTask E X task start (unspawn (GoStream task start) w))"
| watch: "GoWatch slotID profile pid \<in> set (Worker_go w) \<Longrightarrow> \<not> procAlive w pid \<Longrightarrow>
    worker_step w (watchRuntimeServer E L slotID profile pid (unspawn (GoWatch slotID profile pid) w))"
| recover: "GoRecover slotID profile reason \<in> set (Worker_go w) \<Longrightarrow>
    worker_step w (recoverRuntimeSlot E L healthy slotID profile reason (unspawn (GoRecover slotID profile reason) w))"
| update: "GoUpdate upd \<in> set (Worker_go w) \<Longrightarrow> Worker_active w = [] \<Longrightarrow>
    handleUpdate E source V I upd (unspawn (GoUpdate upd) w) = UpdateDone w' \<Longrightarrow> worker_step w w'"

definition worker_init :: "Worker \<Rightarrow> bool" where
  "worker_init w \<longleftrightarrow> (\<exists>E cfg files. NewWorker E None cfg files = Inr w)"

subsection \<open>Calm operations\<close>

text \<open>
  An operation is calm if no slot starts to serve, no goroutine is lost, and no process is
  orphaned: alive, and the runtime of no slot.
\<close>

definition serving :: "Worker \<Rightarrow> string \<Rightarrow> bool" where
  "serving w sid \<longleftrightarrow> (\<exists>slot. map_of (Worker_slots w) sid = Some slot \<and> Slot_State slot = SlotStateServing)"

definition orphan :: "Worker \<Rightarrow> string \<Rightarrow> bool" where
  "orphan w pid \<longleftrightarrow> procAlive w pid \<and> (\<forall>sid. map_of (Worker_runtimes w) sid \<noteq> Some pid)"

definition calm :: "Worker \<Rightarrow> Worker \<Rightarrow> bool" where
  "calm w w' \<longleftrightarrow> (\<forall>sid. serving w' sid \<longrightarrow> serving w sid) \<and> set (Worker_go w) \<subseteq> set (Worker_go w') \<and> (\<forall>pid. orphan w' pid \<longrightarrow> orphan w pid)"

named_theorems calm_intros \<open>operations that are calm\<close>

lemma calm_refl [calm_intros]: "calm w w"
  by (simp add: calm_def)

lemma calm_trans [trans]: "calm u v \<Longrightarrow> calm v w \<Longrightarrow> calm u w"
  unfolding calm_def by blast

lemma calm_same:
  assumes "Worker_slots w' = Worker_slots w" "Worker_go w' = Worker_go w" "Worker_runtimes w' = Worker_runtimes w" "Worker_procs w' = Worker_procs w"
  shows "calm w w'"
  using assms by (simp add: calm_def serving_def orphan_def procAlive_def)

lemma calm_frame:
  assumes "calm w v" and "Worker_slots v' = Worker_slots v" "Worker_go v' = Worker_go v" "Worker_runtimes v' = Worker_runtimes v" "Worker_procs v' = Worker_procs v"
  shows "calm w v'"
  using calm_trans [OF assms(1) calm_same] assms(2-5) by blast

lemma calm_spawn: "calm w v \<Longrightarrow> calm w (spawn g v)"
  by (auto simp: calm_def serving_def orphan_def procAlive_def spawn_def)

lemma calm_setSlotState: "calm w v \<Longrightarrow> st \<noteq> SlotStateServing \<Longrightarrow> calm w (setSlotState E sid st pid reason v)"
  by (auto simp: calm_def serving_def orphan_def procAlive_def) (auto simp: setSlotState_def Let_def split: if_splits)

lemma not_serving_setSlotState: "st \<noteq> SlotStateServing \<Longrightarrow> \<not> serving (setSlotState E sid st pid reason v) sid"
  by (simp add: serving_def) (simp add: setSlotState_def Let_def)

lemma calm_setAnySlotState: "calm w v \<Longrightarrow> st \<noteq> SlotStateServing \<Longrightarrow> calm w (setAnySlotState E st pid reason v)"
  by (simp add: setAnySlotState_def calm_setSlotState split: list.split)

lemma calm_stopProc: "calm w v \<Longrightarrow> calm w (stopProc pid v)"
  by (auto simp: calm_def serving_def orphan_def procAlive_def stopProc_def split: option.splits if_splits)

lemma calm_exitProc: "calm w (exitProc pid err w)"
  by (auto simp: calm_def serving_def orphan_def procAlive_def exitProc_def split: option.splits if_splits)

lemma calm_stopRuntimeServer: "calm w (stopRuntimeServer slotID w)"
  by (auto simp: calm_def serving_def orphan_def procAlive_def stopRuntimeServer_def stopProc_def Let_def split: option.splits if_splits)
    (metis option.distinct(1) option.inject)+

lemma stopRuntimeServer_None: "map_of (Worker_runtimes (stopRuntimeServer slotID w)) slotID = None"
  by (simp add: stopRuntimeServer_def Let_def split: option.split)

text \<open>Starting a process: at most the new process is an orphan.\<close>

lemma startLlamaServer_loop_calm:
  assumes "startLlamaServer_loop E profile modelPath support ls lastErr w = (r, w')"
  shows "Worker_slots w' = Worker_slots w \<and> Worker_go w' = Worker_go w \<and> Worker_runtimes w' = Worker_runtimes w \<and>
    (\<forall>pid. procAlive w' pid \<longrightarrow> procAlive w pid \<or> r = Inr pid)"
  using assms
proof (induction ls arbitrary: lastErr w)
  case (Cons l ls)
  show ?case
  proof (cases "\<exists>port args. Launch_port l = Inr port \<and> llamaServerArgs profile modelPath support port = Inr args \<and> Launch_startErr l = None")
    case False
    then show ?thesis
      using Cons.prems by (auto simp: startLlamaServerProcess_def split: sum.splits option.splits)
  next
    case True
    then obtain port args where p: "Launch_port l = Inr port" "llamaServerArgs profile modelPath support port = Inr args" "Launch_startErr l = None" by blast
    define pid where "pid = Launch_pid l"
    define w1 where "w1 = snd (startLlamaServerProcess l port (assignmentKey profile) w)"
    have start: "startLlamaServerProcess l port (assignmentKey profile) w = (Inr pid, w1)"
      using p by (simp add: startLlamaServerProcess_def w1_def pid_def)
    have w1: "Worker_slots w1 = Worker_slots w" "Worker_go w1 = Worker_go w" "Worker_runtimes w1 = Worker_runtimes w"
        "\<And>q. procAlive w1 q \<Longrightarrow> procAlive w q \<or> q = pid"
      using p by (auto simp: w1_def startLlamaServerProcess_def procAlive_def pid_def split: if_splits)
    have w2: "procAlive (stopProc pid w1) q \<Longrightarrow> procAlive w q" for q
      using w1(4) [of q] stopProcs_alive [of w1 "[pid]" q] by auto
    show ?thesis
      using Cons.prems p start w1 w2 Cons.IH [of _ "stopProc pid w1"]
      by (auto simp: Let_def split: option.splits if_splits)
  qed
qed auto

lemma startLlamaServer_calm:
  assumes "startLlamaServer E L profile w = (r, w')"
  shows "Worker_slots w' = Worker_slots w \<and> Worker_go w' = Worker_go w \<and> Worker_runtimes w' = Worker_runtimes w \<and>
    (\<forall>pid. procAlive w' pid \<longrightarrow> procAlive w pid \<or> r = Inr pid)"
  using assms startLlamaServer_loop_calm [of E profile _ _ "map L [0..<3]" None w r w']
  by (auto simp: startLlamaServer_def split: sum.splits prod.splits)

lemma calm_startRuntime: "calm w (snd (startRuntimeServerForSlot E L slotID profile reset w))"
proof -
  define v where "v = stopRuntimeServer slotID w"
  obtain r w1 where s: "startLlamaServer E L profile v = (r, w1)" by fastforce
  note s1 = startLlamaServer_calm [OF s]
  have "calm v (snd (startRuntimeServerForSlot E L slotID profile reset w))"
  proof (cases r)
    case (Inl e)
    then show ?thesis
      using s s1 by (auto simp: startRuntimeServerForSlot_def v_def [symmetric] calm_def serving_def orphan_def)
  next
    case (Inr pid)
    have "map_of (Worker_runtimes v) slotID = None" by (simp add: v_def stopRuntimeServer_None)
    then show ?thesis
      using s s1 Inr
      by (auto simp: startRuntimeServerForSlot_def v_def [symmetric] registerRuntime_def spawn_def calm_def serving_def orphan_def procAlive_def)
  qed
  moreover have "calm w v" unfolding v_def by (rule calm_stopRuntimeServer)
  ultimately show ?thesis using calm_trans by blast
qed

lemma calm_ensureRuntime: "calm w (snd (ensureRuntimeServer E L slotID profile w))"
  by (simp add: ensureRuntimeServer_def calm_refl calm_startRuntime)

lemma calm_restartSlot:
  assumes "calm w v"
  shows "calm w (restartSlot E L slotID profile reason v)" and "\<not> serving (restartSlot E L slotID profile reason v) slotID"
proof -
  define u where "u = setSlotState E slotID SlotStateWarming (Profile_ID profile) reason v"
  have u: "calm w u" unfolding u_def using assms by (simp add: calm_setSlotState)
  obtain e w1 where r: "restartRuntimeServer E L slotID profile u = (e, w1)" by fastforce
  then have w1: "calm w w1"
    using calm_trans [OF u calm_startRuntime [of u E L slotID profile False]] by (simp add: restartRuntimeServer_def)
  show "calm w (restartSlot E L slotID profile reason v)"
    using r w1 by (simp add: restartSlot_def u_def [symmetric] calm_setSlotState split: option.split)
  show "\<not> serving (restartSlot E L slotID profile reason v) slotID"
    using r by (simp add: restartSlot_def u_def [symmetric] not_serving_setSlotState split: option.split)
qed

subsection \<open>The cache\<close>

lemma download_frame:
  "Worker_slots (snd (writeArtifactFile E S body err target artifact w)) = Worker_slots w"
  "Worker_go (snd (writeArtifactFile E S body err target artifact w)) = Worker_go w"
  "Worker_runtimes (snd (writeArtifactFile E S body err target artifact w)) = Worker_runtimes w"
  "Worker_procs (snd (writeArtifactFile E S body err target artifact w)) = Worker_procs w"
  "Worker_slots (snd (artifactAlreadyCached E artifact w)) = Worker_slots w"
  "Worker_go (snd (artifactAlreadyCached E artifact w)) = Worker_go w"
  "Worker_runtimes (snd (artifactAlreadyCached E artifact w)) = Worker_runtimes w"
  "Worker_procs (snd (artifactAlreadyCached E artifact w)) = Worker_procs w"
  by (simp_all add: writeArtifactFile_def artifactAlreadyCached_def Let_def split: option.split)

lemma calm_writeFile: "calm w (snd (writeArtifactFile E S body err target artifact w))"
  by (rule calm_same) (simp_all add: download_frame)

lemma calm_alreadyCached: "calm w (snd (artifactAlreadyCached E artifact w))"
  by (rule calm_same) (simp_all add: download_frame)

lemma calm_http: "calm w (snd (downloadArtifactWithHTTP E S artifact target w))"
proof (cases "Source_http S (artifactRequest w artifact)")
  case (HttpReply code status body copyErr)
  obtain e w1 where wr: "writeArtifactFile E S body copyErr target artifact w = (e, w1)" by fastforce
  then have w1: "calm w w1" using calm_writeFile [of w E S body copyErr target artifact] by simp
  obtain se w3 where seed: "seedCachedArtifact E artifact target (cacheArtifact artifact target w1) = (se, w3)" by fastforce
  then have "w3 = snd (seedCachedArtifact E artifact target (cacheArtifact artifact target w1))" by simp
  then have w3: "calm w1 w3" by (intro calm_same) simp_all
  have w4: "calm w3 (snd (saveState E (refreshP2PState E (sendArtifactState E artifact ''verified'' [] w3))))" by (intro calm_same) simp_all
  show ?thesis
    using HttpReply wr seed w1 calm_trans [OF w1 w3] calm_trans [OF calm_trans [OF w1 w3] w4]
    by (auto simp: downloadArtifactWithHTTP_def intro: calm_same split: option.split prod.split)
qed (auto simp: downloadArtifactWithHTTP_def intro: calm_same)

lemma calm_torrent: "calm w (snd (downloadArtifactWithTorrent E S artifact target w))"
proof -
  have "calm w w4" if "saveState E (refreshP2PState E (sendArtifactState E artifact ''verified'' [] (cacheArtifact artifact target (w\<lparr>Worker_p2p := p, Worker_files := f\<rparr>)))) = (e, w4)" for p f e w4
    using arg_cong [OF that, of snd] by (intro calm_same) auto
  then show ?thesis
    by (auto simp: downloadArtifactWithTorrent_def Let_def intro: calm_same split: option.split prod.split)
qed

lemma calm_download: "calm w (snd (downloadArtifact E S artifact w))"
proof -
  let ?t = "JoinPath (WCfg_CacheDir (Worker_cfg w)) (safeArtifactFileName (Spec_ID artifact))"
  obtain m e w1 where t: "downloadArtifactWithTorrent E S artifact ?t w = ((m, e), w1)" by (metis prod.exhaust)
  then have "calm w w1" using calm_torrent [of w E S artifact ?t] by simp
  then show ?thesis
    using t calm_trans [OF _ calm_http [of w1 E S artifact ?t]] by (simp add: downloadArtifact_def Let_def split: option.split)
qed

lemma calm_ensureArtifact:
  assumes "\<And>v. calm v (onStart v)"
  shows "calm w (snd (ensureArtifactDetailed E S artifact onStart w))"
proof -
  obtain b w1 where c1: "artifactAlreadyCached E artifact w = (b, w1)" by fastforce
  obtain ae w3 where acq: "acquireDownloadSlot E (Source_ctxErr S) (sendArtifactState E artifact ''download_queued'' [] w1) = (ae, w3)" by fastforce
  obtain b2 w4 where c2: "artifactAlreadyCached E artifact w3 = (b2, w4)" by fastforce
  define w5 where "w5 = onStart (sendArtifactState E artifact ''downloading'' [] w4)"
  obtain dr w6 where d: "downloadArtifact E S artifact w5 = (dr, w6)" by fastforce
  have s1: "calm w w1" using calm_alreadyCached [of w E artifact] c1 by simp
  have "calm w1 w3"
    using arg_cong [OF acq, of snd] by (intro calm_same) auto
  then have s3: "calm w w3" using calm_trans [OF s1] by blast
  have s4: "calm w w4" using calm_trans [OF s3] calm_alreadyCached [of w3 E artifact] c2 by simp
  have "calm w (sendArtifactState E artifact ''downloading'' [] w4)" by (rule calm_frame [OF s4]) simp_all
  then have s5: "calm w w5" unfolding w5_def by (rule calm_trans [OF _ assms])
  have "calm w5 w6" using calm_download [of w5 E S artifact] d by simp
  then have s6: "calm w w6" by (rule calm_trans [OF s5])
  have out: "calm w (releaseDownload E v)" "calm w (sendArtifactState E artifact st x v)" if "calm w v" for v st x
    by (rule calm_frame [OF that]; simp)+
  show ?thesis
    using c1 c2 acq d s1 s3 s4 s6
    by (auto simp: ensureArtifactDetailed_def w5_def [symmetric] out calm_refl split: option.split bool.split)
qed

lemma calm_ensureArtifacts:
  assumes "\<And>v. calm v (onStart v)"
  shows "calm w (snd (ensureArtifacts_loop E S onStart artifacts w))"
proof (induction artifacts arbitrary: w)
  case (Cons a as)
  obtain r w1 where e: "ensureArtifactDetailed E (S (Spec_ID a)) a onStart w = (r, w1)" by fastforce
  then have "calm w w1" using calm_ensureArtifact [of onStart w E "S (Spec_ID a)" a] assms by simp
  then show ?case
    using e calm_trans Cons.IH [of w1] by (auto simp: ensureArtifactWithStart_def split: sum.split)
qed (simp add: calm_refl)

lemma calm_evictSlots:
  assumes "foldl evictSlot (u, v) ids = (updates, v')" and "\<And>sid pid. sid \<in> set ids \<Longrightarrow> map_of (Worker_runtimes v) sid = Some pid \<Longrightarrow> \<not> procAlive v pid"
  shows "calm v v'"
proof -
  have "Worker_go v' = Worker_go v" "Worker_procs v' = Worker_procs v"
    using arg_cong [OF evictSlots_frame [OF assms(1)], of Worker_go] arg_cong [OF evictSlots_frame [OF assms(1)], of Worker_procs] by simp_all
  then show ?thesis
    using evictSlots_slots [OF assms(1)] assms(2)
    by (auto simp: calm_def serving_def orphan_def procAlive_def clearEvictedSlot_def split: if_splits)
qed

lemma calm_stopProcs: "calm w (foldl (\<lambda>w pid. stopProc pid w) w pids)"
proof (induction pids rule: rev_induct)
  case (snoc p pids)
  then show ?case by (simp add: calm_stopProc)
qed (simp add: calm_refl)

lemma calm_evict: "calm w (snd (evictArtifact E removeErr payload w))"
proof -
  define aid where "aid = NormalizeSHA256 (EvictP_ArtifactID payload)"
  have out: "calm w (sendArtifactState E a st x v)" if "calm w v" for a st x v
    by (rule calm_frame [OF that]; simp)
  show ?thesis
  proof (cases "planArtifactEviction aid w")
    case (Inl e)
    then show ?thesis by (simp add: evictArtifact_def aid_def [symmetric] out calm_refl Let_def)
  next
    case (Inr plan)
    define w1 where "w1 = foldl (\<lambda>w pid. stopProc pid w) w (EvictPlan_procs plan)"
    define p1 where "p1 = refreshP2PState E (withP2P (StopSeeding aid) w1)"
    define p2 where "p2 = (if EvictPlan_path plan \<noteq> [] then removeFile (EvictPlan_path plan) p1 else p1)"
    obtain updates w3 where w3: "applyArtifactEviction aid plan p2 = (updates, w3)" by fastforce
    obtain se w4 where w4: "saveState E w3 = (se, w4)" by fastforce
    have r1: "Worker_runtimes w1 = Worker_runtimes w"
      using arg_cong [OF stopProcs_frame [OF w1_def], of Worker_runtimes] by simp
    have "calm w w1" unfolding w1_def by (rule calm_stopProcs)
    moreover have "calm w1 p1" unfolding p1_def by (rule calm_same) simp_all
    ultimately have c1: "calm w p1" using calm_trans by blast
    have "calm p1 p2" unfolding p2_def by (auto intro: calm_same)
    then have c2: "calm w p2" using calm_trans [OF c1] by blast
    define x where "x = p2\<lparr>Worker_cache := mdel aid (Worker_cache p2), Worker_cacheState := mdel aid (Worker_cacheState p2),
         Worker_assigns := foldl (\<lambda>m k. mdel k m) (Worker_assigns p2) (EvictPlan_profiles plan),
         Worker_warm := foldl (\<lambda>m k. mdel k m) (Worker_warm p2) (EvictPlan_profiles plan)\<rparr>"
    have fold: "foldl evictSlot ([], x) (EvictPlan_slotIDs plan) = (updates, w3)"
      using w3 by (simp add: applyArtifactEviction_def x_def)
    have "\<not> procAlive x pid" if "sid \<in> set (EvictPlan_slotIDs plan)" "map_of (Worker_runtimes x) sid = Some pid" for sid pid
    proof -
      have "pid \<in> set (EvictPlan_procs plan)"
        using that r1 planArtifactEviction_Inr(5) [OF Inr] by (auto simp: x_def p2_def p1_def split: if_splits)
      then have "\<not> procAlive w1 pid" unfolding w1_def by (simp add: stopProcs_alive)
      then show ?thesis by (simp add: procAlive_def x_def p2_def p1_def)
    qed
    then have "calm x w3" by (rule calm_evictSlots [OF fold])
    moreover have "calm p2 x" unfolding x_def by (rule calm_same) simp_all
    moreover have "calm w3 w4" using arg_cong [OF w4, of snd] by (intro calm_same) auto
    ultimately have c4: "calm w w4" using c2 calm_trans by blast
    have "calm w4 (foldl (\<lambda>w slot. sendSlotState E slot w) w4 updates)"
      using same_but_send [OF sendSlotStates_frame [of E w4 updates]] by (intro calm_same) auto
    then have c5: "calm w (foldl (\<lambda>w slot. sendSlotState E slot w) w4 updates)" using c4 calm_trans by blast
    show ?thesis
      unfolding evictArtifact_def Let_def aid_def [symmetric] Inr sum.case w1_def [symmetric] p1_def [symmetric] p2_def [symmetric]
      using w3 w4 c1 c4 c5 by (auto simp: out calm_refl split: option.split)
  qed
qed

subsection \<open>Assignments, messages and updates\<close>

lemma calm_runAssignment: "calm w (snd (runAssignment E S L payload w))"
proof -
  let ?pid = "Profile_ID (Assign_Profile payload)"
  have save: "calm w (snd (saveState E v))" if "calm w v" for v
    by (rule calm_frame [OF that]) simp_all
  have cached: "calm w (snd (ensureCachedAssignment E S payload w))"
    using calm_ensureArtifacts [of id w E S "Assign_Artifacts payload"]
    by (auto simp: ensureCachedAssignment_def calm_refl save split: option.split prod.split)
  have slot: "calm w (snd (ensureSlotCached E S sid payload w))" for sid
  proof -
    define w1 where "w1 = (if \<not> artifactsCached (Assign_Artifacts payload) w then setSlotState E sid SlotStateDownloadQueued ?pid [] w else w)"
    have w1: "calm w w1" by (simp add: w1_def calm_refl calm_setSlotState)
    obtain e w2 where e: "ensureArtifacts_loop E S (setSlotState E sid SlotStateDownloading ?pid []) (Assign_Artifacts payload) w1 = (e, w2)" by fastforce
    then have "calm w w2"
      using calm_trans [OF w1 calm_ensureArtifacts [of "setSlotState E sid SlotStateDownloading ?pid []" w1 E S "Assign_Artifacts payload"]]
      by (simp add: calm_setSlotState calm_refl)
    then show ?thesis
      using e by (simp add: ensureSlotCached_def w1_def [symmetric] calm_setSlotState calm_refl Let_def split: option.split)
  qed
  have warm: "calm w (snd (ensureSlotWarm E L sid payload v))" if "calm w v" for sid v
  proof -
    define w1 where "w1 = setSlotState E sid SlotStateLoading ?pid [] v"
    define w2 where "w2 = setSlotState E sid SlotStateWarming ?pid [] w1"
    have w1: "calm w w1" and w2: "calm w w2" using that by (simp_all add: w1_def w2_def calm_setSlotState)
    obtain e w3 where e: "ensureRuntimeServer E L sid (Assign_Profile payload) w2 = (e, w3)" by fastforce
    then have "calm w w3" using calm_trans [OF w2 calm_ensureRuntime [of w2 E L sid "Assign_Profile payload"]] by simp
    then show ?thesis
      using e w1 that by (simp add: ensureSlotWarm_def w1_def [symmetric] w2_def [symmetric] calm_setSlotState Let_def split: option.split)
  qed
  show ?thesis
  proof (cases "Assign_Cached payload \<and> \<not> Assign_Warm payload")
    case False
    obtain sid fit where f: "localFit (Assign_Profile payload) (Assign_SlotID payload) w = (sid, fit)" by fastforce
    obtain e1 w1 where e1: "ensureSlotCached E S sid payload w = (e1, w1)" by fastforce
    have w1: "calm w w1" using slot [of sid] e1 by simp
    obtain e2 w2 where e2: "ensureSlotWarm E L sid payload w1 = (e2, w2)" by fastforce
    have w2: "calm w w2" using warm [OF w1, of sid] e2 by simp
    show ?thesis
      using False f e1 e2 w1 w2 by (auto simp: runAssignment_def calm_setAnySlotState calm_refl save split: option.split)
  qed (use cached in \<open>simp add: runAssignment_def\<close>)
qed

lemma calm_goAssignment: "calm w (goAssignment E S L payload w)"
proof -
  obtain e w1 where r: "runAssignment E S L payload w = (e, w1)" by fastforce
  then have "calm w w1" using calm_runAssignment [of w E S L payload] by simp
  then show ?thesis
    using r by (auto simp: goAssignment_def finishAssignment_def recordAssignmentFailure_def intro: calm_frame split: option.split)
qed

lemma calm_watch:
  assumes "\<not> procAlive w pid"
  shows "calm w (watchRuntimeServer E L slotID profile pid w)"
proof -
  obtain b w1 where c: "claimExitedRuntime slotID pid w = (b, w1)" by fastforce
  have w1: "calm w w1"
    using c assms by (auto simp: claimExitedRuntime_def calm_refl calm_def serving_def orphan_def procAlive_def split: if_splits)
      (metis option.inject)
  obtain b2 w2 where r: "reserveRuntimeRestart slotID w1 = (b2, w2)" by fastforce
  have w2: "calm w w2"
    using r calm_frame [OF w1, of w2] by (auto simp: reserveRuntimeRestart_def Let_def split: if_splits)
  show ?thesis
    using c r w1 calm_restartSlot(1) [OF w2] calm_setSlotState [OF w2]
    by (simp add: watchRuntimeServer_def split: bool.split)
qed

lemma calm_recover:
  "calm w (recoverRuntimeSlot E L healthy slotID profile reason w)" "\<not> serving (recoverRuntimeSlot E L healthy slotID profile reason w) slotID"
proof -
  obtain b w1 where r: "reserveRuntimeRestart slotID w = (b, w1)" by fastforce
  have w1: "calm w w1"
    using r by (auto simp: reserveRuntimeRestart_def calm_refl Let_def intro: calm_same split: if_splits)
  show "calm w (recoverRuntimeSlot E L healthy slotID profile reason w)"
    using r calm_restartSlot(1) [OF w1] calm_setSlotState [OF calm_refl] calm_setSlotState [OF calm_trans [OF w1 calm_stopRuntimeServer]]
    by (simp add: recoverRuntimeSlot_def split: bool.split)
  show "\<not> serving (recoverRuntimeSlot E L healthy slotID profile reason w) slotID"
    using r calm_restartSlot(2) [OF w1] by (simp add: recoverRuntimeSlot_def not_serving_setSlotState split: bool.split)
qed

lemma calm_reseed: "calm w (reseedCachedArtifacts E w)"
proof -
  have "calm w (foldl (\<lambda>w (artifactID, entry). if CachedSt_Path entry = [] \<or> CachedSt_Torrent entry = None then w
         else snd (seedCachedArtifact E (cachedSpec artifactID entry) (CachedSt_Path entry) w)) v es)" if "calm w v" for v es
    using that
  proof (induction es arbitrary: v)
    case (Cons x es)
    obtain a e where x: "x = (a, e)" by fastforce
    have "calm w (snd (seedCachedArtifact E spec p v))" for spec p
      by (rule calm_frame [OF Cons.prems]) simp_all
    with Cons x show ?case by simp
  qed simp
  then show ?thesis by (simp add: reseedCachedArtifacts_def calm_refl)
qed

lemma calm_p2pConfig: "calm w (applyP2PConfig E enabled w)"
proof -
  have "calm w (refreshP2PState E (reseedCachedArtifacts E (w\<lparr>Worker_p2p := p, Worker_node := n\<rparr>)))" for p n
    by (rule calm_frame [OF calm_trans [OF calm_same calm_reseed]]) simp_all
  then show ?thesis by (auto simp: applyP2PConfig_def Let_def intro: calm_same calm_refl)
qed

lemma calm_queueAssignment: "calm w (snd (queueAssignment E payload w))"
  by (auto simp: queueAssignment_def beginAssignment_def Let_def calm_refl intro!: calm_spawn intro: calm_same split: option.split)

lemma calm_seen: "calm w (snd (worker_seen E mid w))"
  by (auto simp: worker_seen_def Let_def intro: calm_same calm_refl)

lemma calm_envelope: "calm w (snd (handleEnvelope E removeErr msg w))"
proof -
  define r where "r = (if Env_ID msg \<noteq> [] then worker_seen E (Env_ID msg) w else (False, w))"
  obtain b v where rv: "r = (b, v)" by fastforce
  have v: "calm w v" using rv calm_seen [of w E "Env_ID msg"] by (auto simp: r_def calm_refl split: if_splits)
  have ack: "calm u (ackMessage msg t a u')" if "calm u u'" for u u' t a
    by (rule calm_frame [OF that]) simp_all
  have q: "calm v (snd (workerAssignProfile E msg v))"
    using calm_queueAssignment [of v E]
    by (auto simp: workerAssignProfile_def calm_refl intro!: ack split: sum.split option.split prod.split) (metis snd_conv)+
  have e: "calm v (snd (workerEvictArtifact E removeErr msg v))"
    using calm_evict [of v E removeErr]
    by (auto simp: workerEvictArtifact_def calm_refl intro!: ack split: sum.split option.split prod.split) (metis snd_conv)+
  have others: "calm v (snd (workerAck E msg v))" "calm v (snd (workerExecuteTask E msg v))" "calm v (snd (workerCancelTask E msg v))"
    "calm v (snd (workerP2PConfig E msg v))" "calm v (snd (workerUpdate E msg v))"
    by (auto simp: workerAck_def workerExecuteTask_def workerCancelTask_def workerP2PConfig_def workerUpdate_def worker_cancelAttempt_def
        intro!: ack calm_spawn calm_p2pConfig intro: calm_refl calm_same split: sum.split)
  have "calm v (snd (handleEnvelope E removeErr msg w))"
    using q e others ack [OF calm_refl] by (auto simp: handleEnvelope_def r_def [symmetric] rv Let_def calm_refl split: bool.split)
  then show ?thesis by (rule calm_trans [OF v])
qed

lemma calm_setPaused: "calm w (setPaused E paused w)"
proof -
  have "calm w (foldl (\<lambda>w slot. if Slot_State slot = SlotStateReady then sendSlotState E slot w else w) v slots)" if "calm w v" for v slots
    using that
  proof (induction slots arbitrary: v)
    case (Cons s slots)
    have "calm w (sendSlotState E s v)" by (rule calm_frame [OF Cons.prems]) simp_all
    with Cons show ?case by simp
  qed simp
  then show ?thesis by (simp add: setPaused_def calm_refl calm_same)
qed

lemma calm_status: "calm w (snd (statusRequest E removeErr httpMethod path artifactID w))"
proof -
  obtain e w1 where e: "evictArtifact E removeErr \<lparr>EvictP_ArtifactID = artifactID, EvictP_Reason = []\<rparr> w = (e, w1)" by fastforce
  then have w1: "calm w w1" using calm_evict [of w E removeErr "\<lparr>EvictP_ArtifactID = artifactID, EvictP_Reason = []\<rparr>"] by simp
  have "calm w (removeFile p w1)" for p by (rule calm_frame [OF w1]) simp_all
  then have "calm w (snd (cacheDelete E removeErr artifactID w))"
    using e w1 by (simp add: cacheDelete_def calm_refl Let_def split: option.split)
  moreover have "calm w (snd (StatusSnapshot E w))" by (rule calm_same) (simp_all add: StatusSnapshot_def Let_def)
  ultimately show ?thesis
    by (simp add: statusRequest_def calm_refl calm_setPaused)
qed

lemma calm_update:
  assumes "handleUpdate E S V I upd w = UpdateDone w'"
  shows "calm w w'"
proof -
  define spec where "spec = (if Spec_Kind (UpdateP_Artifact upd) = [] then (UpdateP_Artifact upd)\<lparr>Spec_Kind := ''worker_update''\<rparr> else UpdateP_Artifact upd)"
  obtain r w1 where e: "ensureArtifactDetailed E S spec id w = (r, w1)" by fastforce
  then have w1: "calm w w1" using calm_ensureArtifact [of id w E S spec] by (simp add: calm_refl)
  have out: "calm w (sendUpdateTelemetry E u st d v)" if "calm w v" for u st d v
    by (rule calm_frame [OF that]) simp_all
  have inst: "calm w (v\<lparr>Worker_files := f\<rparr>)" if "calm w v" for v f
    by (rule calm_frame [OF that]) simp_all
  show ?thesis
    using assms e w1 unfolding handleUpdate_def Let_def spec_def [symmetric]
    by (auto simp: calm_refl intro!: out inst split: if_splits sum.splits option.splits prod.splits)
qed

subsection \<open>The run of a task\<close>

lemma emitToken_frame:
  assumes "emitToken E X payload token s = (e, s')"
  shows "(Emit_worker s')\<lparr>Worker_send := []\<rparr> = (Emit_worker s)\<lparr>Worker_send := []\<rparr>"
  using assms by (auto simp: emitToken_def sendTaskToken_def worker_message_def worker_enqueue_def split: if_splits)

text \<open>What every emission keeps, the whole stream keeps.\<close>

lemma emitChoices_keeps:
  assumes "emitChoices emit now contents stats s = (e, stats', s')" "P s" and "\<And>c s e s'. P s \<Longrightarrow> emit c s = (e, s') \<Longrightarrow> P s'"
  shows "P s'"
  using assms(1,2)
proof (induction contents arbitrary: stats s)
  case (Cons c cs)
  obtain x u where t: "emit c s = (x, u)" by fastforce
  show ?case
    using Cons.prems Cons.IH t assms(3) [OF Cons.prems(2) t] by (auto simp: Let_def split: if_splits option.splits)
qed simp

lemma readStream_keeps:
  assumes "readLlamaServerStream decode emit now lines scanErr stats s = (e, stats', s')" "P s" and "\<And>c s e s'. P s \<Longrightarrow> emit c s = (e, s') \<Longrightarrow> P s'"
  shows "P s'"
  using assms(1,2)
proof (induction lines arbitrary: stats s)
  case (Cons l ls)
  let ?p = "TrimSpace (drop 5 (TrimSpace l))"
  obtain x st' u where pl: "emitLlamaStreamPayload decode emit now ?p stats s = (x, st', u)" by (metis prod.exhaust)
  have u: "P u"
  proof (cases "decode ?p")
    case (Inr chunk)
    obtain y st2 v where c: "emitChoices emit now (Chunk_Choices chunk) stats s = (y, st2, v)" by (metis prod.exhaust)
    then have "P v" using emitChoices_keeps [where P = P] Cons.prems(2) assms(3) by blast
    then show ?thesis using pl c Inr by (auto simp: emitLlamaStreamPayload_def split: option.splits)
  qed (use pl Cons.prems(2) in \<open>simp add: emitLlamaStreamPayload_def\<close>)
  show ?case
  proof (cases "HasPrefix (TrimSpace l) ''data:'' \<and> ?p \<noteq> ''[DONE]'' \<and> x = None")
    case True
    then show ?thesis using Cons.prems Cons.IH [of st' u] pl u by (simp add: Let_def)
  next
    case False
    then show ?thesis
      using Cons.prems Cons.IH [of stats s] pl u by (auto simp: Let_def split: if_splits option.splits)
  qed
qed (auto split: option.splits)

lemma streamTokens_keeps:
  assumes "streamRuntimeTokens X now payload emit w s = (e, stats, s')" "P s" and "\<And>c s e s'. P s \<Longrightarrow> emit c s = (e, s') \<Longrightarrow> P s'"
  shows "P s'"
  using assms(1,2) readStream_keeps [where P = P, OF _ _ assms(3)]
  by (auto simp: streamRuntimeTokens_def split: sum.splits stream_response.splits if_splits)

lemma streamTokens_frame:
  assumes "streamRuntimeTokens X now payload (emitToken E X payload) w s = (e, stats, s')"
  shows "(Emit_worker s')\<lparr>Worker_send := []\<rparr> = (Emit_worker s)\<lparr>Worker_send := []\<rparr>"
  by (rule streamTokens_keeps [OF assms]) (simp, metis emitToken_frame)

text \<open>A task that streams ends with its slot free, or with a recovery of the slot.\<close>

lemma finishTask_calm:
  "calm w (finishTask E X payload start w)"
  "serving (finishTask E X payload start w) (Exec_SlotID payload) \<Longrightarrow>
     \<exists>reason. GoRecover (Exec_SlotID payload) (Exec_Profile payload) reason \<in> set (Worker_go (finishTask E X payload start w))"
proof -
  let ?s0 = "\<lparr>Emit_worker = w, Emit_firstAt = None, Emit_sent = 0\<rparr>"
  obtain e stats s where r: "streamRuntimeTokens X (E_now E) payload (emitToken E X payload) w ?s0 = (e, stats, s)" by (metis prod.exhaust)
  have "(Emit_worker s)\<lparr>Worker_send := []\<rparr> = w\<lparr>Worker_send := []\<rparr>" using streamTokens_frame [OF r] by simp
  note same = same_but_send [OF this]
  have w1: "calm w (Emit_worker s)" by (rule calm_same) (simp_all add: same)
  have out: "calm w (sendReport E payload st ph rs sta c sts v)" "calm w (failExecution E payload st ph rs c f n fa v)"
      "calm w (unregisterActiveAttempt a v)" if "calm w v" for st ph rs sta c sts v f n fa a
    by (rule calm_frame [OF that]; simp add: unregisterActiveAttempt_def)+
  show "calm w (finishTask E X payload start w)"
    using w1 by (auto simp: finishTask_def r Let_def intro!: out calm_spawn calm_setSlotState split: option.split)
  show "\<exists>reason. GoRecover (Exec_SlotID payload) (Exec_Profile payload) reason \<in> set (Worker_go (finishTask E X payload start w))"
    if "serving (finishTask E X payload start w) (Exec_SlotID payload)"
  proof (cases e)
    case None
    then have "Worker_slots (finishTask E X payload start w) =
        Worker_slots (setSlotState E (Exec_SlotID payload) SlotStateReady (Profile_ID (Exec_Profile payload)) [] (Emit_worker s))"
      by (simp add: finishTask_def r Let_def unregisterActiveAttempt_def)
    then have "serving (setSlotState E (Exec_SlotID payload) SlotStateReady (Profile_ID (Exec_Profile payload)) [] (Emit_worker s)) (Exec_SlotID payload)"
      using that unfolding serving_def by simp
    moreover have "SlotStateReady \<noteq> SlotStateServing" by simp
    ultimately show ?thesis using not_serving_setSlotState by metis
  next
    case (Some t)
    then show ?thesis
      by (auto simp: finishTask_def r Let_def unregisterActiveAttempt_def) (auto simp: spawn_def)
  qed
qed

lemma beginTask_calm:
  assumes "serving (beginTask E payload w) sid"
  shows "serving w sid \<or> sid = Exec_SlotID payload \<and> GoStream payload (E_now E) \<in> set (Worker_go (beginTask E payload w))"
  using assms
  by (auto simp: beginTask_def registerActiveAttempt_def unregisterActiveAttempt_def serving_def split: option.splits if_splits)
    (auto simp: setSlotServing_def spawn_def Let_def split: if_splits)

lemma beginTask_frame:
  "set (Worker_go w) \<subseteq> set (Worker_go (beginTask E payload w))" "Worker_runtimes (beginTask E payload w) = Worker_runtimes w"
  "Worker_procs (beginTask E payload w) = Worker_procs w"
  by (auto simp: beginTask_def registerActiveAttempt_def unregisterActiveAttempt_def spawn_def split: option.split)

subsection \<open>The invariant\<close>

fun releases :: "string \<Rightarrow> goroutine \<Rightarrow> bool" where
  "releases sid (GoStream payload start) = (Exec_SlotID payload = sid)"
| "releases sid (GoRecover slotID profile reason) = (slotID = sid)"
| "releases sid g = False"

definition worker_ok :: "Worker \<Rightarrow> bool" where
  "worker_ok w \<longleftrightarrow> (\<forall>sid. serving w sid \<longrightarrow> (\<exists>g \<in> set (Worker_go w). releases sid g)) \<and> (\<forall>pid. \<not> orphan w pid)"

lemma worker_ok_calm: "worker_ok w \<Longrightarrow> calm w w' \<Longrightarrow> worker_ok w'"
  unfolding worker_ok_def calm_def by (meson subsetD)

lemma unspawn_sel: "Worker_slots (unspawn g w) = Worker_slots w" "Worker_runtimes (unspawn g w) = Worker_runtimes w"
  "Worker_procs (unspawn g w) = Worker_procs w" "Worker_go (unspawn g w) = remove1 g (Worker_go w)"
  by (simp_all add: unspawn_def)

lemma worker_ok_unspawn:
  assumes "worker_ok w" and "\<And>sid. serving w' sid \<Longrightarrow> serving w sid \<and> \<not> releases sid g \<or> (\<exists>h \<in> set (Worker_go w'). releases sid h)"
    and "set (remove1 g (Worker_go w)) \<subseteq> set (Worker_go w')" and "\<And>pid. orphan w' pid \<Longrightarrow> orphan w pid"
  shows "worker_ok w'"
proof -
  have "\<exists>h \<in> set (Worker_go w'). releases sid h" if "serving w sid" "\<not> releases sid g" for sid
  proof -
    obtain h where "h \<in> set (Worker_go w)" "releases sid h" using assms(1) \<open>serving w sid\<close> by (auto simp: worker_ok_def)
    with that(2) assms(3) show ?thesis by (metis in_set_remove1 subsetD)
  qed
  then show ?thesis using assms(1,2,4) unfolding worker_ok_def by blast
qed

lemma worker_ok_go:
  assumes "worker_ok w" and "calm (unspawn g w) w'" and "\<And>sid. serving w' sid \<Longrightarrow> releases sid g \<Longrightarrow> \<exists>h \<in> set (Worker_go w'). releases sid h"
  shows "worker_ok w'"
proof (rule worker_ok_unspawn [OF assms(1)])
  have same: "serving (unspawn g w) = serving w" "orphan (unspawn g w) = orphan w"
    by (simp_all add: fun_eq_iff serving_def orphan_def procAlive_def unspawn_sel)
  show "serving w' sid \<Longrightarrow> serving w sid \<and> \<not> releases sid g \<or> (\<exists>h \<in> set (Worker_go w'). releases sid h)" for sid
    using assms(2) assms(3) [of sid] unfolding calm_def same by blast
  show "set (remove1 g (Worker_go w)) \<subseteq> set (Worker_go w')" using assms(2) by (simp add: calm_def unspawn_sel)
  show "orphan w' pid \<Longrightarrow> orphan w pid" for pid using assms(2) unfolding calm_def same by blast
qed

lemma worker_step_ok:
  assumes "worker_step w w'" and ok: "worker_ok w"
  shows "worker_ok w'"
  using assms(1)
proof cases
  case (receive E removeErr msg)
  obtain e v where h: "handleEnvelope E removeErr msg w = (e, v)" by fastforce
  then have "calm w v" using calm_envelope [of w E removeErr msg] by simp
  then have "calm w w'" using h by (auto simp: receive worker_readLoop_def intro: calm_frame split: option.split)
  then show ?thesis by (rule worker_ok_calm [OF ok])
next
  case written
  have "calm w w'" by (auto simp: written worker_writeLoop_def intro: calm_same split: list.split)
  then show ?thesis by (rule worker_ok_calm [OF ok])
next
  case (connected E dialErr)
  have "calm w w'" by (auto simp: connected connect_def intro: calm_same split: option.split)
  then show ?thesis by (rule worker_ok_calm [OF ok])
next
  case (disconnected err)
  have "calm w w'" by (auto simp: disconnected disconnect_def Let_def intro: calm_same split: option.split)
  then show ?thesis by (rule worker_ok_calm [OF ok])
next
  case (beat E)
  have "calm w w'" by (auto simp: beat intro: calm_same)
  then show ?thesis by (rule worker_ok_calm [OF ok])
next
  case (lease attempt E task)
  have "calm w w'" by (auto simp: lease intro: calm_same)
  then show ?thesis by (rule worker_ok_calm [OF ok])
next
  case (status E removeErr httpMethod path artifactID)
  then show ?thesis using worker_ok_calm [OF ok calm_status] by simp
next
  case (exits pid err)
  then show ?thesis using worker_ok_calm [OF ok calm_exitProc] by simp
next
  case (assignment payload E S L)
  show ?thesis unfolding assignment(1) by (rule worker_ok_go [OF ok calm_goAssignment]) simp
next
  case (execute task E)
  let ?v = "unspawn (GoExecute task) w"
  have same: "serving ?v = serving w" by (simp add: fun_eq_iff serving_def unspawn_sel)
  show ?thesis
  proof (rule worker_ok_unspawn [OF ok, where g = "GoExecute task"])
    show "serving w' sid \<Longrightarrow> serving w sid \<and> \<not> releases sid (GoExecute task) \<or> (\<exists>h \<in> set (Worker_go w'). releases sid h)" for sid
      using beginTask_calm [where payload = task and w = ?v and E = E and sid = sid] unfolding execute(1) same by force
    show "set (remove1 (GoExecute task) (Worker_go w)) \<subseteq> set (Worker_go w')"
      using beginTask_frame(1) [where w = ?v and E = E and payload = task] by (simp add: execute(1) unspawn_sel)
    show "orphan w' pid \<Longrightarrow> orphan w pid" for pid
      by (simp add: execute(1) orphan_def procAlive_def beginTask_frame unspawn_sel)
  qed
next
  case (stream task start E X)
  show ?thesis
    using finishTask_calm(2) [of E X task start "unspawn (GoStream task start) w"]
    unfolding stream(1) by (intro worker_ok_go [OF ok finishTask_calm(1)]) (auto intro: releases.simps(2) [THEN iffD2])
next
  case (watch slotID profile pid E L)
  have "\<not> procAlive (unspawn (GoWatch slotID profile pid) w) pid" using watch(3) by (simp add: procAlive_def unspawn_sel)
  then show ?thesis unfolding watch(1) by (intro worker_ok_go [OF ok calm_watch]) simp_all
next
  case (recover slotID profile reason E L healthy)
  show ?thesis
    unfolding recover(1) using calm_recover(2) by (intro worker_ok_go [OF ok calm_recover(1)]) auto
next
  case (update upd E source V I)
  show ?thesis by (rule worker_ok_go [OF ok calm_update [OF update(3)]]) simp
qed

lemma newWorkerSlots_idle: "map_of (newWorkerSlots cfg target adapters) sid = Some slot \<Longrightarrow> Slot_State slot = SlotStateIdle"
proof -
  define f where "f = (\<lambda>slots i. let sid = WCfg_NodeID cfg @ ''/metal'' @ show_nat i in
         mput sid (zero_Slot\<lparr>Slot_ID := sid, Slot_NodeID := WCfg_NodeID cfg, Slot_Target := target,
           Slot_RuntimeAdapter := firstRuntimeAdapter adapters, Slot_Resources := workerBudget cfg 1,
           Slot_State := SlotStateIdle, Slot_AcceptsNew := False\<rparr>) slots)"
  define idle where "idle = (\<lambda>m :: Slot gomap. \<forall>sid slot. map_of m sid = Some slot \<longrightarrow> Slot_State slot = SlotStateIdle)"
  have step: "idle m \<Longrightarrow> idle (f m i)" for m i by (simp add: idle_def f_def Let_def)
  have "idle m \<Longrightarrow> idle (foldl f m is)" for m "is" by (induction "is" arbitrary: m) (simp_all add: step)
  moreover have "idle []" by (simp add: idle_def)
  ultimately have "idle (foldl f [] is)" for "is" by blast
  then show "map_of (newWorkerSlots cfg target adapters) sid = Some slot \<Longrightarrow> Slot_State slot = SlotStateIdle"
    unfolding newWorkerSlots_def f_def [symmetric] idle_def by blast
qed

lemma worker_init_ok: "worker_init w \<Longrightarrow> worker_ok w"
proof -
  assume "worker_init w"
  then obtain E cfg files where n: "NewWorker E None cfg files = Inr w" by (auto simp: worker_init_def)
  then obtain v cfg' t as where v: "saveState E (initP2P E v) = (None, w)" and p: "Worker_procs v = []" "Worker_slots v = newWorkerSlots cfg' t as"
    by (fastforce simp: NewWorker_def Let_def split: prod.splits option.splits)
  have w: "w = snd (saveState E (initP2P E v))" using v by simp
  have "Worker_procs w = []" "Worker_slots w = newWorkerSlots cfg' t as" by (simp_all add: w initP2P_frame p)
  then show ?thesis
    using newWorkerSlots_idle [of cfg' t as] by (fastforce simp: worker_ok_def serving_def orphan_def procAlive_def)
qed

interpretation worker: invariant_system worker_init worker_step worker_ok
  by unfold_locales (auto intro: worker_init_ok worker_step_ok)

end
