(* ===== verification/Worker_Properties.thy ===== *)
theory Worker_Properties
  imports Worker_Steps
begin

section \<open>What the worker guarantees\<close>

text \<open>
  Slots are released, crash loops end, a redelivered message has no second effect, and a task that
  streamed is reported exactly once, after its tokens in their order.
\<close>

subsection \<open>A run for the witnesses\<close>

text \<open>
  A worker starts with a model in its cache, is assigned a profile, launches its runtime and begins
  a task.
\<close>

definition run_profile :: WorkloadProfile where
  "run_profile = sample_profile\<lparr>Profile_LLM := Some (zero_LLMProfile\<lparr>LLM_ContextTokens := 64\<rparr>)\<rparr>"

definition run_assignment :: AssignmentPayload where
  "run_assignment = \<lparr>Assign_Profile = run_profile, Assign_Artifacts = [sample_spec], Assign_SlotID = ''n1/metal0'', Assign_Cached = False, Assign_Warm = True\<rparr>"

definition run_task :: ExecuteTaskPayload where
  "run_task = \<lparr>Exec_TaskID = ''t1'', Exec_AttemptID = ''a1'', Exec_SlotID = ''n1/metal0'', Exec_Profile = run_profile,
     Exec_Artifacts = [sample_spec], Exec_Messages = [], Exec_MaxTokens = 8, Exec_Temperature = 0, Exec_RequestedAt = 0\<rparr>"

definition run_env :: worker_env where
  "run_env = sample_env\<lparr>E_codec := sample_worker_codec\<lparr>unmarshalAssignment := (\<lambda>_. Inr run_assignment), unmarshalExecute := (\<lambda>_. Inr run_task),
     unmarshalState := (\<lambda>_. \<lparr>WState_NodeID = ''n1'', WState_NodeToken = ''tok'', WState_Cache = [(''sha256:aa'', ''/w/cache/m'')], WState_CachedArtifacts = [],
       WState_WarmProfile = []\<rparr>)\<rparr>\<rparr>"

definition run_cfg :: WorkerConfig where
  "run_cfg = sample_worker_cfg\<lparr>WCfg_LlamaServerPath := ''/opt/llama-server'', WCfg_UnifiedBytes := 100, WCfg_DiskBytes := 100\<rparr>"

definition run_launch :: launch where
  "run_launch = \<lparr>Launch_port = Inr 80, Launch_startErr = None, Launch_pid = ''41'', Launch_stderr = [], Launch_probes = [True],
     Launch_end = StartDeadline\<rparr>"

definition run_message :: "string \<Rightarrow> string \<Rightarrow> Envelope" where
  "run_message mid type = \<lparr>Env_ID = mid, Env_Type = type, Env_NodeID = ''n1'', Env_TaskID = [], Env_Attempt = [], Env_Payload = ''{}''\<rparr>"

definition run_started :: Worker where
  "run_started = (case NewWorker run_env None run_cfg [(''/w/state.json'', ''{}''), (''/w/cache/m'', ''aa'')] of Inr w \<Rightarrow> w | Inl _ \<Rightarrow> sample_worker)"

definition run_assigned :: Worker where
  "run_assigned = worker_readLoop run_env None (run_message ''m1'' MsgAssignProfile) run_started"

definition run_ready :: Worker where
  "run_ready = goAssignment run_env (\<lambda>_. sample_source) (\<lambda>_. run_launch) run_assignment (unspawn (GoAssignment run_assignment) run_assigned)"

definition run_asked :: Worker where
  "run_asked = worker_readLoop run_env None (run_message ''m2'' MsgExecuteTask) run_ready"

definition run_serving :: Worker where
  "run_serving = beginTask run_env run_task (unspawn (GoExecute run_task) run_asked)"

lemma run_facts:
  "\<not> isl (NewWorker run_env None run_cfg [(''/w/state.json'', ''{}''), (''/w/cache/m'', ''aa'')]) \<and>
   list_ex (\<lambda>g. g = GoAssignment run_assignment) (Worker_go run_assigned) \<and> list_ex (\<lambda>g. g = GoExecute run_task) (Worker_go run_asked) \<and>
   map_option Slot_State (map_of (Worker_slots run_serving) ''n1/metal0'') = Some SlotStateServing"
  by code_simp

lemma run_init: "worker_init run_started"
proof -
  from run_facts have "NewWorker run_env None run_cfg [(''/w/state.json'', ''{}''), (''/w/cache/m'', ''aa'')] = Inr run_started"
    by (cases "NewWorker run_env None run_cfg [(''/w/state.json'', ''{}''), (''/w/cache/m'', ''aa'')]") (simp_all add: run_started_def)
  then show ?thesis unfolding worker_init_def by blast
qed

lemma run_members: "GoAssignment run_assignment \<in> set (Worker_go run_assigned)" "GoExecute run_task \<in> set (Worker_go run_asked)"
  using run_facts by (simp_all only: list_ex_iff bex_triv_one_point1)

lemma run_steps: "worker_step\<^sup>*\<^sup>* run_started run_serving"
proof -
  have "worker_step run_started run_assigned" unfolding run_assigned_def by (rule worker_step.receive)
  moreover have "worker_step run_assigned run_ready" unfolding run_ready_def by (rule worker_step.assignment [OF run_members(1)])
  moreover have "worker_step run_ready run_asked" unfolding run_asked_def by (rule worker_step.receive)
  moreover have "worker_step run_asked run_serving" unfolding run_serving_def by (rule worker_step.execute [OF run_members(2)])
  ultimately show ?thesis by (meson converse_rtranclp_into_rtranclp rtranclp.rtrancl_refl)
qed

text \<open>The worker while a task streams, and a runtime that answers with one token.\<close>

definition run_streaming :: Worker where
  "run_streaming = sample_worker\<lparr>Worker_active := [(''a1'', False)], Worker_runtimes := [(''n1/metal0'', ''41'')],
     Worker_procs := [(''41'', \<lparr>Proc_baseURL = [], Proc_profileKey = assignmentKey run_profile, Proc_stderr = [], Proc_done = False, Proc_waitErr = None\<rparr>)]\<rparr>"

definition run_execution :: execution where
  "run_execution = \<lparr>Exe_decode = (\<lambda>_. Inr \<lparr>Chunk_Choices = [''hi''], Chunk_Usage = None, Chunk_Timings = None\<rparr>),
     Exe_reply = (\<lambda>_. StreamReply 200 [] [''data: c'', ''data: [DONE]''] None), Exe_tokenTime = (\<lambda>_. 6), Exe_cancelledAt = (\<lambda>_. False), Exe_cancelled = False\<rparr>"

subsection \<open>Slots that serve\<close>

text \<open>C15: A slot that serves is always released. In every state that a worker reaches from its start, for every slot that
  serves there is either the goroutine of its task, which, whatever the runtime answers, ends with the slot free or with a
  recovery of the slot, or such a recovery, which ends with the slot free, whatever becomes of the runtime.\<close>

theorem serving_slot_released:
  assumes "worker_init w0" "worker_step\<^sup>*\<^sup>* w0 w" "serving w slotID"
  shows "(\<exists>task start. GoStream task start \<in> set (Worker_go w) \<and> Exec_SlotID task = slotID \<and>
      (\<forall>E X. \<not> serving (finishTask E X task start (unspawn (GoStream task start) w)) slotID \<or>
        (\<exists>profile reason. GoRecover slotID profile reason \<in> set (Worker_go (finishTask E X task start (unspawn (GoStream task start) w)))))) \<or>
    (\<exists>profile reason. GoRecover slotID profile reason \<in> set (Worker_go w) \<and>
      (\<forall>E L healthy. \<not> serving (recoverRuntimeSlot E L healthy slotID profile reason (unspawn (GoRecover slotID profile reason) w)) slotID))"
proof -
  obtain g where g: "g \<in> set (Worker_go w)" "releases slotID g"
    using worker.reachable_inv [OF assms(1,2)] assms(3) unfolding worker_ok_def by blast
  show ?thesis
  proof (cases g)
    case (GoStream task start)
    then show ?thesis using g finishTask_calm(2) by (metis releases.simps(1))
  next
    case (GoRecover sid profile reason)
    then show ?thesis using g calm_recover(2) by (metis releases.simps(2))
  qed (use g in simp_all)
qed

lemma run_serves: "serving run_serving ''n1/metal0''"
  using run_facts by (auto simp: serving_def)

theorem serving_slot_released_witness:
  "serving run_serving ''n1/metal0'' \<and> (\<exists>g. g \<in> set (Worker_go run_serving) \<and> releases ''n1/metal0'' g)"
  using serving_slot_released [OF run_init run_steps run_serves] run_serves by (metis releases.simps(1,2))

subsection \<open>Crash loops\<close>

text \<open>
  A crash: the runtime of a slot exits, whatever its error, and the watch of the slot runs. A list
  of crashes is met one after another; a crash of a slot without a runtime is none.
\<close>

definition crash :: "string \<Rightarrow> WorkloadProfile \<Rightarrow> Worker \<Rightarrow> worker_env \<times> (nat \<Rightarrow> launch) \<times> string option \<Rightarrow> Worker" where
  "crash slotID profile w c =
     (case c of (E, L, err) \<Rightarrow>
        (case map_of (Worker_runtimes w) slotID of
           None \<Rightarrow> w
         | Some pid \<Rightarrow> watchRuntimeServer E L slotID profile pid (unspawn (GoWatch slotID profile pid) (exitProc pid err w))))"

definition slotState :: "Worker \<Rightarrow> string \<Rightarrow> string" where
  "slotState w slotID = Slot_State (mget zero_Slot (Worker_slots w) slotID)"

lemma slotState_setSlotState [simp]: "slotState (setSlotState E sid st pid reason w) sid = st"
  by (simp add: slotState_def setSlotState_def Let_def mget_def)

lemma exitProc_sel [simp]:
  "Worker_runtimes (exitProc pid err w) = Worker_runtimes w" "Worker_slots (exitProc pid err w) = Worker_slots w"
  "Worker_runtimeRestarts (exitProc pid err w) = Worker_runtimeRestarts w"
  by (simp_all add: exitProc_def split: option.split)

lemma startLlamaServer_loop_restarts:
  "Worker_runtimeRestarts (snd (startLlamaServer_loop E profile modelPath support ls lastErr w)) = Worker_runtimeRestarts w"
  by (induction ls arbitrary: lastErr w)
    (auto simp: startLlamaServerProcess_def Let_def split: sum.split option.split)

lemma restartSlot_cases:
  assumes "restartSlot E L slotID profile reason w = w'"
  shows "Worker_runtimeRestarts w' = Worker_runtimeRestarts w \<and>
    (map_of (Worker_runtimes w') slotID \<noteq> None \<and> slotState w' slotID = SlotStateReady \<or>
     map_of (Worker_runtimes w') slotID = None \<and> slotState w' slotID = SlotStateError)"
proof -
  define v where "v = stopRuntimeServer slotID (setSlotState E slotID SlotStateWarming (Profile_ID profile) reason w)"
  obtain r u where s: "startLlamaServer E L profile v = (r, u)" by fastforce
  have "Worker_runtimeRestarts u = Worker_runtimeRestarts v"
    using arg_cong [OF s, of snd] startLlamaServer_loop_restarts [of E profile _ _ "map L [0..<3]" None v]
    by (auto simp: startLlamaServer_def split: sum.splits)
  then have n: "Worker_runtimeRestarts u = Worker_runtimeRestarts w"
    by (simp add: v_def stopRuntimeServer_def Let_def split: option.split)
  have "Worker_runtimes u = Worker_runtimes v" using startLlamaServer_calm [OF s] by blast
  then have none: "map_of (Worker_runtimes u) slotID = None" by (simp add: v_def stopRuntimeServer_None)
  show ?thesis
    using assms s n none
    by (cases r) (auto simp: restartSlot_def restartRuntimeServer_def startRuntimeServerForSlot_def v_def [symmetric] registerRuntime_def)
qed

text \<open>The restarts that are left of a slot with a runtime; a slot whose runtime is given up has an error.\<close>

definition restartsLeft :: "string \<Rightarrow> Worker \<Rightarrow> int" where
  "restartsLeft slotID w = maxRuntimeRestartAttempts - mget 0 (Worker_runtimeRestarts w) slotID"

lemma crash_step:
  assumes "map_of (Worker_runtimes w) slotID \<noteq> None" "slotState w slotID \<noteq> SlotStateServing"
  shows "map_of (Worker_runtimes (crash slotID profile w c)) slotID = None \<and> slotState (crash slotID profile w c) slotID = SlotStateError \<or>
    map_of (Worker_runtimes (crash slotID profile w c)) slotID \<noteq> None \<and> slotState (crash slotID profile w c) slotID = SlotStateReady \<and>
    restartsLeft slotID w > 0 \<and> restartsLeft slotID (crash slotID profile w c) = restartsLeft slotID w - 1"
proof -
  obtain E L err where c: "c = (E, L, err)" by (metis prod.exhaust)
  obtain pid where pid: "map_of (Worker_runtimes w) slotID = Some pid" using assms(1) by blast
  define v where "v = unspawn (GoWatch slotID profile pid) (exitProc pid err w)"
  have v: "Worker_runtimes v = Worker_runtimes w" "Worker_slots v = Worker_slots w" "Worker_runtimeRestarts v = Worker_runtimeRestarts w"
    by (simp_all add: v_def unspawn_def)
  define v1 where "v1 = v\<lparr>Worker_runtimes := mdel slotID (Worker_runtimes v)\<rparr>"
  have claim: "claimExitedRuntime slotID pid v = (True, v1)"
    using pid assms(2) v by (simp add: claimExitedRuntime_def v1_def slotState_def)
  have eq: "crash slotID profile w c = watchRuntimeServer E L slotID profile pid v"
    by (simp add: crash_def c pid v_def)
  show ?thesis
  proof (cases "restartsLeft slotID w > 0")
    case True
    define v2 where "v2 = v1\<lparr>Worker_runtimeRestarts := mput slotID (mget 0 (Worker_runtimeRestarts w) slotID + 1) (Worker_runtimeRestarts w)\<rparr>"
    have "reserveRuntimeRestart slotID v1 = (True, v2)"
      using True v by (simp add: reserveRuntimeRestart_def restartsLeft_def v1_def v2_def)
    then have "crash slotID profile w c = restartSlot E L slotID profile ''llama-server exited; restarting'' v2"
      using claim by (simp add: eq watchRuntimeServer_def)
    from restartSlot_cases [OF this [symmetric]] show ?thesis
      using True by (auto simp: restartsLeft_def v2_def mget_def)
  next
    case False
    then have "reserveRuntimeRestart slotID v1 = (False, v1)"
      using v by (simp add: reserveRuntimeRestart_def restartsLeft_def v1_def)
    then show ?thesis using claim by (simp add: eq watchRuntimeServer_def v1_def)
  qed
qed

lemma crashes_end:
  assumes "slotState w slotID \<noteq> SlotStateServing" and "map_of (Worker_runtimes w) slotID = None \<longrightarrow> slotState w slotID = SlotStateError"
    and "restartsLeft slotID w < int (length cs)"
    and "0 < length cs"
  shows "map_of (Worker_runtimes (foldl (crash slotID profile) w cs)) slotID = None \<and> slotState (foldl (crash slotID profile) w cs) slotID = SlotStateError"
  using assms
proof (induction cs arbitrary: w)
  case (Cons c cs)
  have given_up: "foldl (crash slotID profile) u ds = u" if "map_of (Worker_runtimes u) slotID = None" for u ds
    using that by (induction ds) (auto simp: crash_def split: prod.split)
  show ?case
  proof (cases "map_of (Worker_runtimes w) slotID = None")
    case True
    then show ?thesis using given_up [OF True, of "c # cs"] Cons.prems(2) by simp
  next
    case False
    show ?thesis
      using crash_step [OF False Cons.prems(1), of profile c] given_up [of "crash slotID profile w c" cs]
        Cons.IH [of "crash slotID profile w c"] Cons.prems(3)
      by (cases "cs = []") auto
  qed
qed simp



subsection \<open>Redelivered messages\<close>

lemma evictArtifact_processed: "Worker_processed (snd (evictArtifact E removeErr payload w)) = Worker_processed w"
proof -
  have procs: "Worker_processed (foldl (\<lambda>w pid. stopProc pid w) v pids) = Worker_processed v" for v pids
    using arg_cong [OF stopProcs_frame [OF refl], of Worker_processed] by simp
  have out: "Worker_processed (foldl (\<lambda>w slot. sendSlotState E slot w) v slots) = Worker_processed v" for v slots
    using arg_cong [OF sendSlotStates_frame, of Worker_processed] by simp
  have apply_plan: "Worker_processed v' = Worker_processed v" if "applyArtifactEviction aid plan v = (updates, v')" for aid plan v updates v'
    using arg_cong [OF evictSlots_frame [OF that [unfolded applyArtifactEviction_def]], of Worker_processed] by simp
  have save: "Worker_processed v' = Worker_processed v" if "saveState E v = (e, v')" for v e v'
    using arg_cong [OF that, of "\<lambda>p. Worker_processed (snd p)"] by simp
  show ?thesis
    by (auto simp: evictArtifact_def Let_def out procs dest!: apply_plan save split: sum.split option.split prod.split)
qed

lemma reseed_processed: "Worker_processed (reseedCachedArtifacts E w) = Worker_processed w"
proof -
  have "Worker_processed (foldl (\<lambda>w (artifactID, entry). if CachedSt_Path entry = [] \<or> CachedSt_Torrent entry = None then w
         else snd (seedCachedArtifact E (cachedSpec artifactID entry) (CachedSt_Path entry) w)) v es) = Worker_processed v" for v es
    by (induction es arbitrary: v) auto
  then show ?thesis by (simp add: reseedCachedArtifacts_def)
qed

lemma handlers_processed:
  "Worker_processed (snd (workerAck E msg w)) = Worker_processed w"
  "Worker_processed (snd (workerAssignProfile E msg w)) = Worker_processed w"
  "Worker_processed (snd (workerExecuteTask E msg w)) = Worker_processed w"
  "Worker_processed (snd (workerCancelTask E msg w)) = Worker_processed w"
  "Worker_processed (snd (workerEvictArtifact E removeErr msg w)) = Worker_processed w"
  "Worker_processed (snd (workerP2PConfig E msg w)) = Worker_processed w"
  "Worker_processed (snd (workerUpdate E msg w)) = Worker_processed w"
proof -
  show "Worker_processed (snd (workerEvictArtifact E removeErr msg w)) = Worker_processed w"
    using evictArtifact_processed [of E removeErr _ w]
    by (auto simp: workerEvictArtifact_def split: sum.split option.split prod.split) (metis snd_conv)+
qed (auto simp: workerAck_def workerAssignProfile_def workerExecuteTask_def workerCancelTask_def workerP2PConfig_def workerUpdate_def
    worker_cancelAttempt_def applyP2PConfig_def queueAssignment_def beginAssignment_def reseed_processed Let_def split: sum.split option.split)

lemma seen_processed: "mhas (Worker_processed (snd (worker_seen E mid w))) mid"
proof (cases "mhas (Worker_processed w) mid")
  case False
  then have "map_of (Worker_processed w) mid = None" by (auto simp: mhas_def)
  then have new: "mput mid (E_now E) (Worker_processed w) = Worker_processed w @ [(mid, E_now E)]" by (rule mvals_mput_new)
  have "map_of (mfilter (\<lambda>_ t. \<not> t < E_now E - minutes 30) (Worker_processed w @ [(mid, E_now E)])) mid \<noteq> None"
    by (simp add: mfilter_def minutes_def seconds_def map_add_def map_of_eq_None_iff split: option.split)
  with False show ?thesis by (auto simp: worker_seen_def Let_def new mhas_def map_add_def split: option.split)
qed (simp add: worker_seen_def)



subsection \<open>The report of a task\<close>

text \<open>What the manager sees of a queued message, its generated id aside.\<close>

definition wire :: "Envelope \<Rightarrow> string \<times> string \<times> string \<times> string" where
  "wire m = (Env_Type m, Env_TaskID m, Env_Attempt m, Env_Payload m)"

definition tokenWire :: "worker_env \<Rightarrow> ExecuteTaskPayload \<Rightarrow> nat \<times> string \<Rightarrow> string \<times> string \<times> string \<times> string" where
  "tokenWire E payload t =
     (MsgToken, Exec_TaskID payload, Exec_AttemptID payload,
      marshalToken (E_codec E) (zero_TokenPayload\<lparr>Token_TaskID := Exec_TaskID payload, Token_AttemptID := Exec_AttemptID payload,
        Token_Token := snd t, Token_Index := int (fst t)\<rparr>))"

lemma message_wire:
  assumes "length (Worker_send (worker_message E type taskID attempt payload w)) < workerSendCapacity"
  shows "map wire (Worker_send (worker_message E type taskID attempt payload w)) = map wire (Worker_send w) @ [(type, taskID, attempt, payload)]"
    and "length (Worker_send w) < workerSendCapacity"
  using assms by (auto simp: worker_message_def worker_enqueue_def wire_def split: if_splits)

text \<open>While the queue has room, it holds the tokens emitted so far, numbered from 0.\<close>

definition emitted :: "worker_env \<Rightarrow> ExecuteTaskPayload \<Rightarrow> Worker \<Rightarrow> emission \<Rightarrow> bool" where
  "emitted E payload w s \<longleftrightarrow> length (Worker_send (Emit_worker s)) < workerSendCapacity \<longrightarrow>
     (\<exists>contents. Emit_sent s = length contents \<and>
        map wire (Worker_send (Emit_worker s)) = map wire (Worker_send w) @ map (tokenWire E payload) (enumerate 0 contents))"

lemma emitted_emitToken:
  assumes "emitted E payload w s" and "emitToken E X payload token s = (e, s')"
  shows "emitted E payload w s'"
proof (cases "s' = s")
  case False
  define m where "m = sendTaskToken E payload token (int (Emit_sent s)) (Emit_worker s)"
  have s': "Emit_worker s' = m" "Emit_sent s' = Suc (Emit_sent s)"
    using assms(2) False by (auto simp: emitToken_def m_def split: if_splits)
  show ?thesis
    unfolding emitted_def
  proof
    assume room: "length (Worker_send (Emit_worker s')) < workerSendCapacity"
    note sent = message_wire [OF room [unfolded s' m_def sendTaskToken_def]]
    obtain contents where c: "Emit_sent s = length contents"
        "map wire (Worker_send (Emit_worker s)) = map wire (Worker_send w) @ map (tokenWire E payload) (enumerate 0 contents)"
      using assms(1) sent(2) unfolding emitted_def by blast
    have "map wire (Worker_send m) = map wire (Worker_send w) @ map (tokenWire E payload) (enumerate 0 (contents @ [token]))"
      unfolding m_def sendTaskToken_def sent(1) c(2) by (simp add: tokenWire_def c(1) enumerate_append_eq)
    with c(1) show "\<exists>contents. Emit_sent s' = length contents \<and>
        map wire (Worker_send (Emit_worker s')) = map wire (Worker_send w) @ map (tokenWire E payload) (enumerate 0 contents)"
      unfolding s' by (metis length_append_singleton)
  qed
qed (use assms(1) in simp)

lemma setSlotState_wire:
  assumes "length (Worker_send (setSlotState E sid st pid reason w)) < workerSendCapacity"
  shows "\<exists>p. map wire (Worker_send (setSlotState E sid st pid reason w)) = map wire (Worker_send w) @ [(MsgSlotState, [], [], p)]"
    and "length (Worker_send w) < workerSendCapacity"
  using message_wire [OF assms [unfolded setSlotState_def Let_def]] unfolding setSlotState_def Let_def by auto

lemma sendReport_wire:
  assumes "length (Worker_send (sendReport E payload start phase reason status canRetry stats w)) < workerSendCapacity"
  shows "\<exists>report. map wire (Worker_send (sendReport E payload start phase reason status canRetry stats w)) = map wire (Worker_send w) @
      [(MsgComputeReport, Exec_TaskID payload, Exec_AttemptID payload, marshalReport (E_codec E) report)] \<and>
      Report_TaskID report = Exec_TaskID payload \<and> Report_AttemptID report = Exec_AttemptID payload \<and>
      Report_SlotID report = Exec_SlotID payload \<and> Report_Status report = status"
    and "length (Worker_send w) < workerSendCapacity"
proof -
  let ?report = "computeReportFor E payload start phase reason status canRetry stats w"
  note last = message_wire [OF assms [unfolded sendReport_def]]
  have "Report_TaskID ?report = Exec_TaskID payload \<and> Report_AttemptID ?report = Exec_AttemptID payload \<and>
      Report_SlotID ?report = Exec_SlotID payload \<and> Report_Status ?report = status"
    by (simp add: computeReportFor_def Let_def)
  with last(1) show "\<exists>report. map wire (Worker_send (sendReport E payload start phase reason status canRetry stats w)) = map wire (Worker_send w) @
      [(MsgComputeReport, Exec_TaskID payload, Exec_AttemptID payload, marshalReport (E_codec E) report)] \<and>
      Report_TaskID report = Exec_TaskID payload \<and> Report_AttemptID report = Exec_AttemptID payload \<and>
      Report_SlotID report = Exec_SlotID payload \<and> Report_Status report = status"
    unfolding sendReport_def by blast
  show "length (Worker_send w) < workerSendCapacity" by (rule last(2))
qed

lemma streamed_tokens:
  assumes "streamRuntimeTokens X (E_now E) payload (emitToken E X payload) w \<lparr>Emit_worker = w, Emit_firstAt = None, Emit_sent = 0\<rparr> = (e, stats, s)"
    and "length (Worker_send (Emit_worker s)) < workerSendCapacity"
  shows "\<exists>contents. map wire (Worker_send (Emit_worker s)) = map wire (Worker_send w) @ map (tokenWire E payload) (enumerate 0 contents)"
proof -
  have "emitted E payload w s"
    by (rule streamTokens_keeps [OF assms(1)]) (simp add: emitted_def, erule (1) emitted_emitToken)
  then show ?thesis using assms(2) by (auto simp: emitted_def)
qed



end
