(* ===== verification/Task_Pages.thy ===== *)
theory Task_Pages
  imports Chat
begin

section \<open>The pages of the task list\<close>

text \<open>
  \<^verbatim>\<open>manager_tasks.go\<close>: the query of the administrator's task list, its pages and its
  summary. A value that does not parse falls back to a default; a slice expression out of range
  panics, which is \<open>None\<close>.
\<close>

subsection \<open>Data\<close>

record TaskUserSummary =
  USum_UserID :: string
  USum_Total :: int
  USum_Queued :: int
  USum_Running :: int
  USum_Completed :: int
  USum_Failed :: int
  USum_Cancelled :: int
  USum_ComputeCost :: int

record TaskSummary =
  Sum_Total :: int
  Sum_Queued :: int
  Sum_Running :: int
  Sum_Completed :: int
  Sum_Failed :: int
  Sum_Cancelled :: int
  Sum_FailuresLastHour :: int
  Sum_ByUser :: "TaskUserSummary list"

record TaskListResponse =
  List_Items :: "Task list"
  List_Attempts :: "Attempt list"
  List_Reports :: "ComputeReport list"
  List_Total :: int
  List_Limit :: int
  List_Offset :: int
  List_HasMore :: bool
  List_Summary :: TaskSummary

record taskListQuery =
  Query_Limit :: int
  Query_Offset :: int
  Query_Status :: string
  Query_UserID :: string
  Query_ProfileID :: string
  Query_TaskID :: string

definition adminStateTaskLimit :: int where "adminStateTaskLimit = 50"
definition adminTaskDefaultLimit :: int where "adminTaskDefaultLimit = 50"
definition adminTaskMaxLimit :: int where "adminTaskMaxLimit = 500"

subsection \<open>Parsing\<close>

text \<open>\<^verbatim>\<open>strconv.Atoi\<close>: an optional sign and decimal digits within the range of \<^verbatim>\<open>int\<close>.\<close>

definition digit_value :: "char \<Rightarrow> int option" where
  "digit_value c = (let n = int (of_char c) in if 48 \<le> n \<and> n \<le> 57 then Some (n - 48) else None)"

fun parseDigits :: "int \<Rightarrow> string \<Rightarrow> int option" where
  "parseDigits n [] = Some n"
| "parseDigits n (c # cs) = (case digit_value c of None \<Rightarrow> None | Some d \<Rightarrow> parseDigits (10 * n + d) cs)"

definition Atoi :: "string \<Rightarrow> int option" where
  "Atoi s =
     (let neg = (case s of c # _ \<Rightarrow> c = CHR ''-'' | [] \<Rightarrow> False);
          digits = (case s of c # cs \<Rightarrow> if c = CHR ''-'' \<or> c = CHR ''+'' then cs else s | [] \<Rightarrow> [])
      in if digits = [] then None
         else case parseDigits 0 digits of
           None \<Rightarrow> None
         | Some n \<Rightarrow> (let v = (if neg then - n else n) in if in64 v then Some v else None))"

definition parseIntOr :: "string \<Rightarrow> int \<Rightarrow> int" where
  "parseIntOr value fallback = (if value = [] then fallback else case Atoi value of None \<Rightarrow> fallback | Some parsed \<Rightarrow> parsed)"

definition boundedLimit :: "string \<Rightarrow> int" where
  "boundedLimit value =
     (let limit = parseIntOr value adminTaskDefaultLimit in
      if limit < 1 then adminTaskDefaultLimit else if limit > adminTaskMaxLimit then adminTaskMaxLimit else limit)"

definition nonNegativeInt :: "string \<Rightarrow> int" where
  "nonNegativeInt value = (let offset = parseIntOr value 0 in if offset < 0 then 0 else offset)"

text \<open>\<open>params\<close> is \<^verbatim>\<open>url.Values.Get\<close> of the query.\<close>

definition parseTaskListQuery :: "(string \<Rightarrow> string) \<Rightarrow> taskListQuery" where
  "parseTaskListQuery params = \<lparr>Query_Limit = boundedLimit (params ''limit''), Query_Offset = nonNegativeInt (params ''offset''),
     Query_Status = params ''status'', Query_UserID = params ''userId'', Query_ProfileID = params ''profileId'', Query_TaskID = params ''taskId''\<rparr>"

subsection \<open>Selection\<close>

definition stringMatches :: "string \<Rightarrow> string \<Rightarrow> bool" where
  "stringMatches pattern value \<longleftrightarrow> pattern = [] \<or> pattern = value"

definition taskMatchesQuery :: "Task \<Rightarrow> taskListQuery \<Rightarrow> bool" where
  "taskMatchesQuery task query \<longleftrightarrow> stringMatches (Query_TaskID query) (Task_ID task) \<and> stringMatches (Query_Status query) (Task_Status task) \<and>
     stringMatches (Query_UserID query) (Task_UserID task) \<and> stringMatches (Query_ProfileID query) (Task_ProfileID task)"

definition filterTasks :: "Task list \<Rightarrow> taskListQuery \<Rightarrow> Task list" where
  "filterTasks tasks query = filter (\<lambda>task. taskMatchesQuery task query) tasks"

definition taskPage :: "Task list \<Rightarrow> int \<Rightarrow> int \<Rightarrow> Task list option" where
  "taskPage tasks offset limit =
     (if offset \<ge> int (length tasks) then Some []
      else (let stop = wrap64 (offset + limit); stop = (if stop > int (length tasks) then int (length tasks) else stop) in
        if 0 \<le> offset \<and> offset \<le> stop then Some (take (nat (stop - offset)) (drop (nat offset) tasks)) else None))"

definition sortedTasks :: "Database \<Rightarrow> Task list" where
  "sortedTasks db = sort_by (\<lambda>a b. Task_CreatedAt a < Task_CreatedAt b) (mvals (Tasks db))"

definition newestFirst :: "Task \<Rightarrow> Task \<Rightarrow> bool" where
  "newestFirst a b = (if Task_CreatedAt a = Task_CreatedAt b then Task_ID a > Task_ID b else Task_CreatedAt b < Task_CreatedAt a)"

definition sortedTasksNewest :: "Database \<Rightarrow> Task list" where
  "sortedTasksNewest db = sort_by newestFirst (sortedTasks db)"

definition taskIDs :: "Task list \<Rightarrow> string set" where
  "taskIDs tasks = set (map Task_ID tasks)"

definition relatedAttempts :: "Database \<Rightarrow> string set \<Rightarrow> Attempt list" where
  "relatedAttempts db ids = sort_by (\<lambda>a b. Attempt_StartedAt a < Attempt_StartedAt b) (filter (\<lambda>a. Attempt_TaskID a \<in> ids) (mvals (Attempts db)))"

definition relatedReports :: "Database \<Rightarrow> string set \<Rightarrow> ComputeReport list" where
  "relatedReports db ids = sort_by (\<lambda>a b. Report_CreatedAt a < Report_CreatedAt b) (filter (\<lambda>r. Report_TaskID r \<in> ids) (mvals (Reports db)))"

subsection \<open>The summary\<close>

text \<open>The five counters that \<^verbatim>\<open>countTaskStatus\<close> is given pointers to.\<close>

definition countTaskStatus :: "string \<Rightarrow> int \<times> int \<times> int \<times> int \<times> int \<Rightarrow> int \<times> int \<times> int \<times> int \<times> int" where
  "countTaskStatus status counters =
     (case counters of (queued, running, completed, failed, cancelled) \<Rightarrow>
        if status = TaskStatusQueued then (queued + 1, running, completed, failed, cancelled)
        else if status = TaskStatusRunning then (queued, running + 1, completed, failed, cancelled)
        else if status = TaskStatusCompleted then (queued, running, completed + 1, failed, cancelled)
        else if status = TaskStatusFailed then (queued, running, completed, failed + 1, cancelled)
        else if status = TaskStatusCancelled then (queued, running, completed, failed, cancelled + 1)
        else counters)"

definition taskUserID :: "Task \<Rightarrow> string" where
  "taskUserID task = (if Task_UserID task = [] then ''unknown'' else Task_UserID task)"

definition taskUserSummary :: "TaskUserSummary gomap \<Rightarrow> string \<Rightarrow> TaskUserSummary" where
  "taskUserSummary byUser userID =
     mget \<lparr>USum_UserID = userID, USum_Total = 0, USum_Queued = 0, USum_Running = 0, USum_Completed = 0, USum_Failed = 0,
       USum_Cancelled = 0, USum_ComputeCost = 0\<rparr> byUser userID"

definition countUserTask :: "Task \<Rightarrow> TaskUserSummary \<Rightarrow> TaskUserSummary" where
  "countUserTask task user =
     (case countTaskStatus (Task_Status task) (USum_Queued user, USum_Running user, USum_Completed user, USum_Failed user, USum_Cancelled user) of
        (queued, running, completed, failed, cancelled) \<Rightarrow>
          user\<lparr>USum_Total := USum_Total user + 1, USum_ComputeCost := wrap64 (USum_ComputeCost user + Task_ComputeCost task),
            USum_Queued := queued, USum_Running := running, USum_Completed := completed, USum_Failed := failed, USum_Cancelled := cancelled\<rparr>)"

definition addTaskToSummary :: "TaskSummary \<times> TaskUserSummary gomap \<Rightarrow> Task \<Rightarrow> TaskSummary \<times> TaskUserSummary gomap" where
  "addTaskToSummary acc task =
     (case acc of (summary, byUser) \<Rightarrow>
        (case countTaskStatus (Task_Status task) (Sum_Queued summary, Sum_Running summary, Sum_Completed summary, Sum_Failed summary, Sum_Cancelled summary) of
           (queued, running, completed, failed, cancelled) \<Rightarrow>
             (summary\<lparr>Sum_Queued := queued, Sum_Running := running, Sum_Completed := completed, Sum_Failed := failed, Sum_Cancelled := cancelled\<rparr>,
              mput (taskUserID task) (countUserTask task (taskUserSummary byUser (taskUserID task))) byUser)))"

definition failuresLastHour :: "time \<Rightarrow> Task list \<Rightarrow> ComputeReport gomap \<Rightarrow> int" where
  "failuresLastHour now tasks reports =
     int (length (filter (\<lambda>r. Report_TaskID r \<in> taskIDs tasks \<and> Report_Status r = TaskStatusFailed \<and> Report_CreatedAt r > now - minutes 60) (mvals reports)))"

definition sortedUserTaskSummaries :: "TaskUserSummary gomap \<Rightarrow> TaskUserSummary list" where
  "sortedUserTaskSummaries byUser = sort_by (\<lambda>a b. USum_UserID a < USum_UserID b) (mvals byUser)"

definition summarizeTasks :: "time \<Rightarrow> Task list \<Rightarrow> ComputeReport gomap \<Rightarrow> TaskSummary" where
  "summarizeTasks now tasks reports =
     (case foldl addTaskToSummary (\<lparr>Sum_Total = int (length tasks), Sum_Queued = 0, Sum_Running = 0, Sum_Completed = 0, Sum_Failed = 0,
         Sum_Cancelled = 0, Sum_FailuresLastHour = 0, Sum_ByUser = []\<rparr>, []) tasks of
        (summary, byUser) \<Rightarrow> summary\<lparr>Sum_FailuresLastHour := failuresLastHour now tasks reports, Sum_ByUser := sortedUserTaskSummaries byUser\<rparr>)"

definition summarizeDatabaseTasks :: "time \<Rightarrow> Database \<Rightarrow> TaskSummary" where
  "summarizeDatabaseTasks now db = summarizeTasks now (sortedTasks db) (Reports db)"

subsection \<open>The responses\<close>

definition taskListResponse :: "time \<Rightarrow> Database \<Rightarrow> taskListQuery \<Rightarrow> TaskListResponse option" where
  "taskListResponse now db query =
     (let tasks = filterTasks (sortedTasksNewest db) query in
      case taskPage tasks (Query_Offset query) (Query_Limit query) of
        None \<Rightarrow> None
      | Some page \<Rightarrow>
          Some \<lparr>List_Items = page, List_Attempts = relatedAttempts db (taskIDs page), List_Reports = relatedReports db (taskIDs page),
            List_Total = int (length tasks), List_Limit = Query_Limit query, List_Offset = Query_Offset query,
            List_HasMore = wrap64 (Query_Offset query + int (length page)) < int (length tasks),
            List_Summary = summarizeTasks now tasks (Reports db)\<rparr>)"

definition stateTaskWindow :: "Database \<Rightarrow> Task list \<times> Attempt list \<times> ComputeReport list \<times> bool" where
  "stateTaskWindow db =
     (let tasks = sortedTasks db;
          truncated = int (length tasks) > adminStateTaskLimit;
          tasks = (if truncated then drop (length tasks - nat adminStateTaskLimit) tasks else tasks)
      in (tasks, relatedAttempts db (taskIDs tasks), relatedReports db (taskIDs tasks), truncated))"

subsection \<open>Pages\<close>

interpretation newest: weak_order newestFirst
  by unfold_locales (auto simp: newestFirst_def split: if_splits)

lemma concat_chunks: "concat (map (\<lambda>i. take k (drop (i * k) xs)) [0..<n]) = take (n * k) xs"
proof (induction n)
  case (Suc n)
  have "take (n * k + k) xs = take (n * k) xs @ take k (drop (n * k) xs)" by (rule take_add)
  with Suc show ?case by (simp add: add.commute)
qed simp

lemma boundedLimit_bounds: "1 \<le> boundedLimit value \<and> boundedLimit value \<le> adminTaskMaxLimit"
  by (auto simp: boundedLimit_def adminTaskMaxLimit_def adminTaskDefaultLimit_def Let_def)

lemma nonNegativeInt_nonneg: "0 \<le> nonNegativeInt value"
  by (simp add: nonNegativeInt_def Let_def)

lemma taskPage_slice:
  assumes "0 \<le> offset" "1 \<le> limit" "limit \<le> adminTaskMaxLimit" "int (length tasks) < 2 ^ 62"
  shows "taskPage tasks offset limit = Some (take (nat limit) (drop (nat offset) tasks))"
proof (cases "offset \<ge> int (length tasks)")
  case False
  then have "wrap64 (offset + limit) = offset + limit"
    using assms by (intro wrap64_id) (simp add: in64_def adminTaskMaxLimit_def)
  moreover have "take (nat (int (length tasks) - offset)) (drop (nat offset) tasks) = take (nat limit) (drop (nat offset) tasks)"
    if "offset + limit > int (length tasks)"
    using that assms(1) by (simp add: nat_diff_distrib)
  ultimately show ?thesis using False assms by (simp add: taskPage_def Let_def)
qed (use assms in \<open>simp add: taskPage_def\<close>)

lemma taskListResponse_Some:
  assumes "0 \<le> Query_Offset q" "1 \<le> Query_Limit q" "Query_Limit q \<le> adminTaskMaxLimit" "int (length (Tasks db)) < 2 ^ 62"
    and "tasks = filterTasks (sortedTasksNewest db) q" "page = take (nat (Query_Limit q)) (drop (nat (Query_Offset q)) tasks)"
  shows "taskListResponse now db q = Some \<lparr>List_Items = page, List_Attempts = relatedAttempts db (taskIDs page), List_Reports = relatedReports db (taskIDs page),
    List_Total = int (length tasks), List_Limit = Query_Limit q, List_Offset = Query_Offset q,
    List_HasMore = wrap64 (Query_Offset q + int (length page)) < int (length tasks), List_Summary = summarizeTasks now tasks (Reports db)\<rparr>"
proof -
  have "length (filterTasks (sortedTasksNewest db) q) \<le> length (Tasks db)"
    by (simp add: filterTasks_def sortedTasksNewest_def sortedTasks_def mvals_def le_trans [OF length_filter_le])
  then have "int (length tasks) < 2 ^ 62" using assms(4,5) by simp
  from taskPage_slice [OF assms(1-3) this] show ?thesis
    by (simp add: taskListResponse_def assms(5,6) Let_def)
qed

lemma more_pages_iff:
  fixes k m :: nat
  assumes "0 < k" "i < (m - 1) div k + 1"
  shows "i * k + min k (m - i * k) < m \<longleftrightarrow> Suc i < (m - 1) div k + 1"
proof -
  have "Suc i \<le> (m - 1) div k \<longleftrightarrow> Suc i * k \<le> m - 1" using assms(1) by (rule less_eq_div_iff_mult_less_eq)
  moreover have "i * k \<le> m - 1" using assms by (metis less_Suc_eq_le Suc_eq_plus1 less_eq_div_iff_mult_less_eq)
  ultimately show ?thesis using assms(1) by auto
qed

text \<open>C39: The task list is complete, whatever the query. Every query parses to a page of 1 to 500 tasks and is answered
  without a panic, and the pages from offset 0 on, for as long as the answer says that there are more, hold together every
  task that matches the query, each once, the newest first; each page comes with exactly the attempts of its tasks.\<close>

theorem task_pages_complete:
  assumes "q = parseTaskListQuery params" and "int (length (Tasks db)) < 2 ^ 62"
  shows "1 \<le> Query_Limit q \<and> Query_Limit q \<le> 500 \<and> (\<exists>r. taskListResponse now db q = Some r) \<and>
    (\<exists>pages. concat pages = filterTasks (sortedTasksNewest db) q \<and>
      mset (concat pages) = filter_mset (\<lambda>t. taskMatchesQuery t q) (mset (mvals (Tasks db))) \<and>
      sorted_wrt (\<lambda>a b. \<not> newestFirst b a) (concat pages) \<and>
      (\<forall>i<length pages. \<exists>r. taskListResponse now db (q\<lparr>Query_Offset := int i * Query_Limit q\<rparr>) = Some r \<and> List_Items r = pages ! i \<and>
        (List_HasMore r \<longleftrightarrow> Suc i < length pages) \<and>
        set (List_Attempts r) = {a \<in> set (mvals (Attempts db)). Attempt_TaskID a \<in> Task_ID ` set (pages ! i)}))"
proof -
  define tasks where "tasks = filterTasks (sortedTasksNewest db) q"
  define k where "k = nat (Query_Limit q)"
  define n where "n = (length tasks - 1) div k + 1"
  define pages where "pages = map (\<lambda>i. take k (drop (i * k) tasks)) [0..<n]"
  have limit: "1 \<le> Query_Limit q" "Query_Limit q \<le> adminTaskMaxLimit" "0 \<le> Query_Offset q"
    using boundedLimit_bounds nonNegativeInt_nonneg by (simp_all add: assms(1) parseTaskListQuery_def)
  then have k: "0 < k" "Query_Limit q = int k" by (simp_all add: k_def)
  have small: "length tasks \<le> length (Tasks db)"
    by (simp add: tasks_def filterTasks_def sortedTasksNewest_def sortedTasks_def mvals_def le_trans [OF length_filter_le])
  have "length tasks \<le> n * k"
    using dividend_less_div_times [OF k(1), of "length tasks - 1"] by (simp add: n_def)
  then have all: "concat pages = tasks" by (simp add: pages_def concat_chunks)
  have "mset tasks = filter_mset (\<lambda>t. taskMatchesQuery t q) (mset (mvals (Tasks db)))"
    by (simp add: tasks_def filterTasks_def sortedTasksNewest_def sortedTasks_def)
  moreover have "sorted_wrt (\<lambda>a b. \<not> newestFirst b a) tasks"
    unfolding tasks_def filterTasks_def sortedTasksNewest_def by (rule sorted_wrt_filter [OF newest.sorted_sort_by])
  moreover have "\<exists>r. taskListResponse now db (q\<lparr>Query_Offset := int i * Query_Limit q\<rparr>) = Some r \<and> List_Items r = pages ! i \<and>
      (List_HasMore r \<longleftrightarrow> Suc i < length pages) \<and>
      set (List_Attempts r) = {a \<in> set (mvals (Attempts db)). Attempt_TaskID a \<in> Task_ID ` set (pages ! i)}" if i: "i < length pages" for i
  proof -
    let ?q = "q\<lparr>Query_Offset := int i * Query_Limit q\<rparr>"
    have "i \<le> (length tasks - 1) div k" using i by (simp add: pages_def n_def)
    then have "i * k \<le> length tasks" using k(1) by (metis diff_le_self le_trans less_eq_div_iff_mult_less_eq)
    then have "i * k + length (pages ! i) \<le> length tasks" using i by (simp add: pages_def)
    then have "int (i * k + length (pages ! i)) \<le> int (length (Tasks db))" using small by (simp only: of_nat_le_iff)
    then have "in64 (int (i * k + length (pages ! i)))"
      using assms(2) of_nat_0_le_iff [of "i * k + length (pages ! i)", where ?'a = int] by (simp add: in64_def del: of_nat_add of_nat_mult)
    then have off: "wrap64 (int i * int k + int (length (pages ! i))) = int (i * k + length (pages ! i))"
      by (simp add: wrap64_id)
    have tasks: "tasks = filterTasks (sortedTasksNewest db) ?q" by (simp add: tasks_def filterTasks_def taskMatchesQuery_def)
    have page: "pages ! i = take (nat (Query_Limit ?q)) (drop (nat (Query_Offset ?q)) tasks)"
      using i k by (simp add: pages_def nat_mult_distrib)
    have "i * k + length (pages ! i) < length tasks \<longleftrightarrow> Suc i < n"
      using more_pages_iff [OF k(1), of i "length tasks"] i unfolding n_def [symmetric] by (simp add: pages_def min.commute)
    moreover have "length pages = n" by (simp add: pages_def)
    ultimately show ?thesis
      using taskListResponse_Some [OF _ _ _ assms(2) tasks page, of now] limit off k
      by (auto simp: relatedAttempts_def taskIDs_def simp del: of_nat_add of_nat_mult)
  qed
  ultimately show ?thesis
    using taskListResponse_Some [OF limit(3,1,2) assms(2) refl refl] limit all
    by (intro conjI exI [of _ pages]) (auto simp: adminTaskMaxLimit_def tasks_def)
qed

theorem task_pages_complete_witness:
  "\<exists>pages r. concat pages = filterTasks (sortedTasksNewest sample_queued_db) (parseTaskListQuery (\<lambda>k. if k = ''limit'' then ''1'' else [])) \<and>
     concat pages \<noteq> [] \<and> taskListResponse 0 sample_queued_db (parseTaskListQuery (\<lambda>k. if k = ''limit'' then ''1'' else [])) = Some r"
proof -
  define q where "q = parseTaskListQuery (\<lambda>k. if k = ''limit'' then ''1'' else [])"
  have "filterTasks (sortedTasksNewest sample_queued_db) q \<noteq> []" unfolding q_def by code_simp
  moreover have "int (length (Tasks sample_queued_db)) < 2 ^ 62" by code_simp
  note complete = task_pages_complete [OF q_def this, of 0]
  then have "\<exists>r. taskListResponse 0 sample_queued_db q = Some r" by (elim conjE)
  moreover have "\<exists>pages. concat pages = filterTasks (sortedTasksNewest sample_queued_db) q" using complete by (elim conjE exE) blast
  ultimately show ?thesis unfolding q_def [symmetric] by metis
qed

subsection \<open>The summary is exact\<close>

definition with_status :: "string \<Rightarrow> Task list \<Rightarrow> int" where
  "with_status st tasks = int (length (filter (\<lambda>t. Task_Status t = st) tasks))"

definition of_user :: "string \<Rightarrow> Task list \<Rightarrow> Task list" where
  "of_user uid tasks = filter (\<lambda>t. taskUserID t = uid) tasks"

definition user_summary :: "string \<Rightarrow> Task list \<Rightarrow> TaskUserSummary" where
  "user_summary uid tasks = \<lparr>USum_UserID = uid, USum_Total = int (length tasks), USum_Queued = with_status TaskStatusQueued tasks,
     USum_Running = with_status TaskStatusRunning tasks, USum_Completed = with_status TaskStatusCompleted tasks,
     USum_Failed = with_status TaskStatusFailed tasks, USum_Cancelled = with_status TaskStatusCancelled tasks,
     USum_ComputeCost = wrap64 (sum_list (map Task_ComputeCost tasks))\<rparr>"

interpretation user_order: key_order "\<lambda>a b. USum_UserID a < USum_UserID b" USum_UserID
  by unfold_locales simp

lemma countTaskStatus_snoc:
  "countTaskStatus (Task_Status t) (with_status TaskStatusQueued ts, with_status TaskStatusRunning ts, with_status TaskStatusCompleted ts,
     with_status TaskStatusFailed ts, with_status TaskStatusCancelled ts) =
   (with_status TaskStatusQueued (ts @ [t]), with_status TaskStatusRunning (ts @ [t]), with_status TaskStatusCompleted (ts @ [t]),
     with_status TaskStatusFailed (ts @ [t]), with_status TaskStatusCancelled (ts @ [t]))"
  by (simp add: countTaskStatus_def with_status_def TaskStatusQueued_def TaskStatusRunning_def TaskStatusCompleted_def
      TaskStatusFailed_def TaskStatusCancelled_def)

lemma countUserTask_snoc: "countUserTask t (user_summary uid ts) = user_summary uid (ts @ [t])"
  using countTaskStatus_snoc [of t ts] by (simp add: countUserTask_def user_summary_def wrap64_add_left)

lemma user_summary_Nil: "taskUserSummary [] uid = user_summary uid []"
  by (simp add: taskUserSummary_def user_summary_def with_status_def mget_def wrap64_id in64_def)

lemma fold_summary:
  fixes tasks :: "Task list" and n :: int
  defines "s0 \<equiv> \<lparr>Sum_Total = n, Sum_Queued = 0, Sum_Running = 0, Sum_Completed = 0, Sum_Failed = 0, Sum_Cancelled = 0,
    Sum_FailuresLastHour = 0, Sum_ByUser = []\<rparr>"
  assumes "foldl addTaskToSummary (s0, []) tasks = (summary, byUser)"
  shows "summary = s0\<lparr>Sum_Queued := with_status TaskStatusQueued tasks, Sum_Running := with_status TaskStatusRunning tasks,
      Sum_Completed := with_status TaskStatusCompleted tasks, Sum_Failed := with_status TaskStatusFailed tasks,
      Sum_Cancelled := with_status TaskStatusCancelled tasks\<rparr> \<and> distinct (map fst byUser) \<and>
    (\<forall>uid. map_of byUser uid = (if uid \<in> taskUserID ` set tasks then Some (user_summary uid (of_user uid tasks)) else None))"
  using assms(2)
proof (induction tasks arbitrary: summary byUser rule: rev_induct)
  case Nil
  then have "s0 = summary" "byUser = []" by simp_all
  then show ?case by (auto simp: s0_def with_status_def)
next
  case (snoc t ts)
  obtain s b where sb: "foldl addTaskToSummary (s0, []) ts = (s, b)" by fastforce
  note IH = snoc.IH [OF sb]
  have user: "taskUserSummary b (taskUserID t) = user_summary (taskUserID t) (of_user (taskUserID t) ts)"
  proof (cases "taskUserID t \<in> taskUserID ` set ts")
    case False
    then have "of_user (taskUserID t) ts = []" unfolding of_user_def filter_empty_conv by (metis image_eqI)
    with False IH user_summary_Nil show ?thesis by (simp add: taskUserSummary_def mget_def)
  qed (use IH in \<open>simp add: taskUserSummary_def mget_def\<close>)
  have add: "addTaskToSummary (s, b) t = (summary, byUser)" using snoc.prems sb by simp
  have own: "of_user (taskUserID t) (ts @ [t]) = of_user (taskUserID t) ts @ [t]" by (simp add: of_user_def)
  have step: "summary = s\<lparr>Sum_Queued := with_status TaskStatusQueued (ts @ [t]), Sum_Running := with_status TaskStatusRunning (ts @ [t]),
      Sum_Completed := with_status TaskStatusCompleted (ts @ [t]), Sum_Failed := with_status TaskStatusFailed (ts @ [t]),
      Sum_Cancelled := with_status TaskStatusCancelled (ts @ [t])\<rparr>"
      "byUser = mput (taskUserID t) (user_summary (taskUserID t) (of_user (taskUserID t) (ts @ [t]))) b"
    using add IH countTaskStatus_snoc [of t ts] countUserTask_snoc [of t "taskUserID t" "of_user (taskUserID t) ts"] user own
    by (auto simp: addTaskToSummary_def)
  have "of_user uid (ts @ [t]) = of_user uid ts" if "uid \<noteq> taskUserID t" for uid using that by (simp add: of_user_def)
  with IH show ?case by (auto simp: step image_iff)
qed

text \<open>The summary of a task list is exact: the counters are the numbers of tasks with each status, there is one entry per
  user, in the order of their ids, with the counters of this user's tasks and the sum of their costs, and so the totals of the
  users add up to the total of the list.\<close>

theorem task_summary_exact:
  "let s = summarizeTasks now tasks reports in
     Sum_Total s = int (length tasks) \<and> Sum_Queued s = with_status TaskStatusQueued tasks \<and> Sum_Running s = with_status TaskStatusRunning tasks \<and>
     Sum_Completed s = with_status TaskStatusCompleted tasks \<and> Sum_Failed s = with_status TaskStatusFailed tasks \<and>
     Sum_Cancelled s = with_status TaskStatusCancelled tasks \<and>
     Sum_ByUser s = map (\<lambda>uid. user_summary uid (of_user uid tasks)) (sorted_list_of_set (taskUserID ` set tasks)) \<and>
     sum_list (map USum_Total (Sum_ByUser s)) = Sum_Total s"
proof -
  define n where "n = int (length tasks)"
  obtain summary byUser where f: "foldl addTaskToSummary (\<lparr>Sum_Total = n, Sum_Queued = 0, Sum_Running = 0, Sum_Completed = 0, Sum_Failed = 0,
      Sum_Cancelled = 0, Sum_FailuresLastHour = 0, Sum_ByUser = []\<rparr>, []) tasks = (summary, byUser)" by fastforce
  note inv = fold_summary [OF f]
  let ?users = "sorted_list_of_set (taskUserID ` set tasks)"
  let ?view = "\<lambda>uid. user_summary uid (of_user uid tasks)"
  have keys: "set (map fst byUser) = taskUserID ` set tasks"
  proof -
    have "uid \<in> set (map fst byUser) \<longleftrightarrow> uid \<in> taskUserID ` set tasks" for uid
      using inv map_of_eq_None_iff [of byUser uid] by (metis option.distinct(1) set_map)
    then show ?thesis by blast
  qed
  have vals: "mvals byUser = map ?view (map fst byUser)"
  proof -
    have "v = ?view k" if "(k, v) \<in> set byUser" for k v
      using inv that map_of_is_SomeI [of byUser k v] by (auto split: if_splits)
    then show ?thesis unfolding mvals_def by (auto simp: case_prod_beta)
  qed
  have key: "map USum_UserID (map ?view ks) = ks" for ks by (simp add: user_summary_def comp_def)
  have sorted_users: "sort_by (\<lambda>a b. USum_UserID a < USum_UserID b) (mvals byUser) = map ?view ?users"
  proof -
    have "mset (map fst byUser) = mset ?users"
      using inv keys by (subst set_eq_iff_mset_eq_distinct [symmetric]) auto
    then have "mset (mvals byUser) = mset (map ?view ?users)" unfolding vals mset_map by (rule arg_cong)
    moreover have "inj_on USum_UserID (set (mvals byUser))" by (auto simp: vals user_summary_def inj_on_def)
    ultimately have "sort_by (\<lambda>a b. USum_UserID a < USum_UserID b) (mvals byUser) = sort_by (\<lambda>a b. USum_UserID a < USum_UserID b) (map ?view ?users)"
      by (rule user_order.sort_by_perm)
    also have "\<dots> = map ?view ?users" by (simp only: user_order.sort_by_sort_key sort_key_id_if_sorted key sorted_sorted_list_of_set)
    finally show ?thesis .
  qed
  have "sum_list (map USum_Total (map ?view ?users)) = (\<Sum>uid \<in> taskUserID ` set tasks. int (count_list (map taskUserID tasks) uid))"
    by (simp add: user_summary_def of_user_def comp_def count_list_eq_length_filter filter_map sum_list_distinct_conv_sum_set eq_commute [of _ "taskUserID _"])
  also have "\<dots> = int (length tasks)"
    using sum_count_set [of "map taskUserID tasks" "taskUserID ` set tasks"] by (simp flip: of_nat_sum)
  finally have total: "sum_list (map USum_Total (map ?view ?users)) = int (length tasks)" .
  show ?thesis
    using f inv total by (simp add: summarizeTasks_def n_def sortedUserTaskSummaries_def sorted_users Let_def)
qed

end
