(* ===== verification/Admin_State.thy ===== *)
theory Admin_State
  imports Task_Pages
begin

section \<open>The state that the administrator sees\<close>

text \<open>
  \<^verbatim>\<open>admin_state_cache.go\<close>, \<^verbatim>\<open>admin_state_conditions.go\<close>, \<^verbatim>\<open>admin_state_runtime.go\<close>, the counters of
  \<^verbatim>\<open>metrics.go\<close> and \<^verbatim>\<open>stateResponse\<close> of \<^verbatim>\<open>manager_state.go\<close>: how the copies of a profile are counted, which
  conditions are shown for profiles, policies, nodes, slots and evictions, and what of the
  database leaves the manager.
\<close>

subsection \<open>Data\<close>

record CacheEvictionStatus =
  CacheEv_Status :: string
  CacheEv_Reason :: string
  CacheEv_Failure :: string
  CacheEv_UpdatedAt :: time

record CacheIntentStatus =
  CacheInt_Action :: string
  CacheInt_UpdatedAt :: time

record CacheWorkerStatus =
  CacheW_NodeID :: string
  CacheW_Cached :: bool
  CacheW_Warm :: bool
  CacheW_Active :: bool
  CacheW_Eviction :: CacheEvictionStatus
  CacheW_Intent :: CacheIntentStatus

record CachePlan =
  CPlan_ProfileRef :: string
  CPlan_Artifacts :: "string list"
  CPlan_RequireTags :: "string list"
  CPlan_DesiredCopies :: int
  CPlan_ActualCopies :: int
  CPlan_StaleCopies :: int
  CPlan_EvictionsPending :: int
  CPlan_Workers :: "CacheWorkerStatus list"
  CPlan_Conditions :: "Condition list"

definition zero_CachePlan :: CachePlan where
  "zero_CachePlan = \<lparr>CPlan_ProfileRef = [], CPlan_Artifacts = [], CPlan_RequireTags = [], CPlan_DesiredCopies = 0, CPlan_ActualCopies = 0,
     CPlan_StaleCopies = 0, CPlan_EvictionsPending = 0, CPlan_Workers = [], CPlan_Conditions = []\<rparr>"

subsection \<open>Conditions\<close>

text \<open>The zero time is replaced by the time of the request.\<close>

definition fallbackTime :: "time \<Rightarrow> time \<Rightarrow> time" where
  "fallbackTime now at = (if at = 0 then now else at)"

definition safeConditionText :: "string \<Rightarrow> string" where
  "safeConditionText value = take 240 (map (\<lambda>c. if c = CHR 0x0A \<or> c = CHR 0x0D then CHR '' '' else c) value)"

definition newCondition :: "time \<Rightarrow> string \<Rightarrow> string \<Rightarrow> string \<Rightarrow> string \<Rightarrow> time \<Rightarrow> Condition" where
  "newCondition now typ status reason message at = \<lparr>Cond_Type = typ, Cond_Status = status, Cond_Reason = reason,
     Cond_Message = safeConditionText message, Cond_LastTransitionTime = fallbackTime now at\<rparr>"

definition boolCondition :: "time \<Rightarrow> string \<Rightarrow> bool \<Rightarrow> string \<Rightarrow> string \<Rightarrow> string \<Rightarrow> string \<Rightarrow> time \<Rightarrow> Condition" where
  "boolCondition now typ ok trueReason falseReason trueMessage falseMessage at =
     (if ok then newCondition now typ ''True'' trueReason trueMessage at else newCondition now typ ''False'' falseReason falseMessage at)"

text \<open>
  The words of a reason, each with a capital letter. Reasons are the ASCII codes of the fit, so a
  letter is a byte.
\<close>

definition upper_char :: "char \<Rightarrow> char" where
  "upper_char c = (let n = (of_char c :: nat) in if 97 \<le> n \<and> n \<le> 122 then char_of (n - 32) else c)"

definition reasonSeparator :: "char \<Rightarrow> bool" where
  "reasonSeparator c \<longleftrightarrow> c = CHR ''_'' \<or> c = CHR ''-'' \<or> c = CHR '':'' \<or> c = CHR '',''"

fun reasonWords :: "string \<Rightarrow> bool \<Rightarrow> string" where
  "reasonWords [] start = []"
| "reasonWords (c # cs) start =
     (if reasonSeparator c then reasonWords cs True else (if start then upper_char c else c) # reasonWords cs False)"

definition conditionReason :: "string \<Rightarrow> string" where
  "conditionReason value = (let out = reasonWords value True in if out = [] then ''Unknown'' else out)"

definition firstSortedReason :: "string list \<Rightarrow> string \<Rightarrow> string" where
  "firstSortedReason reasons fallback = (case uniqueSorted reasons of [] \<Rightarrow> fallback | r # _ \<Rightarrow> conditionReason r)"

subsection \<open>Copies of a profile\<close>

definition desiredCacheNodes :: "Database \<Rightarrow> string \<Rightarrow> string set" where
  "desiredCacheNodes db profileID =
     Asg_NodeID ` {a \<in> set (mvals (Assignments db)). Asg_ProfileID a = profileID \<and> Asg_DesiredCached a \<and> Asg_NodeID a \<noteq> []}"

definition cachePlanRequireTags :: "WorkloadProfile \<Rightarrow> PlacementPolicy \<Rightarrow> string list" where
  "cachePlanRequireTags profile policy =
     uniqueSorted (Constraints_RequireTags (Policy_Constraints policy) @
       (case Profile_Requirements profile of None \<Rightarrow> [] | Some r \<Rightarrow> Req_RequireTags r))"

definition artifactInSet :: "string \<Rightarrow> string list \<Rightarrow> bool" where
  "artifactInSet artifactID artifacts = list_ex (\<lambda>artifact. NormalizeSHA256 artifact = NormalizeSHA256 artifactID) artifacts"

definition evictionPending :: "string \<Rightarrow> bool" where
  "evictionPending status \<longleftrightarrow> status = ArtifactEvictionQueued \<or> status = ArtifactEvictionBlocked"

definition pendingEvictionsForArtifacts :: "Database \<Rightarrow> string list \<Rightarrow> int" where
  "pendingEvictionsForArtifacts db artifacts =
     int (length (filter (\<lambda>r. artifactInSet (Evict_ArtifactID r) artifacts \<and> evictionPending (Evict_Status r)) (mvals (ArtifactEvictions db))))"

definition nodeHasWarmAssignment :: "Database \<Rightarrow> string \<Rightarrow> string \<Rightarrow> bool" where
  "nodeHasWarmAssignment db nodeID profileID =
     list_ex (\<lambda>a. Asg_NodeID a = nodeID \<and> Asg_ProfileID a = profileID \<and> Asg_ActualWarm a) (mvals (Assignments db))"

definition slotWarmForProfile :: "Slot \<Rightarrow> WorkloadProfile \<Rightarrow> bool" where
  "slotWarmForProfile slot profile \<longleftrightarrow>
     Slot_ProfileID slot = Profile_ID profile \<and> (Slot_State slot = SlotStateReady \<or> Slot_State slot = SlotStateServing)"

definition nodeWarmForProfile :: "Database \<Rightarrow> string \<Rightarrow> WorkloadProfile \<Rightarrow> bool" where
  "nodeWarmForProfile db nodeID profile \<longleftrightarrow> nodeHasWarmAssignment db nodeID (Profile_ID profile) \<or>
     list_ex (\<lambda>s. Slot_NodeID s = nodeID \<and> slotWarmForProfile s profile) (mvals (Slots db))"

definition nodeHasRunningAttempt :: "Database \<Rightarrow> string \<Rightarrow> string \<Rightarrow> bool" where
  "nodeHasRunningAttempt db nodeID profileID =
     list_ex (\<lambda>a. Attempt_NodeID a = nodeID \<and> Attempt_ProfileID a = profileID \<and> Attempt_Status a = TaskStatusRunning) (mvals (Attempts db))"

definition nodeHasServingSlot :: "Database \<Rightarrow> string \<Rightarrow> string \<Rightarrow> bool" where
  "nodeHasServingSlot db nodeID profileID =
     list_ex (\<lambda>s. Slot_NodeID s = nodeID \<and> Slot_ProfileID s = profileID \<and> Slot_State s = SlotStateServing) (mvals (Slots db))"

definition nodeActiveForProfile :: "Database \<Rightarrow> string \<Rightarrow> string \<Rightarrow> bool" where
  "nodeActiveForProfile db nodeID profileID \<longleftrightarrow> nodeHasRunningAttempt db nodeID profileID \<or> nodeHasServingSlot db nodeID profileID"

text \<open>The latest record, as the range loop keeps it; among equally late ones the first.\<close>

definition latestEvictionStatus :: "Database \<Rightarrow> string \<Rightarrow> string list \<Rightarrow> CacheEvictionStatus" where
  "latestEvictionStatus db nodeID artifacts =
     (let latest = foldl (\<lambda>latest record. if Evict_NodeID record = nodeID \<and> artifactInSet (Evict_ArtifactID record) artifacts \<and>
            Evict_UpdatedAt record > Evict_UpdatedAt latest then record else latest) zero_ArtifactEvictionRecord (mvals (ArtifactEvictions db))
      in if Evict_ID latest = [] then \<lparr>CacheEv_Status = ''none'', CacheEv_Reason = [], CacheEv_Failure = [], CacheEv_UpdatedAt = 0\<rparr>
         else \<lparr>CacheEv_Status = Evict_Status latest, CacheEv_Reason = Evict_Reason latest, CacheEv_Failure = Evict_Failure latest,
                CacheEv_UpdatedAt = Evict_UpdatedAt latest\<rparr>)"

definition latestCacheIntentStatus :: "Database \<Rightarrow> string \<Rightarrow> string list \<Rightarrow> CacheIntentStatus" where
  "latestCacheIntentStatus db nodeID artifacts =
     (let latest = foldl (\<lambda>latest record. if Intent_NodeID record = nodeID \<and> artifactInSet (Intent_ArtifactID record) artifacts \<and>
            Intent_UpdatedAt record > Intent_UpdatedAt latest then record else latest) zero_CacheIntentRecord (mvals (CacheIntents db))
      in if Intent_ID latest = [] then \<lparr>CacheInt_Action = [], CacheInt_UpdatedAt = 0\<rparr>
         else \<lparr>CacheInt_Action = Intent_Action latest, CacheInt_UpdatedAt = Intent_UpdatedAt latest\<rparr>)"

definition cacheWorkerStatusForNode :: "Database \<Rightarrow> WorkloadProfile \<Rightarrow> string list \<Rightarrow> Node \<Rightarrow> CacheWorkerStatus" where
  "cacheWorkerStatusForNode db profile artifacts node = \<lparr>CacheW_NodeID = Node_ID node, CacheW_Cached = nodeHasArtifacts node artifacts,
     CacheW_Warm = nodeWarmForProfile db (Node_ID node) profile, CacheW_Active = nodeActiveForProfile db (Node_ID node) (Profile_ID profile),
     CacheW_Eviction = latestEvictionStatus db (Node_ID node) artifacts, CacheW_Intent = latestCacheIntentStatus db (Node_ID node) artifacts\<rparr>"

definition includeCacheWorker :: "CacheWorkerStatus \<Rightarrow> bool \<Rightarrow> bool" where
  "includeCacheWorker status desired \<longleftrightarrow>
     desired \<or> CacheW_Cached status \<or> CacheW_Warm status \<or> CacheW_Active status \<or> CacheEv_Status (CacheW_Eviction status) \<noteq> ''none''"

definition cacheWorkerStatuses :: "Database \<Rightarrow> WorkloadProfile \<Rightarrow> string list \<Rightarrow> string set \<Rightarrow> CacheWorkerStatus list" where
  "cacheWorkerStatuses db profile artifacts desiredNodes =
     filter (\<lambda>status. includeCacheWorker status (CacheW_NodeID status \<in> desiredNodes))
       (map (cacheWorkerStatusForNode db profile artifacts) (SortedNodes db))"

fun cachePlanCopyCounts :: "CacheWorkerStatus list \<Rightarrow> string set \<Rightarrow> int \<times> int" where
  "cachePlanCopyCounts [] desiredNodes = (0, 0)"
| "cachePlanCopyCounts (w # ws) desiredNodes =
     (case cachePlanCopyCounts ws desiredNodes of (actual, stale) \<Rightarrow>
        if \<not> CacheW_Cached w then (actual, stale)
        else (actual + 1, if CacheW_NodeID w \<notin> desiredNodes \<and> \<not> CacheW_Active w then stale + 1 else stale))"

definition cacheCopiesCondition :: "time \<Rightarrow> string \<Rightarrow> int \<Rightarrow> int \<Rightarrow> time \<Rightarrow> Condition" where
  "cacheCopiesCondition now typ actual desired at =
     (if actual \<ge> desired then newCondition now typ ''True'' ''DesiredCopiesAvailable'' ''Desired cached copies are available.'' at
      else newCondition now typ ''False'' ''DesiredCopiesUnavailable'' ''Desired cached copies are not available yet.'' at)"

definition cacheEvictionsCondition :: "time \<Rightarrow> int \<Rightarrow> time \<Rightarrow> Condition" where
  "cacheEvictionsCondition now pending at =
     (if pending = 0 then newCondition now ''EvictionsClear'' ''True'' ''NoPendingEvictions'' ''No cache evictions are pending.'' at
      else newCondition now ''EvictionsClear'' ''False'' ''EvictionsPending'' ''Cache evictions are pending or blocked.'' at)"

definition cachePlanConditions :: "time \<Rightarrow> CachePlan \<Rightarrow> PlacementPolicy \<Rightarrow> Condition list" where
  "cachePlanConditions now plan policy =
     (let at = (if Policy_UpdatedAt policy = 0 then now else Policy_UpdatedAt policy) in
      [cacheCopiesCondition now ''Cached'' (CPlan_ActualCopies plan) (CPlan_DesiredCopies plan) at,
       cacheCopiesCondition now ''Stale'' 0 (CPlan_StaleCopies plan) at,
       cacheEvictionsCondition now (CPlan_EvictionsPending plan) at])"

definition buildCachePlanWithCooldown :: "time \<Rightarrow> Database \<Rightarrow> WorkloadProfile \<Rightarrow> PlacementPolicy \<Rightarrow> duration \<Rightarrow> CachePlan" where
  "buildCachePlanWithCooldown now db profile policy cooldown =
     (let artifacts = profileArtifactIDs profile;
          desiredNodes = desiredCacheNodes db (Profile_ID profile);
          workers = cacheWorkerStatuses db profile artifacts desiredNodes;
          (actual, stale) = cachePlanCopyCounts workers desiredNodes;
          plan = \<lparr>CPlan_ProfileRef = Profile_ID profile, CPlan_Artifacts = artifacts, CPlan_RequireTags = cachePlanRequireTags profile policy,
            CPlan_DesiredCopies = Cap_Cached (effectivePolicyCapacity db policy now cooldown), CPlan_ActualCopies = actual, CPlan_StaleCopies = stale,
            CPlan_EvictionsPending = pendingEvictionsForArtifacts db artifacts, CPlan_Workers = workers, CPlan_Conditions = []\<rparr>
      in plan\<lparr>CPlan_Conditions := cachePlanConditions now plan policy\<rparr>)"

definition buildCachePlans :: "time \<Rightarrow> Database \<Rightarrow> duration \<Rightarrow> CachePlan list" where
  "buildCachePlans now db cooldown =
     concat (map (\<lambda>policy. case map_of (Profiles db) (Policy_ProfileID policy) of
        None \<Rightarrow> [] | Some profile \<Rightarrow> [buildCachePlanWithCooldown now db profile policy cooldown]) (SortedPolicies db))"

definition BuildCachePlans :: "time \<Rightarrow> Database \<Rightarrow> CachePlan list" where
  "BuildCachePlans now db = buildCachePlans now db defaultAutoBalanceScaleDownCooldown"

definition BuildCachePlansWithConfig :: "time \<Rightarrow> Database \<Rightarrow> ManagerConfig \<Rightarrow> CachePlan list" where
  "BuildCachePlansWithConfig now db cfg = buildCachePlans now db (managerAutoBalanceCooldown cfg)"

definition sortCachePlans :: "CachePlan list \<Rightarrow> CachePlan list" where
  "sortCachePlans plans = sort_by (\<lambda>a b. CPlan_ProfileRef a < CPlan_ProfileRef b) plans"

subsection \<open>Conditions of the tables\<close>

definition profileHasReadyAssignment :: "Database \<Rightarrow> string \<Rightarrow> bool" where
  "profileHasReadyAssignment db profileID = list_ex (\<lambda>a. Asg_ProfileID a = profileID \<and> Asg_Ready a) (mvals (Assignments db))"

definition profileReadyCondition :: "time \<Rightarrow> Database \<Rightarrow> WorkloadProfile \<Rightarrow> time \<Rightarrow> Condition" where
  "profileReadyCondition now db profile at =
     (if profileHasReadyAssignment db (Profile_ID profile)
      then newCondition now ''Ready'' ''True'' ''DesiredWarmCopiesReady'' ''At least one desired warm copy is ready.'' at
      else if \<not> profileHasPolicy db (Profile_ID profile)
      then newCondition now ''Ready'' ''False'' ''NoCapacityPolicy'' ''No capacity policy exists for this profile.'' at
      else newCondition now ''Ready'' ''False'' ''NoReadySlot'' ''No desired warm copy is ready yet.'' at)"

definition profileSchedulableCondition :: "time \<Rightarrow> string \<Rightarrow> FitResult list \<Rightarrow> time \<Rightarrow> Condition" where
  "profileSchedulableCondition now profileID fit at =
     (let results = filter (\<lambda>r. Fit_ProfileID r = profileID) fit in
      if list_ex Fit_Fits results
      then newCondition now ''Schedulable'' ''True'' ''CompatibleSlotAvailable'' ''At least one compatible Worker slot exists.'' at
      else newCondition now ''Schedulable'' ''False'' (firstSortedReason (concat (map Fit_Reasons results)) ''NoCompatibleWorker'')
        ''No compatible Worker slot is currently available.'' at)"

definition profileArtifactsCondition :: "time \<Rightarrow> Database \<Rightarrow> WorkloadProfile \<Rightarrow> time \<Rightarrow> Condition" where
  "profileArtifactsCondition now db profile at =
     (if list_ex (\<lambda>aid. \<not> mhas (Artifacts db) aid) (profileArtifactIDs profile)
      then newCondition now ''ArtifactsAvailable'' ''False'' ''MissingArtifact'' ''One or more profile artifacts are missing.'' at
      else newCondition now ''ArtifactsAvailable'' ''True'' ''AllArtifactsRegistered'' ''All profile artifacts are registered.'' at)"

definition profileConditions :: "time \<Rightarrow> Database \<Rightarrow> WorkloadProfile \<Rightarrow> FitResult list \<Rightarrow> Condition list" where
  "profileConditions now db profile fit =
     (let at = fallbackTime now (Profile_CreatedAt profile) in
      [profileReadyCondition now db profile at, profileSchedulableCondition now (Profile_ID profile) fit at, profileArtifactsCondition now db profile at])"

definition decorateProfileConditions :: "time \<Rightarrow> FitResult list \<Rightarrow> Database \<Rightarrow> Database" where
  "decorateProfileConditions now fit db =
     db\<lparr>Profiles := mmap (\<lambda>_ profile. profile\<lparr>Profile_Conditions := profileConditions now db profile fit\<rparr>) (Profiles db)\<rparr>"

definition cachePlansByProfile :: "CachePlan list \<Rightarrow> CachePlan gomap" where
  "cachePlansByProfile plans = foldl (\<lambda>out plan. mput (CPlan_ProfileRef plan) plan out) [] plans"

definition policyCachedCondition :: "time \<Rightarrow> PlacementPolicy \<Rightarrow> CachePlan \<Rightarrow> time \<Rightarrow> Condition" where
  "policyCachedCondition now policy plan at =
     (if CPlan_ActualCopies plan \<ge> desiredCachedCount policy
      then newCondition now ''Cached'' ''True'' ''DesiredCopiesAvailable'' ''Desired cached copies are available.'' at
      else newCondition now ''Cached'' ''False'' ''DesiredCopiesUnavailable'' ''Desired cached copies are not available yet.'' at)"

definition actualWarmCopies :: "CachePlan \<Rightarrow> int" where
  "actualWarmCopies plan = int (length (filter CacheW_Warm (CPlan_Workers plan)))"

definition policyWarmCondition :: "time \<Rightarrow> PlacementPolicy \<Rightarrow> CachePlan \<Rightarrow> time \<Rightarrow> Condition" where
  "policyWarmCondition now policy plan at =
     (if actualWarmCopies plan \<ge> desiredWarmCount policy
      then newCondition now ''Warm'' ''True'' ''DesiredWarmCopiesReady'' ''Desired warm copies are ready.'' at
      else newCondition now ''Warm'' ''False'' ''DesiredWarmCopiesUnavailable'' ''Desired warm copies are not ready yet.'' at)"

definition planHasBlockedPlacement :: "CachePlan \<Rightarrow> bool" where
  "planHasBlockedPlacement plan \<longleftrightarrow> CPlan_ActualCopies plan < CPlan_DesiredCopies plan \<or>
     list_ex (\<lambda>w. CacheEv_Status (CacheW_Eviction w) = ArtifactEvictionFailed) (CPlan_Workers plan)"

definition policyPlacementCondition :: "time \<Rightarrow> CachePlan \<Rightarrow> time \<Rightarrow> Condition" where
  "policyPlacementCondition now plan at =
     (if planHasBlockedPlacement plan
      then newCondition now ''PlacementSatisfied'' ''False'' ''PlacementBlocked'' ''One or more desired placements are blocked.'' at
      else newCondition now ''PlacementSatisfied'' ''True'' ''PlacementApplied'' ''Desired placement is applied.'' at)"

definition policyConditions :: "time \<Rightarrow> PlacementPolicy \<Rightarrow> CachePlan \<Rightarrow> Condition list" where
  "policyConditions now policy plan =
     (let at = fallbackTime now (Policy_UpdatedAt policy) in
      [policyCachedCondition now policy plan at, policyWarmCondition now policy plan at, policyPlacementCondition now plan at])"

definition decoratePolicyConditions :: "time \<Rightarrow> CachePlan list \<Rightarrow> Database \<Rightarrow> Database" where
  "decoratePolicyConditions now cachePlans db =
     (let plans = cachePlansByProfile cachePlans in
      db\<lparr>Policies := mmap (\<lambda>_ policy. policy\<lparr>Policy_Conditions :=
        policyConditions now policy (mget zero_CachePlan plans (Policy_ProfileID policy))\<rparr>) (Policies db)\<rparr>)"

definition slotsForNode :: "Database \<Rightarrow> string \<Rightarrow> Slot list" where
  "slotsForNode db nodeID = filter (\<lambda>s. Slot_NodeID s = nodeID) (mvals (Slots db))"

definition nodeConnectedCondition :: "time \<Rightarrow> Node \<Rightarrow> time \<Rightarrow> Condition" where
  "nodeConnectedCondition now node at =
     boolCondition now ''Connected'' (Node_State node = NodeStateOnline) ''WorkerOnline'' ''WorkerOffline'' ''Worker is connected.'' ''Worker is offline.'' at"

definition nodeCompatibleCondition :: "time \<Rightarrow> Node \<Rightarrow> Slot list \<Rightarrow> time \<Rightarrow> Condition" where
  "nodeCompatibleCondition now node slots at =
     boolCondition now ''Compatible'' (Node_RuntimeAdapters node \<noteq> [] \<and> slots \<noteq> []) ''RuntimeAdapterAvailable'' ''NoRuntimeAdapter''
       ''Worker reports a runtime adapter and slots.'' ''Worker has no runtime adapter or slots.'' at"

definition nodeWarmPlacementSuppressedCondition :: "time \<Rightarrow> Node \<Rightarrow> time \<Rightarrow> Condition" where
  "nodeWarmPlacementSuppressedCondition now node at =
     (if Node_WarmPlacementSuppressed node
      then newCondition now ''WarmPlacementSuppressed'' ''True'' ''WorkerFlapping''
        ''Warm placement is temporarily suppressed because the Worker is flapping.'' at
      else newCondition now ''WarmPlacementSuppressed'' ''False'' ''WorkerTrusted'' ''Worker is trusted for warm placement.'' at)"

definition nodeConditions :: "time \<Rightarrow> Node \<Rightarrow> Slot list \<Rightarrow> Condition list" where
  "nodeConditions now node slots =
     (let at = fallbackTime now (Node_LastSeen node) in
      [nodeConnectedCondition now node at,
       boolCondition now ''Approved'' (Node_Approved node) ''WorkerApproved'' ''WorkerNotApproved'' ''Worker is approved.'' ''Worker is not approved.'' at,
       nodeCompatibleCondition now node slots at,
       boolCondition now ''Quarantined'' (Node_Quarantined node) ''WorkerQuarantined'' ''WorkerNotQuarantined'' ''Worker is quarantined.''
         ''Worker is not quarantined.'' at,
       nodeWarmPlacementSuppressedCondition now node at])"

definition decorateNodeConditions :: "time \<Rightarrow> Database \<Rightarrow> Database" where
  "decorateNodeConditions now db =
     db\<lparr>Nodes := mmap (\<lambda>nid node. node\<lparr>Node_Conditions := nodeConditions now node (slotsForNode db nid)\<rparr>) (Nodes db)\<rparr>"

definition slotReadyCondition :: "time \<Rightarrow> Slot \<Rightarrow> time \<Rightarrow> Condition" where
  "slotReadyCondition now slot at =
     boolCondition now ''Ready'' (Slot_State slot = SlotStateReady \<and> Slot_AcceptsNew slot \<and> \<not> Slot_Quarantined slot) ''SlotReady'' ''SlotNotReady''
       ''Slot is ready for new tasks.'' ''Slot is not ready for new tasks.'' at"

definition slotConditions :: "time \<Rightarrow> Slot \<Rightarrow> Condition list" where
  "slotConditions now slot =
     (let at = fallbackTime now (Slot_LastReady slot) in
      [slotReadyCondition now slot at,
       boolCondition now ''Assigned'' (Slot_ProfileID slot \<noteq> []) ''ProfileAssigned'' ''NoProfileAssigned'' ''Slot has an assigned profile.''
         ''Slot has no assigned profile.'' at,
       boolCondition now ''Serving'' (Slot_State slot = SlotStateServing) ''TaskServing'' ''NotServing'' ''Slot is serving a task.''
         ''Slot is not serving a task.'' at,
       boolCondition now ''Quarantined'' (Slot_Quarantined slot) ''SlotQuarantined'' ''SlotNotQuarantined'' ''Slot is quarantined.''
         ''Slot is not quarantined.'' at])"

definition decorateSlotConditions :: "time \<Rightarrow> Database \<Rightarrow> Database" where
  "decorateSlotConditions now db = db\<lparr>Slots := mmap (\<lambda>_ slot. slot\<lparr>Slot_Conditions := slotConditions now slot\<rparr>) (Slots db)\<rparr>"

definition blockedEvictionReason :: "ArtifactEvictionRecord \<Rightarrow> string" where
  "blockedEvictionReason record =
     (if Evict_Failure record = ''worker_offline'' then ''WorkerOffline''
      else if Evict_Failure record = ''worker_send_queue_full'' then ''WorkerSendQueueFull'' else ''EvictionBlocked'')"

definition evictionMessage :: "ArtifactEvictionRecord \<Rightarrow> string" where
  "evictionMessage record =
     (if Evict_Failure record \<noteq> [] then ''Cache eviction '' @ safeConditionText (Evict_Failure record) @ ''.''
      else if Evict_Reason record \<noteq> [] then ''Cache eviction requested because '' @ safeConditionText (Evict_Reason record) @ ''.''
      else ''Cache eviction status is '' @ Evict_Status record @ ''.'')"

definition evictionCondition :: "time \<Rightarrow> ArtifactEvictionRecord \<Rightarrow> string \<Rightarrow> string \<Rightarrow> string \<Rightarrow> time \<Rightarrow> Condition" where
  "evictionCondition now record typ status reason at =
     (if Evict_Status record = status then newCondition now typ ''True'' reason (evictionMessage record) at
      else newCondition now typ ''False'' ''NotCurrentStatus'' ''This is not the current eviction status.'' at)"

definition artifactEvictionConditions :: "time \<Rightarrow> ArtifactEvictionRecord \<Rightarrow> Condition list" where
  "artifactEvictionConditions now record =
     (let at = fallbackTime now (Evict_UpdatedAt record) in
      [evictionCondition now record ''Queued'' ArtifactEvictionQueued ''EvictionQueued'' at,
       evictionCondition now record ''Blocked'' ArtifactEvictionBlocked (blockedEvictionReason record) at,
       evictionCondition now record ''Evicted'' ArtifactEvictionEvicted ''EvictionCompleted'' at,
       evictionCondition now record ''Failed'' ArtifactEvictionFailed ''EvictionFailed'' at])"

definition decorateArtifactEvictionConditions :: "time \<Rightarrow> Database \<Rightarrow> Database" where
  "decorateArtifactEvictionConditions now db =
     db\<lparr>ArtifactEvictions := mmap (\<lambda>_ record. record\<lparr>Evict_Conditions := artifactEvictionConditions now record\<rparr>) (ArtifactEvictions db)\<rparr>"

definition decorateAdminStateConditions :: "time \<Rightarrow> FitResult list \<Rightarrow> CachePlan list \<Rightarrow> Database \<Rightarrow> Database" where
  "decorateAdminStateConditions now fit cachePlans db =
     decorateArtifactEvictionConditions now (decorateSlotConditions now (decorateNodeConditions now
       (decoratePolicyConditions now cachePlans (decorateProfileConditions now fit db))))"

subsection \<open>The runtimes in use\<close>

record RuntimeSummaryItem =
  RSum_Name :: string
  RSum_Adapter :: string
  RSum_ModelFormats :: "string list"
  RSum_TaskKinds :: "string list"
  RSum_BinarySource :: string
  RSum_BinaryCommand :: string
  RSum_ManagedArgs :: "string list"
  RSum_AvailableWorkers :: int
  RSum_ReadySlots :: int

definition addRuntimeAdapter :: "string list \<Rightarrow> string \<Rightarrow> string list" where
  "addRuntimeAdapter seen adapter =
     (let adapter = TrimSpace adapter in if adapter \<noteq> [] \<and> \<not> Contains seen adapter then seen @ [adapter] else seen)"

definition runtimeAdaptersInUse :: "Database \<Rightarrow> string list" where
  "runtimeAdaptersInUse db =
     sort (foldl addRuntimeAdapter [''llama.cpp-metal'']
       (concat (map (\<lambda>p. Profile_RuntimeAdapter p # map Variant_RuntimeAdapter (ProfileRuntimeVariants p)) (mvals (Profiles db))) @
        concat (map Node_RuntimeAdapters (mvals (Nodes db))) @ map Slot_RuntimeAdapter (mvals (Slots db))))"

definition managedLlamaServerArgs :: "string list" where
  "managedLlamaServerArgs = [''--host'', ''--port'', ''--model'', ''-m'', ''--mmproj'', ''--ctx-size'', ''-c'', ''--api-key'', ''--api-key-file'',
     ''--ssl-key-file'', ''--ssl-cert-file'']"

definition nodeRuntimeAvailable :: "Node \<Rightarrow> string \<Rightarrow> bool" where
  "nodeRuntimeAvailable node adapter \<longleftrightarrow>
     Node_State node = NodeStateOnline \<and> Node_Approved node \<and> \<not> Node_Quarantined node \<and> Contains (Node_RuntimeAdapters node) adapter"

definition availableWorkersForRuntime :: "Database \<Rightarrow> string \<Rightarrow> int" where
  "availableWorkersForRuntime db adapter = int (length (filter (\<lambda>n. nodeRuntimeAvailable n adapter) (mvals (Nodes db))))"

definition slotReadyForRuntime :: "Node \<Rightarrow> Slot \<Rightarrow> string \<Rightarrow> bool" where
  "slotReadyForRuntime node slot adapter \<longleftrightarrow> nodeRuntimeAvailable node adapter \<and> Slot_RuntimeAdapter slot = adapter \<and>
     Slot_State slot = SlotStateReady \<and> Slot_AcceptsNew slot \<and> \<not> Slot_Quarantined slot"

definition readySlotsForRuntime :: "Database \<Rightarrow> string \<Rightarrow> int" where
  "readySlotsForRuntime db adapter =
     int (length (filter (\<lambda>s. slotReadyForRuntime (mget zero_Node (Nodes db) (Slot_NodeID s)) s adapter) (mvals (Slots db))))"

definition runtimeSummaryItem :: "Database \<Rightarrow> string \<Rightarrow> RuntimeSummaryItem" where
  "runtimeSummaryItem db adapter =
     (let llama = isLlamaCppAdapter adapter in
      \<lparr>RSum_Name = adapter, RSum_Adapter = adapter, RSum_ModelFormats = (if llama then [''gguf''] else []), RSum_TaskKinds = [''llm.chat''],
       RSum_BinarySource = ''worker-installed'', RSum_BinaryCommand = (if llama then ''llama-server'' else ''worker-runtime''),
       RSum_ManagedArgs = (if llama then managedLlamaServerArgs else []),
       RSum_AvailableWorkers = availableWorkersForRuntime db adapter, RSum_ReadySlots = readySlotsForRuntime db adapter\<rparr>)"

definition BuildRuntimeSummary :: "Database \<Rightarrow> RuntimeSummaryItem list" where
  "BuildRuntimeSummary db = map (runtimeSummaryItem db) (runtimeAdaptersInUse db)"

end
