(* ===== verification/Admin_View.thy ===== *)
theory Admin_View
  imports Admin_State Worker_Core
begin

section \<open>What leaves the manager\<close>

text \<open>
  The whole state as the dashboard gets it (\<^verbatim>\<open>stateResponse\<close>), its broadcast to the subscribed
  dashboards, the counters of the metrics, the configuration as a document and the command that
  joins a worker. Text formats (JSON, YAML, Prometheus) are not modelled: a document is the record
  that is marshalled.
\<close>

subsection \<open>The state\<close>

record QueueState =
  Queue_Limit :: int
  Queue_InUse :: int
  Queue_Queued :: int

record StateResponse =
  State_Version :: string
  State_SchemaVersion :: int
  State_Settings :: GlobalSettings
  State_Nodes :: "Node list"
  State_Slots :: "Slot list"
  State_Artifacts :: "Artifact list"
  State_ArtifactEvictions :: "ArtifactEvictionRecord list"
  State_Profiles :: "WorkloadProfile list"
  State_Policies :: "PlacementPolicy list"
  State_Assignments :: "PlacementAssignment list"
  State_FitMatrix :: "FitResult list"
  State_RuntimeSummary :: "RuntimeSummaryItem list"
  State_CachePlans :: "CachePlan list"
  State_Tasks :: "Task list"
  State_Attempts :: "Attempt list"
  State_Reports :: "ComputeReport list"
  State_TaskSummary :: TaskSummary
  State_TaskPageLimit :: int
  State_TasksTruncated :: bool
  State_Updates :: "UpdateRecord list"
  State_Users :: "User list"
  State_APIKeys :: "APIKeyView list"
  State_ComputeLedger :: "ComputeLedgerEntry list"
  State_Queue :: QueueState
  State_AuditTail :: "AuditEvent list"

definition sanitizeArtifactForAdmin :: "Artifact \<Rightarrow> Artifact" where
  "sanitizeArtifactForAdmin artifact =
     artifact\<lparr>Artifact_Torrent := map_option (\<lambda>t. t\<lparr>Torrent_MetaInfoPath := [], Torrent_MetaInfoBytes := []\<rparr>) (Artifact_Torrent artifact)\<rparr>"

definition adminArtifacts :: "Database \<Rightarrow> Artifact list" where
  "adminArtifacts db = map sanitizeArtifactForAdmin (SortedArtifacts db)"

definition queuedTaskCount :: "Database \<Rightarrow> int" where
  "queuedTaskCount db = int (length (filter (\<lambda>t. Task_Status t = TaskStatusQueued) (mvals (Tasks db))))"

definition sortedUpdates :: "Database \<Rightarrow> UpdateRecord list" where
  "sortedUpdates db = sort_by (\<lambda>a b. Update_CreatedAt a < Update_CreatedAt b) (mvals (Updates db))"

definition sortedArtifactEvictions :: "Database \<Rightarrow> ArtifactEvictionRecord list" where
  "sortedArtifactEvictions db = sort_by (\<lambda>a b. if Evict_UpdatedAt a = Evict_UpdatedAt b then Evict_ID a > Evict_ID b
     else Evict_UpdatedAt b < Evict_UpdatedAt a) (mvals (ArtifactEvictions db))"

definition SortedAPIKeyViews :: "Database \<Rightarrow> APIKeyView list" where
  "SortedAPIKeyViews db = sort_by (\<lambda>a b. if KeyView_UserID a = KeyView_UserID b then KeyView_ID a < KeyView_ID b
     else KeyView_UserID a < KeyView_UserID b) (map apiKeyView (mvals (APIKeys db)))"

text \<open>The two maintenance passes change the stored database, the decorations only the snapshot.\<close>

definition stateView :: "time \<Rightarrow> ManagerConfig \<Rightarrow> nat \<Rightarrow> Database \<Rightarrow> StateResponse" where
  "stateView now cfg inUse db0 =
     (let db1 = decoratePolicyEffectiveCapacityWithCooldown db0 now (managerAutoBalanceCooldown cfg);
          fitMatrix = BuildFitMatrix db1;
          cachePlans = sortCachePlans (BuildCachePlansWithConfig now db1 cfg);
          runtimeSummary = BuildRuntimeSummary db1;
          db = decorateAdminStateConditions now fitMatrix cachePlans db1;
          audit = (if length (Audit db) > 100 then drop (length (Audit db) - 100) (Audit db) else Audit db);
          (tasks, attempts, reports, truncated) = stateTaskWindow db
      in \<lparr>State_Version = Version, State_SchemaVersion = SchemaVersion db, State_Settings = Settings db, State_Nodes = SortedNodes db,
          State_Slots = SortedSlots db, State_Artifacts = adminArtifacts db, State_ArtifactEvictions = sortedArtifactEvictions db,
          State_Profiles = SortedProfiles db, State_Policies = SortedPolicies db, State_Assignments = SortedAssignments db,
          State_FitMatrix = fitMatrix, State_RuntimeSummary = runtimeSummary, State_CachePlans = cachePlans, State_Tasks = tasks,
          State_Attempts = attempts, State_Reports = reports, State_TaskSummary = summarizeDatabaseTasks now db,
          State_TaskPageLimit = adminStateTaskLimit, State_TasksTruncated = truncated, State_Updates = sortedUpdates db,
          State_Users = SortedUsers db, State_APIKeys = SortedAPIKeyViews db, State_ComputeLedger = SortedComputeLedger db,
          State_Queue = \<lparr>Queue_Limit = Cfg_QueueLimit cfg, Queue_InUse = int inUse, Queue_Queued = queuedTaskCount db\<rparr>,
          State_AuditTail = audit\<rparr>)"

definition stateResponse :: "id_source \<Rightarrow> time \<Rightarrow> Manager \<Rightarrow> StateResponse \<times> Manager" where
  "stateResponse newID now m =
     (let m1 = maintain newID now m in (stateView now (Mgr_cfg m1) (Mgr_queue m1) (Mgr_db m1), m1))"

subsection \<open>The broadcast of the state\<close>

text \<open>
  A dashboard subscribes with a channel of four states. \<open>taken1\<close> and \<open>taken2\<close> are how many states its
  writer takes while the publisher is between its three attempts.
\<close>

definition subscriberCapacity :: nat where
  "subscriberCapacity = 4"

definition sendLatestAdminState :: "nat \<Rightarrow> nat \<Rightarrow> 's list \<Rightarrow> 's \<Rightarrow> bool \<times> 's list" where
  "sendLatestAdminState taken1 taken2 ch state =
     (if length ch < subscriberCapacity then (False, ch @ [state])
      else (let ch1 = drop taken1 ch;
                ch2 = (case ch1 of [] \<Rightarrow> [] | _ # rest \<Rightarrow> rest);
                ch3 = drop taken2 ch2
            in if length ch3 < subscriberCapacity then (True, ch3 @ [state]) else (True, ch3)))"

record RuntimeMetrics =
  RM_Clients :: int
  RM_ConnectsTotal :: int
  RM_BroadcastsTotal :: int
  RM_DroppedUpdatesTotal :: int
  RM_WriteFailuresTotal :: int
  RM_LastSnapshotBytes :: int
  RM_LastBroadcastSubscribers :: int

record 's adminStateHub =
  Hub_subscribers :: "'s list gomap"
  Hub_metrics :: RuntimeMetrics

definition addAdminStateSubscriber :: "string \<Rightarrow> 's adminStateHub \<Rightarrow> 's adminStateHub" where
  "addAdminStateSubscriber sid hub = hub\<lparr>Hub_subscribers := mput sid [] (Hub_subscribers hub),
     Hub_metrics := (Hub_metrics hub)\<lparr>RM_ConnectsTotal := wrap64 (RM_ConnectsTotal (Hub_metrics hub) + 1)\<rparr>\<rparr>"

definition removeAdminStateSubscriber :: "string \<Rightarrow> 's adminStateHub \<Rightarrow> 's adminStateHub" where
  "removeAdminStateSubscriber sid hub = hub\<lparr>Hub_subscribers := mdel sid (Hub_subscribers hub)\<rparr>"

definition recordAdminStateBroadcast :: "int \<Rightarrow> int \<Rightarrow> int \<Rightarrow> 's adminStateHub \<Rightarrow> 's adminStateHub" where
  "recordAdminStateBroadcast subscribers snapshotBytes dropped hub =
     (let rm = Hub_metrics hub in hub\<lparr>Hub_metrics := rm\<lparr>RM_BroadcastsTotal := wrap64 (RM_BroadcastsTotal rm + 1),
        RM_LastBroadcastSubscribers := subscribers, RM_LastSnapshotBytes := snapshotBytes,
        RM_DroppedUpdatesTotal := wrap64 (RM_DroppedUpdatesTotal rm + dropped)\<rparr>\<rparr>)"

definition recordAdminStateWSWriteFailure :: "'s adminStateHub \<Rightarrow> 's adminStateHub" where
  "recordAdminStateWSWriteFailure hub =
     hub\<lparr>Hub_metrics := (Hub_metrics hub)\<lparr>RM_WriteFailuresTotal := wrap64 (RM_WriteFailuresTotal (Hub_metrics hub) + 1)\<rparr>\<rparr>"

text \<open>\<open>bytes\<close> is the length of the marshalled state, and \<open>taken\<close> what the writers take meanwhile.\<close>

definition publishAdminState :: "(string \<Rightarrow> nat \<times> nat) \<Rightarrow> ('s \<Rightarrow> int) \<Rightarrow> 's \<Rightarrow> 's adminStateHub \<Rightarrow> 's adminStateHub" where
  "publishAdminState taken bytes state hub =
     (if Hub_subscribers hub = [] then hub
      else (let sent = map (\<lambda>(sid, ch). (sid, sendLatestAdminState (fst (taken sid)) (snd (taken sid)) ch state)) (Hub_subscribers hub);
                dropped = int (length (filter (\<lambda>(_, d, _). d) sent))
            in recordAdminStateBroadcast (int (length sent)) (bytes state) dropped
                 (hub\<lparr>Hub_subscribers := map (\<lambda>(sid, _, ch). (sid, ch)) sent\<rparr>)))"

definition runtimeMetricsSnapshot :: "'s adminStateHub \<Rightarrow> RuntimeMetrics" where
  "runtimeMetricsSnapshot hub = (Hub_metrics hub)\<lparr>RM_Clients := int (length (Hub_subscribers hub))\<rparr>"

subsection \<open>Counters of the metrics\<close>

definition countBy :: "('a \<Rightarrow> string) \<Rightarrow> 'a list \<Rightarrow> int gomap" where
  "countBy f xs = foldl (\<lambda>counts x. mput (f x) (mget 0 counts (f x) + 1) counts) [] xs"

definition nodeStateCounts :: "Database \<Rightarrow> int gomap" where "nodeStateCounts db = countBy Node_State (mvals (Nodes db))"
definition slotStateCounts :: "Database \<Rightarrow> int gomap" where "slotStateCounts db = countBy Slot_State (mvals (Slots db))"
definition taskStatusCounts :: "Database \<Rightarrow> int gomap" where "taskStatusCounts db = countBy Task_Status (mvals (Tasks db))"
definition reportStatusCounts :: "Database \<Rightarrow> int gomap" where "reportStatusCounts db = countBy Report_Status (mvals (Reports db))"

definition sortedMetricKeys :: "int gomap \<Rightarrow> string list" where
  "sortedMetricKeys counts = sort (map fst counts)"

record capacityMetricState =
  CapM_ProfileID :: string
  CapM_LogicalModel :: string
  CapM_DesiredCached :: int
  CapM_ActualCached :: int
  CapM_DesiredWarm :: int
  CapM_ActualWarm :: int
  CapM_Warming :: int
  CapM_Failed :: int
  CapM_Blocked :: int

definition desiredWarmSlotIDs :: "Database \<Rightarrow> string \<Rightarrow> string set" where
  "desiredWarmSlotIDs db profileID =
     Asg_SlotID ` {a \<in> set (mvals (Assignments db)). Asg_ProfileID a = profileID \<and> Asg_DesiredWarm a \<and> Asg_SlotID a \<noteq> []}"

definition capacityProgressCounts :: "Database \<Rightarrow> string \<Rightarrow> int \<times> int \<times> int" where
  "capacityProgressCounts db profileID =
     (let slots = filter (\<lambda>s. Slot_ID s \<in> desiredWarmSlotIDs db profileID \<and> Slot_ProfileID s = profileID) (mvals (Slots db)) in
      (int (length (filter (\<lambda>s. Contains [SlotStateDownloading, SlotStateCached, SlotStateLoading, SlotStateWarming] (Slot_State s)) slots)),
       int (length (filter (\<lambda>s. Slot_State s = SlotStateError) slots)),
       int (length (filter (\<lambda>a. Asg_ProfileID a = profileID \<and> Asg_DesiredCached a \<and> Asg_MismatchReason a \<noteq> [] \<and>
          \<not> (case map_of (Slots db) (Asg_SlotID a) of None \<Rightarrow> False | Some s \<Rightarrow> Slot_State s = SlotStateError)) (mvals (Assignments db))))))"

definition capacityMetricStates :: "time \<Rightarrow> Database \<Rightarrow> capacityMetricState list" where
  "capacityMetricStates now db =
     (let plans = cachePlansByProfile (BuildCachePlans now db) in
      concat (map (\<lambda>policy. case map_of (Profiles db) (Policy_ProfileID policy) of
          None \<Rightarrow> []
        | Some profile \<Rightarrow>
            (let capacity = EffectivePolicyCapacity db policy now;
                 plan = mget zero_CachePlan plans (Profile_ID profile);
                 (warming, failed, blocked) = capacityProgressCounts db (Profile_ID profile)
             in [\<lparr>CapM_ProfileID = Profile_ID profile, CapM_LogicalModel = ProfileLogicalModel profile, CapM_DesiredCached = Cap_Cached capacity,
                   CapM_ActualCached = CPlan_ActualCopies plan, CapM_DesiredWarm = Cap_Warm capacity, CapM_ActualWarm = actualWarmCopies plan,
                   CapM_Warming = warming, CapM_Failed = failed, CapM_Blocked = blocked\<rparr>])) (SortedPolicies db)))"

subsection \<open>The configuration as a document\<close>

record WorkerP2PConfigYAML =
  P2PY_Enabled :: bool
  P2PY_Mode :: string
  P2PY_Discovery :: string
  P2PY_DefaultPort :: int
  P2PY_DefaultMaxUploads :: int
  P2PY_DefaultDownloadTimeoutSeconds :: int
  P2PY_AvailableWorkers :: int
  P2PY_ReportingWorkers :: int
  P2PY_EffectivePorts :: "int list"
  P2PY_EffectiveMaxUploads :: "int list"
  P2PY_EffectiveDownloadTimeoutSeconds :: "int list"

record RuntimeConfigYAML =
  Yaml_Version :: string
  Yaml_Listen :: string
  Yaml_PublicURL :: string
  Yaml_StorageMode :: string
  Yaml_Backend :: string
  Yaml_ArtifactDir :: string
  Yaml_SQLitePath :: string
  Yaml_DatabaseURL :: string
  Yaml_AdminToken :: string
  Yaml_ClientBootstrapKey :: string
  Yaml_WorkerEnrollmentToken :: string
  Yaml_EnforceBalance :: bool
  Yaml_AllowDevDefaults :: bool
  Yaml_QueueLimit :: int
  Yaml_StreamWaitSeconds :: int
  Yaml_AutoBalanceScaleDownCooldownSeconds :: int
  Yaml_WorkerHeartbeatSeconds :: int
  Yaml_FlapThreshold :: int
  Yaml_FlapWindowSeconds :: int
  Yaml_FlapCooldownSeconds :: int
  Yaml_QuarantineThreshold :: int
  Yaml_QuarantineSeconds :: int
  Yaml_Connection :: string
  Yaml_AutoApprove :: bool
  Yaml_P2P :: WorkerP2PConfigYAML
  Yaml_DashboardStateStream :: string

text \<open>
  \<^verbatim>\<open>int64(d.Seconds())\<close>: towards zero. The conversion through \<^verbatim>\<open>float64\<close> is exact for durations
  below four million seconds, about 48 days.
\<close>

definition wholeSeconds :: "duration \<Rightarrow> int" where
  "wholeSeconds d = (if d < 0 then - (- d div 1000000000) else d div 1000000000)"

definition redactedConfigValue :: "string \<Rightarrow> string" where
  "redactedConfigValue value = (if value = [] then ''<unset>'' else ''<redacted: configured>'')"

text \<open>The keys of a set of numbers, in order.\<close>

definition sortedIntKeys :: "int set \<Rightarrow> int list" where
  "sortedIntKeys S = sorted_list_of_set S"

definition nodeP2P :: "Database \<Rightarrow> WorkerP2PStatus list" where
  "nodeP2P db = List.map_filter Node_P2P (mvals (Nodes db))"

definition countWorkerP2PAvailable :: "Database \<Rightarrow> int" where
  "countWorkerP2PAvailable db = int (length (filter P2P_Available (nodeP2P db)))"

definition countWorkerP2PReporting :: "Database \<Rightarrow> int" where
  "countWorkerP2PReporting db = int (length (nodeP2P db))"

definition uniqueWorkerP2PPorts :: "Database \<Rightarrow> int list" where
  "uniqueWorkerP2PPorts db = sortedIntKeys (set (filter (\<lambda>n. n > 0) (map P2P_Port (nodeP2P db))))"

definition uniqueWorkerP2PMaxUploads :: "Database \<Rightarrow> int list" where
  "uniqueWorkerP2PMaxUploads db = sortedIntKeys (set (filter (\<lambda>n. n > 0) (map P2P_MaxUploads (nodeP2P db))))"

definition uniqueWorkerP2PTimeouts :: "Database \<Rightarrow> int list" where
  "uniqueWorkerP2PTimeouts db = sortedIntKeys (set (filter (\<lambda>n. n > 0) (map P2P_DownloadTimeoutSeconds (nodeP2P db))))"

definition workerP2PConfigYAML :: "Database \<Rightarrow> WorkerP2PConfigYAML" where
  "workerP2PConfigYAML db =
     (if \<not> Settings_P2PEnabled (Settings db)
      then \<lparr>P2PY_Enabled = False, P2PY_Mode = [], P2PY_Discovery = [], P2PY_DefaultPort = 0, P2PY_DefaultMaxUploads = 0,
        P2PY_DefaultDownloadTimeoutSeconds = 0, P2PY_AvailableWorkers = 0, P2PY_ReportingWorkers = 0, P2PY_EffectivePorts = [],
        P2PY_EffectiveMaxUploads = [], P2PY_EffectiveDownloadTimeoutSeconds = []\<rparr>
      else \<lparr>P2PY_Enabled = True, P2PY_Mode = ''bestEffortPublicBitTorrent'', P2PY_Discovery = ''publicDHTAndMagnet'',
        P2PY_DefaultPort = defaultWorkerP2PPort, P2PY_DefaultMaxUploads = defaultWorkerP2PMaxUploads,
        P2PY_DefaultDownloadTimeoutSeconds = wholeSeconds defaultWorkerP2PDownloadTimeout,
        P2PY_AvailableWorkers = countWorkerP2PAvailable db, P2PY_ReportingWorkers = countWorkerP2PReporting db,
        P2PY_EffectivePorts = uniqueWorkerP2PPorts db, P2PY_EffectiveMaxUploads = uniqueWorkerP2PMaxUploads db,
        P2PY_EffectiveDownloadTimeoutSeconds = uniqueWorkerP2PTimeouts db\<rparr>)"

text \<open>\<open>backend\<close> is the name of the storage backend.\<close>

definition runtimeConfigYAML :: "string \<Rightarrow> ManagerConfig \<Rightarrow> Database \<Rightarrow> RuntimeConfigYAML" where
  "runtimeConfigYAML backend cfg db =
     \<lparr>Yaml_Version = Version, Yaml_Listen = Cfg_Addr cfg, Yaml_PublicURL = Cfg_ExternalURL cfg, Yaml_StorageMode = Cfg_StorageMode cfg,
      Yaml_Backend = backend, Yaml_ArtifactDir = Cfg_ArtifactDir cfg, Yaml_SQLitePath = Cfg_DBPath cfg,
      Yaml_DatabaseURL = redactedConfigValue (Cfg_DatabaseURL cfg), Yaml_AdminToken = redactedConfigValue (Cfg_AdminToken cfg),
      Yaml_ClientBootstrapKey = redactedConfigValue (Cfg_ClientAPIKey cfg), Yaml_WorkerEnrollmentToken = redactedConfigValue (Cfg_WorkerToken cfg),
      Yaml_EnforceBalance = Cfg_EnforceBalance cfg, Yaml_AllowDevDefaults = Cfg_AllowDevTokens cfg, Yaml_QueueLimit = Cfg_QueueLimit cfg,
      Yaml_StreamWaitSeconds = wholeSeconds (Cfg_StreamWait cfg),
      Yaml_AutoBalanceScaleDownCooldownSeconds = wholeSeconds (Cfg_AutoBalanceScaleDownCooldown cfg),
      Yaml_WorkerHeartbeatSeconds = wholeSeconds (Cfg_WorkerHeartbeatTimeout cfg), Yaml_FlapThreshold = Cfg_WorkerFlapThreshold cfg,
      Yaml_FlapWindowSeconds = wholeSeconds (Cfg_WorkerFlapWindow cfg), Yaml_FlapCooldownSeconds = wholeSeconds (Cfg_WorkerFlapCooldown cfg),
      Yaml_QuarantineThreshold = Cfg_QuarantineThreshold cfg, Yaml_QuarantineSeconds = wholeSeconds (Cfg_QuarantineDuration cfg),
      Yaml_Connection = ''outboundWebSocket'', Yaml_AutoApprove = Cfg_AutoApprove cfg, Yaml_P2P = workerP2PConfigYAML db,
      Yaml_DashboardStateStream = ''websocket''\<rparr>"

subsection \<open>The command that joins a worker\<close>

definition shellQuote :: "string \<Rightarrow> string" where
  "shellQuote value = [CHR 0x27] @ concat (map (\<lambda>c. if c = CHR 0x27 then [CHR 0x27, CHR 0x22, CHR 0x27, CHR 0x22, CHR 0x27] else [c]) value) @ [CHR 0x27]"

definition workerJoinInstallCommand :: "string \<Rightarrow> string \<Rightarrow> string" where
  "workerJoinInstallCommand managerURL workerToken =
     ''cd dist/bundle-darwin-arm64'' @ [CHR 0x0A] @ ''COMRAD_MANAGER_URL='' @ shellQuote managerURL @ '' '' @ [CHR 0x5C, CHR 0x0A] @
     ''COMRAD_WORKER_TOKEN='' @ shellQuote workerToken @ '' '' @ [CHR 0x5C, CHR 0x0A] @ ''scripts/install-worker-macos.sh''"

end
