(* ===== verification/Admin_View_Properties.thy ===== *)
theory Admin_View_Properties
  imports Admin_View
begin

section \<open>The administrator is told the truth\<close>

text \<open>
  The counts of a cache plan are exact, the state that is sent shows the tables as they are, with
  truthful conditions and without secrets, and the join command quotes its values.
\<close>

subsection \<open>Cache plans\<close>

lemma cachePlanCopyCounts_length:
  "cachePlanCopyCounts ws desired =
     (int (length (filter CacheW_Cached ws)), int (length (filter (\<lambda>w. CacheW_Cached w \<and> CacheW_NodeID w \<notin> desired \<and> \<not> CacheW_Active w) ws)))"
  by (induction ws) (auto split: prod.split)

lemma cacheWorkerStatuses_count:
  assumes "\<And>st. P st \<Longrightarrow> CacheW_Cached st"
  shows "length (filter P (cacheWorkerStatuses db profile artifacts desired)) =
    length (filter (\<lambda>n. P (cacheWorkerStatusForNode db profile artifacts n)) (mvals (Nodes db)))"
proof -
  have "filter P (cacheWorkerStatuses db profile artifacts desired) = filter P (map (cacheWorkerStatusForNode db profile artifacts) (SortedNodes db))"
    using assms by (auto simp: cacheWorkerStatuses_def includeCacheWorker_def intro: filter_cong)
  moreover have "mset (SortedNodes db) = mset (mvals (Nodes db))" by (simp add: SortedNodes_def sortNodes_def)
  ultimately show ?thesis
    by (simp add: filter_map comp_def length_filter_mset)
qed

text \<open>C38: A cache plan counts exactly. Its actual copies are the nodes that hold every artifact of the profile, although only
  some nodes are listed; its stale copies are those of them where no assignment wants the profile and no task runs it; every
  node where the profile is wanted, cached, warm or active is listed; and the plan says that its copies are cached exactly
  if there are as many as the policy demands.\<close>

theorem cache_plan_exact:
  fixes db profile policy now cooldown
  defines "plan \<equiv> buildCachePlanWithCooldown now db profile policy cooldown" and "artifacts \<equiv> profileArtifactIDs profile"
    and "wanted \<equiv> desiredCacheNodes db (Profile_ID profile)"
  shows "CPlan_ActualCopies plan = int (length (filter (\<lambda>n. nodeHasArtifacts n artifacts) (mvals (Nodes db)))) \<and>
    CPlan_StaleCopies plan = int (length (filter (\<lambda>n. nodeHasArtifacts n artifacts \<and> Node_ID n \<notin> wanted \<and>
      \<not> nodeActiveForProfile db (Node_ID n) (Profile_ID profile)) (mvals (Nodes db)))) \<and>
    CPlan_StaleCopies plan \<le> CPlan_ActualCopies plan \<and>
    (\<forall>n \<in> set (mvals (Nodes db)). Node_ID n \<in> wanted \<or> nodeHasArtifacts n artifacts \<or> nodeWarmForProfile db (Node_ID n) profile \<or>
      nodeActiveForProfile db (Node_ID n) (Profile_ID profile) \<longrightarrow> Node_ID n \<in> CacheW_NodeID ` set (CPlan_Workers plan)) \<and>
    (Cond_Status (hd (CPlan_Conditions plan)) = ''True'' \<longleftrightarrow> CPlan_ActualCopies plan \<ge> Cap_Cached (effectivePolicyCapacity db policy now cooldown))"
proof -
  let ?ws = "cacheWorkerStatuses db profile artifacts wanted"
  have plan: "CPlan_ActualCopies plan = fst (cachePlanCopyCounts ?ws wanted)" "CPlan_StaleCopies plan = snd (cachePlanCopyCounts ?ws wanted)"
      "CPlan_Workers plan = ?ws" "CPlan_DesiredCopies plan = Cap_Cached (effectivePolicyCapacity db policy now cooldown)"
      "Cond_Status (hd (CPlan_Conditions plan)) = (if CPlan_ActualCopies plan \<ge> CPlan_DesiredCopies plan then ''True'' else ''False'')"
    by (simp_all add: plan_def artifacts_def wanted_def buildCachePlanWithCooldown_def cachePlanConditions_def cacheCopiesCondition_def newCondition_def
        Let_def split: prod.split)
  have actual: "CPlan_ActualCopies plan = int (length (filter (\<lambda>n. nodeHasArtifacts n artifacts) (mvals (Nodes db))))"
    using cacheWorkerStatuses_count [of CacheW_Cached db profile artifacts wanted]
    by (simp add: plan cachePlanCopyCounts_length cacheWorkerStatusForNode_def)
  have stale: "CPlan_StaleCopies plan = int (length (filter (\<lambda>n. nodeHasArtifacts n artifacts \<and> Node_ID n \<notin> wanted \<and>
      \<not> nodeActiveForProfile db (Node_ID n) (Profile_ID profile)) (mvals (Nodes db))))"
    using cacheWorkerStatuses_count [of "\<lambda>w. CacheW_Cached w \<and> CacheW_NodeID w \<notin> wanted \<and> \<not> CacheW_Active w" db profile artifacts wanted]
    by (simp add: plan cachePlanCopyCounts_length cacheWorkerStatusForNode_def)
  have "length (filter (\<lambda>n. nodeHasArtifacts n artifacts \<and> Q n) ns) \<le> length (filter (\<lambda>n. nodeHasArtifacts n artifacts) ns)" for Q ns
    by (induction ns) auto
  then have le: "CPlan_StaleCopies plan \<le> CPlan_ActualCopies plan" unfolding actual stale by simp
  have listed: "Node_ID n \<in> CacheW_NodeID ` set ?ws"
    if "n \<in> set (mvals (Nodes db))" "Node_ID n \<in> wanted \<or> nodeHasArtifacts n artifacts \<or> nodeWarmForProfile db (Node_ID n) profile \<or>
      nodeActiveForProfile db (Node_ID n) (Profile_ID profile)" for n
  proof
    show "Node_ID n = CacheW_NodeID (cacheWorkerStatusForNode db profile artifacts n)" by (simp add: cacheWorkerStatusForNode_def)
    show "cacheWorkerStatusForNode db profile artifacts n \<in> set ?ws"
      using that by (auto simp: cacheWorkerStatuses_def SortedNodes_def sortNodes_def includeCacheWorker_def cacheWorkerStatusForNode_def)
  qed
  show ?thesis
    using actual stale le listed plan(3-5) by auto
qed

definition sample_copies_db :: Database where
  "sample_copies_db = sample_db\<lparr>Nodes := [(''n1'', sample_node\<lparr>Node_CachedArtifacts := [''sha256:aa'']\<rparr>), (''n2'', sample_node\<lparr>Node_ID := ''n2''\<rparr>)]\<rparr>"

theorem cache_plan_exact_witness:
  "CPlan_ActualCopies (buildCachePlanWithCooldown 5 sample_copies_db sample_profile sample_policy 0) = 1 \<and>
   CPlan_StaleCopies (buildCachePlanWithCooldown 5 sample_copies_db sample_profile sample_policy 0) = 1"
proof -
  have "int (length (filter (\<lambda>n. nodeHasArtifacts n (profileArtifactIDs sample_profile)) (mvals (Nodes sample_copies_db)))) = 1" by code_simp
  moreover have "int (length (filter (\<lambda>n. nodeHasArtifacts n (profileArtifactIDs sample_profile) \<and>
      Node_ID n \<notin> desiredCacheNodes sample_copies_db (Profile_ID sample_profile) \<and>
      \<not> nodeActiveForProfile sample_copies_db (Node_ID n) (Profile_ID sample_profile)) (mvals (Nodes sample_copies_db)))) = 1" by code_simp
  ultimately show ?thesis using cache_plan_exact [of 5 sample_copies_db sample_profile sample_policy 0] by simp
qed

subsection \<open>The state as it is sent\<close>

lemma sort_by_map: "(\<And>a b. lt (f a) (f b) \<longleftrightarrow> lt a b) \<Longrightarrow> sort_by lt (map f xs) = map f (sort_by lt xs)"
proof (induction xs)
  case (Cons x xs)
  have "insert_by lt (f x) (map f ys) = map f (insert_by lt x ys)" for ys by (induction ys) (auto simp: Cons.prems)
  with Cons show ?case by simp
qed simp

text \<open>Decorating the records of a table and erasing the decoration leaves the sorted table.\<close>

lemma decorated_table:
  fixes key :: "'a \<Rightarrow> string"
  assumes "\<And>k v. erase (f k v) = erase v" "\<And>v. key (erase v) = key v"
  shows "map erase (sort_by (\<lambda>a b. key a < key b) (mvals (mmap f m))) = map erase (sort_by (\<lambda>a b. key a < key b) (mvals m))"
proof -
  have "map erase (mvals (mmap f m)) = map erase (mvals m)"
    using assms(1) by (simp add: mvals_def mmap_def comp_def case_prod_beta)
  moreover have "map erase (sort_by (\<lambda>a b. key a < key b) xs) = sort_by (\<lambda>a b. key a < key b) (map erase xs)" for xs
    using sort_by_map [of "\<lambda>a b. key a < key b" erase xs] assms(2) by simp
  ultimately show ?thesis by simp
qed

definition bare_node :: "Node \<Rightarrow> Node" where "bare_node n = n\<lparr>Node_Conditions := []\<rparr>"
definition bare_slot :: "Slot \<Rightarrow> Slot" where "bare_slot s = s\<lparr>Slot_Conditions := []\<rparr>"
definition bare_profile :: "WorkloadProfile \<Rightarrow> WorkloadProfile" where "bare_profile p = p\<lparr>Profile_Conditions := []\<rparr>"
definition bare_policy :: "PlacementPolicy \<Rightarrow> PlacementPolicy" where
  "bare_policy p = p\<lparr>Policy_EffectiveCachedCount := 0, Policy_EffectiveWarmCount := 0, Policy_DemandQueued := 0, Policy_DemandRunning := 0,
     Policy_DemandRecent := 0, Policy_DemandSmoothed := 0, Policy_Conditions := []\<rparr>"

text \<open>The snapshot that a response is made from.\<close>

definition decorated :: "time \<Rightarrow> ManagerConfig \<Rightarrow> Database \<Rightarrow> Database" where
  "decorated now cfg db =
     (let db1 = decoratePolicyEffectiveCapacityWithCooldown db now (managerAutoBalanceCooldown cfg) in
      decorateAdminStateConditions now (BuildFitMatrix db1) (sortCachePlans (BuildCachePlansWithConfig now db1 cfg)) db1)"

lemmas decoration_defs = decorated_def decorateAdminStateConditions_def decorateArtifactEvictionConditions_def decorateSlotConditions_def
  decorateNodeConditions_def decoratePolicyConditions_def decorateProfileConditions_def decoratePolicyEffectiveCapacityWithCooldown_def Let_def

lemma stateView_tables:
  "State_Nodes (stateView now cfg q db) = SortedNodes (decorated now cfg db)" "State_Slots (stateView now cfg q db) = SortedSlots (decorated now cfg db)"
  "State_Profiles (stateView now cfg q db) = SortedProfiles (decorated now cfg db)"
  "State_Policies (stateView now cfg q db) = SortedPolicies (decorated now cfg db)"
  "State_Artifacts (stateView now cfg q db) = adminArtifacts (decorated now cfg db)"
  "State_Users (stateView now cfg q db) = SortedUsers (decorated now cfg db)"
  "State_ComputeLedger (stateView now cfg q db) = SortedComputeLedger (decorated now cfg db)"
  by (simp_all add: stateView_def decorated_def Let_def split: prod.split)

lemma bare_tables:
  "map bare_node (SortedNodes (decorated now cfg db)) = map bare_node (SortedNodes db)"
  "map bare_slot (SortedSlots (decorated now cfg db)) = map bare_slot (SortedSlots db)"
  "map bare_profile (SortedProfiles (decorated now cfg db)) = map bare_profile (SortedProfiles db)"
  "map bare_policy (SortedPolicies (decorated now cfg db)) = map bare_policy (SortedPolicies db)"
proof -
  show "map bare_node (SortedNodes (decorated now cfg db)) = map bare_node (SortedNodes db)"
    unfolding SortedNodes_def sortNodes_def decoration_defs by simp (rule decorated_table; simp add: bare_node_def)
  show "map bare_slot (SortedSlots (decorated now cfg db)) = map bare_slot (SortedSlots db)"
    unfolding SortedSlots_def sortSlots_def decoration_defs by simp (rule decorated_table; simp add: bare_slot_def)
  show "map bare_profile (SortedProfiles (decorated now cfg db)) = map bare_profile (SortedProfiles db)"
    unfolding SortedProfiles_def sortProfiles_def decoration_defs by simp (rule decorated_table; simp add: bare_profile_def)
  show "map bare_policy (SortedPolicies (decorated now cfg db)) = map bare_policy (SortedPolicies db)"
    unfolding SortedPolicies_def sortPolicies_def decoration_defs
    by simp (rule decorated_table; simp add: bare_policy_def)
qed

lemma decorated_slots:
  assumes "s \<in> set (SortedSlots (decorated now cfg db))"
  shows "Cond_Status (hd (Slot_Conditions s)) = ''True'' \<longleftrightarrow> Slot_State s = SlotStateReady \<and> Slot_AcceptsNew s \<and> \<not> Slot_Quarantined s"
  using assms
  by (auto simp: SortedSlots_def sortSlots_def decoration_defs mvals_def mmap_def slotConditions_def slotReadyCondition_def boolCondition_def newCondition_def Let_def split: if_splits)

lemma decorated_nodes:
  assumes "n \<in> set (SortedNodes (decorated now cfg db))"
  shows "Cond_Status (hd (Node_Conditions n)) = ''True'' \<longleftrightarrow> Node_State n = NodeStateOnline"
  using assms
  by (auto simp: SortedNodes_def sortNodes_def decoration_defs mvals_def mmap_def nodeConditions_def nodeConnectedCondition_def boolCondition_def newCondition_def Let_def split: if_splits)



subsection \<open>The broadcast\<close>

lemma sendLatest_spec:
  assumes "length ch \<le> subscriberCapacity" and "sendLatestAdminState taken1 taken2 ch state = (d, ch')"
  shows "\<exists>k. ch' = drop k ch @ [state] \<and> length ch' \<le> subscriberCapacity \<and> (d \<longleftrightarrow> length ch = subscriberCapacity) \<and> (\<not> d \<longrightarrow> k = 0)"
proof (cases "length ch < subscriberCapacity")
  case True
  then show ?thesis using assms(2) by (intro exI [of _ 0]) (auto simp: sendLatestAdminState_def)
next
  case False
  define ch3 where "ch3 = drop taken2 (case drop taken1 ch of [] \<Rightarrow> [] | _ # rest \<Rightarrow> rest)"
  have "(case drop taken1 ch of [] \<Rightarrow> [] | _ # rest \<Rightarrow> rest) = drop 1 (drop taken1 ch)" by (cases "drop taken1 ch") auto
  then have ch3: "ch3 = drop (taken1 + 1 + taken2) ch" by (simp add: ch3_def ac_simps)
  then have "length ch3 < subscriberCapacity" using assms(1) by (simp add: subscriberCapacity_def)
  then have "d \<and> ch' = ch3 @ [state] \<and> length ch' \<le> subscriberCapacity"
    using assms(2) False unfolding sendLatestAdminState_def Let_def ch3_def [symmetric] by auto
  then show ?thesis using False assms(1) ch3 by (intro exI [of _ "taken1 + 1 + taken2"]) auto
qed

text \<open>
  After a broadcast every subscribed dashboard has the new state as the last one to write, after the
  newest of the states that it had not yet written, and never more than four of them.
\<close>

theorem state_broadcast_latest:
  assumes "\<forall>(sid, ch) \<in> set (Hub_subscribers hub). length ch \<le> subscriberCapacity"
  shows "map fst (Hub_subscribers (publishAdminState taken bytes state hub)) = map fst (Hub_subscribers hub) \<and>
    (\<forall>(sid, ch) \<in> set (Hub_subscribers (publishAdminState taken bytes state hub)). ch \<noteq> [] \<and> last ch = state \<and> length ch \<le> subscriberCapacity)"
proof -
  have sent: "ch' \<noteq> [] \<and> last ch' = state \<and> length ch' \<le> subscriberCapacity"
    if "(sid, ch) \<in> set (Hub_subscribers hub)" "sendLatestAdminState a b ch state = (d, ch')" for sid ch a b d ch'
  proof -
    have "length ch \<le> subscriberCapacity" using that(1) assms by auto
    from sendLatest_spec [OF this that(2)] show ?thesis by auto
  qed
  show ?thesis
  proof (cases "Hub_subscribers hub = []")
    case False
    have hub: "Hub_subscribers (publishAdminState taken bytes state hub) =
        map (\<lambda>(sid, ch). (sid, snd (sendLatestAdminState (fst (taken sid)) (snd (taken sid)) ch state))) (Hub_subscribers hub)"
      using False by (simp add: publishAdminState_def recordAdminStateBroadcast_def Let_def case_prod_beta)
    have "ch' \<noteq> [] \<and> last ch' = state \<and> length ch' \<le> subscriberCapacity"
      if ch': "(sid, ch') \<in> set (Hub_subscribers (publishAdminState taken bytes state hub))" for sid ch'
    proof -
      obtain ch where "(sid, ch) \<in> set (Hub_subscribers hub)" "ch' = snd (sendLatestAdminState (fst (taken sid)) (snd (taken sid)) ch state)"
        using ch' unfolding hub by auto
      then show ?thesis using sent [OF _ surjective_pairing, of sid ch] by simp
    qed
    moreover have "map fst (Hub_subscribers (publishAdminState taken bytes state hub)) = map fst (Hub_subscribers hub)"
      by (simp add: hub comp_def case_prod_beta)
    ultimately show ?thesis by blast
  qed (simp add: publishAdminState_def)
qed

subsection \<open>Counters\<close>

lemma countBy_exact: "mget 0 (countBy f xs) k = int (length (filter (\<lambda>x. f x = k) xs)) \<and> distinct (map fst (countBy f xs))"
proof (induction xs rule: rev_induct)
  case (snoc x xs)
  then show ?case by (auto simp: countBy_def)
qed (simp add: countBy_def)

subsection \<open>Secrets and quoting\<close>

text \<open>Two configurations that differ only in secrets that are set.\<close>

definition same_but_secrets :: "ManagerConfig \<Rightarrow> ManagerConfig \<Rightarrow> bool" where
  "same_but_secrets c d \<longleftrightarrow>
     d = c\<lparr>Cfg_AdminToken := Cfg_AdminToken d, Cfg_ClientAPIKey := Cfg_ClientAPIKey d, Cfg_WorkerToken := Cfg_WorkerToken d, Cfg_DatabaseURL := Cfg_DatabaseURL d\<rparr> \<and>
     (Cfg_AdminToken c = [] \<longleftrightarrow> Cfg_AdminToken d = []) \<and> (Cfg_ClientAPIKey c = [] \<longleftrightarrow> Cfg_ClientAPIKey d = []) \<and>
     (Cfg_WorkerToken c = [] \<longleftrightarrow> Cfg_WorkerToken d = []) \<and> (Cfg_DatabaseURL c = [] \<longleftrightarrow> Cfg_DatabaseURL d = [])"

text \<open>The configuration document does not depend on the secrets: two configurations that differ only in the admin token, the
  client key, the worker token and the database URL, each set in both or in neither, give the same document.\<close>

theorem config_redacted:
  assumes "same_but_secrets c d"
  shows "runtimeConfigYAML backend c db = runtimeConfigYAML backend d db"
proof -
  obtain a k t u where d: "d = c\<lparr>Cfg_AdminToken := a, Cfg_ClientAPIKey := k, Cfg_WorkerToken := t, Cfg_DatabaseURL := u\<rparr>"
    using assms unfolding same_but_secrets_def by blast
  show ?thesis using assms by (simp add: same_but_secrets_def d runtimeConfigYAML_def redactedConfigValue_def)
qed

theorem config_redacted_witness:
  "runtimeConfigYAML ''sqlite'' (zero_ManagerConfig\<lparr>Cfg_AdminToken := ''s3cret''\<rparr>) sample_db =
   runtimeConfigYAML ''sqlite'' (zero_ManagerConfig\<lparr>Cfg_AdminToken := ''other''\<rparr>) sample_db"
  by (rule config_redacted) (simp add: same_but_secrets_def)

text \<open>
  How a POSIX shell reads a word of quoted parts: between single quotes every character stands for
  itself, between double quotes every one but the four that are special there. Anything else, and
  a quote that is not closed, is not such a word.
\<close>

datatype quoting = Bare | Single | Double

fun sh_word :: "quoting \<Rightarrow> string \<Rightarrow> string option" where
  "sh_word Bare [] = Some []"
| "sh_word Bare (c # cs) = (if c = CHR 0x27 then sh_word Single cs else if c = CHR 0x22 then sh_word Double cs else None)"
| "sh_word Single [] = None"
| "sh_word Single (c # cs) = (if c = CHR 0x27 then sh_word Bare cs else map_option ((#) c) (sh_word Single cs))"
| "sh_word Double [] = None"
| "sh_word Double (c # cs) =
     (if c = CHR 0x22 then sh_word Bare cs else if c = CHR ''$'' \<or> c = CHR 0x60 \<or> c = CHR 0x5C then None
      else map_option ((#) c) (sh_word Double cs))"

text \<open>C40: The join command quotes for every shell: the shell reads the quoted URL and the quoted token as one word each, with
  exactly the characters they have, whatever those are, so no value can break out of its assignment.\<close>

theorem shell_quote_roundtrip: "sh_word Bare (shellQuote s) = Some s"
proof -
  have "sh_word Single (concat (map (\<lambda>c. if c = CHR 0x27 then [CHR 0x27, CHR 0x22, CHR 0x27, CHR 0x22, CHR 0x27] else [c]) str) @ [CHR 0x27]) = Some str" for str
    by (induction str) auto
  then show ?thesis by (simp add: shellQuote_def)
qed

end
