(* ===== verification/Http_Server.thy ===== *)
theory Http_Server
  imports Manager_Steps Admin_View
begin

section \<open>The HTTP server (Handler of manager.go and the handlers behind it)\<close>

text \<open>
  The table of routes with its guards, the multiplexer of \<^verbatim>\<open>net/http\<close> that the table is registered in,
  and the handlers that dispatch on the method and decode a body before they call the operations of the
  other theories. A request carries what the handlers read of it; \<open>server\<close> holds what a handler gets from
  outside: decoders of the bodies, the clock, new ids and tokens, and whether the upgrade to a web socket
  succeeds. The page and the assets of the dashboard and the API document are constants of the program.
\<close>

subsection \<open>Requests and responses\<close>

record http_call =
  Call_method :: string
  Call_escapedPath :: string
  Call_contentType :: string
  Call_query :: "string \<Rightarrow> string"
  Call_header :: "string \<Rightarrow> string"
  Call_body :: string
  Call_http :: http_request

record body_codec =
  Read_UpdateNode :: "bool \<Rightarrow> string \<Rightarrow> string + UpdateNodeRequest"
  Read_CreateProfile :: "bool \<Rightarrow> string \<Rightarrow> string + CreateProfileRequest"
  Read_ProfileConfig :: "bool \<Rightarrow> string \<Rightarrow> string + ProfileConfig"
  Read_UpsertPolicy :: "bool \<Rightarrow> string \<Rightarrow> string + UpsertPolicyRequest"
  Read_Unban :: "bool \<Rightarrow> string \<Rightarrow> string + UnbanRequest"
  Read_ApplyWorkerUpdate :: "bool \<Rightarrow> string \<Rightarrow> string + ApplyWorkerUpdateRequest"
  Read_Settings :: "bool \<Rightarrow> string \<Rightarrow> string + bool option"
  Read_SetProfileComputeCost :: "bool \<Rightarrow> string \<Rightarrow> string + SetProfileComputeCostRequest"
  Read_CreateUser :: "bool \<Rightarrow> string \<Rightarrow> string + CreateUserRequest"
  Read_UpdateUser :: "bool \<Rightarrow> string \<Rightarrow> string + UpdateUserRequest"
  Read_AdminBalanceAdjustment :: "bool \<Rightarrow> string \<Rightarrow> string + AdminBalanceAdjustmentRequest"
  Read_IssueAPIKey :: "bool \<Rightarrow> string \<Rightarrow> string + IssueAPIKeyRequest"
  Read_APIKeyLookup :: "bool \<Rightarrow> string \<Rightarrow> string + string"
  Read_RevokeAPIKey :: "bool \<Rightarrow> string \<Rightarrow> string + string"
  Read_CreateArtifact :: "bool \<Rightarrow> string \<Rightarrow> string + CreateArtifactRequest"
  Read_CacheArtifactAction :: "bool \<Rightarrow> string \<Rightarrow> string + string"
  Read_Upload :: "string \<Rightarrow> string + uploadForm"
  Read_ChatCompletion :: "string \<Rightarrow> string + ChatCompletionRequest"

record server =
  Srv_read :: body_codec
  Srv_J :: json_codec
  Srv_sha256hex :: "string \<Rightarrow> string"
  Srv_newID :: id_source
  Srv_newAPIToken :: "string + string"
  Srv_buildMeta :: torrent_library
  Srv_ioErr :: "string option"
  Srv_cwd :: string
  Srv_backend :: string
  Srv_upgradeOK :: bool
  Srv_now :: time

record WorkerJoinResponse =
  Join_ManagerURL :: string
  Join_WorkerToken :: string
  Join_InstallCommand :: string

datatype response =
    Status reply
  | Redirect string
  | Document string
  | MetricsText "int gomap" "int gomap" "int gomap" "int gomap" "capacityMetricState list"
  | StateBody StateResponse
  | TicketBody string time
  | NodesBody "Node list" | SlotsBody "Slot list" | ArtifactsBody "Artifact list" | ProfilesBody "WorkloadProfile list"
  | PoliciesBody "PlacementPolicy list" | UsersBody "User list" | APIKeysBody "APIKeyView list"
  | IssuedKeyBody APIKeyView string
  | LookupBody APIKeyView User
  | PlacementBody "FitResult list" "PlacementAssignment list" "PlacementAssignment list"
  | ExplainBody PlacementExplainResponse
  | TasksBody "TaskListResponse option"
  | AttemptsBody "Attempt list" | ReportsBody "ComputeReport list" | UpdatesBody "UpdateRecord list" | SettingsBody GlobalSettings
  | JoinBody WorkerJoinResponse
  | ClientKeyBody string string
  | ConfigBody RuntimeConfigYAML
  | WorkerSocket string
  | ArtifactFile string
  | ModelsBody "model_view list"
  | JobBody Task
  | ChatBegun Task WorkloadProfile ChatCompletionRequest chatOptions

type_synonym handler = "http_call \<Rightarrow> files \<times> Manager \<Rightarrow> response \<times> files \<times> Manager"

definition methodNotAllowed :: response where
  "methodNotAllowed = Status (Reply 405 [])"

definition TrimPrefix :: "string \<Rightarrow> string \<Rightarrow> string" where
  "TrimPrefix s prefix = (if HasPrefix s prefix then drop (length prefix) s else s)"

text \<open>\<^verbatim>\<open>strings.Split\<close> with a separator that is not empty.\<close>

fun Split_loop :: "string \<Rightarrow> string \<Rightarrow> string \<Rightarrow> string list" where
  "Split_loop sep part [] = [part]"
| "Split_loop sep part (c # cs) =
     (if HasPrefix (c # cs) sep then part # Split_loop sep [] (drop (length sep - 1) cs) else Split_loop sep (part @ [c]) cs)"

definition Split :: "string \<Rightarrow> string \<Rightarrow> string list" where
  "Split s sep = Split_loop sep [] s"

text \<open>\<^verbatim>\<open>url.PathUnescape\<close>: nothing for an escape that is not well formed.\<close>

definition unhex :: "char \<Rightarrow> nat option" where
  "unhex c = (let n = of_char c :: nat in
     if 48 \<le> n \<and> n \<le> 57 then Some (n - 48) else if 97 \<le> n \<and> n \<le> 102 then Some (n - 87)
     else if 65 \<le> n \<and> n \<le> 70 then Some (n - 55) else None)"

fun PathUnescape :: "string \<Rightarrow> string option" where
  "PathUnescape [] = Some []"
| "PathUnescape (c # cs) =
     (if c = CHR ''%'' then
        (case cs of
           a # b # rest \<Rightarrow>
             (case (unhex a, unhex b) of
                (Some x, Some y) \<Rightarrow> map_option (\<lambda>s. char_of (16 * x + y) # s) (PathUnescape rest)
              | _ \<Rightarrow> None)
         | _ \<Rightarrow> None)
      else map_option (\<lambda>s. c # s) (PathUnescape cs))"

definition urlPath :: "http_call \<Rightarrow> string" where
  "urlPath r = the (PathUnescape (Call_escapedPath r))"

subsection \<open>Bodies\<close>

definition bodyLimit :: nat where
  "bodyLimit = 10 * 2 ^ 20"

definition isYAMLRequest :: "http_call \<Rightarrow> bool" where
  "isYAMLRequest r \<longleftrightarrow> (let ct = ToLower (Call_contentType r) in ContainsSub ct ''yaml'' \<or> ContainsSub ct ''yml'')"

definition readConfig :: "(bool \<Rightarrow> string \<Rightarrow> string + 'r) \<Rightarrow> http_call \<Rightarrow> string + 'r" where
  "readConfig decode r = decode (isYAMLRequest r) (take bodyLimit (Call_body r))"

definition readJSON :: "(string \<Rightarrow> string + 'r) \<Rightarrow> http_call \<Rightarrow> string + 'r" where
  "readJSON decode r = decode (take bodyLimit (Call_body r))"

subsection \<open>Guards\<close>

definition adminOnly :: "handler \<Rightarrow> handler" where
  "adminOnly next_handler r st =
     (if \<not> bearerMatches (Call_http r) (Cfg_AdminToken (Mgr_cfg (snd st))) then (Status (Reply 401 ''unauthorized''), st)
      else next_handler r st)"

definition adminBearerOnly :: "handler \<Rightarrow> handler" where
  "adminBearerOnly next_handler = adminOnly next_handler"

definition adminStateWSAuthorized :: "server \<Rightarrow> http_call \<Rightarrow> Manager \<Rightarrow> bool \<times> Manager" where
  "adminStateWSAuthorized srv r m =
     (if bearerMatches (Call_http r) (Cfg_AdminToken (Mgr_cfg m)) then (True, m)
      else consumeAdminStateWSTicket (Srv_sha256hex srv) (Call_query r ''ticket'') (Srv_now srv) m)"

definition adminTicketOrBearer :: "server \<Rightarrow> handler \<Rightarrow> handler" where
  "adminTicketOrBearer srv next_handler r st =
     (case st of (files, m) \<Rightarrow>
       (if bearerMatches (Call_http r) (Cfg_AdminToken (Mgr_cfg m)) then next_handler r (files, m)
        else case consumeAdminStateWSTicket (Srv_sha256hex srv) (Call_query r ''ticket'') (Srv_now srv) m of
          (False, m1) \<Rightarrow> (Status (Reply 401 ''unauthorized''), files, m1)
        | (True, m1) \<Rightarrow> next_handler r (files, m1)))"

definition clientOnly :: "server \<Rightarrow> (User \<Rightarrow> handler) \<Rightarrow> handler" where
  "clientOnly srv next_handler r st =
     (case st of (files, m) \<Rightarrow>
       (case authenticateClient (Srv_sha256hex srv) (bearerToken (Call_http r)) (Srv_now srv) (Mgr_db m) of
          Inl _ \<Rightarrow> (Status (Reply 401 ''unauthorized''), files, m)
        | Inr (user, db) \<Rightarrow> next_handler user r (files, m\<lparr>Mgr_db := db\<rparr>)))"

subsection \<open>Pages\<close>

text \<open>A page answers a GET request from a snapshot and changes nothing.\<close>

definition page :: "(http_call \<Rightarrow> ManagerConfig \<Rightarrow> Database \<Rightarrow> response) \<Rightarrow> handler" where
  "page body r st =
     (if Call_method r \<noteq> ''GET'' then (methodNotAllowed, st) else (body r (Mgr_cfg (snd st)) (cloneDatabase (Mgr_db (snd st))), st))"

definition handleHealth :: handler where
  "handleHealth r st = (Status (Reply 200 ''OK''), st)"

definition handleReady :: handler where
  "handleReady r st = (Status (Reply 200 ''OK''), st)"

definition metricsBody :: "server \<Rightarrow> http_call \<Rightarrow> ManagerConfig \<Rightarrow> Database \<Rightarrow> response" where
  "metricsBody srv r cfg db = MetricsText (nodeStateCounts db) (slotStateCounts db) (taskStatusCounts db) (reportStatusCounts db)
     (capacityMetricStates (Srv_now srv) db)"

definition handleMetrics :: "server \<Rightarrow> handler" where
  "handleMetrics srv = page (metricsBody srv)"

definition handleAdminMetrics :: "server \<Rightarrow> handler" where
  "handleAdminMetrics srv = page (metricsBody srv)"

definition handleDashboard :: handler where
  "handleDashboard r st =
     (if HasPrefix (urlPath r) ''/dashboard/assets/'' then (Document (urlPath r), st)
      else if urlPath r \<noteq> ''/'' \<and> urlPath r \<noteq> ''/dashboard/'' then (Status (Reply 404 []), st)
      else (Document ''index.html'', st))"

definition handleAdminSlots :: handler where
  "handleAdminSlots = page (\<lambda>r cfg db. SlotsBody (SortedSlots db))"

definition handleAdminPlacement :: "server \<Rightarrow> handler" where
  "handleAdminPlacement srv = page (\<lambda>r cfg db.
     PlacementBody (BuildFitMatrix db) (SortedAssignments db) (PlanPlacementWithConfig db cfg (Srv_now srv)))"

definition handleAdminPlacementExplain :: "server \<Rightarrow> handler" where
  "handleAdminPlacementExplain srv = page (\<lambda>r cfg db. ExplainBody (ExplainPlacementWithConfig db cfg (Srv_now srv)))"

definition handleAdminTasks :: "server \<Rightarrow> handler" where
  "handleAdminTasks srv = page (\<lambda>r cfg db. TasksBody (taskListResponse (Srv_now srv) db (parseTaskListQuery (Call_query r))))"

definition handleAdminAttempts :: handler where
  "handleAdminAttempts = page (\<lambda>r cfg db. AttemptsBody (SortedAttempts db))"

definition handleAdminReports :: handler where
  "handleAdminReports = page (\<lambda>r cfg db. ReportsBody (SortedReports db))"

definition handleAdminUpdates :: handler where
  "handleAdminUpdates = page (\<lambda>r cfg db. UpdatesBody (sortedUpdates db))"

definition handleAdminWorkerJoin :: handler where
  "handleAdminWorkerJoin = page (\<lambda>r cfg db. let managerURL = TrimRightSlash (baseURL cfg (Call_http r)) in
     JoinBody \<lparr>Join_ManagerURL = managerURL, Join_WorkerToken = Cfg_WorkerToken cfg,
       Join_InstallCommand = workerJoinInstallCommand managerURL (Cfg_WorkerToken cfg)\<rparr>)"

definition handleAdminClientKey :: handler where
  "handleAdminClientKey = page (\<lambda>r cfg db. ClientKeyBody (Cfg_ClientAPIKey cfg) (baseURL cfg (Call_http r)))"

definition handleAdminConfigYAML :: "server \<Rightarrow> handler" where
  "handleAdminConfigYAML srv = page (\<lambda>r cfg db. ConfigBody (runtimeConfigYAML (Srv_backend srv) cfg db))"

definition handleModelsPage :: handler where
  "handleModelsPage = page (\<lambda>r cfg db. ModelsBody (handleModels db))"

definition handleOpenAPIJSON :: handler where
  "handleOpenAPIJSON = page (\<lambda>r cfg db. Document ''openapi.json'')"

definition handleOpenAPIDocs :: handler where
  "handleOpenAPIDocs = page (\<lambda>r cfg db. Document ''docs.html'')"

subsection \<open>Operations of the administrator\<close>

text \<open>An operation on the manager, which leaves the files alone.\<close>

definition onManager :: "(Manager \<Rightarrow> reply \<times> Manager) \<Rightarrow> files \<times> Manager \<Rightarrow> response \<times> files \<times> Manager" where
  "onManager f st = (case st of (files, m) \<Rightarrow> (case f m of (rep, m1) \<Rightarrow> (Status rep, files, m1)))"

text \<open>A transaction on the database, with the code that is reported when it is refused.\<close>

definition onDatabase :: "string \<Rightarrow> reply \<Rightarrow> (Database \<Rightarrow> manager_error + Database) \<Rightarrow> files \<times> Manager \<Rightarrow> response \<times> files \<times> Manager" where
  "onDatabase code ok f st =
     onManager (\<lambda>m. case f (Mgr_db m) of Inl _ \<Rightarrow> (Reply 400 code, m) | Inr db \<Rightarrow> (ok, m\<lparr>Mgr_db := db\<rparr>)) st"

text \<open>A body that cannot be read ends the request.\<close>

definition withBody :: "string + 'r \<Rightarrow> ('r \<Rightarrow> files \<times> Manager \<Rightarrow> response \<times> files \<times> Manager) \<Rightarrow> files \<times> Manager \<Rightarrow> response \<times> files \<times> Manager" where
  "withBody body f st = (case body of Inl _ \<Rightarrow> (Status (Reply 400 ''bad_request''), st) | Inr req \<Rightarrow> f req st)"

definition postOnly :: "handler \<Rightarrow> handler" where
  "postOnly h r st = (if Call_method r \<noteq> ''POST'' then (methodNotAllowed, st) else h r st)"

definition handleAdminState :: "server \<Rightarrow> handler" where
  "handleAdminState srv r st =
     (case st of (files, m) \<Rightarrow> (case stateResponse (Srv_newID srv) (Srv_now srv) m of (body, m1) \<Rightarrow> (StateBody body, files, m1)))"

definition handleAdminStateWSTicket :: "server \<Rightarrow> handler" where
  "handleAdminStateWSTicket srv = postOnly (\<lambda>r st. case st of (files, m) \<Rightarrow>
     (case issueAdminStateWSTicket (Srv_sha256hex srv) (Srv_newID srv) (Srv_now srv) m of
        ((ticket, expiresAt), m1) \<Rightarrow> (TicketBody ticket expiresAt, files, m1)))"

text \<open>The handshake of a dashboard's web socket, up to the first state that is written to it.\<close>

definition handleAdminStateWS :: "server \<Rightarrow> handler" where
  "handleAdminStateWS srv r st =
     (case st of (files, m) \<Rightarrow>
       (case adminStateWSAuthorized srv r m of
          (False, m1) \<Rightarrow> (Status (Reply 401 ''unauthorized''), files, m1)
        | (True, m1) \<Rightarrow>
            if \<not> Srv_upgradeOK srv then (Status (Reply 400 []), files, m1) else handleAdminState srv r (files, m1)))"

definition parseNodeArtifactPath :: "string \<Rightarrow> (string \<times> string) option" where
  "parseNodeArtifactPath path =
     (case Split (TrimPrefix path ''/api/admin/nodes/'') ''/artifacts/'' of
        [nodeID, artifactID] \<Rightarrow> if nodeID = [] \<or> artifactID = [] then None else Some (nodeID, NormalizeSHA256 artifactID)
      | _ \<Rightarrow> None)"

definition handleAdminNodeArtifactByPath :: "server \<Rightarrow> handler" where
  "handleAdminNodeArtifactByPath srv r st =
     (if Call_method r \<noteq> ''POST'' \<and> Call_method r \<noteq> ''DELETE'' then (methodNotAllowed, st)
      else case parseNodeArtifactPath (urlPath r) of
        None \<Rightarrow> (Status (Reply 404 ''not_found''), st)
      | Some (nodeID, artifactID) \<Rightarrow>
          if Call_method r = ''POST'' then
            withBody (readConfig (Read_CacheArtifactAction (Srv_read srv)) r)
              (\<lambda>action. onManager (handleAdminNodeArtifactAction (Srv_J srv) (Srv_newID srv) nodeID artifactID action (Srv_now srv))) st
          else onManager (evictNodeArtifact (Srv_J srv) (Srv_newID srv) nodeID artifactID (Srv_now srv)) st)"

definition handleAdminNodes :: "server \<Rightarrow> handler" where
  "handleAdminNodes srv r st =
     (if Call_method r = ''GET'' then page (\<lambda>r cfg db. NodesBody (SortedNodes db)) r st
      else if Call_method r = ''POST'' then
        onManager (handleAdminNodeUpdate (Srv_J srv) (Srv_newID srv) (readConfig (Read_UpdateNode (Srv_read srv)) r) (Srv_now srv)) st
      else if Call_method r = ''DELETE'' then
        onManager (handleAdminNodeDelete (Srv_J srv) (Srv_newID srv) (Call_query r ''nodeId'') (Srv_now srv)) st
      else (methodNotAllowed, st))"

definition handleAdminArtifactUploadRequest :: "server \<Rightarrow> handler" where
  "handleAdminArtifactUploadRequest srv = postOnly (\<lambda>r st. case st of (files, m) \<Rightarrow>
     (case handleAdminArtifactUpload (Srv_sha256hex srv) (Srv_buildMeta srv) (Srv_ioErr srv) (Srv_newID srv)
        (Read_Upload (Srv_read srv) (Call_body r)) (Srv_now srv) files m of (rep, st1) \<Rightarrow> (Status rep, st1)))"

definition handleAdminArtifactDelete :: "server \<Rightarrow> handler" where
  "handleAdminArtifactDelete srv r st =
     (if Call_method r \<noteq> ''DELETE'' then (methodNotAllowed, st)
      else case st of (files, m) \<Rightarrow>
        (case handleAdminArtifactByID (Srv_cwd srv) (Srv_newID srv) (TrimPrefix (urlPath r) ''/api/admin/artifacts/'') (Srv_now srv) files m of
           (rep, st1) \<Rightarrow> (Status rep, st1)))"

definition handleAdminArtifacts :: "server \<Rightarrow> handler" where
  "handleAdminArtifacts srv r st =
     (if Call_method r = ''GET'' then page (\<lambda>r cfg db. ArtifactsBody (adminArtifacts db)) r st
      else postOnly (\<lambda>r st. case st of (files, m) \<Rightarrow>
        (case handleAdminArtifactCreate (Srv_sha256hex srv) (Srv_buildMeta srv) (Srv_ioErr srv) (Srv_cwd srv) (Srv_newID srv)
           (readConfig (Read_CreateArtifact (Srv_read srv)) r) (Srv_now srv) files m of (rep, st1) \<Rightarrow> (Status rep, st1))) r st)"

definition handleAdminProfiles :: "server \<Rightarrow> handler" where
  "handleAdminProfiles srv r st =
     (if Call_method r = ''GET'' then page (\<lambda>r cfg db. ProfilesBody (SortedProfiles db)) r st
      else if Call_method r = ''POST'' then
        (if isYAMLRequest r then
           onManager (handleAdminProfileConfigUpsert (Srv_J srv) (Srv_newID srv) (readConfig (Read_ProfileConfig (Srv_read srv)) r) (Srv_now srv)) st
         else onManager (handleAdminProfileUpsert (Srv_J srv) (Srv_newID srv) (readConfig (Read_CreateProfile (Srv_read srv)) r) (Srv_now srv)) st)
      else if Call_method r = ''DELETE'' then
        onManager (handleAdminProfileDelete (Srv_J srv) (Srv_newID srv) (Call_query r ''profileId'') (Srv_now srv)) st
      else (methodNotAllowed, st))"

definition handleAdminProfileComputeCost :: "server \<Rightarrow> handler" where
  "handleAdminProfileComputeCost srv = postOnly (\<lambda>r. withBody (readConfig (Read_SetProfileComputeCost (Srv_read srv)) r)
     (\<lambda>req. onDatabase ''profile_invalid'' (Reply 200 []) (setProfileComputeCost (Srv_newID srv) req (Srv_now srv))))"

definition handleAdminPolicies :: "server \<Rightarrow> handler" where
  "handleAdminPolicies srv r st =
     (if Call_method r = ''GET'' then page (\<lambda>r cfg db. PoliciesBody (SortedPolicies db)) r st
      else postOnly (\<lambda>r. onManager (handleAdminPolicyUpsert (Srv_J srv) (Srv_newID srv)
        (readConfig (Read_UpsertPolicy (Srv_read srv)) r) (Srv_now srv))) r st)"

definition handleAdminUsers :: "server \<Rightarrow> handler" where
  "handleAdminUsers srv r st =
     (if Call_method r = ''GET'' then page (\<lambda>r cfg db. UsersBody (SortedUsers db)) r st
      else if Call_method r = ''POST'' then
        withBody (readConfig (Read_CreateUser (Srv_read srv)) r)
          (\<lambda>req. onDatabase ''user_invalid'' (Reply 201 []) (handleAdminUserCreate (Srv_newID srv) req (Srv_now srv))) st
      else if Call_method r = ''PUT'' then
        withBody (readConfig (Read_UpdateUser (Srv_read srv)) r)
          (\<lambda>req. onDatabase ''user_invalid'' (Reply 200 []) (updateUser (Srv_newID srv) req (Srv_now srv))) st
      else (methodNotAllowed, st))"

definition handleBalanceAdjustment :: "server \<Rightarrow> handler" where
  "handleBalanceAdjustment srv = postOnly (\<lambda>r. withBody (readConfig (Read_AdminBalanceAdjustment (Srv_read srv)) r)
     (\<lambda>req. onDatabase ''ledger_invalid'' (Reply 201 []) (handleAdminBalanceAdjustment (Srv_newID srv) req (Srv_now srv))))"

definition handleAdminAPIKeyIssue :: "server \<Rightarrow> handler" where
  "handleAdminAPIKeyIssue srv r = withBody (readConfig (Read_IssueAPIKey (Srv_read srv)) r) (\<lambda>req st.
     case Srv_newAPIToken srv of
       Inl _ \<Rightarrow> (Status (Reply 500 ''token_error''), st)
     | Inr token \<Rightarrow>
         (case st of (files, m) \<Rightarrow>
           (let key = newIssuedAPIKey (Srv_sha256hex srv) (Srv_newID srv) token req (Srv_now srv) (Mgr_db m) in
            case storeAPIKey (Srv_newID srv) key (Mgr_db m) of
              Inl _ \<Rightarrow> (Status (Reply 400 ''api_key_invalid''), files, m)
            | Inr db \<Rightarrow> (IssuedKeyBody (apiKeyView key) token, files, m\<lparr>Mgr_db := db\<rparr>))))"

definition handleAdminAPIKeys :: "server \<Rightarrow> handler" where
  "handleAdminAPIKeys srv r st =
     (if Call_method r = ''GET'' then page (\<lambda>r cfg db. APIKeysBody (SortedAPIKeyViews db)) r st
      else postOnly (handleAdminAPIKeyIssue srv) r st)"

definition handleAdminAPIKeyLookup :: "server \<Rightarrow> handler" where
  "handleAdminAPIKeyLookup srv = postOnly (\<lambda>r. withBody (readConfig (Read_APIKeyLookup (Srv_read srv)) r) (\<lambda>token st.
     case lookupAPIKey (Srv_sha256hex srv) token (cloneDatabase (Mgr_db (snd st))) of
       Inl _ \<Rightarrow> (Status (Reply 404 ''api_key_not_found''), st)
     | Inr (key, user) \<Rightarrow> (LookupBody key user, st)))"

definition handleAdminAPIKeyRevoke :: "server \<Rightarrow> handler" where
  "handleAdminAPIKeyRevoke srv = postOnly (\<lambda>r. withBody (readConfig (Read_RevokeAPIKey (Srv_read srv)) r)
     (\<lambda>keyID. onDatabase ''api_key_invalid'' (Reply 200 ''ok'') (revokeAPIKey (Srv_newID srv) keyID (Srv_now srv))))"

definition applyPlacement :: "server \<Rightarrow> handler" where
  "applyPlacement srv = postOnly (\<lambda>r. onManager (handleApplyPlacement (Srv_J srv) (Srv_newID srv) (Srv_now srv)))"

definition unbanRequest :: "server \<Rightarrow> handler" where
  "unbanRequest srv = postOnly (\<lambda>r. onManager (handleAdminUnban (Srv_J srv) (Srv_newID srv) (readConfig (Read_Unban (Srv_read srv)) r) (Srv_now srv)))"

definition applyWorkerUpdate :: "server \<Rightarrow> handler" where
  "applyWorkerUpdate srv = postOnly (\<lambda>r. onManager (handleApplyWorkerUpdate (Srv_J srv) (Srv_newID srv)
     (readConfig (Read_ApplyWorkerUpdate (Srv_read srv)) r) (Srv_now srv)))"

definition settingsRequest :: "server \<Rightarrow> handler" where
  "settingsRequest srv r st =
     (if Call_method r = ''GET'' then page (\<lambda>r cfg db. SettingsBody (Settings db)) r st
      else postOnly (\<lambda>r. onManager (handleAdminSettings (Srv_J srv) (Srv_newID srv) (readConfig (Read_Settings (Srv_read srv)) r) (Srv_now srv))) r st)"

subsection \<open>Workers and clients\<close>

definition connectWorker :: "server \<Rightarrow> handler" where
  "connectWorker srv r st =
     (case st of (files, m) \<Rightarrow>
       (case handleWorkerWS (Srv_newID srv) (Call_http r) (Srv_upgradeOK srv) m of
          (Inl rep, m1) \<Rightarrow> (Status rep, files, m1)
        | (Inr sid, m1) \<Rightarrow> (WorkerSocket sid, files, m1)))"

definition workerToken :: "http_request \<Rightarrow> string" where
  "workerToken r = (if Http_queryToken r = [] then bearerToken r else Http_queryToken r)"

definition serveWorkerArtifact :: "server \<Rightarrow> handler" where
  "serveWorkerArtifact srv r st =
     (if \<not> workerAuthorized (Mgr_cfg (snd st)) (Call_http r) then (Status (Reply 401 ''unauthorized''), st)
      else if Call_method r \<noteq> ''GET'' \<and> Call_method r \<noteq> ''HEAD'' then (methodNotAllowed, st)
      else case st of (files, m) \<Rightarrow>
        (case handleWorkerArtifact (Srv_sha256hex srv) (Srv_newID srv) (workerToken (Call_http r))
           (TrimPrefix (urlPath r) ''/api/worker/artifacts/'') (Call_header r ''X-COMRAD-Node-ID'') (Call_header r ''X-COMRAD-Node-Token'')
           (Srv_now srv) files m of
           (rep, m1, None) \<Rightarrow> (Status rep, files, m1)
         | (_, m1, Some content) \<Rightarrow> (ArtifactFile content, files, m1)))"

definition chatRequest :: "server \<Rightarrow> User \<Rightarrow> handler" where
  "chatRequest srv user = postOnly (\<lambda>r st. case st of (files, m) \<Rightarrow>
     (case handleChatCompletions (Srv_newID srv) user (readJSON (Read_ChatCompletion (Srv_read srv)) r) (Srv_now srv) m of
        (Inl rep, m1) \<Rightarrow> (Status rep, files, m1)
      | (Inr (task, profile, req, opts), m1) \<Rightarrow> (ChatBegun task profile req opts, files, m1)))"

definition jobRequest :: "server \<Rightarrow> User \<Rightarrow> handler" where
  "jobRequest srv user r st =
     (case st of (files, m) \<Rightarrow>
       (case handleJobs (Srv_J srv) (Srv_newID srv) user (Call_method r) (TrimPrefix (urlPath r) ''/v1/jobs/'') (Srv_now srv) m of
          (rep, None, m1) \<Rightarrow> (Status rep, files, m1)
        | (_, Some task, m1) \<Rightarrow> (JobBody task, files, m1)))"

subsection \<open>The routes\<close>

definition Handler :: "server \<Rightarrow> (string \<times> handler) list" where
  "Handler srv =
    [(''/health'', handleHealth),
     (''/ready'', handleReady),
     (''/metrics'', handleMetrics srv),
     (''/'', handleDashboard),
     (''/api/admin/state'', adminOnly (handleAdminState srv)),
     (''/api/admin/state/ws-ticket'', adminBearerOnly (handleAdminStateWSTicket srv)),
     (''/api/admin/state/ws'', handleAdminStateWS srv),
     (''/api/admin/nodes/'', adminOnly (handleAdminNodeArtifactByPath srv)),
     (''/api/admin/nodes'', adminOnly (handleAdminNodes srv)),
     (''/api/admin/slots'', adminOnly handleAdminSlots),
     (''/api/admin/artifacts/upload'', adminOnly (handleAdminArtifactUploadRequest srv)),
     (''/api/admin/artifacts/'', adminOnly (handleAdminArtifactDelete srv)),
     (''/api/admin/artifacts'', adminOnly (handleAdminArtifacts srv)),
     (''/api/admin/profiles'', adminOnly (handleAdminProfiles srv)),
     (''/api/admin/profiles/compute-cost'', adminOnly (handleAdminProfileComputeCost srv)),
     (''/api/admin/policies'', adminOnly (handleAdminPolicies srv)),
     (''/api/admin/users'', adminOnly (handleAdminUsers srv)),
     (''/api/admin/users/adjust-balance'', adminOnly (handleBalanceAdjustment srv)),
     (''/api/admin/api-keys/lookup'', adminOnly (handleAdminAPIKeyLookup srv)),
     (''/api/admin/api-keys'', adminOnly (handleAdminAPIKeys srv)),
     (''/api/admin/api-keys/revoke'', adminOnly (handleAdminAPIKeyRevoke srv)),
     (''/api/admin/placement/explain'', adminOnly (handleAdminPlacementExplain srv)),
     (''/api/admin/placement'', adminOnly (handleAdminPlacement srv)),
     (''/api/admin/placement/apply'', adminOnly (applyPlacement srv)),
     (''/api/admin/tasks'', adminOnly (handleAdminTasks srv)),
     (''/api/admin/attempts'', adminOnly handleAdminAttempts),
     (''/api/admin/reports'', adminOnly handleAdminReports),
     (''/api/admin/quarantine/unban'', adminOnly (unbanRequest srv)),
     (''/api/admin/updates'', adminOnly handleAdminUpdates),
     (''/api/admin/updates/workers/apply'', adminOnly (applyWorkerUpdate srv)),
     (''/api/admin/metrics'', adminOnly (handleAdminMetrics srv)),
     (''/api/admin/worker-join'', adminOnly handleAdminWorkerJoin),
     (''/api/admin/client-key'', adminOnly handleAdminClientKey),
     (''/api/admin/config.yaml'', adminOnly (handleAdminConfigYAML srv)),
     (''/api/admin/settings'', adminOnly (settingsRequest srv)),
     (''/api/admin/openapi.json'', adminOnly handleOpenAPIJSON),
     (''/api/admin/docs'', adminTicketOrBearer srv handleOpenAPIDocs),
     (''/api/worker/ws'', connectWorker srv),
     (''/api/worker/artifacts/'', serveWorkerArtifact srv),
     (''/v1/models'', clientOnly srv (\<lambda>user. handleModelsPage)),
     (''/v1/chat/completions'', clientOnly srv (chatRequest srv)),
     (''/v1/jobs/'', clientOnly srv (jobRequest srv))]"

subsection \<open>The multiplexer of net/http\<close>

text \<open>
  The segments of a path between its slashes; a path that ends in a slash has an empty last segment. A
  pattern that ends in a slash matches every path with more segments that begins with its own, another one
  only the path with just its segments, and the longest pattern that matches wins. A path that is not clean
  is redirected to the clean one, and a path that only lacks the slash of a pattern to that pattern.
\<close>

definition segments :: "string \<Rightarrow> string list" where
  "segments path = split_path (drop 1 path)"

definition patternMatches :: "string \<Rightarrow> string list \<Rightarrow> bool" where
  "patternMatches pat segs \<longleftrightarrow>
     (if HasSuffix pat ''/'' then (let ps = butlast (segments pat) in length ps < length segs \<and> take (length ps) segs = ps)
      else segments pat = segs)"

definition matchPath :: "(string \<times> 'h) list \<Rightarrow> string \<Rightarrow> (string \<times> 'h) option" where
  "matchPath routes path =
     (let segs = map (\<lambda>s. case PathUnescape s of Some u \<Rightarrow> u | None \<Rightarrow> s) (segments path) in
      foldl (\<lambda>best route.
        if \<not> patternMatches (fst route) segs then best
        else case best of None \<Rightarrow> Some route | Some b \<Rightarrow> if length (fst b) < length (fst route) then Some route else best) None routes)"

definition exactMatch :: "string \<Rightarrow> string \<Rightarrow> bool" where
  "exactMatch pat path \<longleftrightarrow>
     (if \<not> HasSuffix pat ''/'' then True
      else if \<not> HasSuffix path ''/'' then False
      else length (segments pat) = length (segments path))"

definition cleanPath :: "string \<Rightarrow> string" where
  "cleanPath p0 =
     (if p0 = [] then ''/''
      else (let p = (if HasPrefix p0 ''/'' then p0 else CHR ''/'' # p0); np = Clean p
            in if HasSuffix p ''/'' \<and> np \<noteq> ''/'' then np @ ''/'' else np))"

definition matchOrRedirect :: "(string \<times> 'h) list \<Rightarrow> string \<Rightarrow> bool \<times> (string \<times> 'h) option" where
  "matchOrRedirect routes path =
     (let n = matchPath routes path in
      if (case n of None \<Rightarrow> True | Some (pat, _) \<Rightarrow> \<not> exactMatch pat path) \<and> \<not> HasSuffix path ''/'' \<and>
         (case matchPath routes (path @ ''/'') of None \<Rightarrow> False | Some (pat, _) \<Rightarrow> exactMatch pat (path @ ''/''))
      then (True, None) else (False, n))"

definition findHandler :: "(string \<times> handler) list \<Rightarrow> http_call \<Rightarrow> response + handler" where
  "findHandler routes r =
     (let escaped = Call_escapedPath r; path = (if Call_method r = ''CONNECT'' then escaped else cleanPath escaped) in
      case matchOrRedirect routes path of
        (True, _) \<Rightarrow> Inl (Redirect (cleanPath (urlPath r) @ ''/''))
      | (False, n) \<Rightarrow>
          if path \<noteq> escaped then Inl (Redirect path)
          else (case n of None \<Rightarrow> Inl (Status (Reply 404 [])) | Some (_, h) \<Rightarrow> Inr h))"

text \<open>A request whose path has a bad escape is refused before it is routed, and so is the path of \<^verbatim>\<open>OPTIONS *\<close>.\<close>

definition serveHTTP :: "server \<Rightarrow> handler" where
  "serveHTTP srv r st =
     (if Call_escapedPath r = ''*'' \<or> PathUnescape (Call_escapedPath r) = None then (Status (Reply 400 []), st)
      else case findHandler (Handler srv) r of
        Inl rep \<Rightarrow> (rep, st)
      | Inr h \<Rightarrow> h r st)"

end
