(* ===== verification/Http_Properties.thy ===== *)
theory Http_Properties
  imports Http_Server
begin

section \<open>Who may do what over HTTP\<close>

text \<open>
  Every request is a run of the steps of the manager, so that whatever holds in all reachable states holds
  for a manager that serves HTTP; and without the token of the administrator nothing that the administrator
  keeps is changed, and without any credential nothing at all.
\<close>

subsection \<open>Routing\<close>

lemma foldl_choice:
  assumes "\<And>best x. f best x = best \<or> f best x = Some x" and "foldl f best xs = Some y"
  shows "best = Some y \<or> y \<in> set xs"
  using assms(2)
proof (induction xs arbitrary: best)
  case (Cons x xs)
  then have "f best x = Some y \<or> y \<in> set xs" by simp
  then show ?case using assms(1) [of best x] by auto
qed simp

lemma matchPath_in: "matchPath routes path = Some route \<Longrightarrow> route \<in> set routes"
  unfolding matchPath_def Let_def by (drule foldl_choice [rotated]) (auto split: option.splits if_splits)

text \<open>A request is answered by the multiplexer or by a handler of the table.\<close>

lemma serveHTTP_cases:
  assumes "\<And>pat h. (pat, h) \<in> set (Handler srv) \<Longrightarrow> P (h r st)"
    and "\<And>rep. P (Status rep, st)" and "\<And>url. P (Redirect url, st)"
  shows "P (serveHTTP srv r st)"
proof (cases "findHandler (Handler srv) r")
  case (Inl rep)
  then have "(\<exists>x. rep = Status x) \<or> (\<exists>u. rep = Redirect u)"
    by (auto simp: findHandler_def Let_def split: prod.splits bool.splits option.splits if_splits)
  then show ?thesis using Inl assms(2,3) by (auto simp: serveHTTP_def)
next
  case (Inr h)
  then obtain path pat where "matchPath (Handler srv) path = Some (pat, h)"
    by (auto simp: findHandler_def matchOrRedirect_def Let_def split: prod.splits bool.splits option.splits if_splits)
  from assms(1) [OF matchPath_in [OF this]] show ?thesis
    using Inr assms(2) by (simp add: serveHTTP_def)
qed

subsection \<open>Requests as runs\<close>

definition runs :: "Manager \<Rightarrow> response \<times> files \<times> Manager \<Rightarrow> bool" where
  "runs m res \<longleftrightarrow> manager_step\<^sup>*\<^sup>* m (snd (snd res))"

lemma runs_refl [simp]: "runs m (rep, files, m)"
  by (simp add: runs_def)

lemma runs_step: "manager_step m m1 \<Longrightarrow> runs m (rep, files, m1)"
  by (auto simp: runs_def)

lemma runs_combinators [intro]:
  "runs m (h r (files, m)) \<Longrightarrow> runs m (adminOnly h r (files, m))"
  "runs m (h r (files, m)) \<Longrightarrow> runs m (adminBearerOnly h r (files, m))"
  "runs m (h r (files, m)) \<Longrightarrow> runs m (postOnly h r (files, m))"
  "runs m (page body r (files, m))"
  "(\<And>req. runs m (f req (files, m))) \<Longrightarrow> runs m (withBody b f (files, m))"
  "manager_step m (snd (op m)) \<Longrightarrow> runs m (onManager op (files, m))"
  "(\<And>db. tx (Mgr_db m) = Inr db \<Longrightarrow> manager_step m (m\<lparr>Mgr_db := db\<rparr>)) \<Longrightarrow> runs m (onDatabase code ok tx (files, m))"
  by (auto simp: adminOnly_def adminBearerOnly_def postOnly_def page_def withBody_def onManager_def onDatabase_def
      split: sum.split prod.split intro: runs_step)

lemma runs_client:
  assumes "\<And>user m1. runs m1 (h user r (files, m1))"
  shows "runs m (clientOnly srv h r (files, m))"
proof -
  have "runs m (h user r (files, m\<lparr>Mgr_db := db\<rparr>))"
    if "authenticateClient (Srv_sha256hex srv) (bearerToken (Call_http r)) (Srv_now srv) (Mgr_db m) = Inr (user, db)" for user db
    using authenticate [OF that] assms [of "m\<lparr>Mgr_db := db\<rparr>" user] unfolding runs_def by (rule converse_rtranclp_into_rtranclp)
  then show ?thesis by (auto simp: clientOnly_def split: sum.split)
qed

lemma runs_state: "runs m (handleAdminState srv r (files, m))"
  by (auto simp: handleAdminState_def stateResponse_def Let_def intro: runs_step admin_state)

lemma ticket_step: "manager_step m (snd (adminStateWSAuthorized srv r m)) \<or> snd (adminStateWSAuthorized srv r m) = m"
  by (auto simp: adminStateWSAuthorized_def intro: state_connect)

lemma runs_stateWS: "runs m (handleAdminStateWS srv r (files, m))"
proof -
  obtain ok m1 where a: "adminStateWSAuthorized srv r m = (ok, m1)" by fastforce
  with ticket_step [of m srv r] have "manager_step\<^sup>*\<^sup>* m m1" by auto
  moreover have "runs m1 (handleAdminState srv r (files, m1))" by (rule runs_state)
  ultimately show ?thesis
    using a by (auto simp: handleAdminStateWS_def runs_def split: bool.split)
qed

lemma runs_docs: "runs m (adminTicketOrBearer srv handleOpenAPIDocs r (files, m))"
proof -
  have "manager_step m m1" if "consumeAdminStateWSTicket (Srv_sha256hex srv) (Call_query r ''ticket'') (Srv_now srv) m = (ok, m1)" for ok m1
    using state_connect [of m "Srv_sha256hex srv" "Call_query r ''ticket''" "Srv_now srv"] that by simp
  then show ?thesis
    by (auto simp: adminTicketOrBearer_def handleOpenAPIDocs_def page_def split: prod.split bool.split intro: runs_step)
qed

lemma runs_admin:
  "runs m (handleAdminStateWSTicket srv r (files, m))" "runs m (handleAdminNodeArtifactByPath srv r (files, m))"
  "runs m (handleAdminNodes srv r (files, m))" "runs m (handleAdminProfiles srv r (files, m))"
  "runs m (handleAdminPolicies srv r (files, m))" "runs m (settingsRequest srv r (files, m))"
  "runs m (applyPlacement srv r (files, m))" "runs m (unbanRequest srv r (files, m))" "runs m (applyWorkerUpdate srv r (files, m))"
proof -
  have "manager_step m m1" if "issueAdminStateWSTicket (Srv_sha256hex srv) (Srv_newID srv) (Srv_now srv) m = (t, m1)" for t m1
    using state_ticket [of m "Srv_sha256hex srv" "Srv_newID srv" "Srv_now srv"] that by simp
  then show "runs m (handleAdminStateWSTicket srv r (files, m))"
    unfolding handleAdminStateWSTicket_def by (intro runs_combinators(3)) (auto split: prod.split intro: runs_step)
  show "runs m (handleAdminNodeArtifactByPath srv r (files, m))"
    by (auto simp: handleAdminNodeArtifactByPath_def split: option.split intro: node_artifact node_artifact_delete)
  show "runs m (handleAdminNodes srv r (files, m))"
    by (auto simp: handleAdminNodes_def intro: node_update node_delete)
  show "runs m (handleAdminProfiles srv r (files, m))"
    by (auto simp: handleAdminProfiles_def intro: profile_config profile_upsert profile_delete)
  show "runs m (handleAdminPolicies srv r (files, m))"
    by (auto simp: handleAdminPolicies_def intro: policy_upsert)
  show "runs m (settingsRequest srv r (files, m))"
    by (auto simp: settingsRequest_def intro: settings)
  show "runs m (applyPlacement srv r (files, m))" "runs m (unbanRequest srv r (files, m))" "runs m (applyWorkerUpdate srv r (files, m))"
    by (auto simp: applyPlacement_def unbanRequest_def applyWorkerUpdate_def intro: placement_apply unban_request worker_update)
qed

lemma runs_accounts:
  assumes "\<And>p n. Srv_newID srv p n \<noteq> []"
  shows "runs m (handleAdminProfileComputeCost srv r (files, m))" "runs m (handleAdminUsers srv r (files, m))"
    "runs m (handleBalanceAdjustment srv r (files, m))" "runs m (handleAdminAPIKeys srv r (files, m))"
    "runs m (handleAdminAPIKeyLookup srv r (files, m))" "runs m (handleAdminAPIKeyRevoke srv r (files, m))"
proof -
  show "runs m (handleAdminUsers srv r (files, m))"
  proof -
    have "runs m (onDatabase code ok (handleAdminUserCreate (Srv_newID srv) req (Srv_now srv)) (files, m))" for code ok req
      by (rule runs_combinators(7), erule user_create, rule assms)
    then show ?thesis by (auto simp: handleAdminUsers_def intro: user_update)
  qed
  show "runs m (handleAdminProfileComputeCost srv r (files, m))" "runs m (handleBalanceAdjustment srv r (files, m))"
      "runs m (handleAdminAPIKeyRevoke srv r (files, m))"
    by (auto simp: handleAdminProfileComputeCost_def handleBalanceAdjustment_def handleAdminAPIKeyRevoke_def
        intro: profile_cost balance_adjust key_revoke)
  have "runs m (handleAdminAPIKeyIssue srv r (files, m))"
    unfolding handleAdminAPIKeyIssue_def
    by (rule runs_combinators(5)) (auto simp: Let_def split: sum.split intro: runs_step key_issue)
  then show "runs m (handleAdminAPIKeys srv r (files, m))"
    by (auto simp: handleAdminAPIKeys_def)
  show "runs m (handleAdminAPIKeyLookup srv r (files, m))"
    unfolding handleAdminAPIKeyLookup_def by (intro runs_combinators(3,5)) (auto split: sum.split)
qed

lemma runs_artifacts:
  "runs m (handleAdminArtifactUploadRequest srv r (files, m))" "runs m (handleAdminArtifactDelete srv r (files, m))"
  "runs m (handleAdminArtifacts srv r (files, m))" "runs m (serveWorkerArtifact srv r (files, m))"
proof -
  have "manager_step m m1" if "handleAdminArtifactUpload sha bm io nid form t files m = (rep, files1, m1)" for sha bm io nid form t rep files1 m1
    using that artifact_upload [of m sha bm io nid form t files] by simp
  then show "runs m (handleAdminArtifactUploadRequest srv r (files, m))"
    unfolding handleAdminArtifactUploadRequest_def by (intro runs_combinators(3)) (auto split: prod.split intro: runs_step)
  have "manager_step m m1" if "handleAdminArtifactByID cwd nid aid t files m = (rep, files1, m1)" for cwd nid aid t rep files1 m1
    using that artifact_delete [of m cwd nid aid t files] by simp
  then show "runs m (handleAdminArtifactDelete srv r (files, m))"
    by (auto simp: handleAdminArtifactDelete_def split: prod.split intro: runs_step)
  have step: "manager_step m m1" if "handleAdminArtifactCreate sha bm io cwd nid creq t files m = (rep, files1, m1)"
    for sha bm io cwd nid creq t rep files1 m1
    using that artifact_create [of m sha bm io cwd nid creq t files] by simp
  have "runs m (postOnly (\<lambda>r st. case st of (files, m) \<Rightarrow>
      (case handleAdminArtifactCreate (Srv_sha256hex srv) (Srv_buildMeta srv) (Srv_ioErr srv) (Srv_cwd srv) (Srv_newID srv)
         (readConfig (Read_CreateArtifact (Srv_read srv)) r) (Srv_now srv) files m of (rep, st1) \<Rightarrow> (Status rep, st1))) r (files, m))"
    by (rule runs_combinators(3)) (auto split: prod.split intro: runs_step step)
  then show "runs m (handleAdminArtifacts srv r (files, m))"
    by (auto simp: handleAdminArtifacts_def)
  have "manager_step m m1" if "handleWorkerArtifact sha nid wt aid n nt t files m = (rep, m1, c)" for sha nid wt aid n nt t rep m1 c
    using artifact_fetch [of m sha nid wt aid n nt t files] that by simp
  then show "runs m (serveWorkerArtifact srv r (files, m))"
    by (auto simp: serveWorkerArtifact_def split: prod.split option.split intro: runs_step)
qed

lemma runs_clients:
  "runs m (chatRequest srv user r (files, m))" "runs m (jobRequest srv user r (files, m))" "runs m (handleModelsPage r (files, m))"
proof -
  have "manager_step m m1" if "handleChatCompletions nid user body t m = (res, m1)" for nid body t res m1
    using chat_request [of m nid user body t] that by simp
  then show "runs m (chatRequest srv user r (files, m))"
    unfolding chatRequest_def by (intro runs_combinators(3)) (auto split: prod.split sum.split intro: runs_step)
  have "manager_step m m1" if "handleJobs J nid user meth path t m = (rep, task, m1)" for J nid meth path t rep task m1
    using job [of m J nid user meth path t] that by simp
  then show "runs m (jobRequest srv user r (files, m))"
    by (auto simp: jobRequest_def split: prod.split option.split intro: runs_step)
qed (auto simp: handleModelsPage_def)

lemma runs_connect:
  assumes "\<not> mhas (Mgr_workers m) (Srv_newID srv ''ses'' (length (Mgr_workers m)))"
  shows "runs m (connectWorker srv r (files, m))"
proof -
  have "manager_step m m1" if "handleWorkerWS (Srv_newID srv) (Call_http r) (Srv_upgradeOK srv) m = (res, m1)" for res m1
    using connect_worker [where m = m and newID = "Srv_newID srv" and r = "Call_http r" and upgradeOK = "Srv_upgradeOK srv"] assms that by simp
  then show ?thesis by (auto simp: connectWorker_def split: prod.split sum.split intro: runs_step)
qed

lemma runs_pages:
  "runs m (handleHealth r (files, m))" "runs m (handleReady r (files, m))" "runs m (handleDashboard r (files, m))"
  "runs m (handleMetrics srv r (files, m))" "runs m (handleAdminMetrics srv r (files, m))" "runs m (handleAdminSlots r (files, m))"
  "runs m (handleAdminPlacement srv r (files, m))" "runs m (handleAdminPlacementExplain srv r (files, m))"
  "runs m (handleAdminTasks srv r (files, m))" "runs m (handleAdminAttempts r (files, m))" "runs m (handleAdminReports r (files, m))"
  "runs m (handleAdminUpdates r (files, m))" "runs m (handleAdminWorkerJoin r (files, m))" "runs m (handleAdminClientKey r (files, m))"
  "runs m (handleAdminConfigYAML srv r (files, m))" "runs m (handleOpenAPIJSON r (files, m))"
  unfolding handleMetrics_def handleAdminMetrics_def handleAdminSlots_def handleAdminPlacement_def handleAdminPlacementExplain_def
    handleAdminTasks_def handleAdminAttempts_def handleAdminReports_def handleAdminUpdates_def handleAdminWorkerJoin_def
    handleAdminClientKey_def handleAdminConfigYAML_def handleOpenAPIJSON_def
  by (auto simp: handleHealth_def handleReady_def handleDashboard_def)


text \<open>A server for the witnesses, whose decoder of adjustments reads every body as the same request.\<close>

definition sample_server :: server where
  "sample_server = \<lparr>Srv_read = \<lparr>Read_UpdateNode = (\<lambda>_ _. Inl []), Read_CreateProfile = (\<lambda>_ _. Inl []), Read_ProfileConfig = (\<lambda>_ _. Inl []),
       Read_UpsertPolicy = (\<lambda>_ _. Inl []), Read_Unban = (\<lambda>_ _. Inl []), Read_ApplyWorkerUpdate = (\<lambda>_ _. Inl []), Read_Settings = (\<lambda>_ _. Inl []),
       Read_SetProfileComputeCost = (\<lambda>_ _. Inl []), Read_CreateUser = (\<lambda>_ _. Inl []), Read_UpdateUser = (\<lambda>_ _. Inl []),
       Read_AdminBalanceAdjustment = (\<lambda>_ _. Inr \<lparr>Adjust_UserID = defaultClientUserID, Adjust_Amount = 10, Adjust_Reason = []\<rparr>),
       Read_IssueAPIKey = (\<lambda>_ _. Inl []), Read_APIKeyLookup = (\<lambda>_ _. Inl []), Read_RevokeAPIKey = (\<lambda>_ _. Inl []),
       Read_CreateArtifact = (\<lambda>_ _. Inl []), Read_CacheArtifactAction = (\<lambda>_ _. Inl []), Read_Upload = (\<lambda>_. Inl []),
       Read_ChatCompletion = (\<lambda>_. Inl [])\<rparr>,
     Srv_J = sample_codec, Srv_sha256hex = (\<lambda>s. s), Srv_newID = (\<lambda>_ _. ''x''), Srv_newAPIToken = Inl [], Srv_buildMeta = (\<lambda>_ _. Inl ''none''),
     Srv_ioErr = None, Srv_cwd = ''/'', Srv_backend = ''sqlite'', Srv_upgradeOK = True, Srv_now = 2\<rparr>"

definition sample_call :: "string \<Rightarrow> http_call" where
  "sample_call authorization =
     \<lparr>Call_method = ''POST'', Call_escapedPath = ''/api/admin/users/adjust-balance'', Call_contentType = [], Call_query = (\<lambda>_. []),
      Call_header = (\<lambda>_. []), Call_body = ''{}'',
      Call_http = \<lparr>Http_queryToken = [], Http_authorization = authorization, Http_host = [], Http_tls = False, Http_forwardedProto = [],
        Http_remoteHost = []\<rparr>\<rparr>"

lemma sample_http:
  "\<not> mhas (Mgr_workers sample_started) (Srv_newID sample_server ''ses'' (length (Mgr_workers sample_started))) \<and>
   bearerToken (Call_http (sample_call ''Bearer none'')) \<noteq> Cfg_AdminToken (Mgr_cfg sample_started) \<and>
   \<not> workerAuthorized (Mgr_cfg sample_started) (Call_http (sample_call ''Bearer none'')) \<and>
   isl (authenticateClient (Srv_sha256hex sample_server) (bearerToken (Call_http (sample_call ''Bearer none''))) (Srv_now sample_server) (Mgr_db sample_started))"
  by code_simp


subsection \<open>Requests without the token of the administrator\<close>

fun public_response :: "response \<Rightarrow> bool" where
  "public_response (Status rep) \<longleftrightarrow> True"
| "public_response (Redirect url) \<longleftrightarrow> True"
| "public_response (Document name) \<longleftrightarrow> True"
| "public_response (MetricsText ns ss ts rs caps) \<longleftrightarrow> True"
| "public_response rep \<longleftrightarrow> False"

text \<open>The result of a request that leaves the files, the configuration of the workloads and the books alone.\<close>

definition harmless :: "files \<Rightarrow> Manager \<Rightarrow> response \<times> files \<times> Manager \<Rightarrow> bool" where
  "harmless files m res \<longleftrightarrow>
     (case res of (rep, files', m') \<Rightarrow> files' = files \<and> config (Mgr_db m') = config (Mgr_db m) \<and> books (Mgr_db m') = books (Mgr_db m))"

definition anonymous :: "server \<Rightarrow> http_call \<Rightarrow> Manager \<Rightarrow> bool" where
  "anonymous srv r m \<longleftrightarrow> \<not> workerAuthorized (Mgr_cfg m) (Call_http r) \<and>
     isl (authenticateClient (Srv_sha256hex srv) (bearerToken (Call_http r)) (Srv_now srv) (Mgr_db m))"

definition confined :: "server \<Rightarrow> http_call \<Rightarrow> files \<Rightarrow> Manager \<Rightarrow> response \<times> files \<times> Manager \<Rightarrow> bool" where
  "confined srv r files m res \<longleftrightarrow>
     harmless files m res \<and> (anonymous srv r m \<longrightarrow> snd res = (files, m) \<and> public_response (fst res))"

lemma confined_public: "public_response rep \<Longrightarrow> confined srv r files m (rep, files, m)"
  by (simp add: confined_def harmless_def)

lemma confined_guards:
  assumes "bearerToken (Call_http r) \<noteq> Cfg_AdminToken (Mgr_cfg m)"
  shows "confined srv r files m (adminOnly h r (files, m))" "confined srv r files m (adminBearerOnly h r (files, m))"
    "Call_query r ''ticket'' = [] \<Longrightarrow> confined srv r files m (adminTicketOrBearer srv h r (files, m))"
    "Call_query r ''ticket'' = [] \<Longrightarrow> confined srv r files m (handleAdminStateWS srv r (files, m))"
  using assms
  by (simp_all add: adminOnly_def adminBearerOnly_def adminTicketOrBearer_def handleAdminStateWS_def adminStateWSAuthorized_def
      bearerMatches_def consumeAdminStateWSTicket_def confined_public)

lemma confined_pages:
  "confined srv r files m (handleHealth r (files, m))" "confined srv r files m (handleReady r (files, m))"
  "confined srv r files m (handleMetrics srv r (files, m))" "confined srv r files m (handleDashboard r (files, m))"
  by (simp_all add: handleHealth_def handleReady_def handleMetrics_def handleDashboard_def page_def metricsBody_def methodNotAllowed_def
      confined_public)

lemma confined_workers:
  "confined srv r files m (connectWorker srv r (files, m))" "confined srv r files m (serveWorkerArtifact srv r (files, m))"
proof -
  show "confined srv r files m (connectWorker srv r (files, m))"
    by (auto simp: connectWorker_def handleWorkerWS_def confined_def harmless_def anonymous_def Let_def)
  have "config (Mgr_db m1) = config (Mgr_db m) \<and> books (Mgr_db m1) = books (Mgr_db m)"
    if "handleWorkerArtifact sha nid wt aid n nt t files m = (rep, m1, c)" for sha nid wt aid n nt t rep m1 c
    using that by (auto simp: handleWorkerArtifact_def update_db_def Let_def split: if_splits option.splits)
  then show "confined srv r files m (serveWorkerArtifact srv r (files, m))"
    by (auto simp: serveWorkerArtifact_def confined_def harmless_def anonymous_def split: prod.split option.split)
qed

lemma cancelTask_db: "Mgr_db (cancelTask J newID tid reason now m) = markTaskCancelRequested newID tid reason now (Mgr_db m)"
proof -
  have "Mgr_db (foldl f n xs) = Mgr_db n" if "\<And>n x. Mgr_db (f n x) = Mgr_db n" for f :: "Manager \<Rightarrow> Attempt \<Rightarrow> Manager" and n xs
    using that by (induction xs arbitrary: n) auto
  then show ?thesis
    by (simp add: cancelTask_def Let_def cancelAttempt_def update_db_def split: option.split)
qed

lemma harmless_clients:
  "harmless files m (chatRequest srv user r (files, m))" "harmless files m (jobRequest srv user r (files, m))"
  "harmless files m (handleModelsPage r (files, m))"
proof -
  have "config (Mgr_db m1) = config (Mgr_db m) \<and> books (Mgr_db m1) = books (Mgr_db m)"
    if "handleChatCompletions nid user body t m = (res, m1)" for nid body t res m1
    using that
    by (auto simp: handleChatCompletions_def createChatTask_def acquireQueue_def releaseQueue_def Let_def
        dest: books_tasks(5) config_tasks(5) split: sum.splits option.splits prod.splits if_splits manager_error.splits)
  then show "harmless files m (chatRequest srv user r (files, m))"
    by (auto simp: chatRequest_def postOnly_def harmless_def split: prod.split sum.split)
  show "harmless files m (jobRequest srv user r (files, m))"
    by (auto simp: jobRequest_def handleJobs_def harmless_def Let_def cancelTask_db books_tasks config_tasks split: prod.splits option.splits if_splits)
qed (simp add: handleModelsPage_def page_def harmless_def)

lemma confined_client:
  assumes "\<And>user m1. harmless files m1 (h user r (files, m1))"
  shows "confined srv r files m (clientOnly srv h r (files, m))"
proof (cases "authenticateClient (Srv_sha256hex srv) (bearerToken (Call_http r)) (Srv_now srv) (Mgr_db m)")
  case (Inl e)
  then show ?thesis by (simp add: clientOnly_def confined_public)
next
  case (Inr ud)
  obtain user db where ud: "ud = (user, db)" by fastforce
  have "config db = config (Mgr_db m)" "books db = books (Mgr_db m)"
    using Inr books_keys(4) unfolding ud by (auto simp: authenticateClient_def split: if_splits option.splits)
  then show ?thesis
    using assms [of "m\<lparr>Mgr_db := db\<rparr>" user] Inr by (simp add: ud clientOnly_def confined_def harmless_def anonymous_def split: prod.splits)
qed

text \<open>C5: Only the administrator changes what the administrator keeps. A request without the token of the administrator and without a
  ticket, whatever its method, path and body are, leaves the files, the profiles, artifacts, updates and policies, the users
  with their balances, the ledger and the reports unchanged; and one without any credential, neither of a client nor of a
  worker, changes nothing at all and gets only a status, a redirect, a page of the dashboard or the public metrics.\<close>

theorem http_needs_credentials:
  assumes "bearerToken (Call_http r) \<noteq> Cfg_AdminToken (Mgr_cfg m)" and "Call_query r ''ticket'' = []"
    and "serveHTTP srv r (files, m) = (rep, files', m')"
  shows "files' = files \<and> config (Mgr_db m') = config (Mgr_db m) \<and> books (Mgr_db m') = books (Mgr_db m) \<and>
    (anonymous srv r m \<longrightarrow> m' = m \<and> public_response rep)"
proof -
  have "list_all (\<lambda>(pat, h). confined srv r files m (h r (files, m))) (Handler srv)"
    unfolding Handler_def list.pred_inject prod.case
    by (intro conjI list.pred_inject(1) confined_guards assms(1,2) confined_pages confined_workers confined_client harmless_clients)
  then have "confined srv r files m (h r (files, m))" if "(pat, h) \<in> set (Handler srv)" for pat h
    using that by (auto simp: list_all_iff)
  then have "confined srv r files m (serveHTTP srv r (files, m))"
    by (rule serveHTTP_cases) (simp_all add: confined_public)
  then show ?thesis by (simp add: assms(3) confined_def harmless_def)
qed

theorem http_needs_credentials_witness:
  "snd (serveHTTP sample_server (sample_call ''Bearer none'') ([], sample_started)) = ([], sample_started) \<and>
   public_response (fst (serveHTTP sample_server (sample_call ''Bearer none'') ([], sample_started)))"
proof -
  obtain rep files' m' where served: "serveHTTP sample_server (sample_call ''Bearer none'') ([], sample_started) = (rep, files', m')"
    by (metis prod_cases3)
  have "bearerToken (Call_http (sample_call ''Bearer none'')) \<noteq> Cfg_AdminToken (Mgr_cfg sample_started)"
    and "anonymous sample_server (sample_call ''Bearer none'') sample_started"
    using sample_http by (simp_all add: anonymous_def)
  moreover have "Call_query (sample_call ''Bearer none'') ''ticket'' = []" by (simp add: sample_call_def)
  ultimately have "files' = [] \<and> m' = sample_started \<and> public_response rep"
    using http_needs_credentials [OF _ _ served] by blast
  then show ?thesis using served by simp
qed

end
