(* ===== verification/Spec2Isabelle.thy ===== *)
theory Spec2Isabelle
  imports Plan_Explain Dispatch_Properties Manager_Steps Worker_Properties Admin_View_Properties Http_Properties
begin

text \<open>
  COMRAD consists of a \<^emph>\<open>manager\<close> and of \<^emph>\<open>workers\<close> (\<^verbatim>\<open>src/internal/comrad\<close>). The manager keeps a database of
  nodes, slots, artifacts, workload profiles, placement policies, tasks, attempts, users and a ledger. It plans which
  profile each slot of a node keeps warm or cached, answers chat requests of clients by running them as attempts on ready
  slots, and bills what was computed. A worker holds a web socket to the manager, downloads and verifies artifacts, runs
  one inference process per slot, streams tokens back and reports the cost. This development translates the Go code of
  both into executable definitions and proves what makes them correct. This root theory holds the theorems that span
  the manager; all others are in the theory of their component, each after a paragraph with the number of its claim.

  \<^bold>\<open>The foundations.\<close> \<^verbatim>\<open>Prelude\<close> has Go's data as HOL data: a map is an association list without order
  (\<open>mget\<close>, \<open>mput\<close>, \<open>mdel\<close>, \<open>mmap\<close>), a pointer an option, a string a list of bytes, \<^verbatim>\<open>sort.Slice\<close> a stable insertion
  sort over the source's comparator, an \<^verbatim>\<open>int64\<close> sum an integer with \<open>wrap64\<close>; its locales \<open>weak_order\<close> and
  \<open>key_order\<close> are the contract of a comparator, which the sorting code interprets. \<^verbatim>\<open>Floats\<close> has the rounding of
  \<^verbatim>\<open>float64\<close> on bit patterns, \<^verbatim>\<open>Paths\<close> the path functions, \<^verbatim>\<open>Types\<close> and \<^verbatim>\<open>Protocol\<close> the records of
  \<^verbatim>\<open>types.go\<close>, \<^verbatim>\<open>api.go\<close> and \<^verbatim>\<open>protocol.go\<close> under the names of their fields, \<^verbatim>\<open>Samples\<close> the records of the witnesses,
  and \<^verbatim>\<open>Transitions\<close> the locales of invariants and simulations of step relations.

  \<^bold>\<open>The store.\<close> \<^verbatim>\<open>Store\<close> models \<^verbatim>\<open>store.go\<close>: opening, migration, transactions that change the database in
  place and save it, snapshots. \<^verbatim>\<open>Backends\<close> states the interface \<^verbatim>\<open>storeBackend\<close> as a locale and interprets it on the
  JSON file and on the SQL table, so that whatever fails during a save, a restart finds what was last saved.

  \<^bold>\<open>Placement.\<close> \<^verbatim>\<open>Profiles\<close> and \<^verbatim>\<open>Fit\<close> resolve a model name and decide whether a profile fits a slot;
  \<^verbatim>\<open>Quarantine\<close> and \<^verbatim>\<open>Capacity\<close> compute bans and the effective numbers of copies; \<^verbatim>\<open>Planner\<close> and \<^verbatim>\<open>Plan\<close> are the whole
  run of \<^verbatim>\<open>placement_plan.go\<close> with pins, warm and cache requests, preserved copies, draining and explanations. The loops
  that place copies until a target is met are functions with a measure, and the locale \<open>fill_loop\<close> carries what they
  share. \<^verbatim>\<open>Plan_Invariants\<close>, \<^verbatim>\<open>Plan_Ledger\<close> (locale \<open>budget_guard\<close>), \<^verbatim>\<open>Plan_Properties\<close>, \<^verbatim>\<open>Plan_Theorems\<close> and
  \<^verbatim>\<open>Plan_Explain\<close> show that a plan stays within the budgets, meets the targets or says what is missing, books no slot twice,
  drains exactly the surplus, and that an explanation shows the plan that is made.

  \<^bold>\<open>Work and money.\<close> \<^verbatim>\<open>Lifecycle\<close> has the transactions of tasks and attempts (reservation, failure, retry,
  disconnection), \<^verbatim>\<open>Accounting\<close> the ledger, the charges, users and keys. \<^verbatim>\<open>Lifecycle_Properties\<close> shows that a slot is
  reserved for one task at a time and that after a lost worker nothing runs on it; \<^verbatim>\<open>Accounting\<close> that a report moves
  exactly its cost, once, and that the open work of a client never exceeds its balance.

  \<^bold>\<open>The running manager.\<close> \<^verbatim>\<open>Manager_State\<close> is the record of a manager: configuration, database, sessions,
  worker connections, streams, queue, tickets. \<^verbatim>\<open>Dispatch\<close>, \<^verbatim>\<open>Eviction\<close>, \<^verbatim>\<open>Worker_State\<close>, \<^verbatim>\<open>Messages\<close>,
  \<^verbatim>\<open>Connections\<close>, \<^verbatim>\<open>Startup\<close>, \<^verbatim>\<open>Chat\<close>, \<^verbatim>\<open>Admin\<close> and \<^verbatim>\<open>Artifacts\<close> are its operations: planning and scheduling, cache eviction,
  registration, every message of a worker, connections, start, chat requests, administration and artifact files. The theories
  \<^verbatim>\<open>..._Properties\<close> beside them hold their theorems. \<^verbatim>\<open>Invariants\<close> states the invariant of the tables;
  \<^verbatim>\<open>Manager_Invariants\<close> has the locales \<open>db_maintenance\<close>, \<open>db_property\<close> and \<open>db_invariant\<close>, whose laws are about
  transactions and whose lemmas are about operations, and interprets them for the invariant and for what is left alone;
  \<^verbatim>\<open>Bank\<close> interprets them for an abstract bank. \<^verbatim>\<open>Manager_Steps\<close> is the step relation \<open>manager_step\<close>, one rule per
  thing that can happen to a manager, in any order, a restart included; every step keeps the invariant and is a
  run of the bank. The four theorems below follow.

  \<^bold>\<open>What the administrator sees, and HTTP.\<close> \<^verbatim>\<open>Task_Pages\<close>, \<^verbatim>\<open>Admin_State\<close> and \<^verbatim>\<open>Admin_View\<close> model the pages of the
  task list, cache plans, conditions, the state that is sent to dashboards and how it is broadcast, counters, the
  configuration document and the join command; \<^verbatim>\<open>Admin_View_Properties\<close> shows that they tell what the database
  holds. \<^verbatim>\<open>Http_Server\<close> has every route of \<^verbatim>\<open>Handler\<close> with its guard and handler over a model of the multiplexer of
  \<^verbatim>\<open>net/http\<close>; \<^verbatim>\<open>Http_Properties\<close> shows that every request is a run of \<open>manager_step\<close> and what needs which credential.

  \<^bold>\<open>The worker.\<close> \<^verbatim>\<open>Worker_Core\<close>, \<^verbatim>\<open>Worker_P2P\<close>, \<^verbatim>\<open>Worker_Cache\<close>, \<^verbatim>\<open>Worker_Runtime\<close>, \<^verbatim>\<open>Worker_Tasks\<close> and
  \<^verbatim>\<open>Worker_Handlers\<close> are its state and its operations; \<^verbatim>\<open>Worker_Steps\<close> is its step relation. A goroutine is an entry of a
  list in the state, and a step runs one entry; a task is two steps, its admission and its execution, between which others
  run. \<^verbatim>\<open>Worker_Frame\<close> says what each operation leaves alone. \<^verbatim>\<open>Worker_Cache_Properties\<close> and \<^verbatim>\<open>Worker_Properties\<close> show that only
  verified artifacts are cached, evictions are complete, downloads are bounded, a restart restores the state, a message that is
  delivered again has no second effect, a task is reported once, a serving slot is freed, and a crash loop ends.

  \<^bold>\<open>Errors, time and the environment.\<close> An error is a value: \<^typ>\<open>manager_error\<close> on the manager, a text on the worker; a panic is
  \<open>None\<close>. Times are nanoseconds with \<open>0\<close> for the zero time, and every operation gets the time it reads. Random ids
  (\<open>newID\<close>), the hash (\<open>sha256hex\<close>), JSON (\<open>json_codec\<close>, \<open>worker_codec\<close>, \<open>body_codec\<close>), the torrent library and client, the
  inference process, the file system's errors and the network are arguments. A theorem that needs a law of them has it as a
  hypothesis, such as that a decoder inverts its encoder, and a witness where a concrete function satisfies it. A loop
  that waits is a function of one round, its phases a datatype, and what arrives in a round is an argument; the
  choices of \<^verbatim>\<open>select\<close>, of map iteration and of what arrives first are universally quantified.

  \<^bold>\<open>Granularity.\<close> An operation of the manager between two points where it waits is one step. The code takes its lock
  per transaction and per session, so two requests can interleave inside such a step, between a check on a snapshot and
  the transaction that acts on it. The transactions check again what they rely on, and the theorems about reservation,
  billing and balances are about single transactions; interleavings inside a step are not modelled beyond that. On the
  worker, overlapping starts of the runtime of one slot are not modelled.

  \<^bold>\<open>Fuel and bounds.\<close> No definition needs fuel: loops are structural or have a measure. Sums of \<^verbatim>\<open>int64\<close> values
  wrap; lengths and counters that stay below the size of memory are natural or unbounded numbers. The conformance of a slice
  index to its bounds is part of the definitions that read out of range in Go.

  \<^bold>\<open>Not modelled.\<close> The OpenAPI document, the files and the locale of the dashboard (constants for the program), the text
  of Prometheus metrics, YAML and JSON, SQL drivers, sockets and listeners, signals of processes, the copying of slices
  in \<^verbatim>\<open>store_clone.go\<close> (values do not share), flags and environment variables of \<^verbatim>\<open>src/cmd\<close>, and the scripts, the web client and
  the tests of the repository.
\<close>

section \<open>The manager as a whole\<close>

subsection \<open>Every reachable state\<close>



text \<open>C2: the books balance in every reachable state: each balance is the sum of the user's
  entries in the ledger, as an \<^verbatim>\<open>int64\<close>, every entry belongs to an account, and a report has
  at most one entry of each kind: no report is charged or credited twice.\<close>

theorem reachable_books:
  assumes "manager_init m0" and "manager_step\<^sup>*\<^sup>* m0 m"
  shows "(\<forall>uid u. map_of (Users (Mgr_db m)) uid = Some u \<longrightarrow>
      User_ComputeBalance u = wrap64 (user_total (ComputeLedger (Mgr_db m)) uid)) \<and>
    (\<forall>e \<in> set (ComputeLedger (Mgr_db m)). mhas (Users (Mgr_db m)) (Ledger_UserID e)) \<and>
    distinct (map (\<lambda>e. (Ledger_Type e, Ledger_ReportID e)) (filter (\<lambda>e. Ledger_ReportID e \<noteq> []) (ComputeLedger (Mgr_db m)))) \<and>
    (\<forall>e \<in> set (ComputeLedger (Mgr_db m)). Ledger_ReportID e \<noteq> [] \<longrightarrow> mhas (Reports (Mgr_db m)) (Ledger_ReportID e))"
proof -
  have "db_ok (Mgr_db m)"
    using mgr.reachable_inv [OF assms] by (simp add: manager_ok_def)
  then show ?thesis
    using db_ok_tables(6,7) [of "Mgr_db m"] by (auto simp: books_ok_def ledger_ok_def report_entries_def list_all_iff)
qed

theorem reachable_books_witness:
  "map_option User_ComputeBalance (map_of (Users (projr sample_adjusted)) defaultClientUserID) =
     Some (wrap64 (user_total (ComputeLedger (projr sample_adjusted)) defaultClientUserID))"
proof -
  obtain u where "map_of (Users (projr sample_adjusted)) defaultClientUserID = Some u"
    using sample_account by (auto simp: mhas_def)
  then show ?thesis
    using reachable_books [OF sample_run(1) r_into_rtranclp [of manager_step, OF sample_run(2)]] by simp
qed

text \<open>C4: the session that serves a node is unique and belongs to it, in every reachable state: a
  message for a node goes to a session that was registered as this node, and no session
  serves two nodes.\<close>

theorem reachable_sessions:
  assumes "manager_init m0" and "manager_step\<^sup>*\<^sup>* m0 m"
  shows "(\<forall>nid. mhas (Mgr_sessions m) nid \<longrightarrow> (\<exists>s. sessionFor m nid = Some s \<and> Session_nodeID s = nid \<and> nid \<noteq> [] \<and>
      map_of (Mgr_workers m) (Session_id s) = Some s)) \<and>
    (\<forall>nid nid' s s'. sessionFor m nid = Some s \<and> sessionFor m nid' = Some s' \<and> Session_id s = Session_id s' \<longrightarrow> nid = nid')"
proof -
  have ok: "sessions_ok m"
    using mgr.reachable_inv [OF assms] by (simp add: manager_ok_def)
  have "\<exists>s. sessionFor m nid = Some s \<and> Session_nodeID s = nid \<and> nid \<noteq> [] \<and> map_of (Mgr_workers m) (Session_id s) = Some s"
    if served: "mhas (Mgr_sessions m) nid" for nid
  proof -
    obtain s where "sessionFor m nid = Some s"
      using ok served by (fastforce simp: sessions_ok_def sessionFor_def mhas_def)
    then show ?thesis using sessions_okD [OF ok] by blast
  qed
  moreover have "nid = nid'" if "sessionFor m nid = Some s" "sessionFor m nid' = Some s'" "Session_id s = Session_id s'" for nid nid' s s'
    using sessions_okD(1,2) [OF ok that(1)] sessions_okD(1,2) [OF ok that(2)] that(3) by (metis option.inject)
  ultimately show ?thesis by blast
qed

theorem reachable_sessions_witness:
  "map_option Session_nodeID (sessionFor sample_registered ''n1'') = Some ''n1''"
  using reachable_sessions [OF sample_run(1) sample_registration(1)] sample_registration(2) by fastforce

subsection \<open>The accounts refine the bank\<close>



end
